(* ===== verification/Prelude.thy ===== *)
theory Prelude
  imports Complex_Main "HOL-Library.AList" "HOL-Library.Monad_Syntax" "HOL-Library.Char_ord"
    "HOL-Library.List_Lexorder" "HOL-Library.Sublist"
begin

text \<open>
  Shared vocabulary of the development: how the Python values of the program are
  represented, the few pieces of the Python language that several components use
  (dictionaries with insertion order, slices, the text of integers and floats), and the
  generic lemmas about lists and dictionaries that the component proofs rest on.

  \<^item> \<open>str\<close> is \<^typ>\<open>string\<close> for identifiers and enum values (ASCII), and a list of code points
    (\<open>ptext\<close>) where the program slices or counts code points of external text.
  \<^item> \<open>datetime\<close> values are UTC instants, an \<^typ>\<open>int\<close> number of microseconds, the resolution of
    Python's type; every datetime of the program is timezone aware and normalised to UTC.
  \<^item> a \<open>dict\<close> is an association list in insertion order, read with \<^const>\<open>map_of\<close> and written
    with \<^const>\<open>AList.update\<close>, which keeps the position of a present key and appends a new one.
  \<^item> a computation that may raise is a sum, \<open>Inl\<close> the exception, or an option where the only
    exception is a trap of decimal arithmetic.
\<close>

section \<open>Collections of rewrite rules\<close>

named_theorems valid_defs "unfolding rules of the model validators"
named_theorems check_defs "unfolding rules of the contract checks"
named_theorems rounding_facts "facts about rounded arithmetic"

section \<open>Python values\<close>

type_synonym ptext = "nat list"
type_synonym timestamp = int
type_synonym date = "int \<times> int \<times> int"
type_synonym pyfloat = rat
type_synonym ('k, 'v) dict = "('k \<times> 'v) list"

datatype pyerr =
    ValueError string
  | RuntimeError string
  | TypeError string
  | ValidationError string
  | KeyError string
  | AssertionError
  | DecimalError

type_synonym 'a result = "pyerr + 'a"

text \<open>
  The operands of \<open>violation(..., expected, observed, ...)\<close> are arbitrary Python objects whose
  \<open>str\<close> is stored. The model stores the object.
\<close>

datatype pyval =
    PNone
  | PBool bool
  | PInt int
  | PFloat pyfloat
  | PDec rat
  | PTime timestamp
  | PStr string
  | PText ptext
  | PTuple "pyval list"
  | PList "pyval list"
  | PSet "pyval list"
  | PDict "(string \<times> pyval) list"

text \<open>A decoded JSON document.\<close>

datatype json =
    JNull
  | JBool bool
  | JInt int
  | JFloat pyfloat
  | JStr string
  | JArr "json list"
  | JObj "(string \<times> json) list"

text \<open>\<open>d.get(key)\<close> on a decoded object.\<close>

fun json_get :: "json \<Rightarrow> string \<Rightarrow> json option" where
  "json_get (JObj kvs) k = map_of kvs k"
| "json_get _ k = None"

text \<open>The position of an element, as \<open>list.index\<close>; \<open>None\<close> is its \<open>ValueError\<close>.\<close>

fun index_of :: "'a list \<Rightarrow> 'a \<Rightarrow> nat option" where
  "index_of [] y = None"
| "index_of (x # xs) y = (if x = y then Some 0 else map_option Suc (index_of xs y))"

definition of_opt :: "('a \<Rightarrow> pyval) \<Rightarrow> 'a option \<Rightarrow> pyval" where
  "of_opt f x = (case x of None \<Rightarrow> PNone | Some y \<Rightarrow> f y)"

section \<open>Sequencing of computations that may raise\<close>

definition rbind :: "'a result \<Rightarrow> ('a \<Rightarrow> 'b result) \<Rightarrow> 'b result" where
  "rbind m f = (case m of Inl e \<Rightarrow> Inl e | Inr x \<Rightarrow> f x)"

lemma rbind_simps [simp]:
  "rbind (Inl e) f = Inl e"
  "rbind (Inr x) f = f x"
  by (simp_all add: rbind_def)

lemma rbind_Inr_iff: "rbind m f = Inr y \<longleftrightarrow> (\<exists>x. m = Inr x \<and> f x = Inr y)"
  by (cases m) auto

lemma bind_eq_Some: "Option.bind m f = Some y \<longleftrightarrow> (\<exists>x. m = Some x \<and> f x = Some y)"
  by (cases m) auto

text \<open>Evaluation of a chain of binds from the first step on, as a congruence rule for \<open>simp\<close>.\<close>

lemma bind_weak_cong: "m = m' \<Longrightarrow> Option.bind m f = Option.bind m' f"
  by simp

section \<open>Dictionaries\<close>

definition setdefault :: "'k \<Rightarrow> 'v \<Rightarrow> ('k, 'v) dict \<Rightarrow> ('k, 'v) dict" where
  "setdefault k v d = (if map_of d k = None then AList.update k v d else d)"

definition dict_values :: "('k, 'v) dict \<Rightarrow> 'v list" where
  "dict_values d = map snd d"

lemma map_of_setdefault [simp]:
  "map_of (setdefault k v d) = (map_of d)(k := Some (case map_of d k of None \<Rightarrow> v | Some w \<Rightarrow> w))"
  by (auto simp: setdefault_def update_conv' fun_eq_iff)

lemma setdefault_present: "map_of d k = Some w \<Longrightarrow> setdefault k v d = d"
  by (simp add: setdefault_def)

lemma distinct_keys_setdefault:
  "distinct (map fst d) \<Longrightarrow> distinct (map fst (setdefault k v d))"
  by (simp add: setdefault_def distinct_update)

lemma map_of_in_values: "map_of d k = Some v \<Longrightarrow> v \<in> set (dict_values d)"
  by (force simp: dict_values_def dest: map_of_SomeD)

lemma values_in_map_of:
  "distinct (map fst d) \<Longrightarrow> v \<in> set (dict_values d) \<Longrightarrow> \<exists>k. map_of d k = Some v"
  by (auto simp: dict_values_def)

section \<open>Slices and substrings\<close>

text \<open>\<open>s[i:j]\<close>: negative indices count from the end, and both ends are clamped.\<close>

definition slice_index :: "nat \<Rightarrow> int \<Rightarrow> nat" where
  "slice_index n i = nat (max 0 (min (int n) (if i < 0 then i + int n else i)))"

definition py_slice :: "'a list \<Rightarrow> int \<Rightarrow> int \<Rightarrow> 'a list" where
  "py_slice xs i j =
     (let a = slice_index (length xs) i; b = slice_index (length xs) j in take (b - a) (drop a xs))"

lemma py_slice_sublist: "sublist (py_slice xs i j) xs"
proof -
  have "sublist (take n (drop m xs)) xs" for n m
    by (meson sublist_drop sublist_order.order_trans sublist_take)
  then show ?thesis by (simp add: py_slice_def Let_def)
qed

lemma py_slice_in_bounds:
  "0 \<le> i \<Longrightarrow> i \<le> j \<Longrightarrow> j \<le> int (length xs) \<Longrightarrow>
   py_slice xs i j = take (nat (j - i)) (drop (nat i) xs)"
  by (simp add: py_slice_def slice_index_def Let_def nat_diff_distrib)

lemma length_py_slice:
  "0 \<le> i \<Longrightarrow> i \<le> j \<Longrightarrow> j \<le> int (length xs) \<Longrightarrow> length (py_slice xs i j) = nat (j - i)"
  by (simp add: py_slice_in_bounds)

section \<open>Texts of numbers\<close>

fun show_nat :: "nat \<Rightarrow> string" where
  "show_nat n =
     (if n < 10 then [char_of (48 + n)] else show_nat (n div 10) @ [char_of (48 + n mod 10)])"

declare show_nat.simps [simp del]

definition show_int :: "int \<Rightarrow> string" where
  "show_int i = (if i < 0 then ''-'' @ show_nat (nat (- i)) else show_nat (nat i))"

definition show_bool :: "bool \<Rightarrow> string" where
  "show_bool b = (if b then ''true'' else ''false'')"

lemma show_nat_nonempty [simp]: "show_nat n \<noteq> []"
  by (subst show_nat.simps) simp

text \<open>
  A Python float of the program is read from JSON and compared; it is represented by the
  decimal number that \<open>repr\<close> prints for it. \<open>repr\<close> is strictly monotone, so every
  comparison has the value it has on the binary numbers, and \<open>Decimal(str(x))\<close> is exactly
  that number. \<open>show_float\<close> is \<open>repr\<close>: the shortest digits, positional for decimal exponents
  from -4 to 15 and scientific otherwise.
\<close>

fun frac_digits :: "nat \<Rightarrow> pyfloat \<Rightarrow> nat" where
  "frac_digits 0 x = 0"
| "frac_digits (Suc fuel) x =
     (if x = of_int \<lfloor>x\<rfloor> then 0 else Suc (frac_digits fuel (10 * x)))"

definition strip_zeros :: "string \<Rightarrow> string" where
  "strip_zeros ds = rev (dropWhile (\<lambda>c. c = CHR ''0'') (rev ds))"

definition show_exponent :: "int \<Rightarrow> string" where
  "show_exponent e =
     (let ds = show_nat (nat \<bar>e\<bar>) in
      (if e < 0 then ''e-'' else ''e+'') @ (if length ds < 2 then ''0'' @ ds else ds))"

definition show_float :: "pyfloat \<Rightarrow> string" where
  "show_float x =
     (if x = 0 then ''0.0'' else
      let a = \<bar>x\<bar>; k = frac_digits 1100 a; ds = show_nat (nat \<lfloor>a * 10 ^ k\<rfloor>);
          point = int (length ds) - int k; sig = strip_zeros ds;
          body =
            (if -4 < point \<and> point \<le> 16 then
               (if point \<le> 0 then ''0.'' @ replicate (nat (- point)) (CHR ''0'') @ sig
                else if nat point < length sig then take (nat point) sig @ ''.'' @ drop (nat point) sig
                else sig @ replicate (nat point - length sig) (CHR ''0'') @ ''.0'')
             else take 1 sig @ (if length sig > 1 then ''.'' @ drop 1 sig else []) @
               show_exponent (point - 1))
      in (if x < 0 then ''-'' else []) @ body)"

text \<open>\<open>sep.join(parts)\<close>.\<close>

fun join :: "string \<Rightarrow> string list \<Rightarrow> string" where
  "join sep [] = []"
| "join sep [x] = x"
| "join sep (x # y # ys) = x @ sep @ join sep (y # ys)"

section \<open>Generic facts about lists\<close>

lemma concat_map_Nil_iff: "concat (map f xs) = [] \<longleftrightarrow> (\<forall>x \<in> set xs. f x = [])"
  by auto

lemma filter_Nil_iff: "filter P xs = [] \<longleftrightarrow> (\<forall>x \<in> set xs. \<not> P x)"
  by (auto simp: filter_empty_conv)

lemma filter_partition_length:
  "length (filter P xs) + length (filter (\<lambda>x. \<not> P x) xs) = length xs"
  by (rule sum_length_filter_compl)

lemma Min_list_le: "x \<in> set xs \<Longrightarrow> Min (set xs) \<le> (x :: 'a :: linorder)"
  by simp

end
