(* ===== verification/Contract_Models.thy ===== *)
theory Contract_Models
  imports Prelude
begin

text \<open>
  The data contract of the evaluator: \<open>daybreak_contracts/enums.py\<close>, \<open>types.py\<close>,
  \<open>input_models.py\<close> and \<open>output_models.py\<close>. An enum is a datatype with the source's members
  (prefixed, since several enums share a member name), a model is a record with the
  source's fields in their order, and the field constraints together with the
  \<open>model_validator\<close> of a model are its \<open>valid_\<close> predicate. Parsing JSON into a record is
  the work of pydantic and a parameter of the runner. Timestamps of the contract are
  opaque strings here: they are echoed and compared, never computed with.
\<close>

section \<open>daybreak\_contracts/enums.py\<close>

datatype market_status = MS_NORMAL | MS_LIMIT_UP_DOWN_ACTIVE | MS_CIRCUIT_BREAKER_HALT

datatype source_type = ST_PRIMARY | ST_SECONDARY | ST_UNCONFIRMED

datatype volume_profile = VP_CLEAN | VP_SPIKY

datatype borrow_status = BS_EASY | BS_HARD_TO_BORROW | BS_UNKNOWN

datatype chart_structure = CS_BLUE_SKY | CS_CLEAN_SHORT_TERM | CS_MODERATE_ROOM | CS_CAPPED

datatype disqualifier_flag =
    DF_PAID_PROMOTION
  | DF_REVERSE_SPLIT_ONLY
  | DF_UNCONFIRMED_RUMOR
  | DF_NON_OPERATING_PROMOTION
  | DF_OTHER

datatype run_status =
    RS_APPROVED
  | RS_NO_SETUPS
  | RS_BLOCKED_MARKET
  | RS_STALE_PAYLOAD
  | RS_SCHEMA_FAILURE

datatype magnitude_bucket =
    MB_MAJOR_CONCRETE
  | MB_MATERIAL_PARTIALLY_QUANTIFIED
  | MB_CREDIBLE_UNQUANTIFIED
  | MB_WEAK_OR_PRELIMINARY
  | MB_NO_VALID_DRIVER

datatype evidence_purpose = EP_MAGNITUDE | EP_DISQUALIFIER | EP_NONE

datatype catalyst_zero_reason =
    ZR_DISQUALIFIER_FLAG
  | ZR_UNCONFIRMED_SOURCE
  | ZR_STALE_CATALYST
  | ZR_NO_VALID_DRIVER

datatype technical_grade = TG_A_PLUS | TG_A | TG_B | TG_C

datatype risk_flag =
    RF_PARABOLIC
  | RF_HARD_TO_BORROW
  | RF_UNKNOWN_BORROW
  | RF_LOW_FLOAT
  | RF_SPIKY_VOLUME
  | RF_SECONDARY_SOURCE

datatype reason_code =
    RC_HALTED
  | RC_CATALYST_SCORE_TOO_LOW
  | RC_UNCORROBORATED_CATALYST
  | RC_GAP_TOO_SMALL
  | RC_PREMARKET_VOLUME_TOO_LOW
  | RC_RVOL_TOO_LOW
  | RC_RESISTANCE_TOO_CLOSE
  | RC_CAPPED_CHART

datatype blocker_code = BC_MARKET_NOT_NORMAL | BC_PAYLOAD_STALE

datatype schema_failure_scope = SFS_PAYLOAD | SFS_TICKER

text \<open>The \<open>value\<close> of the members whose text the program prints.\<close>

fun market_status_value :: "market_status \<Rightarrow> string" where
  "market_status_value MS_NORMAL = ''normal''"
| "market_status_value MS_LIMIT_UP_DOWN_ACTIVE = ''limit_up_down_active''"
| "market_status_value MS_CIRCUIT_BREAKER_HALT = ''circuit_breaker_halt''"

fun chart_structure_value :: "chart_structure \<Rightarrow> string" where
  "chart_structure_value CS_BLUE_SKY = ''blue_sky''"
| "chart_structure_value CS_CLEAN_SHORT_TERM = ''clean_short_term''"
| "chart_structure_value CS_MODERATE_ROOM = ''moderate_room''"
| "chart_structure_value CS_CAPPED = ''capped''"

fun disqualifier_flag_value :: "disqualifier_flag \<Rightarrow> string" where
  "disqualifier_flag_value DF_PAID_PROMOTION = ''paid_promotion''"
| "disqualifier_flag_value DF_REVERSE_SPLIT_ONLY = ''reverse_split_only''"
| "disqualifier_flag_value DF_UNCONFIRMED_RUMOR = ''unconfirmed_rumor''"
| "disqualifier_flag_value DF_NON_OPERATING_PROMOTION = ''non_operating_promotion''"
| "disqualifier_flag_value DF_OTHER = ''other_disqualifying_catalyst''"

fun run_status_value :: "run_status \<Rightarrow> string" where
  "run_status_value RS_APPROVED = ''approved''"
| "run_status_value RS_NO_SETUPS = ''no_setups''"
| "run_status_value RS_BLOCKED_MARKET = ''blocked_market''"
| "run_status_value RS_STALE_PAYLOAD = ''stale_payload''"
| "run_status_value RS_SCHEMA_FAILURE = ''schema_failure''"

fun magnitude_bucket_value :: "magnitude_bucket \<Rightarrow> string" where
  "magnitude_bucket_value MB_MAJOR_CONCRETE = ''major_concrete''"
| "magnitude_bucket_value MB_MATERIAL_PARTIALLY_QUANTIFIED = ''material_partially_quantified''"
| "magnitude_bucket_value MB_CREDIBLE_UNQUANTIFIED = ''credible_unquantified''"
| "magnitude_bucket_value MB_WEAK_OR_PRELIMINARY = ''weak_or_preliminary''"
| "magnitude_bucket_value MB_NO_VALID_DRIVER = ''no_valid_driver''"

fun evidence_purpose_value :: "evidence_purpose \<Rightarrow> string" where
  "evidence_purpose_value EP_MAGNITUDE = ''magnitude''"
| "evidence_purpose_value EP_DISQUALIFIER = ''disqualifier''"
| "evidence_purpose_value EP_NONE = ''none''"

fun zero_reason_value :: "catalyst_zero_reason \<Rightarrow> string" where
  "zero_reason_value ZR_DISQUALIFIER_FLAG = ''disqualifier_flag''"
| "zero_reason_value ZR_UNCONFIRMED_SOURCE = ''unconfirmed_source''"
| "zero_reason_value ZR_STALE_CATALYST = ''stale_catalyst''"
| "zero_reason_value ZR_NO_VALID_DRIVER = ''no_valid_driver''"

fun technical_grade_value :: "technical_grade \<Rightarrow> string" where
  "technical_grade_value TG_A_PLUS = ''A+''"
| "technical_grade_value TG_A = ''A''"
| "technical_grade_value TG_B = ''B''"
| "technical_grade_value TG_C = ''C''"

fun risk_flag_value :: "risk_flag \<Rightarrow> string" where
  "risk_flag_value RF_PARABOLIC = ''parabolic_vwap_extension''"
| "risk_flag_value RF_HARD_TO_BORROW = ''hard_to_borrow''"
| "risk_flag_value RF_UNKNOWN_BORROW = ''unknown_borrow''"
| "risk_flag_value RF_LOW_FLOAT = ''low_float''"
| "risk_flag_value RF_SPIKY_VOLUME = ''spiky_volume''"
| "risk_flag_value RF_SECONDARY_SOURCE = ''secondary_source''"

fun reason_code_value :: "reason_code \<Rightarrow> string" where
  "reason_code_value RC_HALTED = ''HALTED''"
| "reason_code_value RC_CATALYST_SCORE_TOO_LOW = ''CATALYST_SCORE_TOO_LOW''"
| "reason_code_value RC_UNCORROBORATED_CATALYST = ''UNCORROBORATED_CATALYST''"
| "reason_code_value RC_GAP_TOO_SMALL = ''GAP_TOO_SMALL''"
| "reason_code_value RC_PREMARKET_VOLUME_TOO_LOW = ''PREMARKET_VOLUME_TOO_LOW''"
| "reason_code_value RC_RVOL_TOO_LOW = ''RVOL_TOO_LOW''"
| "reason_code_value RC_RESISTANCE_TOO_CLOSE = ''RESISTANCE_TOO_CLOSE''"
| "reason_code_value RC_CAPPED_CHART = ''CAPPED_CHART''"

section \<open>daybreak\_contracts/types.py\<close>

definition ticker_alnum :: "char \<Rightarrow> bool" where
  "ticker_alnum c \<longleftrightarrow>
     (CHR ''A'' \<le> c \<and> c \<le> CHR ''Z'') \<or> (CHR ''0'' \<le> c \<and> c \<le> CHR ''9'')"

definition ticker_char :: "char \<Rightarrow> bool" where
  "ticker_char c \<longleftrightarrow> ticker_alnum c \<or> c = CHR ''.'' \<or> c = CHR ''-''"

text \<open>\<open>^[A-Z0-9](?:[A-Z0-9.-]{0,13}[A-Z0-9])?$\<close>, matched as a whole.\<close>

fun is_canonical_ticker :: "string \<Rightarrow> bool" where
  "is_canonical_ticker [] \<longleftrightarrow> False"
| "is_canonical_ticker (c # cs) \<longleftrightarrow>
     ticker_alnum c \<and>
     (cs = [] \<or> (length (butlast cs) \<le> 13 \<and> list_all ticker_char (butlast cs) \<and>
                 ticker_alnum (last cs)))"

lemma canonical_ticker_length: "is_canonical_ticker t \<Longrightarrow> 1 \<le> length t \<and> length t \<le> 15"
  by (cases t) auto

lemma canonical_ticker_nonempty: "is_canonical_ticker t \<Longrightarrow> t \<noteq> []"
  by (cases t) auto

section \<open>daybreak\_contracts/input\_models.py\<close>

record news_context =
  nc_catalyst_text :: ptext
  nc_source_type :: source_type
  nc_source_name :: ptext
  nc_source_timestamp :: string
  nc_catalyst_age_hours :: pyfloat
  nc_corroborated :: bool
  nc_disqualifier_flags :: "disqualifier_flag list"

definition valid_news_context :: "news_context \<Rightarrow> bool" where
  "valid_news_context n \<longleftrightarrow>
     1 \<le> length (nc_catalyst_text n) \<and> length (nc_catalyst_text n) \<le> 4000 \<and>
     1 \<le> length (nc_source_name n) \<and> length (nc_source_name n) \<le> 256 \<and>
     0 \<le> nc_catalyst_age_hours n \<and>
     length (nc_disqualifier_flags n) \<le> 5 \<and>
     distinct (nc_disqualifier_flags n)"

record liquidity_metrics =
  lm_gap_pct :: pyfloat
  lm_premarket_volume :: int
  lm_rvol_time_matched :: pyfloat
  lm_float_shares :: int
  lm_volume_profile :: volume_profile
  lm_borrow_status :: borrow_status

definition valid_liquidity_metrics :: "liquidity_metrics \<Rightarrow> bool" where
  "valid_liquidity_metrics l \<longleftrightarrow>
     0 \<le> lm_premarket_volume l \<and> 0 \<le> lm_rvol_time_matched l \<and> 0 < lm_float_shares l"

record technical_context =
  tc_distance_to_resistance_atr :: pyfloat
  tc_distance_from_vwap_atr :: pyfloat
  tc_chart_structure :: chart_structure
  tc_current_price :: pyfloat
  tc_atr_value :: pyfloat
  tc_premarket_low :: pyfloat

definition valid_technical_context :: "technical_context \<Rightarrow> bool" where
  "valid_technical_context t \<longleftrightarrow>
     0 \<le> tc_distance_to_resistance_atr t \<and>
     0 < tc_current_price t \<and> 0 < tc_atr_value t \<and> 0 < tc_premarket_low t \<and>
     \<not> (tc_chart_structure t = CS_CLEAN_SHORT_TERM \<and> tc_distance_to_resistance_atr t \<le> 2) \<and>
     \<not> (tc_chart_structure t = CS_MODERATE_ROOM \<and>
        \<not> (1 \<le> tc_distance_to_resistance_atr t \<and> tc_distance_to_resistance_atr t \<le> 2)) \<and>
     \<not> tc_premarket_low t > tc_current_price t"

record ticker_input =
  ti_ticker :: string
  ti_halted :: bool
  ti_news_context :: news_context
  ti_liquidity_metrics :: liquidity_metrics
  ti_technical_context :: technical_context

definition valid_ticker_input :: "ticker_input \<Rightarrow> bool" where
  "valid_ticker_input e \<longleftrightarrow>
     is_canonical_ticker (ti_ticker e) \<and> valid_news_context (ti_news_context e) \<and>
     valid_liquidity_metrics (ti_liquidity_metrics e) \<and>
     valid_technical_context (ti_technical_context e)"

record daybreak_input =
  di_evaluation_timestamp :: string
  di_payload_timestamp :: string
  di_payload_age_seconds :: int
  di_catalyst_freshness_threshold_hours :: pyfloat
  di_market_status :: market_status
  di_tickers :: "ticker_input list"

definition valid_daybreak_input :: "daybreak_input \<Rightarrow> bool" where
  "valid_daybreak_input p \<longleftrightarrow>
     0 \<le> di_payload_age_seconds p \<and> 0 < di_catalyst_freshness_threshold_hours p \<and>
     length (di_tickers p) \<le> 25 \<and> list_all valid_ticker_input (di_tickers p) \<and>
     distinct (map ti_ticker (di_tickers p))"

section \<open>daybreak\_contracts/output\_models.py\<close>

definition RISK_FLAG_ORDER :: "risk_flag list" where
  "RISK_FLAG_ORDER =
     [RF_PARABOLIC, RF_HARD_TO_BORROW, RF_UNKNOWN_BORROW, RF_LOW_FLOAT, RF_SPIKY_VOLUME,
      RF_SECONDARY_SOURCE]"

definition flag_indexes :: "risk_flag list \<Rightarrow> nat option list" where
  "flag_indexes flags = map (index_of RISK_FLAG_ORDER) flags"

definition validate_risk_flags :: "risk_flag list \<Rightarrow> bool" where
  "validate_risk_flags flags \<longleftrightarrow>
     distinct flags \<and> None \<notin> set (flag_indexes flags) \<and> sorted (map the (flag_indexes flags))"

record score_breakdown =
  sb_source_quality_points :: int
  sb_catalyst_magnitude_bucket :: magnitude_bucket
  sb_catalyst_magnitude_points :: int
  sb_evidence_purpose :: evidence_purpose
  sb_magnitude_evidence_excerpt :: ptext
  sb_magnitude_evidence_truncated :: bool
  sb_magnitude_evidence_start_char :: "int option"
  sb_magnitude_evidence_end_char :: "int option"
  sb_catalyst_zero_override :: bool
  sb_catalyst_zero_reason :: "catalyst_zero_reason option"
  sb_catalyst_score_raw :: int
  sb_catalyst_points :: int
  sb_volume_points :: int
  sb_technical_grade :: technical_grade
  sb_technical_base_points :: int
  sb_technical_points :: int
  sb_parabolic_adjusted :: bool

definition valid_local_consistency :: "'a score_breakdown_scheme \<Rightarrow> bool" where
  "valid_local_consistency s \<longleftrightarrow>
     (sb_magnitude_evidence_start_char s = None) = (sb_magnitude_evidence_end_char s = None) \<and>
     sb_catalyst_zero_override s = (sb_catalyst_zero_reason s \<noteq> None) \<and>
     (case sb_evidence_purpose s of
        EP_DISQUALIFIER \<Rightarrow> sb_catalyst_zero_reason s = Some ZR_DISQUALIFIER_FLAG
      | EP_NONE \<Rightarrow>
          sb_catalyst_zero_reason s = Some ZR_NO_VALID_DRIVER \<and>
          sb_magnitude_evidence_excerpt s = [] \<and> \<not> sb_magnitude_evidence_truncated s \<and>
          sb_magnitude_evidence_start_char s = None \<and> sb_magnitude_evidence_end_char s = None
      | EP_MAGNITUDE \<Rightarrow>
          sb_catalyst_zero_reason s \<notin> {Some ZR_DISQUALIFIER_FLAG, Some ZR_NO_VALID_DRIVER})"

definition valid_score_breakdown :: "'a score_breakdown_scheme \<Rightarrow> bool" where
  "valid_score_breakdown s \<longleftrightarrow>
     0 \<le> sb_source_quality_points s \<and> sb_source_quality_points s \<le> 6 \<and>
     0 \<le> sb_catalyst_magnitude_points s \<and> sb_catalyst_magnitude_points s \<le> 4 \<and>
     length (sb_magnitude_evidence_excerpt s) \<le> 200 \<and>
     0 \<le> sb_catalyst_score_raw s \<and> sb_catalyst_score_raw s \<le> 10 \<and>
     0 \<le> sb_catalyst_points s \<and> sb_catalyst_points s \<le> 40 \<and>
     sb_volume_points s \<in> {0, 15, 25, 35} \<and>
     sb_technical_base_points s \<in> {0, 13, 22, 25} \<and>
     sb_technical_points s \<in> {0, 7, 13, 16, 19, 22, 25} \<and>
     valid_local_consistency s"

record evaluation_snapshot = score_breakdown +
  es_risk_flags :: "risk_flag list"

definition valid_evaluation_snapshot :: "evaluation_snapshot \<Rightarrow> bool" where
  "valid_evaluation_snapshot s \<longleftrightarrow> valid_score_breakdown s \<and> validate_risk_flags (es_risk_flags s)"

definition INVALIDATION_NOTE :: string where
  "INVALIDATION_NOTE =
     ''Thesis is invalid if price breaks below the supplied premarket low before 9:35 AM ET.''"

record trade_parameters =
  tp_reference_price :: pyfloat
  tp_atr_value_used :: pyfloat
  tp_premarket_low_used :: pyfloat
  tp_risk_stop_atr_multiple :: pyfloat
  tp_profit_target_atr_multiple :: pyfloat
  tp_invalidation_note :: string

definition valid_trade_parameters :: "trade_parameters \<Rightarrow> bool" where
  "valid_trade_parameters t \<longleftrightarrow>
     0 < tp_reference_price t \<and> 0 < tp_atr_value_used t \<and> 0 < tp_premarket_low_used t \<and>
     1 \<le> tp_risk_stop_atr_multiple t \<and> tp_risk_stop_atr_multiple t \<le> 1 \<and>
     2 \<le> tp_profit_target_atr_multiple t \<and> tp_profit_target_atr_multiple t \<le> 2 \<and>
     tp_invalidation_note t = INVALIDATION_NOTE"

record approved_setup =
  ap_ticker :: string
  ap_side :: string
  ap_conviction_score :: int
  ap_score_breakdown :: score_breakdown
  ap_master_thesis :: ptext
  ap_catalyst_source :: ptext
  ap_source_type :: source_type
  ap_source_timestamp :: string
  ap_catalyst_age_hours :: pyfloat
  ap_corroborated :: bool
  ap_risk_flags :: "risk_flag list"
  ap_trade_parameters :: trade_parameters

definition valid_approved_setup :: "approved_setup \<Rightarrow> bool" where
  "valid_approved_setup a \<longleftrightarrow>
     is_canonical_ticker (ap_ticker a) \<and> ap_side a = ''long'' \<and>
     0 \<le> ap_conviction_score a \<and> ap_conviction_score a \<le> 100 \<and>
     valid_score_breakdown (ap_score_breakdown a) \<and> 0 \<le> ap_catalyst_age_hours a \<and>
     valid_trade_parameters (ap_trade_parameters a) \<and> validate_risk_flags (ap_risk_flags a)"

record qualified_not_selected =
  qn_ticker :: string
  qn_final_rank :: int
  qn_conviction_score :: int
  qn_score_breakdown :: score_breakdown
  qn_catalyst_source :: ptext
  qn_source_type :: source_type
  qn_source_timestamp :: string
  qn_catalyst_age_hours :: pyfloat
  qn_corroborated :: bool
  qn_risk_flags :: "risk_flag list"
  qn_non_selection_reason_code :: string

definition valid_qualified_not_selected :: "qualified_not_selected \<Rightarrow> bool" where
  "valid_qualified_not_selected q \<longleftrightarrow>
     is_canonical_ticker (qn_ticker q) \<and> 4 \<le> qn_final_rank q \<and>
     0 \<le> qn_conviction_score q \<and> qn_conviction_score q \<le> 100 \<and>
     valid_score_breakdown (qn_score_breakdown q) \<and> 0 \<le> qn_catalyst_age_hours q \<and>
     qn_non_selection_reason_code q = ''TOP_THREE_CAP'' \<and> validate_risk_flags (qn_risk_flags q)"

record reason_object =
  ro_reason_code :: reason_code
  ro_field :: string
  ro_observed_value :: string
  ro_required_condition :: string
  ro_reason :: string

record excluded_ticker =
  ex_ticker :: string
  ex_primary_reason :: reason_object
  ex_additional_reasons :: "reason_object list"
  ex_evaluation_snapshot :: evaluation_snapshot

definition valid_excluded_ticker :: "excluded_ticker \<Rightarrow> bool" where
  "valid_excluded_ticker x \<longleftrightarrow>
     is_canonical_ticker (ex_ticker x) \<and> valid_evaluation_snapshot (ex_evaluation_snapshot x)"

record schema_failure =
  sf_scope :: schema_failure_scope
  sf_ticker :: "string option"
  sf_field :: string
  sf_reason :: string

definition valid_schema_failure :: "schema_failure \<Rightarrow> bool" where
  "valid_schema_failure f \<longleftrightarrow> \<not> (sf_scope f = SFS_PAYLOAD \<and> sf_ticker f \<noteq> None)"

record run_blocker =
  rb_blocker_code :: blocker_code
  rb_field :: string
  rb_observed_value :: string
  rb_required_condition :: string
  rb_reason :: string

record daybreak_output =
  out_run_status :: run_status
  out_execution_timestamp :: "string option"
  out_payload_timestamp_used :: "string option"
  out_market_status :: "market_status option"
  out_approved_setups :: "approved_setup list"
  out_qualified_not_selected :: "qualified_not_selected list"
  out_excluded_tickers :: "excluded_ticker list"
  out_schema_failures :: "schema_failure list"
  out_run_blockers :: "run_blocker list"

definition has_blocker :: "daybreak_output \<Rightarrow> blocker_code \<Rightarrow> bool" where
  "has_blocker d c \<longleftrightarrow> list_ex (\<lambda>b. rb_blocker_code b = c) (out_run_blockers d)"

definition trading_arrays_nonempty :: "daybreak_output \<Rightarrow> bool" where
  "trading_arrays_nonempty d \<longleftrightarrow>
     out_approved_setups d \<noteq> [] \<or> out_qualified_not_selected d \<noteq> [] \<or> out_excluded_tickers d \<noteq> []"

definition valid_status_shape :: "daybreak_output \<Rightarrow> bool" where
  "valid_status_shape d \<longleftrightarrow>
     length (out_approved_setups d) \<le> 3 \<and>
     \<not> (out_schema_failures d \<noteq> [] \<and> out_run_blockers d \<noteq> []) \<and>
     \<not> (out_run_status d \<in> {RS_SCHEMA_FAILURE, RS_BLOCKED_MARKET, RS_STALE_PAYLOAD} \<and>
        trading_arrays_nonempty d) \<and>
     (if out_run_status d = RS_SCHEMA_FAILURE
      then out_schema_failures d \<noteq> [] \<and> out_run_blockers d = []
      else out_execution_timestamp d \<noteq> None \<and> out_payload_timestamp_used d \<noteq> None \<and>
           out_market_status d \<noteq> None \<and> out_schema_failures d = []) \<and>
     \<not> (out_run_status d = RS_APPROVED \<and> out_approved_setups d = []) \<and>
     \<not> (out_run_status d = RS_NO_SETUPS \<and>
        (out_approved_setups d \<noteq> [] \<or> out_qualified_not_selected d \<noteq> [] \<or>
         out_run_blockers d \<noteq> [])) \<and>
     \<not> (out_run_status d = RS_BLOCKED_MARKET \<and> \<not> has_blocker d BC_MARKET_NOT_NORMAL) \<and>
     \<not> (out_run_status d = RS_STALE_PAYLOAD \<and>
        (has_blocker d BC_MARKET_NOT_NORMAL \<or> \<not> has_blocker d BC_PAYLOAD_STALE))"

definition valid_daybreak_output :: "daybreak_output \<Rightarrow> bool" where
  "valid_daybreak_output d \<longleftrightarrow>
     list_all valid_approved_setup (out_approved_setups d) \<and>
     list_all valid_qualified_not_selected (out_qualified_not_selected d) \<and>
     list_all valid_excluded_ticker (out_excluded_tickers d) \<and>
     list_all valid_schema_failure (out_schema_failures d) \<and>
     valid_status_shape d"

lemmas [valid_defs] = valid_news_context_def valid_liquidity_metrics_def
  valid_technical_context_def valid_ticker_input_def valid_daybreak_input_def
  validate_risk_flags_def valid_local_consistency_def valid_score_breakdown_def
  valid_evaluation_snapshot_def valid_trade_parameters_def valid_approved_setup_def
  valid_qualified_not_selected_def valid_excluded_ticker_def valid_schema_failure_def
  valid_status_shape_def valid_daybreak_output_def

end
