(* ===== verification/Replay.thy ===== *)
theory Replay
  imports Contract_Models "HOL-Library.Product_Lexorder" "HOL-Library.Multiset"
begin

text \<open>
  The deterministic replay of \<open>daybreak_contracts/logic/replay.py\<close>: what the evaluator's
  scores, gate failures and ranking have to be, given its input. The definitions follow the
  module from top to bottom. The lemmas show that replayed scores lie in the ranges of the
  output models, that the gate list is the ordered list of failed gates, and that the
  ranking is a permutation of the passing records that does not depend on the order in
  which the evaluator listed them.
\<close>

section \<open>Definitions\<close>

datatype terminal_record =
    TApproved approved_setup
  | TQualified qualified_not_selected
  | TExcluded excluded_ticker

fun MAGNITUDE_POINTS :: "magnitude_bucket \<Rightarrow> int" where
  "MAGNITUDE_POINTS MB_MAJOR_CONCRETE = 4"
| "MAGNITUDE_POINTS MB_MATERIAL_PARTIALLY_QUANTIFIED = 3"
| "MAGNITUDE_POINTS MB_CREDIBLE_UNQUANTIFIED = 2"
| "MAGNITUDE_POINTS MB_WEAK_OR_PRELIMINARY = 1"
| "MAGNITUDE_POINTS MB_NO_VALID_DRIVER = 0"

record expected_technical_result =
  et_grade :: technical_grade
  et_base_points :: int
  et_points :: int
  et_parabolic_adjusted :: bool

record passing_record =
  pr_ticker :: string
  pr_conviction_score :: int
  pr_catalyst_age_hours :: pyfloat
  pr_catalyst_score_raw :: int
  pr_volume_points :: int
  pr_technical_points :: int

definition input_by_ticker :: "daybreak_input \<Rightarrow> (string, ticker_input) dict" where
  "input_by_ticker p = fold (\<lambda>e d. AList.update (ti_ticker e) e d) (di_tickers p) []"

definition terminal_records :: "daybreak_output \<Rightarrow> (string \<times> terminal_record) list" where
  "terminal_records d =
     map (\<lambda>a. (ap_ticker a, TApproved a)) (out_approved_setups d) @
     map (\<lambda>q. (qn_ticker q, TQualified q)) (out_qualified_not_selected d) @
     map (\<lambda>x. (ex_ticker x, TExcluded x)) (out_excluded_tickers d)"

fun score_of :: "terminal_record \<Rightarrow> score_breakdown" where
  "score_of (TExcluded x) = score_breakdown.truncate (ex_evaluation_snapshot x)"
| "score_of (TApproved a) = ap_score_breakdown a"
| "score_of (TQualified q) = qn_score_breakdown q"

fun risk_flags_of :: "terminal_record \<Rightarrow> risk_flag list" where
  "risk_flags_of (TExcluded x) = es_risk_flags (ex_evaluation_snapshot x)"
| "risk_flags_of (TApproved a) = ap_risk_flags a"
| "risk_flags_of (TQualified q) = qn_risk_flags q"

definition expected_source_quality :: "ticker_input \<Rightarrow> int" where
  "expected_source_quality e =
     (let news = ti_news_context e in
      if nc_source_type news = ST_PRIMARY then 6
      else if nc_source_type news = ST_SECONDARY then (if nc_corroborated news then 4 else 2)
      else 0)"

definition expected_zero_reason ::
    "daybreak_input \<Rightarrow> ticker_input \<Rightarrow> magnitude_bucket \<Rightarrow> catalyst_zero_reason option" where
  "expected_zero_reason p e bucket =
     (let news = ti_news_context e in
      if nc_disqualifier_flags news \<noteq> [] then Some ZR_DISQUALIFIER_FLAG
      else if nc_source_type news = ST_UNCONFIRMED then Some ZR_UNCONFIRMED_SOURCE
      else if nc_catalyst_age_hours news > di_catalyst_freshness_threshold_hours p
        then Some ZR_STALE_CATALYST
      else if bucket = MB_NO_VALID_DRIVER then Some ZR_NO_VALID_DRIVER
      else None)"

definition expected_evidence_purpose :: "catalyst_zero_reason option \<Rightarrow> evidence_purpose" where
  "expected_evidence_purpose r =
     (if r = Some ZR_DISQUALIFIER_FLAG then EP_DISQUALIFIER
      else if r = Some ZR_NO_VALID_DRIVER then EP_NONE
      else EP_MAGNITUDE)"

definition expected_volume_points :: "ticker_input \<Rightarrow> int" where
  "expected_volume_points e =
     (let liq = ti_liquidity_metrics e in
      if lm_volume_profile liq = VP_SPIKY then 15
      else if lm_rvol_time_matched liq < 5 then 0
      else if lm_rvol_time_matched liq \<le> 10 then 25
      else 35)"

definition expected_technical :: "ticker_input \<Rightarrow> expected_technical_result" where
  "expected_technical e =
     (let tech = ti_technical_context e in
      if tc_distance_to_resistance_atr tech < 1 \<or> tc_chart_structure tech = CS_CAPPED
      then \<lparr>et_grade = TG_C, et_base_points = 0, et_points = 0, et_parabolic_adjusted = False\<rparr>
      else
        let (grade, base) =
              (if tc_chart_structure tech = CS_BLUE_SKY then (TG_A_PLUS, 25)
               else if tc_chart_structure tech = CS_CLEAN_SHORT_TERM then (TG_A, 22)
               else (TG_B, 13));
            adjusted = tc_distance_from_vwap_atr tech > 3
        in \<lparr>et_grade = grade, et_base_points = base,
            et_points = (if adjusted then base - 6 else base),
            et_parabolic_adjusted = adjusted\<rparr>)"

definition expected_risk_flags ::
    "ticker_input \<Rightarrow> expected_technical_result \<Rightarrow> risk_flag list" where
  "expected_risk_flags e technical =
     (let liq = ti_liquidity_metrics e; news = ti_news_context e in
      (if et_parabolic_adjusted technical then [RF_PARABOLIC] else []) @
      (if lm_borrow_status liq = BS_HARD_TO_BORROW then [RF_HARD_TO_BORROW] else []) @
      (if lm_borrow_status liq = BS_UNKNOWN then [RF_UNKNOWN_BORROW] else []) @
      (if lm_float_shares liq < 50000000 then [RF_LOW_FLOAT] else []) @
      (if lm_volume_profile liq = VP_SPIKY then [RF_SPIKY_VOLUME] else []) @
      (if nc_source_type news = ST_SECONDARY then [RF_SECONDARY_SOURCE] else []))"

text \<open>The dictionary that \<open>expected_score_fields\<close> returns has a fixed set of keys.\<close>

record expected_scores =
  xs_source_quality_points :: int
  xs_catalyst_magnitude_points :: int
  xs_catalyst_zero_override :: bool
  xs_catalyst_zero_reason :: "catalyst_zero_reason option"
  xs_evidence_purpose :: evidence_purpose
  xs_catalyst_score_raw :: int
  xs_catalyst_points :: int
  xs_volume_points :: int
  xs_technical_grade :: technical_grade
  xs_technical_base_points :: int
  xs_technical_points :: int
  xs_parabolic_adjusted :: bool
  xs_risk_flags :: "risk_flag list"

definition expected_score_fields ::
    "daybreak_input \<Rightarrow> ticker_input \<Rightarrow> score_breakdown \<Rightarrow> expected_scores" where
  "expected_score_fields p e reported =
     (let source_points = expected_source_quality e;
          bucket = sb_catalyst_magnitude_bucket reported;
          magnitude_points = MAGNITUDE_POINTS bucket;
          zero_reason = expected_zero_reason p e bucket;
          raw = (if zero_reason = None then source_points + magnitude_points else 0);
          catalyst_points = (if zero_reason = None then raw * 4 else 0);
          technical = expected_technical e
      in \<lparr>xs_source_quality_points = source_points,
          xs_catalyst_magnitude_points = magnitude_points,
          xs_catalyst_zero_override = (zero_reason \<noteq> None),
          xs_catalyst_zero_reason = zero_reason,
          xs_evidence_purpose = expected_evidence_purpose zero_reason,
          xs_catalyst_score_raw = raw,
          xs_catalyst_points = catalyst_points,
          xs_volume_points = expected_volume_points e,
          xs_technical_grade = et_grade technical,
          xs_technical_base_points = et_base_points technical,
          xs_technical_points = et_points technical,
          xs_parabolic_adjusted = et_parabolic_adjusted technical,
          xs_risk_flags = expected_risk_flags e technical\<rparr>)"

fun number_string :: "pyval \<Rightarrow> string" where
  "number_string (PBool b) = show_bool b"
| "number_string (PInt i) = show_int i"
| "number_string (PFloat x) = show_float x"
| "number_string (PStr s) = s"
| "number_string _ = []"

definition gate_failure ::
    "reason_code \<Rightarrow> string \<Rightarrow> pyval \<Rightarrow> string \<Rightarrow> string \<Rightarrow> reason_object" where
  "gate_failure code field observed condition reason =
     \<lparr>ro_reason_code = code, ro_field = field, ro_observed_value = number_string observed,
      ro_required_condition = condition, ro_reason = reason\<rparr>"

definition expected_failed_gates :: "ticker_input \<Rightarrow> int \<Rightarrow> reason_object list" where
  "expected_failed_gates e catalyst_score_raw =
     (let liq = ti_liquidity_metrics e; tech = ti_technical_context e; news = ti_news_context e in
      (if ti_halted e then
        [gate_failure RC_HALTED ''halted'' (PBool (ti_halted e)) ''halted must equal false''
           ''The ticker is halted and cannot be approved.''] else []) @
      (if catalyst_score_raw < 7 then
        [gate_failure RC_CATALYST_SCORE_TOO_LOW ''news_context.catalyst_score_raw''
           (PInt catalyst_score_raw) ''catalyst_score_raw must be greater than or equal to 7''
           ''The catalyst score is below the required minimum.''] else []) @
      (if \<not> nc_corroborated news \<and> catalyst_score_raw < 9 then
        [gate_failure RC_UNCORROBORATED_CATALYST ''news_context.corroborated''
           (PBool (nc_corroborated news))
           ''uncorroborated catalysts require catalyst_score_raw greater than or equal to 9''
           ''The uncorroborated catalyst does not meet the stricter score requirement.''] else []) @
      (if lm_gap_pct liq < 4 then
        [gate_failure RC_GAP_TOO_SMALL ''liquidity_metrics.gap_pct'' (PFloat (lm_gap_pct liq))
           ''gap_pct must be greater than or equal to 4.0''
           ''The premarket gap is below the required minimum.''] else []) @
      (if lm_premarket_volume liq < 500000 then
        [gate_failure RC_PREMARKET_VOLUME_TOO_LOW ''liquidity_metrics.premarket_volume''
           (PInt (lm_premarket_volume liq))
           ''premarket_volume must be greater than or equal to 500000''
           ''Premarket volume is below the required minimum.''] else []) @
      (if lm_rvol_time_matched liq < 5 then
        [gate_failure RC_RVOL_TOO_LOW ''liquidity_metrics.rvol_time_matched''
           (PFloat (lm_rvol_time_matched liq))
           ''rvol_time_matched must be greater than or equal to 5.0''
           ''Time-matched RVOL is below the required minimum.''] else []) @
      (if tc_distance_to_resistance_atr tech < 1 then
        [gate_failure RC_RESISTANCE_TOO_CLOSE ''technical_context.distance_to_resistance_atr''
           (PFloat (tc_distance_to_resistance_atr tech))
           ''distance_to_resistance_atr must be greater than or equal to 1.0''
           ''The ticker has insufficient room before resistance.''] else []) @
      (if tc_chart_structure tech = CS_CAPPED then
        [gate_failure RC_CAPPED_CHART ''technical_context.chart_structure''
           (PStr (chart_structure_value (tc_chart_structure tech)))
           ''chart_structure must not equal capped''
           ''The chart is capped by nearby structural resistance.''] else []))"

definition passing_records :: "daybreak_output \<Rightarrow> passing_record list" where
  "passing_records d =
     map (\<lambda>a. \<lparr>pr_ticker = ap_ticker a, pr_conviction_score = ap_conviction_score a,
               pr_catalyst_age_hours = ap_catalyst_age_hours a,
               pr_catalyst_score_raw = sb_catalyst_score_raw (ap_score_breakdown a),
               pr_volume_points = sb_volume_points (ap_score_breakdown a),
               pr_technical_points = sb_technical_points (ap_score_breakdown a)\<rparr>)
       (out_approved_setups d) @
     map (\<lambda>q. \<lparr>pr_ticker = qn_ticker q, pr_conviction_score = qn_conviction_score q,
               pr_catalyst_age_hours = qn_catalyst_age_hours q,
               pr_catalyst_score_raw = sb_catalyst_score_raw (qn_score_breakdown q),
               pr_volume_points = sb_volume_points (qn_score_breakdown q),
               pr_technical_points = sb_technical_points (qn_score_breakdown q)\<rparr>)
       (out_qualified_not_selected d)"

definition initial_key :: "passing_record \<Rightarrow> int \<times> string" where
  "initial_key r = (- pr_conviction_score r, pr_ticker r)"

definition tie_key :: "passing_record \<Rightarrow> pyfloat \<times> int \<times> int \<times> int \<times> string" where
  "tie_key r =
     (pr_catalyst_age_hours r, - pr_catalyst_score_raw r, - pr_volume_points r,
      - pr_technical_points r, pr_ticker r)"

definition tie_group :: "passing_record list \<Rightarrow> passing_record list" where
  "tie_group remaining =
     filter (\<lambda>r. pr_conviction_score (hd remaining) - pr_conviction_score r \<le> 2) remaining"

definition after_group :: "passing_record list \<Rightarrow> passing_record list" where
  "after_group remaining =
     filter (\<lambda>r. pr_ticker r \<notin> set (map pr_ticker (tie_group remaining))) remaining"

lemma length_after_group: "rs \<noteq> [] \<Longrightarrow> length (after_group rs) < length rs"
proof -
  assume "rs \<noteq> []"
  then have "hd rs \<in> set rs" and "pr_ticker (hd rs) \<in> set (map pr_ticker (tie_group rs))"
    by (auto simp: tie_group_def)
  then show ?thesis unfolding after_group_def by (auto intro!: length_filter_less)
qed

text \<open>The ranking loop of \<open>expected_passing_order\<close>; each turn removes at least the anchor.\<close>

function rank_groups :: "passing_record list \<Rightarrow> passing_record list" where
  "rank_groups remaining =
     (if remaining = [] then []
      else sort_key tie_key (tie_group remaining) @ rank_groups (after_group remaining))"
  by pat_completeness auto
termination
  by (relation "measure length") (auto simp: length_after_group)

declare rank_groups.simps [simp del]

definition expected_passing_order :: "daybreak_output \<Rightarrow> string list" where
  "expected_passing_order d =
     map pr_ticker (rank_groups (sort_key initial_key (passing_records d)))"

section \<open>Input lookup\<close>

lemma map_of_update_fold:
  assumes "distinct (map f es)"
  shows "map_of (fold (\<lambda>e d. AList.update (f e) e d) es d0) k =
    (case find (\<lambda>e. f e = k) es of None \<Rightarrow> map_of d0 k | Some e \<Rightarrow> Some e)"
  using assms
proof (induction es arbitrary: d0)
  case (Cons e es)
  have "find (\<lambda>e. f e = k) es = None" if "f e = k"
    using Cons.prems that by (simp add: find_None_iff) (metis image_eqI)
  with Cons show ?case by (auto simp: update_conv' split: option.splits)
qed simp

lemma input_by_ticker_Some:
  assumes "map_of (input_by_ticker p) t = Some e" and "distinct (map ti_ticker (di_tickers p))"
  shows "e \<in> set (di_tickers p)" and "ti_ticker e = t"
proof -
  from assms(1) have "find (\<lambda>e. ti_ticker e = t) (di_tickers p) = Some e"
    by (simp add: input_by_ticker_def map_of_update_fold [OF assms(2)] split: option.splits)
  then show "e \<in> set (di_tickers p)" and "ti_ticker e = t"
    by (auto simp: find_Some_iff)
qed

lemma input_by_ticker_lookup:
  assumes "e \<in> set (di_tickers p)" and "distinct (map ti_ticker (di_tickers p))"
  shows "map_of (input_by_ticker p) (ti_ticker e) = Some e"
proof -
  have "\<exists>e'. find (\<lambda>x. ti_ticker x = ti_ticker e) (di_tickers p) = Some e'"
    using assms(1) by (cases "find (\<lambda>x. ti_ticker x = ti_ticker e) (di_tickers p)")
      (auto simp: find_None_iff)
  then obtain e' where f: "find (\<lambda>x. ti_ticker x = ti_ticker e) (di_tickers p) = Some e'" ..
  then have "e' \<in> set (di_tickers p)" "ti_ticker e' = ti_ticker e" by (auto simp: find_Some_iff)
  with assms have "e' = e" by (auto simp: distinct_map inj_on_def)
  with f show ?thesis
    by (simp add: input_by_ticker_def map_of_update_fold [OF assms(2)])
qed

section \<open>Scores\<close>

lemma expected_technical_cases:
  "(et_grade (expected_technical e), et_base_points (expected_technical e),
    et_points (expected_technical e), et_parabolic_adjusted (expected_technical e))
   \<in> {(TG_A_PLUS, 25, 25, False), (TG_A_PLUS, 25, 19, True), (TG_A, 22, 22, False),
      (TG_A, 22, 16, True), (TG_B, 13, 13, False), (TG_B, 13, 7, True), (TG_C, 0, 0, False)}"
  by (auto simp: expected_technical_def Let_def)

lemma expected_source_quality_range: "expected_source_quality e \<in> {0, 2, 4, 6}"
  by (auto simp: expected_source_quality_def Let_def)

lemma MAGNITUDE_POINTS_range: "0 \<le> MAGNITUDE_POINTS b \<and> MAGNITUDE_POINTS b \<le> 4"
  by (cases b) auto

lemma expected_volume_points_range: "expected_volume_points e \<in> {0, 15, 25, 35}"
  by (auto simp: expected_volume_points_def Let_def)

lemma expected_risk_flags_valid: "validate_risk_flags (expected_risk_flags e t)"
  by (cases "lm_borrow_status (ti_liquidity_metrics e)")
    (simp_all add: validate_risk_flags_def expected_risk_flags_def flag_indexes_def
      RISK_FLAG_ORDER_def Let_def)

section \<open>Hard gates\<close>

definition gate_codes :: "ticker_input \<Rightarrow> int \<Rightarrow> reason_code list" where
  "gate_codes e raw = map ro_reason_code (expected_failed_gates e raw)"

definition ALL_GATES :: "reason_code list" where
  "ALL_GATES =
     [RC_HALTED, RC_CATALYST_SCORE_TOO_LOW, RC_UNCORROBORATED_CATALYST, RC_GAP_TOO_SMALL,
      RC_PREMARKET_VOLUME_TOO_LOW, RC_RVOL_TOO_LOW, RC_RESISTANCE_TOO_CLOSE, RC_CAPPED_CHART]"

fun gate_fails :: "ticker_input \<Rightarrow> int \<Rightarrow> reason_code \<Rightarrow> bool" where
  "gate_fails e raw RC_HALTED = ti_halted e"
| "gate_fails e raw RC_CATALYST_SCORE_TOO_LOW = (raw < 7)"
| "gate_fails e raw RC_UNCORROBORATED_CATALYST =
     (\<not> nc_corroborated (ti_news_context e) \<and> raw < 9)"
| "gate_fails e raw RC_GAP_TOO_SMALL = (lm_gap_pct (ti_liquidity_metrics e) < 4)"
| "gate_fails e raw RC_PREMARKET_VOLUME_TOO_LOW =
     (lm_premarket_volume (ti_liquidity_metrics e) < 500000)"
| "gate_fails e raw RC_RVOL_TOO_LOW = (lm_rvol_time_matched (ti_liquidity_metrics e) < 5)"
| "gate_fails e raw RC_RESISTANCE_TOO_CLOSE =
     (tc_distance_to_resistance_atr (ti_technical_context e) < 1)"
| "gate_fails e raw RC_CAPPED_CHART =
     (tc_chart_structure (ti_technical_context e) = CS_CAPPED)"

lemma gate_codes_eq: "gate_codes e raw = filter (gate_fails e raw) ALL_GATES"
  by (simp add: gate_codes_def expected_failed_gates_def gate_failure_def ALL_GATES_def Let_def)

lemma no_failed_gates_iff: "expected_failed_gates e raw = [] \<longleftrightarrow> (\<forall>c. \<not> gate_fails e raw c)"
proof -
  have "expected_failed_gates e raw = [] \<longleftrightarrow> gate_codes e raw = []"
    by (simp add: gate_codes_def)
  also have "\<dots> \<longleftrightarrow> (\<forall>c \<in> set ALL_GATES. \<not> gate_fails e raw c)"
    by (simp add: gate_codes_eq filter_empty_conv)
  also have "set ALL_GATES = UNIV"
    using reason_code.exhaust by (auto simp: ALL_GATES_def)
  finally show ?thesis by simp
qed

section \<open>Ranking\<close>

lemma rank_groups_Nil [simp]: "rank_groups [] = []"
  by (simp add: rank_groups.simps)

lemma mset_group_split:
  assumes "distinct (map pr_ticker rs)"
  shows "mset (tie_group rs) + mset (after_group rs) = mset rs"
proof -
  have "after_group rs =
      filter (\<lambda>r. \<not> pr_conviction_score (hd rs) - pr_conviction_score r \<le> 2) rs"
    unfolding after_group_def
    using assms by (intro filter_cong) (auto simp: tie_group_def distinct_map dest: inj_onD)
  then show ?thesis by (simp add: tie_group_def)
qed

lemma distinct_after_group:
  "distinct (map pr_ticker rs) \<Longrightarrow> distinct (map pr_ticker (after_group rs))"
  by (simp add: after_group_def distinct_map_filter)

lemma mset_rank_groups:
  "distinct (map pr_ticker rs) \<Longrightarrow> mset (rank_groups rs) = mset rs"
proof (induction rs rule: rank_groups.induct)
  case (1 rs)
  show ?case
  proof (cases "rs = []")
    case False
    with 1 have "mset (rank_groups (after_group rs)) = mset (after_group rs)"
      by (simp add: distinct_after_group)
    with False mset_group_split [OF "1.prems"] show ?thesis
      by (simp add: rank_groups.simps [of rs])
  qed simp
qed

lemma set_rank_groups: "set (rank_groups rs) \<subseteq> set rs"
proof (induction rs rule: rank_groups.induct)
  case (1 rs)
  have "set (tie_group rs) \<subseteq> set rs" "set (after_group rs) \<subseteq> set rs"
    by (auto simp: tie_group_def after_group_def)
  with 1 show ?case by (auto simp: rank_groups.simps [of rs])
qed

lemma sorted_after_group:
  "sorted (map initial_key rs) \<Longrightarrow> sorted (map initial_key (after_group rs))"
  by (simp add: after_group_def sorted_filter)

lemma hd_max_conviction:
  assumes "sorted (map initial_key rs)" and "r \<in> set rs"
  shows "pr_conviction_score r \<le> pr_conviction_score (hd rs)"
proof (cases rs)
  case (Cons x xs)
  with assms have "r = x \<or> initial_key x \<le> initial_key r" by auto
  then show ?thesis by (auto simp: Cons initial_key_def less_eq_prod_def)
qed (use assms in simp)

text \<open>A record ranked earlier is never more than two points below a record ranked later.\<close>

lemma rank_groups_two_points:
  "sorted (map initial_key rs) \<Longrightarrow>
   sorted_wrt (\<lambda>r s. pr_conviction_score s \<le> pr_conviction_score r + 2) (rank_groups rs)"
proof (induction rs rule: rank_groups.induct)
  case (1 rs)
  show ?case
  proof (cases "rs = []")
    case False
    let ?R = "\<lambda>r s. pr_conviction_score s \<le> pr_conviction_score r + 2"
    have group: "?R r s" if "r \<in> set (tie_group rs)" "s \<in> set rs" for r s
      using that hd_max_conviction [OF "1.prems" that(2)] by (auto simp: tie_group_def)
    have sub: "set (tie_group rs) \<subseteq> set rs" "set (rank_groups (after_group rs)) \<subseteq> set rs"
      using set_rank_groups [of "after_group rs"] by (auto simp: tie_group_def after_group_def)
    have "sorted_wrt ?R (sort_key tie_key (tie_group rs))"
      using group sub(1) by (auto simp: sorted_wrt_iff_nth_less) (metis (no_types, lifting)
        length_sort nth_mem order.strict_trans set_sort subsetD)
    moreover have "sorted_wrt ?R (rank_groups (after_group rs))"
      using 1 False by (simp add: sorted_after_group)
    ultimately show ?thesis
      using False group sub(2) by (auto simp: rank_groups.simps [of rs] sorted_wrt_append)
  qed simp
qed

lemma inj_on_initial_key: "distinct (map pr_ticker rs) \<Longrightarrow> inj_on initial_key (set rs)"
  by (auto simp: inj_on_def initial_key_def distinct_map)

lemma sort_key_unique:
  assumes "mset xs = mset ys" and "inj_on f (set xs)"
  shows "sort_key f xs = sort_key f ys"
proof -
  have "sort (map f xs) = map f (sort_key f zs)" if "mset zs = mset xs" for zs
    using that by (intro properties_for_sort) simp_all
  then have "map f (sort_key f xs) = map f (sort_key f ys)" using assms(1) by metis
  moreover have "set (sort_key f xs) \<union> set (sort_key f ys) = set xs"
    using mset_eq_setD [OF assms(1)] by simp
  then have "inj_on f (set (sort_key f xs) \<union> set (sort_key f ys))" using assms(2) by (simp only:)
  ultimately show ?thesis by (rule inj_on_map_eq_map [THEN iffD1, rotated])
qed

lemma expected_passing_order_perm:
  assumes "distinct (map pr_ticker (passing_records d))"
  shows "mset (expected_passing_order d) = mset (map pr_ticker (passing_records d))"
proof -
  let ?rs = "sort_key initial_key (passing_records d)"
  have "mset (map pr_ticker ?rs) = mset (map pr_ticker (passing_records d))" by simp
  with assms have "distinct (map pr_ticker ?rs)" by (metis mset_eq_imp_distinct_iff)
  then have "mset (rank_groups ?rs) = mset (passing_records d)" by (simp add: mset_rank_groups)
  then show ?thesis by (simp add: expected_passing_order_def)
qed

lemma expected_passing_order_unique:
  assumes "distinct (map pr_ticker (passing_records d))"
    and "mset (passing_records d) = mset (passing_records d')"
  shows "expected_passing_order d = expected_passing_order d'"
proof -
  have "sort_key initial_key (passing_records d) = sort_key initial_key (passing_records d')"
    by (rule sort_key_unique [OF assms(2) inj_on_initial_key [OF assms(1)]])
  then show ?thesis by (simp add: expected_passing_order_def)
qed

section \<open>Properties\<close>

lemma sorted_wrt_before:
  assumes "sorted_wrt R xs" and "x \<in> set xs" and "y \<in> set xs" and "x \<noteq> y" and "\<not> R y x"
  shows "\<exists>as bs cs. xs = as @ x # bs @ y # cs"
proof -
  from assms(2) obtain as rest where xs: "xs = as @ x # rest" by (metis split_list)
  have "y \<notin> set as" using assms(1,5) by (auto simp: xs sorted_wrt_append)
  with assms(3,4) have "y \<in> set rest" by (auto simp: xs)
  then obtain bs cs where "rest = bs @ y # cs" by (metis split_list)
  with xs show ?thesis by blast
qed

text \<open>
  The ranking is a function of the set of passing records: two outputs that list the
  same records, in any order and with any split between approved and qualified, get the same
  ranking, and the ranking lists every passing ticker exactly once.
\<close>

theorem ranking_deterministic:
  assumes "distinct (map pr_ticker (passing_records d))"
    and "mset (passing_records d) = mset (passing_records d')"
  shows "expected_passing_order d = expected_passing_order d' \<and>
    mset (expected_passing_order d) = mset (map pr_ticker (passing_records d))"
  using expected_passing_order_unique [OF assms] expected_passing_order_perm [OF assms(1)]
  by simp

text \<open>
  A record whose conviction exceeds another's by more than two points is ranked
  before it: freshness only reorders records within two points of their group's anchor.
\<close>

theorem higher_conviction_ranks_first:
  assumes dist: "distinct (map pr_ticker (passing_records d))"
    and rs: "r \<in> set (passing_records d)" "s \<in> set (passing_records d)"
    and gap: "pr_conviction_score r > pr_conviction_score s + 2"
  shows "\<exists>as bs cs. expected_passing_order d = as @ pr_ticker r # bs @ pr_ticker s # cs"
proof -
  let ?rs = "sort_key initial_key (passing_records d)"
  have "mset (map pr_ticker ?rs) = mset (map pr_ticker (passing_records d))" by simp
  with dist have "distinct (map pr_ticker ?rs)" by (metis mset_eq_imp_distinct_iff)
  then have "mset (rank_groups ?rs) = mset (passing_records d)" by (simp add: mset_rank_groups)
  then have "set (rank_groups ?rs) = set (passing_records d)" by (metis mset_eq_setD)
  then have "\<exists>as bs cs. rank_groups ?rs = as @ r # bs @ s # cs"
    using rs gap by (intro sorted_wrt_before [OF rank_groups_two_points]) auto
  then show ?thesis by (force simp: expected_passing_order_def)
qed

text \<open>
  Whatever the input and the reported magnitude bucket, the replayed score lies in
  the ranges of the output model: raw score at most 10, catalyst points at most 40, the
  allowed volume points and grade/point pairs, a conviction of at most 100, and risk flags
  that are unique and in canonical order.
\<close>

theorem replayed_score_in_model:
  "let x = expected_score_fields p e s in
     0 \<le> xs_catalyst_score_raw x \<and> xs_catalyst_score_raw x \<le> 10 \<and>
     xs_catalyst_points x = 4 * xs_catalyst_score_raw x \<and>
     xs_volume_points x \<in> {0, 15, 25, 35} \<and>
     (xs_technical_grade x, xs_technical_points x) \<in>
       {(TG_A_PLUS, 25), (TG_A_PLUS, 19), (TG_A, 22), (TG_A, 16), (TG_B, 13), (TG_B, 7), (TG_C, 0)} \<and>
     xs_catalyst_points x + xs_volume_points x + xs_technical_points x \<le> 100 \<and>
     xs_catalyst_zero_override x = (xs_catalyst_zero_reason x \<noteq> None) \<and>
     (xs_parabolic_adjusted x \<longleftrightarrow> RF_PARABOLIC \<in> set (xs_risk_flags x)) \<and>
     validate_risk_flags (xs_risk_flags x)"
proof -
  let ?x = "expected_score_fields p e s" and ?t = "expected_technical e"
    and ?m = "MAGNITUDE_POINTS (sb_catalyst_magnitude_bucket s)"
  have sel: "xs_volume_points ?x = expected_volume_points e"
    "xs_technical_grade ?x = et_grade ?t" "xs_technical_points ?x = et_points ?t"
    "xs_parabolic_adjusted ?x = et_parabolic_adjusted ?t"
    "xs_risk_flags ?x = expected_risk_flags e ?t"
    "xs_catalyst_zero_override ?x = (xs_catalyst_zero_reason ?x \<noteq> None)"
    "xs_catalyst_points ?x = 4 * xs_catalyst_score_raw ?x"
    "xs_catalyst_score_raw ?x = 0 \<or> xs_catalyst_score_raw ?x = expected_source_quality e + ?m"
    by (simp_all add: expected_score_fields_def Let_def)
  have sq: "0 \<le> expected_source_quality e" "expected_source_quality e \<le> 6"
    using expected_source_quality_range [of e] by auto
  have raw: "0 \<le> xs_catalyst_score_raw ?x" "xs_catalyst_score_raw ?x \<le> 10"
    using sel(8) sq MAGNITUDE_POINTS_range [of "sb_catalyst_magnitude_bucket s"] by linarith+
  have tech: "(et_grade ?t, et_points ?t) \<in> {(TG_A_PLUS, 25), (TG_A_PLUS, 19), (TG_A, 22),
      (TG_A, 16), (TG_B, 13), (TG_B, 7), (TG_C, 0)}"
    using expected_technical_cases [of e] by auto
  then have "et_points ?t \<le> 25" by auto
  moreover have "expected_volume_points e \<le> 35" using expected_volume_points_range [of e] by auto
  ultimately have total: "4 * xs_catalyst_score_raw ?x + expected_volume_points e + et_points ?t \<le> 100"
    using raw by linarith
  have par: "et_parabolic_adjusted ?t \<longleftrightarrow> RF_PARABOLIC \<in> set (expected_risk_flags e ?t)"
    by (simp add: expected_risk_flags_def Let_def)
  show ?thesis
    unfolding Let_def sel(1-7)
    using raw tech total par expected_volume_points_range expected_risk_flags_valid by blast
qed

text \<open>
  The list of failed gates names, in the fixed order of the eight gates, exactly
  the gates whose condition the ticker violates.
\<close>

theorem failed_gates_exact:
  "map ro_reason_code (expected_failed_gates e raw) =
     filter (gate_fails e raw)
       [RC_HALTED, RC_CATALYST_SCORE_TOO_LOW, RC_UNCORROBORATED_CATALYST, RC_GAP_TOO_SMALL,
        RC_PREMARKET_VOLUME_TOO_LOW, RC_RVOL_TOO_LOW, RC_RESISTANCE_TOO_CLOSE, RC_CAPPED_CHART]"
  using gate_codes_eq [of e raw] by (simp only: gate_codes_def ALL_GATES_def)

end
