(* ===== verification/Validation_Models.thy ===== *)
theory Validation_Models
  imports Replay
begin

text \<open>
  \<open>daybreak_contracts/validation/models.py\<close> and \<open>helpers.py\<close>: the record of one invariant
  check, its violations, the metadata of the orchestrator and the context the checks read.
  A \<open>frozenset\<close> of tickers is the list of its elements; only membership is used.
\<close>

section \<open>validation/models.py\<close>

datatype check_status = CS_PASS | CS_FAIL | CS_NOT_EVALUATED

record invariant_violation =
  iv_invariant_number :: int
  iv_path :: string
  iv_expected :: pyval
  iv_observed :: pyval
  iv_message :: string

record invariant_check =
  ic_invariant_number :: int
  ic_name :: string
  ic_status :: check_status
  ic_violations :: "invariant_violation list"
  ic_note :: "string option"

record validation_metadata =
  vm_evaluator_candidate_count :: "int option"
  vm_max_evaluator_candidates_hard :: "int option"
  vm_prequalified_out_tickers :: "string list"
  vm_capacity_omitted_tickers :: "string list"
  vm_capacity_omissions_logged :: "string list"
  vm_preselection_policy_version :: "string option"
  vm_evaluator_response_timestamp :: "timestamp option"
  vm_execution_cutoff_timestamp :: "timestamp option"
  vm_order_authorized :: "bool option"
  vm_completed_phases :: "string list"
  vm_scoring_completed_before_gates :: "bool option"
  vm_duplicate_detection_after_ticker_validation :: "bool option"
  vm_duplicate_detection_valid_only :: "bool option"
  vm_operational_blockers_after_schema_validation :: "bool option"
  vm_semantic_magnitude_before_override :: "string list"
  vm_invisible_disqualifier_tickers :: "string list"

definition default_metadata :: validation_metadata where
  "default_metadata =
     \<lparr>vm_evaluator_candidate_count = None, vm_max_evaluator_candidates_hard = None,
      vm_prequalified_out_tickers = [], vm_capacity_omitted_tickers = [],
      vm_capacity_omissions_logged = [], vm_preselection_policy_version = None,
      vm_evaluator_response_timestamp = None, vm_execution_cutoff_timestamp = None,
      vm_order_authorized = None, vm_completed_phases = [],
      vm_scoring_completed_before_gates = None,
      vm_duplicate_detection_after_ticker_validation = None,
      vm_duplicate_detection_valid_only = None,
      vm_operational_blockers_after_schema_validation = None,
      vm_semantic_magnitude_before_override = [], vm_invisible_disqualifier_tickers = []\<rparr>"

record validation_context =
  ctx_input_payload :: "daybreak_input option"
  ctx_output :: daybreak_output
  ctx_raw_input :: "json option"
  ctx_metadata :: validation_metadata

record validation_report =
  vr_valid :: bool
  vr_execution_ready :: bool
  vr_model_errors :: "string list"
  vr_checks :: "invariant_check list"

definition report_failures :: "validation_report \<Rightarrow> invariant_check list" where
  "report_failures r = filter (\<lambda>c. ic_status c = CS_FAIL) (vr_checks r)"

definition report_not_evaluated :: "validation_report \<Rightarrow> invariant_check list" where
  "report_not_evaluated r = filter (\<lambda>c. ic_status c = CS_NOT_EVALUATED) (vr_checks r)"

section \<open>validation/helpers.py\<close>

definition passed :: "int \<Rightarrow> string \<Rightarrow> string option \<Rightarrow> invariant_check" where
  "passed number name note =
     \<lparr>ic_invariant_number = number, ic_name = name, ic_status = CS_PASS, ic_violations = [],
      ic_note = note\<rparr>"

definition not_evaluated :: "int \<Rightarrow> string \<Rightarrow> string \<Rightarrow> invariant_check" where
  "not_evaluated number name note =
     \<lparr>ic_invariant_number = number, ic_name = name, ic_status = CS_NOT_EVALUATED,
      ic_violations = [], ic_note = Some note\<rparr>"

definition checked :: "int \<Rightarrow> string \<Rightarrow> invariant_violation list \<Rightarrow> invariant_check" where
  "checked number name violations =
     \<lparr>ic_invariant_number = number, ic_name = name,
      ic_status = (if violations \<noteq> [] then CS_FAIL else CS_PASS),
      ic_violations = violations, ic_note = None\<rparr>"

definition violation ::
    "int \<Rightarrow> string \<Rightarrow> pyval \<Rightarrow> pyval \<Rightarrow> string \<Rightarrow> invariant_violation" where
  "violation number path expected observed message =
     \<lparr>iv_invariant_number = number, iv_path = path, iv_expected = expected,
      iv_observed = observed, iv_message = message\<rparr>"

lemma status_simps [simp]:
  "ic_status (passed n m t) = CS_PASS"
  "ic_status (not_evaluated n m u) = CS_NOT_EVALUATED"
  "ic_status (checked n m vs) = CS_FAIL \<longleftrightarrow> vs \<noteq> []"
  "ic_status (checked n m vs) = CS_PASS \<longleftrightarrow> vs = []"
  "ic_status (checked n m vs) \<noteq> CS_NOT_EVALUATED"
  by (auto simp: passed_def not_evaluated_def checked_def)

lemma number_simps [simp]:
  "ic_invariant_number (passed n m t) = n"
  "ic_invariant_number (not_evaluated n m u) = n"
  "ic_invariant_number (checked n m vs) = n"
  by (auto simp: passed_def not_evaluated_def checked_def)

section \<open>Helpers of validation/invariants.py\<close>

definition approved_symbols :: "validation_context \<Rightarrow> string list" where
  "approved_symbols ctx = map ap_ticker (out_approved_setups (ctx_output ctx))"

definition qualified_symbols :: "validation_context \<Rightarrow> string list" where
  "qualified_symbols ctx = map qn_ticker (out_qualified_not_selected (ctx_output ctx))"

definition excluded_symbols :: "validation_context \<Rightarrow> string list" where
  "excluded_symbols ctx = map ex_ticker (out_excluded_tickers (ctx_output ctx))"

definition schema_failure_symbols :: "validation_context \<Rightarrow> string list" where
  "schema_failure_symbols ctx =
     concat (map (\<lambda>f. if sf_scope f = SFS_TICKER
                       then (case sf_ticker f of None \<Rightarrow> [] | Some t \<Rightarrow> [t]) else [])
       (out_schema_failures (ctx_output ctx)))"

definition terminal_symbols :: "validation_context \<Rightarrow> (string, string list) dict" where
  "terminal_symbols ctx =
     [(''approved_setups'', approved_symbols ctx),
      (''qualified_not_selected'', qualified_symbols ctx),
      (''excluded_tickers'', excluded_symbols ctx),
      (''schema_failures'', schema_failure_symbols ctx)]"

fun score_path :: "terminal_record \<Rightarrow> string \<Rightarrow> string" where
  "score_path (TExcluded _) t = ''excluded_tickers['' @ t @ ''].evaluation_snapshot''"
| "score_path (TApproved _) t = ''approved_setups['' @ t @ ''].score_breakdown''"
| "score_path (TQualified _) t = ''qualified_not_selected['' @ t @ ''].score_breakdown''"

definition reason_dump :: "reason_object \<Rightarrow> pyval" where
  "reason_dump r =
     PDict [(''reason_code'', PStr (reason_code_value (ro_reason_code r))),
            (''field'', PStr (ro_field r)), (''observed_value'', PStr (ro_observed_value r)),
            (''required_condition'', PStr (ro_required_condition r)),
            (''reason'', PStr (ro_reason r))]"

definition excluded_codes :: "excluded_ticker \<Rightarrow> reason_code list" where
  "excluded_codes x =
     ro_reason_code (ex_primary_reason x) # map ro_reason_code (ex_additional_reasons x)"

definition zero_reason_pyval :: "catalyst_zero_reason option \<Rightarrow> pyval" where
  "zero_reason_pyval r = of_opt (\<lambda>z. PStr (zero_reason_value z)) r"

definition flags_pyval :: "risk_flag list \<Rightarrow> pyval" where
  "flags_pyval fs = PTuple (map (\<lambda>f. PStr (risk_flag_value f)) fs)"

text \<open>The checks that compare a reported field with its replayed value.\<close>

definition field_mismatch ::
    "int \<Rightarrow> string \<Rightarrow> string \<Rightarrow> ('a \<Rightarrow> pyval) \<Rightarrow> 'a \<Rightarrow> 'a \<Rightarrow> invariant_violation list" where
  "field_mismatch number path message py expected observed =
     (if observed \<noteq> expected then [violation number path (py expected) (py observed) message]
      else [])"

lemma field_mismatch_Nil [simp]: "field_mismatch n p m py e obs = [] \<longleftrightarrow> obs = e"
  by (simp add: field_mismatch_def)

text \<open>Iteration over the terminal records whose ticker is in the input.\<close>

definition for_records_with_input ::
    "daybreak_input \<Rightarrow> daybreak_output \<Rightarrow>
     (string \<Rightarrow> terminal_record \<Rightarrow> ticker_input \<Rightarrow> invariant_violation list) \<Rightarrow>
     invariant_violation list" where
  "for_records_with_input p d f =
     concat (map (\<lambda>(ticker, r).
       case map_of (input_by_ticker p) ticker of None \<Rightarrow> [] | Some e \<Rightarrow> f ticker r e)
       (terminal_records d))"

lemma for_records_with_input_Nil:
  "for_records_with_input p d f = [] \<longleftrightarrow>
   (\<forall>t r e. (t, r) \<in> set (terminal_records d) \<longrightarrow> map_of (input_by_ticker p) t = Some e \<longrightarrow>
      f t r e = [])"
  by (auto simp: for_records_with_input_def split: option.splits)

definition for_records ::
    "daybreak_output \<Rightarrow> (string \<Rightarrow> terminal_record \<Rightarrow> invariant_violation list) \<Rightarrow>
     invariant_violation list" where
  "for_records d f = concat (map (\<lambda>(ticker, r). f ticker r) (terminal_records d))"

lemma for_records_Nil:
  "for_records d f = [] \<longleftrightarrow> (\<forall>t r. (t, r) \<in> set (terminal_records d) \<longrightarrow> f t r = [])"
  by (auto simp: for_records_def)

end
