(* ===== verification/Invariants_A.thy ===== *)
theory Invariants_A
  imports Validation_Models
begin

text \<open>
  Invariants 1 to 33 of \<open>daybreak_contracts/validation/invariants.py\<close>, one definition per
  function, in the order of the module. An f-string becomes a concatenation, the loop that
  appends to \<open>errors\<close> a \<^const>\<open>concat\<close> over the same list, and \<open>continue\<close> an empty list for
  that element.
\<close>

section \<open>Terminal categories and gates\<close>

definition add_occurrence ::
    "string \<Rightarrow> string \<Rightarrow> (string, string list) dict \<Rightarrow> (string, string list) dict" where
  "add_occurrence category symbol occ =
     AList.update symbol ((case map_of occ symbol of None \<Rightarrow> [] | Some cs \<Rightarrow> cs) @ [category]) occ"

definition occurrences :: "validation_context \<Rightarrow> (string, string list) dict" where
  "occurrences ctx =
     fold (\<lambda>(category, symbols). fold (add_occurrence category) symbols) (terminal_symbols ctx) []"

definition invariant_001 :: "validation_context \<Rightarrow> invariant_check" where
  "invariant_001 ctx =
     checked 1 ''terminal categories are mutually exclusive''
       (concat (map (\<lambda>(symbol, categories).
          if length categories > 1
          then [violation 1 symbol (PStr ''one terminal category'') (PList (map PStr categories))
                  ''ticker appears in multiple terminal categories'']
          else []) (occurrences ctx)))"

definition invariant_002 :: "validation_context \<Rightarrow> invariant_check" where
  "invariant_002 ctx =
     (let trading = approved_symbols ctx @ qualified_symbols ctx @ excluded_symbols ctx in
      checked 2 ''schema-invalid tickers appear only in schema_failures''
       (concat (map (\<lambda>failure.
          case sf_ticker failure of
            None \<Rightarrow> []
          | Some t \<Rightarrow>
              if sf_scope failure = SFS_TICKER \<and> t \<in> set trading
              then [violation 2 (if t = [] then ''null'' else t) (PStr ''absent from trading arrays'')
                      (PStr ''present'') ''schema-invalid ticker reached trading output'']
              else []) (out_schema_failures (ctx_output ctx)))))"

definition excluded_gate_violations ::
    "daybreak_input \<Rightarrow> excluded_ticker \<Rightarrow> invariant_violation list" where
  "excluded_gate_violations p item =
     (case map_of (input_by_ticker p) (ex_ticker item) of
        None \<Rightarrow>
          [violation 3 (ex_ticker item) (PStr ''ticker in input'') (PStr ''missing'')
             ''excluded ticker has no corresponding input'']
      | Some entry \<Rightarrow>
          let expected =
                expected_failed_gates entry (sb_catalyst_score_raw (ex_evaluation_snapshot item));
              observed = ex_primary_reason item # ex_additional_reasons item
          in if expected = []
             then [violation 3 (ex_ticker item) (PStr ''at least one failed hard gate'')
                     (PStr ''none'') ''excluded ticker passes all hard gates'']
             else if observed \<noteq> expected
             then [violation 3 (ex_ticker item) (PList (map reason_dump expected))
                     (PList (map reason_dump observed))
                     ''hard-gate reasons or ordering do not match deterministic replay'']
             else [])"

definition invariant_003 :: "validation_context \<Rightarrow> invariant_check" where
  "invariant_003 ctx =
     (let name = ''every excluded ticker fails at least one hard gate'' in
      case ctx_input_payload ctx of
        None \<Rightarrow> not_evaluated 3 name ''valid evaluator input is required''
      | Some p \<Rightarrow>
          checked 3 name
            (concat (map (excluded_gate_violations p) (out_excluded_tickers (ctx_output ctx)))))"

definition passing_gate_violations ::
    "daybreak_input \<Rightarrow> string \<Rightarrow> score_breakdown \<Rightarrow> invariant_violation list" where
  "passing_gate_violations p ticker score =
     (case map_of (input_by_ticker p) ticker of
        None \<Rightarrow>
          [violation 4 ticker (PStr ''ticker in input'') (PStr ''missing'')
             ''passing ticker has no corresponding input'']
      | Some entry \<Rightarrow>
          let failures = expected_failed_gates entry (sb_catalyst_score_raw score)
          in if failures \<noteq> []
             then [violation 4 ticker (PStr ''zero hard-gate failures'')
                     (PList (map (\<lambda>f. PStr (reason_code_value (ro_reason_code f))) failures))
                     ''passing ticker failed a hard gate'']
             else [])"

definition invariant_004 :: "validation_context \<Rightarrow> invariant_check" where
  "invariant_004 ctx =
     (let name = ''passing terminal records pass all eight hard gates'' in
      case ctx_input_payload ctx of
        None \<Rightarrow> not_evaluated 4 name ''valid evaluator input is required''
      | Some p \<Rightarrow>
          checked 4 name
            (concat (map (\<lambda>a. passing_gate_violations p (ap_ticker a) (ap_score_breakdown a))
               (out_approved_setups (ctx_output ctx))) @
             concat (map (\<lambda>q. passing_gate_violations p (qn_ticker q) (qn_score_breakdown q))
               (out_qualified_not_selected (ctx_output ctx)))))"

definition trading_result_count :: "daybreak_output \<Rightarrow> int" where
  "trading_result_count d =
     int (length (out_approved_setups d)) + int (length (out_qualified_not_selected d)) +
     int (length (out_excluded_tickers d))"

definition invariant_005 :: "validation_context \<Rightarrow> invariant_check" where
  "invariant_005 ctx =
     (let name = ''approved/no-setups terminal partition is exhaustive'' in
      if out_run_status (ctx_output ctx) \<notin> {RS_APPROVED, RS_NO_SETUPS}
      then passed 5 name (Some ''partition equation is not applicable to this run status'')
      else case ctx_input_payload ctx of
        None \<Rightarrow> not_evaluated 5 name ''valid evaluator input is required''
      | Some p \<Rightarrow>
          let observed = trading_result_count (ctx_output ctx);
              expected = int (length (di_tickers p))
          in checked 5 name
               (if observed = expected then []
                else [violation 5 ''terminal arrays'' (PInt expected) (PInt observed)
                        ''terminal partition count mismatch'']))"

definition invariant_006 :: "validation_context \<Rightarrow> invariant_check" where
  "invariant_006 ctx =
     checked 6 ''approved setup count never exceeds three''
       (if length (out_approved_setups (ctx_output ctx)) \<le> 3 then []
        else [violation 6 ''approved_setups'' (PStr ''<= 3'')
                (PInt (int (length (out_approved_setups (ctx_output ctx)))))
                ''approval cap exceeded''])"

definition invariant_007 :: "validation_context \<Rightarrow> invariant_check" where
  "invariant_007 ctx =
     passed 7 ''every excluded ticker has exactly one primary reason''
       (Some ''enforced by the strict ExcludedTicker model'')"

definition invariant_008 :: "validation_context \<Rightarrow> invariant_check" where
  "invariant_008 ctx =
     passed 8 ''additional reasons use the primary reason schema''
       (Some ''enforced by the shared ReasonObject model'')"

definition invariant_009 :: "validation_context \<Rightarrow> invariant_check" where
  "invariant_009 ctx =
     passed 9 ''SCHEMA_FAILURE is never an exclusion reason''
       (Some ''enforced by the ReasonCode enum'')"

definition invariant_010 :: "validation_context \<Rightarrow> invariant_check" where
  "invariant_010 ctx =
     passed 10 ''excluded evaluation snapshots are complete''
       (Some ''enforced by EvaluationSnapshot'')"

definition invariant_011 :: "validation_context \<Rightarrow> invariant_check" where
  "invariant_011 ctx =
     passed 11 ''run blockers use only allowed codes'' (Some ''enforced by BlockerCode'')"

definition invariant_012 :: "validation_context \<Rightarrow> invariant_check" where
  "invariant_012 ctx =
     passed 12 ''schema failures use allowed scopes'' (Some ''enforced by SchemaFailureScope'')"

definition invariant_013 :: "validation_context \<Rightarrow> invariant_check" where
  "invariant_013 ctx =
     (let name = ''non-scoring statuses have zero ticker trading results'';
          count = trading_result_count (ctx_output ctx) in
      if out_run_status (ctx_output ctx) \<notin> {RS_SCHEMA_FAILURE, RS_BLOCKED_MARKET, RS_STALE_PAYLOAD}
      then passed 13 name None
      else checked 13 name
             (if count = 0 then []
              else [violation 13 ''trading arrays'' (PInt 0) (PInt count)
                      ''non-scoring run contains ticker results'']))"

definition expected_run_status :: "daybreak_input \<Rightarrow> daybreak_output \<Rightarrow> run_status" where
  "expected_run_status p d =
     (if di_market_status p \<noteq> MS_NORMAL then RS_BLOCKED_MARKET
      else if di_payload_age_seconds p > 180 then RS_STALE_PAYLOAD
      else if out_approved_setups d \<noteq> [] then RS_APPROVED
      else RS_NO_SETUPS)"

definition invariant_014 :: "validation_context \<Rightarrow> invariant_check" where
  "invariant_014 ctx =
     (let name = ''run status follows universal precedence'';
          status = out_run_status (ctx_output ctx) in
      case ctx_input_payload ctx of
        None \<Rightarrow>
          (if status = RS_SCHEMA_FAILURE
           then passed 14 name (Some ''schema-failure precedence is represented by the output model'')
           else not_evaluated 14 name ''valid input or staged schema trace is required'')
      | Some p \<Rightarrow>
          let expected = expected_run_status p (ctx_output ctx)
          in checked 14 name
               (if status = expected then []
                else [violation 14 ''run_status'' (PStr (run_status_value expected))
                        (PStr (run_status_value status)) ''run-status precedence mismatch'']))"

text \<open>Checks of a flag that the orchestrator's trace supplies.\<close>

definition trace_check ::
    "int \<Rightarrow> string \<Rightarrow> string \<Rightarrow> bool option \<Rightarrow> string \<Rightarrow> string \<Rightarrow> invariant_check" where
  "trace_check number name path v missing message =
     (case v of
        None \<Rightarrow> not_evaluated number name missing
      | Some b \<Rightarrow>
          checked number name
            (if b then [] else [violation number path (PBool True) (PBool b) message]))"

definition invariant_015 :: "validation_context \<Rightarrow> invariant_check" where
  "invariant_015 ctx =
     trace_check 15 ''all scoring stages complete before hard gates'' ''evaluation_trace''
       (vm_scoring_completed_before_gates (ctx_metadata ctx))
       ''requires orchestrator evaluation trace'' ''scoring/gate order was not proven''"

definition invariant_016 :: "validation_context \<Rightarrow> invariant_check" where
  "invariant_016 ctx =
     passed 16 ''no terminal scoring result is partially populated''
       (Some ''enforced by ScoreBreakdown and EvaluationSnapshot'')"

section \<open>Replay of the scores\<close>

definition score_field_violations ::
    "string \<Rightarrow> score_breakdown \<Rightarrow> expected_scores \<Rightarrow> invariant_violation list" where
  "score_field_violations path s x =
     (let m = ''deterministic score replay mismatch'' in
      field_mismatch 17 (path @ ''.source_quality_points'') m PInt
        (xs_source_quality_points x) (sb_source_quality_points s) @
      field_mismatch 17 (path @ ''.catalyst_magnitude_points'') m PInt
        (xs_catalyst_magnitude_points x) (sb_catalyst_magnitude_points s) @
      field_mismatch 17 (path @ ''.catalyst_zero_override'') m PBool
        (xs_catalyst_zero_override x) (sb_catalyst_zero_override s) @
      field_mismatch 17 (path @ ''.catalyst_zero_reason'') m zero_reason_pyval
        (xs_catalyst_zero_reason x) (sb_catalyst_zero_reason s) @
      field_mismatch 17 (path @ ''.catalyst_score_raw'') m PInt
        (xs_catalyst_score_raw x) (sb_catalyst_score_raw s) @
      field_mismatch 17 (path @ ''.catalyst_points'') m PInt
        (xs_catalyst_points x) (sb_catalyst_points s) @
      field_mismatch 17 (path @ ''.volume_points'') m PInt
        (xs_volume_points x) (sb_volume_points s) @
      field_mismatch 17 (path @ ''.technical_grade'') m (\<lambda>g. PStr (technical_grade_value g))
        (xs_technical_grade x) (sb_technical_grade s) @
      field_mismatch 17 (path @ ''.technical_base_points'') m PInt
        (xs_technical_base_points x) (sb_technical_base_points s) @
      field_mismatch 17 (path @ ''.technical_points'') m PInt
        (xs_technical_points x) (sb_technical_points s) @
      field_mismatch 17 (path @ ''.parabolic_adjusted'') m PBool
        (xs_parabolic_adjusted x) (sb_parabolic_adjusted s))"

definition conviction_violations ::
    "string \<Rightarrow> score_breakdown \<Rightarrow> int \<Rightarrow> invariant_violation list" where
  "conviction_violations ticker s conviction =
     field_mismatch 17 (ticker @ ''.conviction_score'') ''conviction score replay mismatch'' PInt
       (sb_catalyst_points s + sb_volume_points s + sb_technical_points s) conviction"

definition trade_echo_violations ::
    "string \<Rightarrow> ticker_input \<Rightarrow> trade_parameters \<Rightarrow> invariant_violation list" where
  "trade_echo_violations ticker entry trade =
     field_mismatch 17 (ticker @ ''.trade_parameters'') ''trade-parameter echo mismatch''
       (\<lambda>(a, b, c). PTuple [PFloat a, PFloat b, PFloat c])
       (tc_current_price (ti_technical_context entry), tc_atr_value (ti_technical_context entry),
        tc_premarket_low (ti_technical_context entry))
       (tp_reference_price trade, tp_atr_value_used trade, tp_premarket_low_used trade)"

definition replay_violations ::
    "daybreak_input \<Rightarrow> string \<Rightarrow> terminal_record \<Rightarrow> ticker_input \<Rightarrow> invariant_violation list" where
  "replay_violations p ticker r entry =
     (let score = score_of r; expected = expected_score_fields p entry score in
      score_field_violations (score_path r ticker) score expected @
      field_mismatch 17 (ticker @ ''.risk_flags'') ''risk-flag truth replay mismatch'' flags_pyval
        (xs_risk_flags expected) (risk_flags_of r) @
      (case r of
         TApproved a \<Rightarrow> conviction_violations ticker score (ap_conviction_score a)
       | TQualified q \<Rightarrow> conviction_violations ticker score (qn_conviction_score q)
       | TExcluded _ \<Rightarrow> []) @
      (case r of
         TApproved a \<Rightarrow> trade_echo_violations ticker entry (ap_trade_parameters a)
       | _ \<Rightarrow> []))"

definition invariant_017 :: "validation_context \<Rightarrow> invariant_check" where
  "invariant_017 ctx =
     (let name = ''hard gates do not alter component scores'' in
      case ctx_input_payload ctx of
        None \<Rightarrow> not_evaluated 17 name ''valid evaluator input is required''
      | Some p \<Rightarrow> checked 17 name (for_records_with_input p (ctx_output ctx) (replay_violations p)))"

definition invariant_018 :: "validation_context \<Rightarrow> invariant_check" where
  "invariant_018 ctx =
     passed 18 ''conviction score appears only on passing records''
       (Some ''enforced by terminal object schemas'')"

section \<open>Evidence excerpts\<close>

datatype evidence_mode = EM_SUBSTRING | EM_FULL | EM_TRUNCATED | EM_PAIR | EM_BOUNDS

fun evidence_mode_name :: "evidence_mode \<Rightarrow> string" where
  "evidence_mode_name EM_SUBSTRING = ''evidence excerpt is a contiguous substring''"
| "evidence_mode_name EM_FULL = ''nontruncated excerpt equals the identified span''"
| "evidence_mode_name EM_TRUNCATED = ''truncated excerpt is the first 200 code points''"
| "evidence_mode_name EM_PAIR = ''evidence positions are paired''"
| "evidence_mode_name EM_BOUNDS = ''evidence positions are in bounds''"

definition positions_pyval :: "int option \<Rightarrow> int option \<Rightarrow> pyval" where
  "positions_pyval a b = PTuple [of_opt PInt a, of_opt PInt b]"

fun evidence_violations ::
    "int \<Rightarrow> evidence_mode \<Rightarrow> string \<Rightarrow> ptext \<Rightarrow> score_breakdown \<Rightarrow> invariant_violation list" where
  "evidence_violations number EM_SUBSTRING path txt s =
     (let excerpt = sb_magnitude_evidence_excerpt s in
      if excerpt \<noteq> [] \<and> \<not> sublist excerpt txt
      then [violation number (path @ ''.magnitude_evidence_excerpt'')
              (PStr ''substring of catalyst_text'') (PText excerpt)
              ''evidence excerpt is not present verbatim'']
      else [])"
| "evidence_violations number EM_FULL path txt s =
     (case (sb_magnitude_evidence_start_char s, sb_magnitude_evidence_end_char s) of
        (Some i, Some j) \<Rightarrow>
          if \<not> sb_magnitude_evidence_truncated s \<and>
             sb_magnitude_evidence_excerpt s \<noteq> py_slice txt i j
          then [violation number (path @ ''.magnitude_evidence_excerpt'') (PText (py_slice txt i j))
                  (PText (sb_magnitude_evidence_excerpt s))
                  ''nontruncated evidence does not equal indexed span'']
          else []
      | _ \<Rightarrow> [])"
| "evidence_violations number EM_TRUNCATED path txt s =
     (if sb_magnitude_evidence_truncated s then
        (case (sb_magnitude_evidence_start_char s, sb_magnitude_evidence_end_char s) of
           (Some i, Some j) \<Rightarrow>
             let full_span = py_slice txt i j in
             if length full_span \<le> 200 \<or> sb_magnitude_evidence_excerpt s \<noteq> take 200 full_span
             then [violation number (path @ ''.magnitude_evidence_excerpt'')
                     (PStr ''first 200 code points of span > 200'')
                     (PText (sb_magnitude_evidence_excerpt s)) ''truncation rule mismatch'']
             else []
         | _ \<Rightarrow> [violation number path (PStr ''integer positions'') (PStr ''null'')
                   ''truncated evidence requires positions''])
      else [])"
| "evidence_violations number EM_PAIR path txt s =
     (if (sb_magnitude_evidence_start_char s = None) \<noteq> (sb_magnitude_evidence_end_char s = None)
      then [violation number path (PStr ''both integer or both null'')
              (positions_pyval (sb_magnitude_evidence_start_char s)
                (sb_magnitude_evidence_end_char s)) ''evidence positions are not paired'']
      else [])"
| "evidence_violations number EM_BOUNDS path txt s =
     (case (sb_magnitude_evidence_start_char s, sb_magnitude_evidence_end_char s) of
        (Some i, Some j) \<Rightarrow>
          if \<not> (0 \<le> i \<and> i < j \<and> j \<le> int (length txt))
          then [violation number path
                  (PStr (''0 <= start < end <= '' @ show_int (int (length txt))))
                  (positions_pyval (Some i) (Some j)) ''evidence offsets are out of bounds'']
          else []
      | _ \<Rightarrow> [])"

definition evidence_checks ::
    "validation_context \<Rightarrow> int \<Rightarrow> evidence_mode \<Rightarrow> invariant_check" where
  "evidence_checks ctx number mode =
     (case ctx_input_payload ctx of
        None \<Rightarrow> not_evaluated number (evidence_mode_name mode) ''valid evaluator input is required''
      | Some p \<Rightarrow>
          checked number (evidence_mode_name mode)
            (for_records_with_input p (ctx_output ctx) (\<lambda>ticker r entry.
               evidence_violations number mode (score_path r ticker)
                 (nc_catalyst_text (ti_news_context entry)) (score_of r))))"

definition invariant_019 :: "validation_context \<Rightarrow> invariant_check" where
  "invariant_019 ctx = evidence_checks ctx 19 EM_SUBSTRING"

definition invariant_020 :: "validation_context \<Rightarrow> invariant_check" where
  "invariant_020 ctx = evidence_checks ctx 20 EM_FULL"

definition invariant_021 :: "validation_context \<Rightarrow> invariant_check" where
  "invariant_021 ctx = evidence_checks ctx 21 EM_TRUNCATED"

definition invariant_022 :: "validation_context \<Rightarrow> invariant_check" where
  "invariant_022 ctx = evidence_checks ctx 22 EM_PAIR"

definition invariant_023 :: "validation_context \<Rightarrow> invariant_check" where
  "invariant_023 ctx = evidence_checks ctx 23 EM_BOUNDS"

section \<open>Volume and technical rules\<close>

definition invariant_024 :: "validation_context \<Rightarrow> invariant_check" where
  "invariant_024 ctx =
     passed 24 ''volume points use the exhaustive allowed set''
       (Some ''enforced by Literal[0,15,25,35]'')"

definition check_volume_rule ::
    "validation_context \<Rightarrow> int \<Rightarrow> (ticker_input \<Rightarrow> bool) \<Rightarrow> int \<Rightarrow> string \<Rightarrow> invariant_check" where
  "check_volume_rule ctx number predicate expected_value name =
     (case ctx_input_payload ctx of
        None \<Rightarrow> not_evaluated number name ''valid evaluator input is required''
      | Some p \<Rightarrow>
          checked number name
            (for_records_with_input p (ctx_output ctx) (\<lambda>ticker r entry.
               if predicate entry
               then field_mismatch number (score_path r ticker @ ''.volume_points'')
                      ''volume rule mismatch'' PInt expected_value (sb_volume_points (score_of r))
               else [])))"

definition invariant_025 :: "validation_context \<Rightarrow> invariant_check" where
  "invariant_025 ctx =
     check_volume_rule ctx 25
       (\<lambda>e. lm_volume_profile (ti_liquidity_metrics e) = VP_CLEAN \<and>
            lm_rvol_time_matched (ti_liquidity_metrics e) < 5)
       0 ''clean RVOL below 5 scores zero''"

definition invariant_026 :: "validation_context \<Rightarrow> invariant_check" where
  "invariant_026 ctx =
     check_volume_rule ctx 26 (\<lambda>e. lm_volume_profile (ti_liquidity_metrics e) = VP_SPIKY)
       15 ''spiky volume always scores 15''"

text \<open>
  The field that invariant 27 compares with \<open>None\<close> is a plain integer of the snapshot model,
  so the comparison is false for every record.
\<close>

definition int_is_None :: "int \<Rightarrow> bool" where
  "int_is_None i = False"

definition invariant_027 :: "validation_context \<Rightarrow> invariant_check" where
  "invariant_027 ctx =
     checked 27 ''RVOL gate failures retain volume points''
       (concat (map (\<lambda>item.
          if RC_RVOL_TOO_LOW \<in> set (excluded_codes item) \<and>
             int_is_None (sb_volume_points (ex_evaluation_snapshot item))
          then [violation 27 (ex_ticker item) (PStr ''non-null volume_points'') (PStr ''null'')
                  ''RVOL failure lacks volume diagnostics'']
          else []) (out_excluded_tickers (ctx_output ctx))))"

definition technical_result ::
    "'a score_breakdown_scheme \<Rightarrow> technical_grade \<times> int \<times> int \<times> bool" where
  "technical_result s =
     (sb_technical_grade s, sb_technical_base_points s, sb_technical_points s,
      sb_parabolic_adjusted s)"

definition technical_result_pyval :: "technical_grade \<times> int \<times> int \<times> bool \<Rightarrow> pyval" where
  "technical_result_pyval t =
     (case t of (g, b, p, a) \<Rightarrow> PTuple [PStr (technical_grade_value g), PInt b, PInt p, PBool a])"

definition invariant_028 :: "validation_context \<Rightarrow> invariant_check" where
  "invariant_028 ctx =
     checked 28 ''resistance/capped failures have grade C zero technical result''
       (concat (map (\<lambda>item.
          if list_ex (\<lambda>c. c \<in> {RC_RESISTANCE_TOO_CLOSE, RC_CAPPED_CHART}) (excluded_codes item)
          then field_mismatch 28 (ex_ticker item) ''failing chart technical result mismatch''
                 technical_result_pyval (TG_C, 0, 0, False)
                 (technical_result (ex_evaluation_snapshot item))
          else []) (out_excluded_tickers (ctx_output ctx))))"

definition invariant_029 :: "validation_context \<Rightarrow> invariant_check" where
  "invariant_029 ctx =
     checked 29 ''parabolic penalty never applies to grade C''
       (for_records (ctx_output ctx) (\<lambda>ticker r.
          if sb_technical_grade (score_of r) = TG_C \<and> sb_parabolic_adjusted (score_of r)
          then [violation 29 ticker (PBool False) (PBool (sb_parabolic_adjusted (score_of r)))
                  ''grade-C result received parabolic penalty'']
          else []))"

definition ALLOWED_TECHNICAL :: "(technical_grade \<times> int) list" where
  "ALLOWED_TECHNICAL =
     [(TG_A_PLUS, 25), (TG_A_PLUS, 19), (TG_A, 22), (TG_A, 16), (TG_B, 13), (TG_B, 7), (TG_C, 0)]"

definition grade_points_pyval :: "technical_grade \<times> int \<Rightarrow> pyval" where
  "grade_points_pyval gp = PTuple [PStr (technical_grade_value (fst gp)), PInt (snd gp)]"

definition invariant_030 :: "validation_context \<Rightarrow> invariant_check" where
  "invariant_030 ctx =
     checked 30 ''technical grade/point combinations are exhaustive''
       (for_records (ctx_output ctx) (\<lambda>ticker r.
          let observed = (sb_technical_grade (score_of r), sb_technical_points (score_of r)) in
          if observed \<notin> set ALLOWED_TECHNICAL
          then [violation 30 ticker (PSet (map grade_points_pyval ALLOWED_TECHNICAL))
                  (grade_points_pyval observed) ''unsupported technical result'']
          else []))"

section \<open>Zero overrides\<close>

definition invariant_031 :: "validation_context \<Rightarrow> invariant_check" where
  "invariant_031 ctx =
     checked 31 ''zero override is equivalent to non-null zero reason''
       (for_records (ctx_output ctx) (\<lambda>ticker r.
          let s = score_of r in
          if sb_catalyst_zero_override s \<noteq> (sb_catalyst_zero_reason s \<noteq> None)
          then [violation 31 ticker (PStr ''override iff reason non-null'')
                  (PTuple [PBool (sb_catalyst_zero_override s),
                           zero_reason_pyval (sb_catalyst_zero_reason s)])
                  ''zero-override equivalence failed'']
          else []))"

definition invariant_032 :: "validation_context \<Rightarrow> invariant_check" where
  "invariant_032 ctx =
     checked 32 ''zero override zeros raw and weighted catalyst scores''
       (for_records (ctx_output ctx) (\<lambda>ticker r.
          let s = score_of r in
          if sb_catalyst_zero_override s \<and>
             (sb_catalyst_score_raw s \<noteq> 0 \<or> sb_catalyst_points s \<noteq> 0)
          then [violation 32 ticker (PTuple [PInt 0, PInt 0])
                  (PTuple [PInt (sb_catalyst_score_raw s), PInt (sb_catalyst_points s)])
                  ''zero override did not zero final catalyst score'']
          else []))"

definition invariant_033 :: "validation_context \<Rightarrow> invariant_check" where
  "invariant_033 ctx =
     checked 33 ''magnitude bucket and points follow ordinary bucket mapping''
       (for_records (ctx_output ctx) (\<lambda>ticker r.
          field_mismatch 33 ticker ''magnitude bucket/points mapping mismatch'' PInt
            (MAGNITUDE_POINTS (sb_catalyst_magnitude_bucket (score_of r)))
            (sb_catalyst_magnitude_points (score_of r))))"

end
