(* ===== verification/Invariants_B.thy ===== *)
theory Invariants_B
  imports Invariants_A
begin

text \<open>
  Invariants 34 to 77 of \<open>daybreak_contracts/validation/invariants.py\<close>, in the order of the
  module.
\<close>

section \<open>Zero reasons and their evidence\<close>

definition invariant_034 :: "validation_context \<Rightarrow> invariant_check" where
  "invariant_034 ctx =
     (let name = ''disqualifier override changes evidence target, not bucket'' in
      case ctx_input_payload ctx of
        None \<Rightarrow> not_evaluated 34 name ''valid input is required''
      | Some p \<Rightarrow>
          let applicable = map ti_ticker
                (filter (\<lambda>e. nc_disqualifier_flags (ti_news_context e) \<noteq> []) (di_tickers p));
              missing_trace = filter
                (\<lambda>t. t \<notin> set (vm_semantic_magnitude_before_override (ctx_metadata ctx))) applicable
          in if missing_trace \<noteq> []
             then not_evaluated 34 name
                    (''semantic pre-override trace missing for: '' @ join '', '' missing_trace)
             else passed 34 name None)"

definition retains_magnitude :: "score_breakdown \<Rightarrow> bool" where
  "retains_magnitude s \<longleftrightarrow>
     sb_catalyst_zero_reason s = Some ZR_DISQUALIFIER_FLAG \<and> sb_catalyst_magnitude_points s > 0 \<and>
     sb_catalyst_score_raw s = 0 \<and> sb_catalyst_points s = 0"

definition invariant_035 :: "validation_context \<Rightarrow> invariant_check" where
  "invariant_035 ctx =
     (let name = ''disqualifier override can retain positive magnitude diagnostics'' in
      if list_ex (\<lambda>(t, r). retains_magnitude (score_of r)) (terminal_records (ctx_output ctx))
      then passed 35 name (Some ''reachability fixture observed'')
      else not_evaluated 35 name
             ''reachability property is asserted by dedicated fixture, not every run'')"

definition records_by_ticker :: "daybreak_output \<Rightarrow> (string, terminal_record) dict" where
  "records_by_ticker d = fold (\<lambda>(t, r) m. AList.update t r m) (terminal_records d) []"

definition invisible_violations :: "string \<Rightarrow> score_breakdown \<Rightarrow> invariant_violation list" where
  "invisible_violations ticker s =
     field_mismatch 36 ticker ''wrong zero reason'' zero_reason_pyval
       (Some ZR_DISQUALIFIER_FLAG) (sb_catalyst_zero_reason s) @
     (if sb_magnitude_evidence_excerpt s \<noteq> [] \<or> sb_magnitude_evidence_start_char s \<noteq> None \<or>
         sb_magnitude_evidence_end_char s \<noteq> None
      then [violation 36 ticker (PStr ''empty evidence and null positions'')
              (PTuple [PText (sb_magnitude_evidence_excerpt s),
                       of_opt PInt (sb_magnitude_evidence_start_char s),
                       of_opt PInt (sb_magnitude_evidence_end_char s)])
              ''invisible disqualifier evidence shape mismatch'']
      else []) @
     field_mismatch 36 ticker ''bucket points were altered by invisible disqualifier'' PInt
       (MAGNITUDE_POINTS (sb_catalyst_magnitude_bucket s)) (sb_catalyst_magnitude_points s)"

definition invariant_036 :: "validation_context \<Rightarrow> invariant_check" where
  "invariant_036 ctx =
     (let name = ''invisible disqualifier evidence does not force no-valid-driver'';
          targets = remdups (vm_invisible_disqualifier_tickers (ctx_metadata ctx));
          records = records_by_ticker (ctx_output ctx) in
      if targets = []
      then not_evaluated 36 name
             ''requires semantic fixture identifying an invisible supplied disqualifier''
      else checked 36 name
             (concat (map (\<lambda>ticker.
                case map_of records ticker of
                  None \<Rightarrow> [violation 36 ticker (PStr ''terminal record'') (PStr ''missing'')
                             ''fixture ticker missing'']
                | Some r \<Rightarrow> invisible_violations ticker (score_of r)) (sort targets))))"

definition invariant_037 :: "validation_context \<Rightarrow> invariant_check" where
  "invariant_037 ctx =
     (let name = ''unconfirmed/stale evidence targets content magnitude'' in
      case ctx_input_payload ctx of
        None \<Rightarrow> not_evaluated 37 name ''valid input is required''
      | Some p \<Rightarrow>
          checked 37 name
            (for_records (ctx_output ctx) (\<lambda>ticker r.
               let s = score_of r in
               if sb_catalyst_zero_reason s \<in> {Some ZR_UNCONFIRMED_SOURCE, Some ZR_STALE_CATALYST} \<and>
                  sb_catalyst_magnitude_bucket s \<noteq> MB_NO_VALID_DRIVER \<and>
                  sb_magnitude_evidence_excerpt s = []
               then [violation 37 ticker
                       (PStr ''content evidence or valid empty-span semantic trace'')
                       (PStr ''empty'')
                       ''metadata zero reason appears to have suppressed content evidence'']
               else [])))"

definition driver_diagnostics ::
    "score_breakdown \<Rightarrow> magnitude_bucket \<times> int \<times> ptext \<times> int option \<times> int option" where
  "driver_diagnostics s =
     (sb_catalyst_magnitude_bucket s, sb_catalyst_magnitude_points s,
      sb_magnitude_evidence_excerpt s, sb_magnitude_evidence_start_char s,
      sb_magnitude_evidence_end_char s)"

definition driver_diagnostics_pyval ::
    "magnitude_bucket \<times> int \<times> ptext \<times> int option \<times> int option \<Rightarrow> pyval" where
  "driver_diagnostics_pyval t =
     (case t of (b, n, x, i, j) \<Rightarrow>
        PTuple [PStr (magnitude_bucket_value b), PInt n, PText x, of_opt PInt i, of_opt PInt j])"

definition invariant_038 :: "validation_context \<Rightarrow> invariant_check" where
  "invariant_038 ctx =
     checked 38 ''no-valid-driver zero reason has canonical diagnostics''
       (for_records (ctx_output ctx) (\<lambda>ticker r.
          if sb_catalyst_zero_reason (score_of r) = Some ZR_NO_VALID_DRIVER
          then field_mismatch 38 ticker ''no-valid-driver diagnostic shape mismatch''
                 driver_diagnostics_pyval (MB_NO_VALID_DRIVER, 0, [], None, None)
                 (driver_diagnostics (score_of r))
          else []))"

definition invariant_039 :: "validation_context \<Rightarrow> invariant_check" where
  "invariant_039 ctx =
     (let name = ''no-valid-driver is assigned only by ordinary content analysis'';
          targets = map fst (filter
            (\<lambda>(t, r). sb_catalyst_zero_reason (score_of r) = Some ZR_NO_VALID_DRIVER)
            (terminal_records (ctx_output ctx)));
          missing = filter
            (\<lambda>t. t \<notin> set (vm_semantic_magnitude_before_override (ctx_metadata ctx))) targets in
      if targets = [] then not_evaluated 39 name ''no no-valid-driver record in this run''
      else if missing \<noteq> []
      then not_evaluated 39 name (''ordinary-content trace missing for: '' @ join '', '' missing)
      else passed 39 name None)"

definition zero_reason_violations ::
    "int \<Rightarrow> string \<Rightarrow> daybreak_input \<Rightarrow> string \<Rightarrow> terminal_record \<Rightarrow> ticker_input \<Rightarrow>
     invariant_violation list" where
  "zero_reason_violations number message p ticker r entry =
     field_mismatch number ticker message zero_reason_pyval
       (xs_catalyst_zero_reason (expected_score_fields p entry (score_of r)))
       (sb_catalyst_zero_reason (score_of r))"

definition invariant_040 :: "validation_context \<Rightarrow> invariant_check" where
  "invariant_040 ctx =
     (let name = ''automatic-zero precedence is exact'' in
      case ctx_input_payload ctx of
        None \<Rightarrow> not_evaluated 40 name ''valid evaluator input is required''
      | Some p \<Rightarrow>
          checked 40 name
            (for_records_with_input p (ctx_output ctx)
               (zero_reason_violations 40 ''automatic-zero precedence mismatch'' p)))"

section \<open>Candidate selection and timing metadata\<close>

definition invariant_041 :: "validation_context \<Rightarrow> invariant_check" where
  "invariant_041 ctx =
     (let name = ''evaluator candidate count does not exceed hard maximum'';
          count = (case vm_evaluator_candidate_count (ctx_metadata ctx) of
                     None \<Rightarrow> map_option (\<lambda>p. int (length (di_tickers p))) (ctx_input_payload ctx)
                   | Some c \<Rightarrow> Some c) in
      case vm_max_evaluator_candidates_hard (ctx_metadata ctx) of
        None \<Rightarrow> not_evaluated 41 name ''hard maximum metadata is required''
      | Some maximum \<Rightarrow>
          (case count of
             None \<Rightarrow> not_evaluated 41 name ''candidate count is required''
           | Some c \<Rightarrow>
               checked 41 name
                 (if c \<le> maximum then []
                  else [violation 41 ''candidate_count'' (PStr (''<= '' @ show_int maximum)) (PInt c)
                          ''candidate hard maximum exceeded''])))"

definition all_terminal_symbols :: "validation_context \<Rightarrow> string list" where
  "all_terminal_symbols ctx = concat (map snd (terminal_symbols ctx))"

definition invariant_042 :: "validation_context \<Rightarrow> invariant_check" where
  "invariant_042 ctx =
     (let overlap = sort (filter
            (\<lambda>s. s \<in> set (vm_prequalified_out_tickers (ctx_metadata ctx)))
            (remdups (all_terminal_symbols ctx))) in
      checked 42 ''prequalified-out candidates are absent from evaluator output''
        (map (\<lambda>symbol. violation 42 symbol (PStr ''absent'') (PStr ''present'')
           ''prequalified-out ticker appeared in evaluator output'') overlap))"

definition invariant_043 :: "validation_context \<Rightarrow> invariant_check" where
  "invariant_043 ctx =
     (let name = ''capacity omissions are logged with policy version'';
          omitted = remdups (vm_capacity_omitted_tickers (ctx_metadata ctx));
          logged = vm_capacity_omissions_logged (ctx_metadata ctx);
          missing = filter (\<lambda>t. t \<notin> set logged) omitted in
      if omitted = [] then passed 43 name None
      else checked 43 name
        ((if missing \<noteq> []
          then [violation 43 ''capacity_omissions_logged'' (PSet (map PStr omitted))
                  (PSet (map PStr logged)) ''capacity omissions were not all logged'']
          else []) @
         (if vm_preselection_policy_version (ctx_metadata ctx) \<in> {None, Some []}
          then [violation 43 ''preselection_policy_version'' (PStr ''nonempty'') PNone
                  ''capacity omission lacks policy version'']
          else [])))"

definition invariant_044 :: "validation_context \<Rightarrow> invariant_check" where
  "invariant_044 ctx =
     (let name = ''late evaluator responses cannot authorize orders'' in
      case (vm_evaluator_response_timestamp (ctx_metadata ctx),
            vm_execution_cutoff_timestamp (ctx_metadata ctx), vm_order_authorized (ctx_metadata ctx)) of
        (Some received, Some cutoff, Some authorized) \<Rightarrow>
          checked 44 name
            (if \<not> (received > cutoff \<and> authorized) then []
             else [violation 44 ''order_authorized'' (PBool False) (PBool True)
                     ''late response authorized an order''])
      | _ \<Rightarrow> not_evaluated 44 name ''response time, cutoff, and authorization metadata are required'')"

section \<open>Chart reachability\<close>

datatype chart_mode = CM_BLUE_SKY_LOW_DISTANCE | CM_CAPPED | CM_CAPPED_REASON_ORDER

fun chart_mode_name :: "chart_mode \<Rightarrow> string" where
  "chart_mode_name CM_BLUE_SKY_LOW_DISTANCE =
     ''blue-sky low-distance case receives C and resistance failure''"
| "chart_mode_name CM_CAPPED = ''every capped case receives C and capped failure''"
| "chart_mode_name CM_CAPPED_REASON_ORDER = ''capped reason precedence is deterministic''"

fun chart_applicable :: "chart_mode \<Rightarrow> technical_context \<Rightarrow> bool" where
  "chart_applicable CM_BLUE_SKY_LOW_DISTANCE t =
     (tc_chart_structure t = CS_BLUE_SKY \<and> tc_distance_to_resistance_atr t < 1)"
| "chart_applicable CM_CAPPED t = (tc_chart_structure t = CS_CAPPED)"
| "chart_applicable CM_CAPPED_REASON_ORDER t = (tc_chart_structure t = CS_CAPPED)"

definition excluded_by_ticker :: "daybreak_output \<Rightarrow> (string, excluded_ticker) dict" where
  "excluded_by_ticker d =
     fold (\<lambda>x m. AList.update (ex_ticker x) x m) (out_excluded_tickers d) []"

definition grade_codes_pyval :: "excluded_ticker \<Rightarrow> pyval" where
  "grade_codes_pyval x =
     PTuple [PStr (technical_grade_value (sb_technical_grade (ex_evaluation_snapshot x))),
             PList (map (\<lambda>c. PStr (reason_code_value c)) (excluded_codes x))]"

fun chart_violations ::
    "int \<Rightarrow> chart_mode \<Rightarrow> string \<Rightarrow> technical_context \<Rightarrow> excluded_ticker \<Rightarrow>
     invariant_violation list" where
  "chart_violations number CM_BLUE_SKY_LOW_DISTANCE ticker tech x =
     (if sb_technical_grade (ex_evaluation_snapshot x) \<noteq> TG_C \<or>
         RC_RESISTANCE_TOO_CLOSE \<notin> set (excluded_codes x)
      then [violation number ticker (PStr ''grade C + RESISTANCE_TOO_CLOSE'') (grade_codes_pyval x)
              ''blue-sky low-distance outcome mismatch'']
      else [])"
| "chart_violations number CM_CAPPED ticker tech x =
     (if sb_technical_grade (ex_evaluation_snapshot x) \<noteq> TG_C \<or>
         RC_CAPPED_CHART \<notin> set (excluded_codes x)
      then [violation number ticker (PStr ''grade C + CAPPED_CHART'') (grade_codes_pyval x)
              ''capped outcome mismatch'']
      else [])"
| "chart_violations number CM_CAPPED_REASON_ORDER ticker tech x =
     field_mismatch number ticker ''capped primary reason order mismatch''
       (\<lambda>c. PStr (reason_code_value c))
       (if tc_distance_to_resistance_atr tech < 1 then RC_RESISTANCE_TOO_CLOSE else RC_CAPPED_CHART)
       (ro_reason_code (ex_primary_reason x))"

definition check_chart_reachability ::
    "validation_context \<Rightarrow> int \<Rightarrow> chart_mode \<Rightarrow> invariant_check" where
  "check_chart_reachability ctx number mode =
     (let name = chart_mode_name mode in
      case ctx_input_payload ctx of
        None \<Rightarrow> not_evaluated number name ''valid input is required''
      | Some p \<Rightarrow>
          let cases = filter (\<lambda>(t, e). chart_applicable mode (ti_technical_context e))
                        (input_by_ticker p);
              errors = concat (map (\<lambda>(ticker, e).
                case map_of (excluded_by_ticker (ctx_output ctx)) ticker of
                  None \<Rightarrow> [violation number ticker (PStr ''excluded'') (PStr ''not excluded'')
                             ''chart reachability case missing exclusion'']
                | Some x \<Rightarrow> chart_violations number mode ticker (ti_technical_context e) x) cases)
          in if cases = []
             then not_evaluated number name ''reachability case is covered by a dedicated fixture''
             else checked number name errors)"

definition invariant_045 :: "validation_context \<Rightarrow> invariant_check" where
  "invariant_045 ctx = check_chart_reachability ctx 45 CM_BLUE_SKY_LOW_DISTANCE"

definition invariant_046 :: "validation_context \<Rightarrow> invariant_check" where
  "invariant_046 ctx = check_chart_reachability ctx 46 CM_CAPPED"

definition invariant_047 :: "validation_context \<Rightarrow> invariant_check" where
  "invariant_047 ctx = check_chart_reachability ctx 47 CM_CAPPED_REASON_ORDER"

definition renumber :: "int \<Rightarrow> invariant_violation \<Rightarrow> invariant_violation" where
  "renumber n v = v\<lparr>iv_invariant_number := n\<rparr>"

definition invariant_048 :: "validation_context \<Rightarrow> invariant_check" where
  "invariant_048 ctx =
     (let base = invariant_031 ctx in
      base\<lparr>ic_invariant_number := 48,
           ic_name := ''zero reason nullability is consistent in all score records'',
           ic_violations := map (renumber 48) (ic_violations base)\<rparr>)"

definition invariant_049 :: "validation_context \<Rightarrow> invariant_check" where
  "invariant_049 ctx =
     passed 49 ''standalone catalyst/liquidity thesis fields never appear''
       (Some ''enforced by extra=forbid terminal schemas'')"

definition invariant_050 :: "validation_context \<Rightarrow> invariant_check" where
  "invariant_050 ctx =
     passed 50 ''every schema-valid terminal record contains risk_flags''
       (Some ''enforced by terminal schemas'')"

section \<open>Echo fields\<close>

text \<open>\<open>raw_input.get(key) is None\<close>: the key is absent or maps to JSON null.\<close>

definition raw_missing :: "json \<Rightarrow> string \<Rightarrow> bool" where
  "raw_missing j k \<longleftrightarrow> (case json_get j k of None \<Rightarrow> True | Some v \<Rightarrow> v = JNull)"

definition echo_violation ::
    "json \<Rightarrow> string \<Rightarrow> string \<Rightarrow> pyval option \<Rightarrow> invariant_violation list" where
  "echo_violation raw source target observed =
     (case observed of
        None \<Rightarrow> []
      | Some v \<Rightarrow>
          if raw_missing raw source
          then [violation 51 target PNone v ''missing source echo was repaired''] else [])"

definition invariant_051 :: "validation_context \<Rightarrow> invariant_check" where
  "invariant_051 ctx =
     (let name = ''schema-failure echoes are null only for invalid or missing source fields'';
          d = ctx_output ctx in
      if out_run_status d \<noteq> RS_SCHEMA_FAILURE then passed 51 name None
      else case ctx_raw_input ctx of
        None \<Rightarrow> not_evaluated 51 name ''raw invalid input is required''
      | Some raw \<Rightarrow>
          checked 51 name
            (echo_violation raw ''evaluation_timestamp'' ''execution_timestamp''
               (map_option PStr (out_execution_timestamp d)) @
             echo_violation raw ''payload_timestamp'' ''payload_timestamp_used''
               (map_option PStr (out_payload_timestamp_used d)) @
             echo_violation raw ''market_status'' ''market_status''
               (map_option (\<lambda>m. PStr (market_status_value m)) (out_market_status d))))"

definition echo_values ::
    "daybreak_output \<Rightarrow> string option \<times> string option \<times> market_status option" where
  "echo_values d =
     (out_execution_timestamp d, out_payload_timestamp_used d, out_market_status d)"

definition echo_pyval :: "string option \<times> string option \<times> market_status option \<Rightarrow> pyval" where
  "echo_pyval t =
     (case t of (a, b, m) \<Rightarrow>
        PTuple [of_opt PStr a, of_opt PStr b, of_opt (\<lambda>s. PStr (market_status_value s)) m])"

definition invariant_052 :: "validation_context \<Rightarrow> invariant_check" where
  "invariant_052 ctx =
     (let name = ''non-schema-failure echo fields are valid, non-null, and exact'';
          d = ctx_output ctx; values = echo_values d in
      if out_run_status d = RS_SCHEMA_FAILURE then passed 52 name None
      else checked 52 name
        ((if out_execution_timestamp d = None \<or> out_payload_timestamp_used d = None \<or>
             out_market_status d = None
          then [violation 52 ''echo fields'' (PStr ''all non-null'') (echo_pyval values)
                  ''non-schema response contains null echo'']
          else []) @
         (case ctx_input_payload ctx of
            None \<Rightarrow> []
          | Some p \<Rightarrow>
              field_mismatch 52 ''echo fields'' ''top-level echo mismatch'' echo_pyval
                (Some (di_evaluation_timestamp p), Some (di_payload_timestamp p),
                 Some (di_market_status p)) values)))"

definition invariant_053 :: "validation_context \<Rightarrow> invariant_check" where
  "invariant_053 ctx =
     (let name = ''valid payload tickers are canonical and unique'' in
      case ctx_input_payload ctx of
        None \<Rightarrow> not_evaluated 53 name ''valid input model is required''
      | Some p \<Rightarrow>
          let symbols = map ti_ticker (di_tickers p) in
          checked 53 name
            (if length symbols = length (remdups symbols) then []
             else [violation 53 ''tickers'' (PStr ''unique'') (PList (map PStr symbols))
                     ''duplicate symbols'']))"

definition invariant_054 :: "validation_context \<Rightarrow> invariant_check" where
  "invariant_054 ctx =
     (let name = ''catalyst freshness uses the payload-level threshold'' in
      case ctx_input_payload ctx of
        None \<Rightarrow> not_evaluated 54 name ''valid input is required''
      | Some p \<Rightarrow>
          checked 54 name
            (for_records_with_input p (ctx_output ctx)
               (zero_reason_violations 54 ''freshness/zero-reason replay mismatch'' p)))"

definition invariant_055 :: "validation_context \<Rightarrow> invariant_check" where
  "invariant_055 ctx =
     (let name = ''both chart hard gates are independently reachable'';
          primary_codes = map (\<lambda>x. ro_reason_code (ex_primary_reason x))
            (out_excluded_tickers (ctx_output ctx)) in
      if RC_RESISTANCE_TOO_CLOSE \<in> set primary_codes \<and> RC_CAPPED_CHART \<in> set primary_codes
      then passed 55 name None
      else not_evaluated 55 name ''requires a fixture containing both independent primary outcomes'')"

definition invariant_056 :: "validation_context \<Rightarrow> invariant_check" where
  "invariant_056 ctx =
     passed 56 ''output narrative fields are restricted''
       (Some ''enforced by strict terminal schemas'')"

section \<open>Staged validation\<close>

definition invariant_057 :: "validation_context \<Rightarrow> invariant_check" where
  "invariant_057 ctx =
     trace_check 57 ''duplicate detection follows ticker validation'' ''validation_trace''
       (vm_duplicate_detection_after_ticker_validation (ctx_metadata ctx))
       ''requires staged input-validation trace'' ''duplicate check ran in the wrong phase''"

definition invariant_058 :: "validation_context \<Rightarrow> invariant_check" where
  "invariant_058 ctx =
     trace_check 58 ''only fully valid tickers participate in duplicate detection''
       ''validation_trace'' (vm_duplicate_detection_valid_only (ctx_metadata ctx))
       ''requires staged input-validation trace''
       ''invalid ticker participated in duplicate detection''"

text \<open>The ticker list of a raw input, when it is a list.\<close>

definition raw_tickers :: "validation_context \<Rightarrow> json list option" where
  "raw_tickers ctx =
     (case ctx_raw_input ctx of
        None \<Rightarrow> None
      | Some raw \<Rightarrow> (case json_get raw ''tickers'' of Some (JArr xs) \<Rightarrow> Some xs | _ \<Rightarrow> None))"

text \<open>\<open>item.get("ticker")\<close> for the items that are objects, when it is a string.\<close>

fun raw_ticker_string :: "json \<Rightarrow> string option" where
  "raw_ticker_string (JObj kvs) = (case map_of kvs ''ticker'' of Some (JStr s) \<Rightarrow> Some s | _ \<Rightarrow> None)"
| "raw_ticker_string _ = None"

definition raw_canonical :: "json list \<Rightarrow> string list" where
  "raw_canonical items = filter is_canonical_ticker (List.map_filter raw_ticker_string items)"

definition raw_invalid_strings :: "json list \<Rightarrow> string list" where
  "raw_invalid_strings items =
     filter (\<lambda>s. \<not> is_canonical_ticker s) (List.map_filter raw_ticker_string items)"

definition has_duplicate :: "string list \<Rightarrow> bool" where
  "has_duplicate xs \<longleftrightarrow> list_ex (\<lambda>x. count_list xs x > 1) xs"

definition invariant_059 :: "validation_context \<Rightarrow> invariant_check" where
  "invariant_059 ctx =
     (let name = ''duplicate-valid-ticker response is a non-scoring schema failure'';
          d = ctx_output ctx in
      case raw_tickers ctx of
        None \<Rightarrow> not_evaluated 59 name ''raw input ticker list is required''
      | Some items \<Rightarrow>
          if \<not> has_duplicate (raw_canonical items)
          then not_evaluated 59 name ''no duplicate-valid-ticker fixture in this run''
          else
            let arrays_empty = (out_approved_setups d = [] \<and> out_qualified_not_selected d = [] \<and>
                                out_excluded_tickers d = [] \<and> out_run_blockers d = []);
                condition = (out_run_status d = RS_SCHEMA_FAILURE \<and> arrays_empty)
            in checked 59 name
                 (if condition then []
                  else [violation 59 ''duplicate response''
                          (PStr ''schema_failure with empty trading/blocker arrays'')
                          (PStr (run_status_value (out_run_status d)))
                          ''duplicate response shape mismatch'']))"

definition invariant_060 :: "validation_context \<Rightarrow> invariant_check" where
  "invariant_060 ctx =
     (let name = ''duplicate failure preserves independent ticker failures'' in
      case raw_tickers ctx of
        None \<Rightarrow> not_evaluated 60 name ''raw input ticker list is required''
      | Some items \<Rightarrow>
          if \<not> has_duplicate (raw_canonical items) \<or> raw_invalid_strings items = []
          then not_evaluated 60 name
                 ''requires duplicate-valid and independent invalid-ticker conditions''
          else
            let reported = map sf_ticker
                  (filter (\<lambda>f. sf_scope f = SFS_TICKER) (out_schema_failures (ctx_output ctx)));
                missing = filter (\<lambda>t. Some t \<notin> set reported) (raw_invalid_strings items)
            in checked 60 name
                 (map (\<lambda>ticker. violation 60 ticker (PStr ''preserved ticker failure'')
                    (PStr ''missing'') ''duplicate failure erased independent ticker failure'')
                    missing))"

definition invariant_061 :: "validation_context \<Rightarrow> invariant_check" where
  "invariant_061 ctx =
     passed 61 ''partition equation is not applied during schema failure''
       (Some ''the partition validator skips schema_failure'')"

definition invariant_062 :: "validation_context \<Rightarrow> invariant_check" where
  "invariant_062 ctx =
     trace_check 62 ''ticker validation and duplicate detection precede blockers''
       ''validation_trace''
       (vm_operational_blockers_after_schema_validation (ctx_metadata ctx))
       ''requires staged validation trace'' ''operational blockers ran too early''"

fun blocker_code_value :: "blocker_code \<Rightarrow> string" where
  "blocker_code_value BC_MARKET_NOT_NORMAL = ''MARKET_NOT_NORMAL''"
| "blocker_code_value BC_PAYLOAD_STALE = ''PAYLOAD_STALE''"

definition blockers_pyval :: "run_blocker list \<Rightarrow> pyval" where
  "blockers_pyval bs =
     PTuple (map (\<lambda>b. PDict [(''blocker_code'', PStr (blocker_code_value (rb_blocker_code b))),
       (''field'', PStr (rb_field b)), (''observed_value'', PStr (rb_observed_value b)),
       (''required_condition'', PStr (rb_required_condition b)), (''reason'', PStr (rb_reason b))]) bs)"

definition invariant_063 :: "validation_context \<Rightarrow> invariant_check" where
  "invariant_063 ctx =
     (let name = ''operational blockers do not suppress eligible schema failures'';
          d = ctx_output ctx in
      if out_schema_failures d \<noteq> [] \<and> out_run_blockers d \<noteq> []
      then checked 63 name
             [violation 63 ''run_blockers'' (PStr ''empty'') (blockers_pyval (out_run_blockers d))
                ''blocker coexists with schema failure'']
      else passed 63 name None)"

definition invariant_064 :: "validation_context \<Rightarrow> invariant_check" where
  "invariant_064 ctx =
     (let name = ''schema failure status has nonempty failures and empty blockers'';
          d = ctx_output ctx in
      if out_schema_failures d = [] then passed 64 name None
      else checked 64 name
             (if out_run_status d = RS_SCHEMA_FAILURE \<and> out_run_blockers d = [] then []
              else [violation 64 ''run status/arrays''
                      (PStr ''schema_failure + failures + no blockers'')
                      (PStr (run_status_value (out_run_status d)))
                      ''schema failure terminal state mismatch'']))"

definition invariant_065 :: "validation_context \<Rightarrow> invariant_check" where
  "invariant_065 ctx =
     (let d = ctx_output ctx in
      checked 65 ''schema_failures and run_blockers are mutually exclusive''
        (if \<not> (out_schema_failures d \<noteq> [] \<and> out_run_blockers d \<noteq> []) then []
         else [violation 65 ''top-level arrays'' (PStr ''not both nonempty'') (PStr ''both nonempty'')
                 ''failure/blocker exclusivity violated'']))"

definition invariant_066 :: "validation_context \<Rightarrow> invariant_check" where
  "invariant_066 ctx =
     (let name = ''operational blockers run only after eligible schema phases pass'';
          d = ctx_output ctx in
      case vm_operational_blockers_after_schema_validation (ctx_metadata ctx) of
        None \<Rightarrow>
          (if out_run_blockers d \<noteq> [] \<and> out_schema_failures d \<noteq> []
           then checked 66 name
                  [violation 66 ''top-level arrays'' (PStr ''schema valid before blockers'')
                     (PStr ''schema failures present'') ''blocker evaluated on schema-invalid run'']
           else not_evaluated 66 name ''requires staged validation trace for affirmative proof'')
      | Some b \<Rightarrow>
          checked 66 name
            (if b then []
             else [violation 66 ''validation_trace'' (PBool True) (PBool b)
                     ''blocker phase order mismatch'']))"

section \<open>Ranking and flags\<close>

definition observed_passing_order :: "validation_context \<Rightarrow> string list" where
  "observed_passing_order ctx = approved_symbols ctx @ qualified_symbols ctx"

definition rank_violations ::
    "validation_context \<Rightarrow> nat \<Rightarrow> string \<Rightarrow> invariant_violation list" where
  "rank_violations ctx index ticker =
     (if index \<le> 3 \<and> ticker \<notin> set (approved_symbols ctx)
      then [violation 67 ticker (PStr ''approved rank 1-3'') (PStr ''not approved'')
              ''top-three ticker routed incorrectly'']
      else []) @
     (if index \<ge> 4 then
        (let item = find (\<lambda>q. qn_ticker q = ticker) (out_qualified_not_selected (ctx_output ctx)) in
         if (case item of None \<Rightarrow> True | Some q \<Rightarrow> qn_final_rank q \<noteq> int index)
         then [violation 67 ticker (PStr (''qualified rank '' @ show_int (int index)))
                 (of_opt (\<lambda>q. PInt (qn_final_rank q)) item)
                 ''rank-4+ ticker routed or ranked incorrectly'']
         else [])
      else [])"

definition invariant_067 :: "validation_context \<Rightarrow> invariant_check" where
  "invariant_067 ctx =
     (let ordered = expected_passing_order (ctx_output ctx); observed = observed_passing_order ctx in
      checked 67 ''passing records are split by final rank into approved and qualified''
        ((if observed \<noteq> ordered
          then [violation 67 ''passing order'' (PList (map PStr ordered)) (PList (map PStr observed))
                  ''passing records are not in deterministic rank order'']
          else []) @
         concat (map (\<lambda>(index, ticker). rank_violations ctx index ticker) (enumerate 1 ordered))))"

definition invariant_068 :: "validation_context \<Rightarrow> invariant_check" where
  "invariant_068 ctx =
     passed 68 ''qualified-not-selected records have the exact non-executable shape''
       (Some ''enforced by QualifiedNotSelected with extra=forbid'')"

definition invariant_069 :: "validation_context \<Rightarrow> invariant_check" where
  "invariant_069 ctx =
     checked 69 ''parabolic risk flag appears iff parabolic adjustment applies''
       (for_records (ctx_output ctx) (\<lambda>ticker r.
          let adjusted = sb_parabolic_adjusted (score_of r);
              has_flag = (RF_PARABOLIC \<in> set (risk_flags_of r)) in
          if adjusted \<noteq> has_flag
          then [violation 69 ticker (PBool adjusted) (PBool has_flag)
                  ''parabolic flag equivalence failed'']
          else []))"

definition flag_order_violations :: "string \<Rightarrow> risk_flag list \<Rightarrow> invariant_violation list" where
  "flag_order_violations ticker flags =
     (let py = PList (map (\<lambda>f. PStr (risk_flag_value f)) flags) in
      if length flags \<noteq> length (remdups flags)
      then [violation 70 ticker (PStr ''unique risk flags'') py ''duplicate risk flag'']
      else if None \<in> set (flag_indexes flags)
      then [violation 70 ticker (PList (map (\<lambda>f. PStr (risk_flag_value f)) RISK_FLAG_ORDER)) py
              ''unsupported risk flag'']
      else if map the (flag_indexes flags) \<noteq> sort (map the (flag_indexes flags))
      then [violation 70 ticker (PStr ''canonical order'') py ''risk flags are out of order'']
      else [])"

definition invariant_070 :: "validation_context \<Rightarrow> invariant_check" where
  "invariant_070 ctx =
     checked 70 ''risk flags are allowed, unique, and canonically ordered''
       (for_records (ctx_output ctx) (\<lambda>ticker r. flag_order_violations ticker (risk_flags_of r)))"

definition invariant_071 :: "validation_context \<Rightarrow> invariant_check" where
  "invariant_071 ctx =
     (let name = ''evidence indexing uses decoded Unicode code points'';
          result = evidence_checks ctx 23 EM_BOUNDS in
      if ic_status result = CS_NOT_EVALUATED
      then not_evaluated 71 name
             (case ic_note result of
                None \<Rightarrow> ''valid input required''
              | Some n \<Rightarrow> if n = [] then ''valid input required'' else n)
      else checked 71 name (map (renumber 71) (ic_violations result)))"

text \<open>
  Invariant 72 looks for a schema-failure ticker that is neither a string nor null; the field
  of the strict model is one of the two, so the loop never appends.
\<close>

definition ticker_not_str :: "string option \<Rightarrow> bool" where
  "ticker_not_str t = False"

definition invariant_072 :: "validation_context \<Rightarrow> invariant_check" where
  "invariant_072 ctx =
     checked 72 ''schema-failure ticker is exact supplied string or null''
       (concat (map (\<lambda>(index, failure).
          if ticker_not_str (sf_ticker failure)
          then [violation 72 (''schema_failures['' @ show_int (int index) @ ''].ticker'')
                  (PStr ''string or null'') PNone ''schema-failure ticker was coerced'']
          else []) (enumerate 0 (out_schema_failures (ctx_output ctx)))))"

definition invariant_073 :: "validation_context \<Rightarrow> invariant_check" where
  "invariant_073 ctx =
     checked 73 ''evidence purpose explicitly identifies the evidence target''
       (for_records (ctx_output ctx) (\<lambda>ticker r.
          field_mismatch 73 ticker ''evidence purpose does not match the selected evidence target''
            (\<lambda>e. PStr (evidence_purpose_value e))
            (if sb_catalyst_zero_reason (score_of r) = Some ZR_DISQUALIFIER_FLAG then EP_DISQUALIFIER
             else if sb_catalyst_zero_reason (score_of r) = Some ZR_NO_VALID_DRIVER then EP_NONE
             else EP_MAGNITUDE)
            (sb_evidence_purpose (score_of r))))"

definition invariant_074 :: "validation_context \<Rightarrow> invariant_check" where
  "invariant_074 ctx =
     passed 74 ''unknown fields are rejected at every input and output object level''
       (Some ''enforced by StrictFrozenModel extra=forbid and recursive provider schemas'')"

definition bound_violations :: "ticker_input \<Rightarrow> invariant_violation list" where
  "bound_violations entry =
     (let news = ti_news_context entry; ticker = ti_ticker entry in
      (if \<not> (1 \<le> length (nc_catalyst_text news) \<and> length (nc_catalyst_text news) \<le> 4000)
       then [violation 75 (ticker @ ''.catalyst_text'') (PStr ''1..4000 code points'')
               (PInt (int (length (nc_catalyst_text news)))) ''catalyst text bound violated'']
       else []) @
      (if \<not> (1 \<le> length (nc_source_name news) \<and> length (nc_source_name news) \<le> 256)
       then [violation 75 (ticker @ ''.source_name'') (PStr ''1..256 code points'')
               (PInt (int (length (nc_source_name news)))) ''source-name bound violated'']
       else []) @
      (if length (nc_disqualifier_flags news) > 5 \<or>
          length (nc_disqualifier_flags news) \<noteq> length (remdups (nc_disqualifier_flags news))
       then [violation 75 (ticker @ ''.disqualifier_flags'') (PStr ''<=5 unique values'')
               (PList (map (\<lambda>f. PStr (disqualifier_flag_value f)) (nc_disqualifier_flags news)))
               ''disqualifier bound or uniqueness violated'']
       else []))"

definition invariant_075 :: "validation_context \<Rightarrow> invariant_check" where
  "invariant_075 ctx =
     (let name = ''schema-valid input satisfies bounded external-text and candidate limits'' in
      case ctx_input_payload ctx of
        None \<Rightarrow> not_evaluated 75 name ''valid evaluator input is required''
      | Some p \<Rightarrow>
          checked 75 name
            ((if length (di_tickers p) > 25
              then [violation 75 ''tickers'' (PStr ''<= 25'') (PInt (int (length (di_tickers p))))
                      ''candidate limit exceeded'']
              else []) @
             concat (map bound_violations (di_tickers p))))"

definition invariant_076 :: "validation_context \<Rightarrow> invariant_check" where
  "invariant_076 ctx =
     (let name = ''premarket low is not above current price'' in
      case ctx_input_payload ctx of
        None \<Rightarrow> not_evaluated 76 name ''valid evaluator input is required''
      | Some p \<Rightarrow>
          checked 76 name
            (concat (map (\<lambda>entry.
               let tech = ti_technical_context entry in
               if tc_premarket_low tech > tc_current_price tech
               then [violation 76 (ti_ticker entry @ ''.technical_context.premarket_low'')
                       (PStr (''<= '' @ show_float (tc_current_price tech)))
                       (PFloat (tc_premarket_low tech)) ''premarket low exceeds current price'']
               else []) (di_tickers p))))"

definition invariant_077 :: "validation_context \<Rightarrow> invariant_check" where
  "invariant_077 ctx =
     checked 77 ''freshness tie groups include exact two-point differences''
       (field_mismatch 77 ''passing order'' ''inclusive fixed-anchor two-point tie grouping mismatch''
          (\<lambda>ts. PList (map PStr ts)) (expected_passing_order (ctx_output ctx))
          (observed_passing_order ctx))"

end
