(* ===== verification/Validation.thy ===== *)
theory Validation
  imports Invariants_B
begin

text \<open>
  The registry of the 77 checks and the runner of
  \<open>daybreak_contracts/validation/runner.py\<close>. Turning a dictionary or a JSON text into a model
  is pydantic's work: the two parsers are parameters, \<open>Inl\<close> the text of the exception. The
  theorems are about the report: what a valid report says of the evaluator's output.
\<close>

section \<open>The registry and the runner\<close>

definition INVARIANT_REGISTRY :: "(int \<times> (validation_context \<Rightarrow> invariant_check)) list" where
  "INVARIANT_REGISTRY =
     [(1, invariant_001), (2, invariant_002), (3, invariant_003), (4, invariant_004),
      (5, invariant_005), (6, invariant_006), (7, invariant_007), (8, invariant_008),
      (9, invariant_009), (10, invariant_010), (11, invariant_011), (12, invariant_012),
      (13, invariant_013), (14, invariant_014), (15, invariant_015), (16, invariant_016),
      (17, invariant_017), (18, invariant_018), (19, invariant_019), (20, invariant_020),
      (21, invariant_021), (22, invariant_022), (23, invariant_023), (24, invariant_024),
      (25, invariant_025), (26, invariant_026), (27, invariant_027), (28, invariant_028),
      (29, invariant_029), (30, invariant_030), (31, invariant_031), (32, invariant_032),
      (33, invariant_033), (34, invariant_034), (35, invariant_035), (36, invariant_036),
      (37, invariant_037), (38, invariant_038), (39, invariant_039), (40, invariant_040),
      (41, invariant_041), (42, invariant_042), (43, invariant_043), (44, invariant_044),
      (45, invariant_045), (46, invariant_046), (47, invariant_047), (48, invariant_048),
      (49, invariant_049), (50, invariant_050), (51, invariant_051), (52, invariant_052),
      (53, invariant_053), (54, invariant_054), (55, invariant_055), (56, invariant_056),
      (57, invariant_057), (58, invariant_058), (59, invariant_059), (60, invariant_060),
      (61, invariant_061), (62, invariant_062), (63, invariant_063), (64, invariant_064),
      (65, invariant_065), (66, invariant_066), (67, invariant_067), (68, invariant_068),
      (69, invariant_069), (70, invariant_070), (71, invariant_071), (72, invariant_072),
      (73, invariant_073), (74, invariant_074), (75, invariant_075), (76, invariant_076),
      (77, invariant_077)]"

definition EXECUTION_EVIDENCE_INVARIANTS :: "int list" where
  "EXECUTION_EVIDENCE_INVARIANTS = [15, 41, 44, 62, 66]"

text \<open>An argument of the runner: an instance of the model, a dictionary or a JSON text.\<close>

datatype 'm run_argument = ArgModel 'm | ArgDict json | ArgText string

fun parse_model :: "(json + string \<Rightarrow> string + 'm) \<Rightarrow> 'm run_argument \<Rightarrow> string + 'm" where
  "parse_model pydantic (ArgModel m) = Inr m"
| "parse_model pydantic (ArgDict j) = pydantic (Inl j)"
| "parse_model pydantic (ArgText s) = pydantic (Inr s)"

fun raw_dict :: "'m run_argument \<Rightarrow> json option" where
  "raw_dict (ArgDict j) = Some j"
| "raw_dict _ = None"

definition run_checks :: "validation_context \<Rightarrow> invariant_check list" where
  "run_checks ctx = map (\<lambda>(number, f). f ctx) INVARIANT_REGISTRY"

definition missing_evidence :: "invariant_check list \<Rightarrow> invariant_check list" where
  "missing_evidence checks =
     filter (\<lambda>c. ic_invariant_number c \<in> set EXECUTION_EVIDENCE_INVARIANTS \<and>
                  ic_status c = CS_NOT_EVALUATED) checks"

definition validate_daybreak_run ::
    "(json + string \<Rightarrow> string + daybreak_input) \<Rightarrow> (json + string \<Rightarrow> string + daybreak_output) \<Rightarrow>
     daybreak_input run_argument option \<Rightarrow> daybreak_output run_argument \<Rightarrow>
     validation_metadata option \<Rightarrow> bool \<Rightarrow> validation_report" where
  "validate_daybreak_run pydantic_in pydantic_out input_payload output metadata require_evidence =
     (let raw_input = (case input_payload of None \<Rightarrow> None | Some a \<Rightarrow> raw_dict a);
          parsed = (case input_payload of
                      None \<Rightarrow> Inr None
                    | Some a \<Rightarrow> map_sum (\<lambda>e. ''input: '' @ e) Some (parse_model pydantic_in a)) in
      case parse_model pydantic_out output of
        Inl e \<Rightarrow> \<lparr>vr_valid = False, vr_execution_ready = False,
                  vr_model_errors = [''output: '' @ e], vr_checks = []\<rparr>
      | Inr parsed_output \<Rightarrow>
          let model_errors = (case parsed of
                Inl e \<Rightarrow> if out_run_status parsed_output \<noteq> RS_SCHEMA_FAILURE then [e] else []
              | Inr _ \<Rightarrow> []);
              ctx = \<lparr>ctx_input_payload = (case parsed of Inl _ \<Rightarrow> None | Inr p \<Rightarrow> p),
                     ctx_output = parsed_output, ctx_raw_input = raw_input,
                     ctx_metadata = (case metadata of None \<Rightarrow> default_metadata | Some m \<Rightarrow> m)\<rparr>;
              checks = run_checks ctx;
              failures = filter (\<lambda>c. ic_status c = CS_FAIL) checks;
              valid = (model_errors = [] \<and> failures = []);
              execution_ready = (valid \<and> missing_evidence checks = [])
          in \<lparr>vr_valid = (if require_evidence then execution_ready else valid),
              vr_execution_ready = execution_ready, vr_model_errors = model_errors,
              vr_checks = checks\<rparr>)"

section \<open>Facts about the registry\<close>

lemma registry_numbers: "map fst INVARIANT_REGISTRY = [1..77]"
  by (simp add: INVARIANT_REGISTRY_def upto_rec1)

lemma registry_member:
  "(n, f) \<in> set INVARIANT_REGISTRY \<Longrightarrow> f ctx \<in> set (run_checks ctx)"
  by (force simp: run_checks_def)

text \<open>A report can only be valid when every check of the registry passed or was not evaluated.\<close>

definition no_failures :: "validation_context \<Rightarrow> bool" where
  "no_failures ctx \<longleftrightarrow> (\<forall>c \<in> set (run_checks ctx). ic_status c \<noteq> CS_FAIL)"

lemma no_failuresD:
  assumes "no_failures ctx"
  shows "ic_status (invariant_001 ctx) \<noteq> CS_FAIL" and "ic_status (invariant_003 ctx) \<noteq> CS_FAIL"
    and "ic_status (invariant_004 ctx) \<noteq> CS_FAIL" and "ic_status (invariant_005 ctx) \<noteq> CS_FAIL"
    and "ic_status (invariant_014 ctx) \<noteq> CS_FAIL" and "ic_status (invariant_017 ctx) \<noteq> CS_FAIL"
    and "ic_status (invariant_041 ctx) \<noteq> CS_FAIL" and "ic_status (invariant_044 ctx) \<noteq> CS_FAIL"
    and "ic_status (invariant_067 ctx) \<noteq> CS_FAIL"
  using assms by (simp_all add: no_failures_def run_checks_def INVARIANT_REGISTRY_def)

lemma valid_reportE:
  assumes "vr_valid (validate_daybreak_run pin pout (Some inp) out md req)"
    and "parse_model pin inp = Inr p"
  obtains d ctx where "parse_model pout out = Inr d" and "ctx_input_payload ctx = Some p"
    and "ctx_output ctx = d" and "ctx_metadata ctx = (case md of None \<Rightarrow> default_metadata | Some m \<Rightarrow> m)"
    and "no_failures ctx"
proof (cases "parse_model pout out")
  case (Inl e)
  with assms show ?thesis by (simp add: validate_daybreak_run_def)
next
  case (Inr d)
  let ?ctx = "\<lparr>ctx_input_payload = Some p, ctx_output = d, ctx_raw_input = raw_dict inp,
     ctx_metadata = (case md of None \<Rightarrow> default_metadata | Some m \<Rightarrow> m)\<rparr>"
  have "no_failures ?ctx"
    using assms Inr
    by (auto simp: validate_daybreak_run_def no_failures_def Let_def filter_empty_conv
        split: if_splits)
  with Inr show ?thesis by (intro that [of d ?ctx]) simp_all
qed

section \<open>What the individual checks mean\<close>

lemma inv3_meaning:
  assumes "ic_status (invariant_003 ctx) \<noteq> CS_FAIL" and "ctx_input_payload ctx = Some p"
    and "x \<in> set (out_excluded_tickers (ctx_output ctx))"
  obtains e where "map_of (input_by_ticker p) (ex_ticker x) = Some e"
    and "expected_failed_gates e (sb_catalyst_score_raw (ex_evaluation_snapshot x)) \<noteq> []"
    and "ex_primary_reason x # ex_additional_reasons x =
      expected_failed_gates e (sb_catalyst_score_raw (ex_evaluation_snapshot x))"
proof -
  have "excluded_gate_violations p x = []"
    using assms(1-3) by (simp add: invariant_003_def)
  then show ?thesis
    using that by (auto simp: excluded_gate_violations_def Let_def split: option.splits if_splits)
qed

lemma inv4_approved:
  assumes "ic_status (invariant_004 ctx) \<noteq> CS_FAIL" and "ctx_input_payload ctx = Some p"
    and "a \<in> set (out_approved_setups (ctx_output ctx))"
  obtains e where "map_of (input_by_ticker p) (ap_ticker a) = Some e"
    and "expected_failed_gates e (sb_catalyst_score_raw (ap_score_breakdown a)) = []"
  using assms
  by (fastforce simp: invariant_004_def passing_gate_violations_def Let_def
      split: option.splits if_splits)

lemma inv4_qualified:
  assumes "ic_status (invariant_004 ctx) \<noteq> CS_FAIL" and "ctx_input_payload ctx = Some p"
    and "q \<in> set (out_qualified_not_selected (ctx_output ctx))"
  obtains e where "map_of (input_by_ticker p) (qn_ticker q) = Some e"
    and "expected_failed_gates e (sb_catalyst_score_raw (qn_score_breakdown q)) = []"
  using assms
  by (fastforce simp: invariant_004_def passing_gate_violations_def Let_def
      split: option.splits if_splits)

lemma inv17_record:
  assumes "ic_status (invariant_017 ctx) \<noteq> CS_FAIL" and "ctx_input_payload ctx = Some p"
    and "(t, r) \<in> set (terminal_records (ctx_output ctx))"
    and "map_of (input_by_ticker p) t = Some e"
  shows "replay_violations p t r e = []"
  using assms by (simp add: invariant_017_def Let_def for_records_with_input_Nil)

lemma approved_record: "a \<in> set (out_approved_setups d) \<Longrightarrow> (ap_ticker a, TApproved a) \<in> set (terminal_records d)"
  by (simp add: terminal_records_def)

lemma excluded_record: "x \<in> set (out_excluded_tickers d) \<Longrightarrow> (ex_ticker x, TExcluded x) \<in> set (terminal_records d)"
  by (simp add: terminal_records_def)

text \<open>The replayed scores of an approved setup.\<close>

definition replay_agrees :: "daybreak_input \<Rightarrow> ticker_input \<Rightarrow> score_breakdown \<Rightarrow> bool" where
  "replay_agrees p e s \<longleftrightarrow>
     (let x = expected_score_fields p e s in
      sb_source_quality_points s = xs_source_quality_points x \<and>
      sb_catalyst_magnitude_points s = xs_catalyst_magnitude_points x \<and>
      sb_catalyst_zero_override s = xs_catalyst_zero_override x \<and>
      sb_catalyst_zero_reason s = xs_catalyst_zero_reason x \<and>
      sb_catalyst_score_raw s = xs_catalyst_score_raw x \<and>
      sb_catalyst_points s = xs_catalyst_points x \<and>
      sb_volume_points s = xs_volume_points x \<and>
      sb_technical_grade s = xs_technical_grade x \<and>
      sb_technical_base_points s = xs_technical_base_points x \<and>
      sb_technical_points s = xs_technical_points x \<and>
      sb_parabolic_adjusted s = xs_parabolic_adjusted x)"

lemma score_field_violations_Nil:
  "score_field_violations path s (expected_score_fields p e s) = [] \<longleftrightarrow> replay_agrees p e s"
  by (simp add: score_field_violations_def replay_agrees_def Let_def)

lemma expected_risk_flags_field [simp]:
  "xs_risk_flags (expected_score_fields p e s) = expected_risk_flags e (expected_technical e)"
  by (simp add: expected_score_fields_def Let_def)

lemma replay_approved:
  assumes "replay_violations p t (TApproved a) e = []"
  shows "replay_agrees p e (ap_score_breakdown a)"
    and "ap_risk_flags a = expected_risk_flags e (expected_technical e)"
    and "ap_conviction_score a =
      sb_catalyst_points (ap_score_breakdown a) + sb_volume_points (ap_score_breakdown a) +
      sb_technical_points (ap_score_breakdown a)"
    and "tp_reference_price (ap_trade_parameters a) = tc_current_price (ti_technical_context e)"
    and "tp_atr_value_used (ap_trade_parameters a) = tc_atr_value (ti_technical_context e)"
    and "tp_premarket_low_used (ap_trade_parameters a) = tc_premarket_low (ti_technical_context e)"
  using assms
  by (simp_all add: replay_violations_def Let_def score_field_violations_Nil
      conviction_violations_def trade_echo_violations_def)

lemma replay_raw_positive:
  assumes "replay_agrees p e s" and "0 < sb_catalyst_score_raw s"
  shows "expected_zero_reason p e (sb_catalyst_magnitude_bucket s) = None"
    and "sb_catalyst_points s = 4 * sb_catalyst_score_raw s"
    and "sb_catalyst_score_raw s =
      expected_source_quality e + MAGNITUDE_POINTS (sb_catalyst_magnitude_bucket s)"
  using assms by (auto simp: replay_agrees_def expected_score_fields_def Let_def split: if_splits)

text \<open>A terminal category per ticker: what invariant 1 counts.\<close>

definition category_pairs :: "validation_context \<Rightarrow> (string \<times> string) list" where
  "category_pairs ctx =
     concat (map (\<lambda>(category, symbols). map (\<lambda>s. (category, s)) symbols) (terminal_symbols ctx))"

lemma occurrences_pairs:
  "occurrences ctx = fold (\<lambda>(category, symbol). add_occurrence category symbol) (category_pairs ctx) []"
  by (simp add: occurrences_def category_pairs_def terminal_symbols_def fold_map comp_def)

definition times_seen :: "(string, string list) dict \<Rightarrow> string \<Rightarrow> nat" where
  "times_seen occ s = (case map_of occ s of None \<Rightarrow> 0 | Some cs \<Rightarrow> length cs)"

lemma times_seen_fold:
  "times_seen (fold (\<lambda>(category, symbol). add_occurrence category symbol) ps occ) s =
   times_seen occ s + count_list (map snd ps) s"
proof (induction ps arbitrary: occ)
  case (Cons a ps)
  obtain c t where a: "a = (c, t)" by (cases a)
  have "times_seen (add_occurrence c t occ) s = times_seen occ s + (if t = s then 1 else 0)"
    by (auto simp: times_seen_def add_occurrence_def update_conv' split: option.splits)
  with Cons show ?case by (simp add: a)
qed simp

lemma snd_category_pairs: "map snd (category_pairs ctx) = all_terminal_symbols ctx"
  by (simp add: category_pairs_def all_terminal_symbols_def terminal_symbols_def comp_def)

lemma distinct_count_list: "(\<And>x. count_list xs x \<le> 1) \<Longrightarrow> distinct xs"
proof (induction xs)
  case (Cons a xs)
  have "count_list xs x \<le> 1" for x
    using Cons.prems [of x] by (auto split: if_splits)
  moreover have "count_list xs a = 0" using Cons.prems [of a] by simp
  ultimately show ?case using Cons.IH by (simp add: count_list_0_iff)
qed simp

lemma inv1_meaning:
  assumes "ic_status (invariant_001 ctx) \<noteq> CS_FAIL"
  shows "distinct (all_terminal_symbols ctx)"
proof (rule distinct_count_list)
  fix x
  have "times_seen (occurrences ctx) x \<le> 1"
    using assms by (force simp: invariant_001_def times_seen_def split: option.splits if_splits
        dest: map_of_SomeD)
  then show "count_list (all_terminal_symbols ctx) x \<le> 1"
    using times_seen_fold [of "category_pairs ctx" "[]" x]
    by (simp add: occurrences_pairs snd_category_pairs times_seen_def [of "[]"])
qed

lemma trading_symbols_distinct:
  assumes "ic_status (invariant_001 ctx) \<noteq> CS_FAIL"
  shows "distinct (map fst (terminal_records (ctx_output ctx)))"
proof -
  have "map fst (terminal_records (ctx_output ctx)) =
      approved_symbols ctx @ qualified_symbols ctx @ excluded_symbols ctx"
    by (simp add: terminal_records_def approved_symbols_def qualified_symbols_def
        excluded_symbols_def comp_def)
  moreover have "distinct ((approved_symbols ctx @ qualified_symbols ctx @ excluded_symbols ctx) @
      schema_failure_symbols ctx)"
    using inv1_meaning [OF assms] by (simp add: all_terminal_symbols_def terminal_symbols_def)
  ultimately show ?thesis by (metis distinct_append)
qed

lemma terminal_in_input:
  assumes "no_failures ctx" and "ctx_input_payload ctx = Some p"
    and "distinct (map ti_ticker (di_tickers p))"
    and "(t, r) \<in> set (terminal_records (ctx_output ctx))"
  obtains e where "e \<in> set (di_tickers p)" and "ti_ticker e = t"
    and "map_of (input_by_ticker p) t = Some e"
proof -
  note st = no_failuresD(2,3) [OF assms(1)]
  from assms(4) have "\<exists>e. map_of (input_by_ticker p) t = Some e"
    by (auto simp: terminal_records_def elim: inv3_meaning [OF st(1) assms(2)]
        inv4_approved [OF st(2) assms(2)] inv4_qualified [OF st(2) assms(2)])
  then show ?thesis using that input_by_ticker_Some [OF _ assms(3)] by blast
qed

lemma length_terminal_records: "int (length (terminal_records d)) = trading_result_count d"
  by (simp add: terminal_records_def trading_result_count_def)

section \<open>Properties of a valid report\<close>

text \<open>
  Claim C17. When the report is valid, an approved setup is backed by a ticker of the input
  that passes every hard gate: it is not halted, its catalyst has no disqualifier, a
  confirmed and fresh source and a raw score of at least 7 (9 when uncorroborated), its gap,
  premarket volume, relative volume and distance to resistance reach their minima and its
  chart is not capped. Its conviction score lies between 50 and 100 and its trade
  parameters echo the input prices.
\<close>

theorem approved_setup_sound:
  assumes valid: "vr_valid (validate_daybreak_run pin pout (Some inp) out md req)"
    and p: "parse_model pin inp = Inr p" "valid_daybreak_input p"
    and d: "parse_model pout out = Inr d"
    and a: "a \<in> set (out_approved_setups d)"
  shows "\<exists>e \<in> set (di_tickers p). ti_ticker e = ap_ticker a \<and> \<not> ti_halted e \<and>
    nc_disqualifier_flags (ti_news_context e) = [] \<and>
    nc_source_type (ti_news_context e) \<noteq> ST_UNCONFIRMED \<and>
    nc_catalyst_age_hours (ti_news_context e) \<le> di_catalyst_freshness_threshold_hours p \<and>
    7 \<le> sb_catalyst_score_raw (ap_score_breakdown a) \<and>
    (nc_corroborated (ti_news_context e) \<or> 9 \<le> sb_catalyst_score_raw (ap_score_breakdown a)) \<and>
    4 \<le> lm_gap_pct (ti_liquidity_metrics e) \<and>
    500000 \<le> lm_premarket_volume (ti_liquidity_metrics e) \<and>
    5 \<le> lm_rvol_time_matched (ti_liquidity_metrics e) \<and>
    1 \<le> tc_distance_to_resistance_atr (ti_technical_context e) \<and>
    tc_chart_structure (ti_technical_context e) \<noteq> CS_CAPPED \<and>
    50 \<le> ap_conviction_score a \<and> ap_conviction_score a \<le> 100 \<and>
    tp_reference_price (ap_trade_parameters a) = tc_current_price (ti_technical_context e) \<and>
    tp_atr_value_used (ap_trade_parameters a) = tc_atr_value (ti_technical_context e) \<and>
    tp_premarket_low_used (ap_trade_parameters a) = tc_premarket_low (ti_technical_context e)"
proof -
  obtain ctx where ctx: "ctx_input_payload ctx = Some p" "ctx_output ctx = d" "no_failures ctx"
    using valid_reportE [OF valid p(1)] d by (metis Inr_inject)
  have dist: "distinct (map ti_ticker (di_tickers p))"
    using p(2) by (simp add: valid_daybreak_input_def)
  let ?s = "ap_score_breakdown a"
  from inv4_approved [OF no_failuresD(3) [OF ctx(3)] ctx(1)] a ctx(2)
  obtain e where e: "map_of (input_by_ticker p) (ap_ticker a) = Some e"
    and gates: "expected_failed_gates e (sb_catalyst_score_raw ?s) = []" by metis
  have g: "\<not> gate_fails e (sb_catalyst_score_raw ?s) c" for c
    using gates by (simp add: no_failed_gates_iff)
  have raw: "7 \<le> sb_catalyst_score_raw ?s" using g [of RC_CATALYST_SCORE_TOO_LOW] by simp
  note rep = replay_approved [OF inv17_record [OF no_failuresD(6) [OF ctx(3)] ctx(1) _ e],
      OF approved_record, unfolded ctx(2), OF a]
  note pos = replay_raw_positive [OF rep(1)]
  have z: "expected_zero_reason p e (sb_catalyst_magnitude_bucket ?s) = None"
    and cp: "sb_catalyst_points ?s = 4 * sb_catalyst_score_raw ?s"
    and rw: "sb_catalyst_score_raw ?s \<le> 10"
    using pos raw expected_source_quality_range [of e]
      MAGNITUDE_POINTS_range [of "sb_catalyst_magnitude_bucket ?s"] by auto
  have vol: "sb_volume_points ?s \<in> {15, 25, 35}"
    using rep(1) g [of RC_RVOL_TOO_LOW]
    by (auto simp: replay_agrees_def expected_score_fields_def expected_volume_points_def Let_def)
  have tech: "7 \<le> sb_technical_points ?s \<and> sb_technical_points ?s \<le> 25"
    using rep(1) g [of RC_RESISTANCE_TOO_CLOSE] g [of RC_CAPPED_CHART]
    by (auto simp: replay_agrees_def expected_score_fields_def expected_technical_def Let_def)
  have conv: "50 \<le> ap_conviction_score a \<and> ap_conviction_score a \<le> 100"
    using rep(3) cp raw rw vol tech by auto
  show ?thesis
    using input_by_ticker_Some [OF e dist] z g [of RC_HALTED] g [of RC_UNCORROBORATED_CATALYST]
      g [of RC_GAP_TOO_SMALL] g [of RC_PREMARKET_VOLUME_TOO_LOW] g [of RC_RVOL_TOO_LOW]
      g [of RC_RESISTANCE_TOO_CLOSE] g [of RC_CAPPED_CHART] raw conv rep(4-6)
    by (intro bexI [of _ e]) (auto simp: expected_zero_reason_def Let_def split: if_splits)
qed

text \<open>
  Claim C20. In a valid report of a scoring run (approved or no setups) the terminal records
  partition the input: no ticker is reported twice, and the reported tickers are exactly
  the tickers of the payload.
\<close>

theorem terminal_partition:
  assumes valid: "vr_valid (validate_daybreak_run pin pout (Some inp) out md req)"
    and p: "parse_model pin inp = Inr p" "valid_daybreak_input p"
    and d: "parse_model pout out = Inr d"
    and status: "out_run_status d = RS_APPROVED \<or> out_run_status d = RS_NO_SETUPS"
  shows "distinct (map fst (terminal_records d)) \<and>
    set (map fst (terminal_records d)) = set (map ti_ticker (di_tickers p))"
proof -
  obtain ctx where ctx: "ctx_input_payload ctx = Some p" "ctx_output ctx = d" "no_failures ctx"
    using valid_reportE [OF valid p(1)] d by (metis Inr_inject)
  have dist: "distinct (map ti_ticker (di_tickers p))"
    using p(2) by (simp add: valid_daybreak_input_def)
  have distinct: "distinct (map fst (terminal_records d))"
    using trading_symbols_distinct [OF no_failuresD(1) [OF ctx(3)]] ctx(2) by simp
  have sub: "set (map fst (terminal_records d)) \<subseteq> set (map ti_ticker (di_tickers p))"
    using terminal_in_input [OF ctx(3,1) dist] ctx(2) by force
  have "trading_result_count d = int (length (di_tickers p))"
    using no_failuresD(4) [OF ctx(3)] status ctx by (auto simp: invariant_005_def Let_def split: if_splits)
  then have "length (map fst (terminal_records d)) = length (map ti_ticker (di_tickers p))"
    using length_terminal_records [of d] by simp
  then have "card (set (map fst (terminal_records d))) = card (set (map ti_ticker (di_tickers p)))"
    using distinct dist by (simp only: distinct_card)
  then have "set (map fst (terminal_records d)) = set (map ti_ticker (di_tickers p))"
    using sub by (intro card_subset_eq) auto
  with distinct show ?thesis by (rule conjI)
qed

lemma inv67_meaning:
  assumes "ic_status (invariant_067 ctx) \<noteq> CS_FAIL"
  shows "approved_symbols ctx @ qualified_symbols ctx = expected_passing_order (ctx_output ctx)"
    and "i < length (expected_passing_order (ctx_output ctx)) \<Longrightarrow>
      rank_violations ctx (Suc i) (expected_passing_order (ctx_output ctx) ! i) = []"
proof -
  let ?o = "expected_passing_order (ctx_output ctx)"
  from assms show "approved_symbols ctx @ qualified_symbols ctx = ?o"
    by (auto simp: invariant_067_def observed_passing_order_def Let_def split: if_splits)
  assume "i < length ?o"
  then have "(Suc i, ?o ! i) \<in> set (enumerate 1 ?o)"
    by (auto simp: in_set_enumerate_eq)
  with assms show "rank_violations ctx (Suc i) (?o ! i) = []"
    by (auto simp: invariant_067_def Let_def split: if_splits)
qed

lemma inv67_qualified_rank:
  assumes "ic_status (invariant_067 ctx) \<noteq> CS_FAIL"
    and dist: "distinct (map ap_ticker (out_approved_setups (ctx_output ctx)) @
      map qn_ticker (out_qualified_not_selected (ctx_output ctx)))"
    and A3: "length (out_approved_setups (ctx_output ctx)) = 3"
    and k: "k < length (out_qualified_not_selected (ctx_output ctx))"
  shows "qn_final_rank (out_qualified_not_selected (ctx_output ctx) ! k) = int (4 + k)"
proof -
  let ?Q = "out_qualified_not_selected (ctx_output ctx)"
    and ?o = "expected_passing_order (ctx_output ctx)"
  note m67 = inv67_meaning [OF assms(1)]
  have split: "map ap_ticker (out_approved_setups (ctx_output ctx)) @ map qn_ticker ?Q = ?o"
    using m67(1) by (simp add: approved_symbols_def qualified_symbols_def)
  have i: "3 + k < length ?o" using A3 k by (simp flip: split)
  have at: "?o ! (3 + k) = qn_ticker (?Q ! k)" using A3 k by (simp add: nth_append flip: split)
  have "rank_violations ctx (Suc (3 + k)) (qn_ticker (?Q ! k)) = []"
    using m67(2) [OF i] by (simp only: at)
  then obtain q where q: "find (\<lambda>q. qn_ticker q = qn_ticker (?Q ! k)) ?Q = Some q"
    and r: "qn_final_rank q = int (4 + k)"
    by (auto simp: rank_violations_def Let_def split: if_splits option.splits)
  from q have "q \<in> set ?Q" "qn_ticker q = qn_ticker (?Q ! k)" by (auto simp: find_Some_iff)
  moreover have "inj_on qn_ticker (set ?Q)" using dist by (simp add: distinct_map)
  ultimately have "q = ?Q ! k" using k by (meson inj_onD nth_mem)
  with r show ?thesis by simp
qed

text \<open>
  Claim C21. In a valid report the approved setups are the first three of the deterministic
  ranking, in that order, and the qualified records are the rest, each carrying its rank.
\<close>

theorem approved_are_top_three:
  assumes valid: "vr_valid (validate_daybreak_run pin pout (Some inp) out md req)"
    and p: "parse_model pin inp = Inr p"
    and d: "parse_model pout out = Inr d" "valid_daybreak_output d"
  shows "map ap_ticker (out_approved_setups d) = take 3 (expected_passing_order d) \<and>
    map qn_ticker (out_qualified_not_selected d) = drop 3 (expected_passing_order d) \<and>
    map qn_final_rank (out_qualified_not_selected d) =
      map int [4..<4 + length (out_qualified_not_selected d)]"
proof -
  obtain ctx where ctx: "ctx_input_payload ctx = Some p" "ctx_output ctx = d" "no_failures ctx"
    using valid_reportE [OF valid p] d(1) by (metis Inr_inject)
  let ?o = "expected_passing_order d" and ?A = "map ap_ticker (out_approved_setups d)"
    and ?Q = "map qn_ticker (out_qualified_not_selected d)"
  note m67 = inv67_meaning [OF no_failuresD(9) [OF ctx(3)], unfolded ctx(2)]
  have split: "?A @ ?Q = ?o"
    using m67(1) ctx(2) by (simp add: approved_symbols_def qualified_symbols_def)
  have dist: "distinct (?A @ ?Q)"
    using trading_symbols_distinct [OF no_failuresD(1) [OF ctx(3)]] ctx(2)
    by (auto simp: terminal_records_def comp_def)
  have le3: "length ?A \<le> 3"
    using d(2) by (simp add: valid_daybreak_output_def valid_status_shape_def)
  have ge: "length ?A = 3 \<or> ?Q = []"
  proof (rule ccontr)
    assume "\<not> ?thesis"
    with le3 have lt: "length ?A < 3" and ne: "?Q \<noteq> []" by auto
    let ?i = "length ?A"
    have i: "?i < length ?o" using ne by (simp flip: split)
    have at: "?o ! ?i = hd ?Q" using ne by (simp add: nth_append hd_conv_nth flip: split)
    have "rank_violations ctx (Suc ?i) (?o ! ?i) = []" using m67(2) i by simp
    then have "?o ! ?i \<in> set ?A"
      using lt by (simp add: rank_violations_def approved_symbols_def ctx(2) split: if_splits)
    with at dist ne show False by (auto simp: neq_Nil_conv)
  qed
  have AQ: "?A = take 3 ?o" "?Q = drop 3 ?o"
    using ge le3 by (auto simp flip: split)
  have "map qn_final_rank (out_qualified_not_selected d) ! k = int (4 + k)"
    if "k < length (out_qualified_not_selected d)" for k
    using inv67_qualified_rank [OF no_failuresD(9) [OF ctx(3)], unfolded ctx(2)] dist ge that by auto
  note rank = this
  have "map qn_final_rank (out_qualified_not_selected d) =
      map int [4..<4 + length (out_qualified_not_selected d)]"
    by (rule nth_equalityI) (use rank in simp_all)
  with AQ show ?thesis by simp
qed

text \<open>
  The run status of a valid report follows the precedence of the payload's
  condition: an abnormal market gives \<open>blocked_market\<close>, otherwise a payload older than 180
  seconds gives \<open>stale_payload\<close>, and in both cases nothing is approved.
\<close>

theorem status_precedence:
  assumes valid: "vr_valid (validate_daybreak_run pin pout (Some inp) out md req)"
    and p: "parse_model pin inp = Inr p"
    and d: "parse_model pout out = Inr d" "valid_daybreak_output d"
  shows "out_run_status d = expected_run_status p d \<and>
    (di_market_status p \<noteq> MS_NORMAL \<or> di_payload_age_seconds p > 180 \<longrightarrow>
       out_approved_setups d = [] \<and> terminal_records d = [])"
proof -
  obtain ctx where ctx: "ctx_input_payload ctx = Some p" "ctx_output ctx = d" "no_failures ctx"
    using valid_reportE [OF valid p] d(1) by (metis Inr_inject)
  have st: "out_run_status d = expected_run_status p d"
    using no_failuresD(5) [OF ctx(3)] ctx by (auto simp: invariant_014_def Let_def split: if_splits)
  moreover have "out_run_status d \<in> {RS_BLOCKED_MARKET, RS_STALE_PAYLOAD} \<longrightarrow>
      \<not> trading_arrays_nonempty d"
    using d(2) by (auto simp: valid_daybreak_output_def valid_status_shape_def)
  ultimately show ?thesis
    by (auto simp: expected_run_status_def trading_arrays_nonempty_def terminal_records_def
        split: if_splits)
qed

text \<open>
  A report is execution ready only with the orchestrator's evidence: scoring was
  traced before the gates, blockers after schema validation, the candidate count is within
  the hard maximum, and an order was authorised only by a response that met the cutoff.
\<close>

theorem execution_ready_evidence:
  assumes ready: "vr_execution_ready (validate_daybreak_run pin pout (Some inp) out (Some md) req)"
    and p: "parse_model pin inp = Inr p"
  shows "vm_scoring_completed_before_gates md = Some True \<and>
    vm_operational_blockers_after_schema_validation md = Some True \<and>
    (\<exists>maximum count. vm_max_evaluator_candidates_hard md = Some maximum \<and> count \<le> maximum \<and>
       (vm_evaluator_candidate_count md = Some count \<or>
        vm_evaluator_candidate_count md = None \<and> count = int (length (di_tickers p)))) \<and>
    (\<exists>received cutoff authorized. vm_evaluator_response_timestamp md = Some received \<and>
       vm_execution_cutoff_timestamp md = Some cutoff \<and>
       vm_order_authorized md = Some authorized \<and> (authorized \<longrightarrow> received \<le> cutoff))"
proof (cases "parse_model pout out")
  case (Inl e)
  with ready show ?thesis by (simp add: validate_daybreak_run_def)
next
  case (Inr d)
  define ctx where "ctx = \<lparr>ctx_input_payload = Some p, ctx_output = d, ctx_raw_input = raw_dict inp,
     ctx_metadata = md\<rparr>"
  have ok: "ic_status c = CS_PASS" if "c \<in> set (run_checks ctx)"
    "ic_invariant_number c \<in> set EXECUTION_EVIDENCE_INVARIANTS" for c
    using ready p Inr that
    by (cases "ic_status c") (auto simp: validate_daybreak_run_def Let_def filter_empty_conv
        missing_evidence_def ctx_def)
  have "ic_status (f ctx) = CS_PASS" if "(n, f) \<in> set INVARIANT_REGISTRY"
    "ic_invariant_number (f ctx) \<in> set EXECUTION_EVIDENCE_INVARIANTS" for n f
    using that ok registry_member by blast
  note pass = this [of 15 invariant_015] this [of 41 invariant_041] this [of 44 invariant_044]
    this [of 62 invariant_062]
  have 15: "ic_status (invariant_015 ctx) = CS_PASS"
    using pass(1) by (simp add: INVARIANT_REGISTRY_def EXECUTION_EVIDENCE_INVARIANTS_def
        invariant_015_def trace_check_def split: option.splits)
  have 62: "ic_status (invariant_062 ctx) = CS_PASS"
    using pass(4) by (simp add: INVARIANT_REGISTRY_def EXECUTION_EVIDENCE_INVARIANTS_def
        invariant_062_def trace_check_def split: option.splits)
  have 41: "ic_status (invariant_041 ctx) = CS_PASS"
    using pass(2) by (simp add: INVARIANT_REGISTRY_def EXECUTION_EVIDENCE_INVARIANTS_def
        invariant_041_def Let_def split: option.splits)
  have 44: "ic_status (invariant_044 ctx) = CS_PASS"
    using pass(3) by (simp add: INVARIANT_REGISTRY_def EXECUTION_EVIDENCE_INVARIANTS_def
        invariant_044_def Let_def split: option.splits)
  show ?thesis
    using 15 62 41 44
    by (auto simp: invariant_015_def invariant_062_def invariant_041_def invariant_044_def
        trace_check_def Let_def ctx_def split: option.splits if_splits)
qed

text \<open>
  An excluded ticker of a valid report is excluded for a reason: its reported reason
  codes are exactly the hard gates it fails, in gate order, and there is at least one.
\<close>

theorem excluded_reasons_exact:
  assumes valid: "vr_valid (validate_daybreak_run pin pout (Some inp) out md req)"
    and p: "parse_model pin inp = Inr p" "valid_daybreak_input p"
    and d: "parse_model pout out = Inr d"
    and x: "x \<in> set (out_excluded_tickers d)"
  shows "\<exists>e \<in> set (di_tickers p). ti_ticker e = ex_ticker x \<and>
    excluded_codes x =
      filter (gate_fails e (sb_catalyst_score_raw (ex_evaluation_snapshot x))) ALL_GATES \<and>
    (\<exists>c. gate_fails e (sb_catalyst_score_raw (ex_evaluation_snapshot x)) c)"
proof -
  obtain ctx where ctx: "ctx_input_payload ctx = Some p" "ctx_output ctx = d" "no_failures ctx"
    using valid_reportE [OF valid p(1)] d by (metis Inr_inject)
  have dist: "distinct (map ti_ticker (di_tickers p))"
    using p(2) by (simp add: valid_daybreak_input_def)
  let ?raw = "sb_catalyst_score_raw (ex_evaluation_snapshot x)"
  from inv3_meaning [OF no_failuresD(2) [OF ctx(3)] ctx(1)] x ctx(2)
  obtain e where e: "map_of (input_by_ticker p) (ex_ticker x) = Some e"
    and ne: "expected_failed_gates e ?raw \<noteq> []"
    and eq: "ex_primary_reason x # ex_additional_reasons x = expected_failed_gates e ?raw"
    by metis
  have "excluded_codes x = map ro_reason_code (ex_primary_reason x # ex_additional_reasons x)"
    by (simp add: excluded_codes_def)
  also have "\<dots> = filter (gate_fails e ?raw) ALL_GATES"
    unfolding eq gate_codes_def [symmetric] by (rule gate_codes_eq)
  finally show ?thesis
    using input_by_ticker_Some [OF e dist] ne no_failed_gates_iff [of e ?raw] by blast
qed

end
