(* ===== verification/Contract_Witnesses.thy ===== *)
theory Contract_Witnesses
  imports Validation
begin

text \<open>
  Concrete runs of the contract validator, used by the witnesses of the contract properties:
  a payload with one passing ticker and one halted ticker, the evaluator output that the
  replay demands for it, and the metadata of an orchestrated run.
\<close>

definition sample_passing :: ticker_input where
  "sample_passing =
     \<lparr>ti_ticker = ''ABCD'', ti_halted = False,
      ti_news_context = \<lparr>nc_catalyst_text = [70, 68, 65, 32, 111, 107], nc_source_type = ST_PRIMARY,
        nc_source_name = [80, 82], nc_source_timestamp = ''2026-07-31T10:00:00Z'',
        nc_catalyst_age_hours = 2, nc_corroborated = True, nc_disqualifier_flags = []\<rparr>,
      ti_liquidity_metrics = \<lparr>lm_gap_pct = 12, lm_premarket_volume = 900000,
        lm_rvol_time_matched = 8, lm_float_shares = 80000000, lm_volume_profile = VP_CLEAN,
        lm_borrow_status = BS_EASY\<rparr>,
      ti_technical_context = \<lparr>tc_distance_to_resistance_atr = 3, tc_distance_from_vwap_atr = 1,
        tc_chart_structure = CS_BLUE_SKY, tc_current_price = 10, tc_atr_value = 1,
        tc_premarket_low = 19 / 2\<rparr>\<rparr>"

definition sample_halted :: ticker_input where
  "sample_halted = sample_passing\<lparr>ti_ticker := ''WXYZ'', ti_halted := True\<rparr>"

definition sample_score :: score_breakdown where
  "sample_score =
     \<lparr>sb_source_quality_points = 6, sb_catalyst_magnitude_bucket = MB_MAJOR_CONCRETE,
      sb_catalyst_magnitude_points = 4, sb_evidence_purpose = EP_MAGNITUDE,
      sb_magnitude_evidence_excerpt = [70, 68, 65], sb_magnitude_evidence_truncated = False,
      sb_magnitude_evidence_start_char = Some 0, sb_magnitude_evidence_end_char = Some 3,
      sb_catalyst_zero_override = False, sb_catalyst_zero_reason = None,
      sb_catalyst_score_raw = 10, sb_catalyst_points = 40, sb_volume_points = 25,
      sb_technical_grade = TG_A_PLUS, sb_technical_base_points = 25, sb_technical_points = 25,
      sb_parabolic_adjusted = False\<rparr>"

definition sample_approved :: approved_setup where
  "sample_approved =
     \<lparr>ap_ticker = ''ABCD'', ap_side = ''long'', ap_conviction_score = 90,
      ap_score_breakdown = sample_score, ap_master_thesis = [71], ap_catalyst_source = [80, 82],
      ap_source_type = ST_PRIMARY, ap_source_timestamp = ''2026-07-31T10:00:00Z'',
      ap_catalyst_age_hours = 2, ap_corroborated = True, ap_risk_flags = [],
      ap_trade_parameters = \<lparr>tp_reference_price = 10, tp_atr_value_used = 1,
        tp_premarket_low_used = 19 / 2, tp_risk_stop_atr_multiple = 1,
        tp_profit_target_atr_multiple = 2, tp_invalidation_note = INVALIDATION_NOTE\<rparr>\<rparr>"

definition sample_excluded :: excluded_ticker where
  "sample_excluded =
     \<lparr>ex_ticker = ''WXYZ'',
      ex_primary_reason = gate_failure RC_HALTED ''halted'' (PBool True) ''halted must equal false''
        ''The ticker is halted and cannot be approved.'',
      ex_additional_reasons = [],
      ex_evaluation_snapshot = score_breakdown.extend sample_score \<lparr>es_risk_flags = []\<rparr>\<rparr>"

definition sample_input :: daybreak_input where
  "sample_input =
     \<lparr>di_evaluation_timestamp = ''2026-07-31T13:25:10Z'',
      di_payload_timestamp = ''2026-07-31T13:25:00Z'', di_payload_age_seconds = 10,
      di_catalyst_freshness_threshold_hours = 24, di_market_status = MS_NORMAL,
      di_tickers = [sample_passing, sample_halted]\<rparr>"

definition sample_output :: daybreak_output where
  "sample_output =
     \<lparr>out_run_status = RS_APPROVED, out_execution_timestamp = Some ''2026-07-31T13:25:10Z'',
      out_payload_timestamp_used = Some ''2026-07-31T13:25:00Z'',
      out_market_status = Some MS_NORMAL, out_approved_setups = [sample_approved],
      out_qualified_not_selected = [], out_excluded_tickers = [sample_excluded],
      out_schema_failures = [], out_run_blockers = []\<rparr>"

definition sample_metadata :: validation_metadata where
  "sample_metadata =
     default_metadata\<lparr>vm_evaluator_candidate_count := Some 2,
       vm_max_evaluator_candidates_hard := Some 25, vm_evaluator_response_timestamp := Some 100,
       vm_execution_cutoff_timestamp := Some 130, vm_order_authorized := Some True,
       vm_scoring_completed_before_gates := Some True,
       vm_operational_blockers_after_schema_validation := Some True\<rparr>"

definition no_parser :: "json + string \<Rightarrow> string + 'm" where
  "no_parser x = Inl ''not a model''"

definition sample_report :: validation_report where
  "sample_report =
     validate_daybreak_run no_parser no_parser (Some (ArgModel sample_input))
       (ArgModel sample_output) (Some sample_metadata) True"

lemma sample_report_valid: "vr_valid sample_report \<and> vr_execution_ready sample_report"
  by code_simp

lemma sample_parses:
  "parse_model no_parser (ArgModel m) = Inr m"
  by simp

lemma sample_models_valid: "valid_daybreak_input sample_input" "valid_daybreak_output sample_output"
  by code_simp+

lemmas sample_valid = sample_report_valid [THEN conjunct1, unfolded sample_report_def]
lemmas sample_ready = sample_report_valid [THEN conjunct2, unfolded sample_report_def]

lemma sample_members:
  "sample_approved \<in> set (out_approved_setups sample_output)"
  "sample_excluded \<in> set (out_excluded_tickers sample_output)"
  "out_run_status sample_output = RS_APPROVED"
  by (simp_all add: sample_output_def)

section \<open>Witnesses of the contract properties\<close>

theorem approved_setup_sound_witness:
  "vr_valid sample_report \<and>
   (\<exists>e \<in> set (di_tickers sample_input). ti_ticker e = ap_ticker sample_approved \<and> \<not> ti_halted e \<and>
      4 \<le> lm_gap_pct (ti_liquidity_metrics e))"
  using approved_setup_sound [OF sample_valid sample_parses sample_models_valid(1) sample_parses
      sample_members(1)] sample_report_valid
  by blast

theorem terminal_partition_witness:
  "set (map fst (terminal_records sample_output)) = set (map ti_ticker (di_tickers sample_input))"
  using terminal_partition [OF sample_valid sample_parses sample_models_valid(1) sample_parses
      disjI1 [OF sample_members(3)]]
  by blast

theorem approved_are_top_three_witness:
  "map ap_ticker (out_approved_setups sample_output) = take 3 (expected_passing_order sample_output)"
  using approved_are_top_three [OF sample_valid sample_parses sample_parses sample_models_valid(2)]
  by blast

text \<open>Two qualified records, four points apart, and the output that ranks them.\<close>

definition sample_second :: approved_setup where
  "sample_second = sample_approved\<lparr>ap_ticker := ''EFGH'', ap_conviction_score := 86\<rparr>"

definition sample_pair :: daybreak_output where
  "sample_pair = sample_output\<lparr>out_approved_setups := [sample_second, sample_approved]\<rparr>"

definition sample_pair_swapped :: daybreak_output where
  "sample_pair_swapped = sample_output\<lparr>out_approved_setups := [sample_approved, sample_second]\<rparr>"

definition sample_record :: "string \<Rightarrow> int \<Rightarrow> passing_record" where
  "sample_record t c = \<lparr>pr_ticker = t, pr_conviction_score = c, pr_catalyst_age_hours = 2,
     pr_catalyst_score_raw = 10, pr_volume_points = 25, pr_technical_points = 25\<rparr>"

lemma sample_pair_records:
  "passing_records sample_pair = [sample_record ''EFGH'' 86, sample_record ''ABCD'' 90]"
  "passing_records sample_pair_swapped = [sample_record ''ABCD'' 90, sample_record ''EFGH'' 86]"
  by (simp_all add: passing_records_def sample_pair_def sample_pair_swapped_def sample_output_def
      sample_second_def sample_approved_def sample_score_def sample_record_def)

end
