(* ===== verification/Decimal_Context.thy ===== *)
theory Decimal_Context
  imports Prelude "HOL-Library.Log_Nat"
begin

text \<open>
  Rounded arithmetic. Python's \<open>decimal\<close> module computes each operation exactly and rounds
  the result to the 28 significant digits of the default context, half to even; the binary64
  arithmetic behind \<open>timedelta.total_seconds() * 1000\<close> does the same with 53 binary digits.
  Both are instances of \<open>fix_prec\<close>. On top of it stand the five functions of
  \<open>daybreak_risk/rounding.py\<close>. A value is its rational number: the exponent that
  distinguishes \<open>Decimal("1.0")\<close> from \<open>Decimal("1.00")\<close> does not take part in any comparison
  of the program. \<open>None\<close> is the \<open>InvalidOperation\<close> trap of the decimal context.
\<close>

section \<open>Rounding to a number of significant digits\<close>

definition ilog :: "nat \<Rightarrow> rat \<Rightarrow> int" where
  "ilog b x =
     (if 1 \<le> x then int (floorlog b (nat \<lfloor>x\<rfloor>)) - 1
      else - int (floorlog b (nat (\<lceil>1 / x\<rceil> - 1))))"

definition round_half_even :: "rat \<Rightarrow> int" where
  "round_half_even x =
     (let f = \<lfloor>x\<rfloor>; d = x - of_int f in
      if d < 1 / 2 then f else if 1 / 2 < d then f + 1 else if even f then f else f + 1)"

definition fix_prec :: "nat \<Rightarrow> nat \<Rightarrow> rat \<Rightarrow> rat" where
  "fix_prec b p x =
     (if x = 0 then 0
      else let u = (of_nat b :: rat) powi (ilog b \<bar>x\<bar> - int p + 1)
           in of_int (round_half_even (x / u)) * u)"

text \<open>The two precisions of the program.\<close>

definition dec :: "rat \<Rightarrow> rat" where
  "dec x = fix_prec 10 28 x"

definition flt :: "rat \<Rightarrow> rat" where
  "flt x = fix_prec 2 53 x"

definition dadd :: "rat \<Rightarrow> rat \<Rightarrow> rat" where
  "dadd x y = dec (x + y)"

definition dsub :: "rat \<Rightarrow> rat \<Rightarrow> rat" where
  "dsub x y = dec (x - y)"

definition dmul :: "rat \<Rightarrow> rat \<Rightarrow> rat" where
  "dmul x y = dec (x * y)"

definition dabs :: "rat \<Rightarrow> rat" where
  "dabs x = dec \<bar>x\<bar>"

definition dneg :: "rat \<Rightarrow> rat" where
  "dneg x = dec (- x)"

definition ddiv :: "rat \<Rightarrow> rat \<Rightarrow> rat option" where
  "ddiv x y = (if y = 0 then None else Some (dec (x / y)))"

section \<open>daybreak\_risk/rounding.py\<close>

definition floor_to_cent :: "rat \<Rightarrow> rat option" where
  "floor_to_cent x =
     (let n = \<lfloor>x * 100\<rfloor> in if \<bar>n\<bar> < 10 ^ 28 then Some (of_int n / 100) else None)"

definition floor_to_int :: "rat \<Rightarrow> int" where
  "floor_to_int x = \<lfloor>x\<rfloor>"

definition quantize_money :: "rat \<Rightarrow> rat option" where
  "quantize_money x =
     (let n = round_half_even (x * 10 ^ 10)
      in if \<bar>n\<bar> < 10 ^ 28 then Some (of_int n / 10 ^ 10) else None)"

definition round_down_to_increment :: "rat \<Rightarrow> rat \<Rightarrow> rat option" where
  "round_down_to_increment v increment =
     (if increment \<le> 0 then None
      else do { q \<leftarrow> ddiv v increment; Some (dmul (of_int \<lfloor>q\<rfloor>) increment) })"

definition round_up_to_increment :: "rat \<Rightarrow> rat \<Rightarrow> rat option" where
  "round_up_to_increment v increment =
     (if increment \<le> 0 then None
      else do { q \<leftarrow> ddiv v increment; Some (dmul (of_int \<lceil>q\<rceil>) increment) })"

text \<open>
  \<open>int((a - b).total_seconds() * 1000)\<close> of two instants: \<open>total_seconds\<close> divides the
  microseconds by a million in binary64, the product by 1000 is rounded again, and \<open>int\<close>
  truncates towards zero.
\<close>

definition total_seconds :: "timestamp \<Rightarrow> timestamp \<Rightarrow> rat" where
  "total_seconds a b = flt (of_int (a - b) / 1000000)"

definition trunc_int :: "rat \<Rightarrow> int" where
  "trunc_int x = (if 0 \<le> x then \<lfloor>x\<rfloor> else \<lceil>x\<rceil>)"

definition elapsed_ms :: "timestamp \<Rightarrow> timestamp \<Rightarrow> int" where
  "elapsed_ms a b = trunc_int (flt (total_seconds a b * 1000))"

section \<open>The position of the leading digit\<close>

lemma ilog_bounds_ge_1:
  assumes "1 < b" and "1 \<le> x"
  shows "(of_nat b :: rat) powi ilog b x \<le> x \<and> x < of_nat b powi (ilog b x + 1)"
proof -
  let ?n = "nat \<lfloor>x\<rfloor>" and ?k = "floorlog b (nat \<lfloor>x\<rfloor>)"
  have n: "0 < ?n" using assms(2) by linarith
  have fl: "b ^ (?k - 1) \<le> ?n" "?n < b ^ ?k"
    using floorlog_bounds [OF n assms(1)] by auto
  have k: "1 \<le> ?k"
    using n assms(1) by (simp add: Suc_le_eq floorlog_eq_zero_iff neq0_conv [symmetric])
  have "of_nat b ^ (?k - 1) \<le> (of_nat ?n :: rat)"
    using fl(1) by (metis of_nat_le_iff of_nat_power)
  also have "\<dots> \<le> x" using assms(2) by simp
  finally have lo: "of_nat b ^ (?k - 1) \<le> x" .
  have "\<lfloor>x\<rfloor> < int (b ^ ?k)" using fl(2) by linarith
  then have "x < of_int (int (b ^ ?k))" by (simp only: floor_less_iff)
  then have hi: "x < of_nat b ^ ?k" by simp
  have e: "ilog b x = int (?k - 1)" "ilog b x + 1 = int ?k"
    using assms(2) k by (simp_all add: ilog_def)
  have "(of_nat b :: rat) powi ilog b x = of_nat b ^ (?k - 1)"
    by (simp only: e(1) power_int_of_nat)
  moreover have "(of_nat b :: rat) powi (ilog b x + 1) = of_nat b ^ ?k"
    by (simp only: e(2) power_int_of_nat)
  ultimately show ?thesis using lo hi by simp
qed

lemma ilog_bounds_lt_1:
  assumes "1 < b" and "0 < x" and "x < 1"
  shows "(of_nat b :: rat) powi ilog b x \<le> x \<and> x < of_nat b powi (ilog b x + 1)"
proof -
  define y where "y = 1 / x"
  let ?n = "nat (\<lceil>y\<rceil> - 1)" and ?k = "floorlog b (nat (\<lceil>y\<rceil> - 1))"
  have y: "1 < y" using assms by (simp add: y_def)
  have n: "0 < ?n" using y by linarith
  have fl: "b ^ (?k - 1) \<le> ?n" "?n < b ^ ?k"
    using floorlog_bounds [OF n assms(1)] by auto
  have k: "1 \<le> ?k"
    using n assms(1) by (simp add: Suc_le_eq floorlog_eq_zero_iff neq0_conv [symmetric])
  have "\<lceil>y\<rceil> \<le> int (b ^ ?k)" using fl(2) n by linarith
  then have "y \<le> of_int (int (b ^ ?k))" by (simp only: ceiling_le_iff)
  then have hi: "y \<le> of_nat b ^ ?k" by simp
  have "int (b ^ (?k - 1)) \<le> \<lceil>y\<rceil> - 1" using fl(1) n by linarith
  then have "of_int (int (b ^ (?k - 1))) < y" by linarith
  then have lo: "of_nat b ^ (?k - 1) < y" by simp
  have pos: "0 < (of_nat b :: rat) ^ m" for m using assms(1) by simp
  have x: "x = 1 / y" using assms by (simp add: y_def)
  have "1 / of_nat b ^ ?k \<le> x"
    unfolding x using hi y pos [of ?k] by (simp add: frac_le)
  moreover have "x < 1 / of_nat b ^ (?k - 1)"
    unfolding x using lo pos [of "?k - 1"] by (simp add: frac_less2)
  moreover have e: "ilog b x = - int ?k" and e1: "ilog b x + 1 = - int (?k - 1)"
    using assms(3) k by (simp_all add: ilog_def y_def)
  have "(of_nat b :: rat) powi ilog b x = 1 / of_nat b ^ ?k"
    by (simp only: e power_int_minus power_int_of_nat inverse_eq_divide)
  moreover have "(of_nat b :: rat) powi (ilog b x + 1) = 1 / of_nat b ^ (?k - 1)"
    by (simp only: e1 power_int_minus power_int_of_nat inverse_eq_divide)
  ultimately show ?thesis by (simp only:)
qed

lemma ilog_bounds:
  "1 < b \<Longrightarrow> 0 < x \<Longrightarrow>
   (of_nat b :: rat) powi ilog b x \<le> x \<and> x < of_nat b powi (ilog b x + 1)"
  by (cases "1 \<le> x") (simp_all add: ilog_bounds_ge_1 ilog_bounds_lt_1)

lemma ilog_less:
  assumes "1 < b" and "0 < x" and "x < of_nat b powi e"
  shows "ilog b x < e"
proof (rule ccontr)
  assume "\<not> ilog b x < e"
  then have "(of_nat b :: rat) powi e \<le> of_nat b powi ilog b x"
    using assms(1) by (intro power_int_increasing) auto
  with ilog_bounds [OF assms(1,2)] assms(3) show False by simp
qed

section \<open>Rounding half to even\<close>

lemma round_half_even_error: "\<bar>of_int (round_half_even x) - x\<bar> \<le> 1 / 2"
proof -
  have "of_int \<lfloor>x\<rfloor> \<le> x" "x < of_int \<lfloor>x\<rfloor> + 1" by linarith+
  then show ?thesis by (auto simp: round_half_even_def Let_def abs_le_iff)
qed

lemma round_half_even_of_int [simp]: "round_half_even (of_int n) = n"
  by (simp add: round_half_even_def)

lemma round_half_even_nonneg: "0 \<le> x \<Longrightarrow> 0 \<le> round_half_even x"
  by (auto simp: round_half_even_def Let_def)

lemma round_half_even_cases: "round_half_even x = \<lfloor>x\<rfloor> \<or> round_half_even x = \<lfloor>x\<rfloor> + 1"
  by (auto simp: round_half_even_def Let_def)

lemma round_half_even_mono: "x \<le> y \<Longrightarrow> round_half_even x \<le> round_half_even y"
proof -
  assume le: "x \<le> y"
  then have "\<lfloor>x\<rfloor> \<le> \<lfloor>y\<rfloor>" by (rule floor_mono)
  then consider "\<lfloor>x\<rfloor> = \<lfloor>y\<rfloor>" | "\<lfloor>x\<rfloor> + 1 \<le> \<lfloor>y\<rfloor>" by linarith
  then show ?thesis
  proof cases
    case 1
    with le show ?thesis by (auto simp: round_half_even_def Let_def)
  next
    case 2
    with round_half_even_cases [of x] round_half_even_cases [of y] show ?thesis by auto
  qed
qed

section \<open>Properties of rounding to a precision\<close>

lemma fix_prec_0 [simp]: "fix_prec b p 0 = 0"
  by (simp add: fix_prec_def)

lemma fix_prec_nonneg: "1 < b \<Longrightarrow> 0 \<le> x \<Longrightarrow> 0 \<le> fix_prec b p x"
  by (auto simp: fix_prec_def Let_def intro!: mult_nonneg_nonneg round_half_even_nonneg)

text \<open>The rounding error is at most half a unit in the last place.\<close>

lemma fix_prec_error:
  assumes "1 < b"
  shows "\<bar>fix_prec b p x - x\<bar> \<le> \<bar>x\<bar> * (of_nat b powi (1 - int p) / 2)"
proof (cases "x = 0")
  case False
  define e where "e = ilog b \<bar>x\<bar>"
  define u where "u = (of_nat b :: rat) powi (e - int p + 1)"
  have u: "0 < u" using assms by (simp add: u_def)
  have "fix_prec b p x - x = (of_int (round_half_even (x / u)) - x / u) * u"
    using False u assms unfolding u_def e_def fix_prec_def Let_def
    by (simp add: left_diff_distrib)
  then have "\<bar>fix_prec b p x - x\<bar> = \<bar>of_int (round_half_even (x / u)) - x / u\<bar> * u"
    using u by (simp add: abs_mult)
  also have "\<dots> \<le> 1 / 2 * u"
    using round_half_even_error u by (intro mult_right_mono) auto
  also have "u = of_nat b powi e * of_nat b powi (1 - int p)"
    unfolding u_def using assms by (subst power_int_add [symmetric]) (simp_all add: algebra_simps)
  also have "1 / 2 * (of_nat b powi e * of_nat b powi (1 - int p)) \<le>
      1 / 2 * (\<bar>x\<bar> * of_nat b powi (1 - int p))"
    using ilog_bounds [OF assms, of "\<bar>x\<bar>"] False assms
    by (intro mult_left_mono mult_right_mono) (auto simp: e_def)
  finally show ?thesis by simp
qed simp

text \<open>A number with at most \<open>p\<close> significant digits is not changed.\<close>

lemma fix_prec_exact:
  assumes b: "1 < b" and x: "x = of_int m * of_nat b powi e" and m: "\<bar>m\<bar> < int b ^ p"
  shows "fix_prec b p x = x"
proof (cases "x = 0")
  case False
  define q where "q = ilog b \<bar>x\<bar> - int p + 1"
  have bpos: "0 < (of_nat b :: rat) powi k" for k using b by simp
  have "\<bar>x\<bar> = of_int \<bar>m\<bar> * of_nat b powi e"
    using bpos [of e] by (simp add: x abs_mult)
  also have "\<dots> < of_int (int b ^ p) * of_nat b powi e"
    using m bpos by (intro mult_strict_right_mono) (simp only: of_int_less_iff)
  also have "\<dots> = of_nat b powi (int p + e)"
    using b by (simp add: power_int_add)
  finally have "ilog b \<bar>x\<bar> < int p + e"
    using b False by (intro ilog_less) auto
  then have le: "q \<le> e" by (simp add: q_def)
  have "x / of_nat b powi q = of_int m * of_nat b powi (e - q)"
    using b by (simp add: x power_int_diff)
  also have "\<dots> = of_int (m * int b ^ nat (e - q))"
    using le by (simp add: power_int_def)
  finally have int: "x / of_nat b powi q = of_int (m * int b ^ nat (e - q))" .
  have "of_int (round_half_even (x / of_nat b powi q)) * of_nat b powi q =
      x / of_nat b powi q * of_nat b powi q"
    unfolding int by (simp only: round_half_even_of_int)
  with bpos [of q] b False show ?thesis
    by (simp add: fix_prec_def Let_def q_def)
qed simp

section \<open>Decimal and binary64 rounding\<close>

lemma dec_0 [simp]: "dec 0 = 0"
  by (simp add: dec_def)

lemma dec_nonneg: "0 \<le> x \<Longrightarrow> 0 \<le> dec x"
  by (simp add: dec_def fix_prec_nonneg)

lemma dec_error: "\<bar>dec x - x\<bar> \<le> \<bar>x\<bar> / (2 * 10 ^ 27)"
  using fix_prec_error [of 10 28 x] by (simp add: dec_def power_int_minus field_simps)

text \<open>Coarse consequences of the error bound, enough to see that a value stays small.\<close>

lemma dec_upper: "0 \<le> b \<Longrightarrow> x \<le> b \<Longrightarrow> dec x \<le> 2 * b"
  using dec_error [of x] by (simp add: abs_if split: if_splits)

lemma dec_lower: "0 \<le> x \<Longrightarrow> x \<le> 2 * dec x"
  using dec_error [of x] by (simp add: abs_if split: if_splits)

lemma dec_nonpos: "x \<le> 0 \<Longrightarrow> dec x \<le> 0"
  using dec_upper [of 0 x] by simp

lemma dec_pos_iff: "0 < dec x \<longleftrightarrow> 0 < x"
  using dec_nonpos [of x] dec_lower [of x] by linarith

lemma dec_abs_upper: "\<bar>x\<bar> \<le> b \<Longrightarrow> \<bar>dec x\<bar> \<le> 2 * b"
  using dec_error [of x] by (simp add: abs_if split: if_splits)

text \<open>Money: a multiple of the quantum below \<open>10^18\<close> fits the context, so it is kept as it is.\<close>

definition on_grid :: "nat \<Rightarrow> rat \<Rightarrow> bool" where
  "on_grid k x \<longleftrightarrow> x * 10 ^ k = of_int \<lfloor>x * 10 ^ k\<rfloor>"

lemma on_gridI: "x * 10 ^ k = of_int n \<Longrightarrow> on_grid k x"
  by (simp add: on_grid_def)

lemma on_gridE: "on_grid k x \<Longrightarrow> (\<And>n. x = of_int n / 10 ^ k \<Longrightarrow> P) \<Longrightarrow> P"
  by (auto simp: on_grid_def field_simps)

lemma on_grid_of_int [simp]: "on_grid k (of_int n)"
  by (rule on_gridI [where n = "n * 10 ^ k"]) simp

lemma on_grid_frac [simp]: "on_grid k (of_int n / 10 ^ k)"
  by (rule on_gridI [where n = n]) simp

lemma on_grid_add: "on_grid k x \<Longrightarrow> on_grid k y \<Longrightarrow> on_grid k (x + y)"
proof (elim on_gridE)
  fix m n
  assume "x = of_int m / 10 ^ k" and "y = of_int n / 10 ^ k"
  then show ?thesis by (intro on_gridI [where n = "m + n"]) (simp add: field_simps)
qed

lemma on_grid_minus: "on_grid k x \<Longrightarrow> on_grid k (- x)"
proof (elim on_gridE)
  fix m
  assume "x = of_int m / 10 ^ k"
  then show ?thesis by (intro on_gridI [where n = "- m"]) simp
qed

lemma on_grid_diff: "on_grid k x \<Longrightarrow> on_grid k y \<Longrightarrow> on_grid k (x - y)"
  using on_grid_add [OF _ on_grid_minus, of k x y] by simp

lemma on_grid_mult_int: "on_grid k x \<Longrightarrow> on_grid k (x * of_int n)"
proof (elim on_gridE)
  fix m
  assume "x = of_int m / 10 ^ k"
  then show ?thesis by (intro on_gridI [where n = "m * n"]) simp
qed

lemma on_grid_mono: "on_grid k x \<Longrightarrow> k \<le> l \<Longrightarrow> on_grid l x"
proof (elim on_gridE)
  fix m
  assume x: "x = of_int m / 10 ^ k" and "k \<le> l"
  then have "(10 :: rat) ^ l = 10 ^ k * 10 ^ (l - k)" by (simp flip: power_add)
  then show ?thesis by (intro on_gridI [where n = "m * 10 ^ (l - k)"]) (simp add: x)
qed

lemma on_grid_mult: "on_grid k x \<Longrightarrow> on_grid l y \<Longrightarrow> on_grid (k + l) (x * y)"
proof (elim on_gridE)
  fix m n
  assume "x = of_int m / 10 ^ k" and "y = of_int n / 10 ^ l"
  then show ?thesis by (intro on_gridI [where n = "m * n"]) (simp add: power_add)
qed

lemma on_grid_max: "on_grid k x \<Longrightarrow> on_grid k y \<Longrightarrow> on_grid k (max x y)"
  by (simp add: max_def)

lemma on_grid_min: "on_grid k x \<Longrightarrow> on_grid k y \<Longrightarrow> on_grid k (min x y)"
  by (simp add: min_def)

lemma on_grid_consts [simp]: "on_grid k 0" "on_grid k 1"
  using on_grid_of_int [of k 0] on_grid_of_int [of k 1] by simp_all

lemmas on_grid_intros [intro] = on_grid_add on_grid_diff on_grid_minus on_grid_mult_int

lemma dec_exact:
  assumes "on_grid k x" and "\<bar>x\<bar> * 10 ^ k < 10 ^ 28"
  shows "dec x = x"
proof -
  from assms(1) obtain n where n: "x = of_int n / 10 ^ k" by (rule on_gridE)
  have "of_int \<bar>n\<bar> < (of_int (10 ^ 28) :: rat)" using assms(2) by (simp add: n)
  then have "\<bar>n\<bar> < 10 ^ 28" by (simp only: of_int_less_iff)
  moreover have "x = of_int n * of_nat 10 powi (- int k)"
    by (simp add: n power_int_minus field_simps)
  ultimately show ?thesis
    unfolding dec_def by (intro fix_prec_exact [where m = n and e = "- int k"]) auto
qed

lemma dec_exact_money: "on_grid 10 x \<Longrightarrow> \<bar>x\<bar> < 10 ^ 18 \<Longrightarrow> dec x = x"
  by (rule dec_exact [where k = 10]) auto

text \<open>
  The quotient of two amounts is rounded before it is floored. For a dividend below
  \<open>10^17\<close> on the cent grid and a divisor on the money grid, the rounding never lifts the
  quotient to the next integer, so the floor is the exact one.
\<close>

lemma floor_dec_quotient:
  fixes N D :: int
  assumes "0 \<le> N" and "0 < D" and "N < 10 ^ 27"
  shows "\<lfloor>dec (of_int N / of_int D)\<rfloor> = N div D"
proof -
  define q where "q = (of_int N / of_int D :: rat)"
  have q0: "0 \<le> q" using assms by (simp add: q_def)
  have err: "\<bar>dec q - q\<bar> \<le> q / (2 * 10 ^ 27)" using dec_error [of q] q0 by simp
  have N: "of_int N < (10 ^ 27 :: rat)"
    using assms(3) by (metis of_int_less_iff of_int_numeral of_int_power)
  from N have "q / (2 * 10 ^ 27) < 1 / of_int D"
    using assms(2) by (simp add: q_def field_simps)
  with err have err': "\<bar>dec q - q\<bar> < 1 / of_int D" by simp
  have md: "0 \<le> N mod D" "N mod D + 1 \<le> D"
    using assms(2) pos_mod_bound [of D N] by (auto simp: zless_iff_Suc_zadd)
  have "of_int N = (of_int (N div D) * of_int D + of_int (N mod D) :: rat)"
    by (metis div_mult_mod_eq of_int_add of_int_mult)
  then have q: "q = of_int (N div D) + of_int (N mod D) / of_int D"
    using assms(2) by (simp add: q_def field_simps)
  have "(of_int (N mod D + 1) :: rat) \<le> of_int D" using md(2) by (simp only: of_int_le_iff)
  then have "of_int (N mod D) / of_int D + 1 / of_int D \<le> (1 :: rat)"
    using assms(2) by (simp add: field_simps)
  with err' have "dec q < of_int (N div D) + 1" unfolding q by linarith
  moreover have "of_int (N div D) \<le> dec q"
  proof (cases "N mod D = 0")
    case True
    have "0 \<le> q" by (rule q0)
    have "1 \<le> (of_int D :: rat)" using assms(2) by simp
    then have "of_int N / of_int D \<le> (of_int N / 1 :: rat)"
      using assms(1) by (intro divide_left_mono) auto
    then have "q \<le> of_int N" by (simp add: q_def)
    with \<open>0 \<le> q\<close> N have "\<bar>q\<bar> * 10 ^ 0 < 10 ^ 28" by simp
    moreover have "on_grid 0 q" using True by (simp add: q)
    ultimately have "dec q = q" by (rule dec_exact [rotated])
    with True show ?thesis by (simp add: q)
  next
    case False
    then have "1 \<le> N mod D" using md(1) by linarith
    then have "(1 :: rat) \<le> of_int (N mod D)" by simp
    then have "1 / of_int D \<le> of_int (N mod D) / (of_int D :: rat)"
      using assms(2) by (intro divide_right_mono) auto
    with err' show ?thesis unfolding q by linarith
  qed
  ultimately show ?thesis unfolding q_def [symmetric] by (simp add: floor_eq_iff)
qed

lemma floor_quotient_bound:
  assumes "on_grid 2 a" and "0 \<le> a" and "a < 10 ^ 17" and "on_grid 10 p" and "0 < p"
  shows "of_int \<lfloor>dec (a / p)\<rfloor> * p \<le> a" and "a < (of_int \<lfloor>dec (a / p)\<rfloor> + 1) * p"
    and "0 \<le> \<lfloor>dec (a / p)\<rfloor>"
proof -
  from assms(1) obtain A where A: "a = of_int A / 10 ^ 2" by (rule on_gridE)
  from assms(4) obtain D where D: "p = of_int D / 10 ^ 10" by (rule on_gridE)
  define N where "N = A * 10 ^ 8"
  have D0: "0 < D" using assms(5) by (simp add: D)
  have N0: "0 \<le> N" using assms(2) by (simp add: A N_def)
  have "of_int A < (of_int (10 ^ 19) :: rat)" using assms(3) by (simp add: A)
  then have "A < 10 ^ 19" by (simp only: of_int_less_iff)
  then have N1: "N < 10 ^ 27" by (simp add: N_def)
  have ap: "a / p = of_int N / of_int D" by (simp add: A D N_def)
  have fl: "\<lfloor>dec (a / p)\<rfloor> = N div D" unfolding ap by (rule floor_dec_quotient [OF N0 D0 N1])
  have eqs: "a = of_int N / 10 ^ 10" by (simp add: A N_def)
  have "N div D * D \<le> N" using D0 by (simp add: minus_mod_eq_div_mult [symmetric])
  then have "of_int (N div D * D) \<le> (of_int N :: rat)" by (simp only: of_int_le_iff)
  then show "of_int \<lfloor>dec (a / p)\<rfloor> * p \<le> a" unfolding fl unfolding eqs D by simp
  have "N < (N div D + 1) * D"
    using D0 by (metis add.commute div_mult_mod_eq distrib_right mult_1 add_strict_left_mono
        pos_mod_bound)
  then have "of_int N < (of_int ((N div D + 1) * D) :: rat)" by (simp only: of_int_less_iff)
  then show "a < (of_int \<lfloor>dec (a / p)\<rfloor> + 1) * p" unfolding fl unfolding eqs D by simp
  show "0 \<le> \<lfloor>dec (a / p)\<rfloor>" unfolding fl using N0 D0 by (simp add: pos_imp_zdiv_nonneg_iff)
qed

section \<open>The rounding functions\<close>

lemma floor_to_cent_Some:
  "floor_to_cent x = Some y \<longleftrightarrow> y = of_int \<lfloor>x * 100\<rfloor> / 100 \<and> \<bar>\<lfloor>x * 100\<rfloor>\<bar> < 10 ^ 28"
  unfolding floor_to_cent_def Let_def by auto

lemma quantize_money_Some:
  "quantize_money x = Some y \<longleftrightarrow>
   y = of_int (round_half_even (x * 10 ^ 10)) / 10 ^ 10 \<and>
   \<bar>round_half_even (x * 10 ^ 10)\<bar> < 10 ^ 28"
  unfolding quantize_money_def Let_def by auto

lemma floor_to_cent_le: "floor_to_cent x = Some y \<Longrightarrow> y \<le> x"
proof -
  have "of_int \<lfloor>x * 100\<rfloor> \<le> x * 100" by simp
  then show "floor_to_cent x = Some y \<Longrightarrow> y \<le> x" unfolding floor_to_cent_Some by linarith
qed

lemma floor_to_cent_gt: "floor_to_cent x = Some y \<Longrightarrow> x < y + 1 / 100"
proof -
  have "x * 100 < of_int \<lfloor>x * 100\<rfloor> + 1" by linarith
  then show "floor_to_cent x = Some y \<Longrightarrow> x < y + 1 / 100" unfolding floor_to_cent_Some by simp
qed

lemma floor_to_cent_grid: "floor_to_cent x = Some y \<Longrightarrow> on_grid 2 y"
  unfolding floor_to_cent_Some by (rule on_gridI [where n = "\<lfloor>x * 100\<rfloor>"]) simp

lemma floor_to_cent_total: "\<bar>x\<bar> < 10 ^ 25 \<Longrightarrow> \<exists>y. floor_to_cent x = Some y"
proof -
  assume "\<bar>x\<bar> < 10 ^ 25"
  then have "\<bar>\<lfloor>x * 100\<rfloor>\<bar> < 10 ^ 28" by (simp add: abs_if split: if_splits) linarith+
  then show ?thesis unfolding floor_to_cent_Some by blast
qed

lemma floor_to_cent_mono:
  assumes "floor_to_cent x = Some a" and "floor_to_cent y = Some b" and "x \<le> y"
  shows "a \<le> b"
proof -
  have "\<lfloor>x * 100\<rfloor> \<le> \<lfloor>y * 100\<rfloor>" using assms(3) by (intro floor_mono) simp
  then have "(of_int \<lfloor>x * 100\<rfloor> :: rat) \<le> of_int \<lfloor>y * 100\<rfloor>" by (simp only: of_int_le_iff)
  with assms(1,2) show ?thesis unfolding floor_to_cent_Some by simp
qed

lemma quantize_money_grid: "quantize_money x = Some y \<Longrightarrow> on_grid 10 y"
  using on_grid_frac [of 10] unfolding quantize_money_Some by blast

lemma quantize_money_exact:
  assumes "on_grid 10 x" and "\<bar>x\<bar> < 10 ^ 18"
  shows "quantize_money x = Some x"
proof -
  from assms(1) obtain n where n: "x = of_int n / 10 ^ 10" by (rule on_gridE)
  have "of_int \<bar>n\<bar> < (of_int (10 ^ 28) :: rat)" using assms(2) by (simp add: n)
  then have "\<bar>n\<bar> < 10 ^ 28" by (simp only: of_int_less_iff)
  moreover have "round_half_even (x * 10 ^ 10) = n" by (simp add: n)
  ultimately show ?thesis by (simp only: quantize_money_Some n)
qed

lemma quantize_money_nonneg: "quantize_money x = Some y \<Longrightarrow> 0 \<le> x \<Longrightarrow> 0 \<le> y"
proof -
  assume q: "quantize_money x = Some y" and "0 \<le> x"
  then have "0 \<le> round_half_even (x * 10 ^ 10)" by (intro round_half_even_nonneg) simp
  with q show ?thesis unfolding quantize_money_Some by simp
qed

lemma quantize_money_bound: "quantize_money x = Some y \<Longrightarrow> \<bar>y\<bar> < 10 ^ 18"
proof -
  assume "quantize_money x = Some y"
  then obtain n :: int where "\<bar>n\<bar> < 10 ^ 28" and y: "y = of_int n / 10 ^ 10"
    unfolding quantize_money_Some by blast
  then have "of_int \<bar>n\<bar> < (of_int (10 ^ 28) :: rat)" by (simp only: of_int_less_iff)
  then show ?thesis by (simp add: y)
qed

lemma quantize_money_total: "\<bar>x\<bar> < 10 ^ 17 \<Longrightarrow> \<exists>y. quantize_money x = Some y"
proof -
  assume x: "\<bar>x\<bar> < 10 ^ 17"
  have "\<bar>of_int (round_half_even (x * 10 ^ 10)) - x * 10 ^ 10\<bar> \<le> 1 / 2"
    by (rule round_half_even_error)
  with x have "\<bar>of_int (round_half_even (x * 10 ^ 10))\<bar> < (10 ^ 28 :: rat)"
    by (simp add: abs_if split: if_splits)
  then have "of_int \<bar>round_half_even (x * 10 ^ 10)\<bar> < (of_int (10 ^ 28) :: rat)" by simp
  then have "\<bar>round_half_even (x * 10 ^ 10)\<bar> < 10 ^ 28" by (simp only: of_int_less_iff)
  then show ?thesis unfolding quantize_money_Some by blast
qed

section \<open>Evaluation on numerals\<close>

lemma floor_rat_numeral [simp]:
  "\<lfloor>numeral a / numeral b :: rat\<rfloor> = numeral a div numeral b"
  using floor_divide_of_int_eq [where ?'a = rat, of "numeral a" "numeral b"] by simp

lemma floor_rat_neg_numeral [simp]:
  "\<lfloor>- (numeral a / numeral b) :: rat\<rfloor> = - numeral a div numeral b"
  using floor_divide_of_int_eq [where ?'a = rat, of "- numeral a" "numeral b"]
  by (simp only: of_int_minus of_int_numeral minus_divide_left)

lemma floor_rat_one [simp]:
  "\<lfloor>1 / numeral b :: rat\<rfloor> = 1 div numeral b"
  "\<lfloor>- (1 / numeral b) :: rat\<rfloor> = -1 div numeral b"
  using floor_divide_of_int_eq [where ?'a = rat, of 1 "numeral b"]
    floor_divide_of_int_eq [where ?'a = rat, of "-1" "numeral b"]
  by (simp_all only: of_int_minus of_int_numeral of_int_1 minus_divide_left)

lemma ceiling_rat_numeral [simp]:
  "\<lceil>numeral a / numeral b :: rat\<rceil> = - (- numeral a div numeral b)"
  "\<lceil>1 / numeral b :: rat\<rceil> = - (-1 div numeral b)"
  by (simp_all only: ceiling_def floor_rat_neg_numeral floor_rat_one)

text \<open>On a closed term the condition is decided first, so this equation evaluates \<open>dec\<close>.\<close>

lemma dec_eval:
  "dec x = (if x * 10 ^ 10 = of_int \<lfloor>x * 10 ^ 10\<rfloor> \<and> \<bar>x\<bar> < 10 ^ 18 then x else fix_prec 10 28 x)"
  using dec_exact_money [of x] by (auto simp: dec_def on_grid_def)

lemma floor_dec_numeral:
  assumes "numeral a < (10 ^ 27 :: int)"
  shows "\<lfloor>dec (numeral a / numeral b)\<rfloor> = numeral a div numeral b"
  using floor_dec_quotient [of "numeral a" "numeral b"] assms by simp

section \<open>Rounding is monotone\<close>

lemma round_half_even_minus: "round_half_even (- x) = - round_half_even x"
proof (cases "x = of_int \<lfloor>x\<rfloor>")
  case True
  then show ?thesis by (metis of_int_minus round_half_even_of_int)
next
  case False
  then have "\<lfloor>- x\<rfloor> = - \<lfloor>x\<rfloor> - 1" by linarith
  then show ?thesis by (auto simp: round_half_even_def Let_def)
qed

lemma fix_prec_minus: "fix_prec b p (- x) = - fix_prec b p x"
  by (simp add: fix_prec_def Let_def round_half_even_minus)

lemma ilog_mono:
  assumes "1 < b" "0 < x" "x \<le> y"
  shows "ilog b x \<le> ilog b y"
proof (rule ccontr)
  assume "\<not> ilog b x \<le> ilog b y"
  then have "(of_nat b :: rat) powi (ilog b y + 1) \<le> of_nat b powi ilog b x"
    using assms(1) by (intro power_int_increasing) auto
  then show False using ilog_bounds [OF assms(1,2)] ilog_bounds [OF assms(1), of y] assms by linarith
qed

lemma powi_split: "1 < b \<Longrightarrow> (of_nat b :: rat) powi (e + int k) = of_nat b powi e * of_nat b ^ k"
  by (simp add: power_int_add)

text \<open>A rounded number stays between the powers that enclose it.\<close>

lemma fix_prec_bounds:
  assumes "1 < b" "1 \<le> p" "0 < x"
  shows "of_nat b powi ilog b x \<le> fix_prec b p x" "fix_prec b p x \<le> of_nat b powi (ilog b x + 1)"
proof -
  let ?u = "(of_nat b :: rat) powi (ilog b x - int p + 1)"
  have u: "0 < ?u" using assms(1) by simp
  have lo: "of_nat b powi ilog b x = ?u * of_nat b ^ (p - 1)"
    using powi_split [OF assms(1), of "ilog b x - int p + 1" "p - 1"] assms(2) by (simp add: of_nat_diff)
  have hi: "of_nat b powi (ilog b x + 1) = ?u * of_nat b ^ p"
    using powi_split [OF assms(1), of "ilog b x - int p + 1" p] by simp
  have x: "?u * of_nat b ^ (p - 1) \<le> x" "x \<le> ?u * of_nat b ^ p"
    using ilog_bounds [OF assms(1,3)] lo hi by linarith+
  have "of_int (int b ^ (p - 1)) \<le> x / ?u" "x / ?u \<le> of_int (int b ^ p)"
    using x u by (simp_all add: pos_le_divide_eq pos_divide_le_eq mult.commute)
  then have "int b ^ (p - 1) \<le> round_half_even (x / ?u)" "round_half_even (x / ?u) \<le> int b ^ p"
    by (metis round_half_even_mono round_half_even_of_int)+
  then have "(of_int (int b ^ (p - 1)) :: rat) \<le> of_int (round_half_even (x / ?u))"
    "(of_int (round_half_even (x / ?u)) :: rat) \<le> of_int (int b ^ p)" by (simp_all only: of_int_le_iff)
  then have r: "of_nat b ^ (p - 1) \<le> (of_int (round_half_even (x / ?u)) :: rat)"
    "(of_int (round_half_even (x / ?u)) :: rat) \<le> of_nat b ^ p" by simp_all
  have f: "fix_prec b p x = ?u * of_int (round_half_even (x / ?u))" using assms(3) by (simp add: fix_prec_def Let_def)
  show "of_nat b powi ilog b x \<le> fix_prec b p x" unfolding f lo using r u by (intro mult_left_mono) auto
  show "fix_prec b p x \<le> of_nat b powi (ilog b x + 1)" unfolding f hi using r u by (intro mult_left_mono) auto
qed

lemma fix_prec_mono_pos:
  assumes "1 < b" "1 \<le> p" "0 < x" "x \<le> y"
  shows "fix_prec b p x \<le> fix_prec b p y"
proof (cases "ilog b x = ilog b y")
  case True
  let ?u = "(of_nat b :: rat) powi (ilog b x - int p + 1)"
  have u: "0 < ?u" using assms(1) by simp
  then have "x / ?u \<le> y / ?u" using assms(4) by (simp add: divide_right_mono)
  then have "round_half_even (x / ?u) \<le> round_half_even (y / ?u)" by (rule round_half_even_mono)
  then have "of_int (round_half_even (x / ?u)) * ?u \<le> of_int (round_half_even (y / ?u)) * ?u"
    using u by (intro mult_right_mono) auto
  then show ?thesis using assms True by (simp add: fix_prec_def Let_def)
next
  case False
  then have "ilog b x + 1 \<le> ilog b y" using ilog_mono [OF assms(1,3,4)] by simp
  then have "(of_nat b :: rat) powi (ilog b x + 1) \<le> of_nat b powi ilog b y"
    using assms(1) by (intro power_int_increasing) auto
  then show ?thesis using fix_prec_bounds(2) [OF assms(1-3)] fix_prec_bounds(1) [OF assms(1,2), of y] assms by linarith
qed

lemma fix_prec_mono:
  assumes "1 < b" "1 \<le> p" "x \<le> y"
  shows "fix_prec b p x \<le> fix_prec b p y"
proof -
  consider "0 < x" | "x \<le> 0" "0 \<le> y" | "y < 0" by linarith
  then show ?thesis
  proof cases
    case 1
    then show ?thesis using assms by (intro fix_prec_mono_pos)
  next
    case 2
    then have "0 \<le> fix_prec b p (- x)" "0 \<le> fix_prec b p y" using assms(1) by (simp_all add: fix_prec_nonneg)
    then show ?thesis by (simp add: fix_prec_minus)
  next
    case 3
    then have "fix_prec b p (- y) \<le> fix_prec b p (- x)" using assms by (intro fix_prec_mono_pos) auto
    then show ?thesis by (simp add: fix_prec_minus)
  qed
qed

lemma dec_mono: "x \<le> y \<Longrightarrow> dec x \<le> dec y"
  unfolding dec_def by (rule fix_prec_mono) simp_all

lemma flt_mono: "x \<le> y \<Longrightarrow> flt x \<le> flt y"
  unfolding flt_def by (rule fix_prec_mono) simp_all

section \<open>Evaluation\<close>

lemmas arith_eval = dec_eval dadd_def dsub_def dmul_def ddiv_def dneg_def dabs_def
  floor_to_cent_def floor_to_int_def quantize_money_def round_down_to_increment_def
  round_up_to_increment_def round_half_even_def

lemmas float_eval = elapsed_ms_def total_seconds_def trunc_int_def flt_def fix_prec_def ilog_def
  round_half_even_def compute_floorlog

end
