(* ===== verification/Canonical.thy ===== *)
theory Canonical
  imports Prelude "HOL-Library.Word"
begin

text \<open>
  Canonical text and hash of a value (\<open>daybreak_risk/canonical.py\<close>, and the same functions of
  \<open>daybreak_execution\<close> and \<open>daybreak_orchestration\<close>): the JSON document of the value is written
  with sorted keys, no white space and non-ASCII characters kept, and hashed with SHA-256.
  Turning a pydantic model into its JSON document (\<open>model_dump(mode="json")\<close>) is the work of
  the library and a parameter where it is used; strings of a document are UTF-8 bytes, so
  the encoding step is the identity.
\<close>

unbundle bit_operations_syntax

section \<open>The canonical text of a document\<close>

definition hex_digit :: "nat \<Rightarrow> char" where
  "hex_digit n = char_of (if n < 10 then 48 + n else 87 + n)"

definition escape_char :: "char \<Rightarrow> string" where
  "escape_char c =
     (let n = (of_char c :: nat) in
      if n = 34 then [char_of (92 :: nat), c]
      else if n = 92 then [c, c]
      else if n = 10 then [char_of (92 :: nat), CHR ''n'']
      else if n = 13 then [char_of (92 :: nat), CHR ''r'']
      else if n = 9 then [char_of (92 :: nat), CHR ''t'']
      else if n = 8 then [char_of (92 :: nat), CHR ''b'']
      else if n = 12 then [char_of (92 :: nat), CHR ''f'']
      else if n < 32 then [char_of (92 :: nat)] @ ''u00'' @ [hex_digit (n div 16), hex_digit (n mod 16)]
      else [c])"

definition json_string :: "string \<Rightarrow> string" where
  "json_string s = [char_of (34 :: nat)] @ concat (map escape_char s) @ [char_of (34 :: nat)]"

fun canonical_json_text :: "json \<Rightarrow> string" where
  "canonical_json_text JNull = ''null''"
| "canonical_json_text (JBool b) = show_bool b"
| "canonical_json_text (JInt i) = show_int i"
| "canonical_json_text (JFloat x) = show_float x"
| "canonical_json_text (JStr s) = json_string s"
| "canonical_json_text (JArr xs) = ''['' @ join '','' (map canonical_json_text xs) @ '']''"
| "canonical_json_text (JObj kvs) =
     ''{'' @ join '',''
       (map (\<lambda>(k, t). json_string k @ '':'' @ t)
         (sort_key fst (map (\<lambda>kv. (fst kv, canonical_json_text (snd kv))) kvs))) @ ''}''"

section \<open>SHA-256\<close>

text \<open>The two tables of constants of the standard, in decimal.\<close>

definition sha_k :: "32 word list" where
  "sha_k =
     [1116352408, 1899447441, 3049323471, 3921009573, 961987163, 1508970993, 2453635748, 2870763221,
      3624381080, 310598401, 607225278, 1426881987, 1925078388, 2162078206, 2614888103, 3248222580,
      3835390401, 4022224774, 264347078, 604807628, 770255983, 1249150122, 1555081692, 1996064986,
      2554220882, 2821834349, 2952996808, 3210313671, 3336571891, 3584528711, 113926993, 338241895,
      666307205, 773529912, 1294757372, 1396182291, 1695183700, 1986661051, 2177026350, 2456956037,
      2730485921, 2820302411, 3259730800, 3345764771, 3516065817, 3600352804, 4094571909, 275423344,
      430227734, 506948616, 659060556, 883997877, 958139571, 1322822218, 1537002063, 1747873779,
      1955562222, 2024104815, 2227730452, 2361852424, 2428436474, 2756734187, 3204031479, 3329325298]"

definition sha_h0 :: "32 word list" where
  "sha_h0 =
     [1779033703, 3144134277, 1013904242, 2773480762, 1359893119, 2600822924, 528734635, 1541459225]"

definition rotr :: "nat \<Rightarrow> 32 word \<Rightarrow> 32 word" where
  "rotr n x = drop_bit n x OR push_bit (32 - n) x"

definition sha_pad :: "nat list \<Rightarrow> nat list" where
  "sha_pad bs =
     (let n = length bs; bits = 8 * n in
      bs @ [128] @ replicate ((119 - n mod 64) mod 64) 0 @
      map (\<lambda>i. bits div 256 ^ (7 - i) mod 256) [0..<8])"

fun be_words :: "nat list \<Rightarrow> 32 word list" where
  "be_words (a # b # c # d # bs) =
     word_of_nat (((a * 256 + b) * 256 + c) * 256 + d) # be_words bs"
| "be_words _ = []"

fun sha_extend :: "nat \<Rightarrow> 32 word list \<Rightarrow> 32 word list" where
  "sha_extend 0 ws = ws"
| "sha_extend (Suc k) ws =
     (let t = length ws; x = ws ! (t - 15); y = ws ! (t - 2);
          s0 = rotr 7 x XOR rotr 18 x XOR drop_bit 3 x;
          s1 = rotr 17 y XOR rotr 19 y XOR drop_bit 10 y
      in sha_extend k (ws @ [ws ! (t - 16) + s0 + ws ! (t - 7) + s1]))"

fun sha_round :: "32 word \<times> 32 word \<Rightarrow> 32 word list \<Rightarrow> 32 word list" where
  "sha_round (k, w) [a, b, c, d, e, f, g, h] =
     (let s1 = rotr 6 e XOR rotr 11 e XOR rotr 25 e;
          ch = (e AND f) XOR (NOT e AND g);
          t1 = h + s1 + ch + k + w;
          s0 = rotr 2 a XOR rotr 13 a XOR rotr 22 a;
          maj = (a AND b) XOR (a AND c) XOR (b AND c)
      in [t1 + (s0 + maj), a, b, c, d + t1, e, f, g])"
| "sha_round kw st = st"

definition sha_block :: "32 word list \<Rightarrow> 32 word list \<Rightarrow> 32 word list" where
  "sha_block ws st = map2 (+) st (fold sha_round (zip sha_k (sha_extend 48 ws)) st)"

fun sha_blocks :: "nat \<Rightarrow> 32 word list \<Rightarrow> 32 word list \<Rightarrow> 32 word list" where
  "sha_blocks 0 ws st = st"
| "sha_blocks (Suc k) ws st = sha_blocks k (drop 16 ws) (sha_block (take 16 ws) st)"

definition hex_word :: "32 word \<Rightarrow> string" where
  "hex_word w = map (\<lambda>i. hex_digit (unat w div 16 ^ (7 - i) mod 16)) [0..<8]"

definition sha256_hexdigest :: "string \<Rightarrow> string" where
  "sha256_hexdigest s =
     (let ws = be_words (sha_pad (map of_char s))
      in concat (map hex_word (sha_blocks (length ws div 16) ws sha_h0)))"

definition canonical_sha256 :: "json \<Rightarrow> string" where
  "canonical_sha256 d = sha256_hexdigest (canonical_json_text d)"

section \<open>Name-based identifiers\<close>

text \<open>
  \<open>uuid5(NAMESPACE_URL, name).hex\<close>: SHA-1 of the namespace bytes and the name, cut to sixteen
  bytes, with the version and variant bits set.
\<close>

definition rotl :: "nat \<Rightarrow> 32 word \<Rightarrow> 32 word" where
  "rotl n x = push_bit n x OR drop_bit (32 - n) x"

fun sha1_extend :: "nat \<Rightarrow> 32 word list \<Rightarrow> 32 word list" where
  "sha1_extend 0 ws = ws"
| "sha1_extend (Suc k) ws =
     (let t = length ws
      in sha1_extend k
        (ws @ [rotl 1 (ws ! (t - 3) XOR ws ! (t - 8) XOR ws ! (t - 14) XOR ws ! (t - 16))]))"

definition sha1_f :: "nat \<Rightarrow> 32 word \<Rightarrow> 32 word \<Rightarrow> 32 word \<Rightarrow> 32 word" where
  "sha1_f t b c d =
     (if t < 20 then (b AND c) OR (NOT b AND d)
      else if t < 40 then b XOR c XOR d
      else if t < 60 then (b AND c) OR (b AND d) OR (c AND d)
      else b XOR c XOR d)"

definition sha1_k :: "nat \<Rightarrow> 32 word" where
  "sha1_k t =
     (if t < 20 then 0x5a827999 else if t < 40 then 0x6ed9eba1
      else if t < 60 then 0x8f1bbcdc else 0xca62c1d6)"

fun sha1_round :: "nat \<times> 32 word \<Rightarrow> 32 word list \<Rightarrow> 32 word list" where
  "sha1_round (t, w) [a, b, c, d, e] =
     [rotl 5 a + sha1_f t b c d + e + sha1_k t + w, a, rotl 30 b, c, d]"
| "sha1_round tw st = st"

definition sha1_block :: "32 word list \<Rightarrow> 32 word list \<Rightarrow> 32 word list" where
  "sha1_block ws st = map2 (+) st (fold sha1_round (zip [0..<80] (sha1_extend 64 ws)) st)"

fun sha1_blocks :: "nat \<Rightarrow> 32 word list \<Rightarrow> 32 word list \<Rightarrow> 32 word list" where
  "sha1_blocks 0 ws st = st"
| "sha1_blocks (Suc k) ws st = sha1_blocks k (drop 16 ws) (sha1_block (take 16 ws) st)"

definition word_bytes :: "32 word \<Rightarrow> nat list" where
  "word_bytes w = map (\<lambda>i. unat w div 256 ^ (3 - i) mod 256) [0..<4]"

definition sha1 :: "nat list \<Rightarrow> nat list" where
  "sha1 bs =
     (let ws = be_words (sha_pad bs)
      in concat (map word_bytes
        (sha1_blocks (length ws div 16) ws
          [0x67452301, 0xefcdab89, 0x98badcfe, 0x10325476, 0xc3d2e1f0])))"

definition NAMESPACE_URL :: "nat list" where
  "NAMESPACE_URL =
     [0x6b, 0xa7, 0xb8, 0x11, 0x9d, 0xad, 0x11, 0xd1, 0x80, 0xb4, 0x00, 0xc0, 0x4f, 0xd4, 0x30, 0xc8]"

definition hex_byte :: "nat \<Rightarrow> string" where
  "hex_byte b = [hex_digit (b div 16), hex_digit (b mod 16)]"

definition uuid5_hex :: "string \<Rightarrow> string" where
  "uuid5_hex name =
     (let bs = take 16 (sha1 (NAMESPACE_URL @ map of_char name));
          bs = bs[6 := 0x50 + bs ! 6 mod 16, 8 := 0x80 + bs ! 8 mod 64]
      in concat (map hex_byte bs))"

section \<open>The shape of a digest\<close>

text \<open>The pattern \<open>^[0-9a-f]{64}$\<close> of the hash fields.\<close>

definition hex_char :: "char \<Rightarrow> bool" where
  "hex_char c \<longleftrightarrow> (let n = (of_char c :: nat) in 48 \<le> n \<and> n \<le> 57 \<or> 97 \<le> n \<and> n \<le> 102)"

definition valid_hash :: "string \<Rightarrow> bool" where
  "valid_hash s \<longleftrightarrow> length s = 64 \<and> list_all hex_char s"

lemma hex_char_digit: "n < 16 \<Longrightarrow> hex_char (hex_digit n)"
  by (auto simp: hex_char_def hex_digit_def Let_def of_char_of)

lemma length_sha_round [simp]: "length (sha_round kw st) = length st"
  by (cases "(kw, st)" rule: sha_round.cases) (auto simp: Let_def)

lemma length_sha_rounds [simp]: "length (fold sha_round kws st) = length st"
  by (induction kws arbitrary: st) simp_all

lemma length_sha_blocks: "length (sha_blocks k ws st) = length st"
  by (induction k arbitrary: ws st) (simp_all add: sha_block_def)

lemma length_concat_hex: "length (concat (map hex_word ws)) = 8 * length ws"
  by (induction ws) (simp_all add: hex_word_def)

lemma sha256_hexdigest_valid: "valid_hash (sha256_hexdigest s)"
proof -
  have "length (sha256_hexdigest s) = 64"
    by (simp add: sha256_hexdigest_def Let_def length_concat_hex length_sha_blocks sha_h0_def)
  moreover have "list_all hex_char (sha256_hexdigest s)"
    by (auto simp: sha256_hexdigest_def Let_def list_all_iff hex_word_def intro!: hex_char_digit)
  ultimately show ?thesis by (simp add: valid_hash_def)
qed

lemma canonical_sha256_valid [simp]: "valid_hash (canonical_sha256 d)"
  by (simp add: canonical_sha256_def sha256_hexdigest_valid)

lemma length_canonical_sha256 [simp]: "length (canonical_sha256 d) = 64"
  using canonical_sha256_valid [of d] by (simp add: valid_hash_def)

lemma length_sha1_round [simp]: "length (sha1_round tw st) = length st"
  by (cases "(tw, st)" rule: sha1_round.cases) auto

lemma length_sha1_rounds [simp]: "length (fold sha1_round tws st) = length st"
  by (induction tws arbitrary: st) simp_all

lemma length_sha1_blocks: "length (sha1_blocks k ws st) = length st"
  by (induction k arbitrary: ws st) (simp_all add: sha1_block_def)

lemma length_concat_bytes: "length (concat (map word_bytes ws)) = 4 * length ws"
  by (induction ws) (simp_all add: word_bytes_def)

lemma length_concat_hex_bytes: "length (concat (map hex_byte bs)) = 2 * length bs"
  by (induction bs) (simp_all add: hex_byte_def)

lemma length_uuid5_hex [simp]: "length (uuid5_hex name) = 32"
  by (simp add: uuid5_hex_def Let_def length_concat_hex_bytes sha1_def length_concat_bytes
      length_sha1_blocks)

end
