(* ===== verification/Risk_Models.thy ===== *)
theory Risk_Models
  imports Decimal_Context Contract_Models Canonical
begin

text \<open>
  The data of the risk engine: \<open>daybreak_risk/enums.py\<close> and \<open>daybreak_risk/models.py\<close>. Each
  model is a record with the source's fields; its field constraints and validators are the
  \<open>valid_\<close> predicate that construction checks. Amounts are exact rational values.
\<close>

section \<open>daybreak\_risk/enums.py\<close>

datatype risk_profile_name = PAPER_V1 | LIVE_PILOT_V1

datatype risk_decision_status = RD_APPROVED | RD_REJECTED

datatype binding_cap =
    TRADE_RISK
  | OPEN_RISK
  | DAILY_LOSS
  | BUYING_POWER
  | POSITION_NOTIONAL
  | GROSS_EXPOSURE
  | ADV_LIQUIDITY
  | PREMARKET_LIQUIDITY

datatype risk_rejection_code =
    ACCOUNT_NOT_ACTIVE
  | ACCOUNT_BLOCKED
  | TRADING_BLOCKED
  | TRADE_SUSPENDED_BY_USER
  | ACCOUNT_SNAPSHOT_STALE
  | INVALID_ACCOUNT_VALUE
  | PENDING_TRANSFER_OUT
  | ACCOUNT_STATE_UNRECONCILED
  | STREAM_HEALTH_FAILURE
  | DATABASE_HEALTH_FAILURE
  | KILL_SWITCH_ACTIVE
  | MARKET_NOT_NORMAL
  | SYMBOL_HALTED
  | EXECUTION_CUTOFF_EXCEEDED
  | QUOTE_SNAPSHOT_STALE
  | LAST_TRADE_STALE
  | INVALID_QUOTE
  | REGULAR_SESSION_NBBO_NOT_CONFIRMED
  | SPREAD_TOO_WIDE
  | ENTRY_PRICE_DRIFT_TOO_LARGE
  | ENTRY_LIMIT_NOT_MARKETABLE
  | INVALID_PRICE_GEOMETRY
  | PREMARKET_LOW_BROKEN
  | STOP_ABOVE_PREMARKET_LOW
  | INVALID_LIQUIDITY_INPUT
  | SOFT_DAILY_LOSS_LIMIT
  | HARD_DAILY_LOSS_LIMIT
  | SESSION_PNL_RECONCILIATION_FAILURE
  | MAX_CONSECUTIVE_LOSSES
  | MAX_NEW_ENTRIES_PER_DAY
  | DUPLICATE_TICKER_DAY
  | MAX_CONCURRENT_POSITIONS
  | NO_BUYING_POWER_CAPACITY
  | NO_OPEN_RISK_CAPACITY
  | NO_DAILY_LOSS_CAPACITY
  | NO_GROSS_EXPOSURE_CAPACITY
  | FINAL_QUANTITY_BELOW_MINIMUM
  | INVALID_POLICY_CONFIGURATION

datatype reservation_status =
    RES_RESERVED
  | RES_SUBMITTED
  | RES_PARTIALLY_FILLED
  | RES_FILLED
  | RES_RELEASED
  | RES_EXPIRED
  | RES_RECONCILIATION_REQUIRED

section \<open>Field types\<close>

text \<open>\<open>Money\<close>: at most ten decimal places and thirty digits.\<close>

definition valid_money :: "rat \<Rightarrow> bool" where
  "valid_money x \<longleftrightarrow> on_grid 10 x \<and> \<bar>x\<bar> < 10 ^ 20"

definition valid_ratio :: "rat \<Rightarrow> bool" where
  "valid_ratio x \<longleftrightarrow> 0 < x \<and> x < 1"

definition valid_money_opt :: "rat option \<Rightarrow> bool" where
  "valid_money_opt x \<longleftrightarrow> (case x of None \<Rightarrow> True | Some v \<Rightarrow> valid_money v)"

lemma valid_money_opt_simps [simp]:
  "valid_money_opt None" "valid_money_opt (Some v) = valid_money v"
  by (simp_all add: valid_money_opt_def)

lemma valid_money_grid: "valid_money x \<Longrightarrow> on_grid 10 x"
  by (simp add: valid_money_def)

section \<open>RiskPolicyConfig\<close>

record risk_policy_config =
  rp_policy_version :: string
  rp_profile_name :: risk_profile_name
  rp_allow_margin :: bool
  rp_allow_fractional_shares :: bool
  rp_allow_overnight_positions :: bool
  rp_risk_per_trade_pct :: rat
  rp_max_open_risk_pct :: rat
  rp_max_position_notional_pct :: rat
  rp_max_gross_long_exposure_pct :: rat
  rp_buying_power_reserve_pct :: rat
  rp_max_concurrent_positions :: int
  rp_max_new_entries_per_day :: int
  rp_max_entries_per_ticker_per_day :: int
  rp_soft_daily_loss_pct :: rat
  rp_hard_daily_loss_pct :: rat
  rp_max_consecutive_losses :: int
  rp_slippage_buffer_atr_multiple :: rat
  rp_slippage_buffer_spread_multiple :: rat
  rp_max_pct_adv20 :: rat
  rp_max_pct_premarket_volume :: rat
  rp_max_account_snapshot_age_ms :: int
  rp_max_quote_age_ms :: int
  rp_max_last_trade_age_ms :: int
  rp_max_spread_pct :: rat
  rp_max_spread_atr_fraction :: rat
  rp_max_entry_drift_pct :: rat
  rp_max_entry_drift_atr_multiple :: rat
  rp_pnl_reconciliation_tolerance :: rat
  rp_minimum_quantity :: int
  rp_mandatory_flatten_time_et :: "nat \<times> nat"

definition validate_coherence :: "risk_policy_config \<Rightarrow> bool" where
  "validate_coherence p \<longleftrightarrow>
     rp_soft_daily_loss_pct p < rp_hard_daily_loss_pct p \<and>
     rp_risk_per_trade_pct p \<le> rp_max_open_risk_pct p \<and>
     rp_max_position_notional_pct p \<le> rp_max_gross_long_exposure_pct p \<and>
     rp_max_concurrent_positions p \<le> rp_max_new_entries_per_day p"

definition valid_policy :: "risk_policy_config \<Rightarrow> bool" where
  "valid_policy p \<longleftrightarrow>
     rp_policy_version p = ''position_risk_policy_v1'' \<and>
     \<not> rp_allow_margin p \<and> \<not> rp_allow_fractional_shares p \<and> \<not> rp_allow_overnight_positions p \<and>
     valid_ratio (rp_risk_per_trade_pct p) \<and> valid_ratio (rp_max_open_risk_pct p) \<and>
     valid_ratio (rp_max_position_notional_pct p) \<and>
     valid_ratio (rp_max_gross_long_exposure_pct p) \<and>
     0 \<le> rp_buying_power_reserve_pct p \<and> rp_buying_power_reserve_pct p < 1 \<and>
     0 < rp_max_concurrent_positions p \<and> rp_max_concurrent_positions p \<le> 3 \<and>
     0 < rp_max_new_entries_per_day p \<and> rp_max_new_entries_per_day p \<le> 3 \<and>
     rp_max_entries_per_ticker_per_day p = 1 \<and>
     valid_ratio (rp_soft_daily_loss_pct p) \<and> valid_ratio (rp_hard_daily_loss_pct p) \<and>
     0 < rp_max_consecutive_losses p \<and> rp_max_consecutive_losses p \<le> 10 \<and>
     0 \<le> rp_slippage_buffer_atr_multiple p \<and> rp_slippage_buffer_atr_multiple p \<le> 2 \<and>
     0 \<le> rp_slippage_buffer_spread_multiple p \<and> rp_slippage_buffer_spread_multiple p \<le> 5 \<and>
     valid_ratio (rp_max_pct_adv20 p) \<and> valid_ratio (rp_max_pct_premarket_volume p) \<and>
     0 < rp_max_account_snapshot_age_ms p \<and> rp_max_account_snapshot_age_ms p \<le> 10000 \<and>
     0 < rp_max_quote_age_ms p \<and> rp_max_quote_age_ms p \<le> 10000 \<and>
     0 < rp_max_last_trade_age_ms p \<and> rp_max_last_trade_age_ms p \<le> 30000 \<and>
     valid_ratio (rp_max_spread_pct p) \<and>
     0 < rp_max_spread_atr_fraction p \<and> rp_max_spread_atr_fraction p \<le> 1 \<and>
     valid_ratio (rp_max_entry_drift_pct p) \<and>
     0 < rp_max_entry_drift_atr_multiple p \<and> rp_max_entry_drift_atr_multiple p \<le> 2 \<and>
     0 \<le> rp_pnl_reconciliation_tolerance p \<and> valid_money (rp_pnl_reconciliation_tolerance p) \<and>
     rp_minimum_quantity p = 1 \<and> validate_coherence p"

definition paper_v1 :: risk_policy_config where
  "paper_v1 =
     \<lparr>rp_policy_version = ''position_risk_policy_v1'', rp_profile_name = PAPER_V1,
      rp_allow_margin = False, rp_allow_fractional_shares = False,
      rp_allow_overnight_positions = False,
      rp_risk_per_trade_pct = 25 / 10000, rp_max_open_risk_pct = 75 / 10000,
      rp_max_position_notional_pct = 10 / 100, rp_max_gross_long_exposure_pct = 25 / 100,
      rp_buying_power_reserve_pct = 20 / 100,
      rp_max_concurrent_positions = 3, rp_max_new_entries_per_day = 3,
      rp_max_entries_per_ticker_per_day = 1,
      rp_soft_daily_loss_pct = 75 / 10000, rp_hard_daily_loss_pct = 100 / 10000,
      rp_max_consecutive_losses = 2,
      rp_slippage_buffer_atr_multiple = 10 / 100, rp_slippage_buffer_spread_multiple = 50 / 100,
      rp_max_pct_adv20 = 1 / 1000, rp_max_pct_premarket_volume = 5 / 1000,
      rp_max_account_snapshot_age_ms = 1000, rp_max_quote_age_ms = 1000,
      rp_max_last_trade_age_ms = 2000,
      rp_max_spread_pct = 1 / 100, rp_max_spread_atr_fraction = 10 / 100,
      rp_max_entry_drift_pct = 1 / 100, rp_max_entry_drift_atr_multiple = 25 / 100,
      rp_pnl_reconciliation_tolerance = 1,
      rp_minimum_quantity = 1, rp_mandatory_flatten_time_et = (15, 50)\<rparr>"

definition live_pilot_v1 :: risk_policy_config where
  "live_pilot_v1 =
     \<lparr>rp_policy_version = ''position_risk_policy_v1'', rp_profile_name = LIVE_PILOT_V1,
      rp_allow_margin = False, rp_allow_fractional_shares = False,
      rp_allow_overnight_positions = False,
      rp_risk_per_trade_pct = 10 / 10000, rp_max_open_risk_pct = 20 / 10000,
      rp_max_position_notional_pct = 5 / 100, rp_max_gross_long_exposure_pct = 10 / 100,
      rp_buying_power_reserve_pct = 30 / 100,
      rp_max_concurrent_positions = 1, rp_max_new_entries_per_day = 1,
      rp_max_entries_per_ticker_per_day = 1,
      rp_soft_daily_loss_pct = 30 / 10000, rp_hard_daily_loss_pct = 50 / 10000,
      rp_max_consecutive_losses = 1,
      rp_slippage_buffer_atr_multiple = 10 / 100, rp_slippage_buffer_spread_multiple = 50 / 100,
      rp_max_pct_adv20 = 5 / 10000, rp_max_pct_premarket_volume = 25 / 10000,
      rp_max_account_snapshot_age_ms = 1000, rp_max_quote_age_ms = 1000,
      rp_max_last_trade_age_ms = 2000,
      rp_max_spread_pct = 1 / 100, rp_max_spread_atr_fraction = 10 / 100,
      rp_max_entry_drift_pct = 1 / 100, rp_max_entry_drift_atr_multiple = 25 / 100,
      rp_pnl_reconciliation_tolerance = 1,
      rp_minimum_quantity = 1, rp_mandatory_flatten_time_et = (15, 50)\<rparr>"

lemma shipped_policies_valid: "valid_policy paper_v1" "valid_policy live_pilot_v1"
  by (simp_all add: valid_policy_def paper_v1_def live_pilot_v1_def validate_coherence_def
      valid_ratio_def valid_money_def on_grid_def)

section \<open>Snapshots and session state\<close>

record account_snapshot =
  ac_snapshot_timestamp :: timestamp
  ac_status :: string
  ac_account_blocked :: bool
  ac_trading_blocked :: bool
  ac_trade_suspended_by_user :: bool
  ac_equity :: rat
  ac_last_equity :: rat
  ac_cash :: rat
  ac_buying_power :: rat
  ac_non_marginable_buying_power :: rat
  ac_regt_buying_power :: rat
  ac_initial_margin :: rat
  ac_maintenance_margin :: rat
  ac_long_market_value :: rat
  ac_multiplier :: rat
  ac_pending_transfer_in :: rat
  ac_pending_transfer_out :: rat

definition valid_account :: "account_snapshot \<Rightarrow> bool" where
  "valid_account a \<longleftrightarrow>
     valid_money (ac_equity a) \<and> valid_money (ac_last_equity a) \<and> valid_money (ac_cash a) \<and>
     valid_money (ac_buying_power a) \<and> valid_money (ac_non_marginable_buying_power a) \<and>
     valid_money (ac_regt_buying_power a) \<and> valid_money (ac_initial_margin a) \<and>
     valid_money (ac_maintenance_margin a) \<and> valid_money (ac_long_market_value a) \<and>
     0 \<le> ac_multiplier a \<and> valid_money (ac_pending_transfer_in a) \<and>
     valid_money (ac_pending_transfer_out a)"

record quote_snapshot =
  qt_quote_timestamp :: timestamp
  qt_last_trade_timestamp :: timestamp
  qt_bid_price :: rat
  qt_ask_price :: rat
  qt_bid_size :: int
  qt_ask_size :: int
  qt_last_price :: rat
  qt_first_regular_session_nbbo_confirmed :: bool

definition valid_quote :: "quote_snapshot \<Rightarrow> bool" where
  "valid_quote q \<longleftrightarrow>
     valid_money (qt_bid_price q) \<and> valid_money (qt_ask_price q) \<and>
     0 \<le> qt_bid_size q \<and> 0 \<le> qt_ask_size q \<and> valid_money (qt_last_price q)"

definition spread :: "quote_snapshot \<Rightarrow> rat" where
  "spread q = dsub (qt_ask_price q) (qt_bid_price q)"

definition midpoint :: "quote_snapshot \<Rightarrow> rat" where
  "midpoint q = dec (dadd (qt_bid_price q) (qt_ask_price q) / 2)"

record liquidity_snapshot =
  lq_premarket_volume :: int
  lq_adv20_shares :: int
  lq_asset_tradable :: bool
  lq_asset_fractionable :: bool
  lq_asset_marginable :: bool
  lq_asset_status :: string

definition valid_liquidity :: "liquidity_snapshot \<Rightarrow> bool" where
  "valid_liquidity l \<longleftrightarrow> 0 < lq_premarket_volume l \<and> 0 < lq_adv20_shares l"

record session_risk_state =
  ss_session_reference_equity :: rat
  ss_session_start_equity :: rat
  ss_net_external_cash_flow :: rat
  ss_internal_realized_pnl :: rat
  ss_internal_unrealized_pnl :: rat
  ss_current_total_open_risk :: rat
  ss_reserved_entry_notional :: rat
  ss_current_long_market_value :: rat
  ss_open_daybreak_position_count :: int
  ss_reserved_entry_position_count :: int
  ss_completed_entry_count :: int
  ss_consecutive_closed_losses :: int
  ss_traded_tickers_today :: "string list"
  ss_account_state_reconciled :: bool
  ss_streams_healthy :: bool
  ss_database_healthy :: bool
  ss_kill_switch_active :: bool

definition valid_session :: "session_risk_state \<Rightarrow> bool" where
  "valid_session s \<longleftrightarrow>
     0 < ss_session_reference_equity s \<and> valid_money (ss_session_reference_equity s) \<and>
     0 < ss_session_start_equity s \<and> valid_money (ss_session_start_equity s) \<and>
     valid_money (ss_net_external_cash_flow s) \<and> valid_money (ss_internal_realized_pnl s) \<and>
     valid_money (ss_internal_unrealized_pnl s) \<and>
     0 \<le> ss_current_total_open_risk s \<and> valid_money (ss_current_total_open_risk s) \<and>
     0 \<le> ss_reserved_entry_notional s \<and> valid_money (ss_reserved_entry_notional s) \<and>
     0 \<le> ss_current_long_market_value s \<and> valid_money (ss_current_long_market_value s) \<and>
     0 \<le> ss_open_daybreak_position_count s \<and> 0 \<le> ss_reserved_entry_position_count s \<and>
     0 \<le> ss_completed_entry_count s \<and> 0 \<le> ss_consecutive_closed_losses s \<and>
     list_all is_canonical_ticker (ss_traded_tickers_today s) \<and>
     sorted_wrt (<) (ss_traded_tickers_today s)"

section \<open>Requests\<close>

record sizing_request =
  sr_request_id :: string
  sr_run_id :: string
  sr_trading_date :: date
  sr_final_rank :: int
  sr_calculated_at :: timestamp
  sr_execution_cutoff_timestamp :: timestamp
  sr_setup :: approved_setup
  sr_policy :: risk_policy_config
  sr_account :: account_snapshot
  sr_quote :: quote_snapshot
  sr_liquidity :: liquidity_snapshot
  sr_session :: session_risk_state
  sr_planned_entry_limit :: rat
  sr_tick_size :: rat
  sr_market_status_normal :: bool
  sr_symbol_halted :: bool
  sr_configuration_hash :: string

text \<open>
  The calendar date of an instant in America/New\_York comes from the time zone database; it
  is the parameter \<open>ny\<close>.
\<close>

definition valid_sizing_request :: "(timestamp \<Rightarrow> date) \<Rightarrow> sizing_request \<Rightarrow> bool" where
  "valid_sizing_request ny r \<longleftrightarrow>
     1 \<le> sr_final_rank r \<and> sr_final_rank r \<le> 3 \<and> valid_approved_setup (sr_setup r) \<and>
     valid_policy (sr_policy r) \<and> valid_account (sr_account r) \<and> valid_quote (sr_quote r) \<and>
     valid_liquidity (sr_liquidity r) \<and> valid_session (sr_session r) \<and>
     0 < sr_planned_entry_limit r \<and> valid_money (sr_planned_entry_limit r) \<and>
     0 < sr_tick_size r \<and> valid_money (sr_tick_size r) \<and>
     valid_hash (sr_configuration_hash r) \<and>
     sr_trading_date r = ny (sr_calculated_at r) \<and>
     sr_calculated_at r \<le> sr_execution_cutoff_timestamp r"

section \<open>Decisions\<close>

record quantity_caps =
  qc_trade_risk :: int
  qc_open_risk :: int
  qc_daily_loss :: int
  qc_buying_power :: int
  qc_position_notional :: int
  qc_gross_exposure :: int
  qc_adv_liquidity :: int
  qc_premarket_liquidity :: int

text \<open>\<open>caps.model_dump().values()\<close>: the fields in declaration order.\<close>

definition cap_values :: "quantity_caps \<Rightarrow> int list" where
  "cap_values c =
     [qc_trade_risk c, qc_open_risk c, qc_daily_loss c, qc_buying_power c,
      qc_position_notional c, qc_gross_exposure c, qc_adv_liquidity c, qc_premarket_liquidity c]"

definition valid_quantity_caps :: "quantity_caps \<Rightarrow> bool" where
  "valid_quantity_caps c \<longleftrightarrow> list_all (\<lambda>q. 0 \<le> q) (cap_values c)"

record risk_reservation =
  rr_reservation_id :: string
  rr_request_id :: string
  rr_run_id :: string
  rr_trading_date :: date
  rr_ticker :: string
  rr_client_order_id :: string
  rr_reserved_quantity :: int
  rr_reserved_notional :: rat
  rr_reserved_modeled_risk :: rat
  rr_created_at :: timestamp
  rr_expires_at :: timestamp
  rr_status :: reservation_status

definition valid_reservation :: "risk_reservation \<Rightarrow> bool" where
  "valid_reservation r \<longleftrightarrow>
     is_canonical_ticker (rr_ticker r) \<and>
     1 \<le> length (rr_client_order_id r) \<and> length (rr_client_order_id r) \<le> 48 \<and>
     0 < rr_reserved_quantity r \<and> 0 < rr_reserved_notional r \<and>
     valid_money (rr_reserved_notional r) \<and> 0 < rr_reserved_modeled_risk r \<and>
     valid_money (rr_reserved_modeled_risk r) \<and> rr_created_at r < rr_expires_at r"

record risk_decision =
  rd_decision_id :: string
  rd_request_id :: string
  rd_run_id :: string
  rd_trading_date :: date
  rd_policy_version :: string
  rd_profile_name :: risk_profile_name
  rd_ticker :: string
  rd_final_rank :: int
  rd_decision :: risk_decision_status
  rd_rejection_reasons :: "risk_rejection_code list"
  rd_kill_switch_required :: bool
  rd_session_reference_equity :: "rat option"
  rd_broker_session_pnl :: "rat option"
  rd_internal_session_pnl :: "rat option"
  rd_risk_session_pnl :: "rat option"
  rd_usable_buying_power :: "rat option"
  rd_base_trade_risk_budget :: "rat option"
  rd_risk_flag_multiplier :: "rat option"
  rd_adjusted_trade_risk_budget :: "rat option"
  rd_planned_entry_limit :: "rat option"
  rd_stop_price :: "rat option"
  rd_target_price :: "rat option"
  rd_structural_risk_per_share :: "rat option"
  rd_execution_risk_buffer :: "rat option"
  rd_modeled_risk_per_share :: "rat option"
  rd_maximum_total_open_risk :: "rat option"
  rd_remaining_open_risk_capacity :: "rat option"
  rd_remaining_hard_loss_capacity :: "rat option"
  rd_maximum_position_notional :: "rat option"
  rd_remaining_gross_exposure :: "rat option"
  rd_quantity_caps :: "quantity_caps option"
  rd_binding_cap :: "binding_cap option"
  rd_final_quantity :: int
  rd_reserved_modeled_risk :: "rat option"
  rd_reserved_notional :: "rat option"
  rd_reservation :: "risk_reservation option"
  rd_calculated_at :: timestamp
  rd_account_snapshot_timestamp :: timestamp
  rd_quote_timestamp :: timestamp
  rd_configuration_hash :: string
  rd_input_hash :: string
  rd_decision_hash :: string

text \<open>The \<open>Money | None\<close> fields of a decision.\<close>

definition decision_amounts :: "risk_decision \<Rightarrow> rat option list" where
  "decision_amounts d =
     [rd_session_reference_equity d, rd_broker_session_pnl d, rd_internal_session_pnl d,
      rd_risk_session_pnl d, rd_usable_buying_power d, rd_base_trade_risk_budget d,
      rd_adjusted_trade_risk_budget d, rd_planned_entry_limit d, rd_stop_price d,
      rd_target_price d, rd_structural_risk_per_share d, rd_execution_risk_buffer d,
      rd_modeled_risk_per_share d, rd_maximum_total_open_risk d,
      rd_remaining_open_risk_capacity d, rd_remaining_hard_loss_capacity d,
      rd_maximum_position_notional d, rd_remaining_gross_exposure d,
      rd_reserved_modeled_risk d, rd_reserved_notional d]"

definition valid_decision_fields :: "risk_decision \<Rightarrow> bool" where
  "valid_decision_fields d \<longleftrightarrow>
     rd_policy_version d = ''position_risk_policy_v1'' \<and> is_canonical_ticker (rd_ticker d) \<and>
     1 \<le> rd_final_rank d \<and> rd_final_rank d \<le> 3 \<and>
     list_all valid_money_opt (decision_amounts d) \<and> 0 \<le> rd_final_quantity d \<and>
     valid_hash (rd_configuration_hash d) \<and> valid_hash (rd_input_hash d) \<and>
     valid_hash (rd_decision_hash d)"

text \<open>
  The body that is hashed is the dump of a decision with \<open>decision_hash\<close> excluded: the
  serialiser \<open>dump\<close> never sees that field.
\<close>

definition decision_body :: "(risk_decision \<Rightarrow> json) \<Rightarrow> risk_decision \<Rightarrow> json" where
  "decision_body dump d = dump (d\<lparr>rd_decision_hash := []\<rparr>)"

lemma decision_body_hash [simp]: "decision_body dump (d\<lparr>rd_decision_hash := h\<rparr>) = decision_body dump d"
  by (simp add: decision_body_def)

text \<open>\<open>validate_terminal_shape\<close>, in the order of its tests.\<close>

definition validate_terminal_shape :: "(risk_decision \<Rightarrow> json) \<Rightarrow> risk_decision \<Rightarrow> string option" where
  "validate_terminal_shape dump d =
     (if rd_decision_id d \<noteq> ''risk-'' @ rd_request_id d
      then Some ''risk decision id must derive from request_id''
      else
        let shape =
          (if rd_decision d = RD_APPROVED then
             (if rd_rejection_reasons d \<noteq> []
              then Some ''approved decisions cannot contain rejection reasons''
              else case rd_reservation d of
                None \<Rightarrow> Some ''approved decisions require positive quantity and reservation''
              | Some reservation \<Rightarrow>
                if rd_final_quantity d < 1
                then Some ''approved decisions require positive quantity and reservation''
                else if rd_binding_cap d = None \<or> rd_quantity_caps d = None
                then Some ''approved decisions require quantity caps and binding cap''
                else if list_ex (\<lambda>v. v = None)
                  [rd_planned_entry_limit d, rd_stop_price d, rd_target_price d,
                   rd_modeled_risk_per_share d, rd_reserved_modeled_risk d, rd_reserved_notional d]
                then Some ''approved decisions require complete price and risk evidence''
                else if rr_request_id reservation \<noteq> rd_request_id d \<or>
                  rr_run_id reservation \<noteq> rd_run_id d \<or>
                  rr_trading_date reservation \<noteq> rd_trading_date d \<or>
                  rr_ticker reservation \<noteq> rd_ticker d \<or>
                  rr_reserved_quantity reservation \<noteq> rd_final_quantity d \<or>
                  Some (rr_reserved_notional reservation) \<noteq> rd_reserved_notional d \<or>
                  Some (rr_reserved_modeled_risk reservation) \<noteq> rd_reserved_modeled_risk d \<or>
                  rr_created_at reservation \<noteq> rd_calculated_at d
                then Some ''risk reservation identity does not match its decision''
                else None)
           else if rd_rejection_reasons d = []
           then Some ''rejected decisions require at least one reason''
           else if rd_final_quantity d \<noteq> 0 \<or> rd_reservation d \<noteq> None
           then Some ''rejected decisions cannot reserve quantity''
           else if rd_quantity_caps d \<noteq> None \<or> rd_binding_cap d \<noteq> None \<or>
             rd_reserved_modeled_risk d \<noteq> None \<or> rd_reserved_notional d \<noteq> None
           then Some ''rejected decisions cannot carry reservation evidence''
           else None)
        in case shape of
             Some e \<Rightarrow> Some e
           | None \<Rightarrow>
               if canonical_sha256 (decision_body dump d) \<noteq> rd_decision_hash d
               then Some ''risk decision hash does not match canonical decision body''
               else None)"

section \<open>Batches\<close>

text \<open>
  \<open>BatchSizingRequest.validate_rank_order\<close>: a batch is its list of requests. The loop over
  the later requests reports the first field that differs from the first request.
\<close>

definition batch_mismatch :: "sizing_request \<Rightarrow> sizing_request \<Rightarrow> string option" where
  "batch_mismatch first request =
     (if sr_run_id request \<noteq> sr_run_id first
      then Some ''all batch requests must use the same run_id''
      else if sr_configuration_hash request \<noteq> sr_configuration_hash first
      then Some ''all batch requests must use the same configuration_hash''
      else if sr_calculated_at request \<noteq> sr_calculated_at first
      then Some ''all batch requests must use the same calculated_at''
      else if sr_execution_cutoff_timestamp request \<noteq> sr_execution_cutoff_timestamp first
      then Some ''all batch requests must use the same execution cutoff''
      else if sr_policy request \<noteq> sr_policy first
      then Some ''all batch requests must use the same risk policy''
      else if sr_account request \<noteq> sr_account first
      then Some ''all batch requests must use the same account snapshot''
      else if sr_session request \<noteq> sr_session first
      then Some ''all batch requests must use the same initial session state''
      else None)"

fun first_mismatch :: "sizing_request \<Rightarrow> sizing_request list \<Rightarrow> string option" where
  "first_mismatch first [] = None"
| "first_mismatch first (request # rest) =
     (case batch_mismatch first request of
        Some e \<Rightarrow> Some e
      | None \<Rightarrow> first_mismatch first rest)"

definition validate_rank_order :: "sizing_request list \<Rightarrow> string option" where
  "validate_rank_order requests =
     (case requests of
        [] \<Rightarrow> Some ''batch must contain at least one request''
      | first # rest \<Rightarrow>
        if 3 < length requests then Some ''at most three approved setups may be sized''
        else if map sr_final_rank requests \<noteq> map int [1..<length requests + 1]
        then Some ''batch requests must use contiguous ranks beginning at 1''
        else if \<not> distinct (map sr_request_id requests)
        then Some ''batch request_id values must be unique''
        else if \<not> distinct (map (\<lambda>r. ap_ticker (sr_setup r)) requests)
        then Some ''batch tickers must be unique''
        else first_mismatch first rest)"

lemma first_mismatch_None:
  "first_mismatch first rest = None \<longleftrightarrow> (\<forall>r \<in> set rest. batch_mismatch first r = None)"
  by (induction rest) (auto split: option.splits)

record batch_sizing_result =
  bs_decisions :: "risk_decision list"
  bs_ending_session_state :: session_risk_state

end
