(* ===== verification/Risk_Engine.thy ===== *)
theory Risk_Engine
  imports Risk_Models
begin

text \<open>
  The sizing engine, \<open>daybreak_risk/engine.py\<close>. \<open>size_position\<close> is written in the stages of
  the source: the guards on account, session, market and quote; the session result and the
  daily loss limits; prices and per-share risk; budgets and capacities; the quantity caps and
  the decision. Every decimal operation rounds as the context does, and a trap of the
  context makes the computation raise. \<open>dump\<close> and \<open>dumpd\<close> serialise a request and a decision.
\<close>

section \<open>Constants and helpers\<close>

definition BINDING_ORDER :: "binding_cap list" where
  "BINDING_ORDER =
     [TRADE_RISK, OPEN_RISK, DAILY_LOSS, BUYING_POWER, POSITION_NOTIONAL, GROSS_EXPOSURE,
      ADV_LIQUIDITY, PREMARKET_LIQUIDITY]"

fun cap_value :: "quantity_caps \<Rightarrow> binding_cap \<Rightarrow> int" where
  "cap_value c TRADE_RISK = qc_trade_risk c"
| "cap_value c OPEN_RISK = qc_open_risk c"
| "cap_value c DAILY_LOSS = qc_daily_loss c"
| "cap_value c BUYING_POWER = qc_buying_power c"
| "cap_value c POSITION_NOTIONAL = qc_position_notional c"
| "cap_value c GROSS_EXPOSURE = qc_gross_exposure c"
| "cap_value c ADV_LIQUIDITY = qc_adv_liquidity c"
| "cap_value c PREMARKET_LIQUIDITY = qc_premarket_liquidity c"

fun RISK_FLAG_MULTIPLIERS :: "risk_flag \<Rightarrow> rat" where
  "RISK_FLAG_MULTIPLIERS RF_PARABOLIC = 50 / 100"
| "RISK_FLAG_MULTIPLIERS RF_LOW_FLOAT = 50 / 100"
| "RISK_FLAG_MULTIPLIERS RF_SPIKY_VOLUME = 60 / 100"
| "RISK_FLAG_MULTIPLIERS RF_SECONDARY_SOURCE = 75 / 100"
| "RISK_FLAG_MULTIPLIERS RF_HARD_TO_BORROW = 1"
| "RISK_FLAG_MULTIPLIERS RF_UNKNOWN_BORROW = 1"

text \<open>\<open>min(xs, default=d)\<close>.\<close>

fun min_default :: "rat list \<Rightarrow> rat \<Rightarrow> rat" where
  "min_default [] d = d"
| "min_default (x # xs) d = fold min xs x"

text \<open>\<open>_unique_reasons\<close>: the first occurrence of each reason.\<close>

fun unique_reasons_from :: "'a list \<Rightarrow> 'a list \<Rightarrow> 'a list" where
  "unique_reasons_from seen [] = []"
| "unique_reasons_from seen (r # rs) =
     (if r \<in> set seen then unique_reasons_from seen rs else r # unique_reasons_from (r # seen) rs)"

definition unique_reasons :: "risk_rejection_code list \<Rightarrow> risk_rejection_code list" where
  "unique_reasons rs = unique_reasons_from [] rs"

text \<open>One guard \<open>if c: reasons.append(x)\<close>.\<close>

definition guard :: "bool \<Rightarrow> 'a \<Rightarrow> 'a list" where
  "guard c x = (if c then [x] else [])"

definition ascii_lower :: "string \<Rightarrow> string" where
  "ascii_lower s =
     map (\<lambda>c. let n = (of_char c :: nat) in if 65 \<le> n \<and> n \<le> 90 then char_of (n + 32) else c) s"

section \<open>The values of a sizing computation\<close>

record calculations =
  ca_session_reference_equity :: rat
  ca_broker_session_pnl :: rat
  ca_internal_session_pnl :: rat
  ca_risk_session_pnl :: rat
  ca_usable_buying_power :: rat
  ca_planned_entry_limit :: rat
  ca_stop_price :: rat
  ca_target_price :: rat
  ca_structural_risk_per_share :: rat
  ca_execution_risk_buffer :: rat
  ca_modeled_risk_per_share :: rat
  ca_base_trade_risk_budget :: rat
  ca_risk_flag_multiplier :: rat
  ca_adjusted_trade_risk_budget :: rat
  ca_maximum_total_open_risk :: rat
  ca_remaining_open_risk_capacity :: rat
  ca_remaining_hard_loss_capacity :: rat
  ca_maximum_position_notional :: rat
  ca_remaining_gross_exposure :: rat

definition finalize_decision :: "(risk_decision \<Rightarrow> json) \<Rightarrow> risk_decision \<Rightarrow> risk_decision result" where
  "finalize_decision dumpd base =
     (let d = base\<lparr>rd_decision_hash := canonical_sha256 (decision_body dumpd base)\<rparr>
      in if \<not> valid_decision_fields d then Inl (ValidationError ''RiskDecision'')
         else case validate_terminal_shape dumpd d of
                Some e \<Rightarrow> Inl (ValidationError e)
              | None \<Rightarrow> Inr d)"

definition rejected ::
    "(sizing_request \<Rightarrow> json) \<Rightarrow> (risk_decision \<Rightarrow> json) \<Rightarrow> sizing_request \<Rightarrow>
     risk_rejection_code list \<Rightarrow> bool \<Rightarrow> calculations \<Rightarrow> risk_decision result" where
  "rejected dump dumpd request reasons kill_switch_required calc =
     finalize_decision dumpd
       \<lparr>rd_decision_id = ''risk-'' @ sr_request_id request,
        rd_request_id = sr_request_id request,
        rd_run_id = sr_run_id request,
        rd_trading_date = sr_trading_date request,
        rd_policy_version = rp_policy_version (sr_policy request),
        rd_profile_name = rp_profile_name (sr_policy request),
        rd_ticker = ap_ticker (sr_setup request),
        rd_final_rank = sr_final_rank request,
        rd_decision = RD_REJECTED,
        rd_rejection_reasons = unique_reasons reasons,
        rd_kill_switch_required = kill_switch_required,
        rd_session_reference_equity = Some (ca_session_reference_equity calc),
        rd_broker_session_pnl = Some (ca_broker_session_pnl calc),
        rd_internal_session_pnl = Some (ca_internal_session_pnl calc),
        rd_risk_session_pnl = Some (ca_risk_session_pnl calc),
        rd_usable_buying_power = Some (ca_usable_buying_power calc),
        rd_base_trade_risk_budget = Some (ca_base_trade_risk_budget calc),
        rd_risk_flag_multiplier = Some (ca_risk_flag_multiplier calc),
        rd_adjusted_trade_risk_budget = Some (ca_adjusted_trade_risk_budget calc),
        rd_planned_entry_limit = Some (ca_planned_entry_limit calc),
        rd_stop_price = Some (ca_stop_price calc),
        rd_target_price = Some (ca_target_price calc),
        rd_structural_risk_per_share = Some (ca_structural_risk_per_share calc),
        rd_execution_risk_buffer = Some (ca_execution_risk_buffer calc),
        rd_modeled_risk_per_share = Some (ca_modeled_risk_per_share calc),
        rd_maximum_total_open_risk = Some (ca_maximum_total_open_risk calc),
        rd_remaining_open_risk_capacity = Some (ca_remaining_open_risk_capacity calc),
        rd_remaining_hard_loss_capacity = Some (ca_remaining_hard_loss_capacity calc),
        rd_maximum_position_notional = Some (ca_maximum_position_notional calc),
        rd_remaining_gross_exposure = Some (ca_remaining_gross_exposure calc),
        rd_quantity_caps = None,
        rd_binding_cap = None,
        rd_final_quantity = 0,
        rd_reserved_modeled_risk = None,
        rd_reserved_notional = None,
        rd_reservation = None,
        rd_calculated_at = sr_calculated_at request,
        rd_account_snapshot_timestamp = ac_snapshot_timestamp (sr_account request),
        rd_quote_timestamp = qt_quote_timestamp (sr_quote request),
        rd_configuration_hash = sr_configuration_hash request,
        rd_input_hash = canonical_sha256 (dump request),
        rd_decision_hash = replicate 64 (CHR ''0'')\<rparr>"

definition initialize_session_state :: "account_snapshot \<Rightarrow> session_risk_state result" where
  "initialize_session_state account =
     (let reference_equity = min (ac_equity account) (ac_last_equity account);
          state =
            \<lparr>ss_session_reference_equity = reference_equity,
             ss_session_start_equity = ac_equity account,
             ss_net_external_cash_flow = 0, ss_internal_realized_pnl = 0,
             ss_internal_unrealized_pnl = 0, ss_current_total_open_risk = 0,
             ss_reserved_entry_notional = 0,
             ss_current_long_market_value = max 0 (ac_long_market_value account),
             ss_open_daybreak_position_count = 0, ss_reserved_entry_position_count = 0,
             ss_completed_entry_count = 0, ss_consecutive_closed_losses = 0,
             ss_traded_tickers_today = [], ss_account_state_reconciled = True,
             ss_streams_healthy = True, ss_database_healthy = True, ss_kill_switch_active = False\<rparr>
      in if reference_equity \<le> 0 \<or> ac_equity account \<le> 0
         then Inl (ValueError ''account equity must be positive to initialize risk state'')
         else if valid_session state then Inr state
         else Inl (ValidationError ''SessionRiskState''))"

section \<open>size\_position: guards\<close>

definition state_reasons :: "sizing_request \<Rightarrow> risk_rejection_code list" where
  "state_reasons request =
     (let policy = sr_policy request; account = sr_account request; quote = sr_quote request;
          session = sr_session request; liquidity = sr_liquidity request;
          account_age_ms = elapsed_ms (sr_calculated_at request) (ac_snapshot_timestamp account);
          quote_age_ms = elapsed_ms (sr_calculated_at request) (qt_quote_timestamp quote);
          last_trade_age_ms =
            elapsed_ms (sr_calculated_at request) (qt_last_trade_timestamp quote)
      in guard (ac_status account \<noteq> ''ACTIVE'') ACCOUNT_NOT_ACTIVE @
         guard (ac_account_blocked account) ACCOUNT_BLOCKED @
         guard (ac_trading_blocked account) TRADING_BLOCKED @
         guard (ac_trade_suspended_by_user account) TRADE_SUSPENDED_BY_USER @
         guard (account_age_ms < 0 \<or> account_age_ms > rp_max_account_snapshot_age_ms policy)
           ACCOUNT_SNAPSHOT_STALE @
         guard (ac_equity account \<le> 0 \<or> ac_last_equity account \<le> 0 \<or>
             list_ex (\<lambda>v. v < 0)
               [ac_buying_power account, ac_non_marginable_buying_power account,
                ac_maintenance_margin account])
           INVALID_ACCOUNT_VALUE @
         guard (ac_pending_transfer_out account > 0) PENDING_TRANSFER_OUT @
         guard (\<not> ss_account_state_reconciled session) ACCOUNT_STATE_UNRECONCILED @
         guard (\<not> ss_streams_healthy session) STREAM_HEALTH_FAILURE @
         guard (\<not> ss_database_healthy session) DATABASE_HEALTH_FAILURE @
         guard (ss_kill_switch_active session) KILL_SWITCH_ACTIVE @
         guard (\<not> sr_market_status_normal request) MARKET_NOT_NORMAL @
         guard (sr_symbol_halted request) SYMBOL_HALTED @
         guard (sr_calculated_at request > sr_execution_cutoff_timestamp request)
           EXECUTION_CUTOFF_EXCEEDED @
         guard (quote_age_ms < 0 \<or> quote_age_ms > rp_max_quote_age_ms policy)
           QUOTE_SNAPSHOT_STALE @
         guard (last_trade_age_ms < 0 \<or> last_trade_age_ms > rp_max_last_trade_age_ms policy)
           LAST_TRADE_STALE @
         guard (qt_bid_price quote \<le> 0 \<or> qt_ask_price quote \<le> 0 \<or>
             qt_ask_price quote < qt_bid_price quote \<or> qt_last_price quote \<le> 0 \<or>
             qt_bid_size quote \<le> 0 \<or> qt_ask_size quote \<le> 0)
           INVALID_QUOTE @
         guard (\<not> qt_first_regular_session_nbbo_confirmed quote)
           REGULAR_SESSION_NBBO_NOT_CONFIRMED @
         guard (\<not> lq_asset_tradable liquidity \<or>
             ascii_lower (lq_asset_status liquidity) \<noteq> ''active'')
           INVALID_LIQUIDITY_INPUT)"

section \<open>size\_position: session result and daily limits\<close>

definition broker_session_pnl :: "sizing_request \<Rightarrow> rat" where
  "broker_session_pnl request =
     dsub (dsub (ac_equity (sr_account request)) (ss_session_start_equity (sr_session request)))
       (ss_net_external_cash_flow (sr_session request))"

definition internal_session_pnl :: "sizing_request \<Rightarrow> rat" where
  "internal_session_pnl request =
     dadd (ss_internal_realized_pnl (sr_session request))
       (ss_internal_unrealized_pnl (sr_session request))"

definition risk_session_pnl :: "sizing_request \<Rightarrow> rat" where
  "risk_session_pnl request = min (broker_session_pnl request) (internal_session_pnl request)"

definition loss_limit :: "sizing_request \<Rightarrow> rat \<Rightarrow> rat option" where
  "loss_limit request pct =
     floor_to_cent (dmul (ss_session_reference_equity (sr_session request)) pct)"

definition session_reasons :: "sizing_request \<Rightarrow> rat \<Rightarrow> rat \<Rightarrow> risk_rejection_code list" where
  "session_reasons request soft_daily_loss_limit hard_daily_loss_limit =
     (let policy = sr_policy request; session = sr_session request
      in guard (dabs (dsub (broker_session_pnl request) (internal_session_pnl request))
             > rp_pnl_reconciliation_tolerance policy)
           SESSION_PNL_RECONCILIATION_FAILURE @
         (if risk_session_pnl request \<le> dneg hard_daily_loss_limit then [HARD_DAILY_LOSS_LIMIT]
          else guard (risk_session_pnl request \<le> dneg soft_daily_loss_limit)
            SOFT_DAILY_LOSS_LIMIT) @
         guard (ss_consecutive_closed_losses session \<ge> rp_max_consecutive_losses policy)
           MAX_CONSECUTIVE_LOSSES @
         guard (ss_completed_entry_count session \<ge> rp_max_new_entries_per_day policy)
           MAX_NEW_ENTRIES_PER_DAY @
         guard (ap_ticker (sr_setup request) \<in> set (ss_traded_tickers_today session))
           DUPLICATE_TICKER_DAY @
         guard (ss_open_daybreak_position_count session + ss_reserved_entry_position_count session
             \<ge> rp_max_concurrent_positions policy)
           MAX_CONCURRENT_POSITIONS)"

definition kill_switch_required :: "sizing_request \<Rightarrow> rat \<Rightarrow> bool" where
  "kill_switch_required request hard_daily_loss_limit \<longleftrightarrow>
     ss_kill_switch_active (sr_session request) \<or>
     risk_session_pnl request \<le> dneg hard_daily_loss_limit"

section \<open>size\_position: prices and risk per share\<close>

definition usable_buying_power :: "sizing_request \<Rightarrow> rat option" where
  "usable_buying_power request =
     floor_to_cent
       (dsub
         (dmul
           (min (ac_non_marginable_buying_power (sr_account request))
             (ac_buying_power (sr_account request)))
           (dsub 1 (rp_buying_power_reserve_pct (sr_policy request))))
         (ss_reserved_entry_notional (sr_session request)))"

record price_plan =
  pp_reference_price :: rat
  pp_atr :: rat
  pp_premarket_low :: rat
  pp_planned_entry_limit :: rat
  pp_stop_price :: rat
  pp_target_price :: rat
  pp_structural_risk_per_share :: rat
  pp_execution_risk_buffer :: rat
  pp_modeled_risk_per_share :: rat

definition price_plan_of :: "sizing_request \<Rightarrow> price_plan option" where
  "price_plan_of request =
     (let policy = sr_policy request; params = ap_trade_parameters (sr_setup request)
      in do {
        reference_price \<leftarrow> quantize_money (tp_reference_price params);
        atr \<leftarrow> quantize_money (tp_atr_value_used params);
        premarket_low \<leftarrow> quantize_money (tp_premarket_low_used params);
        planned_entry_limit \<leftarrow>
          round_up_to_increment (sr_planned_entry_limit request) (sr_tick_size request);
        stop_price \<leftarrow>
          round_down_to_increment
            (dsub reference_price (dmul (tp_risk_stop_atr_multiple params) atr))
            (sr_tick_size request);
        target_price \<leftarrow>
          round_down_to_increment
            (dadd reference_price (dmul (tp_profit_target_atr_multiple params) atr))
            (sr_tick_size request);
        structural_risk_per_share \<leftarrow> quantize_money (dsub planned_entry_limit stop_price);
        atr_buffer \<leftarrow> quantize_money (dmul (rp_slippage_buffer_atr_multiple policy) atr);
        spread_buffer \<leftarrow>
          quantize_money
            (dmul (rp_slippage_buffer_spread_multiple policy) (spread (sr_quote request)));
        execution_risk_buffer \<leftarrow> quantize_money (max atr_buffer spread_buffer);
        modeled_risk_per_share \<leftarrow>
          quantize_money (dadd structural_risk_per_share execution_risk_buffer);
        Some
          \<lparr>pp_reference_price = reference_price, pp_atr = atr, pp_premarket_low = premarket_low,
           pp_planned_entry_limit = planned_entry_limit, pp_stop_price = stop_price,
           pp_target_price = target_price,
           pp_structural_risk_per_share = structural_risk_per_share,
           pp_execution_risk_buffer = execution_risk_buffer,
           pp_modeled_risk_per_share = modeled_risk_per_share\<rparr>
      })"

definition price_reasons :: "sizing_request \<Rightarrow> price_plan \<Rightarrow> risk_rejection_code list option" where
  "price_reasons request p =
     (let policy = sr_policy request; quote = sr_quote request;
          entry_drift = dabs (dsub (pp_planned_entry_limit p) (pp_reference_price p))
      in do {
        spread_pct \<leftarrow>
          (if midpoint quote > 0 then ddiv (spread quote) (midpoint quote) else Some 999);
        spread_atr_fraction \<leftarrow>
          (if pp_atr p > 0 then ddiv (spread quote) (pp_atr p) else Some 999);
        entry_drift_pct \<leftarrow>
          (if pp_reference_price p > 0 then ddiv entry_drift (pp_reference_price p)
           else Some 999);
        entry_drift_atr \<leftarrow> (if pp_atr p > 0 then ddiv entry_drift (pp_atr p) else Some 999);
        Some
          (guard (pp_planned_entry_limit p < qt_ask_price quote) ENTRY_LIMIT_NOT_MARKETABLE @
           guard (pp_stop_price p \<le> 0 \<or> pp_target_price p \<le> pp_planned_entry_limit p \<or>
               pp_planned_entry_limit p \<le> pp_stop_price p)
             INVALID_PRICE_GEOMETRY @
           guard (pp_stop_price p > pp_premarket_low p) STOP_ABOVE_PREMARKET_LOW @
           guard (min (qt_last_price quote) (qt_bid_price quote) < pp_premarket_low p)
             PREMARKET_LOW_BROKEN @
           guard (spread_pct > rp_max_spread_pct policy \<or>
               spread_atr_fraction > rp_max_spread_atr_fraction policy)
             SPREAD_TOO_WIDE @
           guard (entry_drift_pct > rp_max_entry_drift_pct policy \<or>
               entry_drift_atr > rp_max_entry_drift_atr_multiple policy)
             ENTRY_PRICE_DRIFT_TOO_LARGE @
           guard (pp_structural_risk_per_share p \<le> 0 \<or> pp_modeled_risk_per_share p \<le> 0)
             INVALID_PRICE_GEOMETRY)
      })"

section \<open>size\_position: budgets and capacities\<close>

record budgets =
  bu_base_trade_risk_budget :: rat
  bu_risk_flag_multiplier :: rat
  bu_adjusted_trade_risk_budget :: rat
  bu_maximum_total_open_risk :: rat
  bu_remaining_open_risk_capacity :: rat
  bu_remaining_hard_loss_capacity :: rat
  bu_maximum_position_notional :: rat
  bu_remaining_gross_exposure :: rat

definition risk_flag_multiplier :: "sizing_request \<Rightarrow> rat" where
  "risk_flag_multiplier request =
     min_default (map RISK_FLAG_MULTIPLIERS (ap_risk_flags (sr_setup request))) 1"

definition budgets_of :: "sizing_request \<Rightarrow> rat \<Rightarrow> budgets option" where
  "budgets_of request hard_daily_loss_limit =
     (let policy = sr_policy request; session = sr_session request;
          equity = ss_session_reference_equity session;
          current_loss = max 0 (dneg (risk_session_pnl request));
          current_and_reserved_gross =
            dadd (ss_current_long_market_value session) (ss_reserved_entry_notional session)
      in do {
        base_trade_risk_budget \<leftarrow> floor_to_cent (dmul equity (rp_risk_per_trade_pct policy));
        adjusted_trade_risk_budget \<leftarrow>
          floor_to_cent (dmul base_trade_risk_budget (risk_flag_multiplier request));
        maximum_total_open_risk \<leftarrow> floor_to_cent (dmul equity (rp_max_open_risk_pct policy));
        remaining_open_risk_capacity \<leftarrow>
          floor_to_cent (dsub maximum_total_open_risk (ss_current_total_open_risk session));
        remaining_hard_loss_capacity \<leftarrow>
          floor_to_cent
            (dsub (dsub hard_daily_loss_limit current_loss) (ss_current_total_open_risk session));
        maximum_position_notional \<leftarrow>
          floor_to_cent (dmul equity (rp_max_position_notional_pct policy));
        maximum_gross_long_exposure \<leftarrow>
          floor_to_cent (dmul equity (rp_max_gross_long_exposure_pct policy));
        remaining_gross_exposure \<leftarrow>
          floor_to_cent (dsub maximum_gross_long_exposure current_and_reserved_gross);
        Some
          \<lparr>bu_base_trade_risk_budget = base_trade_risk_budget,
           bu_risk_flag_multiplier = risk_flag_multiplier request,
           bu_adjusted_trade_risk_budget = adjusted_trade_risk_budget,
           bu_maximum_total_open_risk = maximum_total_open_risk,
           bu_remaining_open_risk_capacity = remaining_open_risk_capacity,
           bu_remaining_hard_loss_capacity = remaining_hard_loss_capacity,
           bu_maximum_position_notional = maximum_position_notional,
           bu_remaining_gross_exposure = remaining_gross_exposure\<rparr>
      })"

definition capacity_reasons :: "rat \<Rightarrow> budgets \<Rightarrow> risk_rejection_code list" where
  "capacity_reasons usable b =
     guard (usable \<le> 0) NO_BUYING_POWER_CAPACITY @
     guard (bu_remaining_open_risk_capacity b \<le> 0) NO_OPEN_RISK_CAPACITY @
     guard (bu_remaining_hard_loss_capacity b \<le> 0) NO_DAILY_LOSS_CAPACITY @
     guard (bu_remaining_gross_exposure b \<le> 0) NO_GROSS_EXPOSURE_CAPACITY"

definition calculations_of :: "sizing_request \<Rightarrow> rat \<Rightarrow> price_plan \<Rightarrow> budgets \<Rightarrow> calculations" where
  "calculations_of request usable p b =
     \<lparr>ca_session_reference_equity = ss_session_reference_equity (sr_session request),
      ca_broker_session_pnl = broker_session_pnl request,
      ca_internal_session_pnl = internal_session_pnl request,
      ca_risk_session_pnl = risk_session_pnl request,
      ca_usable_buying_power = usable,
      ca_planned_entry_limit = pp_planned_entry_limit p,
      ca_stop_price = pp_stop_price p,
      ca_target_price = pp_target_price p,
      ca_structural_risk_per_share = pp_structural_risk_per_share p,
      ca_execution_risk_buffer = pp_execution_risk_buffer p,
      ca_modeled_risk_per_share = pp_modeled_risk_per_share p,
      ca_base_trade_risk_budget = bu_base_trade_risk_budget b,
      ca_risk_flag_multiplier = bu_risk_flag_multiplier b,
      ca_adjusted_trade_risk_budget = bu_adjusted_trade_risk_budget b,
      ca_maximum_total_open_risk = bu_maximum_total_open_risk b,
      ca_remaining_open_risk_capacity = bu_remaining_open_risk_capacity b,
      ca_remaining_hard_loss_capacity = bu_remaining_hard_loss_capacity b,
      ca_maximum_position_notional = bu_maximum_position_notional b,
      ca_remaining_gross_exposure = bu_remaining_gross_exposure b\<rparr>"

text \<open>All reasons, the kill switch and the values, up to \<open>if reasons:\<close>.\<close>

definition assess ::
    "sizing_request \<Rightarrow> (risk_rejection_code list \<times> bool \<times> calculations) option" where
  "assess request = do {
     soft \<leftarrow> loss_limit request (rp_soft_daily_loss_pct (sr_policy request));
     hard \<leftarrow> loss_limit request (rp_hard_daily_loss_pct (sr_policy request));
     usable \<leftarrow> usable_buying_power request;
     p \<leftarrow> price_plan_of request;
     prs \<leftarrow> price_reasons request p;
     b \<leftarrow> budgets_of request hard;
     Some
       (state_reasons request @ session_reasons request soft hard @ prs @
          capacity_reasons usable b,
        kill_switch_required request hard, calculations_of request usable p b)
   }"

section \<open>size\_position: caps and decision\<close>

definition caps_of :: "sizing_request \<Rightarrow> calculations \<Rightarrow> quantity_caps option" where
  "caps_of request c =
     (let risk = ca_modeled_risk_per_share c; limit = ca_planned_entry_limit c;
          policy = sr_policy request; liquidity = sr_liquidity request
      in do {
        trade_risk \<leftarrow> ddiv (ca_adjusted_trade_risk_budget c) risk;
        open_risk \<leftarrow> ddiv (ca_remaining_open_risk_capacity c) risk;
        daily_loss \<leftarrow> ddiv (ca_remaining_hard_loss_capacity c) risk;
        buying_power \<leftarrow> ddiv (ca_usable_buying_power c) limit;
        position_notional \<leftarrow> ddiv (ca_maximum_position_notional c) limit;
        gross_exposure \<leftarrow> ddiv (ca_remaining_gross_exposure c) limit;
        Some
          \<lparr>qc_trade_risk = floor_to_int trade_risk,
           qc_open_risk = floor_to_int open_risk,
           qc_daily_loss = floor_to_int daily_loss,
           qc_buying_power = floor_to_int buying_power,
           qc_position_notional = floor_to_int position_notional,
           qc_gross_exposure = floor_to_int gross_exposure,
           qc_adv_liquidity =
             floor_to_int (dmul (of_int (lq_adv20_shares liquidity)) (rp_max_pct_adv20 policy)),
           qc_premarket_liquidity =
             floor_to_int (dmul (of_int (lq_premarket_volume liquidity))
               (rp_max_pct_premarket_volume policy))\<rparr>
      })"

definition final_quantity_of :: "quantity_caps \<Rightarrow> int" where
  "final_quantity_of caps = fold min (tl (cap_values caps)) (hd (cap_values caps))"

definition binding_cap_of :: "quantity_caps \<Rightarrow> int \<Rightarrow> binding_cap option" where
  "binding_cap_of caps q = List.find (\<lambda>cap. cap_value caps cap = q) BINDING_ORDER"

text \<open>\<open>strftime('%Y%m%d')\<close>.\<close>

definition two_digits :: "int \<Rightarrow> string" where
  "two_digits n = (if n < 10 then ''0'' else []) @ show_int n"

definition show_date :: "date \<Rightarrow> string" where
  "show_date = (\<lambda>(y, m, d). show_int y @ two_digits m @ two_digits d)"

definition client_order_id_of :: "sizing_request \<Rightarrow> string" where
  "client_order_id_of request =
     ''DB-'' @ show_date (sr_trading_date request) @ ''-'' @
     take 16 (canonical_sha256 (JStr (sr_run_id request))) @ ''-'' @
     ap_ticker (sr_setup request)"

definition reservation_of :: "sizing_request \<Rightarrow> int \<Rightarrow> rat \<Rightarrow> rat \<Rightarrow> risk_reservation" where
  "reservation_of request final_quantity notional risk =
     \<lparr>rr_reservation_id = ''reservation-'' @ sr_request_id request,
      rr_request_id = sr_request_id request,
      rr_run_id = sr_run_id request,
      rr_trading_date = sr_trading_date request,
      rr_ticker = ap_ticker (sr_setup request),
      rr_client_order_id = client_order_id_of request,
      rr_reserved_quantity = final_quantity,
      rr_reserved_notional = notional,
      rr_reserved_modeled_risk = risk,
      rr_created_at = sr_calculated_at request,
      rr_expires_at = sr_calculated_at request + 120000000,
      rr_status = RES_RESERVED\<rparr>"

definition approved_base ::
    "(sizing_request \<Rightarrow> json) \<Rightarrow> sizing_request \<Rightarrow> calculations \<Rightarrow> quantity_caps \<Rightarrow>
     binding_cap option \<Rightarrow> risk_reservation \<Rightarrow> risk_decision" where
  "approved_base dump request c caps cap reservation =
     \<lparr>rd_decision_id = ''risk-'' @ sr_request_id request,
      rd_request_id = sr_request_id request,
      rd_run_id = sr_run_id request,
      rd_trading_date = sr_trading_date request,
      rd_policy_version = rp_policy_version (sr_policy request),
      rd_profile_name = rp_profile_name (sr_policy request),
      rd_ticker = ap_ticker (sr_setup request),
      rd_final_rank = sr_final_rank request,
      rd_decision = RD_APPROVED,
      rd_rejection_reasons = [],
      rd_kill_switch_required = False,
      rd_session_reference_equity = Some (ca_session_reference_equity c),
      rd_broker_session_pnl = Some (ca_broker_session_pnl c),
      rd_internal_session_pnl = Some (ca_internal_session_pnl c),
      rd_risk_session_pnl = Some (ca_risk_session_pnl c),
      rd_usable_buying_power = Some (ca_usable_buying_power c),
      rd_base_trade_risk_budget = Some (ca_base_trade_risk_budget c),
      rd_risk_flag_multiplier = Some (ca_risk_flag_multiplier c),
      rd_adjusted_trade_risk_budget = Some (ca_adjusted_trade_risk_budget c),
      rd_planned_entry_limit = Some (ca_planned_entry_limit c),
      rd_stop_price = Some (ca_stop_price c),
      rd_target_price = Some (ca_target_price c),
      rd_structural_risk_per_share = Some (ca_structural_risk_per_share c),
      rd_execution_risk_buffer = Some (ca_execution_risk_buffer c),
      rd_modeled_risk_per_share = Some (ca_modeled_risk_per_share c),
      rd_maximum_total_open_risk = Some (ca_maximum_total_open_risk c),
      rd_remaining_open_risk_capacity = Some (ca_remaining_open_risk_capacity c),
      rd_remaining_hard_loss_capacity = Some (ca_remaining_hard_loss_capacity c),
      rd_maximum_position_notional = Some (ca_maximum_position_notional c),
      rd_remaining_gross_exposure = Some (ca_remaining_gross_exposure c),
      rd_quantity_caps = Some caps,
      rd_binding_cap = cap,
      rd_final_quantity = rr_reserved_quantity reservation,
      rd_reserved_modeled_risk = Some (rr_reserved_modeled_risk reservation),
      rd_reserved_notional = Some (rr_reserved_notional reservation),
      rd_reservation = Some reservation,
      rd_calculated_at = sr_calculated_at request,
      rd_account_snapshot_timestamp = ac_snapshot_timestamp (sr_account request),
      rd_quote_timestamp = qt_quote_timestamp (sr_quote request),
      rd_configuration_hash = sr_configuration_hash request,
      rd_input_hash = canonical_sha256 (dump request),
      rd_decision_hash = replicate 64 (CHR ''0'')\<rparr>"

definition approved ::
    "(sizing_request \<Rightarrow> json) \<Rightarrow> (risk_decision \<Rightarrow> json) \<Rightarrow> sizing_request \<Rightarrow> calculations \<Rightarrow>
     quantity_caps \<Rightarrow> risk_decision result" where
  "approved dump dumpd request c caps =
     (let q = final_quantity_of caps
      in case (quantize_money (dmul (ca_modeled_risk_per_share c) (of_int q)),
               quantize_money (dmul (ca_planned_entry_limit c) (of_int q))) of
           (Some risk, Some notional) \<Rightarrow>
             let reservation = reservation_of request q notional risk
             in if \<not> valid_reservation reservation then Inl (ValidationError ''RiskReservation'')
                else finalize_decision dumpd
                  (approved_base dump request c caps (binding_cap_of caps q) reservation)
         | _ \<Rightarrow> Inl DecimalError)"

definition size_position ::
    "(sizing_request \<Rightarrow> json) \<Rightarrow> (risk_decision \<Rightarrow> json) \<Rightarrow> sizing_request \<Rightarrow>
     risk_decision result" where
  "size_position dump dumpd request =
     (case assess request of
        None \<Rightarrow> Inl DecimalError
      | Some (reasons, kill, c) \<Rightarrow>
          if reasons \<noteq> [] then rejected dump dumpd request reasons kill c
          else case caps_of request c of
            None \<Rightarrow> Inl DecimalError
          | Some caps \<Rightarrow>
              if \<not> valid_quantity_caps caps then Inl (ValidationError ''QuantityCaps'')
              else if final_quantity_of caps < rp_minimum_quantity (sr_policy request)
              then rejected dump dumpd request [FINAL_QUANTITY_BELOW_MINIMUM] False c
              else approved dump dumpd request c caps)"

section \<open>size\_approved\_batch\<close>

definition after_decision :: "risk_decision \<Rightarrow> session_risk_state \<Rightarrow> session_risk_state" where
  "after_decision decision state =
     (case (rd_decision decision, rd_reserved_modeled_risk decision, rd_reserved_notional decision) of
        (RD_APPROVED, Some risk, Some notional) \<Rightarrow>
          state\<lparr>ss_current_total_open_risk := dadd (ss_current_total_open_risk state) risk,
                ss_reserved_entry_notional := dadd (ss_reserved_entry_notional state) notional,
                ss_reserved_entry_position_count := ss_reserved_entry_position_count state + 1\<rparr>
      | _ \<Rightarrow> state)"

fun size_each ::
    "(sizing_request \<Rightarrow> json) \<Rightarrow> (risk_decision \<Rightarrow> json) \<Rightarrow> session_risk_state \<Rightarrow>
     sizing_request list \<Rightarrow> (risk_decision list \<times> session_risk_state) result" where
  "size_each dump dumpd state [] = Inr ([], state)"
| "size_each dump dumpd state (request # requests) =
     rbind (size_position dump dumpd (request\<lparr>sr_session := state\<rparr>)) (\<lambda>decision.
     rbind (size_each dump dumpd (after_decision decision state) requests) (\<lambda>(ds, final).
       Inr (decision # ds, final)))"

definition size_approved_batch ::
    "(sizing_request \<Rightarrow> json) \<Rightarrow> (risk_decision \<Rightarrow> json) \<Rightarrow> sizing_request list \<Rightarrow>
     batch_sizing_result result" where
  "size_approved_batch dump dumpd requests =
     (case requests of
        [] \<Rightarrow> Inl (ValueError ''batch must contain at least one request'')
      | first # _ \<Rightarrow>
          rbind (size_each dump dumpd (sr_session first) requests) (\<lambda>(ds, final).
            Inr \<lparr>bs_decisions = ds, bs_ending_session_state = final\<rparr>))"

end
