(* ===== verification/Risk_Properties.thy ===== *)
theory Risk_Properties
  imports Risk_Engine
begin

text \<open>
  What the sizing engine guarantees: the shape of every decision, the preconditions and the
  limits an approval implies, and the cumulative limits of a batch.
\<close>

section \<open>The shape of a decision\<close>

lemma guard_Nil [simp]: "guard c x = [] \<longleftrightarrow> \<not> c"
  by (simp add: guard_def)

lemma in_guard [simp]: "y \<in> set (guard c x) \<longleftrightarrow> c \<and> y = x"
  unfolding guard_def by (cases c) simp_all

lemma finalize_Inr:
  assumes "finalize_decision dumpd base = Inr d"
  shows "d = base\<lparr>rd_decision_hash := canonical_sha256 (decision_body dumpd base)\<rparr>"
    and "valid_decision_fields d" and "validate_terminal_shape dumpd d = None"
  using assms by (auto simp: finalize_decision_def Let_def split: if_splits option.splits)

lemma set_unique_reasons_from: "set (unique_reasons_from seen rs) = set rs - set seen"
  by (induction rs arbitrary: seen) auto

lemma distinct_unique_reasons_from: "distinct (unique_reasons_from seen rs)"
  by (induction rs arbitrary: seen) (auto simp: set_unique_reasons_from)

lemma set_unique_reasons [simp]: "set (unique_reasons rs) = set rs"
  by (simp add: unique_reasons_def set_unique_reasons_from)

lemma distinct_unique_reasons [simp]: "distinct (unique_reasons rs)"
  by (simp add: unique_reasons_def distinct_unique_reasons_from)

lemma unique_reasons_Nil [simp]: "unique_reasons rs = [] \<longleftrightarrow> rs = []"
  by (metis set_unique_reasons set_empty)

lemma rejected_Inr:
  assumes "rejected dump dumpd r reasons kill c = Inr d"
  shows "rd_decision d = RD_REJECTED" and "rd_rejection_reasons d = unique_reasons reasons"
    and "rd_kill_switch_required d = kill" and "rd_final_quantity d = 0"
    and "rd_reservation d = None" and "rd_ticker d = ap_ticker (sr_setup r)"
    and "rd_request_id d = sr_request_id r"
  using finalize_Inr(1) [OF assms [unfolded rejected_def]] by simp_all

lemma approved_Inr:
  assumes "approved dump dumpd r c caps = Inr d"
  obtains risk notional where
    "quantize_money (dmul (ca_modeled_risk_per_share c) (of_int (final_quantity_of caps))) = Some risk"
    "quantize_money (dmul (ca_planned_entry_limit c) (of_int (final_quantity_of caps))) = Some notional"
    "valid_reservation (reservation_of r (final_quantity_of caps) notional risk)"
    "finalize_decision dumpd
       (approved_base dump r c caps (binding_cap_of caps (final_quantity_of caps))
         (reservation_of r (final_quantity_of caps) notional risk)) = Inr d"
  using assms unfolding approved_def Let_def
  by (auto split: option.splits if_splits)

text \<open>Every way in which \<open>size_position\<close> returns.\<close>

lemma size_position_cases:
  assumes "size_position dump dumpd r = Inr d"
  obtains
    (guarded) reasons kill c where "assess r = Some (reasons, kill, c)" "reasons \<noteq> []"
      "rejected dump dumpd r reasons kill c = Inr d"
  | (too_small) kill c caps where "assess r = Some ([], kill, c)" "caps_of r c = Some caps"
      "valid_quantity_caps caps" "final_quantity_of caps < rp_minimum_quantity (sr_policy r)"
      "rejected dump dumpd r [FINAL_QUANTITY_BELOW_MINIMUM] False c = Inr d"
  | (sized) kill c caps where "assess r = Some ([], kill, c)" "caps_of r c = Some caps"
      "valid_quantity_caps caps" "rp_minimum_quantity (sr_policy r) \<le> final_quantity_of caps"
      "approved dump dumpd r c caps = Inr d"
proof (cases "assess r")
  case None
  with assms show ?thesis by (simp add: size_position_def)
next
  case (Some x)
  obtain reasons kill c where x: "x = (reasons, kill, c)" by (cases x)
  show ?thesis
  proof (cases "reasons = []")
    case False
    with assms Some x show ?thesis by (intro guarded) (simp_all add: size_position_def)
  next
    case True
    with assms Some x obtain caps where caps: "caps_of r c = Some caps" "valid_quantity_caps caps"
      by (auto simp: size_position_def split: option.splits if_splits)
    show ?thesis
    proof (cases "final_quantity_of caps < rp_minimum_quantity (sr_policy r)")
      case lt: True
      show ?thesis
        by (rule too_small [OF _ caps lt]) (use assms Some x True caps lt in \<open>simp_all add: size_position_def\<close>)
    next
      case False
      show ?thesis
        by (rule sized [OF _ caps])
          (use assms Some x True caps False in \<open>simp_all add: size_position_def\<close>)
    qed
  qed
qed

text \<open>The evidence behind an approval.\<close>

lemma approvalE:
  assumes "size_position dump dumpd r = Inr d" and "rd_decision d = RD_APPROVED"
  obtains kill c caps where "assess r = Some ([], kill, c)" "caps_of r c = Some caps"
    "rp_minimum_quantity (sr_policy r) \<le> final_quantity_of caps"
    "approved dump dumpd r c caps = Inr d"
  using assms by (cases rule: size_position_cases) (auto dest: rejected_Inr(1))

lemma assessE:
  assumes "assess r = Some (reasons, kill, c)"
  obtains soft hard usable p prs b where
    "loss_limit r (rp_soft_daily_loss_pct (sr_policy r)) = Some soft"
    "loss_limit r (rp_hard_daily_loss_pct (sr_policy r)) = Some hard"
    "usable_buying_power r = Some usable" "price_plan_of r = Some p"
    "price_reasons r p = Some prs" "budgets_of r hard = Some b"
    "reasons = state_reasons r @ session_reasons r soft hard @ prs @ capacity_reasons usable b"
    "kill = kill_switch_required r hard" "c = calculations_of r usable p b"
  using assms by (auto simp: assess_def bind_eq_Some)

lemma approved_fields:
  assumes "approved dump dumpd r c caps = Inr d"
  shows "rd_final_quantity d = final_quantity_of caps" "rd_quantity_caps d = Some caps"
    "rd_binding_cap d = binding_cap_of caps (final_quantity_of caps)"
    "rd_modeled_risk_per_share d = Some (ca_modeled_risk_per_share c)"
    "rd_planned_entry_limit d = Some (ca_planned_entry_limit c)"
    "rd_stop_price d = Some (ca_stop_price c)" "rd_target_price d = Some (ca_target_price c)"
    "rd_adjusted_trade_risk_budget d = Some (ca_adjusted_trade_risk_budget c)"
    "rd_rejection_reasons d = []" "rd_decision d = RD_APPROVED" "valid_decision_fields d"
    "rd_risk_session_pnl d = Some (ca_risk_session_pnl c)"
    "\<exists>risk notional. rd_reservation d = Some (reservation_of r (final_quantity_of caps) notional risk) \<and>
       rd_reserved_modeled_risk d = Some risk \<and> rd_reserved_notional d = Some notional \<and>
       quantize_money (dmul (ca_modeled_risk_per_share c) (of_int (final_quantity_of caps))) = Some risk \<and>
       quantize_money (dmul (ca_planned_entry_limit c) (of_int (final_quantity_of caps))) = Some notional \<and>
       valid_reservation (reservation_of r (final_quantity_of caps) notional risk)"
proof -
  obtain risk notional where q:
    "quantize_money (dmul (ca_modeled_risk_per_share c) (of_int (final_quantity_of caps))) = Some risk"
    "quantize_money (dmul (ca_planned_entry_limit c) (of_int (final_quantity_of caps))) = Some notional"
    "valid_reservation (reservation_of r (final_quantity_of caps) notional risk)"
    and f: "finalize_decision dumpd
       (approved_base dump r c caps (binding_cap_of caps (final_quantity_of caps))
         (reservation_of r (final_quantity_of caps) notional risk)) = Inr d"
    using assms by (rule approved_Inr)
  note d = finalize_Inr(1) [OF f]
  show "valid_decision_fields d" by (rule finalize_Inr(2) [OF f])
  show "rd_final_quantity d = final_quantity_of caps" "rd_quantity_caps d = Some caps"
    "rd_binding_cap d = binding_cap_of caps (final_quantity_of caps)"
    "rd_modeled_risk_per_share d = Some (ca_modeled_risk_per_share c)"
    "rd_planned_entry_limit d = Some (ca_planned_entry_limit c)"
    "rd_stop_price d = Some (ca_stop_price c)" "rd_target_price d = Some (ca_target_price c)"
    "rd_adjusted_trade_risk_budget d = Some (ca_adjusted_trade_risk_budget c)"
    "rd_rejection_reasons d = []" "rd_decision d = RD_APPROVED"
    "rd_risk_session_pnl d = Some (ca_risk_session_pnl c)"
    by (simp_all add: d approved_base_def reservation_of_def)
  show "\<exists>risk notional. rd_reservation d = Some (reservation_of r (final_quantity_of caps) notional risk) \<and>
       rd_reserved_modeled_risk d = Some risk \<and> rd_reserved_notional d = Some notional \<and>
       quantize_money (dmul (ca_modeled_risk_per_share c) (of_int (final_quantity_of caps))) = Some risk \<and>
       quantize_money (dmul (ca_planned_entry_limit c) (of_int (final_quantity_of caps))) = Some notional \<and>
       valid_reservation (reservation_of r (final_quantity_of caps) notional risk)"
    by (intro exI [of _ risk] exI [of _ notional] conjI q)
      (simp_all add: d approved_base_def reservation_of_def)
qed

end
