(* ===== verification/Risk_Limits.thy ===== *)
theory Risk_Limits
  imports Risk_Properties
begin

text \<open>
  Limits: what the quantity of an approved decision respects. The budgets are rounded down
  to cents before they are divided, so the quantity times the price or the modelled risk
  stays within them; under the bounds stated the roundings of the context are exact.
\<close>

section \<open>The quantity is the least cap\<close>

lemma final_quantity_eq_Min: "final_quantity_of caps = Min (set (cap_values caps))"
proof -
  have "cap_values caps = hd (cap_values caps) # tl (cap_values caps)" by (simp add: cap_values_def)
  then show ?thesis by (metis Min.set_eq_fold final_quantity_of_def)
qed

lemma final_quantity_le: "v \<in> set (cap_values caps) \<Longrightarrow> final_quantity_of caps \<le> v"
  by (simp add: final_quantity_eq_Min)

lemma final_quantity_mem: "final_quantity_of caps \<in> set (cap_values caps)"
  unfolding final_quantity_eq_Min by (rule Min_in) (simp_all add: cap_values_def)

lemma cap_values_eq: "cap_values caps = map (cap_value caps) BINDING_ORDER"
  by (simp add: cap_values_def BINDING_ORDER_def)

lemma find_split:
  assumes "List.find P xs = Some x"
  shows "\<exists>ys zs. xs = ys @ x # zs \<and> P x \<and> (\<forall>y \<in> set ys. \<not> P y)"
  using assms
proof (induction xs)
  case (Cons a xs)
  show ?case
  proof (cases "P a")
    case True
    with Cons.prems show ?thesis by (intro exI [of _ "[]"] exI [of _ xs]) simp
  next
    case False
    with Cons obtain ys zs where "xs = ys @ x # zs" "P x" "\<forall>y \<in> set ys. \<not> P y" by auto
    with False show ?thesis by (intro exI [of _ "a # ys"] exI [of _ zs]) auto
  qed
qed simp

lemma binding_cap_exists:
  "\<exists>cap. binding_cap_of caps (final_quantity_of caps) = Some cap"
  using final_quantity_mem [of caps]
  by (auto simp: binding_cap_of_def cap_values_eq find_None_iff simp flip: not_None_eq)

section \<open>Budgets\<close>

lemma budgets_Some:
  assumes "budgets_of r hard = Some b"
  shows
    "floor_to_cent (dmul (ss_session_reference_equity (sr_session r))
       (rp_risk_per_trade_pct (sr_policy r))) = Some (bu_base_trade_risk_budget b)"
    "floor_to_cent (dmul (bu_base_trade_risk_budget b) (risk_flag_multiplier r)) =
       Some (bu_adjusted_trade_risk_budget b)"
    "floor_to_cent (dmul (ss_session_reference_equity (sr_session r))
       (rp_max_open_risk_pct (sr_policy r))) = Some (bu_maximum_total_open_risk b)"
    "floor_to_cent (dsub (bu_maximum_total_open_risk b)
       (ss_current_total_open_risk (sr_session r))) = Some (bu_remaining_open_risk_capacity b)"
    "floor_to_cent (dsub (dsub hard (max 0 (dneg (risk_session_pnl r))))
       (ss_current_total_open_risk (sr_session r))) = Some (bu_remaining_hard_loss_capacity b)"
    "floor_to_cent (dmul (ss_session_reference_equity (sr_session r))
       (rp_max_position_notional_pct (sr_policy r))) = Some (bu_maximum_position_notional b)"
    "\<exists>gross. floor_to_cent (dmul (ss_session_reference_equity (sr_session r))
       (rp_max_gross_long_exposure_pct (sr_policy r))) = Some gross \<and>
     floor_to_cent (dsub gross (dadd (ss_current_long_market_value (sr_session r))
       (ss_reserved_entry_notional (sr_session r)))) = Some (bu_remaining_gross_exposure b)"
    "bu_risk_flag_multiplier b = risk_flag_multiplier r"
  using assms by (auto simp: budgets_of_def Let_def bind_eq_Some)

lemma RISK_FLAG_MULTIPLIERS_range: "1 / 2 \<le> RISK_FLAG_MULTIPLIERS f \<and> RISK_FLAG_MULTIPLIERS f \<le> 1"
  by (cases f) simp_all

lemma risk_flag_multiplier_range:
  "1 / 2 \<le> risk_flag_multiplier r \<and> risk_flag_multiplier r \<le> 1"
proof (cases "ap_risk_flags (sr_setup r)")
  case (Cons f fs)
  have "fold min (map RISK_FLAG_MULTIPLIERS fs) (RISK_FLAG_MULTIPLIERS f) =
      Min (set (map RISK_FLAG_MULTIPLIERS (f # fs)))"
    by (simp only: Min.set_eq_fold list.map)
  then have "risk_flag_multiplier r = Min (set (map RISK_FLAG_MULTIPLIERS (f # fs)))"
    by (simp add: risk_flag_multiplier_def Cons)
  moreover have "Min (set (map RISK_FLAG_MULTIPLIERS (f # fs))) \<in>
      set (map RISK_FLAG_MULTIPLIERS (f # fs))"
    by (rule Min_in) simp_all
  ultimately show ?thesis using RISK_FLAG_MULTIPLIERS_range by auto
qed (simp add: risk_flag_multiplier_def)

text \<open>A product with a ratio stays below twice the amount.\<close>

lemma floor_pct_bounds:
  assumes "floor_to_cent (dmul e k) = Some y" and "0 \<le> e" and "0 \<le> k" and "k \<le> 1"
  shows "0 \<le> y" and "y \<le> 2 * e"
proof -
  have ek: "0 \<le> e * k" "e * k \<le> e"
    using assms(2-4) by (simp_all add: mult_left_le)
  have "floor_to_cent 0 = Some 0" by (simp add: floor_to_cent_def)
  from floor_to_cent_mono [OF this assms(1)] show "0 \<le> y"
    using dec_nonneg [OF ek(1)] by (simp add: dmul_def)
  show "y \<le> 2 * e"
    using floor_to_cent_le [OF assms(1)] dec_upper [OF assms(2) ek(2)] by (simp add: dmul_def)
qed

lemma floor_sub_upper:
  assumes "floor_to_cent (dsub x y) = Some z" and "0 \<le> y" and "x \<le> b" and "0 \<le> b"
  shows "z \<le> 2 * b"
  using floor_to_cent_le [OF assms(1)] dec_upper [of b "x - y"] assms(2-4) by (simp add: dsub_def)

lemma dsub_upper: "0 \<le> y \<Longrightarrow> x \<le> b \<Longrightarrow> 0 \<le> b \<Longrightarrow> dsub x y \<le> 2 * b"
  using dec_upper [of b "x - y"] by (simp add: dsub_def)

section \<open>The quantity respects every budget\<close>

lemma cap_respects:
  assumes "ddiv a p = Some q" and "on_grid 2 a" and "0 \<le> a" and "a < 10 ^ 17"
    and "on_grid 10 p" and "0 < p" and "n \<le> floor_to_int q"
  shows "of_int n * p \<le> a"
proof -
  have q: "q = dec (a / p)" using assms(1,6) by (simp add: ddiv_def)
  have "of_int n * p \<le> of_int \<lfloor>dec (a / p)\<rfloor> * p"
    using assms(6,7) by (intro mult_right_mono) (simp_all add: q floor_to_int_def)
  also have "\<dots> \<le> a" by (rule floor_quotient_bound(1) [OF assms(2-6)])
  finally show ?thesis .
qed

lemma capsE:
  assumes "caps_of r c = Some caps"
  obtains tr opr dl bp pn ge where
    "ddiv (ca_adjusted_trade_risk_budget c) (ca_modeled_risk_per_share c) = Some tr"
    "ddiv (ca_remaining_open_risk_capacity c) (ca_modeled_risk_per_share c) = Some opr"
    "ddiv (ca_remaining_hard_loss_capacity c) (ca_modeled_risk_per_share c) = Some dl"
    "ddiv (ca_usable_buying_power c) (ca_planned_entry_limit c) = Some bp"
    "ddiv (ca_maximum_position_notional c) (ca_planned_entry_limit c) = Some pn"
    "ddiv (ca_remaining_gross_exposure c) (ca_planned_entry_limit c) = Some ge"
    "final_quantity_of caps \<le> floor_to_int tr" "final_quantity_of caps \<le> floor_to_int opr"
    "final_quantity_of caps \<le> floor_to_int dl" "final_quantity_of caps \<le> floor_to_int bp"
    "final_quantity_of caps \<le> floor_to_int pn" "final_quantity_of caps \<le> floor_to_int ge"
    "final_quantity_of caps \<le> floor_to_int
       (dmul (of_int (lq_adv20_shares (sr_liquidity r))) (rp_max_pct_adv20 (sr_policy r)))"
    "final_quantity_of caps \<le> floor_to_int
       (dmul (of_int (lq_premarket_volume (sr_liquidity r)))
         (rp_max_pct_premarket_volume (sr_policy r)))"
proof -
  note le = final_quantity_le [of _ caps, unfolded cap_values_def]
  from assms obtain tr opr dl bp pn ge where *:
    "ddiv (ca_adjusted_trade_risk_budget c) (ca_modeled_risk_per_share c) = Some tr"
    "ddiv (ca_remaining_open_risk_capacity c) (ca_modeled_risk_per_share c) = Some opr"
    "ddiv (ca_remaining_hard_loss_capacity c) (ca_modeled_risk_per_share c) = Some dl"
    "ddiv (ca_usable_buying_power c) (ca_planned_entry_limit c) = Some bp"
    "ddiv (ca_maximum_position_notional c) (ca_planned_entry_limit c) = Some pn"
    "ddiv (ca_remaining_gross_exposure c) (ca_planned_entry_limit c) = Some ge"
    "qc_trade_risk caps = floor_to_int tr" "qc_open_risk caps = floor_to_int opr"
    "qc_daily_loss caps = floor_to_int dl" "qc_buying_power caps = floor_to_int bp"
    "qc_position_notional caps = floor_to_int pn" "qc_gross_exposure caps = floor_to_int ge"
    "qc_adv_liquidity caps = floor_to_int
       (dmul (of_int (lq_adv20_shares (sr_liquidity r))) (rp_max_pct_adv20 (sr_policy r)))"
    "qc_premarket_liquidity caps = floor_to_int
       (dmul (of_int (lq_premarket_volume (sr_liquidity r)))
         (rp_max_pct_premarket_volume (sr_policy r)))"
    by (auto simp: caps_of_def Let_def bind_eq_Some)
  show ?thesis
    by (rule that [OF *(1-6)]) (simp_all add: le flip: *(7-14))
qed

text \<open>What an empty list of price or capacity reasons says.\<close>

lemma price_reasons_Nil:
  assumes "price_reasons r p = Some []"
  shows "qt_ask_price (sr_quote r) \<le> pp_planned_entry_limit p" "0 < pp_stop_price p"
    "pp_stop_price p < pp_planned_entry_limit p" "pp_planned_entry_limit p < pp_target_price p"
    "pp_stop_price p \<le> pp_premarket_low p" "0 < pp_structural_risk_per_share p"
    "0 < pp_modeled_risk_per_share p"
    "pp_premarket_low p \<le> qt_last_price (sr_quote r)"
    "pp_premarket_low p \<le> qt_bid_price (sr_quote r)"
  using assms by (auto simp: price_reasons_def Let_def bind_eq_Some not_less not_le)

lemma price_plan_grid:
  assumes "price_plan_of r = Some p"
  shows "on_grid 10 (pp_modeled_risk_per_share p)" "\<bar>pp_modeled_risk_per_share p\<bar> < 10 ^ 18"
  using assms
  by (auto simp: price_plan_of_def Let_def bind_eq_Some intro: quantize_money_grid
      dest: quantize_money_bound)

lemma price_plan_low:
  assumes "price_plan_of r = Some p"
  shows "quantize_money (tp_premarket_low_used (ap_trade_parameters (sr_setup r))) =
    Some (pp_premarket_low p)"
  using assms by (auto simp: price_plan_of_def Let_def bind_eq_Some)

text \<open>
  The evidence of an approval, with the values of its stages. \<open>moderate\<close> bounds the amounts
  of a request so that the 28 digits of the context hold every quotient.
\<close>

definition moderate :: "rat \<Rightarrow> sizing_request \<Rightarrow> bool" where
  "moderate b r \<longleftrightarrow> ss_session_reference_equity (sr_session r) \<le> b \<and>
     min (ac_non_marginable_buying_power (sr_account r)) (ac_buying_power (sr_account r)) \<le> b \<and>
     of_int (lq_adv20_shares (sr_liquidity r)) \<le> b \<and>
     of_int (lq_premarket_volume (sr_liquidity r)) \<le> b"

record approval =
  av_soft :: rat
  av_hard :: rat
  av_usable :: rat
  av_plan :: price_plan
  av_budgets :: budgets
  av_caps :: quantity_caps

definition approval_of :: "sizing_request \<Rightarrow> risk_decision \<Rightarrow> approval \<Rightarrow> bool" where
  "approval_of r d v \<longleftrightarrow>
     loss_limit r (rp_soft_daily_loss_pct (sr_policy r)) = Some (av_soft v) \<and>
     loss_limit r (rp_hard_daily_loss_pct (sr_policy r)) = Some (av_hard v) \<and>
     usable_buying_power r = Some (av_usable v) \<and> price_plan_of r = Some (av_plan v) \<and>
     price_reasons r (av_plan v) = Some [] \<and> budgets_of r (av_hard v) = Some (av_budgets v) \<and>
     state_reasons r = [] \<and> session_reasons r (av_soft v) (av_hard v) = [] \<and>
     capacity_reasons (av_usable v) (av_budgets v) = [] \<and>
     caps_of r (calculations_of r (av_usable v) (av_plan v) (av_budgets v)) = Some (av_caps v) \<and>
     rp_minimum_quantity (sr_policy r) \<le> final_quantity_of (av_caps v) \<and>
     rd_final_quantity d = final_quantity_of (av_caps v) \<and>
     rd_modeled_risk_per_share d = Some (pp_modeled_risk_per_share (av_plan v)) \<and>
     rd_planned_entry_limit d = Some (pp_planned_entry_limit (av_plan v)) \<and>
     rd_risk_session_pnl d = Some (risk_session_pnl r) \<and> valid_decision_fields d"

lemma approval_exists:
  assumes "size_position dump dumpd r = Inr d" and "rd_decision d = RD_APPROVED"
  obtains v where "approval_of r d v"
    "approved dump dumpd r (calculations_of r (av_usable v) (av_plan v) (av_budgets v)) (av_caps v) = Inr d"
proof -
  obtain kill c caps where a: "assess r = Some ([], kill, c)" "caps_of r c = Some caps"
    "rp_minimum_quantity (sr_policy r) \<le> final_quantity_of caps"
    "approved dump dumpd r c caps = Inr d"
    using assms by (rule approvalE)
  from a(1) obtain soft hard usable p prs b where s:
    "loss_limit r (rp_soft_daily_loss_pct (sr_policy r)) = Some soft"
    "loss_limit r (rp_hard_daily_loss_pct (sr_policy r)) = Some hard"
    "usable_buying_power r = Some usable" "price_plan_of r = Some p"
    "price_reasons r p = Some prs" "budgets_of r hard = Some b"
    "[] = state_reasons r @ session_reasons r soft hard @ prs @ capacity_reasons usable b"
    and c: "c = calculations_of r usable p b"
    by (rule assessE)
  let ?v = "\<lparr>av_soft = soft, av_hard = hard, av_usable = usable, av_plan = p, av_budgets = b,
    av_caps = caps\<rparr>"
  have ca: "ca_modeled_risk_per_share c = pp_modeled_risk_per_share p"
    "ca_planned_entry_limit c = pp_planned_entry_limit p"
    "ca_risk_session_pnl c = risk_session_pnl r"
    by (simp_all add: c calculations_of_def)
  have "approval_of r d ?v"
    using s a(2,3) approved_fields [OF a(4)] unfolding ca by (simp add: approval_of_def flip: c)
  moreover have "approved dump dumpd r (calculations_of r (av_usable ?v) (av_plan ?v) (av_budgets ?v))
      (av_caps ?v) = Inr d"
    using a(4) by (simp add: c)
  ultimately show ?thesis by (rule that)
qed

lemma approval_price_facts:
  assumes "approval_of r d v"
  shows "on_grid 10 (pp_planned_entry_limit (av_plan v))" "0 < pp_planned_entry_limit (av_plan v)"
    "on_grid 10 (pp_modeled_risk_per_share (av_plan v))" "0 < pp_modeled_risk_per_share (av_plan v)"
proof -
  have p: "price_plan_of r = Some (av_plan v)" "price_reasons r (av_plan v) = Some []"
    and d: "rd_planned_entry_limit d = Some (pp_planned_entry_limit (av_plan v))"
      "valid_decision_fields d"
    using assms by (auto simp: approval_of_def)
  show "on_grid 10 (pp_planned_entry_limit (av_plan v))"
    using d by (simp add: valid_decision_fields_def decision_amounts_def valid_money_def)
  show "0 < pp_planned_entry_limit (av_plan v)" using price_reasons_Nil(2,3) [OF p(2)] by simp
  show "on_grid 10 (pp_modeled_risk_per_share (av_plan v))" by (rule price_plan_grid [OF p(1)])
  show "0 < pp_modeled_risk_per_share (av_plan v)" by (rule price_reasons_Nil [OF p(2)])
qed

lemma approval_capacity_facts:
  assumes "approval_of r d v"
  shows "0 < av_usable v" "0 < bu_remaining_open_risk_capacity (av_budgets v)"
    "0 < bu_remaining_hard_loss_capacity (av_budgets v)" "0 < bu_remaining_gross_exposure (av_budgets v)"
  using assms by (auto simp: approval_of_def capacity_reasons_def not_le)

lemma loss_limit_bounds:
  assumes "loss_limit r k = Some y" and "0 < ss_session_reference_equity (sr_session r)"
    and "0 \<le> k" and "k \<le> 1"
  shows "0 \<le> y" "y \<le> 2 * ss_session_reference_equity (sr_session r)"
  using floor_pct_bounds [OF assms(1) [unfolded loss_limit_def]] assms(2-4) by simp_all

lemma dmul_pct_upper: "0 \<le> e \<Longrightarrow> 0 \<le> k \<Longrightarrow> k \<le> 1 \<Longrightarrow> dmul e k \<le> 2 * e"
  using dec_upper [of e "e * k"] by (simp add: dmul_def mult_left_le)

lemmas valid_request_parts =
  valid_sizing_request_def valid_policy_def valid_session_def valid_ratio_def

lemma usable_bounds:
  assumes "usable_buying_power r = Some u" and "valid_sizing_request ny r" and "moderate b r"
    and "0 < b"
  shows "u \<le> 8 * b" "on_grid 2 u"
proof -
  let ?m = "min (ac_non_marginable_buying_power (sr_account r)) (ac_buying_power (sr_account r))"
  let ?k = "dsub 1 (rp_buying_power_reserve_pct (sr_policy r))"
  have k: "0 \<le> ?k" "?k \<le> 2"
    using assms(2) dec_upper [of 1 "1 - rp_buying_power_reserve_pct (sr_policy r)"]
    by (auto simp: valid_request_parts dsub_def intro: dec_nonneg)
  have m: "?m \<le> b" using assms(3) by (simp add: moderate_def)
  have "?m * ?k \<le> b * ?k" using m k(1) by (rule mult_right_mono)
  also have "\<dots> \<le> b * 2" using k(2) assms(4) by (intro mult_left_mono) simp_all
  finally have "?m * ?k \<le> 2 * b" by simp
  then have "dmul ?m ?k \<le> 4 * b" using dec_upper [of "2 * b"] assms(4) by (simp add: dmul_def)
  moreover have "0 \<le> ss_reserved_entry_notional (sr_session r)"
    using assms(2) by (simp add: valid_request_parts)
  ultimately show "u \<le> 8 * b"
    using floor_sub_upper [OF assms(1) [unfolded usable_buying_power_def], of "4 * b"] assms(4)
    by simp
  show "on_grid 2 u" by (rule floor_to_cent_grid [OF assms(1) [unfolded usable_buying_power_def]])
qed

lemma budget_bounds:
  assumes b: "budgets_of r hard = Some b" and valid: "valid_sizing_request ny r"
    and hard: "loss_limit r (rp_hard_daily_loss_pct (sr_policy r)) = Some hard"
    and e: "ss_session_reference_equity (sr_session r) \<le> e"
  shows "0 \<le> bu_adjusted_trade_risk_budget b" "bu_adjusted_trade_risk_budget b \<le> 8 * e"
    "bu_remaining_open_risk_capacity b \<le> 8 * e" "bu_remaining_hard_loss_capacity b \<le> 8 * e"
    "0 \<le> bu_maximum_position_notional b" "bu_maximum_position_notional b \<le> 8 * e"
    "bu_remaining_gross_exposure b \<le> 8 * e"
proof -
  let ?E = "ss_session_reference_equity (sr_session r)"
  have E: "0 < ?E" using valid by (simp add: valid_request_parts)
  have pct: "0 \<le> rp_risk_per_trade_pct (sr_policy r)" "rp_risk_per_trade_pct (sr_policy r) \<le> 1"
    "0 \<le> rp_max_open_risk_pct (sr_policy r)" "rp_max_open_risk_pct (sr_policy r) \<le> 1"
    "0 \<le> rp_max_position_notional_pct (sr_policy r)" "rp_max_position_notional_pct (sr_policy r) \<le> 1"
    "0 \<le> rp_max_gross_long_exposure_pct (sr_policy r)" "rp_max_gross_long_exposure_pct (sr_policy r) \<le> 1"
    "0 \<le> rp_hard_daily_loss_pct (sr_policy r)" "rp_hard_daily_loss_pct (sr_policy r) \<le> 1"
    using valid by (auto simp: valid_request_parts)
  have ss: "0 \<le> ss_current_total_open_risk (sr_session r)" "0 \<le> ss_reserved_entry_notional (sr_session r)"
    "0 \<le> ss_current_long_market_value (sr_session r)"
    using valid by (auto simp: valid_request_parts)
  have mult: "0 \<le> risk_flag_multiplier r" "risk_flag_multiplier r \<le> 1"
    using risk_flag_multiplier_range [of r] by auto
  note g = budgets_Some [OF b] and E0 = less_imp_le [OF E]
  note base = floor_pct_bounds [OF g(1) E0 pct(1,2)]
  note adj = floor_pct_bounds [OF g(2) base(1) mult]
  show "0 \<le> bu_adjusted_trade_risk_budget b" by (rule adj)
  show "bu_adjusted_trade_risk_budget b \<le> 8 * e" using adj base e E by linarith
  show "bu_remaining_open_risk_capacity b \<le> 8 * e"
    using floor_sub_upper [OF g(4) ss(1), of "2 * ?E"] floor_pct_bounds [OF g(3) E0 pct(3,4)] e E
    by simp
  have "dsub hard (max 0 (dneg (risk_session_pnl r))) \<le> 4 * ?E"
    using dsub_upper [of "max 0 (dneg (risk_session_pnl r))" hard "2 * ?E"] E
      loss_limit_bounds [OF hard E pct(9,10)]
    by simp
  then show "bu_remaining_hard_loss_capacity b \<le> 8 * e"
    using floor_sub_upper [OF g(5) ss(1), of "4 * ?E"] e E by simp
  note pos = floor_pct_bounds [OF g(6) E0 pct(5,6)]
  show "0 \<le> bu_maximum_position_notional b" by (rule pos)
  show "bu_maximum_position_notional b \<le> 8 * e" using pos e E by linarith
  obtain gross where gross:
    "floor_to_cent (dmul ?E (rp_max_gross_long_exposure_pct (sr_policy r))) = Some gross"
    "floor_to_cent (dsub gross (dadd (ss_current_long_market_value (sr_session r))
       (ss_reserved_entry_notional (sr_session r)))) = Some (bu_remaining_gross_exposure b)"
    using g(7) by blast
  have "0 \<le> dadd (ss_current_long_market_value (sr_session r)) (ss_reserved_entry_notional (sr_session r))"
    using ss by (simp add: dadd_def dec_nonneg)
  from floor_sub_upper [OF gross(2) this, of "2 * ?E"] show "bu_remaining_gross_exposure b \<le> 8 * e"
    using floor_pct_bounds [OF gross(1) E0 pct(7,8)] e E by simp
qed

lemma budget_grids:
  assumes "budgets_of r hard = Some b"
  shows "on_grid 2 (bu_adjusted_trade_risk_budget b)" "on_grid 2 (bu_remaining_open_risk_capacity b)"
    "on_grid 2 (bu_remaining_hard_loss_capacity b)" "on_grid 2 (bu_maximum_position_notional b)"
    "on_grid 2 (bu_remaining_gross_exposure b)" "on_grid 2 (bu_maximum_total_open_risk b)"
  using budgets_Some [OF assms] floor_to_cent_grid by blast+

lemma quantity_within_budgets:
  assumes run: "size_position dump dumpd r = Inr d" and ok: "rd_decision d = RD_APPROVED"
    and valid: "valid_sizing_request ny r" and small: "moderate (10 ^ 15) r"
  shows "\<exists>v. approval_of r d v \<and>
    (let q = of_int (rd_final_quantity d); m = pp_modeled_risk_per_share (av_plan v);
         l = pp_planned_entry_limit (av_plan v); b = av_budgets v
     in 1 \<le> rd_final_quantity d \<and>
        q * m \<le> bu_adjusted_trade_risk_budget b \<and>
        q * m \<le> bu_remaining_open_risk_capacity b \<and>
        q * m \<le> bu_remaining_hard_loss_capacity b \<and>
        q * l \<le> av_usable v \<and> q * l \<le> bu_maximum_position_notional b \<and>
        q * l \<le> bu_remaining_gross_exposure b)"
proof -
  obtain v where v: "approval_of r d v" using approval_exists [OF run ok] by blast
  note p = approval_price_facts [OF v] and cap = approval_capacity_facts [OF v]
  let ?c = "calculations_of r (av_usable v) (av_plan v) (av_budgets v)"
  have facts: "loss_limit r (rp_hard_daily_loss_pct (sr_policy r)) = Some (av_hard v)"
    "usable_buying_power r = Some (av_usable v)" "budgets_of r (av_hard v) = Some (av_budgets v)"
    "caps_of r ?c = Some (av_caps v)" "rd_final_quantity d = final_quantity_of (av_caps v)"
    "rp_minimum_quantity (sr_policy r) \<le> final_quantity_of (av_caps v)"
    using v by (auto simp: approval_of_def)
  have E: "ss_session_reference_equity (sr_session r) \<le> 10 ^ 15" using small by (simp add: moderate_def)
  note bb = budget_bounds [OF facts(3) valid facts(1) E] and bg = budget_grids [OF facts(3)]
  note ub = usable_bounds [OF facts(2) valid small, simplified]
  have ca: "ca_modeled_risk_per_share ?c = pp_modeled_risk_per_share (av_plan v)"
    "ca_planned_entry_limit ?c = pp_planned_entry_limit (av_plan v)"
    "ca_usable_buying_power ?c = av_usable v"
    "ca_adjusted_trade_risk_budget ?c = bu_adjusted_trade_risk_budget (av_budgets v)"
    "ca_remaining_open_risk_capacity ?c = bu_remaining_open_risk_capacity (av_budgets v)"
    "ca_remaining_hard_loss_capacity ?c = bu_remaining_hard_loss_capacity (av_budgets v)"
    "ca_maximum_position_notional ?c = bu_maximum_position_notional (av_budgets v)"
    "ca_remaining_gross_exposure ?c = bu_remaining_gross_exposure (av_budgets v)"
    by (simp_all add: calculations_of_def)
  have q1: "1 \<le> final_quantity_of (av_caps v)"
    using facts(6) valid by (simp add: valid_request_parts)
  show ?thesis
    using facts(4)
  proof (rule capsE, unfold ca)
    fix tr opr dl bp pn ge
    assume *: "ddiv (bu_adjusted_trade_risk_budget (av_budgets v)) (pp_modeled_risk_per_share (av_plan v)) = Some tr"
      "ddiv (bu_remaining_open_risk_capacity (av_budgets v)) (pp_modeled_risk_per_share (av_plan v)) = Some opr"
      "ddiv (bu_remaining_hard_loss_capacity (av_budgets v)) (pp_modeled_risk_per_share (av_plan v)) = Some dl"
      "ddiv (av_usable v) (pp_planned_entry_limit (av_plan v)) = Some bp"
      "ddiv (bu_maximum_position_notional (av_budgets v)) (pp_planned_entry_limit (av_plan v)) = Some pn"
      "ddiv (bu_remaining_gross_exposure (av_budgets v)) (pp_planned_entry_limit (av_plan v)) = Some ge"
      and le: "final_quantity_of (av_caps v) \<le> floor_to_int tr" "final_quantity_of (av_caps v) \<le> floor_to_int opr"
        "final_quantity_of (av_caps v) \<le> floor_to_int dl" "final_quantity_of (av_caps v) \<le> floor_to_int bp"
        "final_quantity_of (av_caps v) \<le> floor_to_int pn" "final_quantity_of (av_caps v) \<le> floor_to_int ge"
    show ?thesis
      using v q1
        cap_respects [OF *(1) bg(1) bb(1) _ p(3,4) le(1)] bb(2)
        cap_respects [OF *(2) bg(2) less_imp_le [OF cap(2)] _ p(3,4) le(2)] bb(3)
        cap_respects [OF *(3) bg(3) less_imp_le [OF cap(3)] _ p(3,4) le(3)] bb(4)
        cap_respects [OF *(4) ub(2) less_imp_le [OF cap(1)] _ p(1,2) le(4)] ub(1)
        cap_respects [OF *(5) bg(4) bb(5) _ p(1,2) le(5)] bb(6)
        cap_respects [OF *(6) bg(5) less_imp_le [OF cap(4)] _ p(1,2) le(6)] bb(7)
      by (intro exI [of _ v]) (simp add: facts(5) Let_def)
  qed
qed

section \<open>Exact limits\<close>

text \<open>
  With percentages of at most four decimal places, as in both shipped policies, and amounts
  up to ten to the thirteenth, no rounding takes place before the amounts are cut to cents.
\<close>

definition four_decimals :: "risk_policy_config \<Rightarrow> bool" where
  "four_decimals p \<longleftrightarrow> list_all (on_grid 4)
     [rp_risk_per_trade_pct p, rp_max_open_risk_pct p, rp_max_position_notional_pct p,
      rp_max_gross_long_exposure_pct p, rp_buying_power_reserve_pct p, rp_hard_daily_loss_pct p,
      rp_max_pct_adv20 p, rp_max_pct_premarket_volume p]"

lemma shipped_policies_four_decimals: "four_decimals paper_v1" "four_decimals live_pilot_v1"
  by (simp_all add: four_decimals_def paper_v1_def live_pilot_v1_def on_grid_def)

lemma dmul_pct_exact:
  assumes "on_grid 10 e" and "0 \<le> e" and "e \<le> 10 ^ 13" and "on_grid 4 k" and "0 \<le> k" and "k \<le> 1"
  shows "dmul e k = e * k"
proof -
  have "on_grid 14 (e * k)" using on_grid_mult [OF assms(1,4)] by simp
  moreover have "0 \<le> e * k" "e * k \<le> 10 ^ 13"
    using assms mult_left_le [of k e] by simp_all
  ultimately show ?thesis unfolding dmul_def by (intro dec_exact [where k = 14]) simp_all
qed

lemma floor_pct_exact:
  assumes "floor_to_cent (dmul e k) = Some y"
    and "on_grid 10 e" and "0 \<le> e" and "e \<le> 10 ^ 13" and "on_grid 4 k" and "0 \<le> k" and "k \<le> 1"
  shows "y \<le> e * k"
  using floor_to_cent_le [OF assms(1)] dmul_pct_exact [OF assms(2-7)] by simp

lemma pct_small: "y \<le> e * k \<Longrightarrow> 0 \<le> e \<Longrightarrow> e \<le> 10 ^ 13 \<Longrightarrow> k \<le> 1 \<Longrightarrow> y < (10 ^ 17 :: rat)"
  using mult_left_le [of k e] by simp

lemma dsub_pos_iff: "0 < dsub x y \<longleftrightarrow> y < x"
  by (simp add: dsub_def dec_pos_iff)

lemma dsub_pos_exact:
  assumes "0 < dsub x y" and "on_grid 10 x" and "on_grid 10 y" and "0 \<le> y" and "x < 10 ^ 18"
  shows "dsub x y = x - y" and "y < x"
proof -
  show "y < x" using assms(1) by (simp add: dsub_def dec_pos_iff)
  then show "dsub x y = x - y"
    unfolding dsub_def using assms(2-5) by (intro dec_exact_money) auto
qed

lemma floor_sub_exact:
  assumes "floor_to_cent (dsub x y) = Some z" and "0 < z"
    and "on_grid 10 x" and "on_grid 10 y" and "0 \<le> y" and "x < 10 ^ 18"
  shows "z \<le> x - y"
  using floor_to_cent_le [OF assms(1)] dsub_pos_exact [OF _ assms(3-6)] assms(2) by simp

lemma dadd_bounded_exact:
  assumes "on_grid 10 x" and "on_grid 10 y" and "0 \<le> x" and "0 \<le> y" and "dadd x y < 10 ^ 17"
  shows "dadd x y = x + y"
  unfolding dadd_def using assms dec_lower [of "x + y"]
  by (intro dec_exact_money) (auto simp: dadd_def)

lemma current_loss_exact:
  assumes "on_grid 10 pnl" and "max 0 (dneg pnl) < 10 ^ 17"
  shows "max 0 (dneg pnl) = max 0 (- pnl)"
proof (cases "0 \<le> pnl")
  case True
  then show ?thesis using dec_nonpos [of "- pnl"] by (simp add: dneg_def max_absorb1)
next
  case False
  then have "dec (- pnl) = - pnl"
    using assms dec_lower [of "- pnl"] by (intro dec_exact_money) (auto simp: dneg_def)
  then show ?thesis by (simp add: dneg_def)
qed

lemma multiplier_grid: "on_grid 2 (risk_flag_multiplier r)"
proof -
  have one: "on_grid 2 (RISK_FLAG_MULTIPLIERS f)" for f by (cases f) (simp_all add: on_grid_def)
  have "on_grid 2 (fold min (map RISK_FLAG_MULTIPLIERS fs) x)" if "on_grid 2 x" for fs x
    using that by (induction fs arbitrary: x) (simp_all add: on_grid_min one)
  then show ?thesis
    by (cases "ap_risk_flags (sr_setup r)") (simp_all add: risk_flag_multiplier_def one)
qed

lemma trade_budget_exact:
  assumes b: "budgets_of r hard = Some b" and valid: "valid_sizing_request ny r"
    and small: "moderate (10 ^ 13) r" and four: "four_decimals (sr_policy r)"
  shows "bu_adjusted_trade_risk_budget b \<le> ss_session_reference_equity (sr_session r) *
      rp_risk_per_trade_pct (sr_policy r) * risk_flag_multiplier r"
    and "bu_maximum_position_notional b \<le> ss_session_reference_equity (sr_session r) *
      rp_max_position_notional_pct (sr_policy r)"
proof -
  let ?E = "ss_session_reference_equity (sr_session r)" and ?k = "rp_risk_per_trade_pct (sr_policy r)"
  have E: "on_grid 10 ?E" "0 \<le> ?E" "?E \<le> 10 ^ 13"
    using valid small by (auto simp: valid_request_parts valid_money_def moderate_def)
  have pct: "0 \<le> ?k" "?k \<le> 1" "on_grid 4 ?k"
    "0 \<le> rp_max_position_notional_pct (sr_policy r)" "rp_max_position_notional_pct (sr_policy r) \<le> 1"
    "on_grid 4 (rp_max_position_notional_pct (sr_policy r))"
    using valid four by (auto simp: valid_request_parts four_decimals_def)
  note g = budgets_Some [OF b]
  show "bu_maximum_position_notional b \<le> ?E * rp_max_position_notional_pct (sr_policy r)"
    by (rule floor_pct_exact [OF g(6) E pct(6,4,5)])
  have base: "0 \<le> bu_base_trade_risk_budget b" "bu_base_trade_risk_budget b \<le> ?E * ?k"
    "on_grid 2 (bu_base_trade_risk_budget b)"
    using floor_pct_bounds(1) [OF g(1) E(2) pct(1,2)] floor_pct_exact [OF g(1) E pct(3,1,2)]
      floor_to_cent_grid [OF g(1)] by auto
  have "?E * ?k \<le> 10 ^ 13" using E(2,3) mult_left_le [OF pct(2) E(2)] by linarith
  with base have "bu_base_trade_risk_budget b \<le> 10 ^ 13" by linarith
  with base floor_pct_exact [OF g(2) on_grid_mono [OF base(3)] base(1) _ on_grid_mono [OF multiplier_grid]]
  have "bu_adjusted_trade_risk_budget b \<le> bu_base_trade_risk_budget b * risk_flag_multiplier r"
    using risk_flag_multiplier_range [of r] by simp
  also have "\<dots> \<le> ?E * ?k * risk_flag_multiplier r"
    using base(2) risk_flag_multiplier_range [of r] by (intro mult_right_mono) auto
  finally show "bu_adjusted_trade_risk_budget b \<le> ?E * ?k * risk_flag_multiplier r" .
qed

lemma open_risk_capacity_exact:
  assumes b: "budgets_of r hard = Some b" and valid: "valid_sizing_request ny r"
    and small: "moderate (10 ^ 13) r" and four: "four_decimals (sr_policy r)"
    and pos: "0 < bu_remaining_open_risk_capacity b"
  shows "bu_remaining_open_risk_capacity b \<le> ss_session_reference_equity (sr_session r) *
      rp_max_open_risk_pct (sr_policy r) - ss_current_total_open_risk (sr_session r)"
proof -
  let ?E = "ss_session_reference_equity (sr_session r)" and ?k = "rp_max_open_risk_pct (sr_policy r)"
  have E: "on_grid 10 ?E" "0 \<le> ?E" "?E \<le> 10 ^ 13"
    using valid small by (auto simp: valid_request_parts valid_money_def moderate_def)
  have pct: "on_grid 4 ?k" "0 \<le> ?k" "?k \<le> 1"
    using valid four by (auto simp: valid_request_parts four_decimals_def)
  note g = budgets_Some [OF b] and m = floor_pct_exact [OF budgets_Some(3) [OF b] E pct]
    and g10 = on_grid_mono [OF budget_grids(6) [OF b]]
  have o: "on_grid 10 (ss_current_total_open_risk (sr_session r))"
    "0 \<le> ss_current_total_open_risk (sr_session r)"
    using valid by (auto simp: valid_request_parts valid_money_def)
  have "bu_maximum_total_open_risk b < 10 ^ 18" using pct_small [OF m E(2,3) pct(3)] by simp
  from floor_sub_exact [OF g(4) pos _ o this] g10 m show ?thesis by simp
qed

lemma hard_loss_capacity_exact:
  assumes b: "budgets_of r hard = Some b" and valid: "valid_sizing_request ny r"
    and small: "moderate (10 ^ 13) r" and four: "four_decimals (sr_policy r)"
    and hard: "loss_limit r (rp_hard_daily_loss_pct (sr_policy r)) = Some hard"
    and pnl: "on_grid 10 (risk_session_pnl r)"
    and pos: "0 < bu_remaining_hard_loss_capacity b"
  shows "bu_remaining_hard_loss_capacity b \<le> ss_session_reference_equity (sr_session r) *
      rp_hard_daily_loss_pct (sr_policy r) - max 0 (- risk_session_pnl r) -
      ss_current_total_open_risk (sr_session r)"
proof -
  let ?E = "ss_session_reference_equity (sr_session r)" and ?k = "rp_hard_daily_loss_pct (sr_policy r)"
    and ?l = "max 0 (dneg (risk_session_pnl r))" and ?o = "ss_current_total_open_risk (sr_session r)"
  have E: "on_grid 10 ?E" "0 \<le> ?E" "?E \<le> 10 ^ 13"
    using valid small by (auto simp: valid_request_parts valid_money_def moderate_def)
  have pct: "on_grid 4 ?k" "0 \<le> ?k" "?k \<le> 1"
    using valid four by (auto simp: valid_request_parts four_decimals_def)
  have o: "on_grid 10 ?o" "0 \<le> ?o" using valid by (auto simp: valid_request_parts valid_money_def)
  have h: "hard \<le> ?E * ?k" "on_grid 10 hard"
    using floor_pct_exact [OF hard [unfolded loss_limit_def] E pct]
      on_grid_mono [OF floor_to_cent_grid [OF hard [unfolded loss_limit_def]], of 10] by auto
  have h18: "hard < 10 ^ 17" by (rule pct_small [OF h(1) E(2,3) pct(3)])
  note g = budgets_Some(5) [OF b]
  have "0 < dsub (dsub hard ?l) ?o" using floor_to_cent_le [OF g] pos by linarith
  then have w: "0 < dsub hard ?l" using o(2) by (simp add: dsub_pos_iff [of "dsub hard ?l"])
  then have "?l < hard" unfolding dsub_def dec_pos_iff by simp
  then have l: "?l = max 0 (- risk_session_pnl r)" using pnl h18 by (intro current_loss_exact) simp_all
  have lg: "on_grid 10 ?l" unfolding l using pnl by (intro on_grid_max) auto
  have e: "dsub hard ?l = hard - ?l" using dsub_pos_exact(1) [OF w h(2) lg] h18 by simp
  have "on_grid 10 (dsub hard ?l)" unfolding e using h(2) lg by (rule on_grid_diff)
  moreover have "dsub hard ?l < 10 ^ 18" unfolding e using h18 by (simp add: max_def)
  ultimately have "bu_remaining_hard_loss_capacity b \<le> dsub hard ?l - ?o"
    using floor_sub_exact [OF g pos _ o] by simp
  then show ?thesis using h(1) e by (simp add: l [symmetric])
qed

lemma gross_exposure_exact:
  assumes b: "budgets_of r hard = Some b" and valid: "valid_sizing_request ny r"
    and small: "moderate (10 ^ 13) r" and four: "four_decimals (sr_policy r)"
    and pos: "0 < bu_remaining_gross_exposure b"
  shows "bu_remaining_gross_exposure b \<le> ss_session_reference_equity (sr_session r) *
      rp_max_gross_long_exposure_pct (sr_policy r) -
      (ss_current_long_market_value (sr_session r) + ss_reserved_entry_notional (sr_session r))"
proof -
  let ?E = "ss_session_reference_equity (sr_session r)" and ?k = "rp_max_gross_long_exposure_pct (sr_policy r)"
    and ?c = "ss_current_long_market_value (sr_session r)" and ?n = "ss_reserved_entry_notional (sr_session r)"
  have E: "on_grid 10 ?E" "0 \<le> ?E" "?E \<le> 10 ^ 13"
    using valid small by (auto simp: valid_request_parts valid_money_def moderate_def)
  have pct: "on_grid 4 ?k" "0 \<le> ?k" "?k \<le> 1"
    using valid four by (auto simp: valid_request_parts four_decimals_def)
  have cn: "on_grid 10 ?c" "on_grid 10 ?n" "0 \<le> ?c" "0 \<le> ?n"
    using valid by (auto simp: valid_request_parts valid_money_def)
  obtain gross where g: "floor_to_cent (dmul ?E ?k) = Some gross"
    "floor_to_cent (dsub gross (dadd ?c ?n)) = Some (bu_remaining_gross_exposure b)"
    using budgets_Some(7) [OF b] by blast
  have gr: "gross \<le> ?E * ?k" by (rule floor_pct_exact [OF g(1) E pct])
  have g17: "gross < 10 ^ 17" by (rule pct_small [OF gr E(2,3) pct(3)])
  have gg: "on_grid 10 gross" using on_grid_mono [OF floor_to_cent_grid [OF g(1)]] by simp
  have "0 < dsub gross (dadd ?c ?n)" using floor_to_cent_le [OF g(2)] pos by linarith
  then have "dadd ?c ?n < gross" unfolding dsub_def dec_pos_iff by simp
  then have cne: "dadd ?c ?n = ?c + ?n" using cn g17 by (intro dadd_bounded_exact) simp_all
  have "on_grid 10 (dadd ?c ?n)" "0 \<le> dadd ?c ?n" using cn unfolding cne by auto
  from floor_sub_exact [OF g(2) pos gg this] g17 show ?thesis using gr unfolding cne by simp
qed

lemma usable_exact:
  assumes u: "usable_buying_power r = Some u" and valid: "valid_sizing_request ny r"
    and small: "moderate (10 ^ 13) r" and four: "four_decimals (sr_policy r)" and pos: "0 < u"
  shows "u \<le> min (ac_non_marginable_buying_power (sr_account r)) (ac_buying_power (sr_account r)) *
      (1 - rp_buying_power_reserve_pct (sr_policy r)) - ss_reserved_entry_notional (sr_session r)"
proof -
  let ?m = "min (ac_non_marginable_buying_power (sr_account r)) (ac_buying_power (sr_account r))"
    and ?k = "1 - rp_buying_power_reserve_pct (sr_policy r)" and ?n = "ss_reserved_entry_notional (sr_session r)"
  have k: "on_grid 4 ?k" "0 < ?k" "?k \<le> 1"
    using valid four by (auto simp: valid_request_parts four_decimals_def)
  have ke: "dsub 1 (rp_buying_power_reserve_pct (sr_policy r)) = ?k"
    unfolding dsub_def using k by (intro dec_exact [where k = 4]) auto
  have n: "on_grid 10 ?n" "0 \<le> ?n" using valid by (auto simp: valid_request_parts valid_money_def)
  have m: "on_grid 10 ?m" "?m \<le> 10 ^ 13"
    using valid small by (auto simp: valid_sizing_request_def valid_account_def valid_money_def
        moderate_def intro: on_grid_min)
  note f = u [unfolded usable_buying_power_def ke]
  have d: "0 < dsub (dmul ?m ?k) ?n" using floor_to_cent_le [OF f] pos by linarith
  then have "0 < dmul ?m ?k" using n(2) by (simp add: dsub_pos_iff)
  then have m0: "0 < ?m" using k(2) by (simp add: dmul_def dec_pos_iff zero_less_mult_iff)
  have e: "dmul ?m ?k = ?m * ?k" using m0 m k by (intro dmul_pct_exact) simp_all
  have mk: "?m * ?k \<le> 10 ^ 13" using mult_left_le [OF k(3)] m0 m(2) by (meson less_imp_le order_trans)
  have "?n < ?m * ?k" using d unfolding e dsub_def dec_pos_iff by simp
  moreover have "on_grid 14 (?m * ?k - ?n)"
    using on_grid_diff [OF on_grid_mult [OF m(1) k(1), simplified] on_grid_mono [OF n(1)]] by simp
  ultimately have "dsub (dmul ?m ?k) ?n = ?m * ?k - ?n"
    unfolding e dsub_def using mk n(2) by (intro dec_exact [where k = 14]) auto
  then show ?thesis using floor_to_cent_le [OF f] by simp
qed

lemma share_cap_exact:
  assumes "n \<le> floor_to_int (dmul (of_int s) k)" and "0 < s" and "of_int s \<le> (10 ^ 13 :: rat)"
    and "on_grid 4 k" and "0 \<le> k" and "k \<le> 1"
  shows "of_int n \<le> of_int s * k"
proof -
  have "of_int n \<le> dmul (of_int s) k" using assms(1) by (simp add: floor_to_int_def le_floor_iff)
  also have "\<dots> = of_int s * k" using assms by (intro dmul_pct_exact) simp_all
  finally show ?thesis .
qed

lemma approval_pnl_grid: "approval_of r d v \<Longrightarrow> on_grid 10 (risk_session_pnl r)"
  by (auto simp: approval_of_def valid_decision_fields_def decision_amounts_def valid_money_def)

lemma approval_shares:
  assumes v: "approval_of r d v" and valid: "valid_sizing_request ny r"
    and small: "moderate (10 ^ 13) r" and four: "four_decimals (sr_policy r)"
  shows "of_int (rd_final_quantity d) \<le>
      of_int (lq_adv20_shares (sr_liquidity r)) * rp_max_pct_adv20 (sr_policy r)"
    and "of_int (rd_final_quantity d) \<le>
      of_int (lq_premarket_volume (sr_liquidity r)) * rp_max_pct_premarket_volume (sr_policy r)"
proof -
  have q: "rd_final_quantity d = final_quantity_of (av_caps v)" using v by (simp add: approval_of_def)
  have caps: "caps_of r (calculations_of r (av_usable v) (av_plan v) (av_budgets v)) = Some (av_caps v)"
    using v by (simp add: approval_of_def)
  have "0 < lq_adv20_shares (sr_liquidity r)" "0 < lq_premarket_volume (sr_liquidity r)"
    using valid by (auto simp: valid_sizing_request_def valid_liquidity_def)
  then show "of_int (rd_final_quantity d) \<le>
      of_int (lq_adv20_shares (sr_liquidity r)) * rp_max_pct_adv20 (sr_policy r)"
    "of_int (rd_final_quantity d) \<le>
      of_int (lq_premarket_volume (sr_liquidity r)) * rp_max_pct_premarket_volume (sr_policy r)"
    using caps valid small four unfolding q
    by (rule_tac [!] capsE [OF caps], rule_tac [!] share_cap_exact)
      (auto simp: valid_request_parts moderate_def four_decimals_def)
qed

text \<open>The limits that \<open>q\<close> shares at risk \<open>m\<close> and price \<open>l\<close> have to respect.\<close>

definition within_policy :: "sizing_request \<Rightarrow> rat \<Rightarrow> rat \<Rightarrow> rat \<Rightarrow> bool" where
  "within_policy r q m l \<longleftrightarrow>
    (let p = sr_policy r; s = sr_session r;
         E = ss_session_reference_equity s; open_risk = ss_current_total_open_risk s
     in q * m \<le> E * rp_risk_per_trade_pct p * risk_flag_multiplier r \<and>
        open_risk + q * m \<le> E * rp_max_open_risk_pct p \<and>
        max 0 (- risk_session_pnl r) + open_risk + q * m \<le> E * rp_hard_daily_loss_pct p \<and>
        q * l \<le> E * rp_max_position_notional_pct p \<and>
        ss_current_long_market_value s + ss_reserved_entry_notional s + q * l
          \<le> E * rp_max_gross_long_exposure_pct p \<and>
        ss_reserved_entry_notional s + q * l
          \<le> min (ac_non_marginable_buying_power (sr_account r)) (ac_buying_power (sr_account r)) *
             (1 - rp_buying_power_reserve_pct p) \<and>
        q \<le> of_int (lq_adv20_shares (sr_liquidity r)) * rp_max_pct_adv20 p \<and>
        q \<le> of_int (lq_premarket_volume (sr_liquidity r)) * rp_max_pct_premarket_volume p)"

lemma approved_limits:
  assumes run: "size_position dump dumpd r = Inr d" and ok: "rd_decision d = RD_APPROVED"
    and valid: "valid_sizing_request ny r" and small: "moderate (10 ^ 13) r"
    and four: "four_decimals (sr_policy r)"
  shows "\<exists>m l. rd_modeled_risk_per_share d = Some m \<and> rd_planned_entry_limit d = Some l \<and>
    0 < m \<and> 0 < l \<and> 1 \<le> rd_final_quantity d \<and> within_policy r (of_int (rd_final_quantity d)) m l"
proof -
  have "moderate (10 ^ 15) r" using small by (simp add: moderate_def)
  from quantity_within_budgets [OF run ok valid this] obtain v where v: "approval_of r d v"
    and q: "let q = of_int (rd_final_quantity d); m = pp_modeled_risk_per_share (av_plan v);
         l = pp_planned_entry_limit (av_plan v); b = av_budgets v
     in 1 \<le> rd_final_quantity d \<and> q * m \<le> bu_adjusted_trade_risk_budget b \<and>
        q * m \<le> bu_remaining_open_risk_capacity b \<and> q * m \<le> bu_remaining_hard_loss_capacity b \<and>
        q * l \<le> av_usable v \<and> q * l \<le> bu_maximum_position_notional b \<and>
        q * l \<le> bu_remaining_gross_exposure b"
    by blast
  have b: "budgets_of r (av_hard v) = Some (av_budgets v)"
    and hard: "loss_limit r (rp_hard_daily_loss_pct (sr_policy r)) = Some (av_hard v)"
    and u: "usable_buying_power r = Some (av_usable v)"
    and d: "rd_modeled_risk_per_share d = Some (pp_modeled_risk_per_share (av_plan v))"
      "rd_planned_entry_limit d = Some (pp_planned_entry_limit (av_plan v))"
    using v by (auto simp: approval_of_def)
  note p = approval_price_facts [OF v] and cap = approval_capacity_facts [OF v]
  show ?thesis
    using q d p(2,4) approval_shares [OF v valid small four]
      trade_budget_exact [OF b valid small four] open_risk_capacity_exact [OF b valid small four cap(2)]
      hard_loss_capacity_exact [OF b valid small four hard approval_pnl_grid [OF v] cap(3)]
      gross_exposure_exact [OF b valid small four cap(4)] usable_exact [OF u valid small four cap(1)]
    unfolding Let_def within_policy_def
    by (elim conjE, intro exI conjI) (assumption | linarith)+
qed

section \<open>Properties\<close>

text \<open>
  Claim C16. An approved position respects the percentages of the policy exactly. With
  \<open>q\<close> shares, modelled risk \<open>m\<close> per share and entry limit \<open>l\<close>: the modelled risk of the trade
  is within the trade budget cut by the risk flags; with the risk already open it is within
  the open risk limit; with the loss of the session and the open risk it is within the hard
  daily loss limit; the notional is within the position limit, the gross exposure limit and
  the cash that remains after reserve and reservations; and the quantity is within the two
  liquidity percentages.
\<close>

theorem approved_within_policy:
  assumes run: "size_position dump dumpd r = Inr d" and ok: "rd_decision d = RD_APPROVED"
    and valid: "valid_sizing_request ny r" and small: "moderate (10 ^ 13) r"
    and four: "four_decimals (sr_policy r)"
  shows "\<exists>m l. rd_modeled_risk_per_share d = Some m \<and> rd_planned_entry_limit d = Some l \<and>
    0 < m \<and> 0 < l \<and> 1 \<le> rd_final_quantity d \<and>
    (let q = of_int (rd_final_quantity d); p = sr_policy r; s = sr_session r;
         E = ss_session_reference_equity s; open_risk = ss_current_total_open_risk s
     in q * m \<le> E * rp_risk_per_trade_pct p * risk_flag_multiplier r \<and>
        open_risk + q * m \<le> E * rp_max_open_risk_pct p \<and>
        max 0 (- risk_session_pnl r) + open_risk + q * m \<le> E * rp_hard_daily_loss_pct p \<and>
        q * l \<le> E * rp_max_position_notional_pct p \<and>
        ss_current_long_market_value s + ss_reserved_entry_notional s + q * l
          \<le> E * rp_max_gross_long_exposure_pct p \<and>
        ss_reserved_entry_notional s + q * l
          \<le> min (ac_non_marginable_buying_power (sr_account r)) (ac_buying_power (sr_account r)) *
             (1 - rp_buying_power_reserve_pct p) \<and>
        q \<le> of_int (lq_adv20_shares (sr_liquidity r)) * rp_max_pct_adv20 p \<and>
        q \<le> of_int (lq_premarket_volume (sr_liquidity r)) * rp_max_pct_premarket_volume p)"
  using approved_limits [OF assms] by (simp only: within_policy_def Let_def)


end
