(* ===== verification/Risk_Batch.thy ===== *)
theory Risk_Batch
  imports Risk_Limits
begin

text \<open>
  Decisions over a whole request space and over a batch: which cap binds, when the kill switch
  is demanded, and how the session state accumulates while a batch is sized.
\<close>

section \<open>Reserved amounts are exact\<close>

lemma quantize_dmul_exact:
  assumes "quantize_money (dmul x (of_int q)) = Some y" and "on_grid 10 x" and "0 < x" and "1 \<le> q"
    and "of_int q * x \<le> b" and "b < 10 ^ 18"
  shows "y = of_int q * x"
proof -
  have g: "on_grid 10 (x * of_int q)" by (rule on_grid_mult_int [OF assms(2)])
  have small: "\<bar>x * of_int q\<bar> < 10 ^ 18" using assms(3-6) by (simp add: mult.commute)
  have "dmul x (of_int q) = x * of_int q"
    unfolding dmul_def by (rule dec_exact_money [OF g small])
  with assms(1) quantize_money_exact [OF g small] show ?thesis by (simp add: mult.commute)
qed

lemma approved_reserves:
  assumes run: "size_position dump dumpd r = Inr d" and ok: "rd_decision d = RD_APPROVED"
    and valid: "valid_sizing_request ny r" and small: "moderate (10 ^ 13) r"
    and four: "four_decimals (sr_policy r)"
  obtains m l where "within_policy r (of_int (rd_final_quantity d)) m l"
    "0 < of_int (rd_final_quantity d) * m" "0 < of_int (rd_final_quantity d) * l"
    "rd_reserved_modeled_risk d = Some (of_int (rd_final_quantity d) * m)"
    "rd_reserved_notional d = Some (of_int (rd_final_quantity d) * l)"
    "on_grid 10 (of_int (rd_final_quantity d) * m)" "on_grid 10 (of_int (rd_final_quantity d) * l)"
proof -
  obtain v where v: "approval_of r d v"
    and a: "approved dump dumpd r (calculations_of r (av_usable v) (av_plan v) (av_budgets v))
      (av_caps v) = Inr d"
    using run ok by (rule approval_exists)
  let ?q = "rd_final_quantity d" and ?E = "ss_session_reference_equity (sr_session r)"
    and ?m = "pp_modeled_risk_per_share (av_plan v)" and ?l = "pp_planned_entry_limit (av_plan v)"
  have d: "rd_modeled_risk_per_share d = Some ?m" "rd_planned_entry_limit d = Some ?l"
    "?q = final_quantity_of (av_caps v)"
    using v by (auto simp: approval_of_def)
  have lim: "1 \<le> ?q" "within_policy r (of_int ?q) ?m ?l"
    using approved_limits [OF assms] d by auto
  note p = approval_price_facts [OF v]
  have E: "0 \<le> ?E" "?E \<le> 10 ^ 13" using valid small by (auto simp: valid_request_parts moderate_def)
  have pct: "rp_max_open_risk_pct (sr_policy r) \<le> 1" "rp_max_position_notional_pct (sr_policy r) \<le> 1"
    "0 \<le> ss_current_total_open_risk (sr_session r)"
    using valid by (auto simp: valid_request_parts)
  have "ss_current_total_open_risk (sr_session r) + of_int ?q * ?m \<le> ?E * rp_max_open_risk_pct (sr_policy r)"
    "of_int ?q * ?l \<le> ?E * rp_max_position_notional_pct (sr_policy r)"
    using lim(2) by (simp_all add: within_policy_def Let_def)
  then have qm: "of_int ?q * ?m \<le> 10 ^ 13" and ql: "of_int ?q * ?l \<le> 10 ^ 13"
    using mult_left_le [OF pct(1) E(1)] mult_left_le [OF pct(2) E(1)] E pct(3) by linarith+
  obtain risk notional where
    r: "rd_reserved_modeled_risk d = Some risk" "rd_reserved_notional d = Some notional"
      "quantize_money (dmul ?m (of_int ?q)) = Some risk" "quantize_money (dmul ?l (of_int ?q)) = Some notional"
    using approved_fields(13) [OF a] unfolding d(3) by (auto simp: calculations_of_def)
  have "risk = of_int ?q * ?m" using quantize_dmul_exact [OF r(3) p(3,4) lim(1) qm] by simp
  moreover have "notional = of_int ?q * ?l" using quantize_dmul_exact [OF r(4) p(1,2) lim(1) ql] by simp
  ultimately show ?thesis
    using r p lim on_grid_mult_int [OF p(3), of ?q] on_grid_mult_int [OF p(1), of ?q]
    by (intro that [of ?m ?l]) (simp_all add: mult.commute)
qed

section \<open>One step of a batch\<close>

text \<open>A request that shares policy \<open>p\<close> and account \<open>a\<close> of its batch and is sized in session state \<open>s\<close>.\<close>

definition batch_member ::
    "(timestamp \<Rightarrow> date) \<Rightarrow> risk_policy_config \<Rightarrow> account_snapshot \<Rightarrow> session_risk_state \<Rightarrow>
     sizing_request \<Rightarrow> bool" where
  "batch_member ny p a s r \<longleftrightarrow> sr_policy r = p \<and> sr_account r = a \<and>
     valid_sizing_request ny (r\<lparr>sr_session := s\<rparr>) \<and> moderate (10 ^ 13) (r\<lparr>sr_session := s\<rparr>)"

text \<open>The loss of the session, which sizing does not change.\<close>

definition session_loss :: "account_snapshot \<Rightarrow> session_risk_state \<Rightarrow> rat" where
  "session_loss a s =
     max 0 (- min (dsub (dsub (ac_equity a) (ss_session_start_equity s)) (ss_net_external_cash_flow s))
                  (dadd (ss_internal_realized_pnl s) (ss_internal_unrealized_pnl s)))"

lemma session_loss_eq:
  "sr_account r = a \<Longrightarrow> max 0 (- risk_session_pnl (r\<lparr>sr_session := s\<rparr>)) = session_loss a s"
  by (simp add: session_loss_def risk_session_pnl_def broker_session_pnl_def internal_session_pnl_def)

text \<open>What every sized request keeps of the session state.\<close>

definition session_step ::
    "risk_policy_config \<Rightarrow> account_snapshot \<Rightarrow> session_risk_state \<Rightarrow> session_risk_state \<Rightarrow> bool" where
  "session_step p a s s' \<longleftrightarrow>
     valid_session s' \<and>
     s' = s\<lparr>ss_current_total_open_risk := ss_current_total_open_risk s',
            ss_reserved_entry_notional := ss_reserved_entry_notional s',
            ss_reserved_entry_position_count := ss_reserved_entry_position_count s'\<rparr> \<and>
     ss_current_total_open_risk s \<le> ss_current_total_open_risk s' \<and>
     ss_reserved_entry_notional s \<le> ss_reserved_entry_notional s' \<and>
     (s' = s \<or>
       ss_current_total_open_risk s' \<le> ss_session_reference_equity s * rp_max_open_risk_pct p \<and>
       session_loss a s + ss_current_total_open_risk s'
         \<le> ss_session_reference_equity s * rp_hard_daily_loss_pct p \<and>
       ss_current_long_market_value s + ss_reserved_entry_notional s'
         \<le> ss_session_reference_equity s * rp_max_gross_long_exposure_pct p \<and>
       ss_reserved_entry_notional s' \<le>
         min (ac_non_marginable_buying_power a) (ac_buying_power a) *
           (1 - rp_buying_power_reserve_pct p) \<and>
       ss_open_daybreak_position_count s + ss_reserved_entry_position_count s'
         \<le> rp_max_concurrent_positions p)"

lemma state_guard_counts:
  assumes "size_position dump dumpd r = Inr d" and "rd_decision d = RD_APPROVED"
  shows "ss_open_daybreak_position_count (sr_session r) +
    ss_reserved_entry_position_count (sr_session r) < rp_max_concurrent_positions (sr_policy r)"
proof -
  obtain v where "approval_of r d v" using assms by (rule approval_exists)
  then have "session_reasons r (av_soft v) (av_hard v) = []" by (simp add: approval_of_def)
  then show ?thesis by (simp add: session_reasons_def Let_def not_le)
qed

lemma rejected_or_approved:
  assumes "size_position dump dumpd r = Inr d"
  shows "rd_decision d = RD_APPROVED \<or> rd_decision d = RD_REJECTED \<and> rd_reservation d = None"
  using assms by (cases rule: size_position_cases) (auto dest: rejected_Inr approved_fields(10))

lemma approved_kill:
  assumes "approved dump dumpd r c caps = Inr d"
  shows "\<not> rd_kill_switch_required d"
proof -
  obtain risk notional where "finalize_decision dumpd
       (approved_base dump r c caps (binding_cap_of caps (final_quantity_of caps))
         (reservation_of r (final_quantity_of caps) notional risk)) = Inr d"
    using assms by (rule approved_Inr)
  from finalize_Inr(1) [OF this] show ?thesis by (simp add: approved_base_def)
qed

lemma within_policy_parts:
  assumes "within_policy r q m l"
  shows "ss_current_total_open_risk (sr_session r) + q * m
      \<le> ss_session_reference_equity (sr_session r) * rp_max_open_risk_pct (sr_policy r)"
    and "max 0 (- risk_session_pnl r) + ss_current_total_open_risk (sr_session r) + q * m
      \<le> ss_session_reference_equity (sr_session r) * rp_hard_daily_loss_pct (sr_policy r)"
    and "ss_current_long_market_value (sr_session r) + ss_reserved_entry_notional (sr_session r) + q * l
      \<le> ss_session_reference_equity (sr_session r) * rp_max_gross_long_exposure_pct (sr_policy r)"
    and "ss_reserved_entry_notional (sr_session r) + q * l
      \<le> min (ac_non_marginable_buying_power (sr_account r)) (ac_buying_power (sr_account r)) *
         (1 - rp_buying_power_reserve_pct (sr_policy r))"
  using assms by (simp_all add: within_policy_def Let_def)

lemma dadd_exact_below:
  assumes "on_grid 10 x" and "on_grid 10 y" and "0 \<le> x" and "0 \<le> y"
    and "x + y \<le> e * k" and "0 \<le> e" and "e \<le> 10 ^ 13" and "k \<le> 1"
  shows "dadd x y = x + y"
  unfolding dadd_def using pct_small [OF assms(5-8)] assms(1-4) by (intro dec_exact_money) auto

text \<open>The state after an approval: the reserved amounts are added without rounding.\<close>

lemma after_approval:
  assumes m: "batch_member ny p a s r" and four: "four_decimals p"
    and run: "size_position dump dumpd (r\<lparr>sr_session := s\<rparr>) = Inr d" and ok: "rd_decision d = RD_APPROVED"
  obtains risk notional where
    "rd_reserved_modeled_risk d = Some risk" "rd_reserved_notional d = Some notional"
    "0 < risk" "0 < notional" "on_grid 10 risk" "on_grid 10 notional"
    "after_decision d s = s\<lparr>ss_current_total_open_risk := ss_current_total_open_risk s + risk,
       ss_reserved_entry_notional := ss_reserved_entry_notional s + notional,
       ss_reserved_entry_position_count := ss_reserved_entry_position_count s + 1\<rparr>"
    "session_loss a s + ss_current_total_open_risk s + risk
       \<le> ss_session_reference_equity s * rp_hard_daily_loss_pct p"
    "ss_current_total_open_risk s + risk \<le> ss_session_reference_equity s * rp_max_open_risk_pct p"
    "ss_current_long_market_value s + ss_reserved_entry_notional s + notional
       \<le> ss_session_reference_equity s * rp_max_gross_long_exposure_pct p"
    "ss_reserved_entry_notional s + notional \<le>
       min (ac_non_marginable_buying_power a) (ac_buying_power a) * (1 - rp_buying_power_reserve_pct p)"
proof -
  let ?r = "r\<lparr>sr_session := s\<rparr>" and ?q = "of_int (rd_final_quantity d) :: rat"
  have pa: "sr_policy r = p" "sr_account r = a" and v: "valid_sizing_request ny ?r"
    and small: "moderate (10 ^ 13) ?r"
    using m by (auto simp: batch_member_def)
  obtain mr l where w: "within_policy ?r ?q mr l" and pos: "0 < ?q * mr" "0 < ?q * l"
    and res: "rd_reserved_modeled_risk d = Some (?q * mr)" "rd_reserved_notional d = Some (?q * l)"
    and grid: "on_grid 10 (?q * mr)" "on_grid 10 (?q * l)"
    using approved_reserves [OF run ok v small] four pa by auto
  note lim = within_policy_parts [OF w, simplified, unfolded pa session_loss_eq [OF pa(2)]]
  have E: "0 \<le> ss_session_reference_equity s" "ss_session_reference_equity s \<le> 10 ^ 13"
    using v small by (auto simp: valid_request_parts moderate_def)
  have pct: "rp_max_open_risk_pct p \<le> 1" "rp_max_gross_long_exposure_pct p \<le> 1"
    using v pa by (auto simp: valid_request_parts)
  have s: "on_grid 10 (ss_current_total_open_risk s)" "0 \<le> ss_current_total_open_risk s"
    "on_grid 10 (ss_reserved_entry_notional s)" "0 \<le> ss_reserved_entry_notional s"
    "0 \<le> ss_current_long_market_value s"
    using v by (auto simp: valid_request_parts valid_money_def)
  have "ss_reserved_entry_notional s + ?q * l \<le>
      ss_session_reference_equity s * rp_max_gross_long_exposure_pct p"
    using lim(3) s(5) by linarith
  then have "dadd (ss_reserved_entry_notional s) (?q * l) = ss_reserved_entry_notional s + ?q * l"
    using s grid pos by (intro dadd_exact_below [OF _ _ _ _ _ E pct(2)]) auto
  moreover have "dadd (ss_current_total_open_risk s) (?q * mr) = ss_current_total_open_risk s + ?q * mr"
    using s grid pos lim(1) by (intro dadd_exact_below [OF _ _ _ _ _ E pct(1)]) auto
  ultimately show ?thesis
    using res ok by (intro that [OF res pos grid _ lim(2,1,3,4)]) (simp add: after_decision_def)
qed

lemma session_step_refl: "valid_session s \<Longrightarrow> session_step p a s s"
  by (simp add: session_step_def)

lemma after_decision_step:
  assumes m: "batch_member ny p a s r" and four: "four_decimals p"
    and run: "size_position dump dumpd (r\<lparr>sr_session := s\<rparr>) = Inr d"
  shows "session_step p a s (after_decision d s)"
proof (cases "rd_decision d = RD_APPROVED")
  case False
  then have "after_decision d s = s"
    using rejected_or_approved [OF run] by (auto simp: after_decision_def)
  with m show ?thesis by (simp add: session_step_refl batch_member_def valid_sizing_request_def)
next
  case True
  obtain risk notional where r: "0 < risk" "0 < notional" "on_grid 10 risk" "on_grid 10 notional"
    and s': "after_decision d s = s\<lparr>ss_current_total_open_risk := ss_current_total_open_risk s + risk,
       ss_reserved_entry_notional := ss_reserved_entry_notional s + notional,
       ss_reserved_entry_position_count := ss_reserved_entry_position_count s + 1\<rparr>"
    and lim: "session_loss a s + ss_current_total_open_risk s + risk
       \<le> ss_session_reference_equity s * rp_hard_daily_loss_pct p"
    "ss_current_total_open_risk s + risk \<le> ss_session_reference_equity s * rp_max_open_risk_pct p"
    "ss_current_long_market_value s + ss_reserved_entry_notional s + notional
       \<le> ss_session_reference_equity s * rp_max_gross_long_exposure_pct p"
    "ss_reserved_entry_notional s + notional \<le>
       min (ac_non_marginable_buying_power a) (ac_buying_power a) * (1 - rp_buying_power_reserve_pct p)"
    using after_approval [OF m four run True] by metis
  have v: "valid_session s" and E: "0 \<le> ss_session_reference_equity s" "ss_session_reference_equity s \<le> 10 ^ 13"
    and pct: "rp_max_open_risk_pct p \<le> 1" "rp_max_gross_long_exposure_pct p \<le> 1"
    using m by (auto simp: batch_member_def valid_request_parts moderate_def)
  have n: "ss_reserved_entry_notional s + notional \<le>
      ss_session_reference_equity s * rp_max_gross_long_exposure_pct p"
    using lim(3) v by (simp add: valid_session_def)
  have "valid_session (after_decision d s)"
    using v r pct_small [OF lim(2) E pct(1)] pct_small [OF n E pct(2)]
    by (auto simp: s' valid_session_def valid_money_def)
  moreover have "ss_open_daybreak_position_count s + ss_reserved_entry_position_count s
      < rp_max_concurrent_positions p"
    using state_guard_counts [OF run True] m by (simp add: batch_member_def)
  ultimately show ?thesis using r lim by (simp add: session_step_def s' add.assoc)
qed

lemma session_step_trans:
  assumes st: "session_step p a s s'" and st': "session_step p a s' s''"
  shows "session_step p a s s''"
proof -
  have s': "s' = s\<lparr>ss_current_total_open_risk := ss_current_total_open_risk s',
            ss_reserved_entry_notional := ss_reserved_entry_notional s',
            ss_reserved_entry_position_count := ss_reserved_entry_position_count s'\<rparr>"
    and s'': "s'' = s'\<lparr>ss_current_total_open_risk := ss_current_total_open_risk s'',
            ss_reserved_entry_notional := ss_reserved_entry_notional s'',
            ss_reserved_entry_position_count := ss_reserved_entry_position_count s''\<rparr>"
    using st st' by (simp_all add: session_step_def)
  have same: "ss_session_reference_equity s' = ss_session_reference_equity s"
    "ss_current_long_market_value s' = ss_current_long_market_value s"
    "ss_open_daybreak_position_count s' = ss_open_daybreak_position_count s"
    "session_loss a s' = session_loss a s"
    by (subst s', simp add: session_loss_def)+
  have "s'' = s\<lparr>ss_current_total_open_risk := ss_current_total_open_risk s'',
            ss_reserved_entry_notional := ss_reserved_entry_notional s'',
            ss_reserved_entry_position_count := ss_reserved_entry_position_count s''\<rparr>"
    by (subst s'', subst s') simp
  with st st' same show ?thesis unfolding session_step_def by (cases "s'' = s'") auto
qed

lemma batch_member_step:
  assumes "batch_member ny p a s r" and "session_step p a s s'"
  shows "batch_member ny p a s' r"
proof -
  have "s' = s\<lparr>ss_current_total_open_risk := ss_current_total_open_risk s',
            ss_reserved_entry_notional := ss_reserved_entry_notional s',
            ss_reserved_entry_position_count := ss_reserved_entry_position_count s'\<rparr>"
    and v: "valid_session s'"
    using assms(2) by (simp_all add: session_step_def)
  from this(1) have "ss_session_reference_equity s' = ss_session_reference_equity s"
    by (metis session_risk_state.select_convs(1) session_risk_state.surjective
        session_risk_state.update_convs(6,7,10))
  with v show ?thesis
    using assms(1) by (auto simp: batch_member_def valid_sizing_request_def moderate_def)
qed

lemma size_each_step:
  assumes "size_each dump dumpd s rs = Inr (ds, s')" and "\<forall>r \<in> set rs. batch_member ny p a s r"
    and "four_decimals p" and "valid_session s"
  shows "session_step p a s s' \<and> length ds = length rs"
  using assms
proof (induction rs arbitrary: s ds)
  case Nil
  then show ?case by (simp add: session_step_refl)
next
  case (Cons r rs)
  from Cons.prems(1) obtain d ds0 where
    d: "size_position dump dumpd (r\<lparr>sr_session := s\<rparr>) = Inr d"
    and rest: "size_each dump dumpd (after_decision d s) rs = Inr (ds0, s')" and ds: "ds = d # ds0"
    by (auto simp: rbind_Inr_iff)
  have st: "session_step p a s (after_decision d s)"
    using Cons.prems(2) by (intro after_decision_step [OF _ Cons.prems(3) d, where ny = ny]) simp
  moreover have "\<forall>x \<in> set rs. batch_member ny p a (after_decision d s) x"
    using Cons.prems(2) batch_member_step [OF _ st] by simp
  moreover have "valid_session (after_decision d s)" using st by (simp add: session_step_def)
  ultimately show ?case
    using Cons.IH [OF rest _ Cons.prems(3)] session_step_trans [OF st] ds by simp
qed

section \<open>Batches\<close>

lemma rank_order_members:
  assumes "validate_rank_order rs = None" and "r \<in> set rs"
  shows "rs \<noteq> []" "sr_policy r = sr_policy (hd rs)" "sr_account r = sr_account (hd rs)"
    "sr_session r = sr_session (hd rs)" "length rs \<le> 3"
proof -
  obtain first rest where rs: "rs = first # rest" using assms(2) by (cases rs) auto
  from assms(1) show "rs \<noteq> []" "length rs \<le> 3"
    by (auto simp: validate_rank_order_def rs split: if_splits)
  have "\<forall>x \<in> set rest. sr_policy x = sr_policy first \<and> sr_account x = sr_account first \<and>
      sr_session x = sr_session first"
    using assms(1) unfolding validate_rank_order_def rs
    by (auto simp: first_mismatch_None batch_mismatch_def split: if_splits)
  with assms(2) show "sr_policy r = sr_policy (hd rs)" "sr_account r = sr_account (hd rs)"
    "sr_session r = sr_session (hd rs)"
    by (auto simp: rs)
qed

lemma batch_sized:
  assumes run: "size_approved_batch dump dumpd rs = Inr res" and order: "validate_rank_order rs = None"
    and valid: "\<forall>r \<in> set rs. valid_sizing_request ny r \<and> moderate (10 ^ 13) r"
    and four: "four_decimals (sr_policy (hd rs))"
  shows "session_step (sr_policy (hd rs)) (sr_account (hd rs)) (sr_session (hd rs))
      (bs_ending_session_state res) \<and> length (bs_decisions res) = length rs"
proof -
  obtain first rest where rs: "rs = first # rest" using run
    by (cases rs) (auto simp: size_approved_batch_def)
  from run obtain ds s' where each: "size_each dump dumpd (sr_session first) rs = Inr (ds, s')"
    and res: "res = \<lparr>bs_decisions = ds, bs_ending_session_state = s'\<rparr>"
    by (auto simp: size_approved_batch_def rs rbind_Inr_iff simp del: size_each.simps)
  have "batch_member ny (sr_policy first) (sr_account first) (sr_session first) r" if "r \<in> set rs" for r
  proof -
    note same = rank_order_members [OF order that, unfolded rs list.sel]
    have eq: "r\<lparr>sr_session := sr_session first\<rparr> = r" by (simp flip: same(4))
    show ?thesis unfolding batch_member_def eq using valid that same by blast
  qed
  moreover have "valid_session (sr_session first)"
    using valid by (simp add: rs valid_sizing_request_def)
  ultimately have "session_step (sr_policy first) (sr_account first) (sr_session first) s' \<and>
      length ds = length rs"
    using four by (intro size_each_step [OF each, where ny = ny]) (auto simp: rs)
  then show ?thesis by (simp add: rs res)
qed

section \<open>Properties\<close>


text \<open>
  The binding cap of an approved decision names the first cap, in the fixed order,
  that equals the final quantity, and no cap is smaller.
\<close>

theorem binding_cap_is_first_minimum:
  assumes run: "size_position dump dumpd r = Inr d" and ok: "rd_decision d = RD_APPROVED"
  shows "\<exists>caps cap before after. rd_quantity_caps d = Some caps \<and> rd_binding_cap d = Some cap \<and>
    BINDING_ORDER = before @ cap # after \<and> cap_value caps cap = rd_final_quantity d \<and>
    (\<forall>c \<in> set before. rd_final_quantity d < cap_value caps c) \<and>
    (\<forall>c. rd_final_quantity d \<le> cap_value caps c)"
proof -
  obtain v where "approval_of r d v"
    and v: "approved dump dumpd r (calculations_of r (av_usable v) (av_plan v) (av_budgets v))
      (av_caps v) = Inr d"
    using run ok by (rule approval_exists)
  note f = approved_fields(1-3) [OF v]
  have le: "final_quantity_of (av_caps v) \<le> cap_value (av_caps v) c" for c
    by (rule final_quantity_le) (cases c; simp add: cap_values_def)
  obtain cap where cap: "binding_cap_of (av_caps v) (final_quantity_of (av_caps v)) = Some cap"
    using binding_cap_exists by blast
  from find_split [OF this [unfolded binding_cap_of_def]] obtain before after where
    "BINDING_ORDER = before @ cap # after" "cap_value (av_caps v) cap = final_quantity_of (av_caps v)"
    "\<forall>c \<in> set before. cap_value (av_caps v) c \<noteq> final_quantity_of (av_caps v)"
    by blast
  moreover from this(3) have "\<forall>c \<in> set before. final_quantity_of (av_caps v) < cap_value (av_caps v) c"
    using le by (metis order_le_less)
  ultimately show ?thesis
    unfolding f(1) using f(2,3) cap le by (intro exI [of _ "av_caps v"]) metis
qed

text \<open>
  A decision demands the kill switch exactly when it is active already or the
  session result has reached the hard daily loss limit, and such a decision is a rejection
  that reserves nothing.
\<close>

theorem kill_switch_characterised:
  assumes run: "size_position dump dumpd r = Inr d"
  shows "(rd_kill_switch_required d \<longleftrightarrow> ss_kill_switch_active (sr_session r) \<or>
      (\<exists>limit. loss_limit r (rp_hard_daily_loss_pct (sr_policy r)) = Some limit \<and>
         risk_session_pnl r \<le> dneg limit)) \<and>
    (rd_kill_switch_required d \<longrightarrow> rd_decision d = RD_REJECTED \<and> rd_reservation d = None \<and>
       rd_final_quantity d = 0)"
proof -
  have no_kill: "\<not> kill_switch_required r hard"
    if "assess r = Some ([], kill, c)" "loss_limit r (rp_hard_daily_loss_pct (sr_policy r)) = Some hard"
    for kill c hard
    using that(1)
    by (rule assessE) (use that(2) in \<open>auto simp: kill_switch_required_def state_reasons_def
        session_reasons_def Let_def split: if_splits\<close>)
  from run show ?thesis
  proof (cases rule: size_position_cases)
    case (guarded reasons kill c)
    from guarded(1) obtain hard where "loss_limit r (rp_hard_daily_loss_pct (sr_policy r)) = Some hard"
      "kill = kill_switch_required r hard"
      by (rule assessE)
    then show ?thesis using rejected_Inr [OF guarded(3)] by (auto simp: kill_switch_required_def)
  next
    case (too_small kill c caps)
    from too_small(1) obtain hard where "loss_limit r (rp_hard_daily_loss_pct (sr_policy r)) = Some hard"
      by (rule assessE)
    with no_kill [OF too_small(1) this] show ?thesis
      using rejected_Inr [OF too_small(5)] by (auto simp: kill_switch_required_def)
  next
    case (sized kill c caps)
    from sized(1) obtain hard where "loss_limit r (rp_hard_daily_loss_pct (sr_policy r)) = Some hard"
      by (rule assessE)
    with no_kill [OF sized(1) this] show ?thesis
      using approved_kill [OF sized(5)] by (auto simp: kill_switch_required_def)
  qed
qed

end
