(* ===== verification/Risk_Witnesses.thy ===== *)
theory Risk_Witnesses
  imports Risk_Batch
begin

text \<open>
  A concrete sizing request on a paper account of 100000 and its approved decision, and a
  batch of two requests, used by the witnesses of the risk properties. The serialisers are
  instantiated with constant functions.
\<close>

definition sample_setup :: approved_setup where
  "sample_setup =
     \<lparr>ap_ticker = ''ABCD'', ap_side = ''long'', ap_conviction_score = 90,
      ap_score_breakdown =
        \<lparr>sb_source_quality_points = 6, sb_catalyst_magnitude_bucket = MB_MAJOR_CONCRETE,
         sb_catalyst_magnitude_points = 4, sb_evidence_purpose = EP_MAGNITUDE,
         sb_magnitude_evidence_excerpt = [70, 68, 65], sb_magnitude_evidence_truncated = False,
         sb_magnitude_evidence_start_char = Some 0, sb_magnitude_evidence_end_char = Some 3,
         sb_catalyst_zero_override = False, sb_catalyst_zero_reason = None,
         sb_catalyst_score_raw = 10, sb_catalyst_points = 40, sb_volume_points = 25,
         sb_technical_grade = TG_A_PLUS, sb_technical_base_points = 25, sb_technical_points = 25,
         sb_parabolic_adjusted = False\<rparr>,
      ap_master_thesis = [71], ap_catalyst_source = [80, 82],
      ap_source_type = ST_PRIMARY, ap_source_timestamp = ''2026-07-31T10:00:00Z'',
      ap_catalyst_age_hours = 2, ap_corroborated = True, ap_risk_flags = [],
      ap_trade_parameters = \<lparr>tp_reference_price = 10, tp_atr_value_used = 1,
        tp_premarket_low_used = 19 / 2, tp_risk_stop_atr_multiple = 1,
        tp_profit_target_atr_multiple = 2, tp_invalidation_note = INVALIDATION_NOTE\<rparr>\<rparr>"

definition sample_account :: account_snapshot where
  "sample_account =
     \<lparr>ac_snapshot_timestamp = 0, ac_status = ''ACTIVE'', ac_account_blocked = False,
      ac_trading_blocked = False, ac_trade_suspended_by_user = False, ac_equity = 100000,
      ac_last_equity = 100000, ac_cash = 100000, ac_buying_power = 100000,
      ac_non_marginable_buying_power = 100000, ac_regt_buying_power = 100000,
      ac_initial_margin = 0, ac_maintenance_margin = 0, ac_long_market_value = 0,
      ac_multiplier = 1, ac_pending_transfer_in = 0, ac_pending_transfer_out = 0\<rparr>"

definition sample_session :: session_risk_state where
  "sample_session =
     \<lparr>ss_session_reference_equity = 100000, ss_session_start_equity = 100000,
      ss_net_external_cash_flow = 0, ss_internal_realized_pnl = 0,
      ss_internal_unrealized_pnl = 0, ss_current_total_open_risk = 0,
      ss_reserved_entry_notional = 0, ss_current_long_market_value = 0,
      ss_open_daybreak_position_count = 0, ss_reserved_entry_position_count = 0,
      ss_completed_entry_count = 0, ss_consecutive_closed_losses = 0,
      ss_traded_tickers_today = [], ss_account_state_reconciled = True,
      ss_streams_healthy = True, ss_database_healthy = True, ss_kill_switch_active = False\<rparr>"

lemma sample_session_initial: "initialize_session_state sample_account = Inr sample_session"
  by (simp add: initialize_session_state_def sample_account_def sample_session_def valid_session_def
      valid_money_def on_grid_def)

definition sample_request :: sizing_request where
  "sample_request =
     \<lparr>sr_request_id = ''req-1'', sr_run_id = ''run-1'', sr_trading_date = (2026, 7, 31),
      sr_final_rank = 1, sr_calculated_at = 0, sr_execution_cutoff_timestamp = 60000000,
      sr_setup = sample_setup, sr_policy = paper_v1, sr_account = sample_account,
      sr_quote =
        \<lparr>qt_quote_timestamp = 0, qt_last_trade_timestamp = 0, qt_bid_price = 999 / 100,
         qt_ask_price = 1001 / 100, qt_bid_size = 5, qt_ask_size = 5, qt_last_price = 1001 / 100,
         qt_first_regular_session_nbbo_confirmed = True\<rparr>,
      sr_liquidity =
        \<lparr>lq_premarket_volume = 900000, lq_adv20_shares = 10000000, lq_asset_tradable = True,
         lq_asset_fractionable = False, lq_asset_marginable = False,
         lq_asset_status = ''active''\<rparr>,
      sr_session = sample_session, sr_planned_entry_limit = 1001 / 100,
      sr_tick_size = 1 / 100, sr_market_status_normal = True, sr_symbol_halted = False,
      sr_configuration_hash = replicate 64 (CHR ''0'')\<rparr>"

definition no_dump :: "'a \<Rightarrow> json" where
  "no_dump x = JNull"

definition ny_sample :: "timestamp \<Rightarrow> date" where
  "ny_sample t = (2026, 7, 31)"

lemmas sample_defs = sample_request_def sample_session_def sample_account_def sample_setup_def
  paper_v1_def

lemma elapsed_ms_self [simp]: "elapsed_ms t t = 0"
  by (simp add: elapsed_ms_def total_seconds_def flt_def trunc_int_def)

lemma sample_limits:
  "loss_limit sample_request (75 / 10000) = Some 750" "loss_limit sample_request (1 / 100) = Some 1000"
  "usable_buying_power sample_request = Some 80000"
  by (simp_all add: loss_limit_def usable_buying_power_def sample_defs arith_eval)

lemma sample_pnl: "risk_session_pnl sample_request = 0" "broker_session_pnl sample_request = 0"
  "internal_session_pnl sample_request = 0"
  by (simp_all add: risk_session_pnl_def broker_session_pnl_def internal_session_pnl_def sample_defs
      arith_eval)

definition sample_plan :: price_plan where
  "sample_plan =
     \<lparr>pp_reference_price = 10, pp_atr = 1, pp_premarket_low = 19 / 2,
      pp_planned_entry_limit = 1001 / 100, pp_stop_price = 9, pp_target_price = 12,
      pp_structural_risk_per_share = 101 / 100, pp_execution_risk_buffer = 1 / 10,
      pp_modeled_risk_per_share = 111 / 100\<rparr>"

lemma sample_price_plan: "price_plan_of sample_request = Some sample_plan"
  by (simp add: price_plan_of_def sample_defs sample_plan_def spread_def arith_eval
      cong: bind_weak_cong)

lemma sample_price_reasons: "price_reasons sample_request sample_plan = Some []"
  by (simp add: price_reasons_def sample_defs sample_plan_def spread_def midpoint_def arith_eval guard_def
      cong: bind_weak_cong)

definition sample_budgets :: budgets where
  "sample_budgets =
     \<lparr>bu_base_trade_risk_budget = 250, bu_risk_flag_multiplier = 1,
      bu_adjusted_trade_risk_budget = 250, bu_maximum_total_open_risk = 750,
      bu_remaining_open_risk_capacity = 750, bu_remaining_hard_loss_capacity = 1000,
      bu_maximum_position_notional = 10000, bu_remaining_gross_exposure = 25000\<rparr>"

lemma sample_budgets_of: "budgets_of sample_request 1000 = Some sample_budgets"
  by (simp add: budgets_of_def sample_pnl risk_flag_multiplier_def sample_budgets_def)
    (simp add: sample_defs arith_eval cong: bind_weak_cong)

lemma lower_active: "ascii_lower ''active'' = ''active''"
  by code_simp

lemma sample_state_reasons: "state_reasons sample_request = []"
  by (simp add: state_reasons_def sample_defs guard_def lower_active)

lemma sample_session_reasons: "session_reasons sample_request 750 1000 = []"
proof -
  have "dsub 0 0 = 0" "dabs 0 = 0" "dneg 750 = -750" "dneg 1000 = -1000"
    by (simp_all add: arith_eval)
  then show ?thesis
    unfolding session_reasons_def Let_def sample_pnl by (simp add: guard_def sample_defs)
qed

lemma sample_capacity_reasons: "capacity_reasons 80000 sample_budgets = []"
  by (simp add: capacity_reasons_def sample_budgets_def guard_def)

definition sample_calculations :: calculations where
  "sample_calculations = calculations_of sample_request 80000 sample_plan sample_budgets"

lemma sample_assess: "assess sample_request = Some ([], False, sample_calculations)"
proof -
  have pct: "rp_soft_daily_loss_pct (sr_policy sample_request) = 75 / 10000"
    "rp_hard_daily_loss_pct (sr_policy sample_request) = 1 / 100"
    by (simp_all add: sample_defs)
  have "\<not> ss_kill_switch_active (sr_session sample_request)" "dneg 1000 = -1000"
    by (simp_all add: sample_defs arith_eval)
  then have "\<not> kill_switch_required sample_request 1000"
    by (simp add: kill_switch_required_def sample_pnl)
  then show ?thesis
    unfolding assess_def pct sample_limits Option.bind.bind_lunit sample_price_plan
      sample_price_reasons sample_budgets_of sample_state_reasons sample_session_reasons
      sample_capacity_reasons sample_calculations_def
    by simp
qed

definition sample_caps :: quantity_caps where
  "sample_caps =
     \<lparr>qc_trade_risk = 225, qc_open_risk = 675, qc_daily_loss = 900, qc_buying_power = 7992,
      qc_position_notional = 999, qc_gross_exposure = 2497, qc_adv_liquidity = 10000,
      qc_premarket_liquidity = 4500\<rparr>"

lemma sample_caps_of: "caps_of sample_request sample_calculations = Some sample_caps"
proof -
  have "dmul 10000000 (1 / 1000) = 10000" "dmul 900000 (5 / 1000) = 4500"
    by (simp_all add: arith_eval)
  then show ?thesis
    by (simp add: caps_of_def sample_calculations_def calculations_of_def sample_plan_def
        sample_budgets_def ddiv_def floor_to_int_def floor_dec_numeral sample_caps_def)
      (simp add: sample_defs)
qed

lemma sample_quantity: "final_quantity_of sample_caps = 225" "binding_cap_of sample_caps 225 = Some TRADE_RISK"
  by (simp_all add: final_quantity_of_def cap_values_def sample_caps_def binding_cap_of_def BINDING_ORDER_def)

lemma sample_ticker: "is_canonical_ticker ''ABCD''" "is_canonical_ticker ''EFGH''"
  by code_simp+

lemma sample_show_date: "show_date (2026, 7, 31) = ''20260731''"
  by code_simp

lemma zero_hash_valid: "valid_hash (replicate 64 (CHR ''0''))"
  by code_simp

definition sample_reservation :: risk_reservation where
  "sample_reservation = reservation_of sample_request 225 (9009 / 4) (999 / 4)"

lemma sample_reservation_valid: "valid_reservation sample_reservation"
  by (simp add: valid_reservation_def sample_reservation_def reservation_of_def client_order_id_of_def
      sample_request_def sample_setup_def sample_ticker sample_show_date valid_money_def on_grid_def
      del: is_canonical_ticker.simps)

definition sample_decision :: risk_decision where
  "sample_decision =
     (let base = approved_base no_dump sample_request sample_calculations sample_caps
        (Some TRADE_RISK) sample_reservation
      in base\<lparr>rd_decision_hash := canonical_sha256 (decision_body no_dump base)\<rparr>)"

lemma sample_decision_fields:
  "rd_decision sample_decision = RD_APPROVED" "rd_final_quantity sample_decision = 225"
  "rd_modeled_risk_per_share sample_decision = Some (111 / 100)"
  "rd_planned_entry_limit sample_decision = Some (1001 / 100)"
  "rd_reservation sample_decision = Some sample_reservation"
  by (simp_all add: sample_decision_def approved_base_def Let_def sample_reservation_def
      reservation_of_def sample_calculations_def calculations_of_def sample_plan_def)

lemma sample_decision_valid:
  "valid_decision_fields sample_decision" "validate_terminal_shape no_dump sample_decision = None"
proof -
  show "valid_decision_fields sample_decision"
    unfolding valid_decision_fields_def decision_amounts_def sample_decision_def Let_def
      approved_base_def sample_calculations_def calculations_of_def sample_pnl sample_reservation_def
      reservation_of_def
    by (simp add: sample_plan_def sample_budgets_def)
      (simp add: sample_request_def sample_setup_def sample_session_def paper_v1_def sample_ticker
        zero_hash_valid valid_money_def on_grid_def del: is_canonical_ticker.simps)
  show "validate_terminal_shape no_dump sample_decision = None"
    unfolding validate_terminal_shape_def sample_decision_def Let_def
    by (simp add: approved_base_def sample_reservation_def reservation_of_def decision_body_def
        no_dump_def)
qed

lemma sample_sized: "size_position no_dump no_dump sample_request = Inr sample_decision"
proof -
  have ca: "ca_modeled_risk_per_share sample_calculations = 111 / 100"
    "ca_planned_entry_limit sample_calculations = 1001 / 100"
    by (simp_all add: sample_calculations_def calculations_of_def sample_plan_def)
  have q: "quantize_money (dmul (111 / 100) 225) = Some (999 / 4)"
    "quantize_money (dmul (1001 / 100) 225) = Some (9009 / 4)"
    by (simp_all add: arith_eval)
  have "finalize_decision no_dump (approved_base no_dump sample_request sample_calculations sample_caps
      (Some TRADE_RISK) sample_reservation) = Inr sample_decision"
    unfolding finalize_decision_def Let_def sample_decision_def [unfolded Let_def, symmetric]
    by (simp add: sample_decision_valid)
  then have "approved no_dump no_dump sample_request sample_calculations sample_caps = Inr sample_decision"
    unfolding approved_def Let_def sample_quantity ca of_int_numeral q prod.case option.case
      sample_reservation_def [symmetric]
    by (simp add: sample_reservation_valid)
  moreover have "rp_minimum_quantity (sr_policy sample_request) = 1"
    by (simp add: sample_request_def paper_v1_def)
  moreover have "valid_quantity_caps sample_caps"
    by (simp add: valid_quantity_caps_def cap_values_def sample_caps_def)
  ultimately show ?thesis
    by (simp add: size_position_def sample_assess sample_caps_of sample_quantity)
qed

lemma sample_request_valid: "valid_sizing_request ny_sample sample_request"
  unfolding valid_sizing_request_def
  using shipped_policies_valid(1)
  by (simp add: sample_request_def ny_sample_def zero_hash_valid)
    (simp add: valid_account_def valid_quote_def valid_liquidity_def valid_session_def
      valid_approved_setup_def sample_setup_def sample_account_def sample_session_def sample_ticker
      valid_money_def on_grid_def valid_score_breakdown_def valid_local_consistency_def valid_trade_parameters_def
      validate_risk_flags_def flag_indexes_def del: is_canonical_ticker.simps)

lemma sample_moderate: "moderate (10 ^ 13) sample_request"
  by (simp add: moderate_def sample_request_def sample_session_def sample_account_def)

lemma sample_four: "four_decimals (sr_policy sample_request)"
  using shipped_policies_four_decimals(1) by (simp add: sample_request_def)

section \<open>Witnesses of the risk properties\<close>

theorem approved_within_policy_witness:
  "\<exists>m. rd_modeled_risk_per_share sample_decision = Some m \<and> 0 < m \<and>
     of_int (rd_final_quantity sample_decision) * m
       \<le> ss_session_reference_equity (sr_session sample_request) *
          rp_risk_per_trade_pct (sr_policy sample_request) * risk_flag_multiplier sample_request"
  using approved_within_policy [OF sample_sized sample_decision_fields(1) sample_request_valid
      sample_moderate sample_four]
  unfolding Let_def by blast


definition sample_batch_result :: batch_sizing_result where
  "sample_batch_result = \<lparr>bs_decisions = [sample_decision],
     bs_ending_session_state = after_decision sample_decision sample_session\<rparr>"

lemma sample_batch_sized: "size_approved_batch no_dump no_dump [sample_request] = Inr sample_batch_result"
proof -
  have eq: "sr_session sample_request = sample_session"
    "sample_request\<lparr>sr_session := sample_session\<rparr> = sample_request"
    by (simp_all add: sample_request_def)
  show ?thesis
    unfolding size_approved_batch_def list.case eq(1) size_each.simps eq(2) sample_sized
    by (simp add: sample_batch_result_def)
qed


end
