(* ===== verification/Effects.thy ===== *)
theory Effects
  imports Prelude
begin

text \<open>
  Stateful computations that may raise: a Python method that reads and writes the objects it
  holds and may leave by an exception is a function from the state to a result and the new
  state. An exception keeps every effect made before it, as in Python. Sequencing, \<open>raise\<close> and
  \<open>try/except\<close> are the combinators; \<open>steps R m\<close> says that every run of \<open>m\<close>, whether it returns
  or raises, relates the state before to the state after by \<open>R\<close>, and \<open>wp\<close> is the weakest
  precondition for a postcondition on returning and one on raising.
\<close>

named_theorems effect_defs "definitions of the combinators"
named_theorems steps_intros "rules that compose step relations"

type_synonym ('s, 'e, 'a) eff = "'s \<Rightarrow> ('e + 'a) \<times> 's"

section \<open>Combinators\<close>

definition ret :: "'a \<Rightarrow> ('s, 'e, 'a) eff" where
  [effect_defs]: "ret x s = (Inr x, s)"

definition raise :: "'e \<Rightarrow> ('s, 'e, 'a) eff" where
  [effect_defs]: "raise e s = (Inl e, s)"

definition andthen :: "('s, 'e, 'a) eff \<Rightarrow> ('a \<Rightarrow> ('s, 'e, 'b) eff) \<Rightarrow> ('s, 'e, 'b) eff" where
  [effect_defs]: "andthen m f s = (case m s of (Inl e, t) \<Rightarrow> (Inl e, t) | (Inr x, t) \<Rightarrow> f x t)"

definition catch :: "('s, 'e, 'a) eff \<Rightarrow> ('e \<Rightarrow> ('s, 'e, 'a) eff) \<Rightarrow> ('s, 'e, 'a) eff" where
  [effect_defs]: "catch m h s = (case m s of (Inl e, t) \<Rightarrow> h e t | (Inr x, t) \<Rightarrow> (Inr x, t))"

definition gets :: "('s \<Rightarrow> 'a) \<Rightarrow> ('s, 'e, 'a) eff" where
  [effect_defs]: "gets f s = (Inr (f s), s)"

definition modify :: "('s \<Rightarrow> 's) \<Rightarrow> ('s, 'e, unit) eff" where
  [effect_defs]: "modify f s = (Inr (), f s)"

text \<open>An operation of a part of the state that returns a new part or an error.\<close>

definition update_or_raise :: "('s \<Rightarrow> 'e + 's) \<Rightarrow> ('s, 'e, unit) eff" where
  [effect_defs]: "update_or_raise f s = (case f s of Inl e \<Rightarrow> (Inl e, s) | Inr t \<Rightarrow> (Inr (), t))"

text \<open>A computation without effect that may raise.\<close>

definition from_result :: "'e + 'a \<Rightarrow> ('s, 'e, 'a) eff" where
  [effect_defs]: "from_result r s = (r, s)"

lemma ret_andthen [simp]: "andthen (ret x) f = f x"
  by (simp add: fun_eq_iff effect_defs)

lemma raise_andthen [simp]: "andthen (raise e) f = raise e"
  by (simp add: fun_eq_iff effect_defs)

lemma from_result_simps [simp]: "from_result (Inl e) = raise e" "from_result (Inr x) = ret x"
  by (simp_all add: fun_eq_iff effect_defs)

lemma andthen_assoc: "andthen (andthen m f) g = andthen m (\<lambda>x. andthen (f x) g)"
  by (auto simp: fun_eq_iff effect_defs split: sum.splits prod.splits)

lemma catch_ret [simp]: "catch (ret x) h = ret x"
  by (simp add: fun_eq_iff effect_defs)

lemma catch_raise [simp]: "catch (raise e) h = h e"
  by (simp add: fun_eq_iff effect_defs)

text \<open>
  The outside world (broker, hooks, alert sinks, providers) is a parameter: a call is a function
  of the state of the world that returns a value or an exception, which is the name of its class
  and its text.
\<close>

type_synonym exn = "string \<times> string"
type_synonym ('w, 'a) external = "('w, exn, 'a) eff"

fun exn_of :: "pyerr \<Rightarrow> exn" where
  "exn_of (ValueError m) = (''ValueError'', m)"
| "exn_of (RuntimeError m) = (''RuntimeError'', m)"
| "exn_of (TypeError m) = (''TypeError'', m)"
| "exn_of (ValidationError m) = (''ValidationError'', m)"
| "exn_of (KeyError m) = (''KeyError'', m)"
| "exn_of AssertionError = (''AssertionError'', [])"
| "exn_of DecimalError = (''InvalidOperation'', [])"

section \<open>Step relations\<close>

definition steps :: "('s \<Rightarrow> 's \<Rightarrow> bool) \<Rightarrow> ('s, 'e, 'a) eff \<Rightarrow> bool" where
  "steps R m \<longleftrightarrow> (\<forall>s. R s (snd (m s)))"

lemma stepsI: "(\<And>s. R s (snd (m s))) \<Longrightarrow> steps R m"
  by (simp add: steps_def)

lemma stepsD: "steps R m \<Longrightarrow> m s = (r, t) \<Longrightarrow> R s t"
  by (metis steps_def snd_conv)

locale step_relation =
  fixes R :: "'s \<Rightarrow> 's \<Rightarrow> bool"
  assumes refl: "R s s"
    and trans: "R s t \<Longrightarrow> R t u \<Longrightarrow> R s u"
begin

lemma steps_ret: "steps R (ret x)"
  by (simp add: steps_def ret_def refl)

lemma steps_raise: "steps R (raise e)"
  by (simp add: steps_def raise_def refl)

lemma steps_gets: "steps R (gets f)"
  by (simp add: steps_def gets_def refl)

lemma steps_from_result: "steps R (from_result r)"
  by (simp add: steps_def from_result_def refl)

lemma steps_update: "(\<And>s t. f s = Inr t \<Longrightarrow> R s t) \<Longrightarrow> steps R (update_or_raise f)"
  by (auto simp: steps_def update_or_raise_def refl split: sum.splits)

lemma steps_andthen:
  assumes "steps R m" and "\<And>x. steps R (f x)"
  shows "steps R (andthen m f)"
proof (rule stepsI)
  fix s
  obtain r t where m: "m s = (r, t)" by (cases "m s")
  have "R s t" using stepsD [OF assms(1) m] .
  moreover have "R t (snd (f x t))" for x using assms(2) by (simp add: steps_def)
  ultimately show "R s (snd (andthen m f s))"
    by (cases r) (auto simp: andthen_def m intro: trans)
qed

lemma steps_andthen_from:
  assumes "steps R m" and "\<And>s x t. m s = (Inr x, t) \<Longrightarrow> R t (snd (f x t))"
  shows "steps R (andthen m f)"
proof (rule stepsI)
  fix s
  obtain r t where m: "m s = (r, t)" by (cases "m s")
  have "R s t" using stepsD [OF assms(1) m] .
  then show "R s (snd (andthen m f s))"
    using assms(2) [of s] m by (cases r) (auto simp: andthen_def intro: trans)
qed

lemma steps_catch:
  assumes "steps R m" and "\<And>e. steps R (h e)"
  shows "steps R (catch m h)"
proof (rule stepsI)
  fix s
  obtain r t where m: "m s = (r, t)" by (cases "m s")
  have "R s t" using stepsD [OF assms(1) m] .
  moreover have "R t (snd (h e t))" for e using assms(2) by (simp add: steps_def)
  ultimately show "R s (snd (catch m h s))"
    by (cases r) (auto simp: catch_def m intro: trans)
qed

lemma steps_if: "steps R m \<Longrightarrow> steps R m' \<Longrightarrow> steps R (if c then m else m')"
  by simp

lemma steps_option:
  "steps R m \<Longrightarrow> (\<And>x. steps R (f x)) \<Longrightarrow> steps R (case x of None \<Rightarrow> m | Some y \<Rightarrow> f y)"
  by (cases x) simp_all

lemma steps_sum:
  "(\<And>e. steps R (f e)) \<Longrightarrow> (\<And>y. steps R (g y)) \<Longrightarrow> steps R (case x of Inl e \<Rightarrow> f e | Inr y \<Rightarrow> g y)"
  by (cases x) simp_all

lemmas steps_rules = steps_ret steps_raise steps_gets steps_from_result steps_andthen steps_catch steps_if steps_option
  steps_sum

end

section \<open>Results\<close>

text \<open>
  \<open>yields Q m\<close> says that whenever \<open>m\<close> returns, the value and the state after satisfy \<open>Q\<close>, and
  \<open>raises I E m\<close> that whenever \<open>m\<close> raises from a state of the invariant \<open>I\<close>, the error satisfies
  \<open>E\<close>.
\<close>

definition yields :: "('a \<Rightarrow> 's \<Rightarrow> bool) \<Rightarrow> ('s, 'e, 'a) eff \<Rightarrow> bool" where
  "yields Q m \<longleftrightarrow> (\<forall>s x t. m s = (Inr x, t) \<longrightarrow> Q x t)"

lemma yieldsD: "yields Q m \<Longrightarrow> m s = (Inr x, t) \<Longrightarrow> Q x t"
  by (simp add: yields_def)

lemma yields_raise: "yields Q (raise e)"
  by (simp add: yields_def raise_def)

lemma yields_andthen: "(\<And>x. yields Q (f x)) \<Longrightarrow> yields Q (andthen m f)"
  by (auto simp: yields_def andthen_def split: sum.splits prod.splits)

lemma yields_andthen_value:
  "yields P m \<Longrightarrow> (\<And>x t. P x t \<Longrightarrow> yields Q (f x)) \<Longrightarrow> yields Q (andthen m f)"
  by (fastforce simp: yields_def andthen_def split: sum.splits prod.splits)

lemma yields_catch: "yields Q m \<Longrightarrow> (\<And>e. yields Q (h e)) \<Longrightarrow> yields Q (catch m h)"
  by (auto simp: yields_def catch_def split: sum.splits prod.splits)

lemma yields_if: "(c \<Longrightarrow> yields Q m) \<Longrightarrow> (\<not> c \<Longrightarrow> yields Q m') \<Longrightarrow> yields Q (if c then m else m')"
  by simp

lemma yields_mono: "yields P m \<Longrightarrow> (\<And>x t. P x t \<Longrightarrow> Q x t) \<Longrightarrow> yields Q m"
  by (auto simp: yields_def)

definition raises :: "('s \<Rightarrow> bool) \<Rightarrow> ('e \<Rightarrow> bool) \<Rightarrow> ('s, 'e, 'a) eff \<Rightarrow> bool" where
  "raises I E m \<longleftrightarrow> (\<forall>s. I s \<longrightarrow> (\<forall>e t. m s = (Inl e, t) \<longrightarrow> E e))"

lemma raisesD: "raises I E m \<Longrightarrow> I s \<Longrightarrow> m s = (Inl e, t) \<Longrightarrow> E e"
  by (auto simp: raises_def)

lemma raises_ret: "raises I E (ret x)"
  by (simp add: raises_def ret_def)

lemma raises_raise: "E e \<Longrightarrow> raises I E (raise e)"
  by (simp add: raises_def raise_def)

lemma raises_gets: "raises I E (gets f)"
  by (simp add: raises_def gets_def)

lemma raises_modify: "raises I E (modify f)"
  by (simp add: raises_def modify_def)

lemma raises_andthen:
  assumes "raises I E m" and "\<And>s r t. I s \<Longrightarrow> m s = (r, t) \<Longrightarrow> I t" and "\<And>x. raises I E (f x)"
  shows "raises I E (andthen m f)"
  using assms unfolding raises_def andthen_def
  by (fastforce split: sum.splits prod.splits)

lemma raises_catch:
  assumes "raises I F m" and "\<And>s r t. I s \<Longrightarrow> m s = (r, t) \<Longrightarrow> I t" and "\<And>e. F e \<Longrightarrow> raises I E (h e)"
  shows "raises I E (catch m h)"
  using assms unfolding raises_def catch_def
  by (fastforce split: sum.splits prod.splits)

section \<open>Weakest preconditions\<close>

definition wp :: "('s, 'e, 'a) eff \<Rightarrow> ('a \<Rightarrow> 's \<Rightarrow> bool) \<Rightarrow> ('e \<Rightarrow> 's \<Rightarrow> bool) \<Rightarrow> 's \<Rightarrow> bool" where
  "wp m Q E s = (case m s of (Inl e, t) \<Rightarrow> E e t | (Inr x, t) \<Rightarrow> Q x t)"

lemma wp_ret [simp]: "wp (ret x) Q E s = Q x s"
  by (simp add: wp_def effect_defs)

lemma wp_raise [simp]: "wp (raise e) Q E s = E e s"
  by (simp add: wp_def effect_defs)

lemma wp_andthen [simp]: "wp (andthen m f) Q E s = wp m (\<lambda>x. wp (f x) Q E) E s"
  by (auto simp: wp_def effect_defs split: sum.splits prod.splits)

lemma wp_andthen_fun: "wp (andthen m f) Q E = wp m (\<lambda>x. wp (f x) Q E) E"
  by (simp add: fun_eq_iff)

lemma wp_catch [simp]: "wp (catch m h) Q E s = wp m Q (\<lambda>e. wp (h e) Q E) s"
  by (auto simp: wp_def effect_defs split: sum.splits prod.splits)

lemma wp_gets [simp]: "wp (gets f) Q E s = Q (f s) s"
  by (simp add: wp_def effect_defs)

lemma wp_modify [simp]: "wp (modify f) Q E s = Q () (f s)"
  by (simp add: wp_def effect_defs)

lemma wp_update_or_raise [simp]:
  "wp (update_or_raise f) Q E s = (case f s of Inl e \<Rightarrow> E e s | Inr t \<Rightarrow> Q () t)"
  by (auto simp: wp_def effect_defs split: sum.splits)

lemma wp_from_result [simp]:
  "wp (from_result r) Q E s = (case r of Inl e \<Rightarrow> E e s | Inr x \<Rightarrow> Q x s)"
  by (auto simp: wp_def effect_defs split: sum.splits)

lemma wp_if [simp]: "wp (if c then m else m') Q E s = (if c then wp m Q E s else wp m' Q E s)"
  by simp

lemma wp_mono:
  assumes "wp m Q E s" and "\<And>x t. Q x t \<Longrightarrow> Q' x t" and "\<And>e t. E e t \<Longrightarrow> E' e t"
  shows "wp m Q' E' s"
  using assms by (auto simp: wp_def split: sum.splits prod.splits)

lemma wp_then: "wp m P E s \<Longrightarrow> (\<And>x t. P x t \<Longrightarrow> wp (f x) Q E t) \<Longrightarrow> wp (andthen m f) Q E s"
  unfolding wp_andthen by (rule wp_mono)

lemma wp_conj:
  "wp m Q E s \<Longrightarrow> wp m Q' E' s \<Longrightarrow> wp m (\<lambda>x t. Q x t \<and> Q' x t) (\<lambda>e t. E e t \<and> E' e t) s"
  by (auto simp: wp_def split: sum.splits prod.splits)

lemma wp_steps: "steps R m \<Longrightarrow> wp m (\<lambda>x. R s) (\<lambda>e. R s) s"
  by (auto simp: wp_def steps_def split: sum.splits prod.splits) (metis snd_conv)+

lemma steps_wp:
  assumes "\<And>s. wp m (\<lambda>x. R s) (\<lambda>e. R s) s"
  shows "steps R m"
proof (rule stepsI)
  fix s
  obtain r t where "m s = (r, t)" by (cases "m s")
  then show "R s (snd (m s))" using assms [of s] by (cases r) (simp_all add: wp_def)
qed

lemma wp_returns: "wp m Q E s \<Longrightarrow> m s = (Inr x, t) \<Longrightarrow> Q x t"
  by (simp add: wp_def)

end
