(* ===== verification/Store.thy ===== *)
theory Store
  imports Effects
begin

text \<open>
  The two storage interfaces that the repositories of the program provide: a keyed store that
  is append only (saving a value under a new key adds it, saving it again changes nothing,
  saving a different value under the same key is an error), and an event log whose sequence
  numbers are contiguous. Each is a locale with the laws its clients rely on and the
  consequences proved from them; the repositories interpret them. \<open>put_once\<close> and \<open>append_next\<close>
  are the dictionary idioms with which the in-memory repositories implement the two.
\<close>

lemma map_sum_Inr: "map_sum g f x = Inr y \<longleftrightarrow> (\<exists>d. x = Inr d \<and> y = f d)"
  by (cases x) auto

lemma map_sum_Inl: "map_sum g f x = Inl y \<longleftrightarrow> (\<exists>e. x = Inl e \<and> y = g e)"
  by (cases x) auto

section \<open>Append-only keyed stores\<close>

locale append_only_store =
  fixes get :: "'s \<Rightarrow> 'k \<Rightarrow> 'v option"
    and key :: "'v \<Rightarrow> 'k"
    and save :: "'v \<Rightarrow> 's \<Rightarrow> pyerr + 's"
  assumes save_new: "get s (key v) = None \<Longrightarrow>
      \<exists>t. save v s = Inr t \<and> (\<forall>k. get t k = (if k = key v then Some v else get s k))"
    and save_same: "get s (key v) = Some v \<Longrightarrow> save v s = Inr s"
    and save_conflict: "get s (key v) = Some w \<Longrightarrow> w \<noteq> v \<Longrightarrow> \<exists>m. save v s = Inl (RuntimeError m)"
begin

lemma save_cases:
  obtains (new) t where "get s (key v) = None" "save v s = Inr t"
      "\<And>k. get t k = (if k = key v then Some v else get s k)"
  | (same) "get s (key v) = Some v" "save v s = Inr s"
  | (conflict) w m where "get s (key v) = Some w" "w \<noteq> v" "save v s = Inl (RuntimeError m)"
proof (cases "get s (key v)")
  case None
  then show ?thesis using save_new [OF None] new by blast
next
  case (Some w)
  then show ?thesis using save_same save_conflict [OF Some] same conflict by (cases "w = v") blast+
qed

lemma saved: "save v s = Inr t \<Longrightarrow> get t (key v) = Some v"
  by (rule save_cases [of s v]) auto

lemma saved_others: "save v s = Inr t \<Longrightarrow> k \<noteq> key v \<Longrightarrow> get t k = get s k"
  by (rule save_cases [of s v]) auto

text \<open>A stored value is never replaced.\<close>

lemma save_keeps: "save v s = Inr t \<Longrightarrow> get s k = Some w \<Longrightarrow> get t k = Some w"
  by (rule save_cases [of s v]) auto

lemma save_idempotent: "save v s = Inr t \<Longrightarrow> save v t = Inr t"
  by (rule save_same) (rule saved)

lemma save_succeeds_iff: "(\<exists>t. save v s = Inr t) \<longleftrightarrow> get s (key v) \<in> {None, Some v}"
  by (rule save_cases [of s v]) auto

lemma save_error: "save v s = Inl e \<Longrightarrow> \<exists>w. get s (key v) = Some w \<and> w \<noteq> v"
  by (rule save_cases [of s v]) auto

end

text \<open>
  \<open>existing = d.get(k); if existing is not None and existing != v: raise; d.setdefault(k, v)\<close>
\<close>

definition put_once :: "string \<Rightarrow> 'k \<Rightarrow> 'v \<Rightarrow> ('k, 'v) dict \<Rightarrow> pyerr + ('k, 'v) dict" where
  "put_once msg k v d =
     (case map_of d k of
        None \<Rightarrow> Inr (setdefault k v d)
      | Some w \<Rightarrow> if w \<noteq> v then Inl (RuntimeError msg) else Inr (setdefault k v d))"

lemma put_once_new:
  "map_of d k = None \<Longrightarrow> \<exists>e. put_once msg k v d = Inr e \<and> map_of e = (map_of d)(k := Some v)"
  by (simp add: put_once_def)

lemma put_once_same: "map_of d k = Some v \<Longrightarrow> put_once msg k v d = Inr d"
  by (simp add: put_once_def setdefault_present)

lemma put_once_conflict: "map_of d k = Some w \<Longrightarrow> w \<noteq> v \<Longrightarrow> put_once msg k v d = Inl (RuntimeError msg)"
  by (simp add: put_once_def)

lemmas put_once_cases = put_once_new put_once_same put_once_conflict

section \<open>Stores that keep the first value\<close>

text \<open>
  A keyed store that keeps the first value of a key and silently ignores every later one:
  \<open>d.setdefault(k, v)\<close> without a comparison.
\<close>

locale first_write_store =
  fixes get :: "'s \<Rightarrow> 'k \<Rightarrow> 'v option"
    and key :: "'v \<Rightarrow> 'k"
    and save :: "'v \<Rightarrow> 's \<Rightarrow> 's"
  assumes get_save: "get (save v s) k = (if k = key v \<and> get s k = None then Some v else get s k)"
begin

lemma first_write_keeps: "get s k = Some w \<Longrightarrow> get (save v s) k = Some w"
  by (simp add: get_save)

text \<open>Of any sequence of saves the store keeps what it had, and else the first value of the key.\<close>

lemma get_saves:
  "get (fold save vs s) k = (case get s k of Some w \<Rightarrow> Some w | None \<Rightarrow> List.find (\<lambda>v. key v = k) vs)"
  by (induction vs arbitrary: s) (auto simp: get_save split: option.splits)

end

section \<open>Contiguous event logs\<close>

text \<open>The elements carry the numbers 1, 2, 3, and so on.\<close>

definition numbered :: "('e \<Rightarrow> int) \<Rightarrow> 'e list \<Rightarrow> bool" where
  "numbered seq xs \<longleftrightarrow> (\<forall>i < length xs. seq (xs ! i) = int i + 1)"

lemma numbered_Nil [simp]: "numbered seq []"
  by (simp add: numbered_def)

lemma numbered_snoc [simp]:
  "numbered seq (xs @ [e]) \<longleftrightarrow> numbered seq xs \<and> seq e = int (length xs) + 1"
  by (auto simp: numbered_def nth_append less_Suc_eq)

lemma numbered_last: "numbered seq xs \<Longrightarrow> xs \<noteq> [] \<Longrightarrow> seq (last xs) = int (length xs)"
  by (cases xs rule: rev_cases) auto

locale contiguous_log =
  fixes events :: "'s \<Rightarrow> 'k \<Rightarrow> 'e list"
    and stream :: "'e \<Rightarrow> 'k"
    and seq :: "'e \<Rightarrow> int"
    and next_seq :: "'s \<Rightarrow> 'k \<Rightarrow> int"
    and append :: "'e \<Rightarrow> 's \<Rightarrow> pyerr + 's"
  assumes next_seq: "next_seq s k = int (length (events s k)) + 1"
    and append_Inr: "append e s = Inr t \<Longrightarrow>
      (\<forall>k. events t k = (if k = stream e then events s k @ [e] else events s k)) \<and>
      seq e = (if events s (stream e) = [] then 1 else seq (last (events s (stream e))) + 1)"
    and append_next: "numbered seq (events s (stream e)) \<Longrightarrow> seq e = next_seq s (stream e) \<Longrightarrow>
      \<exists>t. append e s = Inr t"
begin

definition contiguous :: "'s \<Rightarrow> bool" where
  "contiguous s \<longleftrightarrow> (\<forall>k. numbered seq (events s k))"

lemma append_contiguous:
  assumes "contiguous s" and "append e s = Inr t"
  shows "contiguous t"
proof -
  note a = append_Inr [OF assms(2)]
  have n: "numbered seq (events s (stream e))" using assms(1) by (simp add: contiguous_def)
  then have "seq e = int (length (events s (stream e))) + 1"
    using a numbered_last [OF n] by (cases "events s (stream e) = []") auto
  then show ?thesis using a assms(1) by (simp add: contiguous_def)
qed

lemma append_next_succeeds: "contiguous s \<Longrightarrow> seq e = next_seq s (stream e) \<Longrightarrow> \<exists>t. append e s = Inr t"
  by (rule append_next) (simp_all add: contiguous_def)

lemma append_prefix: "append e s = Inr t \<Longrightarrow> prefix (events s k) (events t k)"
  using append_Inr [of e s t] by simp

end

text \<open>
  \<open>items = d.setdefault(k, [])\<close>, the two tests on the sequence number, and \<open>items.append(e)\<close>.
\<close>

definition append_next ::
    "string \<Rightarrow> string \<Rightarrow> ('e \<Rightarrow> int) \<Rightarrow> 'k \<Rightarrow> 'e \<Rightarrow> ('k, 'e list) dict \<Rightarrow> pyerr + ('k, 'e list) dict" where
  "append_next gap_msg first_msg seq k e d =
     (let items = (case map_of d k of None \<Rightarrow> [] | Some xs \<Rightarrow> xs) in
      if items \<noteq> [] \<and> seq e \<noteq> seq (last items) + 1 then Inl (RuntimeError gap_msg)
      else if items = [] \<and> seq e \<noteq> 1 then Inl (RuntimeError first_msg)
      else Inr (AList.update k (items @ [e]) d))"

definition log_items :: "('k, 'e list) dict \<Rightarrow> 'k \<Rightarrow> 'e list" where
  "log_items d k = (case map_of d k of None \<Rightarrow> [] | Some xs \<Rightarrow> xs)"

lemma append_next_Inr:
  assumes "append_next m1 m2 seq k e d = Inr d'"
  shows "log_items d' k' = (if k' = k then log_items d k @ [e] else log_items d k')"
    and "seq e = (if log_items d k = [] then 1 else seq (last (log_items d k)) + 1)"
  using assms by (auto simp: append_next_def log_items_def Let_def update_conv' split: if_splits option.splits)

lemma append_next_items:
  assumes "numbered seq (log_items d k)" and "seq e = int (length (log_items d k)) + 1"
  shows "append_next m1 m2 seq k e d = Inr (AList.update k (log_items d k @ [e]) d)"
proof -
  have items: "(case map_of d k of None \<Rightarrow> [] | Some xs \<Rightarrow> xs) = log_items d k"
    by (simp add: log_items_def)
  show ?thesis
    unfolding append_next_def Let_def items using numbered_last [OF assms(1)] assms(2) by (cases "log_items d k = []") simp_all
qed

end
