(* ===== verification/Risk_Store.thy ===== *)
theory Risk_Store
  imports Store Risk_Properties "HOL-Library.Product_Lexorder"
begin

text \<open>
  The append-only risk repository (\<open>daybreak_risk/persistence.py\<close>, class
  \<open>MemoryRiskRepository\<close>), the service that sizes a request and persists it with its decision
  and reservation (\<open>service.py\<close>), and the replay check (\<open>replay.py\<close>).
\<close>

section \<open>daybreak\_risk/persistence.py\<close>

record memory_risk_repository =
  rs_requests :: "(string, sizing_request) dict"
  rs_decisions :: "(string, risk_decision) dict"
  rs_reservations :: "(string, risk_reservation) dict"

definition empty_risk_repository :: memory_risk_repository where
  "empty_risk_repository = \<lparr>rs_requests = [], rs_decisions = [], rs_reservations = []\<rparr>"

definition save_sizing_request ::
    "sizing_request \<Rightarrow> memory_risk_repository \<Rightarrow> pyerr + memory_risk_repository" where
  "save_sizing_request request s =
     map_sum id (\<lambda>d. s\<lparr>rs_requests := d\<rparr>)
       (put_once ''risk sizing request identity collision'' (sr_request_id request) request
         (rs_requests s))"

definition save_decision ::
    "risk_decision \<Rightarrow> memory_risk_repository \<Rightarrow> pyerr + memory_risk_repository" where
  "save_decision decision s =
     map_sum id (\<lambda>d. s\<lparr>rs_decisions := d\<rparr>)
       (put_once ''risk decision identity collision'' (rd_decision_id decision) decision
         (rs_decisions s))"

definition add_reservation ::
    "risk_reservation \<Rightarrow> memory_risk_repository \<Rightarrow> pyerr + memory_risk_repository" where
  "add_reservation reservation s =
     (let existing = map_of (rs_reservations s) (rr_reservation_id reservation) in
      if existing \<noteq> None \<and> existing \<noteq> Some reservation
      then Inl (RuntimeError ''risk reservation identity collision'')
      else if list_ex (\<lambda>item. rr_client_order_id item = rr_client_order_id reservation \<and>
          rr_reservation_id item \<noteq> rr_reservation_id reservation) (dict_values (rs_reservations s))
      then Inl (RuntimeError ''duplicate client_order_id reservation'')
      else Inr (s\<lparr>rs_reservations :=
        AList.update (rr_reservation_id reservation) reservation (rs_reservations s)\<rparr>))"

definition reserve :: "risk_decision \<Rightarrow> (memory_risk_repository, pyerr, unit) eff" where
  "reserve decision =
     andthen (update_or_raise (save_decision decision)) (\<lambda>_.
       case rd_reservation decision of
         None \<Rightarrow> ret ()
       | Some reservation \<Rightarrow> update_or_raise (add_reservation reservation))"

definition list_decisions :: "date \<Rightarrow> memory_risk_repository \<Rightarrow> risk_decision list" where
  "list_decisions trading_date s =
     sort_key (\<lambda>item. (rd_ticker item, rd_decision_id item))
       (filter (\<lambda>item. rd_trading_date item = trading_date) (dict_values (rs_decisions s)))"

definition list_reservations :: "date \<Rightarrow> memory_risk_repository \<Rightarrow> risk_reservation list" where
  "list_reservations trading_date s =
     sort_key (\<lambda>item. (rr_ticker item, rr_reservation_id item))
       (filter (\<lambda>item. rr_trading_date item = trading_date) (dict_values (rs_reservations s)))"

section \<open>daybreak\_risk/service.py and replay.py\<close>

definition persist_decision :: "risk_decision \<Rightarrow> (memory_risk_repository, pyerr, unit) eff" where
  "persist_decision decision =
     (if rd_reservation decision \<noteq> None then reserve decision
      else update_or_raise (save_decision decision))"

definition evaluate ::
    "(sizing_request \<Rightarrow> json) \<Rightarrow> (risk_decision \<Rightarrow> json) \<Rightarrow> sizing_request \<Rightarrow>
     (memory_risk_repository, pyerr, risk_decision) eff" where
  "evaluate dump dumpd request =
     andthen (update_or_raise (save_sizing_request request)) (\<lambda>_.
     andthen (from_result (size_position dump dumpd request)) (\<lambda>decision.
     andthen (persist_decision decision) (\<lambda>_.
     ret decision)))"

text \<open>The loop over \<open>zip(batch.requests, result.decisions, strict=True)\<close>.\<close>

fun persist_all ::
    "sizing_request list \<Rightarrow> risk_decision list \<Rightarrow> (memory_risk_repository, pyerr, unit) eff" where
  "persist_all [] [] = ret ()"
| "persist_all (request # requests) (decision # decisions) =
     andthen (update_or_raise (save_sizing_request request)) (\<lambda>_.
     andthen (persist_decision decision) (\<lambda>_.
     persist_all requests decisions))"
| "persist_all _ _ = raise (ValueError ''zip() arguments differ in length'')"

definition evaluate_batch ::
    "(sizing_request \<Rightarrow> json) \<Rightarrow> (risk_decision \<Rightarrow> json) \<Rightarrow> sizing_request list \<Rightarrow>
     (memory_risk_repository, pyerr, batch_sizing_result) eff" where
  "evaluate_batch dump dumpd requests =
     andthen (from_result (size_approved_batch dump dumpd requests)) (\<lambda>result.
     andthen (persist_all requests (bs_decisions result)) (\<lambda>_.
     ret result))"

definition verify_risk_replay ::
    "(sizing_request \<Rightarrow> json) \<Rightarrow> (risk_decision \<Rightarrow> json) \<Rightarrow> sizing_request \<Rightarrow>
     risk_decision \<Rightarrow> unit result" where
  "verify_risk_replay dump dumpd request stored =
     rbind (size_position dump dumpd request) (\<lambda>replayed.
       if canonical_json_text (dumpd replayed) \<noteq> canonical_json_text (dumpd stored)
       then Inl (RuntimeError ''risk replay mismatch'') else Inr ())"

section \<open>The repository is append only\<close>

definition stored_request :: "memory_risk_repository \<Rightarrow> string \<Rightarrow> sizing_request option" where
  "stored_request s = map_of (rs_requests s)"

definition stored_decision :: "memory_risk_repository \<Rightarrow> string \<Rightarrow> risk_decision option" where
  "stored_decision s = map_of (rs_decisions s)"

definition stored_reservation :: "memory_risk_repository \<Rightarrow> string \<Rightarrow> risk_reservation option" where
  "stored_reservation s = map_of (rs_reservations s)"

lemmas stored_defs = stored_request_def stored_decision_def stored_reservation_def

interpretation risk_requests: append_only_store stored_request sr_request_id save_sizing_request
  by unfold_locales
    (auto simp: stored_defs save_sizing_request_def put_once_def setdefault_present)

interpretation risk_decisions: append_only_store stored_decision rd_decision_id save_decision
  by unfold_locales
    (auto simp: stored_defs save_decision_def put_once_def setdefault_present)

lemma save_frames:
  "save_sizing_request r s = Inr t \<Longrightarrow> rs_decisions t = rs_decisions s \<and> rs_reservations t = rs_reservations s"
  "save_decision d s = Inr t \<Longrightarrow> rs_requests t = rs_requests s \<and> rs_reservations t = rs_reservations s"
  "add_reservation x s = Inr t \<Longrightarrow> rs_requests t = rs_requests s \<and> rs_decisions t = rs_decisions s"
  by (auto simp: save_sizing_request_def save_decision_def add_reservation_def put_once_def Let_def
      split: option.splits if_splits)

lemma add_reservation_Inr:
  assumes "add_reservation x s = Inr t"
  shows "stored_reservation t = (stored_reservation s)(rr_reservation_id x \<mapsto> x)"
    "stored_reservation s (rr_reservation_id x) \<in> {None, Some x}"
    "y \<in> set (dict_values (rs_reservations s)) \<Longrightarrow> rr_client_order_id y = rr_client_order_id x \<Longrightarrow>
      rr_reservation_id y = rr_reservation_id x"
  using assms by (auto simp: add_reservation_def stored_defs Let_def update_conv' list_ex_iff split: if_splits)

lemma in_values_update: "v \<in> set (dict_values (AList.update k w d)) \<Longrightarrow> v = w \<or> v \<in> set (dict_values d)"
  by (induction d) (auto simp: dict_values_def split: if_splits)

lemma add_reservation_again:
  assumes "add_reservation x s = Inr t"
  shows "add_reservation x t = Inr t"
proof -
  have t: "t = s\<lparr>rs_reservations := AList.update (rr_reservation_id x) x (rs_reservations s)\<rparr>"
    and u: "\<And>y. y \<in> set (dict_values (rs_reservations s)) \<Longrightarrow>
      rr_client_order_id y = rr_client_order_id x \<Longrightarrow> rr_reservation_id y = rr_reservation_id x"
    using assms by (auto simp: add_reservation_def Let_def list_ex_iff split: if_splits)
  have "map_of (rs_reservations t) (rr_reservation_id x) = Some x"
    by (simp add: t update_conv')
  then show ?thesis
    by (auto simp: add_reservation_def t Let_def list_ex_iff dest!: in_values_update u)
qed

section \<open>Invariant of the repository\<close>

text \<open>
  Every value is stored under its own identifier, every reservation is the reservation of a
  stored decision, and no two reservations share a client order identifier.
\<close>

definition risk_wf :: "memory_risk_repository \<Rightarrow> bool" where
  "risk_wf s \<longleftrightarrow>
     distinct (map fst (rs_decisions s)) \<and> distinct (map fst (rs_reservations s)) \<and>
     (\<forall>k r. stored_request s k = Some r \<longrightarrow> sr_request_id r = k) \<and>
     (\<forall>k d. stored_decision s k = Some d \<longrightarrow> rd_decision_id d = k) \<and>
     (\<forall>k x. stored_reservation s k = Some x \<longrightarrow> rr_reservation_id x = k \<and>
       (\<exists>d. stored_decision s (rd_decision_id d) = Some d \<and> rd_reservation d = Some x)) \<and>
     (\<forall>k k' x y. stored_reservation s k = Some x \<longrightarrow> stored_reservation s k' = Some y \<longrightarrow>
       rr_client_order_id x = rr_client_order_id y \<longrightarrow> k = k')"

definition risk_step :: "memory_risk_repository \<Rightarrow> memory_risk_repository \<Rightarrow> bool" where
  "risk_step s t \<longleftrightarrow>
     (risk_wf s \<longrightarrow> risk_wf t) \<and> stored_request s \<subseteq>\<^sub>m stored_request t \<and>
     stored_decision s \<subseteq>\<^sub>m stored_decision t \<and> stored_reservation s \<subseteq>\<^sub>m stored_reservation t"

interpretation risk_step: step_relation risk_step
  by unfold_locales (auto simp: risk_step_def intro: map_le_trans)

lemma save_sizing_request_step: "save_sizing_request r s = Inr t \<Longrightarrow> risk_step s t"
  using risk_requests.saved [of r s t] risk_requests.saved_others [of r s t]
    risk_requests.save_keeps [of r s t] save_frames(1) [of r s t]
  unfolding risk_step_def risk_wf_def stored_decision_def stored_reservation_def
  by (auto simp: map_le_def dom_def) (metis option.inject)+

lemma save_decision_distinct:
  "save_decision d s = Inr t \<Longrightarrow> distinct (map fst (rs_decisions s)) \<Longrightarrow> distinct (map fst (rs_decisions t))"
  by (auto simp: save_decision_def put_once_def distinct_keys_setdefault split: option.splits if_splits)

lemma save_decision_step: "save_decision d s = Inr t \<Longrightarrow> risk_step s t"
  using save_decision_distinct [of d s t] risk_decisions.saved [of d s t] risk_decisions.saved_others [of d s t]
    risk_decisions.save_keeps [of d s t] save_frames(2) [of d s t]
  unfolding risk_step_def risk_wf_def stored_request_def stored_reservation_def
  by (auto simp: map_le_def dom_def) (metis option.inject)+

lemma add_reservation_step:
  assumes "add_reservation x s = Inr t" and "stored_decision s (rd_decision_id d) = Some d"
    and "rd_reservation d = Some x"
  shows "risk_step s t"
proof -
  note a = add_reservation_Inr [OF assms(1)]
  have f: "rs_requests t = rs_requests s" "rs_decisions t = rs_decisions s"
    using save_frames(3) [OF assms(1)] by simp_all
  have own: "stored_reservation s k = Some y \<Longrightarrow> rr_client_order_id y = rr_client_order_id x \<Longrightarrow>
      rr_reservation_id y = rr_reservation_id x" for k y
    using a(3) map_of_in_values unfolding stored_reservation_def by metis
  have dist: "distinct (map fst (rs_reservations s)) \<Longrightarrow> distinct (map fst (rs_reservations t))"
    using assms(1) by (auto simp: add_reservation_def Let_def distinct_update split: if_splits)
  have same: "stored_request t = stored_request s" "stored_decision t = stored_decision s"
    by (simp_all add: stored_defs f)
  have "risk_wf t" if w: "risk_wf s"
    unfolding risk_wf_def same a(1) f
    using w assms(2,3) own dist unfolding risk_wf_def by (auto split: if_splits)
  moreover have "stored_reservation s \<subseteq>\<^sub>m stored_reservation t"
    using a(2) by (auto simp: a(1) map_le_def)
  ultimately show ?thesis by (simp add: risk_step_def same)
qed

lemma reserve_step: "steps risk_step (reserve d)"
proof (rule steps_wp)
  fix s
  show "wp (reserve d) (\<lambda>x. risk_step s) (\<lambda>e. risk_step s) s"
    using save_decision_step [of d s] risk_decisions.saved [of d s]
    by (auto simp: reserve_def risk_step.refl split: sum.splits option.splits
        intro: risk_step.trans [OF _ add_reservation_step])
qed

lemma persist_decision_step: "steps risk_step (persist_decision d)"
  unfolding persist_decision_def
  by (auto intro!: reserve_step risk_step.steps_update save_decision_step)

lemmas save_request_steps = risk_step.steps_update [OF save_sizing_request_step]

lemma evaluate_step: "steps risk_step (evaluate dump dumpd r)"
  unfolding evaluate_def
  by (intro risk_step.steps_rules save_request_steps persist_decision_step)

lemma persist_all_step: "steps risk_step (persist_all rs ds)"
  by (induction rs ds rule: persist_all.induct)
    (auto intro!: risk_step.steps_rules save_request_steps persist_decision_step)

lemma evaluate_batch_step: "steps risk_step (evaluate_batch dump dumpd rs)"
  unfolding evaluate_batch_def by (intro risk_step.steps_rules persist_all_step)

section \<open>Histories of a service\<close>

text \<open>The repository after any sequence of calls, whether they returned or raised.\<close>

inductive risk_history ::
    "(sizing_request \<Rightarrow> json) \<Rightarrow> (risk_decision \<Rightarrow> json) \<Rightarrow> memory_risk_repository \<Rightarrow> bool"
    for dump dumpd where
  started: "risk_history dump dumpd empty_risk_repository"
| evaluated: "risk_history dump dumpd s \<Longrightarrow> evaluate dump dumpd r s = (res, t) \<Longrightarrow> risk_history dump dumpd t"
| batched: "risk_history dump dumpd s \<Longrightarrow> evaluate_batch dump dumpd rs s = (bres, t) \<Longrightarrow>
    risk_history dump dumpd t"

lemma risk_wf_empty: "risk_wf empty_risk_repository"
  by (simp add: risk_wf_def empty_risk_repository_def stored_defs)

lemma risk_history_wf: "risk_history dump dumpd s \<Longrightarrow> risk_wf s"
proof (induction rule: risk_history.induct)
  case started
  show ?case by (rule risk_wf_empty)
next
  case (evaluated s r res t)
  then show ?case using stepsD [OF evaluate_step] by (simp add: risk_step_def)
next
  case (batched s rs bres t)
  then show ?case using stepsD [OF evaluate_batch_step] by (simp add: risk_step_def)
qed

text \<open>
  Over any history of evaluations, of single requests and of batches, returning or
  raising, no two different reservations in the repository carry the same client order
  identifier, and each is the reservation of a decision that the repository holds.
\<close>

theorem reservations_unique:
  assumes "risk_history dump dumpd s" and "stored_reservation s k = Some x" and "stored_reservation s k' = Some y"
  shows "(rr_client_order_id x = rr_client_order_id y \<longleftrightarrow> k = k') \<and>
    (\<exists>d. stored_decision s (rd_decision_id d) = Some d \<and> rd_reservation d = Some x)"
  using risk_history_wf [OF assms(1)] assms(2,3) unfolding risk_wf_def by fastforce

section \<open>Evaluation of one request\<close>

lemma persist_decision_Inr:
  assumes "persist_decision d s = (Inr u, t)"
  shows "stored_decision t (rd_decision_id d) = Some d"
    "rd_reservation d = Some x \<Longrightarrow> stored_reservation t (rr_reservation_id x) = Some x"
    "stored_request t = stored_request s"
    "persist_decision d t = (Inr (), t)"
proof -
  obtain s' where s': "save_decision d s = Inr s'"
    using assms by (auto simp: persist_decision_def reserve_def effect_defs split: sum.splits if_splits)
  note sv = risk_decisions.saved [OF s'] and fr = save_frames(2) [OF s']
  have t: "case rd_reservation d of None \<Rightarrow> t = s' | Some x \<Rightarrow> add_reservation x s' = Inr t"
    using assms s'
    by (auto simp: persist_decision_def reserve_def effect_defs split: sum.splits if_splits option.splits)
  have f: "rs_requests t = rs_requests s' \<and> rs_decisions t = rs_decisions s'"
    using t save_frames(3) by (auto split: option.splits)
  then show d: "stored_decision t (rd_decision_id d) = Some d" using sv by (simp add: stored_defs)
  show "rd_reservation d = Some x \<Longrightarrow> stored_reservation t (rr_reservation_id x) = Some x"
    using t add_reservation_Inr(1) by fastforce
  show "stored_request t = stored_request s" using f fr by (simp add: stored_defs)
  have "save_decision d t = Inr t" by (rule risk_decisions.save_same [OF d])
  then show "persist_decision d t = (Inr (), t)"
    using t add_reservation_again by (auto simp: persist_decision_def reserve_def effect_defs split: option.splits)
qed

lemma evaluate_Inr:
  assumes "evaluate dump dumpd r s = (Inr d, t)"
  obtains s' where "save_sizing_request r s = Inr s'" "size_position dump dumpd r = Inr d"
    "persist_decision d s' = (Inr (), t)"
  using assms by (auto simp: evaluate_def effect_defs split: sum.splits prod.splits)

text \<open>
  When the evaluation of a request returns a decision, the repository afterwards
  holds the request, the decision and its reservation, whatever it held before is unchanged,
  and the replay of the stored request reproduces the stored decision.
\<close>

theorem evaluation_persisted:
  assumes "evaluate dump dumpd r s = (Inr d, t)"
  shows "stored_request t (sr_request_id r) = Some r \<and> stored_decision t (rd_decision_id d) = Some d \<and>
    (\<forall>x. rd_reservation d = Some x \<longrightarrow> stored_reservation t (rr_reservation_id x) = Some x) \<and>
    stored_request s \<subseteq>\<^sub>m stored_request t \<and> stored_decision s \<subseteq>\<^sub>m stored_decision t \<and>
    stored_reservation s \<subseteq>\<^sub>m stored_reservation t \<and> verify_risk_replay dump dumpd r d = Inr ()"
proof -
  obtain s' where s': "save_sizing_request r s = Inr s'" and d: "size_position dump dumpd r = Inr d"
    and p: "persist_decision d s' = (Inr (), t)" using assms by (rule evaluate_Inr)
  note pd = persist_decision_Inr [OF p]
  have "stored_request t (sr_request_id r) = Some r" using risk_requests.saved [OF s'] pd(3) by simp
  moreover have "verify_risk_replay dump dumpd r d = Inr ()" by (simp add: verify_risk_replay_def d)
  ultimately show ?thesis
    using pd(1,2) stepsD [OF evaluate_step assms] by (simp add: risk_step_def)
qed

text \<open>
  Evaluating a request again after it was evaluated, as a caller does that lost the
  answer, returns the same decision and leaves the repository exactly as it is.
\<close>

theorem evaluation_idempotent:
  assumes "evaluate dump dumpd r s = (Inr d, t)"
  shows "evaluate dump dumpd r t = (Inr d, t)"
proof -
  obtain s' where s': "save_sizing_request r s = Inr s'" and d: "size_position dump dumpd r = Inr d"
    and p: "persist_decision d s' = (Inr (), t)" using assms by (rule evaluate_Inr)
  note pd = persist_decision_Inr [OF p]
  have "save_sizing_request r t = Inr t"
    using risk_requests.saved [OF s'] pd(3) by (intro risk_requests.save_same) simp
  then show ?thesis using d pd(4) by (simp add: evaluate_def effect_defs)
qed

section \<open>Listing\<close>

lemma stored_values:
  assumes "distinct (map fst d)" and "\<And>k v. map_of d k = Some v \<Longrightarrow> key v = k"
  shows "set (dict_values d) = {v. map_of d (key v) = Some v}" "distinct (dict_values d)"
proof -
  show "set (dict_values d) = {v. map_of d (key v) = Some v}"
    using assms(2) values_in_map_of [OF assms(1)] by (fastforce intro: map_of_in_values)
  have keys: "(k, v) \<in> set d \<Longrightarrow> key v = k" for k v
    using assms by simp
  have "map key (dict_values d) = map fst d"
    using keys by (auto simp: dict_values_def)
  then show "distinct (dict_values d)" using assms(1) by (metis distinct_map)
qed

text \<open>
  The decisions listed for a trading date are exactly the stored ones of that date,
  each once, in the order of ticker and identifier.
\<close>

theorem list_decisions_exact:
  assumes "risk_history dump dumpd s"
  shows "set (list_decisions day s) =
      {d. stored_decision s (rd_decision_id d) = Some d \<and> rd_trading_date d = day} \<and>
    distinct (list_decisions day s) \<and>
    sorted (map (\<lambda>d. (rd_ticker d, rd_decision_id d)) (list_decisions day s))"
proof -
  have "distinct (map fst (rs_decisions s))"
    and "\<And>k d. map_of (rs_decisions s) k = Some d \<Longrightarrow> rd_decision_id d = k"
    using risk_history_wf [OF assms] by (auto simp: risk_wf_def stored_decision_def)
  note v = stored_values [of "rs_decisions s" rd_decision_id, OF this]
  show ?thesis
    by (auto simp: list_decisions_def stored_decision_def v)
qed

end
