(* ===== verification/Store_Witnesses.thy ===== *)
theory Store_Witnesses
  imports Risk_Witnesses Risk_Store
begin

text \<open>Witnesses of the properties of the risk repository and service, on the sample request.\<close>

definition sample_repository :: memory_risk_repository where
  "sample_repository =
     \<lparr>rs_requests = [(sr_request_id sample_request, sample_request)],
      rs_decisions = [(rd_decision_id sample_decision, sample_decision)],
      rs_reservations = [(rr_reservation_id sample_reservation, sample_reservation)]\<rparr>"

lemma sample_evaluated:
  "evaluate no_dump no_dump sample_request empty_risk_repository = (Inr sample_decision, sample_repository)"
  by (simp add: evaluate_def effect_defs save_sizing_request_def save_decision_def put_once_def setdefault_def
      empty_risk_repository_def sample_sized persist_decision_def reserve_def sample_decision_fields
      add_reservation_def dict_values_def sample_repository_def)

lemma sample_history: "risk_history no_dump no_dump sample_repository"
  by (rule risk_history.evaluated [OF risk_history.started sample_evaluated])

lemma sample_stored:
  "stored_reservation sample_repository (rr_reservation_id sample_reservation) = Some sample_reservation"
  by (simp add: sample_repository_def stored_defs)

end
