(* ===== verification/Execution_Models.thy ===== *)
theory Execution_Models
  imports Risk_Models
begin

text \<open>
  The data of order execution (\<open>daybreak_execution/enums.py\<close>, \<open>errors.py\<close>, \<open>models.py\<close>) and the
  construction of broker commands from an approved risk decision (\<open>order_builder.py\<close>). The
  serialisers that pydantic provides for hashing are the fields of one record of functions.
\<close>

section \<open>daybreak\_execution/enums.py\<close>

datatype execution_mode = MODE_PAPER

datatype order_side = BUY | SELL

datatype order_type = OT_LIMIT | OT_STOP

datatype time_in_force = TIF_DAY

datatype order_class = OC_BRACKET | OC_SIMPLE

fun order_side_value :: "order_side \<Rightarrow> string" where
  "order_side_value BUY = ''buy''"
| "order_side_value SELL = ''sell''"

fun order_type_value :: "order_type \<Rightarrow> string" where
  "order_type_value OT_LIMIT = ''limit''"
| "order_type_value OT_STOP = ''stop''"

fun time_in_force_value :: "time_in_force \<Rightarrow> string" where
  "time_in_force_value TIF_DAY = ''day''"

fun order_class_value :: "order_class \<Rightarrow> string" where
  "order_class_value OC_BRACKET = ''bracket''"
| "order_class_value OC_SIMPLE = ''simple''"

datatype broker_order_status =
    OS_ACCEPTED
  | OS_ACCEPTED_FOR_BIDDING
  | OS_PENDING_NEW
  | OS_NEW
  | OS_PARTIALLY_FILLED
  | OS_FILLED
  | OS_DONE_FOR_DAY
  | OS_CANCELED
  | OS_EXPIRED
  | OS_REPLACED
  | OS_PENDING_CANCEL
  | OS_PENDING_REPLACE
  | OS_STOPPED
  | OS_REJECTED
  | OS_SUSPENDED
  | OS_CALCULATED

fun broker_order_status_value :: "broker_order_status \<Rightarrow> string" where
  "broker_order_status_value OS_ACCEPTED = ''accepted''"
| "broker_order_status_value OS_ACCEPTED_FOR_BIDDING = ''accepted_for_bidding''"
| "broker_order_status_value OS_PENDING_NEW = ''pending_new''"
| "broker_order_status_value OS_NEW = ''new''"
| "broker_order_status_value OS_PARTIALLY_FILLED = ''partially_filled''"
| "broker_order_status_value OS_FILLED = ''filled''"
| "broker_order_status_value OS_DONE_FOR_DAY = ''done_for_day''"
| "broker_order_status_value OS_CANCELED = ''canceled''"
| "broker_order_status_value OS_EXPIRED = ''expired''"
| "broker_order_status_value OS_REPLACED = ''replaced''"
| "broker_order_status_value OS_PENDING_CANCEL = ''pending_cancel''"
| "broker_order_status_value OS_PENDING_REPLACE = ''pending_replace''"
| "broker_order_status_value OS_STOPPED = ''stopped''"
| "broker_order_status_value OS_REJECTED = ''rejected''"
| "broker_order_status_value OS_SUSPENDED = ''suspended''"
| "broker_order_status_value OS_CALCULATED = ''calculated''"

datatype execution_outcome =
    EO_SUBMITTED
  | EO_EXISTING_RECONCILED
  | EO_PARTIAL_FILL_PROTECTED
  | EO_REJECTED
  | EO_RECONCILIATION_REQUIRED

datatype execution_event_type =
    EE_REQUEST_ACCEPTED
  | EE_COMMAND_PERSISTED
  | EE_BROKER_LOOKUP
  | EE_SUBMIT_STARTED
  | EE_BROKER_ACKNOWLEDGED
  | EE_TRADE_UPDATE
  | EE_CANCEL_REQUESTED
  | EE_PROTECTIVE_STOP_SUBMIT_STARTED
  | EE_PROTECTIVE_STOP_ACKNOWLEDGED
  | EE_REJECTED
  | EE_RECONCILIATION_REQUIRED

datatype execution_rejection_code =
    PAPER_MODE_REQUIRED
  | LIVE_ENDPOINT_FORBIDDEN
  | RISK_DECISION_NOT_APPROVED
  | RESERVATION_MISSING
  | RESERVATION_EXPIRED
  | SUBMISSION_CUTOFF_EXCEEDED
  | REQUEST_STALE
  | INVALID_ORDER_GEOMETRY
  | COMMAND_IDENTITY_CONFLICT
  | BROKER_ORDER_MISMATCH
  | BROKER_REJECTED
  | BROKER_TIMEOUT_UNKNOWN_STATE
  | BROKER_TRANSPORT_FAILURE
  | PARTIAL_FILL_PROTECTION_FAILED
  | POSITION_RECONCILIATION_FAILURE

fun execution_rejection_code_value :: "execution_rejection_code \<Rightarrow> string" where
  "execution_rejection_code_value PAPER_MODE_REQUIRED = ''PAPER_MODE_REQUIRED''"
| "execution_rejection_code_value LIVE_ENDPOINT_FORBIDDEN = ''LIVE_ENDPOINT_FORBIDDEN''"
| "execution_rejection_code_value RISK_DECISION_NOT_APPROVED = ''RISK_DECISION_NOT_APPROVED''"
| "execution_rejection_code_value RESERVATION_MISSING = ''RESERVATION_MISSING''"
| "execution_rejection_code_value RESERVATION_EXPIRED = ''RESERVATION_EXPIRED''"
| "execution_rejection_code_value SUBMISSION_CUTOFF_EXCEEDED = ''SUBMISSION_CUTOFF_EXCEEDED''"
| "execution_rejection_code_value REQUEST_STALE = ''REQUEST_STALE''"
| "execution_rejection_code_value INVALID_ORDER_GEOMETRY = ''INVALID_ORDER_GEOMETRY''"
| "execution_rejection_code_value COMMAND_IDENTITY_CONFLICT = ''COMMAND_IDENTITY_CONFLICT''"
| "execution_rejection_code_value BROKER_ORDER_MISMATCH = ''BROKER_ORDER_MISMATCH''"
| "execution_rejection_code_value BROKER_REJECTED = ''BROKER_REJECTED''"
| "execution_rejection_code_value BROKER_TIMEOUT_UNKNOWN_STATE = ''BROKER_TIMEOUT_UNKNOWN_STATE''"
| "execution_rejection_code_value BROKER_TRANSPORT_FAILURE = ''BROKER_TRANSPORT_FAILURE''"
| "execution_rejection_code_value PARTIAL_FILL_PROTECTION_FAILED = ''PARTIAL_FILL_PROTECTION_FAILED''"
| "execution_rejection_code_value POSITION_RECONCILIATION_FAILURE = ''POSITION_RECONCILIATION_FAILURE''"

section \<open>daybreak\_execution/errors.py\<close>

text \<open>
  The exceptions that can leave the service: the two broker errors, the latter with its
  \<open>transient\<close> flag, and the errors of the language and of pydantic.
\<close>

datatype exec_error =
    BrokerNotFound
  | BrokerTransportError bool
  | PyError pyerr

text \<open>\<open>except ValueError\<close>: a pydantic \<open>ValidationError\<close> is a \<open>ValueError\<close>.\<close>

fun is_value_error :: "exec_error \<Rightarrow> bool" where
  "is_value_error (PyError (ValueError m)) \<longleftrightarrow> True"
| "is_value_error (PyError (ValidationError m)) \<longleftrightarrow> True"
| "is_value_error _ \<longleftrightarrow> False"

fun is_broker_error :: "exec_error \<Rightarrow> bool" where
  "is_broker_error BrokerNotFound \<longleftrightarrow> True"
| "is_broker_error (BrokerTransportError t) \<longleftrightarrow> True"
| "is_broker_error (PyError e) \<longleftrightarrow> False"

section \<open>daybreak\_execution/models.py\<close>

record execution_policy =
  xp_policy_version :: string
  xp_mode :: execution_mode
  xp_paper_base_url :: string
  xp_max_request_age_ms :: int
  xp_request_timeout_seconds :: pyfloat
  xp_cancel_unfilled_after_seconds :: int
  xp_partial_fill_protection_enabled :: bool
  xp_protective_stop_time_in_force :: time_in_force
  xp_allow_live_execution :: bool

definition valid_execution_policy :: "execution_policy \<Rightarrow> bool" where
  "valid_execution_policy p \<longleftrightarrow>
     xp_policy_version p = ''alpaca_execution_policy_v1'' \<and> xp_mode p = MODE_PAPER \<and>
     xp_paper_base_url p = ''https://paper-api.alpaca.markets'' \<and>
     0 < xp_max_request_age_ms p \<and> xp_max_request_age_ms p \<le> 30000 \<and>
     0 < xp_request_timeout_seconds p \<and> xp_request_timeout_seconds p \<le> 30 \<and>
     0 < xp_cancel_unfilled_after_seconds p \<and> xp_cancel_unfilled_after_seconds p \<le> 120 \<and>
     xp_protective_stop_time_in_force p = TIF_DAY \<and> \<not> xp_allow_live_execution p"

definition default_execution_policy :: execution_policy where
  "default_execution_policy =
     \<lparr>xp_policy_version = ''alpaca_execution_policy_v1'', xp_mode = MODE_PAPER,
      xp_paper_base_url = ''https://paper-api.alpaca.markets'', xp_max_request_age_ms = 2000,
      xp_request_timeout_seconds = 5, xp_cancel_unfilled_after_seconds = 10,
      xp_partial_fill_protection_enabled = True, xp_protective_stop_time_in_force = TIF_DAY,
      xp_allow_live_execution = False\<rparr>"

record execution_request =
  xr_execution_id :: string
  xr_run_id :: string
  xr_trading_date :: date
  xr_requested_at :: timestamp
  xr_submission_cutoff_timestamp :: timestamp
  xr_risk_decision :: risk_decision
  xr_policy :: execution_policy
  xr_configuration_hash :: string

definition matches_risk_identity :: "(risk_decision \<Rightarrow> json) \<Rightarrow> execution_request \<Rightarrow> string option" where
  "matches_risk_identity dumpd r =
     (let d = xr_risk_decision r in
      if xr_run_id r \<noteq> rd_run_id d then Some ''execution run_id must match risk decision''
      else if xr_trading_date r \<noteq> rd_trading_date d
      then Some ''execution trading_date must match risk decision''
      else if xr_configuration_hash r \<noteq> rd_configuration_hash d
      then Some ''execution configuration_hash must match risk decision''
      else if xr_submission_cutoff_timestamp r < xr_requested_at r
      then Some ''submission cutoff cannot precede requested_at''
      else if canonical_sha256 (decision_body dumpd d) \<noteq> rd_decision_hash d
      then Some ''execution request contains an invalid risk decision hash''
      else None)"

definition valid_execution_request :: "(risk_decision \<Rightarrow> json) \<Rightarrow> execution_request \<Rightarrow> bool" where
  "valid_execution_request dumpd r \<longleftrightarrow>
     8 \<le> length (xr_execution_id r) \<and> length (xr_execution_id r) \<le> 64 \<and>
     1 \<le> length (xr_run_id r) \<and> length (xr_run_id r) \<le> 128 \<and>
     valid_decision_fields (xr_risk_decision r) \<and>
     validate_terminal_shape dumpd (xr_risk_decision r) = None \<and>
     valid_execution_policy (xr_policy r) \<and> valid_hash (xr_configuration_hash r) \<and>
     matches_risk_identity dumpd r = None"

record broker_order_command =
  bc_command_id :: string
  bc_execution_id :: string
  bc_client_order_id :: string
  bc_symbol :: string
  bc_quantity :: int
  bc_side :: order_side
  bc_order_type :: order_type
  bc_time_in_force :: time_in_force
  bc_order_class :: order_class
  bc_limit_price :: "rat option"
  bc_stop_price :: "rat option"
  bc_take_profit_limit_price :: "rat option"
  bc_stop_loss_stop_price :: "rat option"
  bc_extended_hours :: bool
  bc_parent_client_order_id :: "string option"
  bc_command_hash :: string

definition positive_money_opt :: "rat option \<Rightarrow> bool" where
  "positive_money_opt x \<longleftrightarrow> (case x of None \<Rightarrow> True | Some v \<Rightarrow> 0 < v \<and> valid_money v)"

definition valid_command_fields :: "broker_order_command \<Rightarrow> bool" where
  "valid_command_fields c \<longleftrightarrow>
     8 \<le> length (bc_command_id c) \<and> length (bc_command_id c) \<le> 64 \<and>
     1 \<le> length (bc_client_order_id c) \<and> length (bc_client_order_id c) \<le> 48 \<and>
     is_canonical_ticker (bc_symbol c) \<and> 0 < bc_quantity c \<and>
     positive_money_opt (bc_limit_price c) \<and> positive_money_opt (bc_stop_price c) \<and>
     positive_money_opt (bc_take_profit_limit_price c) \<and>
     positive_money_opt (bc_stop_loss_stop_price c) \<and>
     \<not> bc_extended_hours c \<and> valid_hash (bc_command_hash c)"

definition validate_shape :: "broker_order_command \<Rightarrow> string option" where
  "validate_shape c =
     (case bc_order_class c of
        OC_BRACKET \<Rightarrow>
          if bc_side c \<noteq> BUY \<or> bc_order_type c \<noteq> OT_LIMIT
          then Some ''bracket entry must be a buy limit order''
          else (case bc_limit_price c of
            None \<Rightarrow> Some ''bracket limit entry requires limit_price''
          | Some l \<Rightarrow>
              (case (bc_take_profit_limit_price c, bc_stop_loss_stop_price c) of
                (Some t, Some s) \<Rightarrow>
                  if \<not> (s < l \<and> l < t)
                  then Some ''bracket prices must satisfy stop < entry < target'' else None
              | _ \<Rightarrow> Some ''bracket entry requires take-profit and stop-loss prices''))
      | OC_SIMPLE \<Rightarrow>
          if bc_order_type c = OT_STOP
          then (if bc_side c \<noteq> SELL \<or> bc_stop_price c = None
                then Some ''protective stop must be a sell stop with stop_price''
                else if bc_limit_price c \<noteq> None then Some ''stop order cannot contain limit_price''
                else None)
          else Some ''v1 simple commands support protective stop orders only'')"

record broker_order_leg =
  bl_broker_order_id :: string
  bl_client_order_id :: "string option"
  bl_side :: string
  bl_order_type :: string
  bl_status :: string
  bl_quantity :: rat
  bl_filled_quantity :: rat
  bl_limit_price :: "rat option"
  bl_stop_price :: "rat option"

record broker_order_snapshot =
  bo_snapshot_id :: string
  bo_broker_order_id :: string
  bo_client_order_id :: string
  bo_symbol :: string
  bo_side :: order_side
  bo_order_type :: order_type
  bo_time_in_force :: string
  bo_order_class :: string
  bo_status :: broker_order_status
  bo_quantity :: rat
  bo_filled_quantity :: rat
  bo_filled_avg_price :: "rat option"
  bo_limit_price :: "rat option"
  bo_stop_price :: "rat option"
  bo_submitted_at :: "timestamp option"
  bo_updated_at :: timestamp
  bo_legs :: "broker_order_leg list"
  bo_raw_response_hash :: string
  bo_raw_response :: json

definition valid_snapshot :: "broker_order_snapshot \<Rightarrow> bool" where
  "valid_snapshot x \<longleftrightarrow>
     8 \<le> length (bo_snapshot_id x) \<and> length (bo_snapshot_id x) \<le> 64 \<and>
     is_canonical_ticker (bo_symbol x) \<and> 0 < bo_quantity x \<and> 0 \<le> bo_filled_quantity x \<and>
     valid_money_opt (bo_filled_avg_price x) \<and> valid_money_opt (bo_limit_price x) \<and>
     valid_money_opt (bo_stop_price x) \<and>
     list_all (\<lambda>l. valid_money_opt (bl_limit_price l) \<and> valid_money_opt (bl_stop_price l))
       (bo_legs x) \<and>
     valid_hash (bo_raw_response_hash x) \<and> bo_filled_quantity x \<le> bo_quantity x"

record broker_position_snapshot =
  ps_symbol :: string
  ps_quantity :: rat
  ps_average_entry_price :: "rat option"
  ps_observed_at :: timestamp
  ps_raw_response_hash :: string

record execution_event =
  ev_execution_id :: string
  ev_event_sequence :: int
  ev_event_type :: execution_event_type
  ev_event_timestamp :: timestamp
  ev_broker_order_id :: "string option"
  ev_client_order_id :: "string option"
  ev_status :: "string option"
  ev_filled_quantity :: "rat option"
  ev_details :: "(string \<times> string) list"
  ev_event_hash :: string

definition valid_event :: "execution_event \<Rightarrow> bool" where
  "valid_event e \<longleftrightarrow>
     1 \<le> ev_event_sequence e \<and>
     (case ev_filled_quantity e of None \<Rightarrow> True | Some q \<Rightarrow> 0 \<le> q) \<and> valid_hash (ev_event_hash e)"

record trade_update =
  tu_event_id :: string
  tu_event :: string
  tu_event_timestamp :: timestamp
  tu_order :: broker_order_snapshot
  tu_raw_event_hash :: string

definition valid_trade_update :: "trade_update \<Rightarrow> bool" where
  "valid_trade_update u \<longleftrightarrow>
     1 \<le> length (tu_event_id u) \<and> length (tu_event_id u) \<le> 128 \<and> valid_snapshot (tu_order u) \<and>
     valid_hash (tu_raw_event_hash u)"

record reconciliation_report =
  rc_report_id :: string
  rc_execution_id :: string
  rc_client_order_id :: string
  rc_checked_at :: timestamp
  rc_matched :: bool
  rc_mismatch_codes :: "string list"
  rc_broker_order :: "broker_order_snapshot option"
  rc_broker_position :: "broker_position_snapshot option"
  rc_report_hash :: string

record execution_result =
  er_result_id :: string
  er_execution_id :: string
  er_outcome :: execution_outcome
  er_rejection_reasons :: "execution_rejection_code list"
  er_command :: "broker_order_command option"
  er_broker_order :: "broker_order_snapshot option"
  er_protective_order :: "broker_order_snapshot option"
  er_reconciliation_required :: bool
  er_events :: "execution_event list"
  er_completed_at :: timestamp
  er_request_hash :: string
  er_result_hash :: string

definition terminal_shape :: "execution_result \<Rightarrow> string option" where
  "terminal_shape r =
     (if er_outcome r \<in> {EO_SUBMITTED, EO_EXISTING_RECONCILED, EO_PARTIAL_FILL_PROTECTED} \<and>
         (er_command r = None \<or> er_broker_order r = None)
      then Some ''successful execution result requires command and broker order''
      else if er_outcome r = EO_REJECTED \<and> er_rejection_reasons r = []
      then Some ''rejected result requires rejection reasons''
      else if er_outcome r = EO_RECONCILIATION_REQUIRED \<and> \<not> er_reconciliation_required r
      then Some ''reconciliation-required outcome must set the flag''
      else None)"

text \<open>
  The JSON documents of the values that are hashed. A value is dumped with its own hash and
  identifier fields blank, since the code hashes the payload before it adds them.
\<close>

record exec_dumps =
  xd_command :: "broker_order_command \<Rightarrow> json"
  xd_request :: "execution_request \<Rightarrow> json"
  xd_event :: "execution_event \<Rightarrow> json"
  xd_result :: "execution_result \<Rightarrow> json"
  xd_report :: "reconciliation_report \<Rightarrow> json"

section \<open>daybreak\_execution/order\_builder.py\<close>

definition command_id :: "string \<Rightarrow> string \<Rightarrow> string" where
  "command_id execution_id client_order_id =
     uuid5_hex (''daybreak-command:'' @ execution_id @ '':'' @ client_order_id)"

definition with_hash ::
    "exec_dumps \<Rightarrow> broker_order_command \<Rightarrow> pyerr + broker_order_command" where
  "with_hash dumps payload =
     (let unhashed = payload\<lparr>bc_command_hash := []\<rparr>;
          c = payload\<lparr>bc_command_hash := canonical_sha256 (xd_command dumps unhashed)\<rparr>
      in if \<not> valid_command_fields c then Inl (ValidationError ''BrokerOrderCommand'')
         else case validate_shape c of
                Some e \<Rightarrow> Inl (ValidationError e)
              | None \<Rightarrow> Inr c)"

definition build_entry_command ::
    "exec_dumps \<Rightarrow> execution_request \<Rightarrow> timestamp \<Rightarrow> pyerr + broker_order_command" where
  "build_entry_command dumps request now =
     (let decision = xr_risk_decision request in
      if rd_decision decision \<noteq> RD_APPROVED then Inl (ValueError ''risk decision is not approved'')
      else case rd_reservation decision of
        None \<Rightarrow> Inl (ValueError ''approved risk decision has no reservation'')
      | Some reservation \<Rightarrow>
          if rr_status reservation \<noteq> RES_RESERVED
          then Inl (ValueError ''risk reservation is not in reserved status'')
          else if now > xr_submission_cutoff_timestamp request
          then Inl (ValueError ''submission cutoff exceeded'')
          else if now \<ge> rr_expires_at reservation
          then Inl (ValueError ''risk reservation expired'')
          else if rd_final_quantity decision \<noteq> rr_reserved_quantity reservation
          then Inl (ValueError ''risk quantity and reservation quantity differ'')
          else if rd_planned_entry_limit decision = None \<or> rd_stop_price decision = None \<or>
            rd_target_price decision = None
          then Inl (ValueError ''risk decision is missing executable prices'')
          else with_hash dumps
            \<lparr>bc_command_id = command_id (xr_execution_id request) (rr_client_order_id reservation),
             bc_execution_id = xr_execution_id request,
             bc_client_order_id = rr_client_order_id reservation,
             bc_symbol = rd_ticker decision,
             bc_quantity = rd_final_quantity decision,
             bc_side = BUY,
             bc_order_type = OT_LIMIT,
             bc_time_in_force = TIF_DAY,
             bc_order_class = OC_BRACKET,
             bc_limit_price = rd_planned_entry_limit decision,
             bc_stop_price = None,
             bc_take_profit_limit_price = rd_target_price decision,
             bc_stop_loss_stop_price = rd_stop_price decision,
             bc_extended_hours = False,
             bc_parent_client_order_id = None,
             bc_command_hash = replicate 64 (CHR ''0'')\<rparr>)"

definition protective_client_order_id :: "string \<Rightarrow> string" where
  "protective_client_order_id parent = take (48 - 2) parent @ ''-P''"

definition build_partial_fill_protective_stop ::
    "exec_dumps \<Rightarrow> execution_request \<Rightarrow> int \<Rightarrow> pyerr + broker_order_command" where
  "build_partial_fill_protective_stop dumps request filled_quantity =
     (let decision = xr_risk_decision request in
      if filled_quantity \<le> 0
      then Inl (ValueError ''protective stop requires positive filled quantity'')
      else case (rd_stop_price decision, rd_reservation decision) of
        (Some stop, Some reservation) \<Rightarrow>
          let client_id = protective_client_order_id (rr_client_order_id reservation)
          in with_hash dumps
            \<lparr>bc_command_id = command_id (xr_execution_id request) client_id,
             bc_execution_id = xr_execution_id request,
             bc_client_order_id = client_id,
             bc_symbol = rd_ticker decision,
             bc_quantity = filled_quantity,
             bc_side = SELL,
             bc_order_type = OT_STOP,
             bc_time_in_force = TIF_DAY,
             bc_order_class = OC_SIMPLE,
             bc_limit_price = None,
             bc_stop_price = Some stop,
             bc_take_profit_limit_price = None,
             bc_stop_loss_stop_price = None,
             bc_extended_hours = False,
             bc_parent_client_order_id = Some (rr_client_order_id reservation),
             bc_command_hash = replicate 64 (CHR ''0'')\<rparr>
      | _ \<Rightarrow> Inl (ValueError ''risk decision is missing stop or reservation''))"

section \<open>Facts about the builders\<close>

lemma with_hash_Inr:
  assumes "with_hash dumps p = Inr c"
  shows "c = p\<lparr>bc_command_hash := bc_command_hash c\<rparr>" "valid_command_fields c" "validate_shape c = None"
  using assms by (auto simp: with_hash_def Let_def split: if_splits option.splits)

lemma build_entry_Inr:
  assumes "build_entry_command dumps r now = Inr c"
  obtains reservation where "rd_reservation (xr_risk_decision r) = Some reservation"
    "rd_decision (xr_risk_decision r) = RD_APPROVED" "rr_status reservation = RES_RESERVED"
    "now \<le> xr_submission_cutoff_timestamp r" "now < rr_expires_at reservation"
    "rd_final_quantity (xr_risk_decision r) = rr_reserved_quantity reservation"
    "bc_client_order_id c = rr_client_order_id reservation"
    "bc_quantity c = rd_final_quantity (xr_risk_decision r)" "bc_symbol c = rd_ticker (xr_risk_decision r)"
    "bc_side c = BUY" "bc_order_class c = OC_BRACKET" "bc_order_type c = OT_LIMIT"
    "bc_limit_price c = rd_planned_entry_limit (xr_risk_decision r)"
    "bc_stop_loss_stop_price c = rd_stop_price (xr_risk_decision r)"
    "bc_take_profit_limit_price c = rd_target_price (xr_risk_decision r)"
    "valid_command_fields c" "validate_shape c = None"
proof -
  obtain reservation p where res: "rd_reservation (xr_risk_decision r) = Some reservation"
    and g: "rd_decision (xr_risk_decision r) = RD_APPROVED" "rr_status reservation = RES_RESERVED"
      "now \<le> xr_submission_cutoff_timestamp r" "now < rr_expires_at reservation"
      "rd_final_quantity (xr_risk_decision r) = rr_reserved_quantity reservation"
    and c: "with_hash dumps p = Inr c"
    and p: "bc_client_order_id p = rr_client_order_id reservation"
      "bc_quantity p = rd_final_quantity (xr_risk_decision r)" "bc_symbol p = rd_ticker (xr_risk_decision r)"
      "bc_side p = BUY" "bc_order_class p = OC_BRACKET" "bc_order_type p = OT_LIMIT"
      "bc_limit_price p = rd_planned_entry_limit (xr_risk_decision r)"
      "bc_stop_loss_stop_price p = rd_stop_price (xr_risk_decision r)"
      "bc_take_profit_limit_price p = rd_target_price (xr_risk_decision r)"
    using assms unfolding build_entry_command_def Let_def
    by (auto simp: not_less not_le split: if_splits option.splits)
  note w = with_hash_Inr [OF c]
  have "bc_client_order_id c = bc_client_order_id p" "bc_quantity c = bc_quantity p"
    "bc_symbol c = bc_symbol p" "bc_side c = bc_side p" "bc_order_class c = bc_order_class p"
    "bc_order_type c = bc_order_type p" "bc_limit_price c = bc_limit_price p"
    "bc_stop_loss_stop_price c = bc_stop_loss_stop_price p"
    "bc_take_profit_limit_price c = bc_take_profit_limit_price p"
    by (subst w(1), simp)+
  with res g p w(2,3) show ?thesis by (intro that) simp_all
qed

lemma build_stop_Inr:
  assumes "build_partial_fill_protective_stop dumps r q = Inr c"
  obtains reservation stop where "rd_reservation (xr_risk_decision r) = Some reservation"
    "rd_stop_price (xr_risk_decision r) = Some stop" "0 < q"
    "bc_client_order_id c = protective_client_order_id (rr_client_order_id reservation)"
    "bc_quantity c = q" "bc_symbol c = rd_ticker (xr_risk_decision r)" "bc_side c = SELL"
    "bc_order_type c = OT_STOP" "bc_order_class c = OC_SIMPLE" "bc_stop_price c = Some stop"
    "bc_limit_price c = None"
proof -
  obtain reservation stop p where res: "rd_reservation (xr_risk_decision r) = Some reservation"
    "rd_stop_price (xr_risk_decision r) = Some stop" "0 < q"
    and c: "with_hash dumps p = Inr c"
    and p: "bc_client_order_id p = protective_client_order_id (rr_client_order_id reservation)"
      "bc_quantity p = q" "bc_symbol p = rd_ticker (xr_risk_decision r)" "bc_side p = SELL"
      "bc_order_type p = OT_STOP" "bc_order_class p = OC_SIMPLE" "bc_stop_price p = Some stop"
      "bc_limit_price p = None"
    using assms unfolding build_partial_fill_protective_stop_def Let_def
    by (auto simp: not_le split: if_splits option.splits)
  note w = with_hash_Inr [OF c]
  have "bc_client_order_id c = bc_client_order_id p" "bc_quantity c = bc_quantity p"
    "bc_symbol c = bc_symbol p" "bc_side c = bc_side p" "bc_order_class c = bc_order_class p"
    "bc_order_type c = bc_order_type p" "bc_limit_price c = bc_limit_price p"
    "bc_stop_price c = bc_stop_price p"
    by (subst w(1), simp)+
  with res p show ?thesis by (intro that) simp_all
qed

end
