(* ===== verification/Execution_Store.thy ===== *)
theory Execution_Store
  imports Store Execution_Models
begin

text \<open>
  The in-memory execution repository and reservation event sink
  (\<open>daybreak_execution/persistence.py\<close>, class \<open>MemoryExecutionRepository\<close>, and
  \<open>reservations.py\<close>, class \<open>MemoryReservationEventSink\<close>), as instances of the storage
  interfaces, and the relation of growth between repositories.
\<close>

section \<open>daybreak\_execution/persistence.py\<close>

record memory_execution_repository =
  mx_requests :: "(string, execution_request) dict"
  mx_commands :: "(string, broker_order_command) dict"
  mx_snapshots :: "(string, broker_order_snapshot) dict"
  mx_events :: "(string, execution_event list) dict"
  mx_results :: "(string, execution_result) dict"
  mx_reconciliations :: "(string, reconciliation_report) dict"
  mx_trade_update_ids :: "(string, string \<times> string) dict"

definition empty_execution_repository :: memory_execution_repository where
  "empty_execution_repository =
     \<lparr>mx_requests = [], mx_commands = [], mx_snapshots = [], mx_events = [], mx_results = [],
      mx_reconciliations = [], mx_trade_update_ids = []\<rparr>"

definition save_request ::
    "execution_request \<Rightarrow> memory_execution_repository \<Rightarrow> pyerr + memory_execution_repository" where
  "save_request request s =
     map_sum id (\<lambda>d. s\<lparr>mx_requests := d\<rparr>)
       (put_once ''execution request identity collision'' (xr_execution_id request) request
         (mx_requests s))"

definition save_command ::
    "broker_order_command \<Rightarrow> memory_execution_repository \<Rightarrow> pyerr + memory_execution_repository" where
  "save_command command s =
     map_sum id (\<lambda>d. s\<lparr>mx_commands := d\<rparr>)
       (put_once ''client_order_id command collision'' (bc_client_order_id command) command
         (mx_commands s))"

definition get_command_by_client_order_id ::
    "memory_execution_repository \<Rightarrow> string \<Rightarrow> broker_order_command option" where
  "get_command_by_client_order_id s client_order_id = map_of (mx_commands s) client_order_id"

definition get_request :: "memory_execution_repository \<Rightarrow> string \<Rightarrow> execution_request option" where
  "get_request s execution_id = map_of (mx_requests s) execution_id"

definition save_snapshot ::
    "broker_order_snapshot \<Rightarrow> memory_execution_repository \<Rightarrow> memory_execution_repository" where
  "save_snapshot snapshot s =
     s\<lparr>mx_snapshots := setdefault (bo_snapshot_id snapshot) snapshot (mx_snapshots s)\<rparr>"

text \<open>
  A refused first event leaves an empty list behind in the source; no operation tells it from
  the absent key, and the model leaves the dictionary as it is.
\<close>

definition append_event ::
    "execution_event \<Rightarrow> memory_execution_repository \<Rightarrow> pyerr + memory_execution_repository" where
  "append_event event s =
     map_sum id (\<lambda>d. s\<lparr>mx_events := d\<rparr>)
       (append_next ''execution event sequence is not contiguous''
         ''first execution event sequence must be one'' ev_event_sequence (ev_execution_id event)
         event (mx_events s))"

definition list_events :: "memory_execution_repository \<Rightarrow> string \<Rightarrow> execution_event list" where
  "list_events s execution_id = log_items (mx_events s) execution_id"

definition next_event_sequence :: "memory_execution_repository \<Rightarrow> string \<Rightarrow> int" where
  "next_event_sequence s execution_id = int (length (log_items (mx_events s) execution_id)) + 1"

definition save_result ::
    "execution_result \<Rightarrow> memory_execution_repository \<Rightarrow> pyerr + memory_execution_repository" where
  "save_result result s =
     map_sum id (\<lambda>d. s\<lparr>mx_results := d\<rparr>)
       (put_once ''execution result identity collision'' (er_result_id result) result
         (mx_results s))"

definition save_reconciliation ::
    "reconciliation_report \<Rightarrow> memory_execution_repository \<Rightarrow> memory_execution_repository" where
  "save_reconciliation report s =
     s\<lparr>mx_reconciliations := setdefault (rc_report_id report) report (mx_reconciliations s)\<rparr>"

definition claim_trade_update ::
    "string \<Rightarrow> string \<Rightarrow> string \<Rightarrow> (memory_execution_repository, pyerr, bool) eff" where
  "claim_trade_update event_id execution_id raw_event_hash s =
     (case map_of (mx_trade_update_ids s) event_id of
        Some existing \<Rightarrow>
          if existing \<noteq> (execution_id, raw_event_hash)
          then (Inl (RuntimeError ''trade update identity collision''), s)
          else (Inr False, s)
      | None \<Rightarrow>
          (Inr True, s\<lparr>mx_trade_update_ids :=
             AList.update event_id (execution_id, raw_event_hash) (mx_trade_update_ids s)\<rparr>))"

section \<open>daybreak\_execution/reservations.py\<close>

text \<open>
  The details of a status event are the broker's order identifier and the filled quantity,
  whose decimal text is represented by its value.
\<close>

type_synonym reservation_event = "string \<times> reservation_status \<times> timestamp \<times> (string \<times> rat)"

definition append_status ::
    "string \<Rightarrow> reservation_status \<Rightarrow> timestamp \<Rightarrow> string \<times> rat \<Rightarrow> reservation_event list \<Rightarrow>
     reservation_event list" where
  "append_status reservation_id status event_timestamp details events =
     events @ [(reservation_id, status, event_timestamp, details)]"

section \<open>The repository implements the storage interfaces\<close>

definition stored_result :: "memory_execution_repository \<Rightarrow> string \<Rightarrow> execution_result option" where
  "stored_result s = map_of (mx_results s)"

lemmas read_defs = get_request_def get_command_by_client_order_id_def stored_result_def list_events_def

interpretation exec_requests: append_only_store get_request xr_execution_id save_request
  by unfold_locales (auto simp: read_defs save_request_def put_once_def setdefault_present)

interpretation exec_commands:
  append_only_store get_command_by_client_order_id bc_client_order_id save_command
  by unfold_locales (auto simp: read_defs save_command_def put_once_def setdefault_present)

interpretation exec_results: append_only_store stored_result er_result_id save_result
  by unfold_locales (auto simp: read_defs save_result_def put_once_def setdefault_present)

lemma append_event_frames:
  "append_event e s = Inr t \<Longrightarrow> get_request t = get_request s \<and>
     get_command_by_client_order_id t = get_command_by_client_order_id s \<and>
     stored_result t = stored_result s \<and> mx_snapshots t = mx_snapshots s \<and>
     mx_trade_update_ids t = mx_trade_update_ids s"
  by (auto simp: append_event_def map_sum_Inr read_defs fun_eq_iff)

interpretation exec_events:
  contiguous_log list_events ev_execution_id ev_event_sequence next_event_sequence append_event
proof
  fix e s t and k
  show "next_event_sequence s k = int (length (list_events s k)) + 1"
    by (simp add: next_event_sequence_def list_events_def)
  show "(\<forall>k. list_events t k =
        (if k = ev_execution_id e then list_events s k @ [e] else list_events s k)) \<and>
      ev_event_sequence e = (if list_events s (ev_execution_id e) = [] then 1
        else ev_event_sequence (last (list_events s (ev_execution_id e))) + 1)"
    if "append_event e s = Inr t"
    using that append_next_Inr [of _ _ ev_event_sequence "ev_execution_id e" e "mx_events s"]
    by (auto simp: append_event_def map_sum_Inr list_events_def)
  show "\<exists>t. append_event e s = Inr t"
    if "numbered ev_event_sequence (list_events s (ev_execution_id e))"
      and "ev_event_sequence e = next_event_sequence s (ev_execution_id e)"
    using that by (simp add: list_events_def next_event_sequence_def append_event_def append_next_items)
qed

section \<open>Growth\<close>

text \<open>
  What an operation may do to a repository: add requests, commands, results and events, never
  replace or drop one, and never unclaim a trade update.
\<close>

definition repo_grows :: "memory_execution_repository \<Rightarrow> memory_execution_repository \<Rightarrow> bool" where
  "repo_grows s t \<longleftrightarrow>
     get_request s \<subseteq>\<^sub>m get_request t \<and>
     get_command_by_client_order_id s \<subseteq>\<^sub>m get_command_by_client_order_id t \<and>
     stored_result s \<subseteq>\<^sub>m stored_result t \<and>
     map_of (mx_snapshots s) \<subseteq>\<^sub>m map_of (mx_snapshots t) \<and>
     map_of (mx_trade_update_ids s) \<subseteq>\<^sub>m map_of (mx_trade_update_ids t) \<and>
     (\<forall>k. prefix (list_events s k) (list_events t k)) \<and>
     (exec_events.contiguous s \<longrightarrow> exec_events.contiguous t)"

interpretation repo_grows: step_relation repo_grows
  by unfold_locales (auto simp: repo_grows_def intro: map_le_trans prefix_order.trans)

lemma save_request_grows: "save_request r s = Inr t \<Longrightarrow> repo_grows s t"
  using exec_requests.save_keeps [of r s t]
  by (auto simp: repo_grows_def save_request_def put_once_def read_defs map_le_def
      exec_events.contiguous_def split: option.splits if_splits)

lemma save_command_grows: "save_command c s = Inr t \<Longrightarrow> repo_grows s t"
  using exec_commands.save_keeps [of c s t]
  by (auto simp: repo_grows_def save_command_def put_once_def read_defs map_le_def
      exec_events.contiguous_def split: option.splits if_splits)

lemma save_result_grows: "save_result r s = Inr t \<Longrightarrow> repo_grows s t"
  using exec_results.save_keeps [of r s t]
  by (auto simp: repo_grows_def save_result_def put_once_def read_defs map_le_def
      exec_events.contiguous_def split: option.splits if_splits)

lemma save_snapshot_grows: "repo_grows s (save_snapshot x s)"
  by (auto simp: repo_grows_def save_snapshot_def read_defs map_le_def exec_events.contiguous_def)

lemma append_event_grows: "append_event e s = Inr t \<Longrightarrow> repo_grows s t"
  using exec_events.append_contiguous [of s e t] exec_events.append_prefix [of e s t]
    append_event_frames [of e s t] by (simp add: repo_grows_def)

lemma claim_trade_update_grows: "claim_trade_update i x h s = (r, t) \<Longrightarrow> repo_grows s t"
  by (auto simp: repo_grows_def claim_trade_update_def read_defs map_le_def update_conv'
      exec_events.contiguous_def split: option.splits if_splits)

lemmas repo_growth = save_request_grows save_command_grows save_result_grows save_snapshot_grows
  append_event_grows claim_trade_update_grows

end
