(* ===== verification/Execution_Service.thy ===== *)
theory Execution_Service
  imports Execution_Store
begin

text \<open>
  The execution coordinator (\<open>daybreak_execution/service.py\<close>): idempotent submission of a
  bracket order, cancellation of a stale entry and handling of a trade update, over the
  in-memory repository, the reservation event sink and a broker; and the reconciliation of one
  command (\<open>reconciliation.py\<close>).

  The broker is a parameter, a record of the five functions of the protocol \<open>BrokerClient\<close>
  over an arbitrary broker state. The state of the model also keeps the list of calls made to
  the broker, each with the states of the broker and of the repository it found, so that theorems can
  speak about what was sent, in which order, and what the broker and the repository held then. Each public
  method holds the service's lock, so methods do not interleave.
\<close>

section \<open>daybreak\_execution/broker.py\<close>

type_synonym ('b, 'a) broker_op = "'b \<Rightarrow> (exec_error + 'a) \<times> 'b"

record 'b broker_client =
  bk_get_order_by_client_order_id :: "string \<Rightarrow> ('b, broker_order_snapshot) broker_op"
  bk_submit_order :: "broker_order_command \<Rightarrow> ('b, broker_order_snapshot) broker_op"
  bk_cancel_order :: "string \<Rightarrow> ('b, unit) broker_op"
  bk_get_order :: "string \<Rightarrow> ('b, broker_order_snapshot) broker_op"
  bk_get_position :: "string \<Rightarrow> ('b, broker_position_snapshot option) broker_op"

datatype broker_call =
    CallLookup string
  | CallSubmit broker_order_command
  | CallCancel string
  | CallGet string
  | CallPosition string

record 'b exec_state =
  es_repository :: memory_execution_repository
  es_reservation_events :: "reservation_event list"
  es_broker :: 'b
  es_calls :: "(broker_call \<times> 'b \<times> memory_execution_repository) list"

type_synonym ('b, 'a) exec = "('b exec_state, exec_error, 'a) eff"

definition repository_op ::
    "(memory_execution_repository \<Rightarrow> pyerr + memory_execution_repository) \<Rightarrow> ('b, unit) exec" where
  "repository_op f = update_or_raise (\<lambda>s.
     map_sum PyError (\<lambda>r. s\<lparr>es_repository := r\<rparr>) (f (es_repository s)))"

definition repository_set ::
    "(memory_execution_repository \<Rightarrow> memory_execution_repository) \<Rightarrow> ('b, unit) exec" where
  "repository_set f = modify (\<lambda>s. s\<lparr>es_repository := f (es_repository s)\<rparr>)"

definition broker_op :: "broker_call \<Rightarrow> ('b, 'a) broker_op \<Rightarrow> ('b, 'a) exec" where
  "broker_op call f s =
     (case f (es_broker s) of
        (r, b) \<Rightarrow> (r, s\<lparr>es_broker := b, es_calls := es_calls s @ [(call, es_broker s, es_repository s)]\<rparr>))"

definition lookup_order :: "'b broker_client \<Rightarrow> string \<Rightarrow> ('b, broker_order_snapshot) exec" where
  "lookup_order broker i = broker_op (CallLookup i) (bk_get_order_by_client_order_id broker i)"

definition submit_order ::
    "'b broker_client \<Rightarrow> broker_order_command \<Rightarrow> ('b, broker_order_snapshot) exec" where
  "submit_order broker c = broker_op (CallSubmit c) (bk_submit_order broker c)"

definition cancel_order :: "'b broker_client \<Rightarrow> string \<Rightarrow> ('b, unit) exec" where
  "cancel_order broker i = broker_op (CallCancel i) (bk_cancel_order broker i)"

definition get_order :: "'b broker_client \<Rightarrow> string \<Rightarrow> ('b, broker_order_snapshot) exec" where
  "get_order broker i = broker_op (CallGet i) (bk_get_order broker i)"

definition get_position ::
    "'b broker_client \<Rightarrow> string \<Rightarrow> ('b, broker_position_snapshot option) exec" where
  "get_position broker i = broker_op (CallPosition i) (bk_get_position broker i)"

definition claim ::
    "string \<Rightarrow> string \<Rightarrow> string \<Rightarrow> ('b, bool) exec" where
  "claim event_id execution_id raw_event_hash s =
     (case claim_trade_update event_id execution_id raw_event_hash (es_repository s) of
        (r, repo) \<Rightarrow> (map_sum PyError id r, s\<lparr>es_repository := repo\<rparr>))"

section \<open>Events and results\<close>

text \<open>The payload of \<open>_event\<close> with its hash.\<close>

definition event_of ::
    "exec_dumps \<Rightarrow> execution_request \<Rightarrow> execution_event_type \<Rightarrow> timestamp \<Rightarrow>
     broker_order_snapshot option \<Rightarrow> broker_order_command option \<Rightarrow> (string \<times> string) list \<Rightarrow>
     int \<Rightarrow> execution_event" where
  "event_of dumps request event_type ts order command details sequence =
     (let payload =
        \<lparr>ev_execution_id = xr_execution_id request,
         ev_event_sequence = sequence,
         ev_event_type = event_type,
         ev_event_timestamp = ts,
         ev_broker_order_id = map_option bo_broker_order_id order,
         ev_client_order_id =
           (case order of
              Some x \<Rightarrow> Some (bo_client_order_id x)
            | None \<Rightarrow> map_option bc_client_order_id command),
         ev_status = map_option (\<lambda>x. broker_order_status_value (bo_status x)) order,
         ev_filled_quantity = map_option bo_filled_quantity order,
         ev_details = details,
         ev_event_hash = []\<rparr>
      in payload\<lparr>ev_event_hash := canonical_sha256 (xd_event dumps payload)\<rparr>)"

definition record_event ::
    "exec_dumps \<Rightarrow> execution_request \<Rightarrow> execution_event_type \<Rightarrow> timestamp \<Rightarrow>
     broker_order_snapshot option \<Rightarrow> broker_order_command option \<Rightarrow> (string \<times> string) list \<Rightarrow>
     ('b, execution_event) exec" where
  "record_event dumps request event_type ts order command details =
     andthen (gets (\<lambda>s. next_event_sequence (es_repository s) (xr_execution_id request))) (\<lambda>sequence.
       let event = event_of dumps request event_type ts order command details sequence in
       if \<not> valid_event event then raise (PyError (ValidationError ''ExecutionEvent''))
       else andthen (repository_op (append_event event)) (\<lambda>_. ret event))"

text \<open>The core of \<open>_result\<close> with its hash and identifier.\<close>

definition result_of ::
    "exec_dumps \<Rightarrow> execution_request \<Rightarrow> execution_outcome \<Rightarrow> execution_rejection_code list \<Rightarrow>
     broker_order_command option \<Rightarrow> broker_order_snapshot option \<Rightarrow> broker_order_snapshot option \<Rightarrow>
     bool \<Rightarrow> timestamp \<Rightarrow> execution_event list \<Rightarrow> execution_result" where
  "result_of dumps request outcome reasons command broker_order protective_order
       reconciliation_required completed_at events =
     (let core =
            \<lparr>er_result_id = [],
             er_execution_id = xr_execution_id request,
             er_outcome = outcome,
             er_rejection_reasons = reasons,
             er_command = command,
             er_broker_order = broker_order,
             er_protective_order = protective_order,
             er_reconciliation_required = reconciliation_required,
             er_events = events,
             er_completed_at = completed_at,
             er_request_hash = canonical_sha256 (xd_request dumps request),
             er_result_hash = []\<rparr>;
          result_hash = canonical_sha256 (xd_result dumps core)
      in core\<lparr>er_result_id :=
           uuid5_hex (''daybreak-execution-result:'' @ xr_execution_id request @ '':'' @ result_hash),
         er_result_hash := result_hash\<rparr>)"

definition finish ::
    "exec_dumps \<Rightarrow> execution_request \<Rightarrow> execution_outcome \<Rightarrow> execution_rejection_code list \<Rightarrow>
     broker_order_command option \<Rightarrow> broker_order_snapshot option \<Rightarrow> broker_order_snapshot option \<Rightarrow>
     bool \<Rightarrow> timestamp \<Rightarrow> ('b, execution_result) exec" where
  "finish dumps request outcome reasons command broker_order protective_order
       reconciliation_required completed_at =
     andthen (gets (\<lambda>s. list_events (es_repository s) (xr_execution_id request))) (\<lambda>events.
       let result = result_of dumps request outcome reasons command broker_order protective_order
             reconciliation_required completed_at events
       in case terminal_shape result of
            Some e \<Rightarrow> raise (PyError (ValidationError e))
          | None \<Rightarrow> andthen (repository_op (save_result result)) (\<lambda>_. ret result))"

section \<open>Comparison of an order with its command\<close>

definition matches :: "broker_order_command \<Rightarrow> broker_order_snapshot \<Rightarrow> bool" where
  "matches command order \<longleftrightarrow>
     (let prices_match =
            (bc_limit_price command \<noteq> None \<longrightarrow> bo_limit_price order = bc_limit_price command) \<and>
            (bc_stop_price command \<noteq> None \<longrightarrow> bo_stop_price order = bc_stop_price command);
          identity_matches =
            bc_client_order_id command = bo_client_order_id order \<and>
            bc_symbol command = bo_symbol order \<and>
            bc_side command = bo_side order \<and>
            bc_order_type command = bo_order_type order \<and>
            time_in_force_value (bc_time_in_force command) = bo_time_in_force order \<and>
            order_class_value (bc_order_class command) = bo_order_class order \<and>
            of_int (bc_quantity command) = bo_quantity order \<and> prices_match
      in if \<not> identity_matches then False
         else if order_class_value (bc_order_class command) \<noteq> ''bracket'' then True
         else
           let take_profit_legs = filter (\<lambda>leg.
                 bl_side leg = ''sell'' \<and> bl_order_type leg = ''limit'' \<and>
                 bl_limit_price leg = bc_take_profit_limit_price command \<and>
                 bl_quantity leg = of_int (bc_quantity command)) (bo_legs order);
               stop_loss_legs = filter (\<lambda>leg.
                 bl_side leg = ''sell'' \<and> bl_order_type leg \<in> {''stop'', ''stop_limit''} \<and>
                 bl_stop_price leg = bc_stop_loss_stop_price command \<and>
                 bl_quantity leg = of_int (bc_quantity command)) (bo_legs order)
           in length (bo_legs order) = 2 \<and> length take_profit_legs = 1 \<and> length stop_loss_legs = 1)"

definition terminal_rejection :: "broker_order_snapshot \<Rightarrow> bool" where
  "terminal_rejection order \<longleftrightarrow> bo_status order \<in> {OS_REJECTED, OS_CANCELED, OS_EXPIRED}"

definition broker_state_requires_reconciliation :: "broker_order_snapshot \<Rightarrow> bool" where
  "broker_state_requires_reconciliation order \<longleftrightarrow>
     bo_status order \<in> {OS_DONE_FOR_DAY, OS_SUSPENDED, OS_STOPPED, OS_PENDING_REPLACE}"

definition reservation_status_of :: "broker_order_status \<Rightarrow> reservation_status" where
  "reservation_status_of status =
     (case status of
        OS_PARTIALLY_FILLED \<Rightarrow> RES_PARTIALLY_FILLED
      | OS_FILLED \<Rightarrow> RES_FILLED
      | OS_CANCELED \<Rightarrow> RES_RELEASED
      | OS_EXPIRED \<Rightarrow> RES_EXPIRED
      | OS_REJECTED \<Rightarrow> RES_RELEASED
      | _ \<Rightarrow> RES_SUBMITTED)"

definition record_reservation_from_order ::
    "execution_request \<Rightarrow> broker_order_snapshot \<Rightarrow> timestamp \<Rightarrow> ('b, unit) exec" where
  "record_reservation_from_order request order ts =
     (case rd_reservation (xr_risk_decision request) of
        None \<Rightarrow> ret ()
      | Some reservation \<Rightarrow> modify (\<lambda>s. s\<lparr>es_reservation_events :=
          append_status (rr_reservation_id reservation) (reservation_status_of (bo_status order)) ts
            (bo_broker_order_id order, bo_filled_quantity order) (es_reservation_events s)\<rparr>))"

section \<open>Trade updates\<close>

text \<open>\<open>except <classes>:\<close> runs the handler for the errors of the classes and passes on the others.\<close>

definition except_when ::
    "(exec_error \<Rightarrow> bool) \<Rightarrow> ('b, 'a) exec \<Rightarrow> (exec_error \<Rightarrow> ('b, 'a) exec) \<Rightarrow> ('b, 'a) exec" where
  "except_when p m h = catch m (\<lambda>e. if p e then h e else raise e)"

definition is_integral :: "rat \<Rightarrow> bool" where
  "is_integral q \<longleftrightarrow> of_int \<lfloor>q\<rfloor> = q"

text \<open>The submission of the protective stop, unless the broker already has one under its identifier.\<close>

definition protective_order ::
    "'b broker_client \<Rightarrow> broker_order_command \<Rightarrow> ('b, broker_order_snapshot) exec" where
  "protective_order broker protective_command =
     except_when (\<lambda>e. e = BrokerNotFound)
       (lookup_order broker (bc_client_order_id protective_command))
       (\<lambda>_. submit_order broker protective_command)"

text \<open>The part of the \<open>try\<close> block after the parent is known to be canceled with a whole-share fill.\<close>

definition place_protective_stop ::
    "exec_dumps \<Rightarrow> 'b broker_client \<Rightarrow> execution_request \<Rightarrow> timestamp \<Rightarrow> broker_order_command \<Rightarrow>
     broker_order_snapshot \<Rightarrow> ('b, execution_result) exec" where
  "place_protective_stop dumps broker request now command final_parent =
     andthen (from_result (map_sum PyError id
       (build_partial_fill_protective_stop dumps request \<lfloor>bo_filled_quantity final_parent\<rfloor>)))
       (\<lambda>protective_command.
     andthen (repository_op (save_command protective_command)) (\<lambda>_.
     andthen (record_event dumps request EE_PROTECTIVE_STOP_SUBMIT_STARTED now None
       (Some protective_command) []) (\<lambda>_.
     andthen (protective_order broker protective_command) (\<lambda>protective.
     if \<not> matches protective_command protective
     then raise (PyError (ValueError ''protective stop does not match its command''))
     else
       andthen (repository_set (save_snapshot protective)) (\<lambda>_.
       andthen (record_event dumps request EE_PROTECTIVE_STOP_ACKNOWLEDGED now (Some protective)
         None []) (\<lambda>_.
       finish dumps request EO_PARTIAL_FILL_PROTECTED [] (Some command) (Some final_parent)
         (Some protective) True now))))))"

definition protect_partial_fill ::
    "exec_dumps \<Rightarrow> 'b broker_client \<Rightarrow> execution_request \<Rightarrow> timestamp \<Rightarrow> broker_order_command \<Rightarrow>
     broker_order_snapshot \<Rightarrow> ('b, execution_result) exec" where
  "protect_partial_fill dumps broker request now command order =
     andthen (cancel_order broker (bo_broker_order_id order)) (\<lambda>_.
     andthen (get_order broker (bo_broker_order_id order)) (\<lambda>final_parent.
     andthen (repository_set (save_snapshot final_parent)) (\<lambda>_.
     if bo_status final_parent = OS_FILLED then
       (if \<not> matches command final_parent
        then raise (PyError (ValueError ''filled bracket no longer matches its command''))
        else finish dumps request EO_EXISTING_RECONCILED [] (Some command) (Some final_parent) None
          False now)
     else if bo_status final_parent \<noteq> OS_CANCELED
     then raise (PyError (ValueError ''parent cancellation was not confirmed''))
     else if bo_filled_quantity final_parent \<le> 0
     then raise (PyError (ValueError ''canceled parent has no protected fill''))
     else if \<not> is_integral (bo_filled_quantity final_parent)
     then raise (PyError (ValueError ''whole-share order returned fractional partial fill''))
     else place_protective_stop dumps broker request now command final_parent)))"

definition needs_protection :: "execution_request \<Rightarrow> broker_order_snapshot \<Rightarrow> bool" where
  "needs_protection request order \<longleftrightarrow>
     bo_status order = OS_PARTIALLY_FILLED \<and> bo_filled_quantity order > 0 \<and>
     xp_partial_fill_protection_enabled (xr_policy request)"

text \<open>
  An update without a known command gives the same result whether or not it was claimed, so
  the two branches of the source are one here.
\<close>

definition handle_trade_update ::
    "exec_dumps \<Rightarrow> 'b broker_client \<Rightarrow> execution_request \<Rightarrow> trade_update \<Rightarrow>
     ('b, execution_result) exec" where
  "handle_trade_update dumps broker request update =
     (let now = tu_event_timestamp update; order = tu_order update in
     andthen (claim (tu_event_id update) (xr_execution_id request) (tu_raw_event_hash update))
       (\<lambda>claimed.
     andthen (gets (\<lambda>s.
       get_command_by_client_order_id (es_repository s) (bo_client_order_id order))) (\<lambda>command.
     case command of
       None \<Rightarrow>
         finish dumps request EO_RECONCILIATION_REQUIRED [COMMAND_IDENTITY_CONFLICT] None (Some order)
           None True now
     | Some command \<Rightarrow>
         if \<not> claimed
         then finish dumps request EO_EXISTING_RECONCILED [] (Some command) (Some order) None False now
         else
           andthen (repository_set (save_snapshot order)) (\<lambda>_.
           andthen (record_event dumps request EE_TRADE_UPDATE now (Some order) None
             [(''provider_event'', tu_event update), (''raw_event_hash'', tu_raw_event_hash update)])
             (\<lambda>_.
           andthen (record_reservation_from_order request order now) (\<lambda>_.
           if needs_protection request order then
             andthen (record_event dumps request EE_CANCEL_REQUESTED now (Some order) None []) (\<lambda>_.
             except_when (\<lambda>e. is_broker_error e \<or> is_value_error e)
               (protect_partial_fill dumps broker request now command order)
               (\<lambda>_. finish dumps request EO_RECONCILIATION_REQUIRED [PARTIAL_FILL_PROTECTION_FAILED]
                 (Some command) (Some order) None True now))
           else
             finish dumps request EO_EXISTING_RECONCILED [] (Some command) (Some order) None False
               now))))))"

section \<open>Cancellation of a stale entry\<close>

definition cancel_stale_entry ::
    "exec_dumps \<Rightarrow> 'b broker_client \<Rightarrow> execution_request \<Rightarrow> broker_order_snapshot \<Rightarrow> timestamp \<Rightarrow>
     ('b, bool) exec" where
  "cancel_stale_entry dumps broker request order now =
     (if bo_filled_quantity order > 0 \<or>
         bo_status order \<in> {OS_FILLED, OS_CANCELED, OS_EXPIRED, OS_REJECTED}
      then ret False
      else
        let anchor = (case bo_submitted_at order of Some t \<Rightarrow> t | None \<Rightarrow> bo_updated_at order) in
        if total_seconds now anchor < of_int (xp_cancel_unfilled_after_seconds (xr_policy request))
        then ret False
        else
          andthen (cancel_order broker (bo_broker_order_id order)) (\<lambda>_.
          andthen (record_event dumps request EE_CANCEL_REQUESTED now (Some order) None []) (\<lambda>_.
          ret True)))"

section \<open>Submission\<close>

text \<open>The reason for a \<open>ValueError\<close> of the command builder, from the words of its message.\<close>

definition rejection_reason :: "string \<Rightarrow> execution_rejection_code" where
  "rejection_reason message =
     (if sublist ''cutoff'' message then SUBMISSION_CUTOFF_EXCEEDED
      else if sublist ''expired'' message then RESERVATION_EXPIRED
      else if sublist ''approved'' message then RISK_DECISION_NOT_APPROVED
      else if sublist ''reservation'' message then RESERVATION_MISSING
      else INVALID_ORDER_GEOMETRY)"

fun error_message :: "pyerr \<Rightarrow> string" where
  "error_message (ValueError m) = m"
| "error_message (RuntimeError m) = m"
| "error_message (TypeError m) = m"
| "error_message (ValidationError m) = m"
| "error_message (KeyError m) = m"
| "error_message AssertionError = []"
| "error_message DecimalError = []"

definition reject ::
    "exec_dumps \<Rightarrow> execution_request \<Rightarrow> execution_rejection_code \<Rightarrow> timestamp \<Rightarrow>
     ('b, execution_result) exec" where
  "reject dumps request reason now =
     andthen (record_event dumps request EE_REJECTED now None None
       [(''reason'', execution_rejection_code_value reason)]) (\<lambda>_.
     finish dumps request EO_REJECTED [reason] None None None False now)"

text \<open>
  What submission does with an order that the broker returned: the blocks for an order found
  by the lookup and for one just submitted differ in the outcome of success only.
\<close>

definition acknowledge ::
    "exec_dumps \<Rightarrow> 'b broker_client \<Rightarrow> execution_request \<Rightarrow> timestamp \<Rightarrow> broker_order_command \<Rightarrow>
     execution_outcome \<Rightarrow> broker_order_snapshot \<Rightarrow> ('b, execution_result) exec" where
  "acknowledge dumps broker request now command success order =
     andthen (repository_set (save_snapshot order)) (\<lambda>_.
     andthen (record_event dumps request EE_BROKER_ACKNOWLEDGED now (Some order) None []) (\<lambda>_.
     andthen (record_reservation_from_order request order now) (\<lambda>_.
     if \<not> matches command order then
       finish dumps request EO_RECONCILIATION_REQUIRED [BROKER_ORDER_MISMATCH] (Some command)
         (Some order) None True now
     else if terminal_rejection order then
       finish dumps request EO_REJECTED [BROKER_REJECTED] (Some command) (Some order) None False now
     else if broker_state_requires_reconciliation order then
       finish dumps request EO_RECONCILIATION_REQUIRED [BROKER_TRANSPORT_FAILURE] (Some command)
         (Some order) None True now
     else if needs_protection request order then
       (let update = \<lparr>tu_event_id = ''initial-'' @ bo_snapshot_id order, tu_event = ''partial_fill'',
              tu_event_timestamp = bo_updated_at order, tu_order = order,
              tu_raw_event_hash = bo_raw_response_hash order\<rparr>
        in if \<not> valid_trade_update update then raise (PyError (ValidationError ''TradeUpdate''))
           else handle_trade_update dumps broker request update)
     else finish dumps request success [] (Some command) (Some order) None False now)))"

text \<open>
  A block that may return from the method or go on is a computation of a sum, \<open>Inl\<close> the result
  returned and \<open>Inr\<close> what the rest of the method uses. The first is the handler of a transport
  error of \<open>submit_order\<close>: a second lookup after a transient one, a rejection otherwise.
\<close>

definition after_failed_submit ::
    "exec_dumps \<Rightarrow> 'b broker_client \<Rightarrow> execution_request \<Rightarrow> timestamp \<Rightarrow> broker_order_command \<Rightarrow>
     bool \<Rightarrow> ('b, execution_result + broker_order_snapshot) exec" where
  "after_failed_submit dumps broker request now command transient =
     (if transient then
        except_when is_broker_error
          (andthen (lookup_order broker (bc_client_order_id command)) (\<lambda>order. ret (Inr order)))
          (\<lambda>_.
            andthen (record_event dumps request EE_RECONCILIATION_REQUIRED now None (Some command)
              [(''reason'', ''ambiguous_submit_state'')]) (\<lambda>_.
            andthen (finish dumps request EO_RECONCILIATION_REQUIRED [BROKER_TIMEOUT_UNKNOWN_STATE]
              (Some command) None None True now) (\<lambda>result.
            ret (Inl result))))
      else
        andthen (finish dumps request EO_REJECTED [BROKER_REJECTED] (Some command) None None False now)
          (\<lambda>result. ret (Inl result)))"

definition try_submit ::
    "exec_dumps \<Rightarrow> 'b broker_client \<Rightarrow> execution_request \<Rightarrow> timestamp \<Rightarrow> broker_order_command \<Rightarrow>
     ('b, execution_result + broker_order_snapshot) exec" where
  "try_submit dumps broker request now command =
     catch (andthen (submit_order broker command) (\<lambda>order. ret (Inr order)))
       (\<lambda>e. case e of
          BrokerTransportError transient \<Rightarrow>
            after_failed_submit dumps broker request now command transient
        | _ \<Rightarrow> raise e)"

definition submit_new ::
    "exec_dumps \<Rightarrow> 'b broker_client \<Rightarrow> execution_request \<Rightarrow> timestamp \<Rightarrow> broker_order_command \<Rightarrow>
     ('b, execution_result) exec" where
  "submit_new dumps broker request now command =
     andthen (record_event dumps request EE_SUBMIT_STARTED now None (Some command) []) (\<lambda>_.
     andthen (try_submit dumps broker request now command) (\<lambda>answer.
     case answer of
       Inl result \<Rightarrow> ret result
     | Inr order \<Rightarrow> acknowledge dumps broker request now command EO_SUBMITTED order))"

definition first_lookup ::
    "exec_dumps \<Rightarrow> 'b broker_client \<Rightarrow> execution_request \<Rightarrow> timestamp \<Rightarrow> broker_order_command \<Rightarrow>
     ('b, execution_result + broker_order_snapshot option) exec" where
  "first_lookup dumps broker request now command =
     catch
       (andthen (lookup_order broker (bc_client_order_id command)) (\<lambda>order.
         ret (Inr (Some order))))
       (\<lambda>e. case e of
          BrokerNotFound \<Rightarrow> ret (Inr None)
        | BrokerTransportError _ \<Rightarrow>
            andthen (finish dumps request EO_RECONCILIATION_REQUIRED [BROKER_TRANSPORT_FAILURE]
              (Some command) None None True now) (\<lambda>result. ret (Inl result))
        | _ \<Rightarrow> raise e)"

text \<open>The rest of a submission for a built command: write-ahead, lookup, and either of the two.\<close>

definition submit_command ::
    "exec_dumps \<Rightarrow> 'b broker_client \<Rightarrow> execution_request \<Rightarrow> timestamp \<Rightarrow> broker_order_command \<Rightarrow>
     ('b, execution_result) exec" where
  "submit_command dumps broker request now command =
     andthen (gets (\<lambda>s.
       get_command_by_client_order_id (es_repository s) (bc_client_order_id command)))
       (\<lambda>existing_local.
     if existing_local \<noteq> None \<and> existing_local \<noteq> Some command then
       finish dumps request EO_RECONCILIATION_REQUIRED [COMMAND_IDENTITY_CONFLICT] (Some command)
         None None True now
     else
       andthen (repository_op (save_command command)) (\<lambda>_.
       andthen (record_event dumps request EE_COMMAND_PERSISTED now None (Some command) []) (\<lambda>_.
       andthen (record_event dumps request EE_BROKER_LOOKUP now None (Some command) []) (\<lambda>_.
       andthen (first_lookup dumps broker request now command) (\<lambda>answer.
       case answer of
         Inl result \<Rightarrow> ret result
       | Inr (Some existing) \<Rightarrow>
           acknowledge dumps broker request now command EO_EXISTING_RECONCILED existing
       | Inr None \<Rightarrow> submit_new dumps broker request now command)))))"

definition submit ::
    "exec_dumps \<Rightarrow> 'b broker_client \<Rightarrow> execution_request \<Rightarrow> timestamp \<Rightarrow>
     ('b, execution_result) exec" where
  "submit dumps broker request now =
     andthen (repository_op (save_request request)) (\<lambda>_.
     andthen (record_event dumps request EE_REQUEST_ACCEPTED now None None []) (\<lambda>_.
     if xp_mode (xr_policy request) \<noteq> MODE_PAPER \<or> xp_allow_live_execution (xr_policy request)
     then reject dumps request PAPER_MODE_REQUIRED now
     else
       let request_age_ms = flt (total_seconds now (xr_requested_at request) * 1000) in
       if request_age_ms < 0 \<or> request_age_ms > of_int (xp_max_request_age_ms (xr_policy request))
       then reject dumps request REQUEST_STALE now
       else case build_entry_command dumps request now of
         Inl e \<Rightarrow>
           if is_value_error (PyError e) then reject dumps request (rejection_reason (error_message e)) now
           else raise (PyError e)
       | Inr command \<Rightarrow> submit_command dumps broker request now command))"

section \<open>daybreak\_execution/reconciliation.py\<close>

definition order_mismatches :: "broker_order_command \<Rightarrow> broker_order_snapshot \<Rightarrow> string list" where
  "order_mismatches command order =
     (if bo_symbol order \<noteq> bc_symbol command then [''SYMBOL_MISMATCH''] else []) @
     (if bo_side order \<noteq> bc_side command then [''SIDE_MISMATCH''] else []) @
     (if bo_quantity order \<noteq> of_int (bc_quantity command) then [''QUANTITY_MISMATCH''] else []) @
     (if bo_client_order_id order \<noteq> bc_client_order_id command
      then [''CLIENT_ORDER_ID_MISMATCH''] else [])"

definition reconcile_command ::
    "exec_dumps \<Rightarrow> 'b broker_client \<Rightarrow> string \<Rightarrow> broker_order_command \<Rightarrow> timestamp \<Rightarrow>
     ('b, reconciliation_report) exec" where
  "reconcile_command dumps broker execution_id command checked_at =
     andthen (catch
       (andthen (lookup_order broker (bc_client_order_id command)) (\<lambda>order. ret (Some order, [])))
       (\<lambda>e. case e of
          BrokerNotFound \<Rightarrow> ret (None, [''BROKER_ORDER_NOT_FOUND''])
        | BrokerTransportError _ \<Rightarrow> ret (None, [''BROKER_LOOKUP_FAILED''])
        | _ \<Rightarrow> raise e)) (\<lambda>(order, lookup_mismatch).
     andthen (get_position broker (bc_symbol command)) (\<lambda>position.
       let mismatch = lookup_mismatch @
             (case order of None \<Rightarrow> [] | Some x \<Rightarrow> order_mismatches command x);
           payload =
             \<lparr>rc_report_id = [], rc_execution_id = execution_id,
              rc_client_order_id = bc_client_order_id command, rc_checked_at = checked_at,
              rc_matched = (mismatch = []), rc_mismatch_codes = mismatch, rc_broker_order = order,
              rc_broker_position = position, rc_report_hash = []\<rparr>;
           report_hash = canonical_sha256 (xd_report dumps payload)
       in ret (payload\<lparr>rc_report_id :=
            uuid5_hex (''daybreak-reconcile:'' @ execution_id @ '':'' @ bc_client_order_id command @
              '':'' @ report_hash),
            rc_report_hash := report_hash\<rparr>)))"

end
