(* ===== verification/Execution_Safety.thy ===== *)
theory Execution_Safety
  imports Execution_Service
begin

text \<open>
  What the execution service may do to its state and to the broker. One relation between the
  states before and after a call carries the safety properties: the repository and the
  reservation log only grow, every order sent to the broker was persisted before, has an
  admissible origin, and was sent while the broker held no order under its identifier.
\<close>

section \<open>The step relation\<close>

definition sent :: "(broker_call \<times> 'x) list \<Rightarrow> (broker_order_command \<times> 'x) list" where
  "sent calls = concat (map (\<lambda>(k, b). case k of CallSubmit c \<Rightarrow> [(c, b)] | _ \<Rightarrow> []) calls)"

lemma sent_append [simp]: "sent (xs @ ys) = sent xs @ sent ys"
  by (simp add: sent_def)

lemma sent_Nil [simp]: "sent [] = []"
  by (simp add: sent_def)

lemma sent_single: "sent [(k, b)] = (case k of CallSubmit c \<Rightarrow> [(c, b)] | _ \<Rightarrow> [])"
  by (simp add: sent_def)

definition is_submit :: "broker_call \<Rightarrow> bool" where
  "is_submit k = (case k of CallSubmit c \<Rightarrow> True | _ \<Rightarrow> False)"

lemma sent_other: "\<not> is_submit k \<Longrightarrow> sent [(k, b)] = []"
  by (cases k) (simp_all add: is_submit_def sent_single)

definition persisted :: "'b exec_state \<Rightarrow> broker_order_command \<Rightarrow> bool" where
  "persisted s c \<longleftrightarrow>
     get_command_by_client_order_id (es_repository s) (bc_client_order_id c) = Some c"

text \<open>
  The calls made between two states, with the conditions on the orders sent: \<open>origin\<close> restricts
  the commands, and \<open>holds b i\<close> says that the broker in state \<open>b\<close> has an order of identifier \<open>i\<close>.
\<close>

definition calls_ok ::
    "(broker_order_command \<Rightarrow> bool) \<Rightarrow> ('b \<Rightarrow> string \<Rightarrow> bool) \<Rightarrow> 'b exec_state \<Rightarrow>
     (broker_call \<times> 'b \<times> memory_execution_repository) list \<Rightarrow> bool" where
  "calls_ok origin holds t new \<longleftrightarrow>
     (\<forall>(c, b, r) \<in> set (sent new). origin c \<and>
       get_command_by_client_order_id r (bc_client_order_id c) = Some c \<and>
       repo_grows r (es_repository t) \<and> \<not> holds b (bc_client_order_id c))"

definition exec_step ::
    "(broker_order_command \<Rightarrow> bool) \<Rightarrow> ('b \<Rightarrow> string \<Rightarrow> bool) \<Rightarrow> 'b exec_state \<Rightarrow> 'b exec_state \<Rightarrow>
     bool" where
  "exec_step origin holds s t \<longleftrightarrow>
     repo_grows (es_repository s) (es_repository t) \<and>
     prefix (es_reservation_events s) (es_reservation_events t) \<and>
     (\<exists>new. es_calls t = es_calls s @ new \<and> calls_ok origin holds t new)"

lemma calls_ok_append:
  "calls_ok origin holds t xs \<Longrightarrow> calls_ok origin holds u ys \<Longrightarrow>
   repo_grows (es_repository t) (es_repository u) \<Longrightarrow> calls_ok origin holds u (xs @ ys)"
  unfolding calls_ok_def using repo_grows.trans by fastforce

interpretation exec_step: step_relation "exec_step origin holds"
proof
  show "exec_step origin holds s s" for s
    by (simp add: exec_step_def repo_grows.refl calls_ok_def)
  show "exec_step origin holds s u" if a: "exec_step origin holds s t" and b: "exec_step origin holds t u" for s t u
  proof -
    obtain xs ys where x: "es_calls t = es_calls s @ xs" "calls_ok origin holds t xs"
      and y: "es_calls u = es_calls t @ ys" "calls_ok origin holds u ys"
      using a b by (auto simp: exec_step_def)
    moreover have "repo_grows (es_repository t) (es_repository u)" using b by (simp add: exec_step_def)
    ultimately have "calls_ok origin holds u (xs @ ys)" by (blast intro: calls_ok_append)
    then show ?thesis
      using a b x(1) y(1)
      by (auto simp: exec_step_def intro: repo_grows.trans prefix_order.trans)
  qed
qed

lemma exec_step_grows: "exec_step origin holds s t \<Longrightarrow> repo_grows (es_repository s) (es_repository t)"
  by (simp add: exec_step_def)

section \<open>Primitive operations\<close>

lemma repo_step:
  "repo_grows (es_repository s) r \<Longrightarrow> exec_step origin holds s (s\<lparr>es_repository := r\<rparr>)"
  by (simp add: exec_step_def calls_ok_def)

lemma repository_op_step:
  "(\<And>r r'. f r = Inr r' \<Longrightarrow> repo_grows r r') \<Longrightarrow> steps (exec_step origin holds) (repository_op f)"
  unfolding repository_op_def
  by (rule exec_step.steps_update) (auto intro: repo_step simp: map_sum_Inr)

lemma repository_set_step:
  "(\<And>r. repo_grows r (f r)) \<Longrightarrow> steps (exec_step origin holds) (repository_set f)"
  by (simp add: repository_set_def steps_def modify_def repo_step)

lemma claim_step: "steps (exec_step origin holds) (claim i x h)"
  by (auto simp: claim_def steps_def intro!: repo_step claim_trade_update_grows split: prod.splits)

lemma sink_step: "steps (exec_step origin holds) (record_reservation_from_order request order ts)"
  by (simp add: record_reservation_from_order_def steps_def modify_def ret_def exec_step.refl
      append_status_def exec_step_def repo_grows.refl calls_ok_def split: option.splits)

lemma call_step: "\<not> is_submit k \<Longrightarrow> steps (exec_step origin holds) (broker_op k f)"
  by (auto simp: broker_op_def steps_def exec_step_def repo_grows.refl calls_ok_def sent_other
      split: prod.splits)

lemma broker_read_steps:
  "steps (exec_step origin holds) (lookup_order broker i)"
  "steps (exec_step origin holds) (cancel_order broker i)"
  "steps (exec_step origin holds) (get_order broker i)"
  "steps (exec_step origin holds) (get_position broker i)"
  by (simp_all add: lookup_order_def cancel_order_def get_order_def get_position_def call_step is_submit_def)

text \<open>An order may be sent when it is persisted and the broker has none under its identifier.\<close>

definition ready ::
    "(broker_order_command \<Rightarrow> bool) \<Rightarrow> ('b \<Rightarrow> string \<Rightarrow> bool) \<Rightarrow> broker_order_command \<Rightarrow>
     'b exec_state \<Rightarrow> bool" where
  "ready origin holds c s \<longleftrightarrow>
     origin c \<and> persisted s c \<and> \<not> holds (es_broker s) (bc_client_order_id c)"

lemma submit_order_step:
  "ready origin holds c s \<Longrightarrow> exec_step origin holds s (snd (submit_order broker c s))"
  by (auto simp: submit_order_def broker_op_def ready_def exec_step_def repo_grows.refl calls_ok_def
      sent_single persisted_def split: prod.splits)

section \<open>Events and results\<close>

lemma record_event_step: "steps (exec_step origin holds) (record_event dumps request ty ts x c ds)"
  unfolding record_event_def Let_def
  by (intro exec_step.steps_rules repository_op_step append_event_grows)

lemma finish_step: "steps (exec_step origin holds) (finish dumps request oc rs c x p f ts)"
  unfolding finish_def Let_def
  by (intro exec_step.steps_rules repository_op_step save_result_grows)

lemma repository_op_cases:
  assumes "repository_op f s = (r, t)"
  obtains (saved) q where "f (es_repository s) = Inr q" "r = Inr ()" "t = s\<lparr>es_repository := q\<rparr>"
  | (failed) e where "f (es_repository s) = Inl e" "r = Inl (PyError e)" "t = s"
  using assms by (cases "f (es_repository s)") (auto simp: repository_op_def effect_defs)

lemma record_event_cases:
  assumes "record_event dumps request ty ts x c ds s = (r, t)"
  defines "e \<equiv> event_of dumps request ty ts x c ds (next_event_sequence (es_repository s) (xr_execution_id request))"
  obtains (appended) q where "append_event e (es_repository s) = Inr q" "r = Inr e"
      "t = s\<lparr>es_repository := q\<rparr>"
  | (invalid) "\<not> valid_event e" "r = Inl (PyError (ValidationError ''ExecutionEvent''))" "t = s"
  | (refused) err where "append_event e (es_repository s) = Inl err" "r = Inl (PyError err)" "t = s"
proof (cases "valid_event e")
  case True
  then have run: "andthen (repository_op (append_event e)) (\<lambda>_. ret e) s = (r, t)"
    using assms(1) by (simp add: record_event_def andthen_def gets_def e_def Let_def)
  show ?thesis
  proof (cases "append_event e (es_repository s)")
    case (Inl err)
    then show ?thesis
      using run by (intro refused) (auto simp: andthen_def repository_op_def update_or_raise_def)
  next
    case (Inr q)
    then show ?thesis
      using run by (intro appended) (auto simp: andthen_def repository_op_def update_or_raise_def ret_def)
  qed
next
  case False
  then show ?thesis
    using assms(1) by (intro invalid) (auto simp: record_event_def andthen_def gets_def e_def raise_def Let_def)
qed

lemma record_event_frames:
  assumes "record_event dumps request ty ts x c ds s = (r, t)"
  shows "es_broker t = es_broker s" "es_calls t = es_calls s"
    "get_command_by_client_order_id (es_repository t) = get_command_by_client_order_id (es_repository s)"
  using assms by (cases rule: record_event_cases; simp add: append_event_frames)+

lemma ready_after_event:
  "ready origin holds c s \<Longrightarrow> record_event dumps request ty ts x cc ds s = (r, t) \<Longrightarrow> ready origin holds c t"
  using record_event_frames [of dumps request ty ts x cc ds s r t] by (simp add: ready_def persisted_def)

lemmas exec_steps = exec_step.steps_rules record_event_step finish_step sink_step broker_read_steps
  repository_set_step save_snapshot_grows claim_step

section \<open>Operations that send orders\<close>

text \<open>
  What is assumed of the broker: when a lookup answers that there is no order of an identifier,
  the broker holds none.
\<close>

definition truthful :: "'b broker_client \<Rightarrow> ('b \<Rightarrow> string \<Rightarrow> bool) \<Rightarrow> bool" where
  "truthful broker holds \<longleftrightarrow>
     (\<forall>i b b'. bk_get_order_by_client_order_id broker i b = (Inl BrokerNotFound, b') \<longrightarrow> \<not> holds b' i)"

lemma lookup_not_found:
  assumes "truthful broker holds" and "origin c" and "persisted s c"
    and "lookup_order broker (bc_client_order_id c) s = (Inl BrokerNotFound, t)"
  shows "ready origin holds c t"
  using assms by (auto simp: lookup_order_def broker_op_def truthful_def ready_def persisted_def split: prod.splits)

lemma protective_order_step:
  assumes "truthful broker holds" and "origin c" and "persisted s c"
  shows "exec_step origin holds s (snd (protective_order broker c s))"
proof -
  obtain r t where l: "lookup_order broker (bc_client_order_id c) s = (r, t)" by (cases "lookup_order broker (bc_client_order_id c) s")
  then have st: "exec_step origin holds s t" by (rule stepsD [OF broker_read_steps(1)])
  show ?thesis
  proof (cases "r = Inl BrokerNotFound")
    case True
    then have "exec_step origin holds t (snd (submit_order broker c t))"
      using l lookup_not_found [where origin = origin, OF assms] by (simp add: submit_order_step)
    then show ?thesis
      using st True l by (auto simp: protective_order_def except_when_def catch_def intro: exec_step.trans)
  next
    case False
    then show ?thesis
      using st l by (cases r) (auto simp: protective_order_def except_when_def catch_def raise_def)
  qed
qed

lemma save_command_persists: "repository_op (save_command c) s = (Inr u, t) \<Longrightarrow> persisted t c"
  by (erule repository_op_cases) (auto simp: persisted_def exec_commands.saved)

lemma persisted_after_event:
  "persisted s c \<Longrightarrow> record_event dumps request ty ts x cc ds s = (r, t) \<Longrightarrow> persisted t c"
  using record_event_frames [of dumps request ty ts x cc ds s r t] by (simp add: persisted_def)

lemma andthen_from:
  assumes "exec_step origin holds s (snd (m s))"
    and "\<And>x t. m s = (Inr x, t) \<Longrightarrow> exec_step origin holds t (snd (f x t))"
  shows "exec_step origin holds s (snd (andthen m f s))"
  using assms by (auto simp: andthen_def split: prod.splits sum.splits intro: exec_step.trans)

lemma from_steps: "steps R m \<Longrightarrow> R s (snd (m s))"
  by (simp add: steps_def)

lemma place_protective_stop_step:
  assumes "truthful broker holds"
    and "\<And>q c. build_partial_fill_protective_stop dumps request q = Inr c \<Longrightarrow> origin c"
  shows "steps (exec_step origin holds) (place_protective_stop dumps broker request now command final_parent)"
proof (cases "build_partial_fill_protective_stop dumps request \<lfloor>bo_filled_quantity final_parent\<rfloor>")
  case (Inl e)
  then show ?thesis
    by (simp add: place_protective_stop_def exec_step.steps_raise)
next
  case (Inr c)
  note o = assms(2) [OF Inr]
  have rest: "exec_step origin holds t (snd (andthen (record_event dumps request ty now None (Some c) []) (\<lambda>_.
      andthen (protective_order broker c) f) t))" if "persisted t c" and "\<And>x. steps (exec_step origin holds) (f x)" for t ty f
    by (intro andthen_from from_steps [OF record_event_step] protective_order_step
        persisted_after_event [OF that(1)] o assms(1) from_steps [OF that(2)])
  have body: "steps (exec_step origin holds) (andthen (repository_op (save_command c)) (\<lambda>_.
      andthen (record_event dumps request ty now None (Some c) []) (\<lambda>_. andthen (protective_order broker c) f)))"
    if "\<And>x. steps (exec_step origin holds) (f x)" for ty f
    by (rule exec_step.steps_andthen_from [OF repository_op_step])
      (auto intro: save_command_grows rest save_command_persists that)
  show ?thesis
    unfolding place_protective_stop_def Inr map_sum.simps from_result_simps ret_andthen id_apply
    by (rule body) (intro exec_steps)
qed

lemma protect_partial_fill_step:
  assumes "truthful broker holds"
    and "\<And>q c. build_partial_fill_protective_stop dumps request q = Inr c \<Longrightarrow> origin c"
  shows "steps (exec_step origin holds) (protect_partial_fill dumps broker request now command order)"
  unfolding protect_partial_fill_def
  by (intro exec_steps place_protective_stop_step [OF assms])

lemma handle_trade_update_step:
  assumes "truthful broker holds"
    and "\<And>q c. build_partial_fill_protective_stop dumps request q = Inr c \<Longrightarrow> origin c"
  shows "steps (exec_step origin holds) (handle_trade_update dumps broker request update)"
  unfolding handle_trade_update_def Let_def except_when_def
  by (intro exec_steps protect_partial_fill_step [OF assms])

lemma cancel_stale_entry_step:
  "steps (exec_step origin holds) (cancel_stale_entry dumps broker request order now)"
  unfolding cancel_stale_entry_def Let_def by (intro exec_steps)

lemma acknowledge_step:
  assumes "truthful broker holds"
    and "\<And>q c. build_partial_fill_protective_stop dumps request q = Inr c \<Longrightarrow> origin c"
  shows "steps (exec_step origin holds) (acknowledge dumps broker request now command success order)"
  unfolding acknowledge_def Let_def
  by (intro exec_steps handle_trade_update_step [OF assms])

lemma reject_step: "steps (exec_step origin holds) (reject dumps request reason now)"
  unfolding reject_def by (intro exec_steps)

lemma catch_from:
  assumes "exec_step origin holds s (snd (m s))" and "\<And>e. steps (exec_step origin holds) (h e)"
  shows "exec_step origin holds s (snd (catch m h s))"
  using assms by (auto simp: catch_def steps_def split: prod.splits sum.splits intro: exec_step.trans)

lemma after_failed_submit_step:
  "steps (exec_step origin holds) (after_failed_submit dumps broker request now c transient)"
  unfolding after_failed_submit_def except_when_def by (intro exec_steps)

lemma try_submit_step:
  assumes "ready origin holds c s"
  shows "exec_step origin holds s (snd (try_submit dumps broker request now c s))"
  unfolding try_submit_def
  by (intro catch_from andthen_from submit_order_step assms from_steps [OF exec_step.steps_ret])
    (auto intro: after_failed_submit_step exec_step.steps_raise split: exec_error.split)

lemma submit_new_step:
  assumes "truthful broker holds"
    and "\<And>q c. build_partial_fill_protective_stop dumps request q = Inr c \<Longrightarrow> origin c"
    and "ready origin holds c s"
  shows "exec_step origin holds s (snd (submit_new dumps broker request now c s))"
  unfolding submit_new_def
  by (intro andthen_from from_steps [OF record_event_step] try_submit_step ready_after_event [OF assms(3)])
    (auto simp: ret_def exec_step.refl intro: from_steps [OF acknowledge_step [OF assms(1,2)]] split: sum.splits)

lemma first_lookup_step: "steps (exec_step origin holds) (first_lookup dumps broker request now c)"
  unfolding first_lookup_def
  by (intro exec_step.steps_catch exec_steps) (auto intro!: exec_steps split: exec_error.split)

lemma first_lookup_None:
  assumes "first_lookup dumps broker request now c s = (Inr (Inr None), t)"
  shows "lookup_order broker (bc_client_order_id c) s = (Inl BrokerNotFound, t)"
  using assms by (auto simp: first_lookup_def effect_defs split: sum.splits prod.splits exec_error.splits)

lemma submit_command_step:
  assumes "truthful broker holds"
    and "\<And>q c. build_partial_fill_protective_stop dumps request q = Inr c \<Longrightarrow> origin c"
    and "origin c"
  shows "steps (exec_step origin holds) (submit_command dumps broker request now c)"
proof -
  let ?rest = "\<lambda>answer. case answer of Inl result \<Rightarrow> ret result
    | Inr (Some existing) \<Rightarrow> acknowledge dumps broker request now c EO_EXISTING_RECONCILED existing
    | Inr None \<Rightarrow> submit_new dumps broker request now c"
  have answer: "exec_step origin holds s (snd (?rest answer s))"
    if "answer = Inr None \<Longrightarrow> ready origin holds c s" for answer s
    using that submit_new_step [OF assms(1,2)] from_steps [OF acknowledge_step [OF assms(1,2)]]
    by (auto simp: ret_def exec_step.refl split: sum.splits option.splits)
  have looked: "exec_step origin holds s (snd (andthen (first_lookup dumps broker request now c) ?rest s))"
    if "persisted s c" for s
    by (intro andthen_from from_steps [OF first_lookup_step] answer
        lookup_not_found [where origin = origin, OF assms(1,3) that])
      (auto intro: first_lookup_None)
  have saved: "steps (exec_step origin holds) (andthen (repository_op (save_command c)) (\<lambda>_.
      andthen (record_event dumps request ty now None (Some c) []) (\<lambda>_.
      andthen (record_event dumps request ty' now None (Some c) []) f)))"
    if "\<And>x s. persisted s c \<Longrightarrow> exec_step origin holds s (snd (f x s))" for ty ty' f
    by (rule exec_step.steps_andthen_from [OF repository_op_step])
      (auto intro!: save_command_grows andthen_from from_steps [OF record_event_step] that
        intro: persisted_after_event [OF persisted_after_event [OF save_command_persists]])
  show ?thesis
    unfolding submit_command_def
    by (intro exec_step.steps_andthen exec_step.steps_gets exec_step.steps_if finish_step saved looked)
qed

text \<open>After the request is saved, the rest of a submission takes steps too.\<close>

lemma submit_rest:
  assumes "truthful broker holds"
    and "\<And>q c. build_partial_fill_protective_stop dumps request q = Inr c \<Longrightarrow> origin c"
    and "\<And>c. build_entry_command dumps request now = Inr c \<Longrightarrow> origin c"
  obtains f where "submit dumps broker request now = andthen (repository_op (save_request request)) f"
    "\<And>u. steps (exec_step origin holds) (f u)"
proof (rule that)
  show "submit dumps broker request now = andthen (repository_op (save_request request)) (\<lambda>_.
     andthen (record_event dumps request EE_REQUEST_ACCEPTED now None None []) (\<lambda>_.
     if xp_mode (xr_policy request) \<noteq> MODE_PAPER \<or> xp_allow_live_execution (xr_policy request)
     then reject dumps request PAPER_MODE_REQUIRED now
     else
       let request_age_ms = flt (total_seconds now (xr_requested_at request) * 1000) in
       if request_age_ms < 0 \<or> request_age_ms > of_int (xp_max_request_age_ms (xr_policy request))
       then reject dumps request REQUEST_STALE now
       else case build_entry_command dumps request now of
         Inl e \<Rightarrow>
           if is_value_error (PyError e) then reject dumps request (rejection_reason (error_message e)) now
           else raise (PyError e)
       | Inr command \<Rightarrow> submit_command dumps broker request now command))" (is "_ = andthen _ ?f")
    by (simp add: submit_def)
  have "steps (exec_step origin holds) (case build_entry_command dumps request now of
         Inl e \<Rightarrow>
           if is_value_error (PyError e) then reject dumps request (rejection_reason (error_message e)) now
           else raise (PyError e)
       | Inr command \<Rightarrow> submit_command dumps broker request now command)"
    by (cases "build_entry_command dumps request now")
      (auto intro: reject_step exec_step.steps_raise submit_command_step assms)
  then show "steps (exec_step origin holds) (?f u)" for u
    unfolding Let_def
    by (intro exec_step.steps_andthen exec_step.steps_if reject_step record_event_step)
qed

lemma submit_step:
  assumes "truthful broker holds"
    and "\<And>q c. build_partial_fill_protective_stop dumps request q = Inr c \<Longrightarrow> origin c"
    and "\<And>c. build_entry_command dumps request now = Inr c \<Longrightarrow> origin c"
  shows "steps (exec_step origin holds) (submit dumps broker request now)"
proof -
  obtain f where f: "submit dumps broker request now = andthen (repository_op (save_request request)) f"
    "\<And>u. steps (exec_step origin holds) (f u)" using submit_rest [of broker holds dumps request origin now] assms by metis
  show ?thesis
    unfolding f(1) by (intro exec_step.steps_andthen repository_op_step save_request_grows f(2))
qed

end
