(* ===== verification/Execution_Properties.thy ===== *)
theory Execution_Properties
  imports Execution_Safety
begin

text \<open>
  The safety properties of the execution service over its whole history, and the behaviour of
  trade updates and of the cancellation of stale entries.
\<close>

section \<open>Histories\<close>

text \<open>
  The states that a service can reach from an empty repository: by any call of its public
  methods with any argument, whether the call returns or raises, and by any change on the
  broker's side between two calls.
\<close>

inductive exec_history :: "exec_dumps \<Rightarrow> 'b broker_client \<Rightarrow> 'b exec_state \<Rightarrow> bool"
    for dumps broker where
  started: "exec_history dumps broker
    \<lparr>es_repository = empty_execution_repository, es_reservation_events = [], es_broker = b, es_calls = []\<rparr>"
| market: "exec_history dumps broker s \<Longrightarrow> exec_history dumps broker (s\<lparr>es_broker := b\<rparr>)"
| submitted: "exec_history dumps broker s \<Longrightarrow> submit dumps broker request now s = (r, t) \<Longrightarrow>
    exec_history dumps broker t"
| updated: "exec_history dumps broker s \<Longrightarrow> handle_trade_update dumps broker request update s = (r, t) \<Longrightarrow>
    exec_history dumps broker t"
| canceled: "exec_history dumps broker s \<Longrightarrow> cancel_stale_entry dumps broker request order now s = (r', t) \<Longrightarrow>
    exec_history dumps broker t"

text \<open>Where a command may come from.\<close>

definition built :: "exec_dumps \<Rightarrow> broker_order_command \<Rightarrow> bool" where
  "built dumps c \<longleftrightarrow>
     (\<exists>request now. build_entry_command dumps request now = Inr c) \<or>
     (\<exists>request q. build_partial_fill_protective_stop dumps request q = Inr c)"

definition sound_state ::
    "exec_dumps \<Rightarrow> ('b \<Rightarrow> string \<Rightarrow> bool) \<Rightarrow> 'b exec_state \<Rightarrow> bool" where
  "sound_state dumps holds s \<longleftrightarrow>
     exec_events.contiguous (es_repository s) \<and> calls_ok (built dumps) holds s (es_calls s)"

lemma repo_grows_contiguous: "repo_grows r q \<Longrightarrow> exec_events.contiguous r \<Longrightarrow> exec_events.contiguous q"
  by (simp add: repo_grows_def)

lemma sound_state_step:
  assumes "sound_state dumps holds s" and "exec_step (built dumps) holds s t"
  shows "sound_state dumps holds t"
  using assms by (auto simp: sound_state_def exec_step_def intro: calls_ok_append [of _ _ s] repo_grows_contiguous)

lemma exec_history_sound:
  assumes "truthful broker holds" and "exec_history dumps broker s"
  shows "sound_state dumps holds s"
  using assms(2)
proof (induction rule: exec_history.induct)
  case (started b)
  show ?case
    by (simp add: sound_state_def exec_events.contiguous_def read_defs log_items_def
        empty_execution_repository_def calls_ok_def)
next
  case (market s b)
  then show ?case by (simp add: sound_state_def calls_ok_def)
next
  case (submitted s request now r t)
  have "exec_step (built dumps) holds s t"
    by (rule stepsD [OF submit_step submitted(2)]) (auto simp: built_def assms(1))
  then show ?case by (rule sound_state_step [OF submitted.IH])
next
  case (updated s request update r t)
  have "exec_step (built dumps) holds s t"
    by (rule stepsD [OF handle_trade_update_step updated(2)]) (auto simp: built_def assms(1))
  then show ?case by (rule sound_state_step [OF updated.IH])
next
  case (canceled s request order now r' t)
  show ?case
    by (rule sound_state_step [OF canceled.IH stepsD [OF cancel_stale_entry_step canceled(2)]])
qed

lemma sent_iff: "(c, x) \<in> set (sent calls) \<longleftrightarrow> (CallSubmit c, x) \<in> set calls"
  by (induction calls) (auto simp: sent_def split: broker_call.splits)

lemma truthful_trivial: "truthful broker (\<lambda>_ _. False)"
  by (simp add: truthful_def)

lemma sent_facts:
  assumes "truthful broker holds" and "exec_history dumps broker s" and "(CallSubmit c, b, r) \<in> set (es_calls s)"
  shows "built dumps c" "get_command_by_client_order_id r (bc_client_order_id c) = Some c"
    "repo_grows r (es_repository s)" "\<not> holds b (bc_client_order_id c)"
  using exec_history_sound [OF assms(1,2)] assms(3)
  by (auto simp: sound_state_def calls_ok_def sent_iff [symmetric])

lemma repo_grows_command:
  "repo_grows r q \<Longrightarrow> get_command_by_client_order_id r i = Some c \<Longrightarrow> get_command_by_client_order_id q i = Some c"
  by (auto simp: repo_grows_def map_le_def dom_def)

text \<open>
  Claim C1. Write-ahead: over any history of the service, at the moment an order is sent to the
  broker the repository holds it under its client order identifier, and it holds it unchanged
  ever after.
\<close>

theorem write_ahead:
  assumes "exec_history dumps broker s" and "(CallSubmit c, b, r) \<in> set (es_calls s)"
  shows "get_command_by_client_order_id r (bc_client_order_id c) = Some c \<and>
    get_command_by_client_order_id (es_repository s) (bc_client_order_id c) = Some c"
  using sent_facts(2,3) [OF truthful_trivial assms] repo_grows_command by blast

text \<open>
  Claim C2. No duplicate order: if the broker only answers that an identifier is unknown when
  it holds no order of that identifier, then over any history every order was sent at a moment
  when the broker held none under the same identifier.
\<close>

theorem never_duplicates:
  assumes "truthful broker holds" and "exec_history dumps broker s" and "(CallSubmit c, b, r) \<in> set (es_calls s)"
  shows "\<not> holds b (bc_client_order_id c)"
  by (rule sent_facts(4) [OF assms])

text \<open>
  Over any history the events of each execution are numbered 1, 2, 3, and so on,
  without a gap.
\<close>

theorem events_contiguous:
  assumes "exec_history dumps broker s"
  shows "map ev_event_sequence (list_events (es_repository s) k) =
    map (\<lambda>i. int i + 1) [0..<length (list_events (es_repository s) k)]"
  using exec_history_sound [OF truthful_trivial assms]
  by (auto simp: sound_state_def exec_events.contiguous_def numbered_def intro: nth_equalityI)

section \<open>What is sent\<close>

text \<open>
  An entry that may be sent: a buy bracket for exactly the reserved quantity of an approved
  decision, with stop below limit below target, built before the cutoff and the expiry.
\<close>

definition admissible_entry :: "execution_request \<Rightarrow> timestamp \<Rightarrow> broker_order_command \<Rightarrow> bool" where
  "admissible_entry request now c \<longleftrightarrow>
     (let d = xr_risk_decision request in
      \<exists>x l tp sl. rd_decision d = RD_APPROVED \<and> rd_reservation d = Some x \<and> rr_status x = RES_RESERVED \<and>
        now \<le> xr_submission_cutoff_timestamp request \<and> now < rr_expires_at x \<and>
        bc_client_order_id c = rr_client_order_id x \<and> bc_quantity c = rr_reserved_quantity x \<and>
        0 < bc_quantity c \<and> bc_symbol c = rd_ticker d \<and> bc_side c = BUY \<and>
        bc_order_class c = OC_BRACKET \<and> bc_order_type c = OT_LIMIT \<and>
        rd_planned_entry_limit d = Some l \<and> rd_stop_price d = Some sl \<and> rd_target_price d = Some tp \<and>
        bc_limit_price c = Some l \<and> bc_stop_loss_stop_price c = Some sl \<and>
        bc_take_profit_limit_price c = Some tp \<and> sl < l \<and> l < tp)"

lemma entry_admissible:
  assumes "build_entry_command dumps request now = Inr c"
  shows "admissible_entry request now c"
proof (rule build_entry_Inr [OF assms])
  fix x
  assume a: "rd_reservation (xr_risk_decision request) = Some x"
    "rd_decision (xr_risk_decision request) = RD_APPROVED" "rr_status x = RES_RESERVED"
    "now \<le> xr_submission_cutoff_timestamp request" "now < rr_expires_at x"
    "rd_final_quantity (xr_risk_decision request) = rr_reserved_quantity x"
    "bc_client_order_id c = rr_client_order_id x"
    "bc_quantity c = rd_final_quantity (xr_risk_decision request)"
    "bc_symbol c = rd_ticker (xr_risk_decision request)"
    "bc_side c = BUY" "bc_order_class c = OC_BRACKET" "bc_order_type c = OT_LIMIT"
    "bc_limit_price c = rd_planned_entry_limit (xr_risk_decision request)"
    "bc_stop_loss_stop_price c = rd_stop_price (xr_risk_decision request)"
    "bc_take_profit_limit_price c = rd_target_price (xr_risk_decision request)"
    and v: "valid_command_fields c" "validate_shape c = None"
  have "0 < bc_quantity c" using v(1) by (simp add: valid_command_fields_def)
  moreover have "\<exists>l tp sl. bc_limit_price c = Some l \<and> bc_stop_loss_stop_price c = Some sl \<and>
      bc_take_profit_limit_price c = Some tp \<and> sl < l \<and> l < tp"
    using v(2) a(11) by (auto simp: validate_shape_def split: option.splits if_splits)
  ultimately show ?thesis unfolding admissible_entry_def Let_def using a by auto
qed

definition protective_stop :: "execution_request \<Rightarrow> broker_order_command \<Rightarrow> bool" where
  "protective_stop request c \<longleftrightarrow>
     (let d = xr_risk_decision request in
      \<exists>x sl. rd_reservation d = Some x \<and> rd_stop_price d = Some sl \<and> 0 < bc_quantity c \<and>
        bc_client_order_id c = protective_client_order_id (rr_client_order_id x) \<and>
        bc_symbol c = rd_ticker d \<and> bc_side c = SELL \<and> bc_order_type c = OT_STOP \<and>
        bc_order_class c = OC_SIMPLE \<and> bc_stop_price c = Some sl \<and> bc_limit_price c = None)"

lemma stop_protective:
  assumes "build_partial_fill_protective_stop dumps request q = Inr c"
  shows "protective_stop request c" "bc_quantity c = q"
  using assms by (auto elim!: build_stop_Inr simp: protective_stop_def)


text \<open>
  A submission at a given time sends nothing but the entry of its own request, at
  that time admissible, and protective stops of the same request.
\<close>

theorem submit_sends_own_orders:
  assumes "submit dumps broker request now s = (result, t)"
    and "(CallSubmit c, b, r) \<in> set (drop (length (es_calls s)) (es_calls t))"
  shows "admissible_entry request now c \<or> protective_stop request c"
proof -
  have "exec_step (\<lambda>c. admissible_entry request now c \<or> protective_stop request c) (\<lambda>_ _. False) s t"
    by (rule stepsD [OF submit_step assms(1)])
      (auto simp: truthful_trivial entry_admissible stop_protective)
  then show ?thesis using assms(2) by (auto simp: exec_step_def calls_ok_def sent_iff [symmetric])
qed

end
