(* ===== verification/Execution_Results.thy ===== *)
theory Execution_Results
  imports Execution_Properties
begin

text \<open>
  What the results of the execution service say: every result that is returned was stored with
  the complete event log, passes the shape check of its model, and its outcome is justified by
  the broker's answers; and the behaviour of repeated trade updates, stale entries and
  reconciliation.
\<close>

section \<open>Results\<close>

lemma result_of_simps [simp]:
  "er_outcome (result_of dumps request oc rs c x p f ts evs) = oc"
  "er_rejection_reasons (result_of dumps request oc rs c x p f ts evs) = rs"
  "er_command (result_of dumps request oc rs c x p f ts evs) = c"
  "er_broker_order (result_of dumps request oc rs c x p f ts evs) = x"
  "er_protective_order (result_of dumps request oc rs c x p f ts evs) = p"
  "er_reconciliation_required (result_of dumps request oc rs c x p f ts evs) = f"
  "er_events (result_of dumps request oc rs c x p f ts evs) = evs"
  "er_execution_id (result_of dumps request oc rs c x p f ts evs) = xr_execution_id request"
  by (simp_all add: result_of_def Let_def)

text \<open>A stored result with the complete event log of its execution.\<close>

definition stored_with_log :: "execution_request \<Rightarrow> execution_result \<Rightarrow> 'b exec_state \<Rightarrow> bool" where
  "stored_with_log request r t \<longleftrightarrow>
     er_execution_id r = xr_execution_id request \<and> terminal_shape r = None \<and>
     stored_result (es_repository t) (er_result_id r) = Some r \<and>
     er_events r = list_events (es_repository t) (xr_execution_id request)"

lemma save_result_events: "save_result x r = Inr q \<Longrightarrow> list_events q = list_events r"
  by (auto simp: save_result_def map_sum_Inr read_defs fun_eq_iff)

lemma finish_cases:
  assumes "finish dumps request oc rs c x p f ts s = (r, t)"
  defines "y \<equiv> result_of dumps request oc rs c x p f ts (list_events (es_repository s) (xr_execution_id request))"
  obtains (returned) q where "terminal_shape y = None" "save_result y (es_repository s) = Inr q"
      "r = Inr y" "t = s\<lparr>es_repository := q\<rparr>"
  | (malformed) e where "terminal_shape y = Some e" "r = Inl (PyError (ValidationError e))" "t = s"
  | (refused) err where "save_result y (es_repository s) = Inl err" "r = Inl (PyError err)" "t = s"
proof (cases "terminal_shape y")
  case None
  then have run: "andthen (repository_op (save_result y)) (\<lambda>_. ret y) s = (r, t)"
    using assms(1) by (simp add: finish_def andthen_def gets_def y_def Let_def)
  show ?thesis
  proof (cases "save_result y (es_repository s)")
    case (Inl err)
    then show ?thesis
      using run by (intro refused) (auto simp: andthen_def repository_op_def update_or_raise_def)
  next
    case (Inr q)
    then show ?thesis
      using run None by (intro returned) (auto simp: andthen_def repository_op_def update_or_raise_def ret_def)
  qed
next
  case (Some e)
  then show ?thesis
    using assms(1) by (intro malformed) (auto simp: finish_def andthen_def gets_def y_def raise_def Let_def)
qed

lemma yields_finish:
  assumes "\<And>evs. P (result_of dumps request oc rs c x p f ts evs)"
  shows "yields (\<lambda>r t. stored_with_log request r t \<and> P r) (finish dumps request oc rs c x p f ts)"
  unfolding yields_def
proof (intro allI impI)
  fix s r t
  assume "finish dumps request oc rs c x p f ts s = (Inr r, t)"
  then show "stored_with_log request r t \<and> P r"
    using assms
    by (cases rule: finish_cases)
      (auto simp: stored_with_log_def save_result_events exec_results.saved)
qed

text \<open>What justifies a successful outcome.\<close>

definition justified :: "exec_dumps \<Rightarrow> execution_request \<Rightarrow> timestamp \<Rightarrow> execution_result \<Rightarrow> bool" where
  "justified dumps request now r \<longleftrightarrow>
     (er_outcome r = EO_SUBMITTED \<longrightarrow>
       (\<exists>c x. build_entry_command dumps request now = Inr c \<and> er_command r = Some c \<and>
         er_broker_order r = Some x \<and> matches c x \<and> \<not> terminal_rejection x \<and>
         \<not> broker_state_requires_reconciliation x)) \<and>
     (er_outcome r = EO_PARTIAL_FILL_PROTECTED \<longrightarrow>
       (\<exists>c p y. build_partial_fill_protective_stop dumps request \<lfloor>bo_filled_quantity p\<rfloor> = Inr c \<and>
         is_integral (bo_filled_quantity p) \<and> bo_status p = OS_CANCELED \<and>
         er_broker_order r = Some p \<and> er_protective_order r = Some y \<and> matches c y))"

definition result_post ::
    "exec_dumps \<Rightarrow> execution_request \<Rightarrow> timestamp \<Rightarrow> execution_result \<Rightarrow> 'b exec_state \<Rightarrow> bool" where
  "result_post dumps request now r t \<longleftrightarrow> stored_with_log request r t \<and> justified dumps request now r"

lemma yields_finish_other:
  "oc \<noteq> EO_SUBMITTED \<Longrightarrow> oc \<noteq> EO_PARTIAL_FILL_PROTECTED \<Longrightarrow>
   yields (result_post dumps request now) (finish dumps request oc rs c x p f ts)"
  unfolding result_post_def by (rule yields_finish) (simp add: justified_def)

lemma place_protective_stop_yields:
  assumes "bo_status p = OS_CANCELED" and "is_integral (bo_filled_quantity p)"
  shows "yields (result_post dumps request n) (place_protective_stop dumps broker request now command p)"
proof (cases "build_partial_fill_protective_stop dumps request \<lfloor>bo_filled_quantity p\<rfloor>")
  case (Inl e)
  then show ?thesis by (simp add: place_protective_stop_def yields_raise)
next
  case (Inr c)
  have "yields (result_post dumps request n) (finish dumps request EO_PARTIAL_FILL_PROTECTED [] (Some command)
      (Some p) (Some y) True now)" if "matches c y" for y
    unfolding result_post_def by (rule yields_finish) (use assms Inr that in \<open>auto simp: justified_def\<close>)
  then show ?thesis
    unfolding place_protective_stop_def Inr map_sum.simps from_result_simps ret_andthen id_apply
    by (intro yields_andthen yields_if yields_raise) simp_all
qed

lemma protect_partial_fill_yields:
  "yields (result_post dumps request n) (protect_partial_fill dumps broker request now command order)"
  unfolding protect_partial_fill_def
  by (intro yields_andthen yields_if yields_raise yields_finish_other place_protective_stop_yields) simp_all

lemma handle_trade_update_yields:
  "yields (result_post dumps request n) (handle_trade_update dumps broker request update)"
  unfolding handle_trade_update_def Let_def except_when_def
  by (intro yields_andthen, split option.split, intro conjI impI allI yields_andthen yields_if yields_raise
      yields_catch yields_finish_other protect_partial_fill_yields) simp_all

lemma acknowledge_yields:
  assumes "success \<in> {EO_SUBMITTED, EO_EXISTING_RECONCILED}"
    and "build_entry_command dumps request now = Inr c"
  shows "yields (result_post dumps request now) (acknowledge dumps broker request now c success order)"
proof -
  have fin: "yields (result_post dumps request now) (finish dumps request success [] (Some c) (Some order) None False now)"
    if "matches c order" "\<not> terminal_rejection order" "\<not> broker_state_requires_reconciliation order"
    unfolding result_post_def by (rule yields_finish) (use assms that in \<open>auto simp: justified_def\<close>)
  show ?thesis
    unfolding acknowledge_def Let_def
    by (intro yields_andthen yields_if yields_raise fin yields_finish_other handle_trade_update_yields) simp_all
qed

lemma reject_yields: "yields (result_post dumps request n) (reject dumps request reason now)"
  unfolding reject_def by (intro yields_andthen yields_finish_other) simp_all

text \<open>
  A block that may end with a result or go on: \<open>Inl\<close> an early result, \<open>Inr\<close> a value for the rest.
\<close>

lemma yields_answer:
  assumes "yields (\<lambda>a t. \<forall>r. a = Inl r \<longrightarrow> Q r t) m" and "\<And>x. yields Q (g x)"
  shows "yields Q (andthen m (\<lambda>a. case a of Inl r \<Rightarrow> ret r | Inr x \<Rightarrow> g x))"
  using assms by (auto simp: yields_def andthen_def ret_def split: prod.splits sum.splits)

lemma yields_early: "yields Q m \<Longrightarrow> yields (\<lambda>a t. \<forall>r. a = Inl r \<longrightarrow> Q r t) (andthen m (\<lambda>r. ret (Inl r)))"
  by (auto simp: yields_def andthen_def ret_def split: prod.splits sum.splits)

lemma yields_go_on: "yields (\<lambda>a t. \<forall>r. a = Inl r \<longrightarrow> Q r t) (andthen m (\<lambda>x. ret (Inr (f x))))"
  by (auto simp: yields_def andthen_def ret_def split: prod.splits sum.splits)

lemma yields_ret_Inr: "yields (\<lambda>a t. \<forall>r. a = Inl r \<longrightarrow> Q r t) (ret (Inr x))"
  by (simp add: yields_def ret_def)

lemma try_submit_yields:
  "yields (\<lambda>a t. \<forall>r. a = Inl r \<longrightarrow> result_post dumps request n r t) (try_submit dumps broker request now c)"
proof -
  have "yields (\<lambda>a t. \<forall>r. a = Inl r \<longrightarrow> result_post dumps request n r t)
      (after_failed_submit dumps broker request now c tr)" for tr
    unfolding after_failed_submit_def except_when_def
    by (intro yields_if yields_catch [OF yields_go_on] yields_raise yields_andthen yields_early yields_finish_other) simp_all
  then show ?thesis
    unfolding try_submit_def
    by (intro yields_catch [OF yields_go_on]) (auto intro: yields_raise split: exec_error.split)
qed

lemma first_lookup_yields:
  "yields (\<lambda>a t. \<forall>r. a = Inl r \<longrightarrow> result_post dumps request n r t) (first_lookup dumps broker request now c)"
  unfolding first_lookup_def
  by (intro yields_catch [OF yields_go_on])
    (auto intro: yields_raise yields_ret_Inr yields_early yields_finish_other split: exec_error.split)

lemma submit_new_yields:
  assumes "build_entry_command dumps request now = Inr c"
  shows "yields (result_post dumps request now) (submit_new dumps broker request now c)"
  unfolding submit_new_def
  by (intro yields_andthen yields_answer try_submit_yields acknowledge_yields [OF _ assms]) simp

lemma submit_command_yields:
  assumes "build_entry_command dumps request now = Inr c"
  shows "yields (result_post dumps request now) (submit_command dumps broker request now c)"
proof -
  have rest: "yields (result_post dumps request now) (case x of
        Some existing \<Rightarrow> acknowledge dumps broker request now c EO_EXISTING_RECONCILED existing
      | None \<Rightarrow> submit_new dumps broker request now c)" for x
    by (cases x) (auto intro: acknowledge_yields [OF _ assms] submit_new_yields [OF assms])
  show ?thesis
    unfolding submit_command_def
    by (intro yields_andthen yields_if yields_finish_other yields_answer first_lookup_yields rest) simp_all
qed

lemma submit_yields: "yields (result_post dumps request now) (submit dumps broker request now)"
  unfolding submit_def Let_def
  by (intro yields_andthen yields_if reject_yields, split sum.split)
    (auto intro: reject_yields yields_raise submit_command_yields)

section \<open>Theorems on results\<close>

lemma length_filter_1: "length (filter P xs) = 1 \<Longrightarrow> \<exists>x \<in> set xs. P x"
  by (metis filter_empty_conv length_0_conv zero_neq_one)

lemma matches_fields:
  assumes "matches c x"
  shows "bo_client_order_id x = bc_client_order_id c" "bo_symbol x = bc_symbol c" "bo_side x = bc_side c"
    "bo_order_type x = bc_order_type c" "bo_quantity x = of_int (bc_quantity c)"
    "bc_limit_price c \<noteq> None \<Longrightarrow> bo_limit_price x = bc_limit_price c"
    "bc_stop_price c \<noteq> None \<Longrightarrow> bo_stop_price x = bc_stop_price c"
  using assms by (auto simp: matches_def Let_def split: if_splits)

lemma matches_legs:
  assumes "matches c x" and "bc_order_class c = OC_BRACKET"
  shows "length (bo_legs x) = 2"
    "\<exists>l \<in> set (bo_legs x). bl_side l = ''sell'' \<and> bl_order_type l = ''limit'' \<and>
      bl_limit_price l = bc_take_profit_limit_price c \<and> bl_quantity l = of_int (bc_quantity c)"
    "\<exists>l \<in> set (bo_legs x). bl_side l = ''sell'' \<and> bl_order_type l \<in> {''stop'', ''stop_limit''} \<and>
      bl_stop_price l = bc_stop_loss_stop_price c \<and> bl_quantity l = of_int (bc_quantity c)"
proof -
  have "length (bo_legs x) = 2 \<and>
      length (filter (\<lambda>l. bl_side l = ''sell'' \<and> bl_order_type l = ''limit'' \<and>
        bl_limit_price l = bc_take_profit_limit_price c \<and> bl_quantity l = of_int (bc_quantity c)) (bo_legs x)) = 1 \<and>
      length (filter (\<lambda>l. bl_side l = ''sell'' \<and> bl_order_type l \<in> {''stop'', ''stop_limit''} \<and>
        bl_stop_price l = bc_stop_loss_stop_price c \<and> bl_quantity l = of_int (bc_quantity c)) (bo_legs x)) = 1"
    using assms unfolding matches_def Let_def by (simp split: if_splits)
  then show "length (bo_legs x) = 2"
    "\<exists>l \<in> set (bo_legs x). bl_side l = ''sell'' \<and> bl_order_type l = ''limit'' \<and>
      bl_limit_price l = bc_take_profit_limit_price c \<and> bl_quantity l = of_int (bc_quantity c)"
    "\<exists>l \<in> set (bo_legs x). bl_side l = ''sell'' \<and> bl_order_type l \<in> {''stop'', ''stop_limit''} \<and>
      bl_stop_price l = bc_stop_loss_stop_price c \<and> bl_quantity l = of_int (bc_quantity c)"
    by (blast dest: length_filter_1)+
qed

text \<open>
  Claim C4. When a submission reports success, the broker acknowledged exactly the bracket that
  the decision plans: the entry is admissible, the order has its symbol, quantity and limit
  price, and it has two legs, a sell at the target and a sell stop at the stop price, each for
  the whole quantity.
\<close>

theorem submitted_bracket_complete:
  assumes "submit dumps broker request now s = (Inr r, t)" and "er_outcome r = EO_SUBMITTED"
  shows "\<exists>c x. er_command r = Some c \<and> er_broker_order r = Some x \<and> admissible_entry request now c \<and>
    bo_symbol x = bc_symbol c \<and> bo_side x = BUY \<and> bo_quantity x = of_int (bc_quantity c) \<and>
    bo_limit_price x = rd_planned_entry_limit (xr_risk_decision request) \<and> length (bo_legs x) = 2 \<and>
    (\<exists>l \<in> set (bo_legs x). bl_side l = ''sell'' \<and> bl_order_type l = ''limit'' \<and>
      bl_limit_price l = rd_target_price (xr_risk_decision request) \<and> bl_quantity l = bo_quantity x) \<and>
    (\<exists>l \<in> set (bo_legs x). bl_side l = ''sell'' \<and> bl_order_type l \<in> {''stop'', ''stop_limit''} \<and>
      bl_stop_price l = rd_stop_price (xr_risk_decision request) \<and> bl_quantity l = bo_quantity x)"
proof -
  have "justified dumps request now r"
    using yieldsD [OF submit_yields assms(1)] by (simp add: result_post_def)
  then obtain c x where c: "build_entry_command dumps request now = Inr c" "er_command r = Some c"
    "er_broker_order r = Some x" and m: "matches c x"
    using assms(2) by (auto simp: justified_def)
  note a = entry_admissible [OF c(1)]
  then have p: "bc_side c = BUY" "bc_order_class c = OC_BRACKET"
      "bc_limit_price c = rd_planned_entry_limit (xr_risk_decision request)" "bc_limit_price c \<noteq> None"
      "bc_take_profit_limit_price c = rd_target_price (xr_risk_decision request)"
      "bc_stop_loss_stop_price c = rd_stop_price (xr_risk_decision request)"
    by (auto simp: admissible_entry_def Let_def)
  show ?thesis
    using c(2,3) a matches_fields [OF m] matches_legs [OF m p(2)] p
    by (intro exI [of _ c] exI [of _ x]) auto
qed

lemma protected_from_justified:
  assumes "justified dumps request now r" and "er_outcome r = EO_PARTIAL_FILL_PROTECTED"
  shows "\<exists>p y sl. er_broker_order r = Some p \<and> er_protective_order r = Some y \<and> bo_status p = OS_CANCELED \<and>
    0 < bo_filled_quantity p \<and> bo_quantity y = bo_filled_quantity p \<and> bo_side y = SELL \<and>
    bo_order_type y = OT_STOP \<and> rd_stop_price (xr_risk_decision request) = Some sl \<and> bo_stop_price y = Some sl"
proof -
  obtain c p y where c: "build_partial_fill_protective_stop dumps request \<lfloor>bo_filled_quantity p\<rfloor> = Inr c"
    and i: "is_integral (bo_filled_quantity p)" and o: "bo_status p = OS_CANCELED" "er_broker_order r = Some p"
    "er_protective_order r = Some y" and m: "matches c y"
    using assms by (auto simp: justified_def)
  note st = stop_protective [OF c]
  have q: "bo_quantity y = bo_filled_quantity p" "0 < bo_filled_quantity p"
    using matches_fields(5) [OF m] st i by (auto simp: is_integral_def protective_stop_def Let_def)
  then show ?thesis
    using o st(1) matches_fields [OF m] by (auto simp: protective_stop_def Let_def)
qed

text \<open>
  Claim C6. When a trade update ends with a protected partial fill, the parent order is
  canceled and the broker acknowledged a sell stop for exactly its filled quantity at the stop
  price of the decision.
\<close>

theorem partial_fill_protected:
  assumes "handle_trade_update dumps broker request update s = (Inr r, t)"
    and "er_outcome r = EO_PARTIAL_FILL_PROTECTED"
  shows "\<exists>p y sl. er_broker_order r = Some p \<and> er_protective_order r = Some y \<and> bo_status p = OS_CANCELED \<and>
    0 < bo_filled_quantity p \<and> bo_quantity y = bo_filled_quantity p \<and> bo_side y = SELL \<and>
    bo_order_type y = OT_STOP \<and> rd_stop_price (xr_risk_decision request) = Some sl \<and> bo_stop_price y = Some sl"
  using yieldsD [OF handle_trade_update_yields [of dumps request "tu_event_timestamp update"] assms(1)] assms(2)
  by (intro protected_from_justified) (auto simp: result_post_def)

text \<open>
  Every result that a submission returns is stored under its identifier, contains the
  complete event log of its execution, and has the shape its outcome demands.
\<close>

theorem submit_result_recorded:
  assumes "submit dumps broker request now s = (Inr r, t)"
  shows "stored_result (es_repository t) (er_result_id r) = Some r \<and>
    er_events r = list_events (es_repository t) (xr_execution_id request) \<and> terminal_shape r = None"
  using yieldsD [OF submit_yields assms] by (simp add: result_post_def stored_with_log_def)

section \<open>Repeated trade updates\<close>

lemma finish_frames:
  assumes "finish dumps request oc rs c x p f ts s = (r, t)"
  shows "es_calls t = es_calls s" "es_broker t = es_broker s" "es_reservation_events t = es_reservation_events s"
    "list_events (es_repository t) = list_events (es_repository s)"
  using assms by (cases rule: finish_cases; simp add: save_result_events)+

text \<open>
  A trade update that was claimed before for the same execution and content, as when
  the stream delivers it again, calls the broker for nothing and records no event and no
  reservation status.
\<close>

theorem duplicate_update_inert:
  assumes "map_of (mx_trade_update_ids (es_repository s)) (tu_event_id update) =
      Some (xr_execution_id request, tu_raw_event_hash update)"
    and "handle_trade_update dumps broker request update s = (r, t)"
  shows "es_calls t = es_calls s \<and> es_reservation_events t = es_reservation_events s \<and>
    list_events (es_repository t) = list_events (es_repository s)"
proof -
  obtain oc rs c f where
    "finish dumps request oc rs c (Some (tu_order update)) None f (tu_event_timestamp update) s = (r, t)"
    using assms
    by (simp add: handle_trade_update_def Let_def andthen_def gets_def claim_def claim_trade_update_def
        split: option.splits)
  then show ?thesis using finish_frames by metis
qed

section \<open>Stale entries\<close>

text \<open>
  An entry order is canceled exactly when nothing of it is filled, it is not in a
  final state and its waiting time has passed; otherwise the call changes nothing. When it is
  canceled the broker receives that one cancellation and nothing else.
\<close>

theorem stale_entry_canceled:
  assumes "cancel_stale_entry dumps broker request order now s = (Inr canceled, t)"
  defines "anchor \<equiv> (case bo_submitted_at order of Some a \<Rightarrow> a | None \<Rightarrow> bo_updated_at order)"
  shows "(canceled \<longleftrightarrow> bo_filled_quantity order \<le> 0 \<and>
      bo_status order \<notin> {OS_FILLED, OS_CANCELED, OS_EXPIRED, OS_REJECTED} \<and>
      of_int (xp_cancel_unfilled_after_seconds (xr_policy request)) \<le> total_seconds now anchor) \<and>
    (\<not> canceled \<longrightarrow> t = s) \<and>
    (canceled \<longrightarrow> es_calls t = es_calls s @
      [(CallCancel (bo_broker_order_id order), es_broker s, es_repository s)])"
proof (cases "canceled")
  case True
  then obtain s' e where "cancel_order broker (bo_broker_order_id order) s = (Inr (), s')"
    "record_event dumps request EE_CANCEL_REQUESTED now (Some order) None [] s' = (Inr e, t)"
    "bo_filled_quantity order \<le> 0" "bo_status order \<notin> {OS_FILLED, OS_CANCELED, OS_EXPIRED, OS_REJECTED}"
    "of_int (xp_cancel_unfilled_after_seconds (xr_policy request)) \<le> total_seconds now anchor"
    using assms
    by (auto simp: cancel_stale_entry_def Let_def ret_def andthen_def not_less split: if_splits sum.splits prod.splits)
  then show ?thesis
    using True record_event_frames(2) by (fastforce simp: cancel_order_def broker_op_def split: prod.splits)
next
  case False
  then show ?thesis
    using assms
    by (auto simp: cancel_stale_entry_def Let_def ret_def andthen_def not_less split: if_splits sum.splits prod.splits)
qed

section \<open>Identifiers of protective stops\<close>

text \<open>
  The identifier of a protective stop always fits the broker's limit of 48
  characters, and for parent identifiers of at most 46 characters different parents have
  different stops, whose identifiers differ from their parents'.
\<close>

theorem protective_ids_distinct:
  "length (protective_client_order_id parent) \<le> 48 \<and>
   (length parent \<le> 46 \<longrightarrow> length other \<le> 46 \<longrightarrow>
     (protective_client_order_id parent = protective_client_order_id other \<longleftrightarrow> parent = other)) \<and>
   (length parent \<le> 46 \<longrightarrow> protective_client_order_id parent \<noteq> parent)"
  by (auto simp: protective_client_order_id_def)

section \<open>Reconciliation\<close>

lemma order_mismatches_Nil:
  "order_mismatches c x = [] \<longleftrightarrow> bo_symbol x = bc_symbol c \<and> bo_side x = bc_side c \<and>
     bo_quantity x = of_int (bc_quantity c) \<and> bo_client_order_id x = bc_client_order_id c"
  by (simp add: order_mismatches_def)

text \<open>
  A reconciliation report says that a command matches exactly when the broker returned
  an order for it with the same symbol, side, quantity and identifier; and reconciling calls the
  broker for one lookup and one position and sends nothing.
\<close>

theorem reconcile_exact:
  assumes "reconcile_command dumps broker execution_id c checked_at s = (Inr report, t)"
  shows "(rc_matched report \<longleftrightarrow> (\<exists>x. rc_broker_order report = Some x \<and> bo_symbol x = bc_symbol c \<and>
      bo_side x = bc_side c \<and> bo_quantity x = of_int (bc_quantity c) \<and>
      bo_client_order_id x = bc_client_order_id c)) \<and>
    es_repository t = es_repository s \<and>
    map fst (es_calls t) = map fst (es_calls s) @ [CallLookup (bc_client_order_id c), CallPosition (bc_symbol c)]"
  using assms unfolding reconcile_command_def
  by (auto simp: effect_defs lookup_order_def get_position_def broker_op_def Let_def order_mismatches_Nil
      split: prod.splits sum.splits exec_error.splits option.splits)

end
