(* ===== verification/Execution_Liveness.thy ===== *)
theory Execution_Liveness
  imports Execution_Results
begin

text \<open>
  Submission makes progress: from a consistent repository, a fresh and approved request whose
  order the broker accepts is submitted, in one lookup and one submission; and the only errors
  that can leave a submission.
\<close>

section \<open>Total correctness of the building blocks\<close>

text \<open>A run that returns a value satisfying the postcondition.\<close>

abbreviation returning :: "('s, 'e, 'a) eff \<Rightarrow> ('a \<Rightarrow> 's \<Rightarrow> bool) \<Rightarrow> 's \<Rightarrow> bool" where
  "returning m Q s \<equiv> wp m Q (\<lambda>_ _. False) s"

lemma returning_repository_op:
  "f (es_repository s) = Inr q \<Longrightarrow> Q () (s\<lparr>es_repository := q\<rparr>) \<Longrightarrow> wp (repository_op f) Q E s"
  by (simp add: repository_op_def)

lemma event_of_simps [simp]:
  "ev_event_sequence (event_of dumps request ty ts x c ds n) = n"
  "ev_execution_id (event_of dumps request ty ts x c ds n) = xr_execution_id request"
  "ev_event_type (event_of dumps request ty ts x c ds n) = ty"
  "ev_filled_quantity (event_of dumps request ty ts x c ds n) = map_option bo_filled_quantity x"
  by (simp_all add: event_of_def Let_def)

lemma event_of_valid:
  "1 \<le> n \<Longrightarrow> (\<And>y. x = Some y \<Longrightarrow> 0 \<le> bo_filled_quantity y) \<Longrightarrow> valid_event (event_of dumps request ty ts x c ds n)"
  by (auto simp: valid_event_def event_of_def Let_def split: option.splits)

text \<open>What recording an event or saving a command leaves as it was.\<close>

definition same_but_events :: "'b exec_state \<Rightarrow> 'b exec_state \<Rightarrow> bool" where
  "same_but_events s t \<longleftrightarrow>
     exec_events.contiguous (es_repository t) \<and> es_broker t = es_broker s \<and> es_calls t = es_calls s \<and>
     stored_result (es_repository t) = stored_result (es_repository s)"

lemma same_but_events_trans: "same_but_events s t \<Longrightarrow> same_but_events t u \<Longrightarrow> same_but_events s u"
  by (simp add: same_but_events_def)

lemma returning_record_event:
  assumes "exec_events.contiguous (es_repository s)" and "\<And>y. x = Some y \<Longrightarrow> 0 \<le> bo_filled_quantity y"
    and "\<And>e t. same_but_events s t \<Longrightarrow> get_command_by_client_order_id (es_repository t) =
      get_command_by_client_order_id (es_repository s) \<Longrightarrow> Q e t"
  shows "wp (record_event dumps request ty ts x c ds) Q E s"
proof -
  obtain r t where run: "record_event dumps request ty ts x c ds s = (r, t)"
    by (cases "record_event dumps request ty ts x c ds s")
  let ?n = "next_event_sequence (es_repository s) (xr_execution_id request)"
  let ?e = "event_of dumps request ty ts x c ds ?n"
  have valid: "valid_event ?e" using assms(2) by (intro event_of_valid) (auto simp: next_event_sequence_def)
  obtain q where q: "append_event ?e (es_repository s) = Inr q"
    using exec_events.append_next_succeeds [OF assms(1), of ?e] by auto
  from run have "r = Inr ?e \<and> t = s\<lparr>es_repository := q\<rparr>"
    by (cases rule: record_event_cases) (use valid q in auto)
  moreover have "same_but_events s (s\<lparr>es_repository := q\<rparr>)"
    using append_event_frames [OF q] exec_events.append_contiguous [OF assms(1) q]
    by (simp add: same_but_events_def)
  ultimately show ?thesis
    using assms(3) [of "s\<lparr>es_repository := q\<rparr>" ?e] run append_event_frames [OF q] by (simp add: wp_def)
qed

lemma returning_finish:
  assumes "terminal_shape (result_of dumps request oc rs c x p f ts (list_events (es_repository s) (xr_execution_id request))) = None"
    and "\<And>evs. let y = result_of dumps request oc rs c x p f ts evs in
      stored_result (es_repository s) (er_result_id y) \<in> {None, Some y}"
    and "\<And>r t. r = result_of dumps request oc rs c x p f ts (list_events (es_repository s) (xr_execution_id request)) \<Longrightarrow>
      es_calls t = es_calls s \<Longrightarrow> Q r t"
  shows "wp (finish dumps request oc rs c x p f ts) Q E s"
proof -
  obtain r t where run: "finish dumps request oc rs c x p f ts s = (r, t)"
    by (cases "finish dumps request oc rs c x p f ts s")
  let ?y = "result_of dumps request oc rs c x p f ts (list_events (es_repository s) (xr_execution_id request))"
  obtain q where q: "save_result ?y (es_repository s) = Inr q"
    using exec_results.save_succeeds_iff [of ?y "es_repository s"] assms(2) by (auto simp: Let_def)
  from run have "r = Inr ?y" by (cases rule: finish_cases) (use assms(1) q in auto)
  then show ?thesis using assms(3) finish_frames(1) [OF run] run by (simp add: wp_def)
qed

section \<open>The path of an accepted order\<close>

text \<open>No result is stored under the identifier of a different result of the same call.\<close>

definition result_free ::
    "exec_dumps \<Rightarrow> execution_request \<Rightarrow> execution_outcome \<Rightarrow> execution_rejection_code list \<Rightarrow>
     broker_order_command option \<Rightarrow> broker_order_snapshot option \<Rightarrow> broker_order_snapshot option \<Rightarrow>
     bool \<Rightarrow> timestamp \<Rightarrow> memory_execution_repository \<Rightarrow> bool" where
  "result_free dumps request oc rs c x p f ts r \<longleftrightarrow>
     (\<forall>evs. let y = result_of dumps request oc rs c x p f ts evs in
       stored_result r (er_result_id y) \<in> {None, Some y})"

definition accepted :: "execution_request \<Rightarrow> broker_order_command \<Rightarrow> broker_order_snapshot \<Rightarrow> bool" where
  "accepted request c x \<longleftrightarrow>
     matches c x \<and> \<not> terminal_rejection x \<and> \<not> broker_state_requires_reconciliation x \<and>
     \<not> needs_protection request x \<and> 0 \<le> bo_filled_quantity x"

lemma returning_acknowledge:
  assumes "exec_events.contiguous (es_repository s)" and "accepted request c x"
    and "result_free dumps request success [] (Some c) (Some x) None False now (es_repository s)"
    and "success \<in> {EO_SUBMITTED, EO_EXISTING_RECONCILED}"
    and "\<And>r t. er_outcome r = success \<Longrightarrow> er_command r = Some c \<Longrightarrow> er_broker_order r = Some x \<Longrightarrow>
      es_calls t = es_calls s \<Longrightarrow> Q r t"
  shows "wp (acknowledge dumps broker request now c success x) Q E s"
proof -
  have fin: "wp (finish dumps request success [] (Some c) (Some x) None False now) Q E u"
    if "same_but_events s u" for u
    by (rule returning_finish)
      (use assms that in \<open>auto simp: same_but_events_def result_free_def terminal_shape_def\<close>)
  have sink: "wp (record_reservation_from_order request x now)
      (\<lambda>_. wp (finish dumps request success [] (Some c) (Some x) None False now) Q E) E u"
    if "same_but_events s u" for u
    using fin that by (auto simp: record_reservation_from_order_def same_but_events_def split: option.splits)
  have ev: "wp (record_event dumps request EE_BROKER_ACKNOWLEDGED now (Some x) None []) (\<lambda>_.
      wp (record_reservation_from_order request x now)
        (\<lambda>_. wp (finish dumps request success [] (Some c) (Some x) None False now) Q E) E) E
      (s\<lparr>es_repository := save_snapshot x (es_repository s)\<rparr>)"
    by (rule returning_record_event)
      (use assms(1,2) sink in \<open>auto simp: accepted_def same_but_events_def save_snapshot_def read_defs
        exec_events.contiguous_def fun_eq_iff\<close>)
  show ?thesis
    unfolding acknowledge_def repository_set_def using assms(2) ev by (simp add: accepted_def wp_andthen_fun)
qed

lemma wp_broker_op:
  "wp (broker_op k f) Q E s =
     (case f (es_broker s) of
        (Inl e, b) \<Rightarrow> E e (s\<lparr>es_broker := b, es_calls := es_calls s @ [(k, es_broker s, es_repository s)]\<rparr>)
      | (Inr x, b) \<Rightarrow> Q x (s\<lparr>es_broker := b, es_calls := es_calls s @ [(k, es_broker s, es_repository s)]\<rparr>))"
  by (simp add: wp_def broker_op_def split: prod.splits sum.splits)

lemma returning_submit_new:
  assumes "exec_events.contiguous (es_repository s)" and "accepted request c x"
    and "bk_submit_order broker c (es_broker s) = (Inr x, b)"
    and "result_free dumps request EO_SUBMITTED [] (Some c) (Some x) None False now (es_repository s)"
    and "\<And>r t y. er_outcome r = EO_SUBMITTED \<Longrightarrow> er_command r = Some c \<Longrightarrow> er_broker_order r = Some x \<Longrightarrow>
      es_calls t = es_calls s @ [(CallSubmit c, y)] \<Longrightarrow> Q r t"
  shows "wp (submit_new dumps broker request now c) Q E s"
proof -
  have ack: "wp (acknowledge dumps broker request now c EO_SUBMITTED x) Q E
      (u\<lparr>es_broker := b, es_calls := es_calls u @ [(CallSubmit c, es_broker u, es_repository u)]\<rparr>)"
    if "same_but_events s u" for u
    by (rule returning_acknowledge)
      (use assms that in \<open>auto simp: same_but_events_def result_free_def\<close>)
  show ?thesis
    unfolding submit_new_def wp_andthen
    by (rule returning_record_event [OF assms(1)])
      (use ack assms(3) in \<open>auto simp: try_submit_def submit_order_def wp_broker_op same_but_events_def wp_andthen_fun\<close>)
qed

text \<open>The conditions under which the request itself is acceptable.\<close>

definition submittable :: "exec_dumps \<Rightarrow> execution_request \<Rightarrow> timestamp \<Rightarrow> broker_order_command \<Rightarrow> bool" where
  "submittable dumps request now c \<longleftrightarrow>
     xp_mode (xr_policy request) = MODE_PAPER \<and> \<not> xp_allow_live_execution (xr_policy request) \<and>
     0 \<le> flt (total_seconds now (xr_requested_at request) * 1000) \<and>
     flt (total_seconds now (xr_requested_at request) * 1000) \<le> of_int (xp_max_request_age_ms (xr_policy request)) \<and>
     build_entry_command dumps request now = Inr c"

lemma returning_submit_command:
  assumes "exec_events.contiguous (es_repository s)" and "accepted request c x"
    and "get_command_by_client_order_id (es_repository s) (bc_client_order_id c) \<in> {None, Some c}"
    and "bk_get_order_by_client_order_id broker (bc_client_order_id c) (es_broker s) = (Inl BrokerNotFound, b)"
    and "bk_submit_order broker c b = (Inr x, b')"
    and "result_free dumps request EO_SUBMITTED [] (Some c) (Some x) None False now (es_repository s)"
    and "\<And>r t y z. er_outcome r = EO_SUBMITTED \<Longrightarrow> er_command r = Some c \<Longrightarrow> er_broker_order r = Some x \<Longrightarrow>
      es_calls t = es_calls s @ [(CallLookup (bc_client_order_id c), y), (CallSubmit c, z)] \<Longrightarrow> Q r t"
  shows "wp (submit_command dumps broker request now c) Q E s"
proof -
  let ?k = "CallLookup (bc_client_order_id c)"
  have new: "wp (submit_new dumps broker request now c) Q E
      (u\<lparr>es_broker := b, es_calls := es_calls u @ [(?k, es_broker u, es_repository u)]\<rparr>)"
    if "same_but_events s u" for u
    by (rule returning_submit_new)
      (use assms that in \<open>auto simp: same_but_events_def result_free_def\<close>)
  obtain q where q: "save_command c (es_repository s) = Inr q"
    using exec_commands.save_succeeds_iff [of c "es_repository s"] assms(3) by auto
  have "same_but_events s (s\<lparr>es_repository := q\<rparr>)"
    using q assms(1)
    by (auto simp: same_but_events_def save_command_def map_sum_Inr read_defs exec_events.contiguous_def)
  then have saved: "wp (record_event dumps request ty now None (Some c) []) (\<lambda>_.
      wp (record_event dumps request ty' now None (Some c) []) (\<lambda>_. P) E) E (s\<lparr>es_repository := q\<rparr>)"
    if "\<And>u. same_but_events s u \<Longrightarrow> P u" for ty ty' P
    by (intro returning_record_event that) (auto simp: same_but_events_def)
  have local: "\<not> (get_command_by_client_order_id (es_repository s) (bc_client_order_id c) \<noteq> None \<and>
      get_command_by_client_order_id (es_repository s) (bc_client_order_id c) \<noteq> Some c)"
    using assms(3) by auto
  show ?thesis
    unfolding submit_command_def wp_andthen wp_gets if_not_P [OF local]
    by (rule returning_repository_op [where f = "save_command c", OF q], rule saved)
      (use new assms(4) in \<open>auto simp: first_lookup_def lookup_order_def wp_broker_op same_but_events_def\<close>)
qed

lemma submission_returns:
  assumes "exec_history dumps broker s" and "submittable dumps request now c"
    and "get_request (es_repository s) (xr_execution_id request) \<in> {None, Some request}"
    and "get_command_by_client_order_id (es_repository s) (bc_client_order_id c) \<in> {None, Some c}"
    and "bk_get_order_by_client_order_id broker (bc_client_order_id c) (es_broker s) = (Inl BrokerNotFound, b)"
    and "bk_submit_order broker c b = (Inr x, b')" and "accepted request c x"
    and "result_free dumps request EO_SUBMITTED [] (Some c) (Some x) None False now (es_repository s)"
  shows "\<exists>r t y z. submit dumps broker request now s = (Inr r, t) \<and> er_outcome r = EO_SUBMITTED \<and>
    er_command r = Some c \<and> er_broker_order r = Some x \<and>
    es_calls t = es_calls s @ [(CallLookup (bc_client_order_id c), y), (CallSubmit c, z)]"
proof -
  have contiguous: "exec_events.contiguous (es_repository s)"
    using exec_history_sound [OF truthful_trivial assms(1)] by (simp add: sound_state_def)
  let ?Q = "\<lambda>r t. er_outcome r = EO_SUBMITTED \<and> er_command r = Some c \<and> er_broker_order r = Some x \<and>
    (\<exists>y z. es_calls t = es_calls s @ [(CallLookup (bc_client_order_id c), y), (CallSubmit c, z)])"
  obtain q where q: "save_request request (es_repository s) = Inr q"
    using exec_requests.save_succeeds_iff [of request "es_repository s"] assms(3) by auto
  then have keep: "exec_events.contiguous q" "stored_result q = stored_result (es_repository s)"
    "get_command_by_client_order_id q = get_command_by_client_order_id (es_repository s)"
    using contiguous by (auto simp: save_request_def map_sum_Inr read_defs exec_events.contiguous_def fun_eq_iff)
  have "wp (submit_command dumps broker request now c) ?Q (\<lambda>_ _. False) u"
    if "same_but_events (s\<lparr>es_repository := q\<rparr>) u"
      "get_command_by_client_order_id (es_repository u) = get_command_by_client_order_id q" for u
    by (rule returning_submit_command)
      (use that keep assms in \<open>auto simp: same_but_events_def result_free_def\<close>)
  then have "wp (record_event dumps request EE_REQUEST_ACCEPTED now None None [])
      (\<lambda>_. wp (submit_command dumps broker request now c) ?Q (\<lambda>_ _. False)) (\<lambda>_ _. False) (s\<lparr>es_repository := q\<rparr>)"
    by (intro returning_record_event) (use keep in auto)
  then have "returning (submit dumps broker request now) ?Q s"
    unfolding submit_def wp_andthen
    by (intro returning_repository_op [where f = "save_request request", OF q])
      (use assms(2) in \<open>simp add: submittable_def Let_def not_less wp_andthen_fun\<close>)
  then show ?thesis by (auto simp: wp_def split: prod.splits sum.splits)
qed

text \<open>
  Claim C5. An approved request is carried out: in a state of a service's history, when the
  request is fresh and in time, its identifiers are not taken by different content, the broker
  does not know the order yet and accepts it, the submission returns success, after exactly one
  lookup and one submission.
\<close>

theorem fresh_request_submitted:
  assumes "exec_history dumps broker s" and "submittable dumps request now c"
    and "get_request (es_repository s) (xr_execution_id request) \<in> {None, Some request}"
    and "get_command_by_client_order_id (es_repository s) (bc_client_order_id c) \<in> {None, Some c}"
    and "bk_get_order_by_client_order_id broker (bc_client_order_id c) (es_broker s) = (Inl BrokerNotFound, b)"
    and "bk_submit_order broker c b = (Inr x, b')" and "accepted request c x"
    and "result_free dumps request EO_SUBMITTED [] (Some c) (Some x) None False now (es_repository s)"
  shows "\<exists>r t y z. submit dumps broker request now s = (Inr r, t) \<and> er_outcome r = EO_SUBMITTED \<and>
    er_command r = Some c \<and> er_broker_order r = Some x \<and>
    es_calls t = es_calls s @ [(CallLookup (bc_client_order_id c), y), (CallSubmit c, z)]"
  by (rule submission_returns [OF assms])

section \<open>The path of a partial fill\<close>

text \<open>
  What the broker does in the course of the protection of a partially filled order \<open>x\<close>: it
  cancels it, reports it canceled as \<open>p\<close> with a whole number of shares filled, does not know the
  stop \<open>c\<close> yet, and accepts it as \<open>y\<close>.
\<close>

definition protectable ::
    "'b broker_client \<Rightarrow> 'b \<Rightarrow> broker_order_snapshot \<Rightarrow> broker_order_snapshot \<Rightarrow>
     broker_order_command \<Rightarrow> broker_order_snapshot \<Rightarrow> bool" where
  "protectable broker b x p c y \<longleftrightarrow>
     (\<exists>b1 b2 b3 b4. bk_cancel_order broker (bo_broker_order_id x) b = (Inr (), b1) \<and>
       bk_get_order broker (bo_broker_order_id x) b1 = (Inr p, b2) \<and>
       bk_get_order_by_client_order_id broker (bc_client_order_id c) b2 = (Inl BrokerNotFound, b3) \<and>
       bk_submit_order broker c b3 = (Inr y, b4)) \<and>
     bo_status p = OS_CANCELED \<and> 0 < bo_filled_quantity p \<and> is_integral (bo_filled_quantity p) \<and>
     matches c y \<and> 0 \<le> bo_filled_quantity y"

lemma returning_acked_stop:
  assumes "es_repository t = save_snapshot y r" and "exec_events.contiguous r" and "0 \<le> bo_filled_quantity y"
    and "result_free dumps request EO_PARTIAL_FILL_PROTECTED [] (Some command) (Some p) (Some y) True now r"
    and "\<And>r t. er_outcome r = EO_PARTIAL_FILL_PROTECTED \<Longrightarrow> er_broker_order r = Some p \<Longrightarrow>
      er_protective_order r = Some y \<Longrightarrow> Q r t"
  shows "wp (record_event dumps request EE_PROTECTIVE_STOP_ACKNOWLEDGED now (Some y) None []) (\<lambda>_.
      wp (finish dumps request EO_PARTIAL_FILL_PROTECTED [] (Some command) (Some p) (Some y) True now) Q E) E t"
proof (rule returning_record_event)
  fix u
  assume "same_but_events t u"
  then have "stored_result (es_repository u) = stored_result r"
    using assms(1) by (simp add: same_but_events_def save_snapshot_def read_defs)
  then show "wp (finish dumps request EO_PARTIAL_FILL_PROTECTED [] (Some command) (Some p) (Some y) True now) Q E u"
    by (intro returning_finish) (use assms in \<open>auto simp: result_free_def terminal_shape_def\<close>)
qed (use assms in \<open>auto simp: save_snapshot_def read_defs exec_events.contiguous_def\<close>)

lemma returning_place_stop:
  assumes "exec_events.contiguous (es_repository s)"
    and "build_partial_fill_protective_stop dumps request \<lfloor>bo_filled_quantity p\<rfloor> = Inr c"
    and "get_command_by_client_order_id (es_repository s) (bc_client_order_id c) \<in> {None, Some c}"
    and "bk_get_order_by_client_order_id broker (bc_client_order_id c) (es_broker s) = (Inl BrokerNotFound, b)"
    and "bk_submit_order broker c b = (Inr y, b')" and "matches c y" and "0 \<le> bo_filled_quantity y"
    and "result_free dumps request EO_PARTIAL_FILL_PROTECTED [] (Some command) (Some p) (Some y) True now (es_repository s)"
    and "\<And>r t. er_outcome r = EO_PARTIAL_FILL_PROTECTED \<Longrightarrow> er_broker_order r = Some p \<Longrightarrow>
      er_protective_order r = Some y \<Longrightarrow> Q r t"
  shows "wp (place_protective_stop dumps broker request now command p) Q E s"
proof -
  obtain q where q: "save_command c (es_repository s) = Inr q"
    using exec_commands.save_succeeds_iff [of c "es_repository s"] assms(3) by auto
  have same: "same_but_events s (s\<lparr>es_repository := q\<rparr>)"
    using q assms(1)
    by (auto simp: same_but_events_def save_command_def map_sum_Inr read_defs exec_events.contiguous_def)
  have sent: "wp (protective_order broker c) (\<lambda>z. wp (if \<not> matches c z
      then raise (PyError (ValueError ''protective stop does not match its command''))
      else andthen (repository_set (save_snapshot z)) (\<lambda>_. andthen (record_event dumps request
        EE_PROTECTIVE_STOP_ACKNOWLEDGED now (Some z) None []) (\<lambda>_. finish dumps request
        EO_PARTIAL_FILL_PROTECTED [] (Some command) (Some p) (Some z) True now))) Q E) E u"
    if "same_but_events s u" for u
  proof -
    have "result_free dumps request EO_PARTIAL_FILL_PROTECTED [] (Some command) (Some p) (Some y) True now
        (es_repository u)"
      using that assms(8) by (simp add: same_but_events_def result_free_def)
    then have "wp (record_event dumps request EE_PROTECTIVE_STOP_ACKNOWLEDGED now (Some y) None []) (\<lambda>_.
      wp (finish dumps request EO_PARTIAL_FILL_PROTECTED [] (Some command) (Some p) (Some y) True now) Q E) E t"
      if "es_repository t = save_snapshot y (es_repository u)" for t
      using that \<open>same_but_events s u\<close> by (intro returning_acked_stop assms(7,9)) (auto simp: same_but_events_def)
    then show ?thesis
      using that assms(4-6)
      by (simp add: protective_order_def except_when_def lookup_order_def submit_order_def wp_broker_op
          same_but_events_def repository_set_def wp_andthen_fun)
  qed
  show ?thesis
    unfolding place_protective_stop_def assms(2) map_sum.simps from_result_simps ret_andthen id_apply wp_andthen
    by (rule returning_repository_op [where f = "save_command c", OF q], rule returning_record_event)
      (use same sent in \<open>auto simp: wp_andthen_fun same_but_events_def\<close>)
qed

lemma returning_protect:
  assumes "exec_events.contiguous (es_repository s)" and "protectable broker (es_broker s) x p c y"
    and "build_partial_fill_protective_stop dumps request \<lfloor>bo_filled_quantity p\<rfloor> = Inr c"
    and "get_command_by_client_order_id (es_repository s) (bc_client_order_id c) \<in> {None, Some c}"
    and "result_free dumps request EO_PARTIAL_FILL_PROTECTED [] (Some command) (Some p) (Some y) True now (es_repository s)"
    and "\<And>r t. er_outcome r = EO_PARTIAL_FILL_PROTECTED \<Longrightarrow> er_broker_order r = Some p \<Longrightarrow>
      er_protective_order r = Some y \<Longrightarrow> Q r t"
  shows "wp (protect_partial_fill dumps broker request now command x) Q E s"
proof -
  obtain b1 b2 b3 b4 where b: "bk_cancel_order broker (bo_broker_order_id x) (es_broker s) = (Inr (), b1)"
    "bk_get_order broker (bo_broker_order_id x) b1 = (Inr p, b2)"
    "bk_get_order_by_client_order_id broker (bc_client_order_id c) b2 = (Inl BrokerNotFound, b3)"
    "bk_submit_order broker c b3 = (Inr y, b4)"
    and p: "bo_status p = OS_CANCELED" "0 < bo_filled_quantity p" "is_integral (bo_filled_quantity p)"
    "matches c y" "0 \<le> bo_filled_quantity y"
    using assms(2) by (auto simp: protectable_def)
  have "wp (place_protective_stop dumps broker request now command p) Q E u"
    if "es_repository u = save_snapshot p (es_repository s)" "es_broker u = b2" for u
    by (rule returning_place_stop [OF _ assms(3) _ _ b(4) p(4,5) _ assms(6)])
      (use that b(3) assms in \<open>auto simp: save_snapshot_def read_defs exec_events.contiguous_def result_free_def\<close>)
  then show ?thesis
    using b(1,2) p(1-3)
    by (simp add: protect_partial_fill_def cancel_order_def get_order_def wp_broker_op repository_set_def wp_andthen_fun)
qed

lemma returning_handle_partial_fill:
  assumes "exec_events.contiguous (es_repository s)"
    and "map_of (mx_trade_update_ids (es_repository s)) (tu_event_id update) = None"
    and "get_command_by_client_order_id (es_repository s) (bo_client_order_id (tu_order update)) = Some command"
    and "needs_protection request (tu_order update)" and "protectable broker (es_broker s) (tu_order update) p c y"
    and "build_partial_fill_protective_stop dumps request \<lfloor>bo_filled_quantity p\<rfloor> = Inr c"
    and "get_command_by_client_order_id (es_repository s) (bc_client_order_id c) \<in> {None, Some c}"
    and "result_free dumps request EO_PARTIAL_FILL_PROTECTED [] (Some command) (Some p) (Some y) True
      (tu_event_timestamp update) (es_repository s)"
    and "\<And>r t. er_outcome r = EO_PARTIAL_FILL_PROTECTED \<Longrightarrow> er_broker_order r = Some p \<Longrightarrow>
      er_protective_order r = Some y \<Longrightarrow> Q r t"
  shows "wp (handle_trade_update dumps broker request update) Q E s"
proof -
  let ?x = "tu_order update" and ?now = "tu_event_timestamp update"
  define base where "base u \<longleftrightarrow> exec_events.contiguous (es_repository u) \<and> es_broker u = es_broker s \<and>
    stored_result (es_repository u) = stored_result (es_repository s) \<and>
    get_command_by_client_order_id (es_repository u) = get_command_by_client_order_id (es_repository s)" for u :: "'a exec_state"
  have filled: "0 < bo_filled_quantity ?x" using assms(4) by (simp add: needs_protection_def)
  have protect: "wp (except_when f (protect_partial_fill dumps broker request ?now command ?x) h) Q E u" if "base u" for u f h
    unfolding except_when_def wp_catch
    by (rule returning_protect [OF _ _ assms(6) _ _ assms(9)])
      (use that assms in \<open>auto simp: base_def result_free_def\<close>)
  have event: "wp (record_event dumps request ty ?now (Some ?x) None ds) (\<lambda>_. P) E u"
    if "base u" "\<And>v. base v \<Longrightarrow> P v" for u ty ds P
    by (rule returning_record_event) (use that filled in \<open>auto simp: base_def same_but_events_def\<close>)
  have sink: "wp (record_reservation_from_order request ?x ?now) (\<lambda>_. P) E u"
    if "base u" "\<And>v. base v \<Longrightarrow> P v" for u P
    using that by (auto simp: record_reservation_from_order_def base_def split: option.splits)
  let ?r = "(es_repository s)\<lparr>mx_trade_update_ids :=
    AList.update (tu_event_id update) (xr_execution_id request, tu_raw_event_hash update) (mx_trade_update_ids (es_repository s))\<rparr>"
  have "base (s\<lparr>es_repository := save_snapshot ?x ?r\<rparr>)"
    using assms(1) by (auto simp: base_def save_snapshot_def read_defs exec_events.contiguous_def fun_eq_iff)
  then have "wp (record_event dumps request EE_TRADE_UPDATE ?now (Some ?x) None
      [(''provider_event'', tu_event update), (''raw_event_hash'', tu_raw_event_hash update)]) (\<lambda>_.
      wp (record_reservation_from_order request ?x ?now) (\<lambda>_.
      wp (record_event dumps request EE_CANCEL_REQUESTED ?now (Some ?x) None []) (\<lambda>_.
      wp (except_when (\<lambda>e. is_broker_error e \<or> is_value_error e) (protect_partial_fill dumps broker request ?now command ?x)
        (\<lambda>_. finish dumps request EO_RECONCILIATION_REQUIRED [PARTIAL_FILL_PROTECTION_FAILED]
          (Some command) (Some ?x) None True ?now)) Q E) E) E) E (s\<lparr>es_repository := save_snapshot ?x ?r\<rparr>)"
    by (intro event sink protect)
  then show ?thesis
    using assms(2-4)
    by (simp add: handle_trade_update_def Let_def wp_def [of "claim _ _ _"] claim_def claim_trade_update_def
        repository_set_def wp_andthen_fun get_command_by_client_order_id_def)
qed

text \<open>
  Claim C7. A partial fill is protected: in a repository with contiguous event logs, when an
  update with a partial fill of a known command arrives for the first time, the broker cancels the parent and accepts the stop, and the
  identifiers are not taken by different content, the update ends with the protected outcome.
\<close>

theorem partial_fill_gets_protected:
  assumes "\<And>k. numbered ev_event_sequence (list_events (es_repository s) k)"
    and "map_of (mx_trade_update_ids (es_repository s)) (tu_event_id update) = None"
    and "get_command_by_client_order_id (es_repository s) (bo_client_order_id (tu_order update)) = Some command"
    and "needs_protection request (tu_order update)" and "protectable broker (es_broker s) (tu_order update) p c y"
    and "build_partial_fill_protective_stop dumps request \<lfloor>bo_filled_quantity p\<rfloor> = Inr c"
    and "get_command_by_client_order_id (es_repository s) (bc_client_order_id c) \<in> {None, Some c}"
    and "result_free dumps request EO_PARTIAL_FILL_PROTECTED [] (Some command) (Some p) (Some y) True
      (tu_event_timestamp update) (es_repository s)"
  shows "\<exists>r t. handle_trade_update dumps broker request update s = (Inr r, t) \<and>
    er_outcome r = EO_PARTIAL_FILL_PROTECTED \<and> er_broker_order r = Some p \<and> er_protective_order r = Some y"
proof -
  have "exec_events.contiguous (es_repository s)"
    using assms(1) by (simp add: exec_events.contiguous_def)
  then have "returning (handle_trade_update dumps broker request update) (\<lambda>r t.
      er_outcome r = EO_PARTIAL_FILL_PROTECTED \<and> er_broker_order r = Some p \<and> er_protective_order r = Some y) s"
    by (rule returning_handle_partial_fill [OF _ assms(2-8)]) simp_all
  then show ?thesis by (auto simp: wp_def split: prod.splits sum.splits)
qed

end
