(* ===== verification/Execution_Errors.thy ===== *)
theory Execution_Errors
  imports Execution_Liveness
begin

text \<open>
  Which exceptions can leave the execution service. With a broker that raises its two declared
  errors only, answers a submission with an order or a transport error, and returns validated
  snapshots, every failure is converted into a stored result, except the collision of an
  identity with different content, which is raised.
\<close>

section \<open>Assumptions on the broker\<close>

definition well_behaved :: "'b broker_client \<Rightarrow> bool" where
  "well_behaved broker \<longleftrightarrow>
     (\<forall>i b e b'. bk_get_order_by_client_order_id broker i b = (Inl e, b') \<longrightarrow> is_broker_error e) \<and>
     (\<forall>i b x b'. bk_get_order_by_client_order_id broker i b = (Inr x, b') \<longrightarrow> valid_snapshot x) \<and>
     (\<forall>c b e b'. bk_submit_order broker c b = (Inl e, b') \<longrightarrow> (\<exists>tr. e = BrokerTransportError tr)) \<and>
     (\<forall>c b x b'. bk_submit_order broker c b = (Inr x, b') \<longrightarrow> valid_snapshot x) \<and>
     (\<forall>i b e b'. bk_cancel_order broker i b = (Inl e, b') \<longrightarrow> is_broker_error e) \<and>
     (\<forall>i b e b'. bk_get_order broker i b = (Inl e, b') \<longrightarrow> is_broker_error e) \<and>
     (\<forall>i b x b'. bk_get_order broker i b = (Inr x, b') \<longrightarrow> valid_snapshot x)"

definition collision :: "exec_error \<Rightarrow> bool" where
  "collision e \<longleftrightarrow> e \<in> (\<lambda>m. PyError (RuntimeError m)) `
     {''execution request identity collision'', ''client_order_id command collision'',
      ''execution result identity collision'', ''trade update identity collision''}"

abbreviation consistent :: "'b exec_state \<Rightarrow> bool" where
  "consistent s \<equiv> exec_events.contiguous (es_repository s)"

lemma consistent_steps:
  "steps (exec_step origin holds) m \<Longrightarrow> consistent s \<Longrightarrow> m s = (r, t) \<Longrightarrow> consistent t"
  using stepsD [of "exec_step origin holds" m] exec_step_grows repo_grows_contiguous by blast

lemma consistent_broker_op: "consistent s \<Longrightarrow> broker_op k f s = (r, t) \<Longrightarrow> consistent t"
  by (auto simp: broker_op_def split: prod.splits)

section \<open>Building blocks\<close>

lemma raises_then:
  assumes "raises consistent E m" and "\<And>s r t. consistent s \<Longrightarrow> m s = (r, t) \<Longrightarrow> consistent t"
    and "yields P m" and "\<And>x t. P x t \<Longrightarrow> raises consistent E (f x)"
  shows "raises consistent E (andthen m f)"
  using assms unfolding raises_def andthen_def yields_def
  by (fastforce split: sum.splits prod.splits)

lemma yields_any: "yields (\<lambda>_ _. True) m"
  by (simp add: yields_def)

lemma raises_if: "(c \<Longrightarrow> raises I E m) \<Longrightarrow> (\<not> c \<Longrightarrow> raises I E m') \<Longrightarrow> raises I E (if c then m else m')"
  by simp

lemma raises_mono: "raises I E m \<Longrightarrow> (\<And>e. E e \<Longrightarrow> F e) \<Longrightarrow> raises I F m"
  by (auto simp: raises_def)

lemma raises_repository_op:
  assumes "\<And>r e. f r = Inl e \<Longrightarrow> E (PyError e)"
  shows "raises I E (repository_op f)"
  using assms by (auto simp: raises_def elim!: repository_op_cases)

lemma save_collisions:
  "save_request request r = Inl e \<Longrightarrow> collision (PyError e)"
  "save_command c r = Inl e \<Longrightarrow> collision (PyError e)"
  "save_result y r = Inl e \<Longrightarrow> collision (PyError e)"
  by (auto simp: save_request_def save_command_def save_result_def map_sum_Inl put_once_def collision_def
      split: option.splits if_splits)

lemma raises_claim: "raises I collision (claim i x h)"
  by (auto simp: raises_def claim_def claim_trade_update_def collision_def map_sum_Inl
      split: option.splits if_splits prod.splits)

lemma raises_record_event:
  assumes "\<And>y. x = Some y \<Longrightarrow> 0 \<le> bo_filled_quantity y"
  shows "raises consistent E (record_event dumps request ty ts x c ds)"
  unfolding raises_def
proof (intro allI impI)
  fix s e t
  assume "consistent s" and run: "record_event dumps request ty ts x c ds s = (Inl e, t)"
  then have "wp (record_event dumps request ty ts x c ds) (\<lambda>_ _. True) (\<lambda>_ _. False) s"
    by (intro returning_record_event) (use assms in auto)
  then show "E e" using run by (simp add: wp_def)
qed

lemma raises_finish:
  assumes "\<And>evs. terminal_shape (result_of dumps request oc rs c x p f ts evs) = None"
  shows "raises I collision (finish dumps request oc rs c x p f ts)"
  unfolding raises_def
proof (intro allI impI)
  fix s e t
  assume "finish dumps request oc rs c x p f ts s = (Inl e, t)"
  then show "collision e"
    by (cases rule: finish_cases) (use assms save_collisions(3) in auto)
qed

lemma raises_sink: "raises I E (record_reservation_from_order request x ts)"
  by (auto simp: record_reservation_from_order_def raises_ret raises_modify split: option.splits)

lemma raises_broker_op: "(\<And>b e b'. f b = (Inl e, b') \<Longrightarrow> E e) \<Longrightarrow> raises I E (broker_op k f)"
  unfolding raises_def broker_op_def by (metis (no_types, lifting) case_prod_conv prod.collapse prod.inject)

lemma yields_broker_op: "(\<And>b x b'. f b = (Inr x, b') \<Longrightarrow> P x) \<Longrightarrow> yields (\<lambda>x t. P x) (broker_op k f)"
  unfolding yields_def broker_op_def by (metis (no_types, lifting) case_prod_conv prod.collapse prod.inject)

lemma well_behavedD:
  assumes "well_behaved broker"
  shows "bk_get_order_by_client_order_id broker i b = (Inl e, b') \<Longrightarrow> is_broker_error e"
    "bk_get_order_by_client_order_id broker i b = (Inr x, b') \<Longrightarrow> valid_snapshot x"
    "bk_submit_order broker c b = (Inl e, b') \<Longrightarrow> \<exists>tr. e = BrokerTransportError tr"
    "bk_submit_order broker c b = (Inr x, b') \<Longrightarrow> valid_snapshot x"
    "bk_cancel_order broker i b = (Inl e, b') \<Longrightarrow> is_broker_error e"
    "bk_get_order broker i b = (Inl e, b') \<Longrightarrow> is_broker_error e"
    "bk_get_order broker i b = (Inr x, b') \<Longrightarrow> valid_snapshot x"
  using assms unfolding well_behaved_def by metis+

lemma raises_broker:
  assumes "well_behaved broker"
  shows "raises I is_broker_error (lookup_order broker i)"
    "raises I (\<lambda>e. \<exists>tr. e = BrokerTransportError tr) (submit_order broker c)"
    "raises I is_broker_error (cancel_order broker i)" "raises I is_broker_error (get_order broker i)"
  unfolding lookup_order_def submit_order_def cancel_order_def get_order_def
  by (rule raises_broker_op, erule well_behavedD [OF assms])+

lemma yields_broker:
  assumes "well_behaved broker"
  shows "yields (\<lambda>x t. valid_snapshot x) (lookup_order broker i)"
    "yields (\<lambda>x t. valid_snapshot x) (submit_order broker c)"
    "yields (\<lambda>x t. valid_snapshot x) (get_order broker i)"
  unfolding lookup_order_def submit_order_def get_order_def
  by (rule yields_broker_op, erule well_behavedD [OF assms])+

lemma raises_set: "raises I E (repository_set f)"
  by (simp add: repository_set_def raises_modify)

lemma snapshot_filled: "valid_snapshot x \<Longrightarrow> 0 \<le> bo_filled_quantity x"
  by (simp add: valid_snapshot_def)

text \<open>One rule per operation that may stand before the rest of a block.\<close>

lemma raises_event_then:
  "(\<And>y. x = Some y \<Longrightarrow> 0 \<le> bo_filled_quantity y) \<Longrightarrow> (\<And>e. raises consistent E (f e)) \<Longrightarrow>
   raises consistent E (andthen (record_event dumps request ty ts x c ds) f)"
  by (rule raises_andthen [OF raises_record_event consistent_steps [OF record_event_step]])

lemma raises_op_then:
  assumes "\<And>r e. g r = Inl e \<Longrightarrow> E (PyError e)" and "\<And>r q. g r = Inr q \<Longrightarrow> repo_grows r q"
    and "\<And>u. raises consistent E (f u)"
  shows "raises consistent E (andthen (repository_op g) f)"
  by (rule raises_andthen [OF raises_repository_op consistent_steps [OF repository_op_step]])
    (auto intro: assms)

lemma raises_set_then:
  "(\<And>u. raises consistent E (f u)) \<Longrightarrow> raises consistent E (andthen (repository_set (save_snapshot x)) f)"
  by (rule raises_andthen [OF _ consistent_steps [OF repository_set_step [OF save_snapshot_grows]]])
    (simp_all add: repository_set_def raises_modify)

lemma raises_sink_then:
  "(\<And>u. raises consistent E (f u)) \<Longrightarrow> raises consistent E (andthen (record_reservation_from_order request x ts) f)"
  by (rule raises_andthen [OF raises_sink consistent_steps [OF sink_step]])

lemma raises_gets_then: "(\<And>u. raises consistent E (f u)) \<Longrightarrow> raises consistent E (andthen (gets g) f)"
  by (rule raises_andthen [OF raises_gets]) (auto simp: gets_def)

lemma raises_claim_then:
  "(\<And>u. raises consistent collision (f u)) \<Longrightarrow> raises consistent collision (andthen (claim i x h) f)"
  by (rule raises_andthen [OF raises_claim consistent_steps [OF claim_step]])

lemmas raises_rules = raises_event_then raises_set_then raises_sink_then raises_gets_then raises_if raises_raise

text \<open>The errors inside the protection of a partial fill.\<close>

definition inner :: "exec_error \<Rightarrow> bool" where
  "inner e \<longleftrightarrow> is_broker_error e \<or> is_value_error e \<or> collision e"

lemma inner_collision: "raises I collision m \<Longrightarrow> raises I inner m"
  by (erule raises_mono) (simp add: inner_def)

lemma builder_errors:
  "build_partial_fill_protective_stop dumps request q = Inl e \<Longrightarrow> is_value_error (PyError e)"
  "build_entry_command dumps request now = Inl e \<Longrightarrow> is_value_error (PyError e)"
  by (auto simp: build_partial_fill_protective_stop_def build_entry_command_def with_hash_def Let_def
      split: if_splits option.splits)

lemma consistent_lookup: "consistent s \<Longrightarrow> lookup_order broker i s = (r, t) \<Longrightarrow> consistent t"
  unfolding lookup_order_def by (rule consistent_broker_op)

lemma consistent_submit_order: "consistent s \<Longrightarrow> submit_order broker c s = (r, t) \<Longrightarrow> consistent t"
  unfolding submit_order_def by (rule consistent_broker_op)

lemma consistent_protective: "consistent s \<Longrightarrow> protective_order broker c s = (r, t) \<Longrightarrow> consistent t"
  by (auto simp: protective_order_def except_when_def catch_def raise_def split: prod.splits sum.splits if_splits
      intro: consistent_lookup consistent_submit_order [OF consistent_lookup])

lemma raises_protective:
  assumes "well_behaved broker"
  shows "raises consistent inner (protective_order broker c)"
  unfolding protective_order_def except_when_def
  by (rule raises_catch [OF raises_broker(1) [OF assms] consistent_lookup])
    (auto intro: raises_mono [OF raises_broker(2) [OF assms]] raises_raise simp: inner_def)

lemma yields_protective:
  assumes "well_behaved broker"
  shows "yields (\<lambda>x t. valid_snapshot x) (protective_order broker c)"
  unfolding protective_order_def except_when_def
  by (intro yields_catch yields_broker assms yields_if yields_raise)

lemma raises_place_protective_stop:
  assumes "well_behaved broker"
  shows "raises consistent inner (place_protective_stop dumps broker request now command p)"
proof (cases "build_partial_fill_protective_stop dumps request \<lfloor>bo_filled_quantity p\<rfloor>")
  case (Inl e)
  then show ?thesis
    using builder_errors(1) by (auto simp: place_protective_stop_def inner_def intro!: raises_raise)
next
  case (Inr c)
  show ?thesis
    unfolding place_protective_stop_def Inr map_sum.simps from_result_simps ret_andthen id_apply
    by (intro raises_op_then save_command_grows raises_rules inner_collision raises_finish
        raises_then [OF raises_protective [OF assms] consistent_protective yields_protective [OF assms]])
      (auto simp: inner_def terminal_shape_def snapshot_filled dest: save_collisions)
qed

lemma raises_protect_partial_fill:
  assumes "well_behaved broker"
  shows "raises consistent inner (protect_partial_fill dumps broker request now command order)"
  unfolding protect_partial_fill_def
  by (intro raises_andthen [OF raises_mono [OF raises_broker(3) [OF assms]] consistent_steps [OF broker_read_steps(2)]]
      raises_andthen [OF raises_mono [OF raises_broker(4) [OF assms]] consistent_steps [OF broker_read_steps(3)]]
      raises_rules inner_collision raises_finish raises_place_protective_stop [OF assms])
    (auto simp: inner_def terminal_shape_def)

section \<open>Public methods\<close>

lemma raises_handle_trade_update:
  assumes "well_behaved broker" and "valid_snapshot (tu_order update)"
  shows "raises consistent collision (handle_trade_update dumps broker request update)"
proof -
  note f = snapshot_filled [OF assms(2)]
  have keep: "consistent s \<Longrightarrow> protect_partial_fill dumps broker request now command order s = (r, t) \<Longrightarrow> consistent t"
    for s r t now command order
    by (rule consistent_steps [OF protect_partial_fill_step [OF truthful_trivial, of _ _ "\<lambda>_. True"]]) simp_all
  show ?thesis
    unfolding handle_trade_update_def Let_def except_when_def
    by (intro raises_claim_then raises_gets_then, split option.split, intro conjI impI allI raises_rules
        raises_finish raises_catch [OF raises_protect_partial_fill [OF assms(1)] keep])
      (use f in \<open>auto simp: inner_def terminal_shape_def intro!: raises_finish raises_raise\<close>)
qed

lemma raises_acknowledge:
  assumes "well_behaved broker" and "valid_snapshot x" and "success \<in> {EO_SUBMITTED, EO_EXISTING_RECONCILED}"
  shows "raises consistent collision (acknowledge dumps broker request now c success x)"
  unfolding acknowledge_def Let_def
  by (intro raises_rules raises_finish raises_handle_trade_update [OF assms(1)])
    (use assms(2,3) snapshot_filled [OF assms(2)] in
      \<open>auto simp: terminal_shape_def valid_trade_update_def valid_snapshot_def\<close>)

lemma raises_answer:
  assumes "raises consistent E m" and "\<And>s r t. consistent s \<Longrightarrow> m s = (r, t) \<Longrightarrow> consistent t"
    and "yields (\<lambda>a t. \<forall>x. a = Inr x \<longrightarrow> P x) m" and "\<And>x. P x \<Longrightarrow> raises consistent E (g x)"
  shows "raises consistent E (andthen m (\<lambda>a. case a of Inl r \<Rightarrow> ret r | Inr x \<Rightarrow> g x))"
  by (rule raises_then [OF assms(1,2,3)]) (auto intro: assms(4) raises_ret split: sum.split)

lemma raises_then_ret: "raises I E m \<Longrightarrow> raises I E (andthen m (\<lambda>x. ret (g x)))"
  by (auto simp: raises_def andthen_def ret_def split: prod.splits sum.splits)

lemma yields_value:
  "yields (\<lambda>x t. P (f x)) m \<Longrightarrow> yields (\<lambda>a t. \<forall>x. a = Inr x \<longrightarrow> P x) (andthen m (\<lambda>x. ret (Inr (f x))))"
  by (auto simp: yields_def andthen_def ret_def split: prod.splits sum.splits)

lemma yields_no_value: "yields (\<lambda>a t. \<forall>x. a = Inr x \<longrightarrow> P x) (andthen m (\<lambda>x. ret (Inl x)))"
  by (auto simp: yields_def andthen_def ret_def split: prod.splits sum.splits)

lemma consistent_then_ret:
  "(\<And>r t. m s = (r, t) \<Longrightarrow> consistent t) \<Longrightarrow> andthen m (\<lambda>x. ret (g x)) s = (r', t') \<Longrightarrow> consistent t'"
  by (auto simp: andthen_def ret_def split: prod.splits sum.splits)

lemma raises_try_submit:
  assumes "well_behaved broker"
  shows "raises consistent collision (try_submit dumps broker request now c)"
proof -
  have "raises consistent collision (after_failed_submit dumps broker request now c tr)" for tr
    unfolding after_failed_submit_def except_when_def
    by (intro raises_if raises_catch [OF raises_then_ret [OF raises_broker(1) [OF assms]]] raises_rules
        raises_then_ret raises_finish)
      (auto simp: terminal_shape_def intro: consistent_then_ret consistent_lookup)
  then show ?thesis
    unfolding try_submit_def
    by (intro raises_catch [OF raises_then_ret [OF raises_broker(2) [OF assms]]])
      (auto intro: consistent_then_ret consistent_submit_order)
qed

lemma yields_try_submit:
  assumes "well_behaved broker"
  shows "yields (\<lambda>a t. \<forall>x. a = Inr x \<longrightarrow> valid_snapshot x) (try_submit dumps broker request now c)"
proof -
  have "yields (\<lambda>a t. \<forall>x. a = Inr x \<longrightarrow> valid_snapshot x) (after_failed_submit dumps broker request now c tr)" for tr
    unfolding after_failed_submit_def except_when_def
    by (intro yields_if yields_catch yields_value yields_broker(1) [OF assms] yields_raise yields_no_value
        yields_andthen [of _ "\<lambda>_. andthen _ (\<lambda>x. ret (Inl x))"])
  then show ?thesis
    unfolding try_submit_def
    by (intro yields_catch yields_value yields_broker(2) [OF assms]) (auto intro: yields_raise split: exec_error.split)
qed

lemma consistent_try_submit:
  assumes "consistent s" and "try_submit dumps broker request now c s = (r, t)"
  shows "consistent t"
proof -
  have "consistent u \<Longrightarrow> after_failed_submit dumps broker request now c tr u = (r', t') \<Longrightarrow> consistent t'" for u tr r' t'
    by (rule consistent_steps [OF after_failed_submit_step])
  then show ?thesis
    using assms consistent_submit_order [OF assms(1)]
    by (fastforce simp: try_submit_def catch_def andthen_def ret_def raise_def
        split: prod.splits sum.splits exec_error.splits)
qed

lemma raises_submit_new:
  assumes "well_behaved broker"
  shows "raises consistent collision (submit_new dumps broker request now c)"
  unfolding submit_new_def
  by (intro raises_event_then
      raises_answer [OF raises_try_submit [OF assms] consistent_try_submit yields_try_submit [OF assms]]
      raises_acknowledge [OF assms]) simp_all

lemma yields_no_answer: "yields (\<lambda>a t. \<forall>x. a = Inr x \<longrightarrow> (\<forall>y. x = Some y \<longrightarrow> P y)) (ret (Inr None))"
  by (simp add: yields_def ret_def)

lemma raises_first_lookup:
  assumes "well_behaved broker"
  shows "raises consistent collision (first_lookup dumps broker request now c)"
  unfolding first_lookup_def
  by (rule raises_catch [OF raises_then_ret [OF raises_broker(1) [OF assms]]])
    (auto simp: terminal_shape_def intro!: raises_ret raises_then_ret raises_finish
      intro: consistent_then_ret consistent_lookup split: exec_error.split)

lemma yields_first_lookup:
  assumes "well_behaved broker"
  shows "yields (\<lambda>a t. \<forall>x. a = Inr x \<longrightarrow> (\<forall>y. x = Some y \<longrightarrow> valid_snapshot y)) (first_lookup dumps broker request now c)"
  unfolding first_lookup_def
  by (intro yields_catch yields_value yields_mono [OF yields_broker(1) [OF assms]])
    (auto intro!: yields_raise yields_no_value yields_no_answer split: exec_error.split)

lemma raises_submit_command:
  assumes "well_behaved broker"
  shows "raises consistent collision (submit_command dumps broker request now c)"
proof -
  have rest: "raises consistent collision (case x of
        Some existing \<Rightarrow> acknowledge dumps broker request now c EO_EXISTING_RECONCILED existing
      | None \<Rightarrow> submit_new dumps broker request now c)" if "\<forall>y. x = Some y \<longrightarrow> valid_snapshot y" for x
    using that by (cases x) (auto intro: raises_acknowledge [OF assms] raises_submit_new [OF assms])
  show ?thesis
    unfolding submit_command_def
    by (intro raises_gets_then raises_if raises_op_then save_command_grows save_collisions raises_event_then raises_finish
        raises_answer [OF raises_first_lookup [OF assms] consistent_steps [OF first_lookup_step]
          yields_first_lookup [OF assms]] rest)
      (simp_all add: terminal_shape_def)
qed

lemma raises_reject: "raises consistent collision (reject dumps request reason now)"
  unfolding reject_def by (intro raises_event_then raises_finish) (simp_all add: terminal_shape_def)


end
