(* ===== verification/Execution_Witnesses.thy ===== *)
theory Execution_Witnesses
  imports Execution_Errors Risk_Witnesses
begin

text \<open>
  An execution of the sample decision with a broker that accepts every new order, and the
  witnesses of the execution properties on it.
\<close>

section \<open>The sample request and its commands\<close>

definition sample_dumps :: exec_dumps where
  "sample_dumps = \<lparr>xd_command = no_dump, xd_request = no_dump, xd_event = no_dump, xd_result = no_dump,
     xd_report = no_dump\<rparr>"

definition sample_execution :: execution_request where
  "sample_execution =
     \<lparr>xr_execution_id = ''exec-001'', xr_run_id = ''run-1'', xr_trading_date = (2026, 7, 31),
      xr_requested_at = 0, xr_submission_cutoff_timestamp = 60000000,
      xr_risk_decision = sample_decision, xr_policy = default_execution_policy,
      xr_configuration_hash = replicate 64 (CHR ''0'')\<rparr>"

lemma sample_decision_prices:
  "rd_stop_price sample_decision = Some 9" "rd_target_price sample_decision = Some 12"
  "rd_ticker sample_decision = ''ABCD''"
  by (simp_all add: sample_decision_def approved_base_def Let_def sample_calculations_def calculations_of_def
      sample_plan_def sample_request_def sample_setup_def)

lemmas sample_decision_simps = sample_decision_fields sample_decision_prices

lemma sample_reservation_simps:
  "rr_status sample_reservation = RES_RESERVED" "rr_expires_at sample_reservation = 120000000"
  "rr_reserved_quantity sample_reservation = 225" "length (rr_client_order_id sample_reservation) = 33"
  by (simp_all add: sample_reservation_def reservation_of_def client_order_id_of_def sample_request_def
      sample_setup_def sample_show_date)

definition sample_entry :: broker_order_command where
  "sample_entry =
     \<lparr>bc_command_id = command_id ''exec-001'' (rr_client_order_id sample_reservation),
      bc_execution_id = ''exec-001'', bc_client_order_id = rr_client_order_id sample_reservation,
      bc_symbol = ''ABCD'', bc_quantity = 225, bc_side = BUY, bc_order_type = OT_LIMIT,
      bc_time_in_force = TIF_DAY, bc_order_class = OC_BRACKET, bc_limit_price = Some (1001 / 100),
      bc_stop_price = None, bc_take_profit_limit_price = Some 12, bc_stop_loss_stop_price = Some 9,
      bc_extended_hours = False, bc_parent_client_order_id = None,
      bc_command_hash = canonical_sha256 JNull\<rparr>"

lemma sample_entry_built: "build_entry_command sample_dumps sample_execution 0 = Inr sample_entry"
  by (simp add: build_entry_command_def sample_execution_def sample_decision_simps sample_reservation_simps
      with_hash_def sample_entry_def sample_dumps_def no_dump_def valid_command_fields_def validate_shape_def
      positive_money_opt_def valid_money_def on_grid_def sample_ticker command_id_def Let_def
      del: is_canonical_ticker.simps)

definition sample_stop :: broker_order_command where
  "sample_stop =
     \<lparr>bc_command_id = command_id ''exec-001'' (protective_client_order_id (rr_client_order_id sample_reservation)),
      bc_execution_id = ''exec-001'',
      bc_client_order_id = protective_client_order_id (rr_client_order_id sample_reservation),
      bc_symbol = ''ABCD'', bc_quantity = 100, bc_side = SELL, bc_order_type = OT_STOP,
      bc_time_in_force = TIF_DAY, bc_order_class = OC_SIMPLE, bc_limit_price = None,
      bc_stop_price = Some 9, bc_take_profit_limit_price = None, bc_stop_loss_stop_price = None,
      bc_extended_hours = False, bc_parent_client_order_id = Some (rr_client_order_id sample_reservation),
      bc_command_hash = canonical_sha256 JNull\<rparr>"

lemma sample_stop_built:
  "build_partial_fill_protective_stop sample_dumps sample_execution 100 = Inr sample_stop"
  by (simp add: build_partial_fill_protective_stop_def sample_execution_def sample_decision_simps
      sample_reservation_simps with_hash_def sample_stop_def sample_dumps_def no_dump_def valid_command_fields_def
      validate_shape_def positive_money_opt_def valid_money_def on_grid_def sample_ticker command_id_def Let_def
      protective_client_order_id_def del: is_canonical_ticker.simps)

section \<open>The sample broker\<close>

definition order_of :: "broker_order_status \<Rightarrow> rat \<Rightarrow> broker_order_command \<Rightarrow> broker_order_snapshot" where
  "order_of status filled c =
     \<lparr>bo_snapshot_id = ''snapshot'', bo_broker_order_id = ''b-1'', bo_client_order_id = bc_client_order_id c,
      bo_symbol = bc_symbol c, bo_side = bc_side c, bo_order_type = bc_order_type c,
      bo_time_in_force = time_in_force_value (bc_time_in_force c),
      bo_order_class = order_class_value (bc_order_class c), bo_status = status,
      bo_quantity = of_int (bc_quantity c), bo_filled_quantity = filled, bo_filled_avg_price = None,
      bo_limit_price = bc_limit_price c, bo_stop_price = bc_stop_price c, bo_submitted_at = Some 0,
      bo_updated_at = 0,
      bo_legs = (if bc_order_class c = OC_BRACKET then
        [\<lparr>bl_broker_order_id = ''b-2'', bl_client_order_id = None, bl_side = ''sell'',
          bl_order_type = ''limit'', bl_status = ''held'', bl_quantity = of_int (bc_quantity c),
          bl_filled_quantity = 0, bl_limit_price = bc_take_profit_limit_price c, bl_stop_price = None\<rparr>,
         \<lparr>bl_broker_order_id = ''b-3'', bl_client_order_id = None, bl_side = ''sell'',
          bl_order_type = ''stop'', bl_status = ''held'', bl_quantity = of_int (bc_quantity c),
          bl_filled_quantity = 0, bl_limit_price = None, bl_stop_price = bc_stop_loss_stop_price c\<rparr>] else []),
      bo_raw_response_hash = replicate 64 (CHR ''0''), bo_raw_response = JNull\<rparr>"

text \<open>A broker whose state is the list of the identifiers of its orders.\<close>

definition sample_broker :: "string list broker_client" where
  "sample_broker =
     \<lparr>bk_get_order_by_client_order_id = (\<lambda>i b.
        if i \<in> set b then (Inr (order_of OS_ACCEPTED 0 sample_entry), b) else (Inl BrokerNotFound, b)),
      bk_submit_order = (\<lambda>c b. (Inr (order_of OS_ACCEPTED 0 c), bc_client_order_id c # b)),
      bk_cancel_order = (\<lambda>i b. (Inr (), b)),
      bk_get_order = (\<lambda>i b. (Inr (order_of OS_CANCELED 100 sample_entry), b)),
      bk_get_position = (\<lambda>i b. (Inr None, b))\<rparr>"

definition sample_holds :: "string list \<Rightarrow> string \<Rightarrow> bool" where
  "sample_holds b i \<longleftrightarrow> i \<in> set b"

lemma sample_truthful: "truthful sample_broker sample_holds"
  by (auto simp: truthful_def sample_broker_def sample_holds_def split: if_splits)

definition sample_start :: "string list exec_state" where
  "sample_start = \<lparr>es_repository = empty_execution_repository, es_reservation_events = [], es_broker = [], es_calls = []\<rparr>"

lemma sample_start_history: "exec_history sample_dumps sample_broker sample_start"
  unfolding sample_start_def by (rule exec_history.started)

lemma sample_empty:
  "get_request (es_repository sample_start) i = None" "stored_result (es_repository sample_start) i = None"
  "get_command_by_client_order_id (es_repository sample_start) i = None"
  by (simp_all add: sample_start_def empty_execution_repository_def read_defs)

lemma sample_accepted: "accepted sample_execution sample_entry (order_of OS_ACCEPTED 0 sample_entry)"
  by (simp add: accepted_def matches_def order_of_def sample_entry_def terminal_rejection_def
      broker_state_requires_reconciliation_def needs_protection_def)

lemma sample_submittable: "submittable sample_dumps sample_execution 0 sample_entry"
  using sample_entry_built
  by (simp add: submittable_def sample_execution_def default_execution_policy_def total_seconds_def flt_def)

lemma sample_result_free:
  "result_free sample_dumps sample_execution oc rs c x p f ts (es_repository sample_start)"
  by (simp add: result_free_def sample_empty Let_def)

lemma sample_answers:
  "bk_get_order_by_client_order_id sample_broker (bc_client_order_id sample_entry) (es_broker sample_start) =
     (Inl BrokerNotFound, [])"
  "bk_submit_order sample_broker sample_entry [] =
     (Inr (order_of OS_ACCEPTED 0 sample_entry), [bc_client_order_id sample_entry])"
  by (simp_all add: sample_broker_def sample_start_def)

lemma sample_unused:
  "get_request (es_repository sample_start) (xr_execution_id sample_execution) \<in> {None, Some sample_execution}"
  "get_command_by_client_order_id (es_repository sample_start) (bc_client_order_id sample_entry) \<in> {None, Some sample_entry}"
  by (simp_all add: sample_empty)

section \<open>A submission\<close>

definition sample_after :: "string list exec_state" where
  "sample_after = snd (submit sample_dumps sample_broker sample_execution 0 sample_start)"

definition sample_result :: execution_result where
  "sample_result = projr (fst (submit sample_dumps sample_broker sample_execution 0 sample_start))"

lemma sample_submission:
  "submit sample_dumps sample_broker sample_execution 0 sample_start = (Inr sample_result, sample_after)"
  "er_outcome sample_result = EO_SUBMITTED"
  "\<exists>b r. (CallSubmit sample_entry, b, r) \<in> set (es_calls sample_after)"
proof -
  obtain r t y z where run: "submit sample_dumps sample_broker sample_execution 0 sample_start = (Inr r, t)"
    and r: "er_outcome r = EO_SUBMITTED"
    and t: "es_calls t = es_calls sample_start @ [(CallLookup (bc_client_order_id sample_entry), y), (CallSubmit sample_entry, z)]"
    using submission_returns [OF sample_start_history sample_submittable sample_unused sample_answers sample_accepted
        sample_result_free] by blast
  have e: "sample_result = r" "sample_after = t" by (simp_all add: sample_result_def sample_after_def run)
  show "submit sample_dumps sample_broker sample_execution 0 sample_start = (Inr sample_result, sample_after)"
    "er_outcome sample_result = EO_SUBMITTED"
    unfolding e by (fact run r)+
  show "\<exists>b r. (CallSubmit sample_entry, b, r) \<in> set (es_calls sample_after)"
    unfolding e t by (cases z) auto
qed

lemma sample_after_history: "exec_history sample_dumps sample_broker sample_after"
  by (rule exec_history.submitted [OF sample_start_history sample_submission(1)])

theorem write_ahead_witness:
  "get_command_by_client_order_id (es_repository sample_after) (bc_client_order_id sample_entry) = Some sample_entry"
  using write_ahead [OF sample_after_history] sample_submission(3) by blast

theorem never_duplicates_witness:
  "\<exists>b r. (CallSubmit sample_entry, b, r) \<in> set (es_calls sample_after) \<and> bc_client_order_id sample_entry \<notin> set b"
  using never_duplicates [OF sample_truthful sample_after_history] sample_submission(3)
  unfolding sample_holds_def by blast


theorem submitted_bracket_complete_witness:
  "\<exists>x. er_broker_order sample_result = Some x \<and> length (bo_legs x) = 2"
  using submitted_bracket_complete [OF sample_submission(1,2)] by blast

theorem fresh_request_submitted_witness:
  "\<exists>r t. submit sample_dumps sample_broker sample_execution 0 sample_start = (Inr r, t) \<and> er_outcome r = EO_SUBMITTED"
  using fresh_request_submitted [OF sample_start_history sample_submittable sample_unused sample_answers sample_accepted
      sample_result_free] by blast

section \<open>A partial fill\<close>

definition sample_update :: trade_update where
  "sample_update =
     \<lparr>tu_event_id = ''event-1'', tu_event = ''partial_fill'', tu_event_timestamp = 5,
      tu_order = order_of OS_PARTIALLY_FILLED 100 sample_entry, tu_raw_event_hash = replicate 64 (CHR ''0'')\<rparr>"

text \<open>The entry is persisted and at the broker.\<close>

definition sample_open :: "string list exec_state" where
  "sample_open =
     \<lparr>es_repository = empty_execution_repository\<lparr>mx_commands := [(bc_client_order_id sample_entry, sample_entry)]\<rparr>,
      es_reservation_events = [], es_broker = [bc_client_order_id sample_entry], es_calls = []\<rparr>"

lemma protective_id_differs: "bc_client_order_id sample_stop \<noteq> bc_client_order_id sample_entry"
proof -
  have "length (bc_client_order_id sample_stop) = 35" "length (bc_client_order_id sample_entry) = 33"
    by (simp_all add: sample_stop_def sample_entry_def protective_client_order_id_def sample_reservation_simps)
  then show ?thesis by auto
qed

lemma sample_protectable:
  "protectable sample_broker (es_broker sample_open) (tu_order sample_update) (order_of OS_CANCELED 100 sample_entry)
     sample_stop (order_of OS_ACCEPTED 0 sample_stop)"
  using protective_id_differs
  by (auto simp: protectable_def sample_broker_def sample_open_def order_of_def is_integral_def matches_def sample_stop_def)

lemma sample_open_facts:
  "\<And>k. numbered ev_event_sequence (list_events (es_repository sample_open) k)"
  "map_of (mx_trade_update_ids (es_repository sample_open)) (tu_event_id sample_update) = None"
  "get_command_by_client_order_id (es_repository sample_open) (bo_client_order_id (tu_order sample_update)) = Some sample_entry"
  "needs_protection sample_execution (tu_order sample_update)"
  "get_command_by_client_order_id (es_repository sample_open) (bc_client_order_id sample_stop) \<in> {None, Some sample_stop}"
  "result_free sample_dumps sample_execution oc rs c x p f ts (es_repository sample_open)"
  using protective_id_differs
  by (simp_all add: sample_open_def empty_execution_repository_def read_defs log_items_def sample_update_def order_of_def
      needs_protection_def sample_execution_def default_execution_policy_def result_free_def Let_def)

lemma sample_stop_built': "build_partial_fill_protective_stop sample_dumps sample_execution
    \<lfloor>bo_filled_quantity (order_of OS_CANCELED 100 sample_entry)\<rfloor> = Inr sample_stop"
  using sample_stop_built by (simp add: order_of_def)

theorem partial_fill_gets_protected_witness:
  "\<exists>r t. handle_trade_update sample_dumps sample_broker sample_execution sample_update sample_open = (Inr r, t) \<and>
     er_outcome r = EO_PARTIAL_FILL_PROTECTED"
  using partial_fill_gets_protected [OF sample_open_facts(1-4) sample_protectable sample_stop_built'
      sample_open_facts(5,6)] by blast

definition sample_protected :: "string list exec_state" where
  "sample_protected = snd (handle_trade_update sample_dumps sample_broker sample_execution sample_update sample_open)"

definition sample_protection :: execution_result where
  "sample_protection = projr (fst (handle_trade_update sample_dumps sample_broker sample_execution sample_update sample_open))"

lemma sample_handled:
  "handle_trade_update sample_dumps sample_broker sample_execution sample_update sample_open =
     (Inr sample_protection, sample_protected)"
  "er_outcome sample_protection = EO_PARTIAL_FILL_PROTECTED"
proof -
  have "exec_events.contiguous (es_repository sample_open)"
    using sample_open_facts(1) by (simp add: exec_events.contiguous_def)
  then have "returning (handle_trade_update sample_dumps sample_broker sample_execution sample_update)
      (\<lambda>r t. er_outcome r = EO_PARTIAL_FILL_PROTECTED) sample_open"
    by (rule returning_handle_partial_fill [OF _ sample_open_facts(2-4) sample_protectable sample_stop_built'
        sample_open_facts(5,6)])
  then show "handle_trade_update sample_dumps sample_broker sample_execution sample_update sample_open =
     (Inr sample_protection, sample_protected)" "er_outcome sample_protection = EO_PARTIAL_FILL_PROTECTED"
    by (auto simp: wp_def sample_protection_def sample_protected_def split: prod.splits sum.splits)
qed

theorem partial_fill_protected_witness:
  "\<exists>y. er_protective_order sample_protection = Some y \<and> bo_side y = SELL \<and> bo_stop_price y = Some 9"
  using partial_fill_protected [OF sample_handled] by (auto simp: sample_execution_def sample_decision_simps)

definition sample_claimed :: "string list exec_state" where
  "sample_claimed = sample_open\<lparr>es_repository := (es_repository sample_open)\<lparr>mx_trade_update_ids :=
     [(''event-1'', ''exec-001'', replicate 64 (CHR ''0''))]\<rparr>\<rparr>"

section \<open>Cancellation, reconciliation and errors\<close>

lemma sample_reconciled:
  "\<exists>report t. reconcile_command sample_dumps sample_broker ''exec-001'' sample_entry 0 sample_open = (Inr report, t) \<and>
     rc_broker_order report = Some (order_of OS_ACCEPTED 0 sample_entry)"
  by (simp add: reconcile_command_def effect_defs lookup_order_def get_position_def broker_op_def Let_def
      sample_broker_def sample_open_def)

text \<open>
  A broker that refuses every order, and a second request under the same execution identifier,
  which collides.
\<close>

definition refusing_broker :: "unit broker_client" where
  "refusing_broker =
     \<lparr>bk_get_order_by_client_order_id = (\<lambda>i b. (Inl BrokerNotFound, b)),
      bk_submit_order = (\<lambda>c b. (Inl (BrokerTransportError False), b)),
      bk_cancel_order = (\<lambda>i b. (Inr (), b)),
      bk_get_order = (\<lambda>i b. (Inl BrokerNotFound, b)),
      bk_get_position = (\<lambda>i b. (Inr None, b))\<rparr>"

lemma refusing_well_behaved: "well_behaved refusing_broker"
  by (auto simp: well_behaved_def refusing_broker_def)

definition other_execution :: execution_request where
  "other_execution = sample_execution\<lparr>xr_requested_at := 1\<rparr>"

definition refused :: "unit exec_state" where
  "refused = snd (submit sample_dumps refusing_broker sample_execution 0
     \<lparr>es_repository = empty_execution_repository, es_reservation_events = [], es_broker = (), es_calls = []\<rparr>)"

lemma refused_history: "exec_history sample_dumps refusing_broker refused"
  unfolding refused_def by (rule exec_history.submitted [OF exec_history.started surjective_pairing])

lemma submit_stores_request:
  assumes "save_request request (es_repository s) = Inr q"
  shows "get_request (es_repository (snd (submit dumps broker request now s))) (xr_execution_id request) = Some request"
proof -
  obtain f where f: "submit dumps broker request now = andthen (repository_op (save_request request)) f"
    "\<And>u. steps (exec_step (\<lambda>_. True) (\<lambda>_ _. False)) (f u)"
    by (rule submit_rest [of broker "\<lambda>_ _. False" dumps request "\<lambda>_. True" now]) (simp_all add: truthful_trivial)
  have t: "submit dumps broker request now s = f () (s\<lparr>es_repository := q\<rparr>)"
    using assms f(1) by (simp add: andthen_def repository_op_def update_or_raise_def)
  have "repo_grows q (es_repository (snd (f () (s\<lparr>es_repository := q\<rparr>))))"
    using exec_step_grows [OF from_steps [OF f(2), where s = "s\<lparr>es_repository := q\<rparr>"]] by simp
  then show ?thesis
    unfolding t using exec_requests.saved [OF assms] by (auto simp: repo_grows_def map_le_def dom_def)
qed

lemma sample_collides:
  "submit sample_dumps refusing_broker other_execution 1 refused =
     (Inl (PyError (RuntimeError ''execution request identity collision'')), refused)"
proof -
  have "save_request sample_execution empty_execution_repository =
      Inr (empty_execution_repository\<lparr>mx_requests := [(''exec-001'', sample_execution)]\<rparr>)"
    by (simp add: save_request_def put_once_def setdefault_def empty_execution_repository_def sample_execution_def)
  then have "get_request (es_repository refused) ''exec-001'' = Some sample_execution"
    using submit_stores_request [of sample_execution "\<lparr>es_repository = empty_execution_repository,
        es_reservation_events = [], es_broker = (), es_calls = []\<rparr>"]
    by (simp add: refused_def sample_execution_def)
  then have "map_of (mx_requests (es_repository refused)) ''exec-001'' = Some sample_execution"
    by (simp add: get_request_def)
  moreover have "sample_execution \<noteq> other_execution" "xr_execution_id other_execution = ''exec-001''"
    by (simp_all add: other_execution_def sample_execution_def)
  ultimately show ?thesis
    by (simp add: submit_def andthen_def repository_op_def update_or_raise_def save_request_def put_once_def)
qed


end
