(* ===== verification/Orchestration_Models.thy ===== *)
theory Orchestration_Models
  imports Store Canonical Contract_Models
begin

text \<open>
  The data of the session orchestrator (\<open>daybreak_orchestration/enums.py\<close>, \<open>models.py\<close>), the
  session plan (\<open>clock.py\<close>) and the kill switch (\<open>kill_switch.py\<close>). Times of day are
  microseconds after midnight; the conversion of a New York wall-clock time to UTC is a
  parameter, as are the serialisers of pydantic.
\<close>

section \<open>daybreak\_orchestration/enums.py\<close>

datatype session_phase =
    SP_CREATED
  | SP_PREFLIGHT
  | SP_LEADERSHIP_ACQUIRED
  | SP_RECORDER_WARMUP
  | SP_RECORDING
  | SP_FEATURE_FREEZE
  | SP_EVALUATION
  | SP_RISK
  | SP_ELIGIBILITY_LOCK
  | SP_EXECUTION
  | SP_MONITORING
  | SP_FLATTENING
  | SP_RECONCILIATION
  | SP_COMPLETED
  | SP_FAILED
  | SP_KILLED

datatype session_outcome =
    SO_COMPLETED
  | SO_NO_SETUPS
  | SO_BLOCKED
  | SO_FAILED
  | SO_KILLED
  | SO_FLATTEN_INCOMPLETE

fun session_outcome_value :: "session_outcome \<Rightarrow> string" where
  "session_outcome_value SO_COMPLETED = ''completed''"
| "session_outcome_value SO_NO_SETUPS = ''no_setups''"
| "session_outcome_value SO_BLOCKED = ''blocked''"
| "session_outcome_value SO_FAILED = ''failed''"
| "session_outcome_value SO_KILLED = ''killed''"
| "session_outcome_value SO_FLATTEN_INCOMPLETE = ''flatten_incomplete''"

datatype phase_status = PS_STARTED | PS_COMPLETED | PS_FAILED | PS_SKIPPED

datatype kill_switch_reason =
    KR_MANUAL
  | KR_HARD_DAILY_LOSS
  | KR_ACCOUNT_BLOCKED
  | KR_TRADING_BLOCKED
  | KR_MARKET_CIRCUIT_BREAKER
  | KR_CLOCK_UNSYNCED
  | KR_DATABASE_UNHEALTHY
  | KR_RECORDER_UNHEALTHY
  | KR_MARKET_DATA_UNHEALTHY
  | KR_TRADE_UPDATE_STREAM_UNHEALTHY
  | KR_BROKER_UNHEALTHY
  | KR_LEADERSHIP_LOST
  | KR_CONFIGURATION_MISMATCH
  | KR_RECONCILIATION_FAILURE
  | KR_UNPROTECTED_POSITION
  | KR_EXECUTION_CUTOFF_EXCEEDED
  | KR_FLATTEN_DEADLINE_EXCEEDED
  | KR_UNKNOWN_FAILURE

fun kill_switch_reason_value :: "kill_switch_reason \<Rightarrow> string" where
  "kill_switch_reason_value KR_MANUAL = ''MANUAL''"
| "kill_switch_reason_value KR_HARD_DAILY_LOSS = ''HARD_DAILY_LOSS''"
| "kill_switch_reason_value KR_ACCOUNT_BLOCKED = ''ACCOUNT_BLOCKED''"
| "kill_switch_reason_value KR_TRADING_BLOCKED = ''TRADING_BLOCKED''"
| "kill_switch_reason_value KR_MARKET_CIRCUIT_BREAKER = ''MARKET_CIRCUIT_BREAKER''"
| "kill_switch_reason_value KR_CLOCK_UNSYNCED = ''CLOCK_UNSYNCED''"
| "kill_switch_reason_value KR_DATABASE_UNHEALTHY = ''DATABASE_UNHEALTHY''"
| "kill_switch_reason_value KR_RECORDER_UNHEALTHY = ''RECORDER_UNHEALTHY''"
| "kill_switch_reason_value KR_MARKET_DATA_UNHEALTHY = ''MARKET_DATA_UNHEALTHY''"
| "kill_switch_reason_value KR_TRADE_UPDATE_STREAM_UNHEALTHY = ''TRADE_UPDATE_STREAM_UNHEALTHY''"
| "kill_switch_reason_value KR_BROKER_UNHEALTHY = ''BROKER_UNHEALTHY''"
| "kill_switch_reason_value KR_LEADERSHIP_LOST = ''LEADERSHIP_LOST''"
| "kill_switch_reason_value KR_CONFIGURATION_MISMATCH = ''CONFIGURATION_MISMATCH''"
| "kill_switch_reason_value KR_RECONCILIATION_FAILURE = ''RECONCILIATION_FAILURE''"
| "kill_switch_reason_value KR_UNPROTECTED_POSITION = ''UNPROTECTED_POSITION''"
| "kill_switch_reason_value KR_EXECUTION_CUTOFF_EXCEEDED = ''EXECUTION_CUTOFF_EXCEEDED''"
| "kill_switch_reason_value KR_FLATTEN_DEADLINE_EXCEEDED = ''FLATTEN_DEADLINE_EXCEEDED''"
| "kill_switch_reason_value KR_UNKNOWN_FAILURE = ''UNKNOWN_FAILURE''"

datatype alert_severity = SEV_INFO | SEV_WARNING | SEV_CRITICAL

datatype leadership_event_type = LE_ACQUIRED | LE_RENEWED | LE_RELEASED | LE_LOST

section \<open>daybreak\_orchestration/models.py\<close>

type_synonym time_of_day = int
type_synonym details = "(string \<times> pyval) list"

definition time_et :: "int \<Rightarrow> int \<Rightarrow> int \<Rightarrow> time_of_day" where
  "time_et h m s = ((h * 60 + m) * 60 + s) * 1000000"

record orchestration_policy =
  op_policy_version :: string
  op_mode :: string
  op_timezone :: string
  op_recorder_warmup_time_et :: time_of_day
  op_feature_window_start_time_et :: time_of_day
  op_feature_snapshot_time_et :: time_of_day
  op_evaluator_cutoff_time_et :: time_of_day
  op_eligibility_lock_time_et :: time_of_day
  op_regular_session_open_time_et :: time_of_day
  op_new_entry_cutoff_time_et :: time_of_day
  op_mandatory_flatten_time_et :: time_of_day
  op_final_flatten_deadline_et :: time_of_day
  op_leadership_ttl_seconds :: int
  op_leadership_renew_interval_seconds :: int
  op_max_clock_skew_ms :: int
  op_flatten_poll_interval_seconds :: pyfloat
  op_flatten_verification_timeout_seconds :: pyfloat
  op_alert_dedup_window_seconds :: int
  op_allow_live_execution :: bool

definition policy_times :: "orchestration_policy \<Rightarrow> time_of_day list" where
  "policy_times p =
     [op_recorder_warmup_time_et p, op_feature_window_start_time_et p,
      op_feature_snapshot_time_et p, op_evaluator_cutoff_time_et p,
      op_eligibility_lock_time_et p, op_regular_session_open_time_et p,
      op_new_entry_cutoff_time_et p, op_mandatory_flatten_time_et p,
      op_final_flatten_deadline_et p]"

text \<open>\<open>any(left >= right for left, right in zip(ordered, ordered[1:]))\<close>.\<close>

definition out_of_order :: "int list \<Rightarrow> bool" where
  "out_of_order ts \<longleftrightarrow> list_ex (\<lambda>(left, right). left \<ge> right) (zip ts (tl ts))"

definition times_are_monotonic :: "orchestration_policy \<Rightarrow> string option" where
  "times_are_monotonic p =
     (if out_of_order (policy_times p) then Some ''orchestration times must be strictly increasing''
      else if op_leadership_renew_interval_seconds p \<ge> op_leadership_ttl_seconds p
      then Some ''leadership renew interval must be below lease TTL'' else None)"

definition valid_orchestration_policy :: "orchestration_policy \<Rightarrow> bool" where
  "valid_orchestration_policy p \<longleftrightarrow>
     op_policy_version p = ''session_orchestration_policy_v1'' \<and> op_mode p = ''paper'' \<and>
     op_timezone p = ''America/New_York'' \<and>
     5 \<le> op_leadership_ttl_seconds p \<and> op_leadership_ttl_seconds p \<le> 300 \<and>
     1 \<le> op_leadership_renew_interval_seconds p \<and> op_leadership_renew_interval_seconds p \<le> 60 \<and>
     0 < op_max_clock_skew_ms p \<and> op_max_clock_skew_ms p \<le> 5000 \<and>
     0 < op_flatten_poll_interval_seconds p \<and> op_flatten_poll_interval_seconds p \<le> 30 \<and>
     0 < op_flatten_verification_timeout_seconds p \<and>
     op_flatten_verification_timeout_seconds p \<le> 600 \<and>
     0 \<le> op_alert_dedup_window_seconds p \<and> op_alert_dedup_window_seconds p \<le> 3600 \<and>
     \<not> op_allow_live_execution p \<and> times_are_monotonic p = None"

definition default_orchestration_policy :: orchestration_policy where
  "default_orchestration_policy =
     \<lparr>op_policy_version = ''session_orchestration_policy_v1'', op_mode = ''paper'',
      op_timezone = ''America/New_York'', op_recorder_warmup_time_et = time_et 3 55 0,
      op_feature_window_start_time_et = time_et 4 0 0,
      op_feature_snapshot_time_et = time_et 9 23 0,
      op_evaluator_cutoff_time_et = time_et 9 26 30,
      op_eligibility_lock_time_et = time_et 9 29 30,
      op_regular_session_open_time_et = time_et 9 30 0,
      op_new_entry_cutoff_time_et = time_et 9 31 30,
      op_mandatory_flatten_time_et = time_et 15 50 0,
      op_final_flatten_deadline_et = time_et 15 55 0, op_leadership_ttl_seconds = 30,
      op_leadership_renew_interval_seconds = 10, op_max_clock_skew_ms = 250,
      op_flatten_poll_interval_seconds = 1, op_flatten_verification_timeout_seconds = 300,
      op_alert_dedup_window_seconds = 300, op_allow_live_execution = False\<rparr>"

record session_plan =
  pl_session_id :: string
  pl_run_id :: string
  pl_trading_date :: date
  pl_recorder_warmup_at :: timestamp
  pl_feature_window_start_at :: timestamp
  pl_feature_snapshot_at :: timestamp
  pl_evaluator_cutoff_at :: timestamp
  pl_eligibility_lock_at :: timestamp
  pl_regular_session_open_at :: timestamp
  pl_new_entry_cutoff_at :: timestamp
  pl_mandatory_flatten_at :: timestamp
  pl_final_flatten_deadline_at :: timestamp
  pl_policy :: orchestration_policy
  pl_configuration_hash :: string

definition plan_times :: "session_plan \<Rightarrow> timestamp list" where
  "plan_times p =
     [pl_recorder_warmup_at p, pl_feature_window_start_at p, pl_feature_snapshot_at p,
      pl_evaluator_cutoff_at p, pl_eligibility_lock_at p, pl_regular_session_open_at p,
      pl_new_entry_cutoff_at p, pl_mandatory_flatten_at p, pl_final_flatten_deadline_at p]"

definition chronological :: "session_plan \<Rightarrow> string option" where
  "chronological p =
     (if out_of_order (plan_times p)
      then Some ''session plan timestamps must be strictly increasing'' else None)"

definition valid_session_plan :: "session_plan \<Rightarrow> bool" where
  "valid_session_plan p \<longleftrightarrow>
     8 \<le> length (pl_session_id p) \<and> length (pl_session_id p) \<le> 64 \<and>
     1 \<le> length (pl_run_id p) \<and> length (pl_run_id p) \<le> 128 \<and>
     valid_orchestration_policy (pl_policy p) \<and> valid_hash (pl_configuration_hash p) \<and>
     chronological p = None"

record health_snapshot =
  hs_observed_at :: timestamp
  hs_clock_synchronized :: bool
  hs_clock_skew_ms :: int
  hs_database_healthy :: bool
  hs_recorder_healthy :: bool
  hs_market_data_stream_healthy :: bool
  hs_trade_update_stream_healthy :: bool
  hs_broker_healthy :: bool
  hs_account_active :: bool
  hs_account_blocked :: bool
  hs_trading_blocked :: bool
  hs_market_status_normal :: bool
  hs_configuration_hash :: string

record evaluation_phase_summary =
  eps_run_status :: string
  eps_approved_count :: int

text \<open>
  Validation of the dictionary that the evaluation hook returns: strict types, no further keys,
  the five run statuses, at most three setups, and coherence of the two.
\<close>

definition evaluation_summary_of :: "details \<Rightarrow> evaluation_phase_summary option" where
  "evaluation_summary_of d =
     (if set (map fst d) \<noteq> {''run_status'', ''approved_count''} then None
      else case (map_of d ''run_status'', map_of d ''approved_count'') of
        (Some (PStr st), Some (PInt n)) \<Rightarrow>
          if st \<notin> {''approved'', ''no_setups'', ''blocked_market'', ''stale_payload'', ''schema_failure''} \<or>
             n < 0 \<or> 3 < n
          then None
          else if st = ''approved'' \<and> n = 0 then None
          else if st \<noteq> ''approved'' \<and> n \<noteq> 0 then None
          else Some \<lparr>eps_run_status = st, eps_approved_count = n\<rparr>
      | _ \<Rightarrow> None)"

record phase_record =
  ph_session_id :: string
  ph_sequence :: int
  ph_phase :: session_phase
  ph_status :: phase_status
  ph_started_at :: timestamp
  ph_ended_at :: "timestamp option"
  ph_details :: details
  ph_record_hash :: string

record leadership_lease =
  ll_session_id :: string
  ll_holder_id :: string
  ll_acquired_at :: timestamp
  ll_renewed_at :: timestamp
  ll_expires_at :: timestamp
  ll_fencing_token :: int

definition valid_lease :: "leadership_lease \<Rightarrow> bool" where
  "valid_lease l \<longleftrightarrow>
     1 \<le> length (ll_holder_id l) \<and> length (ll_holder_id l) \<le> 128 \<and> 1 \<le> ll_fencing_token l \<and>
     \<not> (ll_renewed_at l < ll_acquired_at l \<or> ll_expires_at l \<le> ll_renewed_at l)"

record leadership_event =
  le_session_id :: string
  le_holder_id :: string
  le_event_type :: leadership_event_type
  le_event_timestamp :: timestamp
  le_fencing_token :: int
  le_details :: details
  le_event_hash :: string

record kill_switch_state =
  ks_session_id :: string
  ks_active :: bool
  ks_activated_at :: "timestamp option"
  ks_reason :: "kill_switch_reason option"
  ks_details :: details
  ks_reset_required :: bool
  ks_state_hash :: string

definition kill_switch_coherent :: "kill_switch_state \<Rightarrow> string option" where
  "kill_switch_coherent k =
     (if ks_active k \<and> (ks_activated_at k = None \<or> ks_reason k = None)
      then Some ''active kill switch requires timestamp and reason''
      else if \<not> ks_active k \<and> (ks_activated_at k \<noteq> None \<or> ks_reason k \<noteq> None)
      then Some ''inactive kill switch cannot carry activation data''
      else if ks_active k \<and> \<not> ks_reset_required k
      then Some ''active kill switch must require explicit reset''
      else None)"

record alert_record =
  al_alert_id :: string
  al_session_id :: string
  al_severity :: alert_severity
  al_code :: string
  al_message :: string
  al_created_at :: timestamp
  al_dedup_key :: string
  al_details :: details
  al_alert_hash :: string

definition valid_alert :: "alert_record \<Rightarrow> bool" where
  "valid_alert a \<longleftrightarrow>
     8 \<le> length (al_alert_id a) \<and> length (al_alert_id a) \<le> 64 \<and>
     1 \<le> length (al_code a) \<and> length (al_code a) \<le> 128 \<and>
     1 \<le> length (al_message a) \<and> length (al_message a) \<le> 2048 \<and>
     1 \<le> length (al_dedup_key a) \<and> length (al_dedup_key a) \<le> 256 \<and> valid_hash (al_alert_hash a)"

datatype target_source = SRC_EXECUTION_LEDGER | SRC_BROKER_ORDER_RECONSTRUCTION | SRC_COMBINED

record managed_position_target =
  mt_symbol :: string
  mt_quantity :: rat
  mt_source :: target_source

definition valid_target :: "managed_position_target \<Rightarrow> bool" where
  "valid_target t \<longleftrightarrow> is_canonical_ticker (mt_symbol t) \<and> 0 < mt_quantity t"

record session_position =
  sp_symbol :: string
  sp_quantity :: rat
  sp_average_entry_price :: "rat option"
  sp_observed_at :: timestamp
  sp_raw_response_hash :: string

definition valid_session_position :: "session_position \<Rightarrow> bool" where
  "valid_session_position p \<longleftrightarrow>
     is_canonical_ticker (sp_symbol p) \<and> 0 < sp_quantity p \<and>
     (case sp_average_entry_price p of None \<Rightarrow> True | Some a \<Rightarrow> 0 < a) \<and>
     valid_hash (sp_raw_response_hash p)"

record flatten_order =
  fo_symbol :: string
  fo_quantity :: rat
  fo_broker_order_id :: string
  fo_client_order_id :: "string option"
  fo_submitted_at :: timestamp
  fo_raw_response_hash :: string

record flatten_result =
  fr_flatten_id :: string
  fr_session_id :: string
  fr_started_at :: timestamp
  fr_completed_at :: timestamp
  fr_canceled_order_count :: int
  fr_initial_positions :: "session_position list"
  fr_close_orders :: "flatten_order list"
  fr_remaining_positions :: "session_position list"
  fr_complete :: bool
  fr_errors :: "string list"
  fr_result_hash :: string

record session_result =
  sn_session_id :: string
  sn_run_id :: string
  sn_outcome :: session_outcome
  sn_started_at :: timestamp
  sn_completed_at :: timestamp
  sn_final_phase :: session_phase
  sn_leadership_holder_id :: string
  sn_kill_switch :: kill_switch_state
  sn_flatten_result :: "flatten_result option"
  sn_phase_records :: "phase_record list"
  sn_alerts :: "alert_record list"
  sn_error_message :: "string option"
  sn_result_hash :: string

text \<open>The JSON documents of the values that are hashed, each with its identifiers and hash blank.\<close>

record orch_dumps =
  od_kill_switch :: "kill_switch_state \<Rightarrow> json"
  od_lease_event :: "leadership_event \<Rightarrow> json"
  od_alert :: "alert_record \<Rightarrow> json"
  od_phase :: "phase_record \<Rightarrow> json"
  od_flatten :: "flatten_result \<Rightarrow> json"
  od_result :: "session_result \<Rightarrow> json"

section \<open>daybreak\_orchestration/clock.py\<close>

definition iso_date :: "date \<Rightarrow> string" where
  "iso_date = (\<lambda>(y, m, d).
     let two = (\<lambda>n. (if n < 10 then ''0'' else []) @ show_int n);
         four = (\<lambda>n. replicate (4 - length (show_int n)) (CHR ''0'') @ show_int n)
     in four y @ ''-'' @ two m @ ''-'' @ two d)"

definition build_session_plan ::
    "(date \<Rightarrow> time_of_day \<Rightarrow> timestamp) \<Rightarrow> date \<Rightarrow> string \<Rightarrow> string \<Rightarrow> orchestration_policy \<Rightarrow>
     pyerr + session_plan" where
  "build_session_plan at_et trading_date run_id configuration_hash policy =
     (let plan =
        \<lparr>pl_session_id = uuid5_hex (''daybreak-session:'' @ iso_date trading_date @ '':'' @ run_id @ '':'' @
           configuration_hash @ '':'' @ op_policy_version policy),
         pl_run_id = run_id,
         pl_trading_date = trading_date,
         pl_recorder_warmup_at = at_et trading_date (op_recorder_warmup_time_et policy),
         pl_feature_window_start_at = at_et trading_date (op_feature_window_start_time_et policy),
         pl_feature_snapshot_at = at_et trading_date (op_feature_snapshot_time_et policy),
         pl_evaluator_cutoff_at = at_et trading_date (op_evaluator_cutoff_time_et policy),
         pl_eligibility_lock_at = at_et trading_date (op_eligibility_lock_time_et policy),
         pl_regular_session_open_at = at_et trading_date (op_regular_session_open_time_et policy),
         pl_new_entry_cutoff_at = at_et trading_date (op_new_entry_cutoff_time_et policy),
         pl_mandatory_flatten_at = at_et trading_date (op_mandatory_flatten_time_et policy),
         pl_final_flatten_deadline_at = at_et trading_date (op_final_flatten_deadline_et policy),
         pl_policy = policy,
         pl_configuration_hash = configuration_hash\<rparr>
      in if valid_session_plan plan then Inr plan else Inl (ValidationError ''SessionPlan''))"

section \<open>daybreak\_orchestration/kill\_switch.py\<close>

definition with_state_hash :: "orch_dumps \<Rightarrow> kill_switch_state \<Rightarrow> kill_switch_state" where
  "with_state_hash dumps core = core\<lparr>ks_state_hash := canonical_sha256 (od_kill_switch dumps core)\<rparr>"

definition inactive_kill_switch :: "orch_dumps \<Rightarrow> string \<Rightarrow> kill_switch_state" where
  "inactive_kill_switch dumps session_id =
     with_state_hash dumps
       \<lparr>ks_session_id = session_id, ks_active = False, ks_activated_at = None, ks_reason = None,
        ks_details = [], ks_reset_required = False, ks_state_hash = []\<rparr>"

definition activate_kill_switch ::
    "orch_dumps \<Rightarrow> string \<Rightarrow> kill_switch_reason \<Rightarrow> timestamp \<Rightarrow> details \<Rightarrow> kill_switch_state" where
  "activate_kill_switch dumps session_id reason now details =
     with_state_hash dumps
       \<lparr>ks_session_id = session_id, ks_active = True, ks_activated_at = Some now,
        ks_reason = Some reason, ks_details = details, ks_reset_required = True,
        ks_state_hash = []\<rparr>"

definition health_kill_reason ::
    "health_snapshot \<Rightarrow> session_plan \<Rightarrow> orchestration_policy \<Rightarrow> kill_switch_reason option" where
  "health_kill_reason health plan policy =
     (if hs_configuration_hash health \<noteq> pl_configuration_hash plan
      then Some KR_CONFIGURATION_MISMATCH
      else if \<not> hs_clock_synchronized health \<or> \<bar>hs_clock_skew_ms health\<bar> > op_max_clock_skew_ms policy
      then Some KR_CLOCK_UNSYNCED
      else if \<not> hs_database_healthy health then Some KR_DATABASE_UNHEALTHY
      else if \<not> hs_recorder_healthy health then Some KR_RECORDER_UNHEALTHY
      else if \<not> hs_market_data_stream_healthy health then Some KR_MARKET_DATA_UNHEALTHY
      else if \<not> hs_trade_update_stream_healthy health then Some KR_TRADE_UPDATE_STREAM_UNHEALTHY
      else if \<not> hs_broker_healthy health \<or> \<not> hs_account_active health then Some KR_BROKER_UNHEALTHY
      else if hs_account_blocked health then Some KR_ACCOUNT_BLOCKED
      else if hs_trading_blocked health then Some KR_TRADING_BLOCKED
      else if \<not> hs_market_status_normal health then Some KR_MARKET_CIRCUIT_BREAKER
      else None)"

text \<open>The constructors of the kill switch pass the coherence check of their model.\<close>

lemma kill_switches_coherent:
  "kill_switch_coherent (inactive_kill_switch dumps sid) = None"
  "kill_switch_coherent (activate_kill_switch dumps sid reason now ds) = None"
  by (simp_all add: kill_switch_coherent_def inactive_kill_switch_def activate_kill_switch_def with_state_hash_def)

lemma kill_switch_simps [simp]:
  "ks_active (inactive_kill_switch dumps sid) = False"
  "ks_session_id (inactive_kill_switch dumps sid) = sid"
  "ks_active (activate_kill_switch dumps sid reason now ds) = True"
  "ks_session_id (activate_kill_switch dumps sid reason now ds) = sid"
  "ks_reason (activate_kill_switch dumps sid reason now ds) = Some reason"
  by (simp_all add: inactive_kill_switch_def activate_kill_switch_def with_state_hash_def)

definition healthy :: "health_snapshot \<Rightarrow> session_plan \<Rightarrow> bool" where
  "healthy h plan \<longleftrightarrow>
     hs_configuration_hash h = pl_configuration_hash plan \<and> hs_clock_synchronized h \<and>
     \<bar>hs_clock_skew_ms h\<bar> \<le> op_max_clock_skew_ms (pl_policy plan) \<and> hs_database_healthy h \<and>
     hs_recorder_healthy h \<and> hs_market_data_stream_healthy h \<and> hs_trade_update_stream_healthy h \<and>
     hs_broker_healthy h \<and> hs_account_active h \<and> \<not> hs_account_blocked h \<and> \<not> hs_trading_blocked h \<and>
     hs_market_status_normal h"

lemma health_kill_reason_None: "health_kill_reason h plan (pl_policy plan) = None \<longleftrightarrow> healthy h plan"
  by (auto simp: health_kill_reason_def healthy_def)

end
