(* ===== verification/Orchestration_Store.thy ===== *)
theory Orchestration_Store
  imports Orchestration_Models
begin

text \<open>
  The in-memory repository of the orchestrator (\<open>daybreak_orchestration/persistence.py\<close>, class
  \<open>MemoryOrchestrationRepository\<close>) as an instance of the storage interfaces, and the alert
  manager and sinks (\<open>alerts.py\<close>).
\<close>

section \<open>daybreak\_orchestration/persistence.py\<close>

record memory_orchestration_repository =
  or_plans :: "(string, session_plan) dict"
  or_phases :: "(string, phase_record list) dict"
  or_kill_switches :: "(string, kill_switch_state) dict"
  or_alerts :: "(string, alert_record list) dict"
  or_flattens :: "(string, flatten_result) dict"
  or_results :: "(string, session_result) dict"

definition empty_orchestration_repository :: memory_orchestration_repository where
  "empty_orchestration_repository =
     \<lparr>or_plans = [], or_phases = [], or_kill_switches = [], or_alerts = [], or_flattens = [],
      or_results = []\<rparr>"

definition save_plan ::
    "session_plan \<Rightarrow> memory_orchestration_repository \<Rightarrow> pyerr + memory_orchestration_repository" where
  "save_plan plan s =
     map_sum id (\<lambda>d. s\<lparr>or_plans := d\<rparr>)
       (put_once ''session plan identity collision'' (pl_session_id plan) plan (or_plans s))"

definition append_phase ::
    "phase_record \<Rightarrow> memory_orchestration_repository \<Rightarrow> pyerr + memory_orchestration_repository" where
  "append_phase record s =
     map_sum id (\<lambda>d. s\<lparr>or_phases := d\<rparr>)
       (append_next ''phase sequence is not contiguous'' ''first phase sequence must be one'' ph_sequence
         (ph_session_id record) record (or_phases s))"

definition save_kill_switch ::
    "kill_switch_state \<Rightarrow> memory_orchestration_repository \<Rightarrow> pyerr + memory_orchestration_repository" where
  "save_kill_switch state s =
     (case map_of (or_kill_switches s) (ks_state_hash state) of
        Some existing \<Rightarrow>
          if existing \<noteq> state then Inl (RuntimeError ''kill-switch state collision'')
          else Inr (s\<lparr>or_kill_switches := AList.update (ks_state_hash state) state (or_kill_switches s)\<rparr>)
      | None \<Rightarrow> Inr (s\<lparr>or_kill_switches := AList.update (ks_state_hash state) state (or_kill_switches s)\<rparr>))"

definition get_latest_kill_switch :: "memory_orchestration_repository \<Rightarrow> string \<Rightarrow> kill_switch_state option" where
  "get_latest_kill_switch s session_id =
     (let found = filter (\<lambda>state. ks_session_id state = session_id) (dict_values (or_kill_switches s))
      in if found \<noteq> [] then Some (last found) else None)"

definition save_alert :: "alert_record \<Rightarrow> memory_orchestration_repository \<Rightarrow> memory_orchestration_repository" where
  "save_alert alert s =
     (let items = log_items (or_alerts s) (al_session_id alert) in
      if list_all (\<lambda>existing. al_alert_id existing \<noteq> al_alert_id alert) items
      then s\<lparr>or_alerts := AList.update (al_session_id alert) (items @ [alert]) (or_alerts s)\<rparr>
      else s)"

definition save_flatten :: "flatten_result \<Rightarrow> memory_orchestration_repository \<Rightarrow> memory_orchestration_repository" where
  "save_flatten result s = s\<lparr>or_flattens := setdefault (fr_flatten_id result) result (or_flattens s)\<rparr>"

definition save_session_result ::
    "session_result \<Rightarrow> memory_orchestration_repository \<Rightarrow> memory_orchestration_repository" where
  "save_session_result result s = s\<lparr>or_results := setdefault (sn_result_hash result) result (or_results s)\<rparr>"

definition list_phases :: "memory_orchestration_repository \<Rightarrow> string \<Rightarrow> phase_record list" where
  "list_phases s session_id = log_items (or_phases s) session_id"

definition list_alerts :: "memory_orchestration_repository \<Rightarrow> string \<Rightarrow> alert_record list" where
  "list_alerts s session_id = log_items (or_alerts s) session_id"

section \<open>The repository implements the storage interfaces\<close>

definition stored_plan :: "memory_orchestration_repository \<Rightarrow> string \<Rightarrow> session_plan option" where
  "stored_plan s = map_of (or_plans s)"

interpretation session_plans: append_only_store stored_plan pl_session_id save_plan
  by unfold_locales (auto simp: stored_plan_def save_plan_def put_once_def setdefault_present)

definition next_phase_sequence :: "memory_orchestration_repository \<Rightarrow> string \<Rightarrow> int" where
  "next_phase_sequence s session_id = int (length (list_phases s session_id)) + 1"

lemma append_phase_Inr: "append_phase r s = Inr t \<longleftrightarrow>
    (\<exists>d. append_next ''phase sequence is not contiguous'' ''first phase sequence must be one'' ph_sequence
       (ph_session_id r) r (or_phases s) = Inr d \<and> t = s\<lparr>or_phases := d\<rparr>)"
  by (cases "append_next ''phase sequence is not contiguous'' ''first phase sequence must be one'' ph_sequence
       (ph_session_id r) r (or_phases s)") (auto simp: append_phase_def)

interpretation session_phases:
  contiguous_log list_phases ph_session_id ph_sequence next_phase_sequence append_phase
proof
  fix e s t and k
  show "next_phase_sequence s k = int (length (list_phases s k)) + 1"
    by (simp add: next_phase_sequence_def)
  show "(\<forall>k. list_phases t k =
        (if k = ph_session_id e then list_phases s k @ [e] else list_phases s k)) \<and>
      ph_sequence e = (if list_phases s (ph_session_id e) = [] then 1
        else ph_sequence (last (list_phases s (ph_session_id e))) + 1)"
    if "append_phase e s = Inr t"
    using that append_next_Inr [of _ _ ph_sequence "ph_session_id e" e "or_phases s"]
    by (auto simp: append_phase_Inr list_phases_def)
  show "\<exists>t. append_phase e s = Inr t"
    if "numbered ph_sequence (list_phases s (ph_session_id e))"
      and "ph_sequence e = next_phase_sequence s (ph_session_id e)"
    using that by (simp add: list_phases_def next_phase_sequence_def append_phase_def append_next_items)
qed

section \<open>The kill switch latches\<close>

lemma update_new: "map_of d k = None \<Longrightarrow> AList.update k v d = d @ [(k, v)]"
  by (induction d) (auto split: if_splits)

lemma update_same: "map_of d k = Some v \<Longrightarrow> AList.update k v d = d"
  by (induction d) (auto split: if_splits)

text \<open>The last state of a session that was stored under a new hash is the latest one.\<close>

lemma save_kill_switch_cases:
  assumes "save_kill_switch k s = Inr t"
  obtains (new) "map_of (or_kill_switches s) (ks_state_hash k) = None"
      "t = s\<lparr>or_kill_switches := or_kill_switches s @ [(ks_state_hash k, k)]\<rparr>"
  | (same) "map_of (or_kill_switches s) (ks_state_hash k) = Some k" "t = s"
  using assms by (auto simp: save_kill_switch_def update_new update_same split: option.splits if_splits)

definition killed :: "memory_orchestration_repository \<Rightarrow> string \<Rightarrow> bool" where
  "killed s sid \<longleftrightarrow> (\<exists>k. get_latest_kill_switch s sid = Some k \<and> ks_active k)"

definition latched :: "memory_orchestration_repository \<Rightarrow> bool" where
  "latched s \<longleftrightarrow> (\<forall>sid. list_all (\<lambda>k. ks_active k \<longrightarrow> ks_session_id k = sid \<longrightarrow> killed s sid)
     (dict_values (or_kill_switches s)))"

lemma get_latest_new:
  "get_latest_kill_switch (s\<lparr>or_kill_switches := or_kill_switches s @ [(h, k)]\<rparr>) sid =
     (if ks_session_id k = sid then Some k else get_latest_kill_switch s sid)"
  by (simp add: get_latest_kill_switch_def Let_def dict_values_def)

text \<open>
  Saving an active state kills its session; a session stays killed while only active states are
  saved, or the inactive state that is already stored.
\<close>

lemma save_active_kills:
  assumes "save_kill_switch k s = Inr t" "ks_active k" "latched s"
  shows "killed t (ks_session_id k) \<and> latched t"
  using assms(1)
proof (cases rule: save_kill_switch_cases)
  case new
  then show ?thesis using assms(2,3)
    by (auto simp: killed_def latched_def get_latest_new dict_values_def list_all_iff)
next
  case same
  then have "k \<in> set (dict_values (or_kill_switches s))" by (auto intro: map_of_in_values)
  then show ?thesis using same assms(2,3) by (auto simp: latched_def list_all_iff)
qed

lemma save_keeps_killed:
  assumes "save_kill_switch k s = Inr t" "ks_active k \<or> ks_session_id k \<noteq> sid" "killed s sid"
  shows "killed t sid"
  using assms(1) by (cases rule: save_kill_switch_cases) (use assms(2,3) in \<open>auto simp: killed_def get_latest_new\<close>)

section \<open>daybreak\_orchestration/alerts.py\<close>

text \<open>Every sink gets the alert; the call fails when there are sinks and all of them failed.\<close>

fun send_all :: "(alert_record \<Rightarrow> ('w, unit) external) list \<Rightarrow> alert_record \<Rightarrow> ('w, nat) external" where
  "send_all [] alert = ret 0"
| "send_all (sink # sinks) alert =
     andthen (catch (andthen (sink alert) (\<lambda>_. ret 0)) (\<lambda>e. ret 1))
       (\<lambda>failed. andthen (send_all sinks alert) (\<lambda>rest. ret (failed + rest)))"

definition composite_send ::
    "(alert_record \<Rightarrow> ('w, unit) external) list \<Rightarrow> alert_record \<Rightarrow> ('w, unit) external" where
  "composite_send sinks alert =
     andthen (send_all sinks alert)
       (\<lambda>errors. if errors > 0 \<and> errors = length sinks then raise (''RuntimeError'', ''all alert sinks failed'')
         else ret ())"

text \<open>
  \<open>AlertManager.emit\<close> with the default details and key. The time of the alert is remembered
  before the sink is called, so a failed delivery counts as sent.
\<close>

record 'w alert_state =
  as_last_sent :: "(string, timestamp) dict"
  as_world :: 'w

definition alert_of ::
    "orch_dumps \<Rightarrow> string \<Rightarrow> alert_severity \<Rightarrow> string \<Rightarrow> string \<Rightarrow> timestamp \<Rightarrow> alert_record" where
  "alert_of dumps session_id severity code message now =
     (let core =
        \<lparr>al_alert_id = [], al_session_id = session_id, al_severity = severity, al_code = code,
         al_message = message, al_created_at = now, al_dedup_key = session_id @ '':'' @ code,
         al_details = [], al_alert_hash = []\<rparr>;
          alert_hash = canonical_sha256 (od_alert dumps core)
      in core\<lparr>al_alert_hash := alert_hash, al_alert_id := uuid5_hex (''daybreak-alert:'' @ alert_hash)\<rparr>)"

definition emit ::
    "orch_dumps \<Rightarrow> (alert_record \<Rightarrow> ('w, unit) external) \<Rightarrow> int \<Rightarrow> (alert_record \<Rightarrow> string) \<Rightarrow> string \<Rightarrow> alert_severity \<Rightarrow>
     string \<Rightarrow> string \<Rightarrow> timestamp \<Rightarrow> ('w alert_state, alert_record option) external" where
  "emit dumps send dedup_window_seconds invalid session_id severity code message now s =
     (let key = session_id @ '':'' @ code;
          alert = alert_of dumps session_id severity code message now
      in if (case map_of (as_last_sent s) key of
               None \<Rightarrow> False | Some previous \<Rightarrow> now - previous < dedup_window_seconds * 1000000)
         then (Inr None, s)
         else if \<not> valid_alert alert then (Inl (''ValidationError'', invalid alert), s)
         else
           (case send alert (as_world s) of (r, w) \<Rightarrow>
              (map_sum id (\<lambda>_. Some alert) r,
               s\<lparr>as_last_sent := AList.update key now (as_last_sent s), as_world := w\<rparr>)))"

end
