(* ===== verification/Flatten.thy ===== *)
theory Flatten
  imports Orchestration_Store Decimal_Context
begin

text \<open>
  The mandatory end-of-day flatten (\<open>daybreak_orchestration/flatten.py\<close>): merging of the targets,
  cancellation of open orders, closing of uncovered quantities and the verification loop, over a
  broker and a clock that are parameters.
\<close>

section \<open>Decimal texts\<close>

text \<open>
  \<open>Decimal(text)\<close>: surrounding white space and underscores are ignored; a sign, digits with an
  optional point, an optional exponent, or an infinity or NaN. \<open>None\<close> is the exception
  \<open>InvalidOperation\<close>, also for exponents beyond the limits of the decimal module.
\<close>

datatype dec_value = DFin rat | DInf bool | DNaN

definition is_digit :: "char \<Rightarrow> bool" where
  "is_digit c \<longleftrightarrow> CHR ''0'' \<le> c \<and> c \<le> CHR ''9''"

definition digits_value :: "string \<Rightarrow> int" where
  "digits_value ds = foldl (\<lambda>n c. 10 * n + (of_char c - 48)) 0 ds"

definition is_space :: "char \<Rightarrow> bool" where
  "is_space c \<longleftrightarrow> (of_char c :: nat) \<in> {9, 10, 11, 12, 13, 28, 29, 30, 31, 32}"

definition strip_space :: "string \<Rightarrow> string" where
  "strip_space s = rev (dropWhile is_space (rev (dropWhile is_space s)))"

fun take_sign :: "string \<Rightarrow> bool \<times> string" where
  "take_sign [] = (False, [])"
| "take_sign (c # s) = (if c = CHR ''-'' then (True, s) else if c = CHR ''+'' then (False, s) else (False, c # s))"

definition lower_char :: "char \<Rightarrow> char" where
  "lower_char c = (if CHR ''A'' \<le> c \<and> c \<le> CHR ''Z'' then char_of (of_char c + 32 :: nat) else c)"

definition upper_char :: "char \<Rightarrow> char" where
  "upper_char c = (if CHR ''a'' \<le> c \<and> c \<le> CHR ''z'' then char_of (of_char c - 32 :: nat) else c)"

definition exponent_of :: "string \<Rightarrow> int option" where
  "exponent_of s =
     (case s of [] \<Rightarrow> Some 0
      | c # r \<Rightarrow>
          if lower_char c \<noteq> CHR ''e'' then None
          else let (neg, ds) = take_sign r in
            if ds = [] \<or> \<not> list_all is_digit ds then None
            else Some (if neg then - digits_value ds else digits_value ds))"

definition pow10 :: "int \<Rightarrow> rat" where
  "pow10 e = (if 0 \<le> e then 10 ^ nat e else 1 / 10 ^ nat (- e))"

definition finite_of_text :: "bool \<Rightarrow> string \<Rightarrow> dec_value option" where
  "finite_of_text neg s =
     (let whole = takeWhile is_digit s;
          r = dropWhile is_digit s;
          (frac, r') = (if take 1 r = ''.'' then (takeWhile is_digit (drop 1 r), dropWhile is_digit (drop 1 r))
            else ([], r));
          coefficient = digits_value (whole @ frac)
      in if whole @ frac = [] then None
         else case exponent_of r' of
             None \<Rightarrow> None
           | Some e \<Rightarrow>
               let ex = e - int (length frac) in
               if coefficient = 0 then Some (DFin 0)
               else if ex + int (length (show_int coefficient)) - 1 > 999999999999999999 \<or>
                 ex < - 1999999999999999997 then None
               else Some (DFin ((if neg then - 1 else 1) * of_int coefficient * pow10 ex)))"

definition decimal_of_text :: "string \<Rightarrow> dec_value option" where
  "decimal_of_text text =
     (let (neg, s) = take_sign (filter (\<lambda>c. c \<noteq> CHR ''_'') (strip_space text));
          l = map lower_char s
      in if l \<in> {''inf'', ''infinity''} then Some (DInf neg)
         else if take 3 l = ''nan'' \<and> list_all is_digit (drop 3 l) \<or>
           take 4 l = ''snan'' \<and> list_all is_digit (drop 4 l) then Some DNaN
         else finite_of_text neg s)"

section \<open>\_merge\_targets\<close>

text \<open>
  The quantity of a managed position is a decimal, an integer or a text. \<open>Decimal(str(x))\<close> of a
  decimal is the decimal itself. A merged quantity is \<open>None\<close> when it is infinite.
\<close>

datatype managed_quantity = MQ_Decimal rat | MQ_Int int | MQ_Text string

fun decimal_of_quantity :: "managed_quantity \<Rightarrow> dec_value option" where
  "decimal_of_quantity (MQ_Decimal q) = Some (DFin q)"
| "decimal_of_quantity (MQ_Int i) = decimal_of_text (show_int i)"
| "decimal_of_quantity (MQ_Text t) = decimal_of_text t"

type_synonym merged = "(string, rat option \<times> target_source list) dict"

definition max_quantity :: "rat option \<Rightarrow> rat option \<Rightarrow> rat option" where
  "max_quantity a b = (case (a, b) of (Some x, Some y) \<Rightarrow> Some (max x y) | _ \<Rightarrow> None)"

definition add_target :: "string \<Rightarrow> rat option \<Rightarrow> target_source \<Rightarrow> merged \<Rightarrow> merged" where
  "add_target symbol quantity source d =
     (let (q, sources) = (case map_of d symbol of None \<Rightarrow> (Some 0, []) | Some entry \<Rightarrow> entry) in
      AList.update symbol (max_quantity q quantity, List.insert source sources) d)"

fun merge_managed :: "(string \<times> managed_quantity) list \<Rightarrow> merged \<Rightarrow> exn + merged" where
  "merge_managed [] d = Inr d"
| "merge_managed ((symbol, raw_quantity) # rest) d =
     (case decimal_of_quantity raw_quantity of
        None \<Rightarrow> Inl (''InvalidOperation'', ''[<class 'decimal.ConversionSyntax'>]'')
      | Some DNaN \<Rightarrow> Inl (''InvalidOperation'', ''[<class 'decimal.InvalidOperation'>]'')
      | Some (DInf neg) \<Rightarrow>
          if neg then merge_managed rest d
          else merge_managed rest (add_target symbol None SRC_EXECUTION_LEDGER d)
      | Some (DFin quantity) \<Rightarrow>
          if quantity \<le> 0 then merge_managed rest d
          else merge_managed rest (add_target symbol (Some quantity) SRC_EXECUTION_LEDGER d))"

definition target_of :: "(string \<Rightarrow> rat option \<Rightarrow> string) \<Rightarrow> merged \<Rightarrow> string \<Rightarrow> exn + managed_position_target" where
  "target_of invalid_target d symbol =
     (case map_of d symbol of
        None \<Rightarrow> Inl (''KeyError'', symbol)
      | Some (quantity, sources) \<Rightarrow>
          let source = (if length sources > 1 then SRC_COMBINED else hd sources) in
          (case quantity of
             None \<Rightarrow> Inl (''ValidationError'', invalid_target symbol quantity)
           | Some q \<Rightarrow>
               let target = \<lparr>mt_symbol = symbol, mt_quantity = q, mt_source = source\<rparr> in
               if valid_target target then Inr target
               else Inl (''ValidationError'', invalid_target symbol quantity)))"

fun sequence_sum :: "('e + 'a) list \<Rightarrow> 'e + 'a list" where
  "sequence_sum [] = Inr []"
| "sequence_sum (x # xs) =
     (case x of Inl e \<Rightarrow> Inl e | Inr y \<Rightarrow> map_sum id ((#) y) (sequence_sum xs))"

definition merge_targets ::
    "(string \<Rightarrow> rat option \<Rightarrow> string) \<Rightarrow> managed_position_target list \<Rightarrow> (string \<times> managed_quantity) list \<Rightarrow>
     exn + managed_position_target list" where
  "merge_targets invalid_target discovered managed_quantities =
     (let d0 = foldl (\<lambda>d t. add_target (mt_symbol t) (Some (mt_quantity t)) (mt_source t) d) [] discovered in
      case merge_managed managed_quantities d0 of
        Inl e \<Rightarrow> Inl e
      | Inr d \<Rightarrow> sequence_sum (map (target_of invalid_target d) (sort (map fst d))))"

section \<open>FlattenService\<close>

record 'w session_broker =
  sb_discover_daybreak_targets :: "session_plan \<Rightarrow> ('w, managed_position_target list) external"
  sb_cancel_daybreak_orders :: "session_plan \<Rightarrow> ('w, int) external"
  sb_list_positions :: "managed_position_target list \<Rightarrow> ('w, session_position list) external"
  sb_close_position :: "session_position \<Rightarrow> ('w, flatten_order) external"

record 'w session_time =
  st_clock :: "'w \<Rightarrow> timestamp \<times> 'w"
  st_sleep :: "pyfloat \<Rightarrow> 'w \<Rightarrow> 'w"

text \<open>The texts of pydantic's validation errors.\<close>

record invalid_texts =
  iv_target :: "string \<Rightarrow> rat option \<Rightarrow> string"
  iv_flatten :: "int \<Rightarrow> string"
  iv_alert :: "alert_record \<Rightarrow> string"
  iv_lease :: "string \<Rightarrow> string"
  iv_summary :: "details \<Rightarrow> string"

text \<open>
  An exception that the program raises or lets pass; running out of fuel in a loop is told
  apart from every exception, no handler sees it.
\<close>

datatype raised = Raised string string | OutOfFuel

text \<open>
  The local variables of \<open>flatten\<close> with the world; \<open>fs_calls\<close> is the history of the answers of
  the broker about positions: listings, accepted closes and failed closes.
\<close>

datatype flatten_answer = Listed "session_position list" | Closed session_position | CloseFailed session_position

record 'w flatten_state =
  fs_world :: 'w
  fs_errors :: "string list"
  fs_close_orders :: "flatten_order list"
  fs_submitted :: "(string, rat) dict"
  fs_calls :: "flatten_answer list"

type_synonym ('w, 'a) flattening = "('w flatten_state, raised, 'a) eff"

definition add_error :: "string \<Rightarrow> exn \<Rightarrow> ('w, unit) flattening" where
  "add_error prefix_text e =
     modify (\<lambda>s. s\<lparr>fs_errors := fs_errors s @ [prefix_text @ '' failed: '' @ fst e @ '': '' @ snd e]\<rparr>)"

text \<open>\<open>try: x = call() except Exception: x = fallback; errors.append(...)\<close>.\<close>

definition or_default :: "string \<Rightarrow> ('w, 'a) external \<Rightarrow> 'a \<Rightarrow> ('w, 'a) flattening" where
  "or_default what call fallback s =
     (case call (fs_world s) of
        (Inr x, w) \<Rightarrow> (Inr x, s\<lparr>fs_world := w\<rparr>)
      | (Inl e, w) \<Rightarrow> andthen (add_error what e) (\<lambda>_. ret fallback) (s\<lparr>fs_world := w\<rparr>))"

definition submitted_quantity :: "'w flatten_state \<Rightarrow> string \<Rightarrow> rat" where
  "submitted_quantity s symbol = (case map_of (fs_submitted s) symbol of None \<Rightarrow> 0 | Some q \<Rightarrow> q)"

definition close_one :: "'w session_broker \<Rightarrow> session_position \<Rightarrow> ('w, unit) flattening" where
  "close_one broker position s =
     (let already_submitted = submitted_quantity s (sp_symbol position);
          uncovered = dsub (sp_quantity position) already_submitted;
          close_target = position\<lparr>sp_quantity := uncovered\<rparr>
      in if uncovered \<le> 0 then (Inr (), s)
         else
           (case sb_close_position broker close_target (fs_world s) of
              (Inr order, w) \<Rightarrow>
                (Inr (), s\<lparr>fs_world := w, fs_close_orders := fs_close_orders s @ [order],
                   fs_submitted := AList.update (sp_symbol position) (dadd already_submitted uncovered) (fs_submitted s),
                   fs_calls := fs_calls s @ [Closed close_target]\<rparr>)
            | (Inl e, w) \<Rightarrow>
                add_error (''close position '' @ sp_symbol position) e
                  (s\<lparr>fs_world := w, fs_calls := fs_calls s @ [CloseFailed close_target]\<rparr>)))"

fun close_uncovered :: "'w session_broker \<Rightarrow> session_position list \<Rightarrow> ('w, unit) flattening" where
  "close_uncovered broker [] = ret ()"
| "close_uncovered broker (position # positions) =
     andthen (close_one broker position) (\<lambda>_. close_uncovered broker positions)"

definition on_time :: "('w \<Rightarrow> 'a \<times> 'w) \<Rightarrow> ('w, 'a) flattening" where
  "on_time f s = (case f (fs_world s) of (x, w) \<Rightarrow> (Inr x, s\<lparr>fs_world := w\<rparr>))"

definition listed :: "session_position list \<Rightarrow> ('w, unit) flattening" where
  "listed ps = modify (\<lambda>s. s\<lparr>fs_calls := fs_calls s @ [Listed ps]\<rparr>)"

definition try_list ::
    "'w session_broker \<Rightarrow> managed_position_target list \<Rightarrow> ('w, exn + session_position list) flattening" where
  "try_list broker targets s =
     (case sb_list_positions broker targets (fs_world s) of
        (Inr ps, w) \<Rightarrow> andthen (listed ps) (\<lambda>_. ret (Inr ps)) (s\<lparr>fs_world := w\<rparr>)
      | (Inl e, w) \<Rightarrow> (Inr (Inl e), s\<lparr>fs_world := w\<rparr>))"

fun verify_positions ::
    "'w session_broker \<Rightarrow> 'w session_time \<Rightarrow> pyfloat \<Rightarrow> timestamp \<Rightarrow> managed_position_target list \<Rightarrow> nat \<Rightarrow>
     session_position list \<Rightarrow> ('w, session_position list) flattening" where
  "verify_positions broker tm poll deadline targets 0 remaining = raise OutOfFuel"
| "verify_positions broker tm poll deadline targets (Suc fuel) remaining =
     andthen (on_time (st_clock tm)) (\<lambda>now.
       if now < deadline then
         andthen (try_list broker targets) (\<lambda>r.
           case r of
             Inl e \<Rightarrow> andthen (add_error ''verify Daybreak positions'' e) (\<lambda>_. ret remaining)
           | Inr ps \<Rightarrow>
               if ps = [] then ret []
               else andthen (close_uncovered broker ps) (\<lambda>_.
                 andthen (on_time (\<lambda>w. ((), st_sleep tm poll w))) (\<lambda>_.
                   verify_positions broker tm poll deadline targets fuel ps)))
       else ret remaining)"

definition verification_deadline :: "session_plan \<Rightarrow> timestamp \<Rightarrow> timestamp" where
  "verification_deadline plan started_at =
     min (pl_final_flatten_deadline_at plan)
       (started_at + round_half_even (op_flatten_verification_timeout_seconds (pl_policy plan) * 1000000))"

definition flatten_result_of ::
    "orch_dumps \<Rightarrow> session_plan \<Rightarrow> timestamp \<Rightarrow> timestamp \<Rightarrow> int \<Rightarrow> session_position list \<Rightarrow>
     flatten_order list \<Rightarrow> session_position list \<Rightarrow> string list \<Rightarrow> flatten_result" where
  "flatten_result_of dumps plan started_at completed_at canceled_order_count initial_positions close_orders
     remaining errors =
     (let core =
        \<lparr>fr_flatten_id = [], fr_session_id = pl_session_id plan, fr_started_at = started_at,
         fr_completed_at = completed_at, fr_canceled_order_count = canceled_order_count,
         fr_initial_positions = initial_positions, fr_close_orders = close_orders,
         fr_remaining_positions = remaining, fr_complete = (remaining = [] \<and> errors = []),
         fr_errors = errors, fr_result_hash = []\<rparr>;
          result_hash = canonical_sha256 (od_flatten dumps core)
      in core\<lparr>fr_result_hash := result_hash,
           fr_flatten_id := uuid5_hex (''daybreak-flatten:'' @ pl_session_id plan @ '':'' @ result_hash)\<rparr>)"

definition flatten_body ::
    "orch_dumps \<Rightarrow> invalid_texts \<Rightarrow> 'w session_broker \<Rightarrow> 'w session_time \<Rightarrow> nat \<Rightarrow> session_plan \<Rightarrow> timestamp \<Rightarrow>
     (string \<times> managed_quantity) list \<Rightarrow> ('w, flatten_result) flattening" where
  "flatten_body dumps texts broker tm fuel plan now managed_quantities =
     andthen (or_default ''discover Daybreak quantities'' (sb_discover_daybreak_targets broker plan) []) (\<lambda>discovered.
     andthen (from_result (map_sum (\<lambda>e. Raised (fst e) (snd e)) id
       (merge_targets (iv_target texts) discovered managed_quantities))) (\<lambda>targets.
     andthen (or_default ''cancel Daybreak orders'' (sb_cancel_daybreak_orders broker plan) 0) (\<lambda>canceled_order_count.
     andthen (try_list broker targets) (\<lambda>r.
     andthen (case r of
         Inl e \<Rightarrow> andthen (add_error ''list Daybreak positions'' e) (\<lambda>_. ret [])
       | Inr ps \<Rightarrow> ret ps) (\<lambda>initial_positions.
     andthen (close_uncovered broker initial_positions) (\<lambda>_.
     andthen (verify_positions broker tm (op_flatten_poll_interval_seconds (pl_policy plan))
       (verification_deadline plan now) targets fuel initial_positions) (\<lambda>remaining.
     andthen (on_time (st_clock tm)) (\<lambda>completed_at.
     andthen (gets (\<lambda>s. (fs_close_orders s, fs_errors s))) (\<lambda>(close_orders, errors).
       if canceled_order_count < 0 then raise (Raised ''ValidationError'' (iv_flatten texts canceled_order_count))
       else ret (flatten_result_of dumps plan now completed_at canceled_order_count initial_positions
         close_orders remaining errors))))))))))"

definition flatten_start :: "'w \<Rightarrow> 'w flatten_state" where
  "flatten_start w = \<lparr>fs_world = w, fs_errors = [], fs_close_orders = [], fs_submitted = [], fs_calls = []\<rparr>"

definition flatten ::
    "orch_dumps \<Rightarrow> invalid_texts \<Rightarrow> 'w session_broker \<Rightarrow> 'w session_time \<Rightarrow> nat \<Rightarrow> session_plan \<Rightarrow> timestamp \<Rightarrow>
     (string \<times> managed_quantity) list \<Rightarrow> 'w \<Rightarrow> (raised + flatten_result) \<times> 'w flatten_state" where
  "flatten dumps texts broker tm fuel plan now managed_quantities w =
     flatten_body dumps texts broker tm fuel plan now managed_quantities (flatten_start w)"

end
