(* ===== verification/Leadership.thy ===== *)
theory Leadership
  imports Orchestration_Models
begin

text \<open>
  Fenced leadership of a session (\<open>daybreak_orchestration/leadership.py\<close>, class
  \<open>MemoryLeadershipRepository\<close>): leases with a time to live and a fencing token. The theorems
  state mutual exclusion of unexpired leases over any history of calls, and that a superseded
  lease is powerless.
\<close>

section \<open>The repository\<close>

record memory_leadership_repository =
  lr_leases :: "(string, leadership_lease) dict"
  lr_events :: "leadership_event list"
  lr_token :: int

definition empty_leadership :: memory_leadership_repository where
  "empty_leadership = \<lparr>lr_leases = [], lr_events = [], lr_token = 0\<rparr>"

definition lease_event_of ::
    "orch_dumps \<Rightarrow> leadership_lease \<Rightarrow> leadership_event_type \<Rightarrow> timestamp \<Rightarrow> leadership_event" where
  "lease_event_of dumps lease event_type now =
     (let core =
        \<lparr>le_session_id = ll_session_id lease, le_holder_id = ll_holder_id lease,
         le_event_type = event_type, le_event_timestamp = now,
         le_fencing_token = ll_fencing_token lease,
         le_details = [(''expires_at'', PTime (ll_expires_at lease))], le_event_hash = []\<rparr>
      in core\<lparr>le_event_hash := canonical_sha256 (od_lease_event dumps core)\<rparr>)"

definition append_lease_event ::
    "orch_dumps \<Rightarrow> leadership_lease \<Rightarrow> leadership_event_type \<Rightarrow> timestamp \<Rightarrow>
     memory_leadership_repository \<Rightarrow> memory_leadership_repository" where
  "append_lease_event dumps lease event_type now s =
     s\<lparr>lr_events := lr_events s @ [lease_event_of dumps lease event_type now]\<rparr>"

text \<open>The part of \<open>acquire\<close> after the test of the existing lease; the token is taken first.\<close>

definition grant ::
    "orch_dumps \<Rightarrow> string \<Rightarrow> string \<Rightarrow> timestamp \<Rightarrow> int \<Rightarrow>
     (memory_leadership_repository, pyerr, leadership_lease option) eff" where
  "grant dumps session_id holder_id now ttl_seconds s =
     (let token = lr_token s + 1;
          lease =
            \<lparr>ll_session_id = session_id, ll_holder_id = holder_id, ll_acquired_at = now,
             ll_renewed_at = now, ll_expires_at = now + ttl_seconds * 1000000,
             ll_fencing_token = token\<rparr>
      in if \<not> valid_lease lease then (Inl (ValidationError ''LeadershipLease''), s\<lparr>lr_token := token\<rparr>)
         else (Inr (Some lease),
           append_lease_event dumps lease LE_ACQUIRED now
             (s\<lparr>lr_token := token, lr_leases := AList.update session_id lease (lr_leases s)\<rparr>)))"

definition acquire ::
    "orch_dumps \<Rightarrow> string \<Rightarrow> string \<Rightarrow> timestamp \<Rightarrow> int \<Rightarrow>
     (memory_leadership_repository, pyerr, leadership_lease option) eff" where
  "acquire dumps session_id holder_id now ttl_seconds s =
     (case map_of (lr_leases s) session_id of
        Some existing \<Rightarrow>
          if ll_expires_at existing > now then (Inr None, s)
          else grant dumps session_id holder_id now ttl_seconds s
      | None \<Rightarrow> grant dumps session_id holder_id now ttl_seconds s)"

definition renew ::
    "orch_dumps \<Rightarrow> leadership_lease \<Rightarrow> timestamp \<Rightarrow> int \<Rightarrow> memory_leadership_repository \<Rightarrow>
     leadership_lease option \<times> memory_leadership_repository" where
  "renew dumps lease now ttl_seconds s =
     (case map_of (lr_leases s) (ll_session_id lease) of
        None \<Rightarrow> (None, s)
      | Some current \<Rightarrow>
          if ll_holder_id current \<noteq> ll_holder_id lease \<or> ll_fencing_token current \<noteq> ll_fencing_token lease
          then (None, s)
          else if ll_expires_at current \<le> now then (None, s)
          else
            let renewed = current\<lparr>ll_renewed_at := now, ll_expires_at := now + ttl_seconds * 1000000\<rparr>
            in (Some renewed,
                append_lease_event dumps renewed LE_RENEWED now
                  (s\<lparr>lr_leases := AList.update (ll_session_id lease) renewed (lr_leases s)\<rparr>)))"

definition release ::
    "orch_dumps \<Rightarrow> leadership_lease \<Rightarrow> timestamp \<Rightarrow> memory_leadership_repository \<Rightarrow>
     memory_leadership_repository" where
  "release dumps lease now s =
     (case map_of (lr_leases s) (ll_session_id lease) of
        None \<Rightarrow> s
      | Some current \<Rightarrow>
          if ll_holder_id current = ll_holder_id lease \<and> ll_fencing_token current = ll_fencing_token lease
          then append_lease_event dumps current LE_RELEASED now
            (s\<lparr>lr_leases := AList.delete (ll_session_id lease) (lr_leases s)\<rparr>)
          else s)"

section \<open>Histories\<close>

text \<open>
  A history of calls with nondecreasing times, in which each session has one time to live: the
  repository, every lease it ever handed out (by an acquisition or a renewal), the tokens that
  were released, and the time of the last call. The arguments of renewals and releases are
  arbitrary leases.
\<close>

inductive lease_history ::
    "orch_dumps \<Rightarrow> (string \<Rightarrow> int) \<Rightarrow> memory_leadership_repository \<Rightarrow> leadership_lease list \<Rightarrow> int set \<Rightarrow>
     timestamp \<Rightarrow> bool" for dumps ttl where
  started: "lease_history dumps ttl empty_leadership [] {} t"
| acquired: "lease_history dumps ttl s g r t \<Longrightarrow> t \<le> now \<Longrightarrow>
    acquire dumps sid holder now (ttl sid) s = (Inr (Some l), s') \<Longrightarrow> lease_history dumps ttl s' (l # g) r now"
| refused: "lease_history dumps ttl s g r t \<Longrightarrow> t \<le> now \<Longrightarrow>
    acquire dumps sid holder now (ttl sid) s = (Inr None, s') \<Longrightarrow> lease_history dumps ttl s' g r now"
| invalid: "lease_history dumps ttl s g r t \<Longrightarrow> t \<le> now \<Longrightarrow>
    acquire dumps sid holder now (ttl sid) s = (Inl e, s') \<Longrightarrow> lease_history dumps ttl s' g r now"
| renewed: "lease_history dumps ttl s g r t \<Longrightarrow> t \<le> now \<Longrightarrow>
    renew dumps l now (ttl (ll_session_id l)) s = (Some l', s') \<Longrightarrow> lease_history dumps ttl s' (l' # g) r now"
| lost: "lease_history dumps ttl s g r t \<Longrightarrow> t \<le> now \<Longrightarrow>
    renew dumps l now (ttl (ll_session_id l)) s = (None, s') \<Longrightarrow> lease_history dumps ttl s' g r now"
| released: "lease_history dumps ttl s g r t \<Longrightarrow> t \<le> now \<Longrightarrow>
    lease_history dumps ttl (release dumps l now s) g (if release dumps l now s = s then r
      else insert (ll_fencing_token l) r) now"

text \<open>
  The invariant: a lease that is neither expired nor released is the current one of its
  session, by holder and token.
\<close>

definition keyed :: "memory_leadership_repository \<Rightarrow> bool" where
  "keyed s \<longleftrightarrow>
     (\<forall>sid c. map_of (lr_leases s) sid = Some c \<longrightarrow> ll_session_id c = sid \<and> ll_fencing_token c \<le> lr_token s)"

definition issued ::
    "(string \<Rightarrow> int) \<Rightarrow> memory_leadership_repository \<Rightarrow> timestamp \<Rightarrow> leadership_lease \<Rightarrow> bool" where
  "issued ttl s t l \<longleftrightarrow>
     ll_fencing_token l \<le> lr_token s \<and> ll_expires_at l \<le> t + ttl (ll_session_id l) * 1000000"

definition covered :: "memory_leadership_repository \<Rightarrow> int set \<Rightarrow> timestamp \<Rightarrow> leadership_lease \<Rightarrow> bool" where
  "covered s r t l \<longleftrightarrow>
     (ll_fencing_token l \<notin> r \<longrightarrow> t < ll_expires_at l \<longrightarrow>
       (\<exists>c. map_of (lr_leases s) (ll_session_id l) = Some c \<and> ll_fencing_token c = ll_fencing_token l \<and>
         ll_holder_id c = ll_holder_id l \<and> ll_expires_at l \<le> ll_expires_at c))"

definition lease_inv ::
    "(string \<Rightarrow> int) \<Rightarrow> memory_leadership_repository \<Rightarrow> leadership_lease list \<Rightarrow> int set \<Rightarrow> timestamp \<Rightarrow> bool" where
  "lease_inv ttl s g r t \<longleftrightarrow> keyed s \<and> (\<forall>l \<in> set g. issued ttl s t l \<and> covered s r t l)"

lemma acquire_cases:
  assumes "acquire dumps sid holder now ttl s = (res, s')"
  obtains (held) c where "map_of (lr_leases s) sid = Some c" "now < ll_expires_at c" "res = Inr None" "s' = s"
  | (invalid) e where "res = Inl e" "s' = s\<lparr>lr_token := lr_token s + 1\<rparr>"
  | (granted) l where "\<And>c. map_of (lr_leases s) sid = Some c \<Longrightarrow> ll_expires_at c \<le> now" "res = Inr (Some l)"
      "ll_session_id l = sid" "ll_holder_id l = holder" "ll_fencing_token l = lr_token s + 1"
      "ll_expires_at l = now + ttl * 1000000" "lr_token s' = lr_token s + 1"
      "lr_leases s' = AList.update sid l (lr_leases s)"
proof -
  consider (h) c where "map_of (lr_leases s) sid = Some c" "now < ll_expires_at c"
    | (g) "\<And>c. map_of (lr_leases s) sid = Some c \<Longrightarrow> ll_expires_at c \<le> now"
    using not_le by blast
  then show ?thesis
  proof cases
    case h
    then show ?thesis using assms by (intro held [of c]) (simp_all add: acquire_def)
  next
    case g
    then have "grant dumps sid holder now ttl s = (res, s')"
      using assms by (auto simp: acquire_def split: option.splits if_splits)
    then have grant: "(res, s') = grant dumps sid holder now ttl s" ..
    obtain l where l: "l = \<lparr>ll_session_id = sid, ll_holder_id = holder, ll_acquired_at = now,
      ll_renewed_at = now, ll_expires_at = now + ttl * 1000000, ll_fencing_token = lr_token s + 1\<rparr>" by simp
    have r: "(res, s') = (if \<not> valid_lease l
      then (Inl (ValidationError ''LeadershipLease''), s\<lparr>lr_token := lr_token s + 1\<rparr>)
      else (Inr (Some l), append_lease_event dumps l LE_ACQUIRED now
        (s\<lparr>lr_token := lr_token s + 1, lr_leases := AList.update sid l (lr_leases s)\<rparr>)))"
      unfolding grant grant_def Let_def l [symmetric] by (rule refl)
    show ?thesis
    proof (cases "valid_lease l")
      case True
      show ?thesis by (rule granted [of l]) (use g r True l in \<open>simp_all add: append_lease_event_def\<close>)
    next
      case False
      then show ?thesis using r by (intro invalid) simp_all
    qed
  qed
qed

lemma renew_cases:
  assumes "renew dumps l now ttl s = (res, s')"
  obtains (refused) "res = None" "s' = s"
  | (renewed) c where "map_of (lr_leases s) (ll_session_id l) = Some c" "ll_holder_id c = ll_holder_id l"
      "ll_fencing_token c = ll_fencing_token l" "now < ll_expires_at c"
      "res = Some (c\<lparr>ll_renewed_at := now, ll_expires_at := now + ttl * 1000000\<rparr>)"
      "lr_leases s' = AList.update (ll_session_id l)
        (c\<lparr>ll_renewed_at := now, ll_expires_at := now + ttl * 1000000\<rparr>) (lr_leases s)" "lr_token s' = lr_token s"
  using assms by (auto simp: renew_def Let_def append_lease_event_def not_le split: option.splits if_splits)

lemma release_cases:
  obtains (none) "release dumps l now s = s"
  | (released) c where "map_of (lr_leases s) (ll_session_id l) = Some c" "ll_fencing_token c = ll_fencing_token l"
      "release dumps l now s \<noteq> s" "lr_leases (release dumps l now s) = AList.delete (ll_session_id l) (lr_leases s)"
      "lr_token (release dumps l now s) = lr_token s"
proof (cases "map_of (lr_leases s) (ll_session_id l)")
  case None
  then show ?thesis by (intro none) (simp add: release_def)
next
  case (Some c)
  show ?thesis
  proof (cases "ll_holder_id c = ll_holder_id l \<and> ll_fencing_token c = ll_fencing_token l")
    case True
    then have r: "release dumps l now s = append_lease_event dumps c LE_RELEASED now
        (s\<lparr>lr_leases := AList.delete (ll_session_id l) (lr_leases s)\<rparr>)"
      using Some by (simp add: release_def)
    have "lr_events (release dumps l now s) \<noteq> lr_events s" by (simp add: r append_lease_event_def)
    then have "release dumps l now s \<noteq> s" by auto
    then show ?thesis using True Some by (intro released [of c]) (simp_all add: r append_lease_event_def)
  next
    case False
    then show ?thesis using Some by (intro none) (auto simp: release_def)
  qed
qed

lemma lease_inv_later: "lease_inv ttl s g r t \<Longrightarrow> t \<le> now \<Longrightarrow> lease_inv ttl s g r now"
  unfolding lease_inv_def issued_def covered_def by fastforce

lemma covered_step:
  assumes "covered s r now l" and "now < ll_expires_at l \<Longrightarrow> ll_fencing_token l \<notin> r' \<Longrightarrow> ll_fencing_token l \<notin> r"
    and "\<And>c. map_of (lr_leases s) (ll_session_id l) = Some c \<Longrightarrow> ll_fencing_token c = ll_fencing_token l \<Longrightarrow>
      ll_holder_id c = ll_holder_id l \<Longrightarrow> ll_expires_at l \<le> ll_expires_at c \<Longrightarrow> now < ll_expires_at l \<Longrightarrow>
      ll_fencing_token l \<notin> r' \<Longrightarrow>
      \<exists>c'. map_of (lr_leases s') (ll_session_id l) = Some c' \<and> ll_fencing_token c' = ll_fencing_token l \<and>
        ll_holder_id c' = ll_holder_id l \<and> ll_expires_at l \<le> ll_expires_at c'"
  shows "covered s' r' now l"
  using assms unfolding covered_def by blast

lemma acquired_inv:
  assumes inv: "lease_inv ttl s g r now" and acq: "acquire dumps sid holder now (ttl sid) s = (Inr (Some l), s')"
  shows "lease_inv ttl s' (l # g) r now"
  using acq
proof (cases rule: acquire_cases)
  case (granted l')
  then have l: "ll_session_id l = sid" "ll_fencing_token l = lr_token s'" "lr_token s' = lr_token s + 1"
    "ll_expires_at l = now + ttl sid * 1000000" and "lr_leases s' = AList.update sid l (lr_leases s)"
    by simp_all
  then have leases: "map_of (lr_leases s') = (map_of (lr_leases s))(sid \<mapsto> l)" by (simp only: update_conv')
  have "keyed s'" using inv l by (force simp: lease_inv_def keyed_def leases)
  moreover have "issued ttl s' now k" if "issued ttl s now k" for k using that l by (simp add: issued_def)
  moreover have "covered s' r now k" if "covered s r now k" for k
    by (rule covered_step [OF that]) (use granted(1) in \<open>fastforce simp: leases\<close>)+
  moreover have "issued ttl s' now l" "covered s' r now l" using l by (simp_all add: issued_def covered_def leases)
  ultimately show ?thesis using inv by (simp add: lease_inv_def)
qed simp_all

lemma renewed_inv:
  assumes inv: "lease_inv ttl s g r now" and ren: "renew dumps l now (ttl (ll_session_id l)) s = (Some l', s')"
  shows "lease_inv ttl s' (l' # g) r now"
  using ren
proof (cases rule: renew_cases)
  case (renewed c)
  then have tok: "lr_token s' = lr_token s" and upd: "lr_leases s' = AList.update (ll_session_id l) l' (lr_leases s)"
    by simp_all
  have leases: "map_of (lr_leases s') = (map_of (lr_leases s))(ll_session_id l \<mapsto> l')" by (simp only: upd update_conv')
  have c: "ll_session_id c = ll_session_id l" "ll_fencing_token c \<le> lr_token s"
    using inv renewed(1) by (auto simp: lease_inv_def keyed_def)
  have l': "ll_session_id l' = ll_session_id l" "ll_fencing_token l' = ll_fencing_token c"
    "ll_holder_id l' = ll_holder_id c" "ll_expires_at l' = now + ttl (ll_session_id l) * 1000000"
    using renewed(5) c by auto
  have "keyed s'" using inv l' c tok by (force simp: lease_inv_def keyed_def leases)
  moreover have "issued ttl s' now k" if "issued ttl s now k" for k using that tok by (simp add: issued_def)
  moreover have "covered s' r now k" if "covered s r now k" "issued ttl s now k" for k
    by (rule covered_step [OF that(1)]) (use that(2) renewed(1) l' in \<open>auto simp: leases issued_def\<close>)
  moreover have "issued ttl s' now l'" "covered s' r now l'"
    using l' c tok by (simp_all add: issued_def covered_def leases)
  ultimately show ?thesis using inv by (simp add: lease_inv_def)
qed simp_all

lemma released_inv:
  assumes inv: "lease_inv ttl s g r now"
  shows "lease_inv ttl (release dumps l now s) g
    (if release dumps l now s = s then r else insert (ll_fencing_token l) r) now"
proof (cases rule: release_cases [of dumps l now s])
  case none
  then show ?thesis using inv by simp
next
  case (released c)
  let ?s = "release dumps l now s"
  have leases: "map_of (lr_leases ?s) = (map_of (lr_leases s))(ll_session_id l := None)"
    by (simp only: released(4) delete_conv')
  have "keyed ?s" using inv released(5) by (simp add: lease_inv_def keyed_def leases)
  moreover have "issued ttl ?s now k" if "issued ttl s now k" for k using that released(5) by (simp add: issued_def)
  moreover have "covered ?s (insert (ll_fencing_token l) r) now k" if "covered s r now k" for k
    by (rule covered_step [OF that]) (use released(1,2) in \<open>auto simp: leases\<close>)
  ultimately show ?thesis using inv released(3) by (simp add: lease_inv_def)
qed

lemma token_only_inv: "lease_inv ttl s g r now \<Longrightarrow> lease_inv ttl (s\<lparr>lr_token := lr_token s + 1\<rparr>) g r now"
  by (force simp: lease_inv_def keyed_def issued_def covered_def)

lemma lease_history_inv: "lease_history dumps ttl s g r t \<Longrightarrow> lease_inv ttl s g r t"
proof (induction rule: lease_history.induct)
  case (started t)
  show ?case by (simp add: lease_inv_def keyed_def empty_leadership_def)
next
  case (acquired s g r t now sid holder l s')
  show ?case by (rule acquired_inv [OF lease_inv_later [OF acquired.IH acquired.hyps(2)] acquired.hyps(3)])
next
  case (refused s g r t now sid holder s')
  from refused(3) have "s' = s" by (cases rule: acquire_cases) simp_all
  then show ?case using lease_inv_later [OF refused.IH refused.hyps(2)] by simp
next
  case (invalid s g r t now sid holder e s')
  from invalid(3) have "s' = s\<lparr>lr_token := lr_token s + 1\<rparr>" by (cases rule: acquire_cases) simp_all
  then show ?case using token_only_inv [OF lease_inv_later [OF invalid.IH invalid.hyps(2)]] by simp
next
  case (renewed s g r t now l l' s')
  show ?case by (rule renewed_inv [OF lease_inv_later [OF renewed.IH renewed.hyps(2)] renewed.hyps(3)])
next
  case (lost s g r t now l s')
  from lost(3) have "s' = s" by (cases rule: renew_cases) simp_all
  then show ?case using lease_inv_later [OF lost.IH lost.hyps(2)] by simp
next
  case (released s g r t now l)
  show ?case by (rule released_inv [OF lease_inv_later [OF released.IH released.hyps(2)]])
qed

section \<open>Properties\<close>

text \<open>
  Claim C14. Leadership is exclusive: after any history of calls with nondecreasing times, two
  leases of one session that were handed out to clients, have not been released and have not
  expired at the time of the last call belong to the same holder and carry the same fencing
  token.
\<close>

theorem leases_exclusive:
  assumes "lease_history dumps ttl s g r t" "a \<in> set g" "b \<in> set g" "ll_session_id a = ll_session_id b"
    "ll_fencing_token a \<notin> r" "ll_fencing_token b \<notin> r" "t < ll_expires_at a" "t < ll_expires_at b"
  shows "ll_holder_id a = ll_holder_id b \<and> ll_fencing_token a = ll_fencing_token b"
proof -
  have "covered s r t a" "covered s r t b" using lease_history_inv [OF assms(1)] assms(2,3) by (auto simp: lease_inv_def)
  then show ?thesis using assms(4-) by (auto simp: covered_def)
qed

text \<open>
  Claim C15. Fencing tokens only grow, and a superseded lease is powerless: an acquisition hands
  out a token above those of all leases handed out before, and from then on, as long as the new
  lease is the stored one, a renewal or release with any lease handed out before changes nothing
  and the renewal returns no lease.
\<close>

theorem superseded_lease_powerless:
  assumes "lease_history dumps ttl s g r t" "t \<le> now"
    "acquire dumps sid holder now (ttl sid) s = (Inr (Some l), s')" "old \<in> set g"
  shows "ll_fencing_token old < ll_fencing_token l \<and>
    (ll_session_id old = sid \<longrightarrow> (\<forall>now'. renew dumps old now' (ttl sid) s' = (None, s') \<and> release dumps old now' s' = s'))"
proof -
  have old: "ll_fencing_token old \<le> lr_token s"
    using lease_history_inv [OF assms(1)] assms(4) by (simp add: lease_inv_def issued_def)
  from assms(3) show ?thesis
  proof (cases rule: acquire_cases)
    case (granted l')
    then have "ll_fencing_token l = lr_token s + 1" and upd: "lr_leases s' = AList.update sid l (lr_leases s)"
      by simp_all
    then show ?thesis using old by (simp add: renew_def release_def upd update_conv')
  qed simp_all
qed

end
