(* ===== verification/Orchestrator.thy ===== *)
theory Orchestrator
  imports Flatten Leadership
begin

text \<open>
  The session orchestrator (\<open>daybreak_orchestration/service.py\<close>, class \<open>SessionOrchestrator\<close>): one
  paper trading session under fenced leadership, from the preflight check to the mandatory
  flatten, with its exception handlers and its final block. The hooks, the health probe, the
  broker, the alert sink and the clock are parameters; the repositories are the in-memory ones.
\<close>

section \<open>The environment and the state\<close>

record 'w session_env =
  en_time :: "'w session_time"
  en_broker :: "'w session_broker"
  en_snapshot :: "session_plan \<Rightarrow> timestamp \<Rightarrow> ('w, health_snapshot) external"
  en_warmup_recorder :: "session_plan \<Rightarrow> timestamp \<Rightarrow> int \<Rightarrow> ('w, details) external"
  en_freeze_features :: "session_plan \<Rightarrow> timestamp \<Rightarrow> int \<Rightarrow> ('w, details) external"
  en_evaluate :: "session_plan \<Rightarrow> timestamp \<Rightarrow> int \<Rightarrow> ('w, details) external"
  en_size_and_execute :: "session_plan \<Rightarrow> timestamp \<Rightarrow> int \<Rightarrow> ('w, details) external"
  en_reconcile :: "session_plan \<Rightarrow> timestamp \<Rightarrow> int \<Rightarrow> ('w, details) external"
  en_send :: "alert_record \<Rightarrow> ('w, unit) external"
  en_holder_id :: string
  en_dedup_window_seconds :: int
  en_health_details :: "health_snapshot \<Rightarrow> details"
  en_texts :: invalid_texts
  en_dumps :: orch_dumps

text \<open>
  The attributes of the orchestrator and its collaborators, the local variables of \<open>run\<close> that
  its handlers and its final block read, and, as history, the calls of the hooks and of the
  health probe with the time and the fencing token they got.
\<close>

datatype session_call =
    HookCall session_phase timestamp int
  | ProbeCall timestamp health_snapshot
  | FlattenCall timestamp

record 'w orch_state =
  oo_world :: 'w
  oo_repository :: memory_orchestration_repository
  oo_leadership :: memory_leadership_repository
  oo_last_sent :: "(string, timestamp) dict"
  oo_lease :: "leadership_lease option"
  oo_last_renewed_at :: "timestamp option"
  ro_kill_switch :: kill_switch_state
  ro_flatten_result :: "flatten_result option"
  ro_outcome :: session_outcome
  ro_final_phase :: session_phase
  ro_error_message :: "string option"
  ro_managed_quantities :: "(string, managed_quantity) dict"
  ro_lease :: "leadership_lease option"
  oo_calls :: "session_call list"

type_synonym ('w, 'a) session = "('w orch_state, raised, 'a) eff"

definition clock_now :: "'w session_env \<Rightarrow> ('w, timestamp) session" where
  "clock_now env s = (case st_clock (en_time env) (oo_world s) of (t, w) \<Rightarrow> (Inr t, s\<lparr>oo_world := w\<rparr>))"

definition sleep_for :: "'w session_env \<Rightarrow> pyfloat \<Rightarrow> ('w, unit) session" where
  "sleep_for env x = modify (\<lambda>s. s\<lparr>oo_world := st_sleep (en_time env) x (oo_world s)\<rparr>)"

definition call_external :: "('w, 'a) external \<Rightarrow> ('w, 'a) session" where
  "call_external m s =
     (case m (oo_world s) of (r, w) \<Rightarrow> (map_sum (\<lambda>e. Raised (fst e) (snd e)) id r, s\<lparr>oo_world := w\<rparr>))"

definition note_call :: "session_call \<Rightarrow> ('w, unit) session" where
  "note_call c = modify (\<lambda>s. s\<lparr>oo_calls := oo_calls s @ [c]\<rparr>)"

fun raised_of :: "pyerr \<Rightarrow> raised" where
  "raised_of (ValueError m) = Raised ''ValueError'' m"
| "raised_of (RuntimeError m) = Raised ''RuntimeError'' m"
| "raised_of (TypeError m) = Raised ''TypeError'' m"
| "raised_of (ValidationError m) = Raised ''ValidationError'' m"
| "raised_of (KeyError m) = Raised ''KeyError'' m"
| "raised_of AssertionError = Raised ''AssertionError'' []"
| "raised_of DecimalError = Raised ''InvalidOperation'' []"

definition store_op ::
    "(memory_orchestration_repository \<Rightarrow> pyerr + memory_orchestration_repository) \<Rightarrow> ('w, unit) session" where
  "store_op f = update_or_raise (\<lambda>s. map_sum raised_of (\<lambda>r. s\<lparr>oo_repository := r\<rparr>) (f (oo_repository s)))"

definition store_set ::
    "(memory_orchestration_repository \<Rightarrow> memory_orchestration_repository) \<Rightarrow> ('w, unit) session" where
  "store_set f = modify (\<lambda>s. s\<lparr>oo_repository := f (oo_repository s)\<rparr>)"

definition runtime_error :: "string \<Rightarrow> ('w, 'a) session" where
  "runtime_error m = raise (Raised ''RuntimeError'' m)"

text \<open>\<open>except Exception\<close>: every exception, not the lack of fuel.\<close>

definition except_exception ::
    "('w, 'a) session \<Rightarrow> (string \<Rightarrow> string \<Rightarrow> ('w, 'a) session) \<Rightarrow> ('w, 'a) session" where
  "except_exception m h = catch m (\<lambda>e. case e of Raised n x \<Rightarrow> h n x | OutOfFuel \<Rightarrow> raise OutOfFuel)"

section \<open>The private methods\<close>

definition phase_of ::
    "orch_dumps \<Rightarrow> session_plan \<Rightarrow> int \<Rightarrow> session_phase \<Rightarrow> timestamp \<Rightarrow> timestamp option \<Rightarrow> details \<Rightarrow>
     phase_record" where
  "phase_of dumps plan sequence phase started_at ended_at details =
     (let core =
        \<lparr>ph_session_id = pl_session_id plan, ph_sequence = sequence, ph_phase = phase,
         ph_status = PS_COMPLETED, ph_started_at = started_at, ph_ended_at = ended_at,
         ph_details = details, ph_record_hash = []\<rparr>
      in core\<lparr>ph_record_hash := canonical_sha256 (od_phase dumps core)\<rparr>)"

definition record_phase ::
    "'w session_env \<Rightarrow> session_plan \<Rightarrow> session_phase \<Rightarrow> timestamp \<Rightarrow> timestamp option \<Rightarrow> details \<Rightarrow>
     ('w, unit) session" where
  "record_phase env plan phase started_at ended_at details =
     andthen (gets (\<lambda>s. int (length (list_phases (oo_repository s) (pl_session_id plan))) + 1)) (\<lambda>sequence.
       store_op (append_phase (phase_of (en_dumps env) plan sequence phase started_at ended_at details)))"

definition renew_leadership :: "'w session_env \<Rightarrow> session_plan \<Rightarrow> timestamp \<Rightarrow> ('w, unit) session" where
  "renew_leadership env plan now s =
     (case oo_lease s of
        None \<Rightarrow> runtime_error ''leadership lease missing'' s
      | Some lease \<Rightarrow>
          if (case oo_last_renewed_at s of
                None \<Rightarrow> False
              | Some renewed_at \<Rightarrow>
                  total_seconds now renewed_at < of_int (op_leadership_renew_interval_seconds (pl_policy plan)))
          then (Inr (), s)
          else
            (case renew (en_dumps env) lease now (op_leadership_ttl_seconds (pl_policy plan)) (oo_leadership s) of
               (None, l) \<Rightarrow> runtime_error ''leadership lost'' (s\<lparr>oo_leadership := l\<rparr>)
             | (Some renewed, l) \<Rightarrow>
                 (Inr (), s\<lparr>oo_leadership := l, oo_lease := Some renewed, oo_last_renewed_at := Some now\<rparr>)))"

fun wait_until :: "'w session_env \<Rightarrow> session_plan \<Rightarrow> timestamp \<Rightarrow> nat \<Rightarrow> ('w, unit) session" where
  "wait_until env plan target 0 = raise OutOfFuel"
| "wait_until env plan target (Suc fuel) =
     andthen (clock_now env) (\<lambda>now.
       let remaining = total_seconds target now in
       if remaining \<le> 0 then ret ()
       else andthen (sleep_for env (min remaining 1)) (\<lambda>_.
         andthen (clock_now env) (\<lambda>now'.
         andthen (renew_leadership env plan now') (\<lambda>_.
           wait_until env plan target fuel))))"

definition preflight :: "'w session_env \<Rightarrow> session_plan \<Rightarrow> session_phase \<Rightarrow> ('w, unit) session" where
  "preflight env plan phase =
     andthen (clock_now env) (\<lambda>now.
     andthen (renew_leadership env plan now) (\<lambda>_.
     andthen (call_external (en_snapshot env plan now)) (\<lambda>health.
     andthen (note_call (ProbeCall now health)) (\<lambda>_.
       case health_kill_reason health plan (pl_policy plan) of
         Some reason \<Rightarrow> runtime_error (''preflight failed: '' @ kill_switch_reason_value reason)
       | None \<Rightarrow> record_phase env plan phase now None (en_health_details env health)))))"

definition run_phase ::
    "'w session_env \<Rightarrow> session_plan \<Rightarrow> session_phase \<Rightarrow>
     (session_plan \<Rightarrow> timestamp \<Rightarrow> int \<Rightarrow> ('w, details) external) \<Rightarrow> ('w, details) session" where
  "run_phase env plan phase hook =
     andthen (clock_now env) (\<lambda>started.
     andthen (renew_leadership env plan started) (\<lambda>_.
     andthen (gets oo_lease) (\<lambda>lease.
       case lease of
         None \<Rightarrow> runtime_error ''leadership lease missing''
       | Some l \<Rightarrow>
           andthen (note_call (HookCall phase started (ll_fencing_token l))) (\<lambda>_.
           andthen (call_external (hook plan started (ll_fencing_token l))) (\<lambda>details.
           andthen (clock_now env) (\<lambda>ended.
           andthen (renew_leadership env plan ended) (\<lambda>_.
           andthen (record_phase env plan phase started (Some ended) details) (\<lambda>_.
             ret details))))))))"

definition wait_and_run ::
    "'w session_env \<Rightarrow> nat \<Rightarrow> session_plan \<Rightarrow> session_phase \<Rightarrow> timestamp \<Rightarrow>
     (session_plan \<Rightarrow> timestamp \<Rightarrow> int \<Rightarrow> ('w, details) external) \<Rightarrow> ('w, details) session" where
  "wait_and_run env fuel plan phase when_at hook =
     andthen (wait_until env plan when_at fuel) (\<lambda>_. run_phase env plan phase hook)"

definition flatten_call ::
    "'w session_env \<Rightarrow> nat \<Rightarrow> session_plan \<Rightarrow> timestamp \<Rightarrow> ('w, flatten_result) session" where
  "flatten_call env fuel plan now s =
     (case flatten (en_dumps env) (en_texts env) (en_broker env) (en_time env) fuel plan now
        (ro_managed_quantities s) (oo_world s) of (r, t) \<Rightarrow> (r, s\<lparr>oo_world := fs_world t\<rparr>))"

definition run_flatten ::
    "'w session_env \<Rightarrow> nat \<Rightarrow> session_plan \<Rightarrow> timestamp option \<Rightarrow> ('w, flatten_result) session" where
  "run_flatten env fuel plan now_opt =
     andthen (case now_opt of None \<Rightarrow> clock_now env | Some t \<Rightarrow> ret t) (\<lambda>now.
     andthen (note_call (FlattenCall now)) (\<lambda>_.
     andthen (flatten_call env fuel plan now) (\<lambda>result.
     andthen (record_phase env plan SP_FLATTENING now (Some (fr_completed_at result))
       [(''complete'', PBool (fr_complete result)), (''remaining'', PInt (int (length (fr_remaining_positions result))))])
       (\<lambda>_.
     andthen (store_set (save_flatten result)) (\<lambda>_. ret result)))))"

definition emit_critical ::
    "'w session_env \<Rightarrow> session_plan \<Rightarrow> string \<Rightarrow> string \<Rightarrow> timestamp \<Rightarrow> ('w, unit) session" where
  "emit_critical env plan code message now s =
     (case emit (en_dumps env) (en_send env) (en_dedup_window_seconds env) (iv_alert (en_texts env))
        (pl_session_id plan) SEV_CRITICAL code message now
        \<lparr>as_last_sent = oo_last_sent s, as_world = oo_world s\<rparr> of
        (r, a) \<Rightarrow>
          let t = s\<lparr>oo_last_sent := as_last_sent a, oo_world := as_world a\<rparr> in
          (case r of
             Inl e \<Rightarrow> (Inl (Raised (fst e) (snd e)), t)
           | Inr None \<Rightarrow> (Inr (), t)
           | Inr (Some alert) \<Rightarrow> store_set (save_alert alert) t))"

definition reason_from_error :: "string \<Rightarrow> kill_switch_reason" where
  "reason_from_error message =
     (let upper = map upper_char message in
      if sublist ''LEADERSHIP'' upper then KR_LEADERSHIP_LOST
      else if sublist ''EVALUATOR CUTOFF'' upper \<or> sublist ''ENTRY CUTOFF'' upper then KR_EXECUTION_CUTOFF_EXCEEDED
      else if sublist ''CLOCK_UNSYNCED'' upper then KR_CLOCK_UNSYNCED
      else if sublist ''DATABASE_UNHEALTHY'' upper then KR_DATABASE_UNHEALTHY
      else if sublist ''RECORDER_UNHEALTHY'' upper then KR_RECORDER_UNHEALTHY
      else if sublist ''MARKET_DATA_UNHEALTHY'' upper then KR_MARKET_DATA_UNHEALTHY
      else if sublist ''TRADE_UPDATE_STREAM_UNHEALTHY'' upper then KR_TRADE_UPDATE_STREAM_UNHEALTHY
      else if sublist ''ACCOUNT_BLOCKED'' upper then KR_ACCOUNT_BLOCKED
      else if sublist ''TRADING_BLOCKED'' upper then KR_TRADING_BLOCKED
      else if sublist ''MARKET_CIRCUIT_BREAKER'' upper then KR_MARKET_CIRCUIT_BREAKER
      else if sublist ''CONFIGURATION_MISMATCH'' upper then KR_CONFIGURATION_MISMATCH
      else KR_UNKNOWN_FAILURE)"

section \<open>run\<close>

text \<open>\<open>bool(x)\<close> of a value.\<close>

fun truthy :: "pyval \<Rightarrow> bool" where
  "truthy PNone = False"
| "truthy (PBool b) = b"
| "truthy (PInt i) = (i \<noteq> 0)"
| "truthy (PFloat x) = (x \<noteq> 0)"
| "truthy (PDec x) = (x \<noteq> 0)"
| "truthy (PTime t) = True"
| "truthy (PStr s) = (s \<noteq> [])"
| "truthy (PText s) = (s \<noteq> [])"
| "truthy (PTuple xs) = (xs \<noteq> [])"
| "truthy (PList xs) = (xs \<noteq> [])"
| "truthy (PSet xs) = (xs \<noteq> [])"
| "truthy (PDict kvs) = (kvs \<noteq> [])"

text \<open>
  The loop over \<open>managed_positions\<close>: the quantities before a bad one stay assigned. Texts of the
  hook's dictionary are \<^const>\<open>PStr\<close>.
\<close>

fun quantity_of :: "pyval \<Rightarrow> managed_quantity option" where
  "quantity_of (PDec q) = Some (MQ_Decimal q)"
| "quantity_of (PInt i) = Some (MQ_Int i)"
| "quantity_of (PStr t) = Some (MQ_Text t)"
| "quantity_of _ = None"

fun manage_positions :: "(string \<times> pyval) list \<Rightarrow> ('w, unit) session" where
  "manage_positions [] = ret ()"
| "manage_positions ((symbol, quantity) # rest) =
     (case quantity_of quantity of
        None \<Rightarrow> runtime_error (''invalid managed position quantity for '' @ symbol)
      | Some q \<Rightarrow>
          andthen (modify (\<lambda>s. s\<lparr>ro_managed_quantities := AList.update symbol q (ro_managed_quantities s)\<rparr>))
            (\<lambda>_. manage_positions rest))"

definition set_progress :: "session_outcome \<Rightarrow> session_phase \<Rightarrow> ('w, unit) session" where
  "set_progress outcome phase = modify (\<lambda>s. s\<lparr>ro_outcome := outcome, ro_final_phase := phase\<rparr>)"

text \<open>Lines 85 to 105: leadership, its phase record and the persistent kill switch.\<close>

definition take_leadership :: "'w session_env \<Rightarrow> session_plan \<Rightarrow> timestamp \<Rightarrow> ('w, leadership_lease) session" where
  "take_leadership env plan started_at s =
     (case acquire (en_dumps env) (pl_session_id plan) (en_holder_id env) started_at
        (op_leadership_ttl_seconds (pl_policy plan)) (oo_leadership s) of
        (Inl e, l) \<Rightarrow>
          (Inl (Raised ''ValidationError'' (iv_lease (en_texts env) (en_holder_id env))), s\<lparr>oo_leadership := l\<rparr>)
      | (Inr None, l) \<Rightarrow>
          (Inl (Raised ''LeadershipUnavailable'' ''another process holds session leadership''), s\<lparr>oo_leadership := l\<rparr>)
      | (Inr (Some lease), l) \<Rightarrow>
          (Inr lease, s\<lparr>oo_leadership := l, ro_lease := Some lease, oo_lease := Some lease,
             oo_last_renewed_at := Some started_at\<rparr>))"

definition shown_reason :: "kill_switch_reason option \<Rightarrow> string" where
  "shown_reason r = (case r of None \<Rightarrow> ''None'' | Some k \<Rightarrow> kill_switch_reason_value k)"

definition enter_session :: "'w session_env \<Rightarrow> session_plan \<Rightarrow> timestamp \<Rightarrow> ('w, unit) session" where
  "enter_session env plan started_at =
     andthen (take_leadership env plan started_at) (\<lambda>lease.
     andthen (record_phase env plan SP_LEADERSHIP_ACQUIRED started_at None
       [(''fencing_token'', PInt (ll_fencing_token lease))]) (\<lambda>_.
     andthen (gets ro_kill_switch) (\<lambda>kill_switch.
       if ks_active kill_switch
       then raise (Raised ''PersistentKillSwitchActive''
         (''persistent kill switch is active: '' @ shown_reason (ks_reason kill_switch)))
       else ret ())))"

definition capture_hook :: "session_plan \<Rightarrow> timestamp \<Rightarrow> int \<Rightarrow> ('w, details) external" where
  "capture_hook plan now fencing_token =
     ret [(''capture_started_at'', PTime now), (''fencing_token'', PInt fencing_token)]"

text \<open>From the first preflight check to the validated summary of the evaluation.\<close>

definition morning :: "'w session_env \<Rightarrow> nat \<Rightarrow> session_plan \<Rightarrow> ('w, evaluation_phase_summary) session" where
  "morning env fuel plan =
     andthen (preflight env plan SP_PREFLIGHT) (\<lambda>_.
     andthen (wait_and_run env fuel plan SP_RECORDER_WARMUP (pl_recorder_warmup_at plan) (en_warmup_recorder env)) (\<lambda>_.
     andthen (wait_and_run env fuel plan SP_RECORDING (pl_feature_window_start_at plan) capture_hook) (\<lambda>_.
     andthen (wait_and_run env fuel plan SP_FEATURE_FREEZE (pl_feature_snapshot_at plan) (en_freeze_features env)) (\<lambda>_.
     andthen (wait_and_run env fuel plan SP_EVALUATION (pl_feature_snapshot_at plan) (en_evaluate env)) (\<lambda>evaluation.
     andthen (clock_now env) (\<lambda>now.
       if now > pl_evaluator_cutoff_at plan then runtime_error ''evaluator cutoff exceeded''
       else case evaluation_summary_of evaluation of
           None \<Rightarrow> raise (Raised ''ValidationError'' (iv_summary (en_texts env) evaluation))
         | Some summary \<Rightarrow> ret summary))))))"

text \<open>The branch of an approved evaluation: lock, open, execution and reconciliation.\<close>

definition trade :: "'w session_env \<Rightarrow> nat \<Rightarrow> session_plan \<Rightarrow> ('w, unit) session" where
  "trade env fuel plan =
     andthen (wait_until env plan (pl_eligibility_lock_at plan) fuel) (\<lambda>_.
     andthen (preflight env plan SP_ELIGIBILITY_LOCK) (\<lambda>_.
     andthen (wait_until env plan (pl_regular_session_open_at plan) fuel) (\<lambda>_.
     andthen (clock_now env) (\<lambda>now.
     if now > pl_new_entry_cutoff_at plan then runtime_error ''new-entry cutoff exceeded''
     else
     andthen (run_phase env plan SP_EXECUTION (en_size_and_execute env)) (\<lambda>execution.
     andthen (case map_of execution ''managed_positions'' of
         Some (PDict positions) \<Rightarrow> manage_positions positions
       | _ \<Rightarrow> ret ()) (\<lambda>_.
     andthen (clock_now env) (\<lambda>now'.
     if now' > pl_new_entry_cutoff_at plan then runtime_error ''new-entry cutoff exceeded''
     else
     andthen (run_phase env plan SP_MONITORING (en_reconcile env)) (\<lambda>_.
     andthen (set_progress SO_COMPLETED SP_MONITORING) (\<lambda>_.
     if (case map_of execution ''kill_switch_required'' of None \<Rightarrow> False | Some v \<Rightarrow> truthy v)
     then runtime_error ''execution requested kill switch'' else ret ())))))))))"

definition act_on_evaluation ::
    "'w session_env \<Rightarrow> nat \<Rightarrow> session_plan \<Rightarrow> evaluation_phase_summary \<Rightarrow> ('w, unit) session" where
  "act_on_evaluation env fuel plan summary =
     (if eps_run_status summary \<in> {''blocked_market'', ''stale_payload'', ''schema_failure''}
      then set_progress SO_BLOCKED SP_EVALUATION
      else if eps_run_status summary = ''no_setups'' \<or> eps_approved_count summary = 0
      then set_progress SO_NO_SETUPS SP_EVALUATION
      else trade env fuel plan)"

text \<open>The mandatory flatten and the end of the session.\<close>

definition end_of_day :: "'w session_env \<Rightarrow> nat \<Rightarrow> session_plan \<Rightarrow> ('w, unit) session" where
  "end_of_day env fuel plan =
     andthen (wait_until env plan (pl_mandatory_flatten_at plan) fuel) (\<lambda>_.
     andthen (run_flatten env fuel plan None) (\<lambda>result.
     andthen (modify (\<lambda>s. s\<lparr>ro_flatten_result := Some result, ro_final_phase := SP_FLATTENING\<rparr>)) (\<lambda>_.
     if \<not> fr_complete result then
       (let kill_switch = activate_kill_switch (en_dumps env) (pl_session_id plan) KR_FLATTEN_DEADLINE_EXCEEDED
              (fr_completed_at result)
              [(''errors'', PTuple (map PStr (fr_errors result))),
               (''remaining'', PList (map (PStr \<circ> sp_symbol) (fr_remaining_positions result)))]
        in andthen (modify (\<lambda>s. s\<lparr>ro_kill_switch := kill_switch\<rparr>)) (\<lambda>_.
           andthen (store_op (save_kill_switch kill_switch)) (\<lambda>_.
           andthen (emit_critical env plan ''FLATTEN_INCOMPLETE'' ''Mandatory end-of-day flatten did not complete.''
             (fr_completed_at result)) (\<lambda>_.
             set_progress SO_FLATTEN_INCOMPLETE SP_KILLED))))
     else
       andthen (record_phase env plan SP_RECONCILIATION (fr_completed_at result) None
         [(''flatten_complete'', PBool True)]) (\<lambda>_.
       andthen (clock_now env) (\<lambda>now.
       andthen (gets ro_outcome) (\<lambda>outcome.
       andthen (record_phase env plan SP_COMPLETED now None [(''outcome'', PStr (session_outcome_value outcome))]) (\<lambda>_.
         modify (\<lambda>s. s\<lparr>ro_final_phase := SP_COMPLETED\<rparr>))))))))"

definition session_body :: "'w session_env \<Rightarrow> nat \<Rightarrow> session_plan \<Rightarrow> timestamp \<Rightarrow> ('w, unit) session" where
  "session_body env fuel plan started_at =
     andthen (enter_session env plan started_at) (\<lambda>_.
     andthen (morning env fuel plan) (\<lambda>summary.
     andthen (act_on_evaluation env fuel plan summary) (\<lambda>_.
       end_of_day env fuel plan)))"

text \<open>The emergency flatten of the handlers, whose failure is added to the message.\<close>

definition emergency_flatten :: "'w session_env \<Rightarrow> nat \<Rightarrow> session_plan \<Rightarrow> timestamp \<Rightarrow> ('w, unit) session" where
  "emergency_flatten env fuel plan now =
     except_exception
       (andthen (run_flatten env fuel plan (Some now)) (\<lambda>result.
         modify (\<lambda>s. s\<lparr>ro_flatten_result := Some result\<rparr>)))
       (\<lambda>n x. modify (\<lambda>s. s\<lparr>ro_error_message :=
         map_option (\<lambda>m. m @ ''; emergency flatten failed: '' @ n @ '': '' @ x) (ro_error_message s)\<rparr>))"

definition handle_exception ::
    "'w session_env \<Rightarrow> nat \<Rightarrow> session_plan \<Rightarrow> timestamp \<Rightarrow> string \<Rightarrow> string \<Rightarrow> ('w, unit) session" where
  "handle_exception env fuel plan started_at name message =
     (if name = ''LeadershipUnavailable'' then
        andthen (modify (\<lambda>s. s\<lparr>ro_error_message := Some message, ro_outcome := SO_BLOCKED,
          ro_final_phase := SP_FAILED\<rparr>)) (\<lambda>_.
        emit_critical env plan ''LEADERSHIP_UNAVAILABLE'' message started_at)
      else if name = ''PersistentKillSwitchActive'' then
        andthen (clock_now env) (\<lambda>now.
        andthen (modify (\<lambda>s. s\<lparr>ro_error_message := Some message, ro_outcome := SO_KILLED,
          ro_final_phase := SP_KILLED\<rparr>)) (\<lambda>_.
        andthen (emit_critical env plan ''PERSISTENT_KILL_SWITCH_ACTIVE'' message now) (\<lambda>_.
          emergency_flatten env fuel plan now)))
      else
        andthen (clock_now env) (\<lambda>now.
          let error_message = name @ '': '' @ message;
              reason = reason_from_error error_message;
              kill_switch = activate_kill_switch (en_dumps env) (pl_session_id plan) reason now
                [(''error'', PStr error_message)]
          in andthen (modify (\<lambda>s. s\<lparr>ro_error_message := Some error_message, ro_kill_switch := kill_switch\<rparr>)) (\<lambda>_.
             andthen (store_op (save_kill_switch kill_switch)) (\<lambda>_.
             andthen (emit_critical env plan (kill_switch_reason_value reason) error_message now) (\<lambda>_.
             andthen (set_progress SO_KILLED SP_KILLED) (\<lambda>_.
               emergency_flatten env fuel plan now))))))"

definition result_core :: "'w session_env \<Rightarrow> session_plan \<Rightarrow> timestamp \<Rightarrow> timestamp \<Rightarrow> 'w orch_state \<Rightarrow> session_result" where
  "result_core env plan started_at completed_at s =
     (let core =
        \<lparr>sn_session_id = pl_session_id plan, sn_run_id = pl_run_id plan, sn_outcome = ro_outcome s,
         sn_started_at = started_at, sn_completed_at = completed_at, sn_final_phase = ro_final_phase s,
         sn_leadership_holder_id = en_holder_id env, sn_kill_switch = ro_kill_switch s,
         sn_flatten_result = ro_flatten_result s,
         sn_phase_records = list_phases (oo_repository s) (pl_session_id plan),
         sn_alerts = list_alerts (oo_repository s) (pl_session_id plan),
         sn_error_message = ro_error_message s, sn_result_hash = []\<rparr>
      in core\<lparr>sn_result_hash := canonical_sha256 (od_result (en_dumps env) core)\<rparr>)"

definition conclude :: "'w session_env \<Rightarrow> session_plan \<Rightarrow> timestamp \<Rightarrow> ('w, session_result) session" where
  "conclude env plan started_at =
     andthen (clock_now env) (\<lambda>completed_at.
     andthen (modify (\<lambda>s. case ro_lease s of
         None \<Rightarrow> s
       | Some lease \<Rightarrow> s\<lparr>oo_leadership := release (en_dumps env) lease completed_at (oo_leadership s)\<rparr>)) (\<lambda>_.
     andthen (gets (result_core env plan started_at completed_at)) (\<lambda>result.
     andthen (store_set (save_session_result result)) (\<lambda>_. ret result))))"

text \<open>\<open>try: m finally: f\<close>, then the value of \<open>f\<close>; an exception of \<open>m\<close> is raised again after it.\<close>

definition finally_do :: "('w, unit) session \<Rightarrow> ('w, 'a) session \<Rightarrow> ('w, 'a) session" where
  "finally_do m f s =
     (case m s of
        (Inl OutOfFuel, t) \<Rightarrow> (Inl OutOfFuel, t)
      | (Inl (Raised n x), t) \<Rightarrow> andthen f (\<lambda>_. raise (Raised n x)) t
      | (Inr u, t) \<Rightarrow> f t)"

definition start_kill_switch :: "'w session_env \<Rightarrow> session_plan \<Rightarrow> ('w, kill_switch_state) session" where
  "start_kill_switch env plan =
     andthen (gets (\<lambda>s. get_latest_kill_switch (oo_repository s) (pl_session_id plan))) (\<lambda>found.
       case found of
         Some kill_switch \<Rightarrow> ret kill_switch
       | None \<Rightarrow>
           let kill_switch = inactive_kill_switch (en_dumps env) (pl_session_id plan) in
           andthen (store_op (save_kill_switch kill_switch)) (\<lambda>_. ret kill_switch))"

definition run_session ::
    "'w session_env \<Rightarrow> nat \<Rightarrow> session_plan \<Rightarrow> timestamp option \<Rightarrow> ('w, session_result) session" where
  "run_session env fuel plan start_at =
     andthen (case start_at of None \<Rightarrow> clock_now env | Some t \<Rightarrow> ret t) (\<lambda>started_at.
     andthen (store_op (save_plan plan)) (\<lambda>_.
     andthen (start_kill_switch env plan) (\<lambda>kill_switch.
     andthen (modify (\<lambda>s. s\<lparr>ro_kill_switch := kill_switch, ro_flatten_result := None, ro_outcome := SO_FAILED,
       ro_final_phase := SP_CREATED, ro_error_message := None, ro_managed_quantities := [], ro_lease := None\<rparr>)) (\<lambda>_.
       finally_do
         (except_exception (session_body env fuel plan started_at) (handle_exception env fuel plan started_at))
         (conclude env plan started_at)))))"

end
