(* ===== verification/Orchestrator_Safety.thy ===== *)
theory Orchestrator_Safety
  imports Orchestrator
begin

text \<open>
  What every step of a session keeps: the history of calls and the phase log only grow, the phase
  log stays contiguous and a kill switch once active stays active. From it: a killed session calls
  no hook ever again, and the outcome of a session is sound.
\<close>

section \<open>The step relation of a session\<close>

definition session_grows :: "'w orch_state \<Rightarrow> 'w orch_state \<Rightarrow> bool" where
  "session_grows s t \<longleftrightarrow>
     prefix (oo_calls s) (oo_calls t) \<and>
     (latched (oo_repository s) \<longrightarrow> latched (oo_repository t)) \<and>
     (\<forall>sid. killed (oo_repository s) sid \<longrightarrow> killed (oo_repository t) sid) \<and>
     (session_phases.contiguous (oo_repository s) \<longrightarrow> session_phases.contiguous (oo_repository t))"

interpretation session_grows: step_relation session_grows
  by unfold_locales (auto simp: session_grows_def intro: prefix_order.trans)

lemma same_store_grows:
  "oo_repository t = oo_repository s \<Longrightarrow> oo_calls t = oo_calls s \<Longrightarrow> session_grows s t"
  by (simp add: session_grows_def)

lemma killed_cong: "or_kill_switches t = or_kill_switches s \<Longrightarrow> killed t sid = killed s sid"
  by (simp add: killed_def get_latest_kill_switch_def)

lemma latched_cong:
  assumes "or_kill_switches t = or_kill_switches s"
  shows "latched t = latched s"
  by (simp add: latched_def killed_cong [OF assms] assms)

lemma contiguous_cong: "or_phases t = or_phases s \<Longrightarrow> session_phases.contiguous t = session_phases.contiguous s"
  by (simp add: session_phases.contiguous_def list_phases_def)

lemma phases_only_grows:
  assumes "or_kill_switches r = or_kill_switches (oo_repository s)" "or_phases r = or_phases (oo_repository s)"
  shows "session_grows s (s\<lparr>oo_repository := r\<rparr>)"
  using killed_cong [OF assms(1)] latched_cong [OF assms(1)] contiguous_cong [OF assms(2)]
  by (simp add: session_grows_def)

lemma append_phase_grows:
  assumes "append_phase p (oo_repository s) = Inr r"
  shows "session_grows s (s\<lparr>oo_repository := r\<rparr>)"
proof -
  have "or_kill_switches r = or_kill_switches (oo_repository s)" using assms by (auto simp: append_phase_Inr)
  note same = killed_cong [OF this] latched_cong [OF this]
  show ?thesis using session_phases.append_contiguous [OF _ assms] by (simp add: session_grows_def same)
qed

lemma save_active_grows:
  assumes "save_kill_switch k (oo_repository s) = Inr r" "ks_active k"
  shows "session_grows s (s\<lparr>oo_repository := r\<rparr>)"
proof -
  have "or_phases r = or_phases (oo_repository s)" using assms(1) by (cases rule: save_kill_switch_cases) auto
  note same = contiguous_cong [OF this]
  show ?thesis using save_active_kills [OF assms] save_keeps_killed [OF assms(1)] assms(2)
    by (simp add: session_grows_def same)
qed

lemma store_op_cases:
  obtains (stored) r where "f (oo_repository s) = Inr r" "store_op f s = (Inr (), s\<lparr>oo_repository := r\<rparr>)"
  | (refused) e where "f (oo_repository s) = Inl e" "store_op f s = (Inl (raised_of e), s)"
  by (cases "f (oo_repository s)") (auto simp: store_op_def update_or_raise_def)

lemma store_op_grows:
  assumes "\<And>(s :: 'w orch_state) r. f (oo_repository s) = Inr r \<Longrightarrow> session_grows s (s\<lparr>oo_repository := r\<rparr>)"
  shows "steps session_grows (store_op f :: ('w, unit) session)"
proof (rule stepsI)
  fix s :: "'w orch_state"
  show "session_grows s (snd (store_op f s))"
    by (cases rule: store_op_cases [of f s]) (simp_all add: assms session_grows.refl)
qed

lemmas primitive_defs = clock_now_def sleep_for_def call_external_def note_call_def runtime_error_def
  renew_leadership_def flatten_call_def take_leadership_def set_progress_def store_set_def modify_def raise_def

lemma primitive_grows:
  "steps session_grows (clock_now env)"
  "steps session_grows (sleep_for env x)"
  "steps session_grows (call_external m)"
  "steps session_grows (note_call c)"
  "steps session_grows (runtime_error msg)"
  "steps session_grows (renew_leadership env plan now)"
  "steps session_grows (flatten_call env fuel plan now)"
  "steps session_grows (take_leadership env plan now)"
  "steps session_grows (set_progress outcome phase)"
  "steps session_grows (store_set (save_flatten result))"
  "steps session_grows (store_set (save_alert alert))"
  "steps session_grows (store_set (save_session_result sr))"
  by (auto simp: steps_def primitive_defs session_grows_def killed_def latched_def get_latest_kill_switch_def
      session_phases.contiguous_def list_phases_def save_flatten_def save_alert_def save_session_result_def Let_def
      split: prod.splits option.splits sum.splits)

lemma local_grows:
  assumes "\<And>s. oo_repository (f s) = oo_repository s \<and> oo_calls (f s) = oo_calls s"
  shows "steps session_grows (modify f)"
  using assms by (auto simp: steps_def modify_def intro: same_store_grows)

lemma record_phase_grows: "steps session_grows (record_phase env plan phase a b ds)"
  unfolding record_phase_def
  by (intro session_grows.steps_andthen session_grows.steps_gets store_op_grows append_phase_grows)

lemma save_active_steps: "ks_active k \<Longrightarrow> steps session_grows (store_op (save_kill_switch k))"
  by (intro store_op_grows save_active_grows)

lemma emit_critical_grows: "steps session_grows (emit_critical (env :: 'w session_env) plan code message now)"
proof (rule stepsI)
  fix s :: "'w orch_state"
  have "session_grows s (snd (store_set (save_alert a) t))"
    if "oo_repository t = oo_repository s" "oo_calls t = oo_calls s" for a t
    by (rule session_grows.trans [OF same_store_grows [OF that] primitive_grows(11) [unfolded steps_def, rule_format]])
  then show "session_grows s (snd (emit_critical env plan code message now s))"
    unfolding emit_critical_def Let_def
    by (auto intro: same_store_grows split: prod.splits sum.splits option.splits)
qed

lemma except_exception_grows:
  assumes "steps session_grows m" "\<And>n x. steps session_grows (h n x)"
  shows "steps session_grows (except_exception m h)"
  unfolding except_exception_def
  by (rule session_grows.steps_catch [OF assms(1)]) (auto simp: assms(2) session_grows.steps_raise split: raised.splits)

lemmas session_grows_rules = session_grows.steps_rules primitive_grows record_phase_grows save_active_steps
  emit_critical_grows except_exception_grows

lemma wait_until_grows: "steps session_grows (wait_until env plan target fuel)"
  by (induction fuel) (auto simp: Let_def intro!: session_grows_rules)

lemma preflight_grows: "steps session_grows (preflight env plan phase)"
  unfolding preflight_def by (intro session_grows_rules)

lemma run_phase_grows: "steps session_grows (run_phase env plan phase hook)"
  unfolding run_phase_def by (intro session_grows_rules)

lemma wait_and_run_grows: "steps session_grows (wait_and_run env fuel plan phase when_at hook)"
  unfolding wait_and_run_def by (intro session_grows_rules wait_until_grows run_phase_grows)

lemma run_flatten_grows: "steps session_grows (run_flatten env fuel plan now_opt)"
  unfolding run_flatten_def by (intro session_grows_rules)

lemma manage_positions_grows: "steps session_grows (manage_positions ps)"
  by (induction ps rule: manage_positions.induct)
    (auto intro!: session_grows_rules local_grows split: option.splits)

lemma enter_session_grows: "steps session_grows (enter_session env plan started_at)"
  unfolding enter_session_def by (intro session_grows_rules)

lemma morning_grows: "steps session_grows (morning env fuel plan)"
  unfolding morning_def by (intro session_grows_rules preflight_grows wait_and_run_grows)

lemma trade_grows: "steps session_grows (trade env fuel plan)"
  unfolding trade_def
  by (intro session_grows_rules preflight_grows wait_until_grows run_phase_grows)
    (auto intro!: manage_positions_grows session_grows_rules split: option.splits pyval.splits)

lemma act_on_evaluation_grows: "steps session_grows (act_on_evaluation env fuel plan summary)"
  unfolding act_on_evaluation_def by (intro session_grows_rules trade_grows)

lemma end_of_day_grows: "steps session_grows (end_of_day env fuel plan)"
  unfolding end_of_day_def Let_def
  by (intro session_grows_rules wait_until_grows run_flatten_grows local_grows) simp_all

lemma session_body_grows: "steps session_grows (session_body env fuel plan started_at)"
  unfolding session_body_def
  by (intro session_grows_rules enter_session_grows morning_grows act_on_evaluation_grows end_of_day_grows)

lemma emergency_flatten_grows: "steps session_grows (emergency_flatten env fuel plan now)"
  unfolding emergency_flatten_def by (intro session_grows_rules run_flatten_grows local_grows) simp_all

lemma handle_exception_grows: "steps session_grows (handle_exception env fuel plan started_at name message)"
  unfolding handle_exception_def Let_def
  by (intro session_grows_rules emergency_flatten_grows local_grows) simp_all

lemma conclude_grows: "steps session_grows (conclude env plan started_at)"
  unfolding conclude_def by (intro session_grows_rules local_grows) (simp split: option.splits)

end
