(* ===== verification/Orchestrator_Outcomes.thy ===== *)
theory Orchestrator_Outcomes
  imports Orchestrator_Safety
begin

text \<open>
  The two safety properties of a whole session: a killed session stays quiet, and the outcome a
  session reports is backed by the flatten result and the persistent kill switch.
\<close>

section \<open>Weakest preconditions of the handlers\<close>

lemma wp_except:
  "wp (except_exception m h) Q E s \<longleftrightarrow>
     wp m Q (\<lambda>e t. case e of Raised n x \<Rightarrow> wp (h n x) Q E t | OutOfFuel \<Rightarrow> E OutOfFuel t) s"
  by (auto simp: except_exception_def wp_def effect_defs split: prod.splits sum.splits raised.splits)

lemma wp_finally:
  "wp (finally_do m f) Q E s \<longleftrightarrow>
     wp m (\<lambda>_. wp f Q E) (\<lambda>e t. case e of
       Raised n x \<Rightarrow> wp f (\<lambda>_. E (Raised n x)) E t | OutOfFuel \<Rightarrow> E OutOfFuel t) s"
  by (auto simp: finally_do_def wp_def effect_defs split: prod.splits sum.splits raised.splits)

lemma wp_raisesI: "steps R m \<Longrightarrow> raises (\<lambda>_. True) F m \<Longrightarrow> wp m (\<lambda>_. R s) (\<lambda>e t. F e \<and> R s t) s"
  by (auto simp: wp_def steps_def raises_def split: prod.splits sum.splits) (metis snd_conv)+

context step_relation
begin

lemma wp_step_then:
  assumes "steps R m" "R s0 s" "\<And>x t. R s0 t \<Longrightarrow> wp (f x) Q E t" "\<And>e t. R s0 t \<Longrightarrow> E e t"
  shows "wp (andthen m f) Q E s"
  by (rule wp_then [OF wp_mono [OF wp_steps [OF assms(1)], where Q' = "\<lambda>_. R s0" and E' = E]])
    (use assms(2-4) trans in blast)+

lemma wp_step: "steps R m \<Longrightarrow> R s0 s \<Longrightarrow> (\<And>x t. R s0 t \<Longrightarrow> Q x t) \<Longrightarrow> (\<And>e t. R s0 t \<Longrightarrow> E e t) \<Longrightarrow> wp m Q E s"
  by (rule wp_mono [OF wp_steps]) (use trans in blast)+

end

section \<open>A killed session stays quiet\<close>

fun is_flatten_call :: "session_call \<Rightarrow> bool" where
  "is_flatten_call (FlattenCall t) = True"
| "is_flatten_call _ = False"

definition only_flattens :: "'w orch_state \<Rightarrow> 'w orch_state \<Rightarrow> bool" where
  "only_flattens s t \<longleftrightarrow> (\<exists>cs. oo_calls t = oo_calls s @ cs \<and> list_all is_flatten_call cs)"

interpretation only_flattens: step_relation only_flattens
proof
  fix s t u :: "'a orch_state"
  show "only_flattens s s" by (simp add: only_flattens_def)
  show "only_flattens s t \<Longrightarrow> only_flattens t u \<Longrightarrow> only_flattens s u"
    by (auto simp: only_flattens_def)
qed

lemma same_calls: "oo_calls t = oo_calls s \<Longrightarrow> only_flattens s t"
  by (simp add: only_flattens_def)

definition undisturbed :: "'w orch_state \<Rightarrow> 'w orch_state \<Rightarrow> bool" where
  "undisturbed s t \<longleftrightarrow> oo_calls t = oo_calls s \<and> ro_kill_switch t = ro_kill_switch s \<and>
     ro_outcome t = ro_outcome s \<and> ro_flatten_result t = ro_flatten_result s"

interpretation undisturbed: step_relation undisturbed
  by unfold_locales (simp_all add: undisturbed_def)

lemma undisturbed_primitives:
  "steps undisturbed (clock_now env)"
  "steps undisturbed (sleep_for env x)"
  "steps undisturbed (store_op f)"
  "steps undisturbed (store_set g)"
  "steps undisturbed (take_leadership env plan now)"
  "steps undisturbed (renew_leadership env plan now)"
  "steps undisturbed (flatten_call env fuel plan now)"
  "steps undisturbed (call_external m)"
  "steps undisturbed (runtime_error msg)"
  by (auto simp: steps_def primitive_defs store_op_def update_or_raise_def undisturbed_def map_sum_def
      split: prod.splits option.splits sum.splits)

lemma undisturbed_record_phase: "steps undisturbed (record_phase env plan phase a b ds)"
  unfolding record_phase_def by (intro undisturbed.steps_rules undisturbed_primitives)

lemma undisturbed_emit: "steps undisturbed (emit_critical env plan code message now)"
  by (auto simp: steps_def emit_critical_def Let_def undisturbed_def store_set_def modify_def
      split: prod.splits sum.splits option.splits)

lemma undisturbed_wait: "steps undisturbed (wait_until env plan target fuel)"
  by (induction fuel) (auto simp: Let_def intro!: undisturbed.steps_rules undisturbed_primitives)

lemma undisturbed_only: "steps undisturbed m \<Longrightarrow> steps only_flattens m"
  by (simp add: steps_def undisturbed_def only_flattens_def)

lemma local_only:
  assumes "\<And>s. oo_calls (f s) = oo_calls s"
  shows "steps only_flattens (modify f)"
  using assms by (auto simp: steps_def modify_def intro: same_calls)

lemma note_flatten: "steps only_flattens (note_call (FlattenCall now))"
  by (auto simp: steps_def note_call_def modify_def only_flattens_def)

lemma run_flatten_only: "steps only_flattens (run_flatten env fuel plan now_opt)"
  unfolding run_flatten_def
  by (intro only_flattens.steps_rules note_flatten undisturbed_primitives [THEN undisturbed_only]
      undisturbed_record_phase [THEN undisturbed_only])

lemma emergency_flatten_only: "steps only_flattens (emergency_flatten env fuel plan now)"
proof -
  have "steps only_flattens (case e of Raised n x \<Rightarrow> modify (f n x) | OutOfFuel \<Rightarrow> raise OutOfFuel)"
    if "\<And>n x s. oo_calls (f n x s) = oo_calls s" for e and f :: "string \<Rightarrow> string \<Rightarrow> 'a orch_state \<Rightarrow> 'a orch_state"
    using local_only [OF that] only_flattens.steps_raise by (cases e) auto
  then show ?thesis
    unfolding emergency_flatten_def except_exception_def
    by (intro only_flattens.steps_rules run_flatten_only local_only) simp_all
qed

lemma handle_exception_only: "steps only_flattens (handle_exception env fuel plan started_at name message)"
  unfolding handle_exception_def Let_def set_progress_def
  by (intro only_flattens.steps_rules emergency_flatten_only local_only undisturbed_primitives [THEN undisturbed_only]
      undisturbed_emit [THEN undisturbed_only]) simp_all

lemma conclude_only: "steps only_flattens (conclude env plan started_at)"
  unfolding conclude_def
  by (intro only_flattens.steps_rules local_only undisturbed_primitives [THEN undisturbed_only]) (simp split: option.splits)

lemma enter_session_killed:
  assumes "ks_active (ro_kill_switch s)"
  shows "wp (enter_session env plan started_at) (\<lambda>_ _. False) (\<lambda>_. only_flattens s) s"
  unfolding enter_session_def
  by (rule undisturbed.wp_step_then [OF undisturbed_primitives(5) undisturbed.refl],
      rule undisturbed.wp_step_then [OF undisturbed_record_phase], assumption)
    (use assms in \<open>auto simp: undisturbed_def only_flattens_def\<close>)

lemma session_body_killed:
  assumes "ks_active (ro_kill_switch s)"
  shows "wp (session_body env fuel plan started_at) (\<lambda>_ _. False) (\<lambda>_. only_flattens s) s"
  unfolding session_body_def by (rule wp_then [OF enter_session_killed [OF assms]]) simp

lemma start_kill_switch_killed:
  assumes "killed (oo_repository s) (pl_session_id plan)"
  shows "wp (start_kill_switch env plan) (\<lambda>k t. ks_active k \<and> t = s) (\<lambda>_ _. False) s"
  using assms by (auto simp: start_kill_switch_def killed_def)

definition quiet :: "string \<Rightarrow> 'w orch_state \<Rightarrow> 'w orch_state \<Rightarrow> bool" where
  "quiet sid s t \<longleftrightarrow> only_flattens s t \<and> session_grows s t \<and> killed (oo_repository t) sid"

lemma wp_quiet:
  assumes "steps only_flattens m" "steps session_grows m" "quiet sid s0 s"
  shows "wp m (\<lambda>_. quiet sid s0) (\<lambda>_. quiet sid s0) s"
proof -
  have "wp m (\<lambda>_ t. only_flattens s0 t \<and> (session_grows s0 t \<and> session_grows s t))
      (\<lambda>_ t. only_flattens s0 t \<and> (session_grows s0 t \<and> session_grows s t)) s"
    using assms(3) only_flattens.trans session_grows.trans unfolding quiet_def
    by (intro wp_conj wp_steps [OF assms(2)] wp_mono [OF wp_steps [OF assms(1)]] wp_mono [OF wp_steps [OF assms(2)]]) blast+
  then show ?thesis
    by (rule wp_mono) (use assms(3) in \<open>auto simp: quiet_def session_grows_def\<close>)
qed

lemma session_body_quiet:
  assumes "quiet sid s0 s" "ks_active (ro_kill_switch s)"
  shows "wp (session_body env fuel plan a) (\<lambda>_ _. False) (\<lambda>_. quiet sid s0) s"
proof -
  have "wp (session_body env fuel plan a) (\<lambda>_ t. False \<and> session_grows s t) (\<lambda>_ t. only_flattens s t \<and> session_grows s t) s"
    by (rule wp_conj [OF session_body_killed [OF assms(2)] wp_steps [OF session_body_grows]])
  then show ?thesis
    by (rule wp_mono) (use assms(1) only_flattens.trans session_grows.trans in \<open>auto simp: quiet_def session_grows_def\<close>)
qed

lemma save_plan_grows: "steps session_grows (store_op (save_plan plan))"
proof (rule store_op_grows)
  fix s :: "'w orch_state" and r
  assume "save_plan plan (oo_repository s) = Inr r"
  then have "or_kill_switches r = or_kill_switches (oo_repository s)" "or_phases r = or_phases (oo_repository s)"
    by (auto simp: save_plan_def put_once_def split: option.splits if_splits)
  then show "session_grows s (s\<lparr>oo_repository := r\<rparr>)" by (rule phases_only_grows)
qed

lemma run_killed:
  assumes "killed (oo_repository s) (pl_session_id plan)"
  shows "wp (run_session env fuel plan start_at) (\<lambda>_. quiet (pl_session_id plan) s) (\<lambda>_. quiet (pl_session_id plan) s) s"
proof -
  let ?Q = "quiet (pl_session_id plan) s"
  have start: "?Q s" using assms by (simp add: quiet_def only_flattens.refl session_grows.refl)
  have first: "wp (case start_at of None \<Rightarrow> clock_now env | Some t \<Rightarrow> ret t) (\<lambda>_. ?Q) (\<lambda>_. ?Q) s"
    by (rule wp_quiet [OF _ _ start])
      (intro only_flattens.steps_rules session_grows_rules undisturbed_primitives [THEN undisturbed_only])+
  have saved: "wp (store_op (save_plan plan)) (\<lambda>_. ?Q) (\<lambda>_. ?Q) t" if "?Q t" for t
    by (rule wp_quiet [OF undisturbed_primitives(3) [THEN undisturbed_only] save_plan_grows that])
  have final: "wp (conclude env plan a) (\<lambda>_. ?Q) (\<lambda>_. ?Q) t" if "?Q t" for t a
    by (rule wp_quiet [OF conclude_only conclude_grows that])
  have handled: "wp (handle_exception env fuel plan a n x) (\<lambda>_. ?Q) (\<lambda>_. ?Q) t" if "?Q t" for t a n x
    by (rule wp_quiet [OF handle_exception_only handle_exception_grows that])
  have last: "wp (finally_do (except_exception (session_body env fuel plan a) (handle_exception env fuel plan a))
      (conclude env plan a)) (\<lambda>_. ?Q) (\<lambda>_. ?Q) t" if "?Q t" "ks_active (ro_kill_switch t)" for t a
    unfolding wp_finally wp_except
    by (rule wp_mono [OF session_body_quiet [OF that]])
      (auto split: raised.splits intro!: final wp_mono [OF handled])
  have resumed: "?Q (t\<lparr>ro_kill_switch := k, ro_flatten_result := fr, ro_outcome := oc, ro_final_phase := fp,
      ro_error_message := em, ro_managed_quantities := mq, ro_lease := l\<rparr>)" if "?Q t" for t k fr oc fp em mq l
    using that by (simp add: quiet_def only_flattens_def session_grows_def)
  show ?thesis unfolding run_session_def
  proof (rule wp_then [OF first], rule wp_then [OF saved], assumption, goal_cases)
    case (1 started_at s1 u t)
    then have "killed (oo_repository t) (pl_session_id plan)" by (simp add: quiet_def)
    from start_kill_switch_killed [OF this, of env] show ?case unfolding wp_andthen
      by (rule wp_mono) (use 1 in \<open>auto intro!: last resumed\<close>)
  qed
qed

text \<open>
  Claim C10. The kill switch latches: once the stored kill switch of a session is active, every
  later run of that session, however it ends, leaves it active and calls neither a hook nor the
  health probe; the only thing it does outside is to flatten.
\<close>

theorem killed_session_stays_quiet:
  assumes "killed (oo_repository s) (pl_session_id plan)"
    and "run_session env fuel plan start_at s = (r, t)"
  shows "killed (oo_repository t) (pl_session_id plan) \<and>
    (\<exists>cs. oo_calls t = oo_calls s @ cs \<and> list_all is_flatten_call cs)"
proof -
  have "quiet (pl_session_id plan) s t"
    using run_killed [OF assms(1), of env fuel start_at] assms(2) by (cases r) (simp_all add: wp_def)
  then show ?thesis by (simp add: quiet_def only_flattens_def)
qed

end
