(* ===== verification/Orchestrator_Results.thy ===== *)
theory Orchestrator_Results
  imports Orchestrator_Outcomes
begin

text \<open>
  The outcome that a session reports is backed by what happened: success by a complete flatten,
  a kill by the persistent kill switch and an attempted flatten, a block by a complete flatten or
  by a foreign lease before any hook ran.
\<close>

section \<open>Exceptions of the session's own classes\<close>

text \<open>
  The two exception classes of the orchestrator are raised by \<open>run\<close> alone: the collaborators do
  not raise them.
\<close>

definition foreign_name :: "string \<Rightarrow> bool" where
  "foreign_name n \<longleftrightarrow> n \<noteq> ''LeadershipUnavailable'' \<and> n \<noteq> ''PersistentKillSwitchActive''"

definition foreign :: "raised \<Rightarrow> bool" where
  "foreign e \<longleftrightarrow> (case e of Raised n x \<Rightarrow> foreign_name n | OutOfFuel \<Rightarrow> True)"

definition polite :: "('w, 'a) external \<Rightarrow> bool" where
  "polite m \<longleftrightarrow> (\<forall>w e w'. m w = (Inl e, w') \<longrightarrow> foreign_name (fst e))"

definition polite_env :: "'w session_env \<Rightarrow> bool" where
  "polite_env env \<longleftrightarrow>
     (\<forall>plan now. polite (en_snapshot env plan now)) \<and>
     (\<forall>plan now k. polite (en_warmup_recorder env plan now k) \<and> polite (en_freeze_features env plan now k) \<and>
        polite (en_evaluate env plan now k) \<and> polite (en_size_and_execute env plan now k) \<and>
        polite (en_reconcile env plan now k)) \<and>
     (\<forall>alert. polite (en_send env alert))"

abbreviation foreign_only :: "('s, raised, 'a) eff \<Rightarrow> bool" where
  "foreign_only m \<equiv> raises (\<lambda>_. True) foreign m"

lemma foreign_simps [simp]: "foreign (Raised n x) = foreign_name n" "foreign OutOfFuel"
  by (simp_all add: foreign_def)

lemma foreign_raised_of [simp]: "foreign (raised_of e)"
  by (cases e) (simp_all add: foreign_name_def)

lemma foreign_andthen: "foreign_only m \<Longrightarrow> (\<And>x. foreign_only (f x)) \<Longrightarrow> foreign_only (andthen m f)"
  by (rule raises_andthen) simp_all

lemma foreign_if: "(c \<Longrightarrow> foreign_only m) \<Longrightarrow> (\<not> c \<Longrightarrow> foreign_only m') \<Longrightarrow> foreign_only (if c then m else m')"
  by simp

lemma foreign_primitives:
  "foreign_only (clock_now env)"
  "foreign_only (sleep_for env x)"
  "foreign_only (note_call c)"
  "foreign_only (store_op f)"
  "foreign_only (store_set g)"
  "foreign_only (renew_leadership env plan now)"
  "foreign_only (runtime_error msg)"
  "foreign_only (set_progress oc ph)"
  by (auto simp: raises_def primitive_defs store_op_def update_or_raise_def foreign_name_def map_sum_def
      split: prod.splits option.splits sum.splits)

lemma foreign_external: "polite m \<Longrightarrow> foreign_only (call_external m)"
  by (auto simp: raises_def call_external_def polite_def map_sum_def split: prod.splits sum.splits)

lemmas foreign_rules = foreign_andthen foreign_if foreign_primitives raises_ret raises_gets raises_modify

lemma foreign_wait: "foreign_only (wait_until env plan target fuel)"
  by (induction fuel) (auto simp: Let_def intro!: foreign_rules raises_raise)

lemma foreign_record_phase: "foreign_only (record_phase env plan phase a b ds)"
  unfolding record_phase_def by (intro foreign_rules)

lemma foreign_preflight: "polite_env env \<Longrightarrow> foreign_only (preflight env plan phase)"
  unfolding preflight_def
  by (intro foreign_rules foreign_external) (auto simp: polite_env_def intro!: foreign_rules foreign_record_phase split: option.splits)

lemma foreign_run_phase: "(\<And>now k. polite (hook plan now k)) \<Longrightarrow> foreign_only (run_phase env plan phase hook)"
  unfolding run_phase_def
  by (intro foreign_rules) (auto intro!: foreign_rules foreign_external foreign_record_phase split: option.splits)

lemma foreign_wait_and_run:
  "(\<And>now k. polite (hook plan now k)) \<Longrightarrow> foreign_only (wait_and_run env fuel plan phase t hook)"
  unfolding wait_and_run_def by (intro foreign_rules foreign_wait foreign_run_phase)

lemma foreign_manage: "foreign_only (manage_positions ps)"
  by (induction ps rule: manage_positions.induct) (auto intro!: foreign_rules split: option.splits)

lemma merge_managed_names: "merge_managed mq d = Inl e \<Longrightarrow> foreign_name (fst e)"
  by (induction mq d rule: merge_managed.induct)
    (auto simp: foreign_name_def split: option.splits dec_value.splits if_splits)

lemma sequence_sum_Inl: "sequence_sum xs = Inl e \<Longrightarrow> Inl e \<in> set xs"
  by (induction xs) (auto split: sum.splits simp: map_sum_def)

lemma merge_targets_names: "merge_targets iv ds mq = Inl e \<Longrightarrow> foreign_name (fst e)"
  by (auto simp: merge_targets_def Let_def target_of_def foreign_name_def
      split: sum.splits option.splits if_splits dest!: sequence_sum_Inl merge_managed_names)

lemma foreign_flattening:
  "foreign_only (or_default what c fb)"
  "foreign_only (try_list broker targets)"
  "foreign_only (add_error what e)"
  "foreign_only (on_time f)"
  "foreign_only (close_one broker p)"
  by (auto simp: raises_def or_default_def try_list_def add_error_def on_time_def close_one_def listed_def Let_def effect_defs
      split: prod.splits sum.splits if_splits)

lemma foreign_close: "foreign_only (close_uncovered broker ps)"
  by (induction ps) (auto intro!: foreign_rules foreign_flattening)

lemma foreign_verify: "foreign_only (verify_positions broker tm poll dl targets fuel rem)"
  by (induction fuel arbitrary: rem)
    (auto intro!: foreign_rules foreign_flattening foreign_close raises_raise split: sum.splits)

lemma foreign_merge: "foreign_only (from_result (map_sum (\<lambda>e. Raised (fst e) (snd e)) id (merge_targets iv ds mq)))"
  using merge_targets_names [of iv ds mq]
  by (cases "merge_targets iv ds mq") (auto intro: raises_raise raises_ret)

lemma foreign_flatten_body: "foreign_only (flatten_body dumps texts broker tm fuel plan now mq)"
  unfolding flatten_body_def
  by (intro foreign_rules foreign_flattening foreign_close foreign_verify foreign_merge)
    (auto intro!: foreign_rules foreign_flattening raises_raise simp: foreign_name_def split: sum.splits prod.splits)

lemma foreign_flatten_call: "foreign_only (flatten_call env fuel plan now)"
proof -
  have "foreign e" if "flatten_body dumps texts broker tm fuel plan now mq s = (Inl e, t)" for dumps texts broker tm mq s e t
    by (rule raisesD [OF foreign_flatten_body TrueI that])
  then show ?thesis unfolding raises_def flatten_call_def flatten_def by (auto split: prod.splits)
qed

lemma foreign_run_flatten: "foreign_only (run_flatten env fuel plan now_opt)"
  unfolding run_flatten_def
  by (intro foreign_rules foreign_flatten_call foreign_record_phase) (auto intro!: foreign_rules split: option.splits)

lemma foreign_emit: "polite_env env \<Longrightarrow> foreign_only (emit_critical env plan code message now)"
  by (auto simp: raises_def emit_critical_def emit_def polite_env_def polite_def store_set_def modify_def Let_def
      foreign_name_def map_sum_def split: prod.splits sum.splits option.splits if_splits)

lemma polite_capture: "polite (capture_hook plan now k)"
  by (simp add: polite_def capture_hook_def ret_def)

lemma foreign_morning: "polite_env env \<Longrightarrow> foreign_only (morning env fuel plan)"
  unfolding morning_def
  by (intro foreign_rules foreign_preflight foreign_wait_and_run polite_capture)
    (auto simp: polite_env_def foreign_name_def intro!: raises_ret raises_raise split: option.splits)

lemma foreign_trade: "polite_env env \<Longrightarrow> foreign_only (trade env fuel plan)"
  unfolding trade_def
  by (intro foreign_rules foreign_preflight foreign_wait foreign_run_phase)
    (auto simp: polite_env_def intro!: raises_ret foreign_manage split: option.splits pyval.splits)

lemma foreign_act: "polite_env env \<Longrightarrow> foreign_only (act_on_evaluation env fuel plan summary)"
  unfolding act_on_evaluation_def by (intro foreign_rules foreign_trade)

lemma foreign_end_of_day: "polite_env env \<Longrightarrow> foreign_only (end_of_day env fuel plan)"
  unfolding end_of_day_def Let_def
  by (intro foreign_rules foreign_wait foreign_run_flatten foreign_emit foreign_record_phase)

section \<open>The outcome\<close>

definition same_locals :: "'w orch_state \<Rightarrow> 'w orch_state \<Rightarrow> bool" where
  "same_locals s t \<longleftrightarrow> ro_kill_switch t = ro_kill_switch s \<and> ro_outcome t = ro_outcome s"

interpretation same_locals: step_relation same_locals
  by unfold_locales (simp_all add: same_locals_def)

lemma undisturbed_same: "steps undisturbed m \<Longrightarrow> steps same_locals m"
  by (simp add: steps_def undisturbed_def same_locals_def)

lemma note_call_same: "steps same_locals (note_call c)"
  by (simp add: steps_def note_call_def modify_def same_locals_def)

lemma run_flatten_same: "steps same_locals (run_flatten env fuel plan now_opt)"
  unfolding run_flatten_def
  by (intro same_locals.steps_rules note_call_same undisturbed_primitives [THEN undisturbed_same]
      undisturbed_record_phase [THEN undisturbed_same])

text \<open>A flatten was begun since a state.\<close>

definition flatten_begun :: "'w orch_state \<Rightarrow> 'w orch_state \<Rightarrow> bool" where
  "flatten_begun s t \<longleftrightarrow> (\<exists>cs now. oo_calls t = oo_calls s @ cs \<and> FlattenCall now \<in> set cs)"

lemma flatten_begun_grows: "flatten_begun s t \<Longrightarrow> session_grows t u \<Longrightarrow> flatten_begun s u"
  by (fastforce simp: flatten_begun_def session_grows_def prefix_def)

lemma flatten_begun_before: "session_grows r s \<Longrightarrow> flatten_begun s t \<Longrightarrow> flatten_begun r t"
  by (fastforce simp: flatten_begun_def session_grows_def prefix_def)

lemma run_flatten_begun: "wp (run_flatten env fuel plan now_opt) (\<lambda>_. flatten_begun s) (\<lambda>_. flatten_begun s) s"
proof -
  have clock: "wp (case now_opt of None \<Rightarrow> clock_now env | Some t \<Rightarrow> ret t) (\<lambda>_ t. oo_calls t = oo_calls s) E s" for E
    by (auto simp: wp_def clock_now_def ret_def split: option.splits prod.splits)
  have "wp (andthen (flatten_call env fuel plan now) (\<lambda>result.
      andthen (record_phase env plan SP_FLATTENING now (Some (fr_completed_at result)) (ds result)) (\<lambda>_.
      andthen (store_set (save_flatten result)) (\<lambda>_. ret result)))) (\<lambda>_. flatten_begun s) (\<lambda>_. flatten_begun s) t"
    if "flatten_begun s t" for t now ds
    by (rule wp_mono [OF wp_steps [where R = session_grows]])
      (auto intro!: session_grows_rules dest: flatten_begun_grows [OF that])
  then show ?thesis unfolding run_flatten_def
    by (intro wp_then [OF clock]) (simp add: note_call_def flatten_begun_def)
qed

definition backed :: "string \<Rightarrow> 'w orch_state \<Rightarrow> 'w orch_state \<Rightarrow> bool" where
  "backed sid s t \<longleftrightarrow>
     flatten_begun s t \<and>
     (ro_outcome t \<in> {SO_COMPLETED, SO_NO_SETUPS, SO_BLOCKED} \<and> (\<exists>f. ro_flatten_result t = Some f \<and> fr_complete f) \<or>
      ro_outcome t \<in> {SO_KILLED, SO_FLATTEN_INCOMPLETE} \<and> ks_active (ro_kill_switch t) \<and> killed (oo_repository t) sid)"

lemma trade_yields: "yields (\<lambda>_ t. ro_outcome t = SO_COMPLETED) (trade env fuel plan)"
proof -
  have last: "yields (\<lambda>_ t. ro_outcome t = SO_COMPLETED)
      (andthen (set_progress SO_COMPLETED SP_MONITORING) (\<lambda>_. if c then runtime_error m else ret ()))" for c m
    by (auto simp: yields_def set_progress_def runtime_error_def effect_defs)
  show ?thesis unfolding trade_def
    by (rule last yields_andthen yields_if | simp add: runtime_error_def yields_raise)+
qed

lemma act_yields:
  "yields (\<lambda>_ t. ro_outcome t \<in> {SO_COMPLETED, SO_NO_SETUPS, SO_BLOCKED}) (act_on_evaluation env fuel plan summary)"
  unfolding act_on_evaluation_def
  by (intro yields_if yields_mono [OF trade_yields]) (auto simp: yields_def set_progress_def modify_def)

text \<open>Steps that neither call a hook nor touch the locals of \<open>run\<close>, and let the store grow.\<close>

definition calm :: "'w orch_state \<Rightarrow> 'w orch_state \<Rightarrow> bool" where
  "calm s t \<longleftrightarrow> undisturbed s t \<and> session_grows s t"

interpretation calm: step_relation calm
  by unfold_locales (auto simp: calm_def intro: undisturbed.refl undisturbed.trans session_grows.refl session_grows.trans)

lemma calm_steps: "steps undisturbed m \<Longrightarrow> steps session_grows m \<Longrightarrow> steps calm m"
  by (simp add: steps_def calm_def)

lemma calmD:
  "calm s t \<Longrightarrow> oo_calls t = oo_calls s" "calm s t \<Longrightarrow> ro_outcome t = ro_outcome s"
  "calm s t \<Longrightarrow> ro_kill_switch t = ro_kill_switch s"
  "calm s t \<Longrightarrow> latched (oo_repository s) \<Longrightarrow> latched (oo_repository t)"
  "calm s t \<Longrightarrow> killed (oo_repository s) sid \<Longrightarrow> killed (oo_repository t) sid"
  "calm s t \<Longrightarrow> flatten_begun r s \<Longrightarrow> flatten_begun r t"
  "calm s t \<Longrightarrow> ro_flatten_result t = ro_flatten_result s"
  by (simp_all add: calm_def undisturbed_def session_grows_def flatten_begun_def)

lemmas calm_wait = calm_steps [OF undisturbed_wait wait_until_grows]
lemmas calm_emit = calm_steps [OF undisturbed_emit emit_critical_grows]
lemmas calm_clock = calm_steps [OF undisturbed_primitives(1) primitive_grows(1)]
lemmas calm_record = calm_steps [OF undisturbed_record_phase record_phase_grows]

lemma run_flatten_effect:
  "wp (run_flatten env fuel plan now_opt)
     (\<lambda>_ t. same_locals s t \<and> session_grows s t \<and> flatten_begun s t)
     (\<lambda>_ t. same_locals s t \<and> session_grows s t \<and> flatten_begun s t) s"
  by (intro wp_conj run_flatten_begun wp_steps [OF run_flatten_same] wp_steps [OF run_flatten_grows])

lemma run_flatten_then:
  assumes "\<And>x t. same_locals s t \<Longrightarrow> session_grows s t \<Longrightarrow> flatten_begun s t \<Longrightarrow> wp (f x) Q E t"
    and "\<And>e t. same_locals s t \<Longrightarrow> session_grows s t \<Longrightarrow> flatten_begun s t \<Longrightarrow> E e t"
  shows "wp (andthen (run_flatten env fuel plan now_opt) f) Q E s"
  by (rule wp_then [OF wp_mono [OF run_flatten_effect, where E' = E]]) (use assms in auto)

lemma killing_save:
  assumes "ks_active k" "ks_session_id k = sid" "latched (oo_repository s)"
  shows "wp (store_op (save_kill_switch k)) (\<lambda>_ t. killed (oo_repository t) sid \<and> undisturbed s t \<and> session_grows s t) (\<lambda>_ _. True) s"
proof (cases rule: store_op_cases [of "save_kill_switch k" s])
  case (stored r)
  then show ?thesis using save_active_kills [OF stored(1) assms(1,3)] save_active_grows [OF stored(1) assms(1)] assms(2)
    by (simp add: wp_def undisturbed_def)
next
  case (refused e)
  then show ?thesis by (simp add: wp_def)
qed

lemma backed_killed:
  "flatten_begun s t \<Longrightarrow> ks_active (ro_kill_switch t) \<Longrightarrow> killed (oo_repository t) sid \<Longrightarrow> oc \<in> {SO_KILLED, SO_FLATTEN_INCOMPLETE} \<Longrightarrow>
   backed sid s (t\<lparr>ro_outcome := oc, ro_final_phase := ph\<rparr>)"
  by (simp add: backed_def flatten_begun_def)

lemma end_of_day_backed:
  assumes oc: "ro_outcome s \<in> {SO_COMPLETED, SO_NO_SETUPS, SO_BLOCKED}" and la: "latched (oo_repository s)"
  shows "wp (end_of_day env fuel plan) (\<lambda>_. backed (pl_session_id plan) s) (\<lambda>_ _. True) s"
  unfolding end_of_day_def Let_def
proof (rule calm.wp_step_then [OF calm_wait calm.refl], rule run_flatten_then, goal_cases)
  case (1 x t result u)
  let ?u = "u\<lparr>ro_flatten_result := Some result, ro_final_phase := SP_FLATTENING\<rparr>"
  have begun: "flatten_begun s u" using flatten_begun_before [of s t u] 1 by (simp add: calm_def)
  have same: "ro_outcome u = ro_outcome s" using 1 calmD(2) [of s t] by (simp add: same_locals_def)
  have lu: "latched (oo_repository u)" using 1 calmD(4) [of s t] la by (simp add: session_grows_def)
  have good: "wp (andthen (record_phase env plan SP_RECONCILIATION a b c) (\<lambda>_. andthen (clock_now env) (\<lambda>now.
      andthen (gets ro_outcome) (\<lambda>outcome. andthen (record_phase env plan SP_COMPLETED now None (d outcome)) (\<lambda>_.
      modify (\<lambda>s. s\<lparr>ro_final_phase := SP_COMPLETED\<rparr>)))))) (\<lambda>_. backed (pl_session_id plan) s) (\<lambda>_ _. True) ?u"
    if complete: "fr_complete result" for a b c d
  proof (rule calm.wp_step_then [OF calm_record calm.refl], rule calm.wp_step_then [OF calm_clock], assumption,
      simp only: wp_andthen wp_gets, rule calm.wp_step_then [OF calm_record, unfolded wp_andthen], assumption, goal_cases)
    case (1 _ _ _ _ _ v)
    have "flatten_begun s v" using calmD(6) [OF 1(3)] begun by (simp add: flatten_begun_def)
    then show ?case using calmD(2,7) [OF 1(3)] complete same oc by (simp add: backed_def flatten_begun_def)
  qed simp_all
  have bad: "wp (andthen (store_op (save_kill_switch k)) (\<lambda>_. andthen (emit_critical env plan c m now)
      (\<lambda>_. set_progress SO_FLATTEN_INCOMPLETE SP_KILLED))) (\<lambda>_. backed (pl_session_id plan) s) (\<lambda>_ _. True)
      (?u\<lparr>ro_kill_switch := k\<rparr>)"
    if k: "ks_active k" "ks_session_id k = pl_session_id plan" for k c m now
  proof (rule wp_then [OF killing_save [OF k]], goal_cases)
    case (2 _ v)
    show ?case
    proof (rule calm.wp_step_then [OF calm_emit calm.refl], goal_cases)
      case (1 _ w)
      have "flatten_begun s w" using calmD(6) [OF 1, of s] 2 begun by (simp add: undisturbed_def flatten_begun_def)
      moreover have "ks_active (ro_kill_switch w)" using calmD(3) [OF 1] 2 k by (simp add: undisturbed_def)
      moreover have "killed (oo_repository w) (pl_session_id plan)" using calmD(5) [OF 1] 2 by simp
      ultimately show ?case unfolding set_progress_def wp_modify by (rule backed_killed) simp
    qed simp
  qed (use lu in simp)
  show ?case using good bad by simp
qed simp_all

lemma backed_before: "session_grows r s \<Longrightarrow> backed sid s t \<Longrightarrow> backed sid r t"
  by (auto simp: backed_def dest: flatten_begun_before)

text \<open>How a session body can fail.\<close>

definition failed_body :: "'w orch_state \<Rightarrow> raised \<Rightarrow> 'w orch_state \<Rightarrow> bool" where
  "failed_body s e t \<longleftrightarrow>
     session_grows s t \<and>
     (foreign e \<or>
      (\<exists>x. e = Raised ''LeadershipUnavailable'' x \<and> oo_calls t = oo_calls s) \<or>
      (\<exists>x. e = Raised ''PersistentKillSwitchActive'' x \<and> ks_active (ro_kill_switch t) \<and>
         ro_kill_switch t = ro_kill_switch s))"

lemma foreign_failed: "session_grows s t \<Longrightarrow> foreign e \<Longrightarrow> failed_body s e t"
  by (simp add: failed_body_def)

lemma enter_session_effect: "wp (enter_session env plan a) (\<lambda>_. session_grows s) (failed_body s) s"
proof -
  have take: "wp (take_leadership env plan a) (\<lambda>_. calm s) (failed_body s) s"
    using calm_steps [OF undisturbed_primitives(5) primitive_grows(8), of env plan a]
    by (auto simp: wp_def take_leadership_def failed_body_def calm_def undisturbed_def session_grows_def foreign_name_def
        split: prod.splits sum.splits option.splits)
  have rec: "wp (record_phase env plan ph b c d) (\<lambda>_. calm s) (failed_body s) t" if "calm s t" for t ph b c d
    by (rule wp_mono [OF wp_raisesI [OF calm_record foreign_record_phase]])
      (use that calm.trans in \<open>auto intro: foreign_failed simp: calm_def\<close>)
  show ?thesis unfolding enter_session_def
    by (rule wp_then [OF take], rule wp_then [OF rec], assumption)
      (auto simp: failed_body_def calm_def undisturbed_def)
qed

lemma session_body_effect:
  assumes "polite_env env" "latched (oo_repository s)"
  shows "wp (session_body env fuel plan a) (\<lambda>_. backed (pl_session_id plan) s) (failed_body s) s"
proof -
  have step: "wp m (\<lambda>_. session_grows s) (failed_body s) t"
    if "session_grows s t" "steps session_grows m" "foreign_only m" for t and m :: "('a, 'b) session"
    by (rule wp_mono [OF wp_raisesI [OF that(2,3)]])
      (use session_grows.trans [OF that(1)] foreign_failed in auto)
  have act: "wp (act_on_evaluation env fuel plan summary)
      (\<lambda>_ u. session_grows s u \<and> ro_outcome u \<in> {SO_COMPLETED, SO_NO_SETUPS, SO_BLOCKED}) (failed_body s) t"
    if "session_grows s t" for t summary
    using step [OF that act_on_evaluation_grows foreign_act [OF assms(1)], of fuel plan summary]
      yieldsD [OF act_yields, of env fuel plan summary t]
    by (auto simp: wp_def split: prod.splits sum.splits)
  have close: "wp (end_of_day env fuel plan) (\<lambda>_. backed (pl_session_id plan) s) (failed_body s) t"
    if g: "session_grows s t" "ro_outcome t \<in> {SO_COMPLETED, SO_NO_SETUPS, SO_BLOCKED}" for t
  proof -
    have "latched (oo_repository t)" using g(1) assms(2) by (simp add: session_grows_def)
    from wp_conj [OF end_of_day_backed [OF g(2) this] step [OF g(1) end_of_day_grows foreign_end_of_day [OF assms(1)]]]
    show ?thesis by (rule wp_mono) (use backed_before [OF g(1)] in auto)
  qed
  show ?thesis unfolding session_body_def
    by (rule wp_then [OF enter_session_effect], rule wp_then [OF step [OF _ morning_grows foreign_morning [OF assms(1)]]],
        assumption, rule wp_then [OF act], assumption, rule close) auto
qed

lemma emergency_flatten_effect:
  "wp (emergency_flatten env fuel plan now)
     (\<lambda>_ t. flatten_begun s t \<and> ro_outcome t = ro_outcome s \<and> ro_kill_switch t = ro_kill_switch s \<and> session_grows s t)
     (\<lambda>_ _. True) s"
  unfolding emergency_flatten_def wp_except
  by (rule run_flatten_then)
    (auto simp: same_locals_def session_grows_def flatten_begun_def split: raised.splits)

lemma handle_exception_effect:
  assumes "failed_body s0 (Raised n x) s" "latched (oo_repository s)"
    and "ks_active (ro_kill_switch s0) \<Longrightarrow> killed (oo_repository s) (pl_session_id plan)"
  shows "wp (handle_exception env fuel plan a n x)
    (\<lambda>_ t. backed (pl_session_id plan) s0 t \<or> ro_outcome t = SO_BLOCKED \<and> oo_calls t = oo_calls s0) (\<lambda>_ _. True) s"
proof -
  have grows: "session_grows s0 s" using assms(1) by (simp add: failed_body_def)
  have emergency: "wp (emergency_flatten env fuel plan now)
      (\<lambda>_ t. backed (pl_session_id plan) s0 t \<or> ro_outcome t = SO_BLOCKED \<and> oo_calls t = oo_calls s0) (\<lambda>_ _. True) t"
    if "session_grows s0 t" "ks_active (ro_kill_switch t)" "killed (oo_repository t) (pl_session_id plan)"
      "ro_outcome t = SO_KILLED" for t now
    by (rule wp_mono [OF emergency_flatten_effect])
      (use that flatten_begun_before in \<open>auto simp: backed_def session_grows_def [of t]\<close>)
  consider (lead) "n = ''LeadershipUnavailable''" "oo_calls s = oo_calls s0"
    | (kill) "n = ''PersistentKillSwitchActive''" "ks_active (ro_kill_switch s)" "killed (oo_repository s) (pl_session_id plan)"
    | (other) "foreign_name n"
    using assms(1,3) by (auto simp: failed_body_def foreign_name_def)
  then show ?thesis
  proof cases
    case lead
    then show ?thesis unfolding handle_exception_def
      by (simp add: wp_andthen_fun)
        (rule calm.wp_step [OF calm_emit calm.refl], auto dest: calmD)
  next
    case kill
    let ?set = "\<lambda>t. t\<lparr>ro_error_message := Some x, ro_outcome := SO_KILLED, ro_final_phase := SP_KILLED\<rparr>"
    have "wp (andthen (modify ?set) (\<lambda>_. andthen (emit_critical env plan c m now) (\<lambda>_. emergency_flatten env fuel plan now)))
        (\<lambda>_ t. backed (pl_session_id plan) s0 t \<or> ro_outcome t = SO_BLOCKED \<and> oo_calls t = oo_calls s0) (\<lambda>_ _. True) t"
      if t: "calm s t" for t now c m
    proof -
      have g: "session_grows s0 (?set t)" using session_grows.trans [OF grows, of t] t by (simp add: calm_def session_grows_def)
      show ?thesis unfolding wp_andthen wp_modify
      proof (rule calm.wp_step [OF calm_emit calm.refl], goal_cases)
        case (1 _ u)
        show ?case
          by (rule emergency)
            (use 1 g kill calmD [OF t] calmD [OF 1] session_grows.trans [OF g, of u] in \<open>auto simp: calm_def\<close>)
      qed simp
    qed
    then show ?thesis using kill unfolding handle_exception_def
      by (simp del: wp_andthen) (rule calm.wp_step_then [OF calm_clock calm.refl], auto simp del: wp_andthen)
  next
    case other
    have "wp (andthen (modify (\<lambda>s. s\<lparr>ro_error_message := Some em, ro_kill_switch := k\<rparr>)) (\<lambda>_.
        andthen (store_op (save_kill_switch k)) (\<lambda>_. andthen (emit_critical env plan c m now) (\<lambda>_.
        andthen (set_progress SO_KILLED SP_KILLED) (\<lambda>_. emergency_flatten env fuel plan now)))))
        (\<lambda>_ t. backed (pl_session_id plan) s0 t \<or> ro_outcome t = SO_BLOCKED \<and> oo_calls t = oo_calls s0) (\<lambda>_ _. True) t"
      if t: "calm s t" and k: "ks_active k" "ks_session_id k = pl_session_id plan" for t k em now c m
    proof -
      let ?t = "t\<lparr>ro_error_message := Some em, ro_kill_switch := k\<rparr>"
      have g: "session_grows s0 ?t" using session_grows.trans [OF grows, of t] t by (simp add: calm_def session_grows_def)
      have l: "latched (oo_repository ?t)" using calmD(4) [OF t assms(2)] by simp
      show ?thesis
      proof (simp only: wp_andthen [of "modify f" for f] wp_modify, rule wp_then [OF killing_save [OF k l]],
          rule calm.wp_step_then [OF calm_emit calm.refl], goal_cases)
        case (1 _ u _ v)
        let ?v = "v\<lparr>ro_outcome := SO_KILLED, ro_final_phase := SP_KILLED\<rparr>"
        have "session_grows s0 v" using session_grows.trans [OF g] session_grows.trans 1 by (auto simp: calm_def)
        then have "session_grows s0 ?v" by (simp add: session_grows_def)
        moreover have "ks_active (ro_kill_switch ?v)" using calmD(3) [OF 1(2)] 1(1) k by (simp add: undisturbed_def)
        moreover have "killed (oo_repository ?v) (pl_session_id plan)" using calmD(5) [OF 1(2)] 1(1) by simp
        ultimately show ?case unfolding set_progress_def wp_andthen wp_modify by (rule emergency) simp
      qed simp_all
    qed
    then show ?thesis using other unfolding handle_exception_def foreign_name_def Let_def
      by (simp del: wp_andthen) (rule calm.wp_step_then [OF calm_clock calm.refl], auto simp del: wp_andthen)
  qed
qed

lemma conclude_effect:
  "wp (conclude env plan a)
     (\<lambda>r t. sn_outcome r = ro_outcome s \<and> sn_kill_switch r = ro_kill_switch s \<and> sn_flatten_result r = ro_flatten_result s \<and>
       oo_calls t = oo_calls s \<and> session_grows s t) (\<lambda>_ _. True) s"
proof -
  have "wp (conclude env plan a)
     (\<lambda>r t. sn_outcome r = ro_outcome s \<and> sn_kill_switch r = ro_kill_switch s \<and> sn_flatten_result r = ro_flatten_result s \<and>
       oo_calls t = oo_calls s) (\<lambda>_ _. True) s"
    by (auto simp: conclude_def wp_def clock_now_def store_set_def result_core_def effect_defs Let_def
        split: prod.splits option.splits)
  from wp_conj [OF this wp_steps [OF conclude_grows]] show ?thesis by (rule wp_mono) auto
qed

definition truthful_switch :: "string \<Rightarrow> 'w orch_state \<Rightarrow> bool" where
  "truthful_switch sid s \<longleftrightarrow>
     latched (oo_repository s) \<and> (ks_active (ro_kill_switch s) \<longrightarrow> killed (oo_repository s) sid)"

definition sound_result :: "string \<Rightarrow> 'w orch_state \<Rightarrow> session_result \<Rightarrow> 'w orch_state \<Rightarrow> bool" where
  "sound_result sid s result t \<longleftrightarrow>
     (sn_outcome result \<in> {SO_COMPLETED, SO_NO_SETUPS} \<longrightarrow>
        (\<exists>f. sn_flatten_result result = Some f \<and> fr_complete f)) \<and>
     (sn_outcome result \<in> {SO_KILLED, SO_FLATTEN_INCOMPLETE} \<longrightarrow>
        ks_active (sn_kill_switch result) \<and> killed (oo_repository t) sid \<and> flatten_begun s t) \<and>
     (sn_outcome result = SO_BLOCKED \<longrightarrow>
        (\<exists>f. sn_flatten_result result = Some f \<and> fr_complete f) \<or> oo_calls t = oo_calls s) \<and>
     sn_outcome result \<noteq> SO_FAILED"

lemma guarded_body_sound:
  assumes "polite_env env" "truthful_switch (pl_session_id plan) s"
  shows "wp (finally_do (except_exception (session_body env fuel plan a) (handle_exception env fuel plan a))
    (conclude env plan a)) (sound_result (pl_session_id plan) s) (\<lambda>_ _. True) s"
proof -
  have la: "latched (oo_repository s)" using assms(2) by (simp add: truthful_switch_def)
  have final: "wp (conclude env plan a) (sound_result (pl_session_id plan) s) (\<lambda>_ _. True) t"
    if "backed (pl_session_id plan) s t \<or> ro_outcome t = SO_BLOCKED \<and> oo_calls t = oo_calls s" for t
    by (rule wp_mono [OF conclude_effect])
      (use that in \<open>auto simp: sound_result_def backed_def session_grows_def flatten_begun_def\<close>)
  have handled: "wp (handle_exception env fuel plan a n x) (\<lambda>_. wp (conclude env plan a)
      (sound_result (pl_session_id plan) s) (\<lambda>_ _. True)) (\<lambda>_ _. True) t"
    if f: "failed_body s (Raised n x) t" for n x t
  proof -
    have "session_grows s t" using f by (simp add: failed_body_def)
    then have "latched (oo_repository t)"
      "ks_active (ro_kill_switch s) \<Longrightarrow> killed (oo_repository t) (pl_session_id plan)"
      using assms(2) by (auto simp: session_grows_def truthful_switch_def)
    from handle_exception_effect [OF f this] show ?thesis by (rule wp_mono) (auto intro: final)
  qed
  show ?thesis unfolding wp_finally wp_except
    by (rule wp_mono [OF session_body_effect [OF assms(1) la]])
      (auto split: raised.splits intro!: final wp_mono [OF handled] wp_mono [OF conclude_effect])
qed

lemma save_inactive_latched:
  assumes "save_kill_switch k r = Inr r'" "get_latest_kill_switch r (ks_session_id k) = None" "latched r" "\<not> ks_active k"
  shows "latched r'"
  using assms(1)
proof (cases rule: save_kill_switch_cases)
  case new
  have "filter (\<lambda>st. ks_session_id st = ks_session_id k) (dict_values (or_kill_switches r)) = []"
    using assms(2) by (auto simp: get_latest_kill_switch_def Let_def split: if_splits)
  then have "ks_session_id st \<noteq> ks_session_id k" if "st \<in> set (dict_values (or_kill_switches r))" for st
    using that by (simp add: filter_empty_conv)
  then show ?thesis using new(2) assms(3,4)
    by (auto simp: latched_def killed_def get_latest_new dict_values_def list_all_iff)
qed (use assms(3) in simp)

lemma start_kill_switch_truthful:
  assumes "latched (oo_repository s)"
  shows "wp (start_kill_switch env plan) (\<lambda>k t. oo_calls t = oo_calls s \<and> latched (oo_repository t) \<and>
    (ks_active k \<longrightarrow> killed (oo_repository t) (pl_session_id plan))) (\<lambda>_ _. True) s"
proof (cases "get_latest_kill_switch (oo_repository s) (pl_session_id plan)")
  case None
  let ?k = "inactive_kill_switch (en_dumps env) (pl_session_id plan)"
  have "wp (store_op (save_kill_switch ?k)) (\<lambda>_ t. oo_calls t = oo_calls s \<and> latched (oo_repository t)) (\<lambda>_ _. True) s"
    by (cases rule: store_op_cases [of "save_kill_switch ?k" s])
      (use save_inactive_latched [of ?k] None assms in \<open>auto simp: wp_def\<close>)
  then show ?thesis unfolding start_kill_switch_def using None
    by (simp add: Let_def) (rule wp_mono, auto)
next
  case (Some k)
  then show ?thesis using assms by (auto simp: start_kill_switch_def killed_def)
qed

lemma run_session_sound:
  assumes "polite_env env" "latched (oo_repository s)"
  shows "wp (run_session env fuel plan start_at) (sound_result (pl_session_id plan) s) (\<lambda>_ _. True) s"
proof -
  have sound_from: "sound_result sid s r t" if "sound_result sid u r t" "oo_calls u = oo_calls s" for sid u r t
    using that by (simp add: sound_result_def flatten_begun_def)
  let ?J = "\<lambda>t. oo_calls t = oo_calls s \<and> latched (oo_repository t)"
  have start: "steps calm (case start_at of None \<Rightarrow> clock_now env | Some t \<Rightarrow> ret t)"
    by (intro calm.steps_rules calm_clock)
  have plan: "steps calm (store_op (save_plan plan))"
    by (rule calm_steps [OF undisturbed_primitives(3) save_plan_grows])
  show ?thesis unfolding run_session_def
  proof (rule calm.wp_step_then [OF start calm.refl], rule calm.wp_step_then [OF plan], assumption, goal_cases)
    case (1 a _ _ t)
    have t: "?J t" using calmD(1,4) [OF 1(2)] assms(2) by simp
    show ?case
    proof (rule wp_then [OF start_kill_switch_truthful], goal_cases)
      case (2 k u)
      let ?u = "u\<lparr>ro_kill_switch := k, ro_flatten_result := None, ro_outcome := SO_FAILED,
        ro_final_phase := SP_CREATED, ro_error_message := None, ro_managed_quantities := [], ro_lease := None\<rparr>"
      have "truthful_switch (pl_session_id plan) ?u" using 2 by (simp add: truthful_switch_def)
      from guarded_body_sound [OF assms(1) this] show ?case unfolding wp_andthen wp_modify
        by (rule wp_mono) (use sound_from [of _ ?u] 2 t in auto)
    qed (use t in simp)
  qed simp_all
qed

text \<open>
  Claim C9. The outcome of a session is backed by what happened. When a run returns a result: it
  is never the initial failed outcome; a completed session and one without setups had a complete
  flatten; a killed session and one with an incomplete flatten left an active kill switch in the
  store and had begun a flatten; a blocked session had a complete flatten, or called nothing at all
  because another process leads.
\<close>

theorem session_outcome_sound:
  assumes "polite_env env" "latched (oo_repository s)"
    and "run_session env fuel plan start_at s = (Inr result, t)"
  shows "sound_result (pl_session_id plan) s result t"
  using run_session_sound [OF assms(1,2)] assms(3) by (rule wp_returns)

end
