(* ===== verification/Flatten_Properties.thy ===== *)
theory Flatten_Properties
  imports Flatten
begin

text \<open>
  What the flatten service guarantees: it never closes more of a symbol than the broker once
  reported, completion means that the last report of the broker was empty, the verification loop
  ends, and the texts of integer quantities are read back exactly.
\<close>

section \<open>Closed and reported quantities\<close>

fun sold_of :: "string \<Rightarrow> flatten_answer \<Rightarrow> rat" where
  "sold_of symbol (Closed p) = (if sp_symbol p = symbol then sp_quantity p else 0)"
| "sold_of symbol _ = 0"

definition sold :: "flatten_answer list \<Rightarrow> string \<Rightarrow> rat" where
  "sold calls symbol = sum_list (map (sold_of symbol) calls)"

definition reported :: "flatten_answer list \<Rightarrow> session_position \<Rightarrow> bool" where
  "reported calls p \<longleftrightarrow> (\<exists>ps. Listed ps \<in> set calls \<and> p \<in> set ps)"

text \<open>Quantities with at most nine decimals, the resolution of fractional shares.\<close>

definition fine_quantity :: "session_position \<Rightarrow> bool" where
  "fine_quantity p \<longleftrightarrow> on_grid 9 (sp_quantity p) \<and> 0 < sp_quantity p \<and> sp_quantity p < 10 ^ 15"

definition fine_broker :: "'w session_broker \<Rightarrow> bool" where
  "fine_broker broker \<longleftrightarrow>
     (\<forall>targets w ps w'. sb_list_positions broker targets w = (Inr ps, w') \<longrightarrow> list_all fine_quantity ps)"

lemma sold_snoc [simp]: "sold (calls @ [c]) symbol = sold calls symbol + sold_of symbol c"
  by (simp add: sold_def)

lemma sold_Nil [simp]: "sold [] symbol = 0"
  by (simp add: sold_def)

lemma reported_snoc [simp]:
  "reported (calls @ [Listed ps]) p \<longleftrightarrow> reported calls p \<or> p \<in> set ps"
  "reported (calls @ [Closed q]) p \<longleftrightarrow> reported calls p"
  "reported (calls @ [CloseFailed q]) p \<longleftrightarrow> reported calls p"
  by (auto simp: reported_def)

definition covered_exactly :: "'w flatten_state \<Rightarrow> bool" where
  "covered_exactly s \<longleftrightarrow>
     (\<forall>p. reported (fs_calls s) p \<longrightarrow> fine_quantity p) \<and>
     (\<forall>symbol. submitted_quantity s symbol = sold (fs_calls s) symbol \<and>
       (sold (fs_calls s) symbol = 0 \<or>
        (\<exists>p. reported (fs_calls s) p \<and> sp_symbol p = symbol \<and> sold (fs_calls s) symbol = sp_quantity p)))"

lemma fine_diff:
  assumes "fine_quantity p" "x = 0 \<or> (\<exists>q. fine_quantity q \<and> x = sp_quantity q)"
  shows "dsub (sp_quantity p) x = sp_quantity p - x"
proof -
  have "on_grid 9 x" "0 \<le> x" "x < 10 ^ 15" using assms(2) by (auto simp: fine_quantity_def)
  then have "on_grid 10 (sp_quantity p - x)" "\<bar>sp_quantity p - x\<bar> < 10 ^ 18"
    using assms(1) on_grid_mono [OF on_grid_diff, of 9 "sp_quantity p" x 10] by (auto simp: fine_quantity_def)
  then show ?thesis by (simp add: dsub_def dec_exact_money)
qed

lemma fine_sum:
  assumes "fine_quantity p"
  shows "dadd x (sp_quantity p - x) = sp_quantity p"
proof -
  have "on_grid 10 (sp_quantity p)" "\<bar>sp_quantity p\<bar> < 10 ^ 18"
    using assms on_grid_mono [of 9 "sp_quantity p" 10] by (auto simp: fine_quantity_def)
  then show ?thesis by (simp add: dadd_def dec_exact_money)
qed

lemma submitted_frame [simp]:
  "submitted_quantity (s\<lparr>fs_world := w\<rparr>) = submitted_quantity s"
  "submitted_quantity (s\<lparr>fs_errors := es\<rparr>) = submitted_quantity s"
  "submitted_quantity (s\<lparr>fs_calls := cs\<rparr>) = submitted_quantity s"
  "submitted_quantity (s\<lparr>fs_close_orders := os\<rparr>) = submitted_quantity s"
  by (simp_all add: submitted_quantity_def fun_eq_iff)

lemma covered_frame:
  "covered_exactly (s\<lparr>fs_world := w\<rparr>) = covered_exactly s"
  "covered_exactly (s\<lparr>fs_errors := es\<rparr>) = covered_exactly s"
  by (simp_all add: covered_exactly_def)

lemma covered_failed:
  "covered_exactly s \<Longrightarrow> covered_exactly (s\<lparr>fs_calls := fs_calls s @ [CloseFailed q]\<rparr>)"
  by (simp add: covered_exactly_def)

lemma covered_listed:
  assumes "covered_exactly s" "list_all fine_quantity ps"
  shows "covered_exactly (s\<lparr>fs_calls := fs_calls s @ [Listed ps]\<rparr>)"
  using assms by (auto simp: covered_exactly_def list_all_iff)

lemma covered_closed:
  assumes cov: "covered_exactly s" and p: "reported (fs_calls s) p"
    and u: "uncovered = dsub (sp_quantity p) (submitted_quantity s (sp_symbol p))"
  shows "covered_exactly (s\<lparr>fs_world := w, fs_close_orders := os,
    fs_submitted := AList.update (sp_symbol p) (dadd (submitted_quantity s (sp_symbol p)) uncovered) (fs_submitted s),
    fs_calls := fs_calls s @ [Closed (p\<lparr>sp_quantity := uncovered\<rparr>)]\<rparr>)"
proof -
  let ?x = "submitted_quantity s (sp_symbol p)"
  have fine: "fine_quantity p" using cov p by (simp add: covered_exactly_def)
  have "?x = 0 \<or> (\<exists>q. fine_quantity q \<and> ?x = sp_quantity q)" using cov unfolding covered_exactly_def by metis
  then have unc: "uncovered = sp_quantity p - ?x" using fine_diff [OF fine] u by blast
  have x: "?x = sold (fs_calls s) (sp_symbol p)" using cov by (simp add: covered_exactly_def)
  have "sold (fs_calls s @ [Closed (p\<lparr>sp_quantity := uncovered\<rparr>)]) sym =
      (if sym = sp_symbol p then sp_quantity p else sold (fs_calls s) sym)" for sym
    using unc x by auto
  moreover have "dadd ?x uncovered = sp_quantity p" unfolding unc by (rule fine_sum [OF fine])
  ultimately show ?thesis using cov p
    by (auto simp: covered_exactly_def submitted_quantity_def update_conv' split: option.splits)
qed

lemma close_one_cases:
  obtains (covered) "close_one broker p s = (Inr (), s)"
  | (closed) uncovered order w where "0 < uncovered" "uncovered = dsub (sp_quantity p) (submitted_quantity s (sp_symbol p))"
      "sb_close_position broker (p\<lparr>sp_quantity := uncovered\<rparr>) (fs_world s) = (Inr order, w)"
      "close_one broker p s = (Inr (), s\<lparr>fs_world := w, fs_close_orders := fs_close_orders s @ [order],
        fs_submitted := AList.update (sp_symbol p) (dadd (submitted_quantity s (sp_symbol p)) uncovered) (fs_submitted s),
        fs_calls := fs_calls s @ [Closed (p\<lparr>sp_quantity := uncovered\<rparr>)]\<rparr>)"
  | (failed) uncovered e w msg where
      "sb_close_position broker (p\<lparr>sp_quantity := uncovered\<rparr>) (fs_world s) = (Inl e, w)"
      "close_one broker p s = (Inr (), s\<lparr>fs_world := w, fs_calls := fs_calls s @ [CloseFailed (p\<lparr>sp_quantity := uncovered\<rparr>)],
        fs_errors := fs_errors s @ [msg]\<rparr>)"
proof -
  let ?u = "dsub (sp_quantity p) (submitted_quantity s (sp_symbol p))"
  show ?thesis
  proof (cases "?u \<le> 0")
    case True
    then show ?thesis by (intro covered) (simp add: close_one_def Let_def)
  next
    case False
    obtain r w where c: "sb_close_position broker (p\<lparr>sp_quantity := ?u\<rparr>) (fs_world s) = (r, w)" by fastforce
    show ?thesis
    proof (cases r)
      case (Inl e)
      show ?thesis by (rule failed [of ?u e w]) (use c Inl False in \<open>simp_all add: close_one_def Let_def add_error_def modify_def\<close>)
    next
      case (Inr order)
      show ?thesis by (rule closed [of ?u order w]) (use c Inr False in \<open>simp_all add: close_one_def Let_def\<close>)
    qed
  qed
qed

lemma close_one_covered:
  assumes "covered_exactly s" "reported (fs_calls s) p"
  shows "wp (close_one broker p) (\<lambda>_ t. covered_exactly t \<and> (\<forall>q. reported (fs_calls t) q \<longleftrightarrow> reported (fs_calls s) q)) (\<lambda>_ _. False) s"
proof (cases rule: close_one_cases [of broker p s])
  case covered
  then show ?thesis using assms(1) by (simp add: wp_def)
next
  case (closed u order w)
  then show ?thesis using covered_closed [OF assms closed(2)] by (simp add: wp_def)
next
  case (failed u e w msg)
  have "covered_exactly (s\<lparr>fs_world := w, fs_calls := fs_calls s @ [CloseFailed (p\<lparr>sp_quantity := u\<rparr>)], fs_errors := fs_errors s @ [msg]\<rparr>)"
    using assms(1) by (simp add: covered_exactly_def)
  then show ?thesis using failed by (simp add: wp_def)
qed

lemma close_uncovered_covered:
  assumes "covered_exactly s" "\<forall>p \<in> set ps. reported (fs_calls s) p"
  shows "wp (close_uncovered broker ps) (\<lambda>_. covered_exactly) (\<lambda>_ _. False) s"
  using assms
proof (induction ps arbitrary: s)
  case (Cons p ps)
  have "wp (close_one broker p) (\<lambda>_. wp (close_uncovered broker ps) (\<lambda>_. covered_exactly) (\<lambda>_ _. False)) (\<lambda>_ _. False) s"
    by (rule wp_mono [OF close_one_covered]) (use Cons in auto)
  then show ?case by simp
qed simp

section \<open>Invariants of the whole flatten\<close>

lemma wp_or_default:
  "wp (or_default what call fallback) Q E s \<longleftrightarrow>
     (case call (fs_world s) of
        (Inr x, w) \<Rightarrow> Q x (s\<lparr>fs_world := w\<rparr>)
      | (Inl e, w) \<Rightarrow> Q fallback (s\<lparr>fs_world := w, fs_errors := fs_errors s @ [what @ '' failed: '' @ fst e @ '': '' @ snd e]\<rparr>))"
  by (auto simp: wp_def or_default_def add_error_def effect_defs split: prod.splits sum.splits)

lemma wp_try_list:
  "wp (try_list broker targets) Q E s \<longleftrightarrow>
     (case sb_list_positions broker targets (fs_world s) of
        (Inr ps, w) \<Rightarrow> Q (Inr ps) (s\<lparr>fs_world := w, fs_calls := fs_calls s @ [Listed ps]\<rparr>)
      | (Inl e, w) \<Rightarrow> Q (Inl e) (s\<lparr>fs_world := w\<rparr>))"
  by (auto simp: wp_def try_list_def listed_def effect_defs split: prod.splits sum.splits)

lemma wp_on_time: "wp (on_time f) Q E s \<longleftrightarrow> (case f (fs_world s) of (x, w) \<Rightarrow> Q x (s\<lparr>fs_world := w\<rparr>))"
  by (auto simp: wp_def on_time_def split: prod.splits)

lemma wp_add_error:
  "wp (add_error what e) Q E s \<longleftrightarrow>
     Q () (s\<lparr>fs_errors := fs_errors s @ [what @ '' failed: '' @ fst e @ '': '' @ snd e]\<rparr>)"
  by (simp add: add_error_def)

text \<open>One iteration of the verification loop.\<close>

lemma verify_iteration:
  fixes s :: "'w flatten_state"
  assumes late: "\<And>now w. st_clock tm (fs_world s) = (now, w) \<Longrightarrow> deadline \<le> now \<Longrightarrow> Q remaining (s\<lparr>fs_world := w\<rparr>)"
    and failing: "\<And>now w e w' msg. st_clock tm (fs_world s) = (now, w) \<Longrightarrow> now < deadline \<Longrightarrow>
      sb_list_positions broker targets w = (Inl e, w') \<Longrightarrow>
      Q remaining (s\<lparr>fs_world := w', fs_errors := fs_errors s @ [msg]\<rparr>)"
    and empty: "\<And>now w w'. st_clock tm (fs_world s) = (now, w) \<Longrightarrow> now < deadline \<Longrightarrow>
      sb_list_positions broker targets w = (Inr [], w') \<Longrightarrow>
      Q [] (s\<lparr>fs_world := w', fs_calls := fs_calls s @ [Listed []]\<rparr>)"
    and again: "\<And>now w ps w'. st_clock tm (fs_world s) = (now, w) \<Longrightarrow> now < deadline \<Longrightarrow>
      sb_list_positions broker targets w = (Inr ps, w') \<Longrightarrow> ps \<noteq> [] \<Longrightarrow>
      wp (close_uncovered broker ps) (\<lambda>_ t. wp (verify_positions broker tm poll deadline targets fuel ps) Q E
        (t\<lparr>fs_world := st_sleep tm poll (fs_world t)\<rparr>)) E (s\<lparr>fs_world := w', fs_calls := fs_calls s @ [Listed ps]\<rparr>)"
  shows "wp (verify_positions broker tm poll deadline targets (Suc fuel) remaining) Q E s"
proof -
  obtain now w where clock: "st_clock tm (fs_world s) = (now, w)" by fastforce
  obtain r w' where list: "sb_list_positions broker targets w = (r, w')" by fastforce
  show ?thesis
  proof (cases "now < deadline")
    case True
    show ?thesis
    proof (cases r)
      case (Inl e)
      then show ?thesis using failing [OF clock True] list clock True
        by (simp add: wp_on_time wp_try_list wp_add_error)
    next
      case (Inr ps)
      have "wp (close_uncovered broker ps) (\<lambda>_. wp (andthen (on_time (\<lambda>w. ((), st_sleep tm poll w)))
          (\<lambda>_. verify_positions broker tm poll deadline targets fuel ps)) Q E) E
          (s\<lparr>fs_world := w', fs_calls := fs_calls s @ [Listed ps]\<rparr>)" if "ps \<noteq> []"
        by (rule wp_mono [OF again [OF clock True _ that]]) (use list Inr in \<open>simp_all add: wp_on_time\<close>)
      then show ?thesis using empty [OF clock True] list Inr clock True
        by (cases "ps = []") (simp_all add: wp_on_time wp_try_list)
    qed
  next
    case False
    then show ?thesis using late clock by (simp add: wp_on_time)
  qed
qed

text \<open>The stages of the service, each with the property of the state after it.\<close>

lemma flatten_stages:
  assumes start: "I (flatten_start w)"
    and discover: "\<And>s what. I s \<Longrightarrow> wp (or_default what (sb_discover_daybreak_targets broker plan) []) (\<lambda>_. I) E s"
    and cancel: "\<And>s what. I s \<Longrightarrow> wp (or_default what (sb_cancel_daybreak_orders broker plan) 0) (\<lambda>_. I) E s"
    and merge: "\<And>s n x. I s \<Longrightarrow> E (Raised n x) s"
    and list: "\<And>s targets. I s \<Longrightarrow> wp (try_list broker targets)
      (\<lambda>r t. case r of Inl e \<Rightarrow> \<forall>msg. L [] (t\<lparr>fs_errors := fs_errors t @ [msg]\<rparr>) | Inr ps \<Rightarrow> L ps t) E s"
    and close: "\<And>s ps. L ps s \<Longrightarrow> wp (close_uncovered broker ps) (\<lambda>_. K ps) E s"
    and verify: "\<And>s ps targets. K ps s \<Longrightarrow> wp (verify_positions broker tm
      (op_flatten_poll_interval_seconds (pl_policy plan)) (verification_deadline plan now) targets fuel ps) V E s"
    and finish: "\<And>s remaining c w' n x k initial. V remaining s \<Longrightarrow> st_clock tm (fs_world s) = (c, w') \<Longrightarrow>
      E (Raised n x) (s\<lparr>fs_world := w'\<rparr>) \<and>
      Q (flatten_result_of dumps plan now c k initial (fs_close_orders s) remaining (fs_errors s)) (s\<lparr>fs_world := w'\<rparr>)"
  shows "wp (flatten_body dumps texts broker tm fuel plan now mq) Q E (flatten_start w)"
  unfolding flatten_body_def
proof (rule wp_then [OF discover [OF start]], goal_cases)
  case (1 discovered s)
  show ?case
  proof (rule wp_then [where P = "\<lambda>_. I"], goal_cases)
    case 1
    show ?case using \<open>I s\<close> merge by (cases "merge_targets (iv_target texts) discovered mq") simp_all
  next
    case (2 targets s)
    show ?case
    proof (rule wp_then [OF cancel [OF \<open>I s\<close>]], rule wp_then [OF list], assumption, rule wp_then [where P = L], goal_cases)
      case (1 count s r t)
      then show ?case by (cases r) (simp_all add: wp_add_error)
    next
      case (2 count s r t initial u)
      show ?case
        by (rule wp_then [OF close [OF 2(3)]], rule wp_then [OF verify], assumption)
          (use finish in \<open>auto simp: wp_on_time wp_andthen_fun split: prod.splits\<close>)
    qed
  qed
qed

section \<open>Never more than reported\<close>

lemma verify_positions_covered:
  assumes fine: "fine_broker broker" and "covered_exactly s"
  shows "wp (verify_positions broker tm poll deadline targets fuel remaining) (\<lambda>_. covered_exactly) (\<lambda>_. covered_exactly) s"
  using assms(2)
proof (induction fuel arbitrary: s remaining)
  case (Suc fuel)
  show ?case
  proof (rule verify_iteration, goal_cases)
    case (4 now w ps w')
    then have "list_all fine_quantity ps" using fine by (auto simp: fine_broker_def)
    with Suc.prems have "covered_exactly (s\<lparr>fs_calls := fs_calls s @ [Listed ps]\<rparr>)" by (rule covered_listed)
    then have "covered_exactly (s\<lparr>fs_world := w', fs_calls := fs_calls s @ [Listed ps]\<rparr>)" by (simp add: covered_exactly_def)
    then show ?case
      by (rule wp_mono [OF close_uncovered_covered]) (simp_all add: covered_frame Suc.IH)
  qed (use Suc.prems in \<open>auto simp: covered_exactly_def\<close>)
qed simp

lemma flatten_covered:
  assumes fine: "fine_broker broker"
  shows "wp (flatten_body dumps texts broker tm fuel plan now mq) (\<lambda>_. covered_exactly) (\<lambda>_. covered_exactly) (flatten_start w)"
proof (rule flatten_stages [where I = covered_exactly and K = "\<lambda>_. covered_exactly" and V = "\<lambda>_. covered_exactly"
      and L = "\<lambda>ps t. covered_exactly t \<and> (\<forall>p \<in> set ps. reported (fs_calls t) p)"], goal_cases)
  case 1
  show ?case by (simp add: covered_exactly_def flatten_start_def submitted_quantity_def reported_def)
next
  case (5 s targets)
  obtain r w' where list: "sb_list_positions broker targets (fs_world s) = (r, w')" by fastforce
  show ?case
  proof (cases r)
    case (Inl e)
    then show ?thesis using 5 list by (simp add: wp_try_list covered_frame)
  next
    case (Inr ps)
    then have "list_all fine_quantity ps" using fine list by (auto simp: fine_broker_def)
    with 5 have "covered_exactly (s\<lparr>fs_calls := fs_calls s @ [Listed ps]\<rparr>)" by (rule covered_listed)
    then show ?thesis using list Inr by (simp add: wp_try_list covered_exactly_def)
  qed
next
  case (6 s ps)
  then show ?case by (auto intro: wp_mono [OF close_uncovered_covered])
qed (auto simp: wp_or_default covered_frame intro: verify_positions_covered [OF fine] split: prod.splits sum.splits)

text \<open>
  Claim C11. The flatten never sells more than there is: at every moment of a run, whether it
  ends, raises or is still going on, the quantity of a symbol that the broker accepted to close is
  zero or exactly a quantity of that symbol the broker reported during the run, so an outstanding
  close is never duplicated (for quantities of at most nine decimals).
\<close>

theorem flatten_never_oversells:
  assumes "fine_broker broker"
    and "flatten dumps texts broker tm fuel plan now mq w = (r, s)"
  shows "sold (fs_calls s) symbol = 0 \<or>
    (\<exists>p. reported (fs_calls s) p \<and> sp_symbol p = symbol \<and> sold (fs_calls s) symbol = sp_quantity p)"
proof -
  have "covered_exactly s"
    using flatten_covered [OF assms(1), of dumps texts tm fuel plan now mq w] assms(2)
    by (cases r) (simp_all add: wp_def flatten_def)
  then show ?thesis by (simp add: covered_exactly_def)
qed

section \<open>Completion\<close>

fun close_failed :: "flatten_answer \<Rightarrow> bool" where
  "close_failed (CloseFailed p) = True"
| "close_failed _ = False"

definition clean_so_far :: "'w flatten_state \<Rightarrow> bool" where
  "clean_so_far s \<longleftrightarrow> (fs_errors s = [] \<longrightarrow> \<not> list_ex close_failed (fs_calls s))"

definition settled :: "session_position list \<Rightarrow> 'w flatten_state \<Rightarrow> bool" where
  "settled remaining s \<longleftrightarrow>
     clean_so_far s \<and>
     (remaining = [] \<longrightarrow> fs_errors s = [] \<longrightarrow> fs_calls s \<noteq> [] \<and> last (fs_calls s) = Listed [])"

lemma close_one_clean: "clean_so_far s \<Longrightarrow> wp (close_one broker p) (\<lambda>_. clean_so_far) (\<lambda>_. clean_so_far) s"
  by (cases rule: close_one_cases [of broker p s]) (auto simp: wp_def clean_so_far_def)

lemma close_uncovered_clean:
  "clean_so_far s \<Longrightarrow> wp (close_uncovered broker ps) (\<lambda>_. clean_so_far) (\<lambda>_. clean_so_far) s"
  by (induction ps arbitrary: s) (auto intro: wp_mono [OF close_one_clean])

lemma verify_positions_settled:
  "settled remaining s \<Longrightarrow> wp (verify_positions broker tm poll deadline targets fuel remaining) settled (\<lambda>_ _. True) s"
proof (induction fuel arbitrary: s remaining)
  case (Suc fuel)
  have clean: "clean_so_far s" using Suc.prems by (simp add: settled_def)
  show ?case
  proof (rule verify_iteration, goal_cases)
    case (4 now w ps w')
    have "clean_so_far (s\<lparr>fs_world := w', fs_calls := fs_calls s @ [Listed ps]\<rparr>)" using clean by (simp add: clean_so_far_def)
    moreover have "settled ps (t\<lparr>fs_world := x\<rparr>)" if "clean_so_far t" for t :: "'a flatten_state" and x
      using 4(4) that by (simp add: settled_def clean_so_far_def)
    ultimately show ?case by (intro wp_mono [OF close_uncovered_clean] Suc.IH) simp_all
  qed (use Suc.prems clean in \<open>auto simp: settled_def clean_so_far_def\<close>)
qed simp

lemma flatten_settled:
  "wp (flatten_body dumps texts broker tm fuel plan now mq)
     (\<lambda>result s. (fr_complete result \<longleftrightarrow> fr_remaining_positions result = [] \<and> fr_errors result = []) \<and>
        fr_errors result = fs_errors s \<and> settled (fr_remaining_positions result) s)
     (\<lambda>_ _. True) (flatten_start w)"
proof (rule flatten_stages [where I = clean_so_far and V = settled and L = settled and K = settled], goal_cases)
  case (6 s ps)
  then show ?case
  proof (cases "ps = []")
    case False
    then show ?thesis using 6 by (auto simp: settled_def intro!: wp_mono [OF close_uncovered_clean])
  qed simp
next
  case (7 s ps targets)
  then show ?case by (rule verify_positions_settled)
qed (auto simp: wp_or_default wp_try_list settled_def clean_so_far_def flatten_start_def flatten_result_of_def Let_def
    split: prod.splits sum.splits)

text \<open>
  Claim C12. A flatten is reported complete exactly when no position remained and nothing
  failed, and then the last answer of the broker about positions was that there are none, and no
  close was refused.
\<close>

theorem flatten_complete_means_flat:
  assumes "flatten dumps texts broker tm fuel plan now mq w = (Inr result, s)"
  shows "(fr_complete result \<longleftrightarrow> fr_remaining_positions result = [] \<and> fr_errors result = []) \<and>
    (fr_complete result \<longrightarrow> last (fs_calls s) = Listed [] \<and> (\<forall>p. CloseFailed p \<notin> set (fs_calls s)))"
proof -
  have "CloseFailed p \<in> set calls \<Longrightarrow> list_ex close_failed calls" for p calls
    by (force simp: list_ex_iff)
  then show ?thesis
    using flatten_settled [of dumps texts broker tm fuel plan now mq w] assms
    by (auto simp: wp_def flatten_def settled_def clean_so_far_def)
qed

section \<open>Termination\<close>

text \<open>
  The clock is the time of the world cut to microseconds, calls take time or none, and a sleep
  takes at least as long as asked.
\<close>

definition real_time :: "('w \<Rightarrow> rat) \<Rightarrow> 'w session_time \<Rightarrow> 'w session_broker \<Rightarrow> bool" where
  "real_time time tm broker \<longleftrightarrow>
     (\<forall>w. fst (st_clock tm w) = \<lfloor>time (snd (st_clock tm w))\<rfloor> \<and> time w \<le> time (snd (st_clock tm w))) \<and>
     (\<forall>x w. 0 \<le> x \<longrightarrow> time w + x * 1000000 \<le> time (st_sleep tm x w)) \<and>
     (\<forall>plan w. time w \<le> time (snd (sb_discover_daybreak_targets broker plan w))) \<and>
     (\<forall>plan w. time w \<le> time (snd (sb_cancel_daybreak_orders broker plan w))) \<and>
     (\<forall>targets w. time w \<le> time (snd (sb_list_positions broker targets w))) \<and>
     (\<forall>p w. time w \<le> time (snd (sb_close_position broker p w)))"

lemma close_one_later:
  assumes "real_time time tm broker"
  shows "wp (close_one broker p) (\<lambda>_ t. time (fs_world s) \<le> time (fs_world t)) (\<lambda>_ _. False) s"
proof -
  have "time w \<le> time (snd (sb_close_position broker q w))" for q w using assms by (simp add: real_time_def)
  then show ?thesis
    by (cases rule: close_one_cases [of broker p s]) (simp_all add: wp_def, metis snd_conv, metis snd_conv)
qed

lemma close_uncovered_later:
  assumes "real_time time tm broker" "b \<le> time (fs_world s)"
  shows "wp (close_uncovered broker ps) (\<lambda>_ t. b \<le> time (fs_world t)) (\<lambda>_ _. False) s"
  using assms(2)
proof (induction ps arbitrary: s)
  case (Cons p ps)
  then show ?case by (auto intro!: wp_mono [OF close_one_later [OF assms(1)]] Cons.IH)
qed simp

lemma verify_positions_ends:
  assumes "real_time time tm broker" "0 < poll"
    and "of_int deadline - time (fs_world s) < of_nat n * (poll * 1000000)"
  shows "wp (verify_positions broker tm poll deadline targets (Suc n) remaining) (\<lambda>_ _. True) (\<lambda>_ _. False) s"
  using assms(3)
proof (induction n arbitrary: s remaining)
  case 0
  let ?c = "st_clock tm (fs_world s)"
  have "fst ?c = \<lfloor>time (snd ?c)\<rfloor>" "time (fs_world s) \<le> time (snd ?c)" using assms(1) by (simp_all add: real_time_def)
  moreover have "of_int deadline < time (fs_world s)" using 0 by simp
  ultimately have "\<not> fst ?c < deadline" by (simp add: not_less le_floor_iff)
  then have "\<not> now < deadline" if "?c = (now, w)" for now w using that by simp
  then show ?case by (intro verify_iteration) auto
next
  case (Suc n)
  show ?case
  proof (rule verify_iteration, goal_cases)
    case (4 now w ps w')
    have "time (fs_world s) \<le> time w" "time w \<le> time w'"
      using assms(1) 4(1,3) unfolding real_time_def by (metis snd_conv)+
    then have "wp (close_uncovered broker ps) (\<lambda>_ t. time (fs_world s) \<le> time (fs_world t)) (\<lambda>_ _. False)
        (s\<lparr>fs_world := w', fs_calls := fs_calls s @ [Listed ps]\<rparr>)"
      by (intro close_uncovered_later [OF assms(1)]) simp
    then show ?case
    proof (rule wp_mono, goal_cases)
      case (1 x t)
      have "time (fs_world t) + poll * 1000000 \<le> time (st_sleep tm poll (fs_world t))"
        using assms(1,2) by (simp add: real_time_def)
      then have "of_int deadline - time (st_sleep tm poll (fs_world t)) < of_nat n * (poll * 1000000)"
        using Suc.prems 1 by (simp add: algebra_simps)
      then show ?case by (intro Suc.IH) simp
    qed
  qed simp_all
qed

lemma or_default_later:
  fixes time :: "'w \<Rightarrow> rat"
  assumes "b \<le> time (fs_world s)" "\<And>w. time w \<le> time (snd (call w))"
  shows "wp (or_default what call fallback) (\<lambda>_ t. b \<le> time (fs_world t)) E s"
proof -
  have "b \<le> time (snd (call (fs_world s)))" by (rule order_trans [OF assms])
  then show ?thesis by (auto simp: wp_or_default split: prod.splits sum.splits)
qed

lemma verify_positions_later:
  assumes "real_time time tm broker" "0 < poll" "b \<le> time (fs_world s)"
  shows "wp (verify_positions broker tm poll deadline targets fuel remaining)
    (\<lambda>_ t. b \<le> time (fs_world t)) (\<lambda>_ t. b \<le> time (fs_world t)) s"
  using assms(3)
proof (induction fuel arbitrary: s remaining)
  case (Suc fuel)
  have clock: "b \<le> time w'" if "st_clock tm w = (c, w')" "b \<le> time w" for c w w'
    using assms(1) that unfolding real_time_def by (metis order_trans snd_conv)
  have listing: "b \<le> time w'" if "sb_list_positions broker targets w = (r, w')" "b \<le> time w" for r w w'
    using assms(1) that unfolding real_time_def by (metis order_trans snd_conv)
  show ?case
  proof (rule verify_iteration, goal_cases)
    case (4 now w ps w')
    then have "b \<le> time w'" using listing clock Suc.prems by blast
    then have "wp (close_uncovered broker ps) (\<lambda>_ t. b \<le> time (fs_world t)) (\<lambda>_ _. False)
        (s\<lparr>fs_world := w', fs_calls := fs_calls s @ [Listed ps]\<rparr>)"
      by (intro close_uncovered_later [OF assms(1)]) simp
    then show ?case
    proof (rule wp_mono, goal_cases)
      case (1 x t)
      have "time (fs_world t) + poll * 1000000 \<le> time (st_sleep tm poll (fs_world t))"
        using assms(1,2) by (simp add: real_time_def)
      then have "b \<le> time (st_sleep tm poll (fs_world t))" using 1 assms(2) by linarith
      then show ?case by (intro Suc.IH) simp
    qed simp
  qed (simp_all, (use Suc.prems clock listing in \<open>blast+\<close>)?)
qed simp

text \<open>Every call of the flatten takes time, and only its verification may need more fuel.\<close>

lemma flatten_in_time:
  assumes "real_time time tm broker" "b \<le> time w" "\<And>n x. X (Raised n x)"
    and "\<And>s ps targets. b \<le> time (fs_world s) \<Longrightarrow> wp (verify_positions broker tm
      (op_flatten_poll_interval_seconds (pl_policy plan)) (verification_deadline plan now) targets fuel ps)
      (\<lambda>_ t. b \<le> time (fs_world t)) (\<lambda>e t. X e \<and> b \<le> time (fs_world t)) s"
  shows "wp (flatten_body dumps texts broker tm fuel plan now mq) (\<lambda>_ t. b \<le> time (fs_world t))
    (\<lambda>e t. X e \<and> b \<le> time (fs_world t)) (flatten_start w)"
proof (rule flatten_stages [where I = "\<lambda>t. b \<le> time (fs_world t)" and K = "\<lambda>_ t. b \<le> time (fs_world t)"
      and L = "\<lambda>_ t. b \<le> time (fs_world t)" and V = "\<lambda>_ t. b \<le> time (fs_world t)"], goal_cases)
  case (2 s what)
  then show ?case using assms(1) by (intro or_default_later) (auto simp: real_time_def)
next
  case (3 s what)
  then show ?case using assms(1) by (intro or_default_later) (auto simp: real_time_def)
next
  case (5 s targets)
  have "time (fs_world s) \<le> time (snd (sb_list_positions broker targets (fs_world s)))"
    using assms(1) by (simp add: real_time_def)
  then show ?case using 5 by (auto simp: wp_try_list split: prod.splits sum.splits)
next
  case (6 s ps)
  then show ?case by (auto intro: wp_mono [OF close_uncovered_later [OF assms(1)]])
next
  case (7 s ps targets)
  then show ?case by (rule assms(4))
next
  case (8 s remaining c w')
  moreover have "time (fs_world s) \<le> time w'" using assms(1) 8(2) unfolding real_time_def by (metis snd_conv)
  ultimately show ?case using assms(3) by simp
qed (use assms(2,3) in \<open>auto simp: flatten_start_def\<close>)

lemma flatten_body_ends:
  assumes "real_time time tm broker" "b \<le> time w" "0 < op_flatten_poll_interval_seconds (pl_policy plan)"
    and "of_int (verification_deadline plan now) < b + of_nat polls * (op_flatten_poll_interval_seconds (pl_policy plan) * 1000000)"
  shows "wp (flatten_body dumps texts broker tm (Suc polls) plan now mq) (\<lambda>_ t. b \<le> time (fs_world t))
    (\<lambda>e t. e \<noteq> OutOfFuel \<and> b \<le> time (fs_world t)) (flatten_start w)"
proof (rule flatten_in_time [OF assms(1,2)], goal_cases)
  case (2 s ps targets)
  then have "of_int (verification_deadline plan now) - time (fs_world s)
      < of_nat polls * (op_flatten_poll_interval_seconds (pl_policy plan) * 1000000)" using assms(4) by simp
  from wp_conj [OF verify_positions_ends [OF assms(1,3) this] verify_positions_later [OF assms(1,3) 2]]
  show ?case by (rule wp_mono) auto
qed simp

text \<open>
  The flatten ends: when the clock runs and a sleep lasts, it returns a result or
  raises an exception after at most as many polls as fit into its time limit, so its verification
  loop never runs on (fuel above the number of polls is never used up).
\<close>

theorem flatten_terminates:
  assumes "real_time time tm broker" "of_int now \<le> time w"
    and "0 < op_flatten_poll_interval_seconds (pl_policy plan)"
    and "op_flatten_verification_timeout_seconds (pl_policy plan) + 1 / 1000000
      < of_nat polls * op_flatten_poll_interval_seconds (pl_policy plan)"
  shows "fst (flatten dumps texts broker tm (Suc polls) plan now mq w) \<noteq> Inl OutOfFuel"
proof -
  let ?poll = "op_flatten_poll_interval_seconds (pl_policy plan)"
  have "of_int (verification_deadline plan now)
      \<le> (of_int (now + round_half_even (op_flatten_verification_timeout_seconds (pl_policy plan) * 1000000)) :: rat)"
    by (simp add: verification_deadline_def del: of_int_add)
  also have "\<dots> < of_int now + of_nat polls * (?poll * 1000000)"
  proof -
    have "a < y * 1000000" if "\<bar>a - x * 1000000\<bar> \<le> 1 / 2" "x + 1 / 1000000 < y" for a x y :: rat
    proof -
      have "a - x * 1000000 \<le> 1 / 2" using that(1) by (rule abs_le_D1)
      moreover have "x * 1000000 + 1 < y * 1000000" using that(2) by (simp add: field_simps)
      ultimately show ?thesis by linarith
    qed
    from this [OF round_half_even_error assms(4)] show ?thesis by (simp add: mult.assoc)
  qed
  finally show ?thesis using flatten_body_ends [OF assms(1,2,3), of now polls dumps texts mq]
    unfolding flatten_def wp_def by (auto split: prod.splits sum.splits)
qed

section \<open>Texts of integers\<close>

text \<open>Reading the decimal digits of a number gives the number back.\<close>

lemma digits_value_snoc: "digits_value (ds @ [c]) = 10 * digits_value ds + (of_char c - 48)"
  by (simp add: digits_value_def)

lemma digit_char:
  assumes "n < 10"
  shows "is_digit (char_of (48 + n)) \<and> of_char (char_of (48 + n) :: char) = (48 + int n)"
proof -
  have nat: "of_char (char_of (48 + n) :: char) = 48 + n" using assms by simp
  have "of_char (char_of (48 + n) :: char) = int (48 + n)" by (metis nat of_nat_of_char)
  then show ?thesis using nat assms by (simp add: is_digit_def less_eq_char_def)
qed

lemma show_nat_digits: "list_all is_digit (show_nat n) \<and> digits_value (show_nat n) = int n"
proof (induction n rule: show_nat.induct)
  case (1 n)
  show ?case
  proof (cases "n < 10")
    case True
    then show ?thesis using digit_char [OF True] by (subst (1 2) show_nat.simps) (simp add: digits_value_def)
  next
    case False
    have "n mod 10 < 10" by simp
    moreover have "10 * int (n div 10) + int (n mod 10) = int n"
      by (metis mult_div_mod_eq of_nat_add of_nat_mult of_nat_numeral)
    ultimately show ?thesis using 1 [OF False] digit_char [of "n mod 10"] False
      by (subst (1 2) show_nat.simps) (simp add: digits_value_snoc)
  qed
qed

lemma is_digit_facts:
  assumes "is_digit c"
  shows "c \<noteq> CHR ''_''" "c \<noteq> CHR ''-''" "c \<noteq> CHR ''+''" "lower_char c = c" "c \<notin> set ''ins''"
    "of_char c \<ge> (48 :: nat)"
  using assms by (auto simp: is_digit_def less_eq_char_def lower_char_def)

lemma dropWhile_none: "\<forall>c \<in> set s. \<not> P c \<Longrightarrow> dropWhile P s = s"
  by (cases s) auto

lemma strip_space_none: "\<forall>c \<in> set s. of_char c > (32 :: nat) \<Longrightarrow> strip_space s = s"
proof -
  assume s: "\<forall>c \<in> set s. of_char c > (32 :: nat)"
  then have "\<not> is_space c" if "c \<in> set s" for c using that by (force simp: is_space_def)
  then show ?thesis by (simp add: strip_space_def dropWhile_none)
qed

lemma finite_of_digits:
  assumes "list_all is_digit ds" "ds \<noteq> []" "length (show_int (digits_value ds)) \<le> 4300"
  shows "finite_of_text neg ds = Some (DFin ((if neg then - 1 else 1) * of_int (digits_value ds)))"
proof -
  have "takeWhile is_digit ds = ds" "dropWhile is_digit ds = []"
    using assms(1) by (simp_all add: list_all_iff takeWhile_eq_all_conv dropWhile_eq_Nil_conv)
  note digits = this
  show ?thesis unfolding finite_of_text_def digits using assms(2,3)
    by (simp add: Let_def exponent_of_def pow10_def)
qed

lemma decimal_of_digits:
  assumes "list_all is_digit ds" "ds \<noteq> []" "length (show_int (digits_value ds)) \<le> 4300"
  shows "decimal_of_text ds = Some (DFin (of_int (digits_value ds)))"
    and "decimal_of_text (CHR ''-'' # ds) = Some (DFin (- of_int (digits_value ds)))"
proof -
  obtain c cs where ds: "ds = c # cs" using assms(2) by (auto simp: neq_Nil_conv)
  have d: "\<forall>x \<in> set ds. is_digit x" using assms(1) by (simp add: list_all_iff)
  have "strip_space ds = ds" "strip_space (CHR ''-'' # ds) = CHR ''-'' # ds"
    using d is_digit_facts(6) by (intro strip_space_none; fastforce)+
  moreover have f: "filter (\<lambda>c. c \<noteq> CHR ''_'') ds = ds" using d is_digit_facts(1) by (simp add: filter_id_conv)
  moreover have "take_sign ds = (False, ds)" using d is_digit_facts(2,3) [of c] by (simp add: ds)
  moreover have l: "map lower_char ds = ds" using d is_digit_facts(4) by (simp add: map_idI)
  moreover have "ds \<notin> {''inf'', ''infinity''}" "take 3 ds \<noteq> ''nan''" "take 4 ds \<noteq> ''snan''"
    using d is_digit_facts(5) [of c] by (auto simp: ds)
  ultimately show "decimal_of_text ds = Some (DFin (of_int (digits_value ds)))"
    and "decimal_of_text (CHR ''-'' # ds) = Some (DFin (- of_int (digits_value ds)))"
    using finite_of_digits [OF assms] by (simp_all add: decimal_of_text_def)
qed


end
