(* ===== verification/Orchestrator_Progress.thy ===== *)
theory Orchestrator_Progress
  imports Orchestrator_Outcomes Flatten_Properties
begin

text \<open>
  A session ends: when time passes, no loop of a session runs on, neither the waits between the
  phases nor the verification of the flatten.
\<close>

section \<open>Time passes\<close>

definition takes_time :: "('w \<Rightarrow> rat) \<Rightarrow> ('w, 'a) external \<Rightarrow> bool" where
  "takes_time time m \<longleftrightarrow> (\<forall>w. time w \<le> time (snd (m w)))"

definition session_clock :: "('w \<Rightarrow> rat) \<Rightarrow> 'w session_env \<Rightarrow> bool" where
  "session_clock time env \<longleftrightarrow>
     real_time time (en_time env) (en_broker env) \<and>
     (\<forall>plan now. takes_time time (en_snapshot env plan now)) \<and>
     (\<forall>plan now k. takes_time time (en_warmup_recorder env plan now k) \<and>
        takes_time time (en_freeze_features env plan now k) \<and> takes_time time (en_evaluate env plan now k) \<and>
        takes_time time (en_size_and_execute env plan now k) \<and> takes_time time (en_reconcile env plan now k)) \<and>
     (\<forall>alert. takes_time time (en_send env alert))"

definition later :: "('w \<Rightarrow> rat) \<Rightarrow> 'w orch_state \<Rightarrow> 'w orch_state \<Rightarrow> bool" where
  "later time s t \<longleftrightarrow> time (oo_world s) \<le> time (oo_world t)"

interpretation later: step_relation "later time" for time :: "'w \<Rightarrow> rat"
  by unfold_locales (auto simp: later_def)

text \<open>A computation that takes time and, from a moment on, does not run out of fuel.\<close>

definition timely :: "('w \<Rightarrow> rat) \<Rightarrow> rat \<Rightarrow> ('w, 'a) session \<Rightarrow> bool" where
  "timely time b m \<longleftrightarrow>
     steps (later time) m \<and> raises (\<lambda>s. b \<le> time (oo_world s)) (\<lambda>e. e \<noteq> OutOfFuel) m"

lemma later_keeps: "steps (later time) m \<Longrightarrow> b \<le> time (oo_world s) \<Longrightarrow> m s = (r, t) \<Longrightarrow> b \<le> time (oo_world t)"
  using stepsD [of "later time" m s r t] by (simp add: later_def)

lemma timely_later: "timely time b m \<Longrightarrow> steps (later time) m"
  by (simp add: timely_def)

lemma timely_wp: "timely time b m \<Longrightarrow> b \<le> time (oo_world s) \<Longrightarrow> wp m (\<lambda>_. later time s) (\<lambda>e _. e \<noteq> OutOfFuel) s"
  by (auto simp: timely_def wp_def steps_def raises_def split: prod.splits sum.splits) (metis snd_conv)

lemma timelyI:
  assumes "steps (later time) m"
    and "\<And>s. b \<le> time (oo_world s) \<Longrightarrow> wp m (\<lambda>_ _. True) (\<lambda>e _. e \<noteq> OutOfFuel) s"
  shows "timely time b m"
  using assms(1) unfolding timely_def raises_def
proof (intro conjI allI impI)
  fix s e t
  assume "b \<le> time (oo_world s)" "m s = (Inl e, t)"
  then show "e \<noteq> OutOfFuel" using assms(2) [of s] by (simp add: wp_def)
qed

lemma timely_andthen:
  assumes "timely time b m" "\<And>x. timely time b (f x)"
  shows "timely time b (andthen m f)"
  using assms unfolding timely_def
  by (auto intro!: later.steps_andthen raises_andthen dest: later_keeps)

lemma timely_except:
  assumes "timely time b m" "\<And>n x. timely time b (h n x)"
  shows "timely time b (except_exception m h)"
proof -
  have "steps (later time) (case e of Raised n x \<Rightarrow> h n x | OutOfFuel \<Rightarrow> raise OutOfFuel)" for e
    using assms(2) later.steps_raise by (cases e) (auto simp: timely_def)
  then show ?thesis using assms unfolding timely_def except_exception_def
    by (auto intro!: later.steps_catch raises_catch [where F = "\<lambda>e. e \<noteq> OutOfFuel"] dest: later_keeps split: raised.splits)
qed

lemma timely_finally:
  assumes "timely time b m" "timely time b f"
  shows "timely time b (finally_do m f)"
proof -
  have "later time s (snd (finally_do m f s))" for s
  proof -
    obtain r t where m: "m s = (r, t)" by fastforce
    obtain q u where f: "f t = (q, u)" by fastforce
    have "later time s t" "later time t u" using assms m f stepsD by (auto simp: timely_def)
    then show ?thesis using later.trans [of time s t u] m f
      by (auto simp: finally_do_def andthen_def raise_def split: sum.splits raised.splits)
  qed
  moreover have "fst (finally_do m f s) \<noteq> Inl OutOfFuel" if "b \<le> time (oo_world s)" for s
  proof -
    obtain r t where m: "m s = (r, t)" by fastforce
    have "r \<noteq> Inl OutOfFuel" "b \<le> time (oo_world t)"
      using assms(1) that m later_keeps by (auto simp: timely_def raises_def)
    moreover have "fst (f t) \<noteq> Inl OutOfFuel" if "b \<le> time (oo_world t)" for t
      using assms(2) that by (cases "f t") (auto simp: timely_def raises_def)
    ultimately have "r \<noteq> Inl OutOfFuel" "fst (f t) \<noteq> Inl OutOfFuel" by simp_all
    then show ?thesis using m
      by (cases "f t") (auto simp: finally_do_def andthen_def raise_def split: sum.splits raised.splits)
  qed
  ultimately show ?thesis by (auto simp: timely_def steps_def raises_def) (metis fst_conv)
qed

lemma raised_of_fuel [simp]: "raised_of e \<noteq> OutOfFuel"
  by (cases e) simp_all

lemma timely_basic:
  "timely time b (ret x)" "timely time b (raise (Raised n y))" "timely time b (gets g)"
  "timely time b (runtime_error msg)" "timely time b (store_op q)" "timely time b (store_set p)"
  "timely time b (note_call c)" "timely time b (set_progress oc ph)" "timely time b (renew_leadership env plan now)"
  "timely time b (take_leadership env plan now)"
  by (auto simp: timely_def steps_def raises_def later_def primitive_defs ret_def gets_def store_op_def update_or_raise_def
      map_sum_def split: prod.splits option.splits sum.splits)

lemma timely_modify: "(\<And>s. oo_world (g s) = oo_world s) \<Longrightarrow> timely time b (modify g)"
  by (simp add: timely_def steps_def raises_def later_def modify_def)

lemma timely_if: "timely time b m \<Longrightarrow> timely time b m' \<Longrightarrow> timely time b (if c then m else m')"
  by simp

lemma timely_option: "timely time b m \<Longrightarrow> (\<And>x. timely time b (f x)) \<Longrightarrow> timely time b (case y of None \<Rightarrow> m | Some x \<Rightarrow> f x)"
  by (cases y) simp_all

lemma timely_external: "takes_time time m \<Longrightarrow> timely time b (call_external m)"
  by (auto simp: timely_def steps_def raises_def later_def call_external_def takes_time_def map_sum_def
      split: prod.splits sum.splits) (metis snd_conv)

lemma timely_clock: "session_clock time env \<Longrightarrow> timely time b (clock_now env)"
  by (auto simp: timely_def steps_def raises_def later_def clock_now_def session_clock_def real_time_def
      split: prod.splits) (metis snd_conv)

lemma timely_sleep: "session_clock time env \<Longrightarrow> 0 \<le> x \<Longrightarrow> timely time b (sleep_for env x)"
proof -
  assume "session_clock time env" "0 \<le> x"
  then have "time w + x * 1000000 \<le> time (st_sleep (en_time env) x w)" "0 \<le> x * 1000000" for w
    by (auto simp: session_clock_def real_time_def)
  then have "time w \<le> time (st_sleep (en_time env) x w)" for w by (metis add_increasing2 dual_order.trans le_add_same_cancel1)
  then show ?thesis by (simp add: timely_def steps_def raises_def later_def sleep_for_def modify_def)
qed

lemmas timely_rules = timely_andthen timely_basic timely_if timely_option timely_clock

section \<open>Waiting\<close>

lemma flt_lower: "0 \<le> x \<Longrightarrow> x \<le> 2 * flt x"
proof -
  assume "0 \<le> x"
  moreover have "\<bar>flt x - x\<bar> \<le> \<bar>x\<bar> * (2 powi (1 - 53) / 2)" using fix_prec_error [of 2 53 x] by (simp add: flt_def)
  then have "\<bar>flt x - x\<bar> \<le> \<bar>x\<bar> / 2"
    by (rule order_trans) (simp add: power_int_minus field_simps)
  ultimately show ?thesis by (simp add: abs_if split: if_splits)
qed

lemma flt_nonpos: "x \<le> 0 \<Longrightarrow> flt x \<le> 0"
  using fix_prec_error [of 2 53 x] by (simp add: flt_def abs_if power_int_minus field_simps split: if_splits)

text \<open>A wait that is not over sleeps for at least half a microsecond.\<close>

lemma remaining_wait:
  assumes "\<not> total_seconds target now \<le> 0"
  shows "1 / 2 \<le> min (total_seconds target now) 1 * 1000000" "now < target"
proof -
  have "0 < target - now"
  proof (rule ccontr)
    assume "\<not> 0 < target - now"
    then have "(of_int (target - now) :: rat) / 1000000 \<le> 0" by (simp only: not_less divide_le_0_iff of_int_le_0_iff) simp
    then show False using assms flt_nonpos by (simp add: total_seconds_def)
  qed
  then show "now < target" by simp
  have "1 \<le> (of_int (target - now) :: rat)" using \<open>0 < target - now\<close> by linarith
  then have "1 / 1000000 \<le> 2 * total_seconds target now"
    using flt_lower [of "of_int (target - now) / 1000000"] unfolding total_seconds_def by simp
  then show "1 / 2 \<le> min (total_seconds target now) 1 * 1000000" by (simp add: min_def)
qed

lemma wait_until_later:
  assumes "session_clock time env"
  shows "steps (later time) (wait_until env plan target fuel)"
proof (induction fuel)
  case (Suc fuel)
  have clock: "steps (later time) (clock_now env)" and renew: "steps (later time) (renew_leadership env plan n)" for n
    by (rule timely_later [OF timely_clock [OF assms]], rule timely_later [OF timely_basic(9)])
  have "steps (later time) (sleep_for env (min (total_seconds target now) 1))" if "\<not> total_seconds target now \<le> 0" for now
    using timely_sleep [OF assms] that by (simp add: timely_def)
  then show ?case using Suc clock renew later.steps_ret
    by (auto simp: Let_def intro!: later.steps_andthen)
qed (simp add: later.steps_raise)

lemma wp_clock_now:
  "wp (clock_now env) Q E s \<longleftrightarrow> (case st_clock (en_time env) (oo_world s) of (t, w) \<Rightarrow> Q t (s\<lparr>oo_world := w\<rparr>))"
  by (simp add: wp_def clock_now_def split: prod.splits)

lemma wp_sleep_for:
  "wp (sleep_for env x) Q E s \<longleftrightarrow> Q () (s\<lparr>oo_world := st_sleep (en_time env) x (oo_world s)\<rparr>)"
  by (simp add: wp_def sleep_for_def modify_def)

lemma wait_until_ends:
  assumes clk: "session_clock time env"
    and "of_int target - time (oo_world s) < of_nat n * (1 / 2)"
  shows "wp (wait_until env plan target (Suc n)) (\<lambda>_ _. True) (\<lambda>e _. e \<noteq> OutOfFuel) s"
  using assms(2)
proof (induction n arbitrary: s)
  case 0
  let ?c = "st_clock (en_time env) (oo_world s)"
  have "fst ?c = \<lfloor>time (snd ?c)\<rfloor>" "time (oo_world s) \<le> time (snd ?c)"
    using clk by (simp_all add: session_clock_def real_time_def)
  then have "target \<le> fst ?c" using 0 by (simp add: le_floor_iff)
  then have "total_seconds target (fst ?c) \<le> 0"
    using remaining_wait(2) [of target "fst ?c"] by (meson not_less)
  then show ?case by (auto simp: wp_def clock_now_def effect_defs Let_def split: prod.splits)
next
  case (Suc n)
  obtain now w where clock: "st_clock (en_time env) (oo_world s) = (now, w)" by fastforce
  have later: "time (oo_world s) \<le> time w"
    using clk clock unfolding session_clock_def real_time_def by (metis snd_conv)
  show ?case
  proof (cases "total_seconds target now \<le> 0")
    case True
    then show ?thesis using clock by (simp add: wp_def clock_now_def effect_defs)
  next
    case False
    let ?x = "min (total_seconds target now) 1"
    let ?t = "s\<lparr>oo_world := st_sleep (en_time env) ?x w\<rparr>"
    have "time w + ?x * 1000000 \<le> time (oo_world ?t)"
      using clk False by (simp add: session_clock_def real_time_def)
    then have slept: "time (oo_world s) + 1 / 2 \<le> time (oo_world ?t)"
      using later remaining_wait(1) [OF False] by linarith
    have "timely time (time (oo_world ?t)) (andthen (clock_now env) (renew_leadership env plan))"
      by (intro timely_rules clk)
    then have "wp (andthen (clock_now env) (renew_leadership env plan)) (\<lambda>_. later time ?t) (\<lambda>e _. e \<noteq> OutOfFuel) ?t"
      by (rule timely_wp) simp
    then have "wp (andthen (clock_now env) (\<lambda>now'. andthen (renew_leadership env plan now') (\<lambda>_. wait_until env plan target (Suc n))))
        (\<lambda>_ _. True) (\<lambda>e _. e \<noteq> OutOfFuel) ?t"
      unfolding andthen_assoc [symmetric]
      by (rule wp_then) (rule Suc.IH, use slept Suc.prems in \<open>simp add: later_def algebra_simps\<close>)
    then have "wp (sleep_for env ?x) (\<lambda>_. wp (andthen (clock_now env) (\<lambda>now'. andthen (renew_leadership env plan now')
        (\<lambda>_. wait_until env plan target (Suc n)))) (\<lambda>_ _. True) (\<lambda>e _. e \<noteq> OutOfFuel)) (\<lambda>e _. e \<noteq> OutOfFuel) (s\<lparr>oo_world := w\<rparr>)"
      by (simp only: wp_sleep_for) simp
    then show ?thesis unfolding wait_until.simps(2) [of env plan target "Suc n"]
      using clock False
      by (simp only: wp_andthen wp_clock_now Let_def prod.case if_False)
  qed
qed

section \<open>The whole session\<close>

text \<open>Fuel that outlasts every wait of the plan and the polls of a flatten, from a moment on.\<close>

definition planned_waits :: "session_plan \<Rightarrow> timestamp list" where
  "planned_waits plan =
     [pl_recorder_warmup_at plan, pl_feature_window_start_at plan, pl_feature_snapshot_at plan,
      pl_eligibility_lock_at plan, pl_regular_session_open_at plan, pl_mandatory_flatten_at plan]"

definition outlasts :: "nat \<Rightarrow> session_plan \<Rightarrow> rat \<Rightarrow> bool" where
  "outlasts n plan b \<longleftrightarrow>
     (\<forall>target \<in> set (planned_waits plan). of_int target - b < of_nat n / 2) \<and>
     0 < op_flatten_poll_interval_seconds (pl_policy plan) \<and>
     of_int (pl_final_flatten_deadline_at plan) - b
       < of_nat n * (op_flatten_poll_interval_seconds (pl_policy plan) * 1000000)"

lemma timely_wait_until:
  assumes "session_clock time env" "outlasts n plan b" "target \<in> set (planned_waits plan)"
  shows "timely time b (wait_until env plan target (Suc n))"
proof -
  have "wp (wait_until env plan target (Suc n)) (\<lambda>_ _. True) (\<lambda>e _. e \<noteq> OutOfFuel) s" if "b \<le> time (oo_world s)" for s
  proof (rule wait_until_ends [OF assms(1)])
    have "of_int target - b < of_nat n / 2" using assms(2,3) by (simp add: outlasts_def)
    then show "of_int target - time (oo_world s) < of_nat n * (1 / 2)" using that by simp
  qed
  with wait_until_later [OF assms(1)] show ?thesis by (rule timelyI)
qed

lemma wp_flatten_call:
  "wp (flatten_call env fuel plan now) Q E s =
   wp (flatten_body (en_dumps env) (en_texts env) (en_broker env) (en_time env) fuel plan now (ro_managed_quantities s))
     (\<lambda>x t. Q x (s\<lparr>oo_world := fs_world t\<rparr>)) (\<lambda>e t. E e (s\<lparr>oo_world := fs_world t\<rparr>)) (flatten_start (oo_world s))"
  by (simp add: wp_def flatten_call_def flatten_def split: prod.splits sum.splits)

lemma timely_flatten_call:
  assumes "session_clock time env" "outlasts n plan b"
  shows "timely time b (flatten_call env (Suc n) plan now)"
proof -
  have rt: "real_time time (en_time env) (en_broker env)" using assms(1) by (simp add: session_clock_def)
  have poll: "0 < op_flatten_poll_interval_seconds (pl_policy plan)" using assms(2) by (simp add: outlasts_def)
  have "verification_deadline plan now \<le> pl_final_flatten_deadline_at plan" by (simp add: verification_deadline_def)
  then have "of_int (verification_deadline plan now) \<le> (of_int (pl_final_flatten_deadline_at plan) :: rat)" by simp
  then have "of_int (verification_deadline plan now) < b + of_nat n * (op_flatten_poll_interval_seconds (pl_policy plan) * 1000000)"
    using assms(2) unfolding outlasts_def by linarith
  note ends = flatten_body_ends [OF rt _ poll this]
  show ?thesis
  proof (rule timelyI [OF steps_wp], goal_cases)
    case (1 s)
    show ?case unfolding wp_flatten_call later_def
      by (rule wp_mono [OF flatten_in_time [OF rt order_refl, where X = "\<lambda>_. True"]])
        (use verify_positions_later [OF rt poll] in \<open>simp_all del: verify_positions.simps\<close>)
  next
    case (2 s)
    show ?case unfolding wp_flatten_call by (rule wp_mono [OF ends [OF 2]]) simp_all
  qed
qed

lemma timely_hook_phase:
  assumes "session_clock time env" "\<And>now k. takes_time time (hook plan now k)"
  shows "timely time b (run_phase env plan phase hook)"
  unfolding run_phase_def record_phase_def
  by (intro timely_rules timely_external assms)

lemma timely_preflight: "session_clock time env \<Longrightarrow> timely time b (preflight env plan phase)"
  unfolding preflight_def record_phase_def
  by (intro timely_rules timely_external) (auto simp: session_clock_def)

lemma timely_run_flatten:
  assumes "session_clock time env" "outlasts n plan b"
  shows "timely time b (run_flatten env (Suc n) plan at_time)"
  unfolding run_flatten_def record_phase_def
  by (intro timely_rules timely_flatten_call assms)

lemma timely_emit_critical:
  assumes "session_clock time env"
  shows "timely time b (emit_critical env plan code message now)"
proof -
  have send: "time w \<le> time w'" if "en_send env alert w = (r, w')" for alert r w w'
    using assms that unfolding session_clock_def takes_time_def by (metis snd_conv)
  show ?thesis
    by (auto simp: timely_def steps_def raises_def later_def emit_critical_def emit_def Let_def store_set_def modify_def
        split: prod.splits sum.splits option.splits if_splits dest: send)
qed

lemma session_clock_hooks:
  assumes "session_clock time env"
  shows "takes_time time (en_warmup_recorder env plan now k)" "takes_time time (en_freeze_features env plan now k)"
    "takes_time time (en_evaluate env plan now k)" "takes_time time (en_size_and_execute env plan now k)"
    "takes_time time (en_reconcile env plan now k)"
  using assms by (simp_all add: session_clock_def)

lemma capture_hook_time: "takes_time time (capture_hook plan now k)"
  by (simp add: takes_time_def capture_hook_def ret_def)

lemma timely_manage_positions: "timely time b (manage_positions ps)"
proof (induction ps)
  case (Cons p ps)
  then show ?case by (cases p) (auto intro!: timely_rules timely_modify split: option.splits)
qed (simp add: timely_basic)

lemmas timely_session =
  timely_rules timely_hook_phase timely_preflight timely_run_flatten timely_emit_critical
  timely_wait_until timely_manage_positions

lemma planned [simp]:
  "pl_recorder_warmup_at plan \<in> set (planned_waits plan)" "pl_feature_window_start_at plan \<in> set (planned_waits plan)"
  "pl_feature_snapshot_at plan \<in> set (planned_waits plan)" "pl_eligibility_lock_at plan \<in> set (planned_waits plan)"
  "pl_regular_session_open_at plan \<in> set (planned_waits plan)" "pl_mandatory_flatten_at plan \<in> set (planned_waits plan)"
  by (simp_all add: planned_waits_def)

lemma timely_body:
  assumes "session_clock time env" "outlasts n plan b"
  shows "timely time b (session_body env (Suc n) plan started_at)"
proof -
  have "timely time b (enter_session env plan started_at)"
    unfolding enter_session_def record_phase_def by (intro timely_session)
  moreover have "timely time b (morning env (Suc n) plan)"
    unfolding morning_def wait_and_run_def by (intro timely_session session_clock_hooks capture_hook_time assms planned)
  moreover have "timely time b (trade env (Suc n) plan)"
  proof -
    have positions: "timely time b (case map_of execution ''managed_positions'' of
        Some (PDict positions) \<Rightarrow> manage_positions positions | _ \<Rightarrow> ret ())" for execution :: details
      by (auto intro: timely_manage_positions timely_basic split: option.splits pyval.splits)
    show ?thesis
      unfolding trade_def by (intro timely_session positions session_clock_hooks assms planned)
  qed
  then have "timely time b (act_on_evaluation env (Suc n) plan summary)" for summary
    unfolding act_on_evaluation_def by (intro timely_session)
  moreover have "timely time b (end_of_day env (Suc n) plan)"
    unfolding end_of_day_def record_phase_def Let_def
    by (intro timely_session timely_modify assms planned) simp_all
  ultimately show ?thesis unfolding session_body_def by (intro timely_andthen)
qed

lemma timely_handler:
  assumes "session_clock time env" "outlasts n plan b"
  shows "timely time b (handle_exception env (Suc n) plan started_at name message)"
proof -
  have "timely time b (emergency_flatten env (Suc n) plan now)" for now
    unfolding emergency_flatten_def by (intro timely_except timely_session timely_modify assms) simp_all
  then show ?thesis unfolding handle_exception_def Let_def
    by (intro timely_session timely_modify assms) simp_all
qed

lemma timely_conclude: "session_clock time env \<Longrightarrow> timely time b (conclude env plan started_at)"
  unfolding conclude_def by (intro timely_session timely_modify) (simp_all split: option.splits)

text \<open>
  Claim C13. A session ends: when the clock runs, a sleep lasts and no hook turns the clock
  back, a session returns its result or raises an exception, and fuel of two units for every
  microsecond to the last planned moment and one for every poll of the flatten is never used up.
  Neither the waits between the phases, nor the flatten, nor the emergency flatten of a handler
  runs on.
\<close>

theorem session_terminates:
  assumes "session_clock time env" "outlasts n plan (time (oo_world s))"
  shows "fst (run_session env (Suc n) plan start_at s) \<noteq> Inl OutOfFuel"
proof -
  have "timely time (time (oo_world s)) (run_session env (Suc n) plan start_at)"
    unfolding run_session_def start_kill_switch_def Let_def
    by (intro timely_session timely_modify timely_finally timely_except timely_body timely_handler timely_conclude assms)
      simp_all
  then show ?thesis by (cases "run_session env (Suc n) plan start_at s") (auto simp: timely_def raises_def)
qed

end
