(* ===== verification/Orchestration_Witnesses.thy ===== *)
theory Orchestration_Witnesses
  imports Leadership
begin

text \<open>Witnesses of the properties of the orchestration theories, on one sample session.\<close>

definition blank_dumps :: orch_dumps where
  "blank_dumps =
     \<lparr>od_kill_switch = (\<lambda>_. JNull), od_lease_event = (\<lambda>_. JNull), od_alert = (\<lambda>_. JNull),
      od_phase = (\<lambda>_. JNull), od_flatten = (\<lambda>_. JNull), od_result = (\<lambda>_. JNull)\<rparr>"

definition sample_lease :: leadership_lease where
  "sample_lease =
     \<lparr>ll_session_id = ''S'', ll_holder_id = ''A'', ll_acquired_at = 0, ll_renewed_at = 0,
      ll_expires_at = 30000000, ll_fencing_token = 1\<rparr>"

definition sample_renewed :: leadership_lease where
  "sample_renewed = sample_lease\<lparr>ll_renewed_at := 10000000, ll_expires_at := 40000000\<rparr>"

definition after_acquire :: memory_leadership_repository where
  "after_acquire = snd (acquire blank_dumps ''S'' ''A'' 0 30 empty_leadership)"

definition after_renew :: memory_leadership_repository where
  "after_renew = snd (renew blank_dumps sample_lease 10000000 30 after_acquire)"

lemma sample_acquired: "acquire blank_dumps ''S'' ''A'' 0 30 empty_leadership = (Inr (Some sample_lease), after_acquire)"
  by (simp add: after_acquire_def acquire_def grant_def Let_def valid_lease_def empty_leadership_def sample_lease_def)

lemma after_acquire_leases [simp]: "lr_leases after_acquire = [(''S'', sample_lease)]" "lr_token after_acquire = 1"
  by (simp_all add: after_acquire_def acquire_def grant_def Let_def valid_lease_def empty_leadership_def
      sample_lease_def append_lease_event_def)

lemma sample_renewal: "renew blank_dumps sample_lease 10000000 30 after_acquire = (Some sample_renewed, after_renew)"
  by (simp add: after_renew_def renew_def Let_def sample_renewed_def) (simp add: sample_lease_def)

lemma sample_lease_history:
  "lease_history blank_dumps (\<lambda>_. 30) after_renew [sample_renewed, sample_lease] {} 10000000"
proof -
  have "lease_history blank_dumps (\<lambda>_. 30) after_acquire [sample_lease] {} 0"
    using lease_history.acquired [OF lease_history.started [where t = 0] order_refl, where ttl = "\<lambda>_. 30"]
      sample_acquired by simp
  from lease_history.renewed [OF this, of 10000000 sample_lease] show ?thesis using sample_renewal by simp
qed

theorem leases_exclusive_witness:
  "ll_holder_id sample_renewed = ll_holder_id sample_lease \<and>
   ll_fencing_token sample_renewed = ll_fencing_token sample_lease"
  by (rule leases_exclusive [OF sample_lease_history]) (simp_all add: sample_renewed_def sample_lease_def)

text \<open>The renewed lease runs to 40 s; at 50 s another process takes over.\<close>

definition after_takeover :: memory_leadership_repository where
  "after_takeover = snd (acquire blank_dumps ''S'' ''B'' 50000000 30 after_renew)"

lemma sample_takeover:
  "acquire blank_dumps ''S'' ''B'' 50000000 30 after_renew =
    (Inr (Some \<lparr>ll_session_id = ''S'', ll_holder_id = ''B'', ll_acquired_at = 50000000, ll_renewed_at = 50000000,
      ll_expires_at = 80000000, ll_fencing_token = 2\<rparr>), after_takeover)"
proof -
  have "lr_leases after_renew = [(''S'', sample_renewed)]" "lr_token after_renew = 1"
    by (simp_all add: after_renew_def renew_def Let_def append_lease_event_def sample_renewed_def)
      (simp_all add: sample_lease_def)
  then show ?thesis
    by (simp add: after_takeover_def acquire_def grant_def Let_def valid_lease_def sample_renewed_def)
qed

theorem superseded_lease_powerless_witness:
  "renew blank_dumps sample_renewed 60000000 30 after_takeover = (None, after_takeover)"
  using superseded_lease_powerless [OF sample_lease_history _ sample_takeover, of sample_renewed]
  by (simp add: sample_renewed_def sample_lease_def)

end
