(* ===== verification/Session_Witnesses.thy ===== *)
theory Session_Witnesses
  imports Orchestrator_Results Orchestrator_Progress Orchestration_Witnesses
begin

text \<open>
  Witnesses of the properties of the flatten and of the session, on one sample session whose
  world is a time in microseconds and the number of shares the broker holds.
\<close>

section \<open>A sample session\<close>

type_synonym sample_world = "int \<times> rat"

definition sample_time :: "sample_world session_time" where
  "sample_time = \<lparr>st_clock = (\<lambda>w. (fst w, w)), st_sleep = (\<lambda>x w. (fst w + \<lceil>x * 1000000\<rceil>, snd w))\<rparr>"

definition sample_position :: "sample_world \<Rightarrow> session_position" where
  "sample_position w =
     \<lparr>sp_symbol = ''AAPL'', sp_quantity = snd w, sp_average_entry_price = None, sp_observed_at = fst w,
      sp_raw_response_hash = []\<rparr>"

definition sample_close_order :: "sample_world \<Rightarrow> session_position \<Rightarrow> flatten_order" where
  "sample_close_order w p =
     \<lparr>fo_symbol = sp_symbol p, fo_quantity = sp_quantity p, fo_broker_order_id = ''order-1'', fo_client_order_id = None,
      fo_submitted_at = fst w, fo_raw_response_hash = []\<rparr>"

text \<open>The broker holds ten shares at most and sells what it is asked to.\<close>

definition sample_broker :: "sample_world session_broker" where
  "sample_broker =
     \<lparr>sb_discover_daybreak_targets = (\<lambda>plan w. (Inr [], w)),
      sb_cancel_daybreak_orders = (\<lambda>plan w. (Inr 0, w)),
      sb_list_positions = (\<lambda>targets w. (Inr (if snd w = 10 then [sample_position w] else []), w)),
      sb_close_position = (\<lambda>p w. (Inr (sample_close_order w p), (fst w, snd w - sp_quantity p)))\<rparr>"

definition sample_plan :: session_plan where
  "sample_plan =
     \<lparr>pl_session_id = ''session-1'', pl_run_id = ''run-1'', pl_trading_date = (2026, 7, 15),
      pl_recorder_warmup_at = 1000000, pl_feature_window_start_at = 2000000, pl_feature_snapshot_at = 3000000,
      pl_evaluator_cutoff_at = 4000000, pl_eligibility_lock_at = 5000000, pl_regular_session_open_at = 6000000,
      pl_new_entry_cutoff_at = 7000000, pl_mandatory_flatten_at = 8000000, pl_final_flatten_deadline_at = 9000000,
      pl_policy = default_orchestration_policy, pl_configuration_hash = replicate 64 (CHR ''0'')\<rparr>"

definition sample_health :: "timestamp \<Rightarrow> health_snapshot" where
  "sample_health now =
     \<lparr>hs_observed_at = now, hs_clock_synchronized = True, hs_clock_skew_ms = 0, hs_database_healthy = True,
      hs_recorder_healthy = True, hs_market_data_stream_healthy = True, hs_trade_update_stream_healthy = True,
      hs_broker_healthy = True, hs_account_active = True, hs_account_blocked = False, hs_trading_blocked = False,
      hs_market_status_normal = True, hs_configuration_hash = replicate 64 (CHR ''0'')\<rparr>"

definition blank_texts :: invalid_texts where
  "blank_texts =
     \<lparr>iv_target = (\<lambda>_ _. []), iv_flatten = (\<lambda>_. []), iv_alert = (\<lambda>_. []), iv_lease = (\<lambda>_. []), iv_summary = (\<lambda>_. [])\<rparr>"

definition sample_env :: "sample_world session_env" where
  "sample_env =
     \<lparr>en_time = sample_time, en_broker = sample_broker, en_snapshot = (\<lambda>plan now. ret (sample_health now)),
      en_warmup_recorder = (\<lambda>plan now k. ret []), en_freeze_features = (\<lambda>plan now k. ret []),
      en_evaluate = (\<lambda>plan now k. ret [(''run_status'', PStr ''no_setups''), (''approved_count'', PInt 0)]),
      en_size_and_execute = (\<lambda>plan now k. ret []), en_reconcile = (\<lambda>plan now k. ret []),
      en_send = (\<lambda>alert. ret ()), en_holder_id = ''holder'', en_dedup_window_seconds = 300,
      en_health_details = (\<lambda>_. []), en_texts = blank_texts, en_dumps = blank_dumps\<rparr>"

definition sample_state :: "kill_switch_state list \<Rightarrow> sample_world orch_state" where
  "sample_state switches =
     \<lparr>oo_world = (0, 10),
      oo_repository = empty_orchestration_repository\<lparr>or_kill_switches := map (\<lambda>k. (ks_state_hash k, k)) switches\<rparr>,
      oo_leadership = empty_leadership, oo_last_sent = [], oo_lease = None, oo_last_renewed_at = None,
      ro_kill_switch = inactive_kill_switch blank_dumps ''session-1'', ro_flatten_result = None, ro_outcome = SO_FAILED,
      ro_final_phase = SP_CREATED, ro_error_message = None, ro_managed_quantities = [], ro_lease = None,
      oo_calls = []\<rparr>"

lemmas sample_defs = sample_time_def sample_broker_def sample_position_def sample_close_order_def sample_env_def
  blank_texts_def sample_state_def

section \<open>The flatten\<close>

lemma sample_real_time: "real_time (of_int \<circ> fst) sample_time sample_broker"
  by (simp add: real_time_def sample_defs)

lemma sample_fine: "fine_broker sample_broker"
  by (auto simp: fine_broker_def sample_defs fine_quantity_def on_grid_def)

theorem flatten_never_oversells_witness:
  "let calls = fs_calls (snd (flatten blank_dumps blank_texts sample_broker sample_time (Suc 8) sample_plan 0 [] (0, 10)))
   in sold calls ''AAPL'' = 0 \<or>
      (\<exists>p. reported calls p \<and> sp_symbol p = ''AAPL'' \<and> sold calls ''AAPL'' = sp_quantity p)"
  unfolding Let_def by (rule flatten_never_oversells [OF sample_fine prod.collapse [symmetric]])

lemma sample_deadline:
  assumes "0 \<le> t"
  shows "verification_deadline sample_plan t = 9000000"
proof -
  have "round_half_even (op_flatten_verification_timeout_seconds (pl_policy sample_plan) * 1000000) = 300000000"
    by (simp add: sample_plan_def default_orchestration_policy_def round_half_even_def)
  then show ?thesis using assms by (simp add: verification_deadline_def) (simp add: sample_plan_def)
qed

lemma close_one_10:
  assumes "fs_world s = (t, 10)" "fs_submitted s = []"
  shows "wp (close_one sample_broker (sample_position (t, 10))) Q E s =
    Q () (s\<lparr>fs_world := (t, 0), fs_close_orders := fs_close_orders s @ [sample_close_order (t, 10) (sample_position (t, 10))],
      fs_submitted := [(''AAPL'', 10)], fs_calls := fs_calls s @ [Closed (sample_position (t, 10))]\<rparr>)"
proof -
  have "dsub 10 0 = 10" "dadd 0 10 = 10" by code_simp+
  then show ?thesis using assms
    by (simp add: wp_def close_one_def Let_def submitted_quantity_def sample_defs)
qed

lemma sample_calls:
  "sb_discover_daybreak_targets sample_broker plan w = (Inr [], w)"
  "sb_cancel_daybreak_orders sample_broker plan w = (Inr 0, w)"
  "sb_list_positions sample_broker targets w = (Inr (if snd w = 10 then [sample_position w] else []), w)"
  "st_clock sample_time w = (fst w, w)"
  "st_sleep sample_time x w = (fst w + \<lceil>x * 1000000\<rceil>, snd w)"
  by (simp_all add: sample_broker_def sample_time_def)

lemma sample_flatten:
  assumes "0 \<le> t" "t < 9000000"
  shows "\<exists>result s. flatten blank_dumps blank_texts sample_broker sample_time (Suc n) sample_plan t [] (t, 10) = (Inr result, s) \<and>
     fr_complete result \<and> fs_calls s = [Listed [sample_position (t, 10)], Closed (sample_position (t, 10)), Listed []]"
proof -
  have "wp (flatten_body blank_dumps blank_texts sample_broker sample_time (Suc n) sample_plan t [])
     (\<lambda>result s. fr_complete result \<and> fs_calls s = [Listed [sample_position (t, 10)], Closed (sample_position (t, 10)), Listed []])
     (\<lambda>_ _. False) (flatten_start (t, 10))"
    using assms
    by (simp add: flatten_body_def wp_or_default wp_try_list wp_on_time close_one_10 sample_deadline sample_calls
        merge_targets_def flatten_result_of_def Let_def flatten_start_def wp_andthen_fun)
  then show ?thesis by (auto simp: wp_def flatten_def split: prod.splits sum.splits)
qed

theorem flatten_complete_means_flat_witness:
  "\<exists>result s. flatten blank_dumps blank_texts sample_broker sample_time (Suc 8) sample_plan 0 [] (0, 10) = (Inr result, s) \<and>
     fr_complete result \<and> last (fs_calls s) = Listed [] \<and> (\<forall>p. CloseFailed p \<notin> set (fs_calls s))"
  using sample_flatten [of 0 8] flatten_complete_means_flat by (metis zero_less_numeral order_refl)


section \<open>The session\<close>

theorem killed_session_stays_quiet_witness:
  "let s = sample_state [activate_kill_switch blank_dumps ''session-1'' KR_MANUAL 0 []];
       t = snd (run_session sample_env 9 sample_plan (Some 0) s)
   in killed (oo_repository t) ''session-1'' \<and> (\<exists>cs. oo_calls t = oo_calls s @ cs \<and> list_all is_flatten_call cs)"
proof -
  let ?s = "sample_state [activate_kill_switch blank_dumps ''session-1'' KR_MANUAL 0 []]"
  have sid: "pl_session_id sample_plan = ''session-1''" by (simp add: sample_plan_def)
  have "killed (oo_repository ?s) (pl_session_id sample_plan)"
    by (simp add: killed_def get_latest_kill_switch_def dict_values_def sample_state_def sid Let_def)
  from killed_session_stays_quiet [OF this prod.collapse [symmetric]]
  show ?thesis unfolding Let_def sid .
qed

theorem session_terminates_witness:
  "fst (run_session sample_env (Suc 20000000) sample_plan (Some 0) (sample_state [])) \<noteq> Inl OutOfFuel"
  by (rule session_terminates [where time = "of_int \<circ> fst"])
    (simp_all add: session_clock_def sample_real_time [unfolded sample_defs, simplified] takes_time_def sample_env_def ret_def outlasts_def sample_state_def
      planned_waits_def sample_plan_def default_orchestration_policy_def, simp_all add: sample_real_time)

lemma sample_polite: "polite_env sample_env"
  by (simp add: polite_env_def polite_def sample_env_def ret_def)

section \<open>A day without setups\<close>

lemma total_seconds_exact: "total_seconds (a * 1000000) (b * 1000000) = of_int (a - b)" if "\<bar>a - b\<bar> < 2 ^ 53"
proof -
  have eq: "(of_int (a * 1000000 - b * 1000000) :: rat) / 1000000 = of_int (a - b)" by (simp add: field_simps)
  show ?thesis unfolding total_seconds_def flt_def eq
    using fix_prec_exact [of 2 "of_int (a - b)" "a - b" 0 53] that by simp
qed

text \<open>The state between two steps, a whole number of seconds after the start.\<close>

definition ready :: "session_outcome \<Rightarrow> int \<Rightarrow> sample_world orch_state \<Rightarrow> bool" where
  "ready outcome k s \<longleftrightarrow> oo_world s = (k * 1000000, 10) \<and> oo_lease s \<noteq> None \<and> oo_last_renewed_at s = Some 0 \<and>
     ro_managed_quantities s = [] \<and> ro_outcome s = outcome \<and> session_phases.contiguous (oo_repository s)"

lemma sample_interval [simp]:
  "op_leadership_renew_interval_seconds (pl_policy sample_plan) = 10" "pl_session_id sample_plan = ''session-1''"
  by (simp_all add: sample_plan_def default_orchestration_policy_def)

lemma sample_env_calls [simp]:
  "en_time sample_env = sample_time" "en_broker sample_env = sample_broker"
  "en_dumps sample_env = blank_dumps" "en_texts sample_env = blank_texts"
  by (simp_all add: sample_env_def)

lemma ready_renew:
  assumes "ready oc k s" "0 \<le> k" "k < 10"
  shows "wp (renew_leadership sample_env sample_plan (k * 1000000)) Q E s = Q () s"
proof -
  have "total_seconds (k * 1000000) 0 = of_int k" using total_seconds_exact [of k 0] assms by simp
  then show ?thesis using assms by (auto simp: wp_def renew_leadership_def ready_def)
qed

lemma ready_clock: "ready oc k s \<Longrightarrow> wp (clock_now sample_env) Q E s = Q (k * 1000000) s"
proof -
  assume "ready oc k s"
  then have "oo_world s = (k * 1000000, 10)" by (simp add: ready_def)
  moreover from this have "s\<lparr>oo_world := (k * 1000000, 10)\<rparr> = s" by (cases s) simp
  ultimately show ?thesis by (simp only: wp_clock_now sample_calls sample_env_calls prod.case fst_conv)
qed

lemma ready_wait:
  assumes "ready oc b s" "0 \<le> b" "b \<le> a" "a < 10" "a - b \<le> int n"
  shows "wp (wait_until sample_env sample_plan (a * 1000000) (Suc n)) (\<lambda>_. ready oc a) (\<lambda>_ _. False) s"
  using assms
proof (induction n arbitrary: s b)
  case 0
  then show ?case using total_seconds_exact [of a b] by (simp add: ready_clock)
next
  case (Suc n)
  have ts: "total_seconds (a * 1000000) (b * 1000000) = of_int (a - b)" using total_seconds_exact [of a b] Suc.prems by simp
  show ?case
  proof (cases "a = b")
    case True
    then show ?thesis using Suc.prems ts by (subst wait_until.simps) (simp add: ready_clock)
  next
    case False
    then have "(1 :: rat) \<le> of_int (a - b)" using Suc.prems by linarith
    then have "min (of_int (a - b)) 1 = (1 :: rat)" "\<not> (of_int (a - b) :: rat) \<le> 0" by linarith+
    moreover have r: "ready oc (b + 1) (s\<lparr>oo_world := st_sleep sample_time 1 (oo_world s)\<rparr>)"
      using Suc.prems(1) by (simp add: ready_def sample_calls)
    moreover have "wp (wait_until sample_env sample_plan (a * 1000000) (Suc n)) (\<lambda>_. ready oc a) (\<lambda>_ _. False)
       (s\<lparr>oo_world := st_sleep sample_time 1 (oo_world s)\<rparr>)"
      by (rule Suc.IH [OF r]) (use Suc.prems False in auto)
    moreover have "0 \<le> b + 1" "b + 1 < 10" using Suc.prems False by auto
    ultimately show ?thesis
      by (subst wait_until.simps)
        (simp only: wp_andthen ready_clock [OF Suc.prems(1)] Let_def ts if_False wp_sleep_for sample_env_calls
           ready_clock [OF r] ready_renew [OF r])
  qed
qed

lemma sample_record:
  assumes "session_phases.contiguous (oo_repository s)"
  shows "wp (record_phase sample_env sample_plan phase a b ds)
    (\<lambda>_ t. \<exists>r. session_phases.contiguous r \<and> t = s\<lparr>oo_repository := r\<rparr>) (\<lambda>_ _. False) s"
proof -
  let ?p = "phase_of (en_dumps sample_env) sample_plan (int (length (list_phases (oo_repository s) ''session-1'')) + 1) phase a b ds"
  have k: "ph_session_id ?p = ''session-1''" "ph_sequence ?p = next_phase_sequence (oo_repository s) ''session-1''"
    by (simp_all add: phase_of_def Let_def next_phase_sequence_def)
  obtain r where r: "append_phase ?p (oo_repository s) = Inr r"
    using session_phases.append_next_succeeds [OF assms] k by metis
  moreover have "session_phases.contiguous r" using session_phases.append_contiguous [OF assms r] .
  ultimately show ?thesis
    by (auto simp: record_phase_def store_op_def)
qed

lemma ready_record:
  assumes "ready oc k s"
  shows "wp (record_phase sample_env sample_plan phase a b ds) (\<lambda>_. ready oc k) (\<lambda>_ _. False) s"
  by (rule wp_mono [OF sample_record]) (use assms in \<open>auto simp: ready_def\<close>)

lemma ready_phase:
  assumes "ready oc k s" "0 \<le> k" "k < 10" "\<And>now token. hook sample_plan now token = ret (details now token)"
  shows "wp (run_phase sample_env sample_plan phase hook) (\<lambda>d t. d \<in> {d. \<exists>now token. d = details now token} \<and> ready oc k t) (\<lambda>_ _. False) s"
proof -
  obtain l where l: "oo_lease s = Some l" using assms(1) by (auto simp: ready_def)
  have n: "ready oc k (s\<lparr>oo_calls := cs\<rparr>)" for cs using assms(1) by (simp add: ready_def)
  have "wp (call_external (hook sample_plan now token)) Q E t = Q (details now token) t" for Q E now token and t :: "sample_world orch_state"
    by (simp add: assms(4) wp_def call_external_def ret_def)
  then show ?thesis using assms l
    by (simp add: run_phase_def ready_clock ready_clock [OF n] ready_renew ready_renew [OF n] note_call_def)
     (rule wp_mono [OF ready_record [OF n]], auto)
qed

lemma ready_preflight:
  assumes "ready oc k s" "0 \<le> k" "k < 10"
  shows "wp (preflight sample_env sample_plan phase) (\<lambda>_. ready oc k) (\<lambda>_ _. False) s"
proof -
  have n: "ready oc k (s\<lparr>oo_calls := cs\<rparr>)" for cs using assms(1) by (simp add: ready_def)
  have "wp (call_external (en_snapshot sample_env sample_plan now)) Q E t = Q (sample_health now) t"
    for Q E now and t :: "sample_world orch_state"
    by (simp add: wp_def call_external_def ret_def sample_env_def)
  moreover have "health_kill_reason (sample_health now) sample_plan (pl_policy sample_plan) = None" for now
    by (simp add: health_kill_reason_def sample_health_def sample_plan_def default_orchestration_policy_def)
  ultimately show ?thesis using assms
    by (simp add: preflight_def ready_clock ready_renew note_call_def ready_record [OF n])
qed

lemma ready_wait_and_run:
  assumes "ready oc b s" "0 \<le> b" "b \<le> a" "a < 10" "\<And>now token. hook sample_plan now token = ret (details now token)"
  shows "wp (wait_and_run sample_env (Suc 9) sample_plan phase (a * 1000000) hook)
    (\<lambda>d t. d \<in> {d. \<exists>now token. d = details now token} \<and> ready oc a t) (\<lambda>_ _. False) s"
  unfolding wait_and_run_def
  by (rule wp_then [OF ready_wait ready_phase]) (use assms in auto)

lemma sample_times:
  "pl_recorder_warmup_at sample_plan = 1 * 1000000" "pl_feature_window_start_at sample_plan = 2 * 1000000"
  "pl_feature_snapshot_at sample_plan = 3 * 1000000" "pl_mandatory_flatten_at sample_plan = 8 * 1000000"
  by (simp_all add: sample_plan_def)

lemma sample_hooks:
  "en_warmup_recorder sample_env plan now k = ret []" "en_freeze_features sample_env plan now k = ret []"
  "en_evaluate sample_env plan now k = ret [(''run_status'', PStr ''no_setups''), (''approved_count'', PInt 0)]"
  by (simp_all add: sample_env_def)

lemma ready_run_then:
  assumes "ready oc b s" "0 \<le> b \<and> b \<le> a \<and> a < 10" "\<And>now token. hook sample_plan now token = ret (details now token)"
    and "\<And>now token t. ready oc a t \<Longrightarrow> wp (f (details now token)) Q (\<lambda>_ _. False) t"
  shows "wp (andthen (wait_and_run sample_env (Suc 9) sample_plan phase (a * 1000000) hook) f) Q (\<lambda>_ _. False) s"
  by (rule wp_then [OF ready_wait_and_run]) (use assms in auto)

lemma ready_morning:
  assumes "ready oc 0 s"
  shows "wp (morning sample_env (Suc 9) sample_plan)
    (\<lambda>d t. d = \<lparr>eps_run_status = ''no_setups'', eps_approved_count = 0\<rparr> \<and> ready oc 3 t) (\<lambda>_ _. False) s"
  unfolding morning_def sample_times
  apply (rule wp_then [OF ready_preflight [OF assms]], simp, simp)
  apply (rule ready_run_then [where details = "\<lambda>_ _. []"], assumption, simp, simp add: sample_hooks)
  apply (rule ready_run_then [where details = "\<lambda>now k. [(''capture_started_at'', PTime now), (''fencing_token'', PInt k)]"],
      assumption, simp, simp add: capture_hook_def)
  apply (rule ready_run_then [where details = "\<lambda>_ _. []"], assumption, simp, simp add: sample_hooks)
  apply (rule ready_run_then [where details = "\<lambda>_ _. [(''run_status'', PStr ''no_setups''), (''approved_count'', PInt 0)]"],
      assumption, simp, simp add: sample_hooks)
  apply (simp add: ready_clock)
  apply (simp add: sample_plan_def evaluation_summary_of_def)
  done

lemma ready_flatten:
  assumes "ready oc 8 s"
  shows "wp (run_flatten sample_env (Suc 9) sample_plan None)
    (\<lambda>result t. fr_complete result \<and> ro_outcome t = oc \<and> session_phases.contiguous (oo_repository t)) (\<lambda>_ _. False) s"
proof -
  have n: "ready oc 8 (s\<lparr>oo_calls := cs\<rparr>)" for cs using assms by (simp add: ready_def)
  obtain result f where f: "flatten blank_dumps blank_texts sample_broker sample_time (Suc 9) sample_plan 8000000 [] (8000000, 10)
      = (Inr result, f)" "fr_complete result"
    using sample_flatten [of 8000000 9] by auto
  then have "wp (flatten_call sample_env (Suc 9) sample_plan 8000000)
      (\<lambda>r t. r = result \<and> ro_outcome t = oc \<and> session_phases.contiguous (oo_repository t)) (\<lambda>_ _. False)
      (s\<lparr>oo_calls := oo_calls s @ [FlattenCall 8000000]\<rparr>)"
    using assms by (simp add: wp_def flatten_call_def ready_def)
  then have "wp (andthen (flatten_call sample_env (Suc 9) sample_plan 8000000) (\<lambda>result.
     andthen (record_phase sample_env sample_plan SP_FLATTENING 8000000 (Some (fr_completed_at result))
       [(''complete'', PBool (fr_complete result)), (''remaining'', PInt (int (length (fr_remaining_positions result))))]) (\<lambda>_.
     andthen (store_set (save_flatten result)) (\<lambda>_. ret result))))
    (\<lambda>result t. fr_complete result \<and> ro_outcome t = oc \<and> session_phases.contiguous (oo_repository t)) (\<lambda>_ _. False)
    (s\<lparr>oo_calls := oo_calls s @ [FlattenCall 8000000]\<rparr>)"
  proof (rule wp_then, goal_cases)
    case (1 r t)
    have c: "session_phases.contiguous (save_flatten result q) = session_phases.contiguous q" for q
      by (simp add: session_phases.contiguous_def save_flatten_def list_phases_def)
    have r: "r = result" "ro_outcome t = oc" "session_phases.contiguous (oo_repository t)" using 1 by blast+
    show ?case unfolding r(1)
    proof (rule wp_then [OF sample_record [OF r(3)]], goal_cases)
      case (1 x u)
      then obtain q where "session_phases.contiguous q" "u = t\<lparr>oo_repository := q\<rparr>" by blast
      then show ?case using r(2) f(2) by (simp add: store_set_def c)
    qed
  qed
  then have "wp (andthen (note_call (FlattenCall 8000000)) (\<lambda>_. andthen (flatten_call sample_env (Suc 9) sample_plan 8000000) (\<lambda>result.
     andthen (record_phase sample_env sample_plan SP_FLATTENING 8000000 (Some (fr_completed_at result))
       [(''complete'', PBool (fr_complete result)), (''remaining'', PInt (int (length (fr_remaining_positions result))))]) (\<lambda>_.
     andthen (store_set (save_flatten result)) (\<lambda>_. ret result)))))
    (\<lambda>result t. fr_complete result \<and> ro_outcome t = oc \<and> session_phases.contiguous (oo_repository t)) (\<lambda>_ _. False) s"
    by (simp only: note_call_def wp_andthen wp_modify)
  moreover have "wp (clock_now sample_env) Q E s = Q 8000000 s" for Q E using ready_clock [OF assms] by simp
  ultimately show ?thesis unfolding run_flatten_def option.case by (simp only: wp_andthen [of "clock_now sample_env"])
qed

lemma ready_enter:
  assumes "oo_leadership s = empty_leadership" "oo_world s = (0, 10)" "ro_managed_quantities s = []"
    "ro_outcome s = oc" "session_phases.contiguous (oo_repository s)" "\<not> ks_active (ro_kill_switch s)"
  shows "wp (enter_session sample_env sample_plan 0) (\<lambda>_. ready oc 0) (\<lambda>_ _. False) s"
proof -
  have "wp (take_leadership sample_env sample_plan 0) (\<lambda>l t. ready oc 0 t \<and> ro_kill_switch t = ro_kill_switch s) (\<lambda>_ _. False) s"
    using assms by (simp add: wp_def take_leadership_def acquire_def grant_def Let_def valid_lease_def empty_leadership_def
       sample_env_def sample_plan_def default_orchestration_policy_def ready_def)
  then show ?thesis unfolding enter_session_def
  proof (rule wp_then, goal_cases)
    case (1 l t)
    show ?case by (rule wp_then [OF sample_record]) (use 1 assms(6) in \<open>auto simp: ready_def\<close>)
  qed
qed

lemma ready_end_of_day:
  assumes "ready oc 3 s"
  shows "wp (end_of_day sample_env (Suc 9) sample_plan) (\<lambda>_ t. ro_outcome t = oc) (\<lambda>_ _. False) s"
  unfolding end_of_day_def sample_times
proof (rule wp_then [OF ready_wait [OF assms]], goal_cases)
  case (5 x t)
  show ?case
  proof (rule wp_then [OF ready_flatten [OF 5]], goal_cases)
    case (1 result u)
    have rec: "wp (record_phase sample_env sample_plan phase a b ds)
        (\<lambda>_ t. ro_outcome t = oc \<and> session_phases.contiguous (oo_repository t)) (\<lambda>_ _. False) v"
      if "ro_outcome v = oc" "session_phases.contiguous (oo_repository v)" for v phase a b ds
      by (rule wp_mono [OF sample_record [OF that(2)]]) (use that in auto)
    have "wp (andthen (record_phase sample_env sample_plan SP_RECONCILIATION (fr_completed_at result) None [(''flatten_complete'', PBool True)])
       (\<lambda>_. andthen (clock_now sample_env) (\<lambda>now. andthen (gets ro_outcome) (\<lambda>outcome.
        andthen (record_phase sample_env sample_plan SP_COMPLETED now None [(''outcome'', PStr (session_outcome_value outcome))])
        (\<lambda>_. modify (\<lambda>s. s\<lparr>ro_final_phase := SP_COMPLETED\<rparr>))))))
       (\<lambda>_ t. ro_outcome t = oc) (\<lambda>_ _. False) (u\<lparr>ro_flatten_result := Some result, ro_final_phase := SP_FLATTENING\<rparr>)"
      by (rule wp_then [OF rec]) (use 1 in \<open>auto simp: wp_clock_now sample_calls intro!: wp_mono [OF rec]\<close>)
    then show ?case using 1 by simp
  qed
qed simp_all

text \<open>The session waits for its moments, finds no setups, flattens and reports that.\<close>

lemma sample_session:
  "\<exists>result t. run_session sample_env (Suc 9) sample_plan (Some 0) (sample_state []) = (Inr result, t) \<and>
     sn_outcome result = SO_NO_SETUPS"
proof -
  have body: "wp (session_body sample_env (Suc 9) sample_plan 0) (\<lambda>_ t. ro_outcome t = SO_NO_SETUPS) (\<lambda>_ _. False) s"
    if "oo_leadership s = empty_leadership" "oo_world s = (0, 10)" "ro_managed_quantities s = []"
      "session_phases.contiguous (oo_repository s)" "\<not> ks_active (ro_kill_switch s)" for s
    unfolding session_body_def
  proof (rule wp_then [OF ready_enter [OF that(1-3) refl that(4,5)]], rule wp_then [OF ready_morning], assumption, goal_cases)
    case (1 x t summary u)
    then have "wp (act_on_evaluation sample_env (Suc 9) sample_plan summary) (\<lambda>_. ready SO_NO_SETUPS 3) (\<lambda>_ _. False) u"
      by (auto simp: act_on_evaluation_def set_progress_def ready_def)
    then show ?case by (rule wp_then) (rule ready_end_of_day)
  qed
  have conclude: "wp (conclude sample_env sample_plan 0) (\<lambda>result _. sn_outcome result = SO_NO_SETUPS) (\<lambda>_ _. False) t"
    if "ro_outcome t = SO_NO_SETUPS" for t
    using that by (simp add: conclude_def wp_clock_now sample_calls store_set_def result_core_def Let_def split: option.splits)
  have guarded: "wp (finally_do (except_exception (session_body sample_env (Suc 9) sample_plan 0) h) (conclude sample_env sample_plan 0))
      (\<lambda>result _. sn_outcome result = SO_NO_SETUPS) (\<lambda>_ _. False) s"
    if "oo_leadership s = empty_leadership" "oo_world s = (0, 10)" "ro_managed_quantities s = []"
      "session_phases.contiguous (oo_repository s)" "\<not> ks_active (ro_kill_switch s)" for s h
    unfolding wp_finally wp_except by (rule wp_mono [OF body [OF that]]) (simp_all add: conclude)
  have ten: "Suc 9 = 10" by simp
  have "wp (run_session sample_env (Suc 9) sample_plan (Some 0)) (\<lambda>result _. sn_outcome result = SO_NO_SETUPS) (\<lambda>_ _. False) (sample_state [])"
    unfolding run_session_def start_kill_switch_def Let_def
    by (simp add: store_op_def save_plan_def put_once_def save_kill_switch_def get_latest_kill_switch_def
        dict_values_def sample_state_def empty_orchestration_repository_def Let_def)
      (rule guarded [unfolded ten], simp_all add: session_phases.contiguous_def list_phases_def log_items_def numbered_def)
  then show ?thesis by (auto simp: wp_def split: prod.splits sum.splits)
qed

theorem session_outcome_sound_witness:
  "\<exists>result t. run_session sample_env (Suc 9) sample_plan (Some 0) (sample_state []) = (Inr result, t) \<and>
     sn_outcome result = SO_NO_SETUPS \<and> sound_result ''session-1'' (sample_state []) result t"
proof -
  obtain result t where run: "run_session sample_env (Suc 9) sample_plan (Some 0) (sample_state []) = (Inr result, t)"
    and oc: "sn_outcome result = SO_NO_SETUPS" using sample_session by blast
  have "latched (oo_repository (sample_state []))" by (simp add: latched_def sample_state_def dict_values_def)
  from session_outcome_sound [OF sample_polite this run] show ?thesis using run oc by auto
qed

end
