(* ===== verification/Feature_Models.thy ===== *)
theory Feature_Models
  imports Contract_Models Decimal_Context Canonical "HOL-Library.Product_Lexorder"
begin

text \<open>
  The data of the feature engine (\<open>daybreak_features/models.py\<close> and \<open>errors.py\<close>) with the
  validators of its models, and the calendar and decimal operations of the standard library it
  uses.
\<close>

section \<open>Calendar\<close>

text \<open>\<open>date.toordinal\<close> and its inverse, as the \<open>datetime\<close> module computes them.\<close>

definition is_leap :: "int \<Rightarrow> bool" where
  "is_leap y \<longleftrightarrow> 4 dvd y \<and> (\<not> 100 dvd y \<or> 400 dvd y)"

definition days_before_year :: "int \<Rightarrow> int" where
  "days_before_year year = (let y = year - 1 in y * 365 + y div 4 - y div 100 + y div 400)"

definition DAYS_BEFORE_MONTH :: "int list" where
  "DAYS_BEFORE_MONTH = [0, 31, 59, 90, 120, 151, 181, 212, 243, 273, 304, 334]"

definition DAYS_IN_MONTH :: "int list" where
  "DAYS_IN_MONTH = [31, 28, 31, 30, 31, 30, 31, 31, 30, 31, 30, 31]"

definition days_before_month :: "int \<Rightarrow> int \<Rightarrow> int" where
  "days_before_month year month =
     DAYS_BEFORE_MONTH ! nat (month - 1) + (if 2 < month \<and> is_leap year then 1 else 0)"

definition toordinal :: "date \<Rightarrow> int" where
  "toordinal d = (case d of (y, m, k) \<Rightarrow> days_before_year y + days_before_month y m + k)"

definition ord2ymd :: "int \<Rightarrow> date" where
  "ord2ymd ordinal =
     (let n = ordinal - 1;
          n400 = n div 146097; n = n mod 146097;
          n100 = n div 36524; n = n mod 36524;
          n4 = n div 1461; n = n mod 1461;
          n1 = n div 365; n = n mod 365;
          year = n400 * 400 + 1 + n100 * 100 + n4 * 4 + n1
      in if n1 = 4 \<or> n100 = 4 then (year - 1, 12, 31)
         else
           let leapyear = (n1 = 3 \<and> (n4 \<noteq> 24 \<or> n100 = 3));
               month = (n + 50) div 32;
               preceding = DAYS_BEFORE_MONTH ! nat (month - 1) + (if 2 < month \<and> leapyear then 1 else 0)
           in if preceding > n then
                (let month = month - 1;
                     preceding = preceding -
                       (DAYS_IN_MONTH ! nat (month - 1) + (if month = 2 \<and> leapyear then 1 else 0))
                 in (year, month, n - preceding + 1))
              else (year, month, n - preceding + 1))"

text \<open>A timestamp counts microseconds from 1970-01-01 UTC, the ordinal 719163.\<close>

definition utc_date :: "timestamp \<Rightarrow> date" where
  "utc_date t = ord2ymd (t div 86400000000 + 719163)"

definition pad :: "nat \<Rightarrow> int \<Rightarrow> string" where
  "pad n i = (let s = show_int i in replicate (n - length s) (CHR ''0'') @ s)"

definition date_text :: "date \<Rightarrow> string" where
  "date_text d = (case d of (y, m, k) \<Rightarrow> pad 4 y @ ''-'' @ pad 2 m @ ''-'' @ pad 2 k)"

text \<open>\<open>isoformat(timespec="microseconds")\<close> of an aware UTC time, with \<open>Z\<close>.\<close>

definition utc_z :: "timestamp \<Rightarrow> string" where
  "utc_z t =
     (let us = t mod 86400000000; seconds = us div 1000000 in
      date_text (utc_date t) @ ''T'' @ pad 2 (seconds div 3600) @ '':'' @ pad 2 (seconds div 60 mod 60) @ '':'' @
      pad 2 (seconds mod 60) @ ''.'' @ pad 6 (us mod 1000000) @ ''Z'')"

text \<open>
  \<open>time.fromisoformat\<close> of the formats \<open>HH\<close>, \<open>HH:MM\<close> and \<open>HH:MM:SS\<close>, in microseconds after midnight.
  Configurations write \<open>HH:MM:SS\<close>; the basic formats without colons, fractions of a second and
  offsets are left out and count as errors.
\<close>

definition two_digit :: "char \<Rightarrow> char \<Rightarrow> int option" where
  "two_digit a b =
     (let x = of_char a - 48; y = of_char b - 48 in
      if 0 \<le> x \<and> x \<le> 9 \<and> 0 \<le> y \<and> y \<le> 9 then Some (10 * x + y) else None)"

definition time_of_parts :: "int option \<Rightarrow> int option \<Rightarrow> int option \<Rightarrow> int option" where
  "time_of_parts hour minute second =
     (case (hour, minute, second) of
        (Some h, Some m, Some s) \<Rightarrow>
          if h < 24 \<and> m < 60 \<and> s < 60 then Some ((h * 3600 + m * 60 + s) * 1000000) else None
      | _ \<Rightarrow> None)"

definition time_of_iso :: "string \<Rightarrow> int option" where
  "time_of_iso s =
     (let part = (\<lambda>i. two_digit (s ! i) (s ! (i + 1))) in
      if length s = 8 \<and> s ! 2 = CHR '':'' \<and> s ! 5 = CHR '':'' then time_of_parts (part 0) (part 3) (part 6)
      else if length s = 5 \<and> s ! 2 = CHR '':'' then time_of_parts (part 0) (part 3) (Some 0)
      else if length s = 2 then time_of_parts (part 0) (Some 0) (Some 0)
      else None)"

section \<open>Decimals\<close>

text \<open>\<open>quantize\<close> to a number of decimal places, half to even.\<close>

definition quantize_places :: "nat \<Rightarrow> rat \<Rightarrow> rat option" where
  "quantize_places p x =
     (let n = round_half_even (x * 10 ^ p) in if \<bar>n\<bar> < 10 ^ 28 then Some (of_int n / 10 ^ p) else None)"

definition quantize_six :: "rat \<Rightarrow> rat option" where
  "quantize_six x = quantize_places 6 x"

text \<open>
  The number that \<open>repr\<close> of a binary64 number shows: the nearest decimal of the fewest
  significant digits that reads back as the same number.
\<close>

definition float_repr :: "rat \<Rightarrow> rat" where
  "float_repr x =
     (case find (\<lambda>n. flt (fix_prec 10 n x) = x) [1..<17] of
        None \<Rightarrow> fix_prec 10 17 x | Some n \<Rightarrow> fix_prec 10 n x)"

section \<open>daybreak\_features/errors.py\<close>

text \<open>
  \<open>DataQualityError\<close> is what the engine handles; every other exception leaves it.
\<close>

datatype feature_error = DataQuality string string | Crash pyerr

type_synonym 'a feature_result = "feature_error + 'a"

definition fbind :: "'a feature_result \<Rightarrow> ('a \<Rightarrow> 'b feature_result) \<Rightarrow> 'b feature_result" where
  "fbind m f = (case m of Inl e \<Rightarrow> Inl e | Inr x \<Rightarrow> f x)"

lemma fbind_simps [simp]: "fbind (Inl e) f = Inl e" "fbind (Inr x) f = f x"
  by (simp_all add: fbind_def)

lemma fbind_Inr_iff: "fbind m f = Inr y \<longleftrightarrow> (\<exists>x. m = Inr x \<and> f x = Inr y)"
  by (cases m) auto

text \<open>The traps of the decimal context.\<close>

definition decimal_op :: "rat option \<Rightarrow> rat feature_result" where
  "decimal_op x = (case x of None \<Rightarrow> Inl (Crash DecimalError) | Some y \<Rightarrow> Inr y)"

lemma decimal_op_Some [simp]: "decimal_op (Some x) = Inr x"
  by (simp add: decimal_op_def)

lemma decimal_op_Inr [simp]: "decimal_op x = Inr y \<longleftrightarrow> x = Some y"
  by (cases x) (simp_all add: decimal_op_def)

section \<open>daybreak\_features/models.py\<close>

datatype trade_action = TA_NEW | TA_CORRECTION | TA_CANCEL

fun trade_action_value :: "trade_action \<Rightarrow> string" where
  "trade_action_value TA_NEW = ''new''"
| "trade_action_value TA_CORRECTION = ''correction''"
| "trade_action_value TA_CANCEL = ''cancel''"

datatype feature_source_type = FS_PRIMARY | FS_SECONDARY | FS_UNCONFIRMED

datatype feature_borrow_status = FB_EASY | FB_HARD_TO_BORROW | FB_UNKNOWN

datatype quality_status = QS_VERIFIED | QS_SINGLE_SOURCE

record daily_bar =
  db_session_date :: date
  db_open :: rat
  db_high :: rat
  db_low :: rat
  db_close :: rat
  db_volume :: int

definition valid_daily_bar :: "daily_bar \<Rightarrow> bool" where
  "valid_daily_bar b \<longleftrightarrow>
     0 < db_open b \<and> 0 < db_high b \<and> 0 < db_low b \<and> 0 < db_close b \<and> 0 \<le> db_volume b \<and>
     \<not> db_high b < max (max (db_open b) (db_close b)) (db_low b) \<and>
     \<not> db_low b > min (min (db_open b) (db_close b)) (db_high b)"

record trade_ledger_event =
  te_ingest_seq :: int
  te_trade_id :: string
  te_action :: trade_action
  te_event_timestamp :: timestamp
  te_price :: "rat option"
  te_size :: "int option"
  te_original_trade_id :: "string option"
  te_eligible :: bool

definition validate_action_fields :: "trade_ledger_event \<Rightarrow> string option" where
  "validate_action_fields e =
     (if te_action e = TA_NEW then
        if te_price e = None \<or> te_size e = None then Some ''new trade requires price and size''
        else if te_original_trade_id e \<noteq> None then Some ''new trade must not have original_trade_id''
        else None
      else
        if te_original_trade_id e = None then Some ''correction/cancel requires original_trade_id''
        else if te_action e = TA_CORRECTION \<and> (te_price e = None \<or> te_size e = None)
        then Some ''correction requires replacement price and size''
        else None)"

definition valid_trade_event :: "trade_ledger_event \<Rightarrow> bool" where
  "valid_trade_event e \<longleftrightarrow>
     0 < te_ingest_seq e \<and> 1 \<le> length (te_trade_id e) \<and> length (te_trade_id e) \<le> 128 \<and>
     (\<forall>p. te_price e = Some p \<longrightarrow> 0 < p) \<and> (\<forall>n. te_size e = Some n \<longrightarrow> 0 < n) \<and>
     (\<forall>t. te_original_trade_id e = Some t \<longrightarrow> 1 \<le> length t \<and> length t \<le> 128) \<and>
     validate_action_fields e = None"

record premarket_session =
  ps_session_date :: date
  ps_events :: "trade_ledger_event list"
  ps_complete :: bool

record float_record =
  fl_ticker :: string
  fl_float_shares :: int
  fl_effective_date :: date
  fl_observed_at :: timestamp
  fl_validated_at :: timestamp
  fl_expires_at :: timestamp
  fl_quality_status :: quality_status
  fl_source :: string
  fl_raw_response_hashes :: "string list"

definition valid_float_record :: "float_record \<Rightarrow> bool" where
  "valid_float_record r \<longleftrightarrow>
     is_canonical_ticker (fl_ticker r) \<and> 0 < fl_float_shares r \<and>
     fl_source r \<in> {''fmp'', ''massive'', ''sec_api'', ''fixture''} \<and>
     list_all valid_hash (fl_raw_response_hashes r) \<and> \<not> fl_expires_at r \<le> fl_validated_at r"

record catalyst_record =
  cr_catalyst_id :: ptext
  cr_ticker :: string
  cr_catalyst_text :: ptext
  cr_source_type :: feature_source_type
  cr_source_name :: ptext
  cr_source_timestamp :: timestamp
  cr_observed_at :: timestamp
  cr_corroborated :: bool
  cr_disqualifier_flags :: "disqualifier_flag list"
  cr_source_hash :: string

definition valid_catalyst_record :: "catalyst_record \<Rightarrow> bool" where
  "valid_catalyst_record c \<longleftrightarrow>
     1 \<le> length (cr_catalyst_id c) \<and> length (cr_catalyst_id c) \<le> 256 \<and> is_canonical_ticker (cr_ticker c) \<and>
     1 \<le> length (cr_catalyst_text c) \<and> 1 \<le> length (cr_source_name c) \<and> length (cr_source_name c) \<le> 256 \<and>
     valid_hash (cr_source_hash c)"

record candidate_source_data =
  cs_ticker :: string
  cs_halted :: bool
  cs_borrow_status :: feature_borrow_status
  cs_previous_regular_close :: rat
  cs_current_session_events :: "trade_ledger_event list"
  cs_historical_premarket_sessions :: "premarket_session list"
  cs_daily_bars :: "daily_bar list"
  cs_history_complete_since_listing :: bool
  cs_float_records :: "float_record list"
  cs_catalysts :: "catalyst_record list"

definition validate_order_and_identity :: "candidate_source_data \<Rightarrow> string option" where
  "validate_order_and_identity c =
     (let dates = map db_session_date (cs_daily_bars c) in
      if dates \<noteq> sort dates \<or> length dates \<noteq> length (remdups dates)
      then Some ''daily_bars must be unique and sorted ascending''
      else if list_ex (\<lambda>r. fl_ticker r \<noteq> cs_ticker c) (cs_float_records c)
      then Some ''float record ticker mismatch''
      else if list_ex (\<lambda>r. cr_ticker r \<noteq> cs_ticker c) (cs_catalysts c)
      then Some ''catalyst ticker mismatch''
      else None)"

definition valid_candidate_source :: "candidate_source_data \<Rightarrow> bool" where
  "valid_candidate_source c \<longleftrightarrow>
     is_canonical_ticker (cs_ticker c) \<and> 0 < cs_previous_regular_close c \<and>
     list_all valid_trade_event (cs_current_session_events c) \<and>
     list_all (\<lambda>s. list_all valid_trade_event (ps_events s)) (cs_historical_premarket_sessions c) \<and>
     list_all valid_daily_bar (cs_daily_bars c) \<and> list_all valid_float_record (cs_float_records c) \<and>
     list_all valid_catalyst_record (cs_catalysts c) \<and> validate_order_and_identity c = None"

record feature_engine_config =
  fc_engine_version :: string
  fc_module_versions :: "(string, string) dict"
  fc_premarket_start_et :: string
  fc_snapshot_time_et :: string
  fc_rvol_lookback_sessions :: int
  fc_atr_period :: int
  fc_min_daily_history :: int
  fc_cluster_lookback_sessions :: int
  fc_pivot_left_width :: int
  fc_pivot_right_width :: int
  fc_cluster_tolerance_atr :: rat
  fc_cluster_recency_sessions :: int
  fc_distance_decimal_places :: int
  fc_blue_sky_sentinel :: rat
  fc_volume_bucket_minutes :: int
  fc_spiky_max_bucket_share :: rat
  fc_spiky_min_nonempty_coverage :: rat
  fc_gap_min_pct :: rat
  fc_premarket_volume_min :: int
  fc_rvol_min :: rat
  fc_resistance_min_atr :: rat
  fc_max_evaluator_candidates :: int
  fc_allow_single_source_float :: bool

definition valid_engine_config :: "feature_engine_config \<Rightarrow> bool" where
  "valid_engine_config c \<longleftrightarrow>
     fc_engine_version c = ''daily_features_v1'' \<and> 1 \<le> fc_rvol_lookback_sessions c \<and> fc_atr_period c = 14 \<and>
     14 \<le> fc_min_daily_history c \<and> fc_cluster_lookback_sessions c = 180 \<and> fc_pivot_left_width c = 5 \<and>
     fc_pivot_right_width c = 5 \<and> fc_cluster_recency_sessions c = 120 \<and> fc_distance_decimal_places c = 6 \<and>
     fc_volume_bucket_minutes c = 5 \<and> 1 \<le> fc_max_evaluator_candidates c \<and> fc_max_evaluator_candidates c \<le> 25 \<and>
     \<not> (fc_spiky_max_bucket_share c \<le> 0 \<or> fc_spiky_max_bucket_share c > 1) \<and>
     \<not> (fc_spiky_min_nonempty_coverage c \<le> 0 \<or> fc_spiky_min_nonempty_coverage c > 1)"

definition default_engine_config :: feature_engine_config where
  "default_engine_config =
     \<lparr>fc_engine_version = ''daily_features_v1'',
      fc_module_versions = map (\<lambda>k. (k, ''1.0.1''))
        [''trade_ledger'', ''gap'', ''premarket_volume'', ''rvol_time_matched'', ''atr_wilder_14'', ''premarket_vwap'',
         ''volume_profile'', ''daily_pivot_cluster_v1'', ''float_join'', ''news_join'', ''prequalification'',
         ''snapshot_builder''],
      fc_premarket_start_et = ''04:00:00'', fc_snapshot_time_et = ''09:23:00'', fc_rvol_lookback_sessions = 20,
      fc_atr_period = 14, fc_min_daily_history = 30, fc_cluster_lookback_sessions = 180, fc_pivot_left_width = 5,
      fc_pivot_right_width = 5, fc_cluster_tolerance_atr = 1 / 2, fc_cluster_recency_sessions = 120,
      fc_distance_decimal_places = 6, fc_blue_sky_sentinel = 99, fc_volume_bucket_minutes = 5,
      fc_spiky_max_bucket_share = 35 / 100, fc_spiky_min_nonempty_coverage = 60 / 100, fc_gap_min_pct = 4,
      fc_premarket_volume_min = 500000, fc_rvol_min = 5, fc_resistance_min_atr = 1,
      fc_max_evaluator_candidates = 20, fc_allow_single_source_float = True\<rparr>"

record feature_context =
  fx_evaluation_timestamp :: timestamp
  fx_payload_timestamp :: timestamp
  fx_catalyst_freshness_threshold_hours :: rat
  fx_market_status :: market_status
  fx_candidates :: "candidate_source_data list"
  fx_config :: feature_engine_config

definition validate_context :: "feature_context \<Rightarrow> string option" where
  "validate_context c =
     (let symbols = map cs_ticker (fx_candidates c) in
      if fx_evaluation_timestamp c < fx_payload_timestamp c
      then Some ''evaluation_timestamp cannot precede payload_timestamp''
      else if length symbols \<noteq> length (remdups symbols) then Some ''candidate tickers must be unique''
      else None)"

definition valid_feature_context :: "feature_context \<Rightarrow> bool" where
  "valid_feature_context c \<longleftrightarrow>
     0 < fx_catalyst_freshness_threshold_hours c \<and> list_all valid_candidate_source (fx_candidates c) \<and>
     valid_engine_config (fx_config c) \<and> validate_context c = None"

record materialized_trade =
  mz_trade_id :: string
  mz_event_timestamp :: timestamp
  mz_price :: rat
  mz_size :: int
  mz_ingest_seq :: int

datatype resistance_source = SRC_PIVOT_CLUSTER | SRC_ALL_TIME_HIGH_FALLBACK | SRC_NONE_ABOVE_ALL_TIME_HIGH

record resistance_audit =
  ra_available_completed_bars :: int
  ra_cluster_lookback_bars :: int
  ra_all_time_high_price :: rat
  ra_all_time_high_date :: date
  ra_confirmed_pivot_count :: int
  ra_synthetic_lookback_high_added :: bool
  ra_valid_cluster_count :: int
  ra_selected_resistance_source :: resistance_source
  ra_selected_zone_low :: "rat option"
  ra_selected_zone_high :: "rat option"
  ra_selected_zone_center :: "rat option"
  ra_selected_touch_count :: "int option"
  ra_selected_touch_dates :: "date list"
  ra_raw_distance_to_resistance_atr :: "rat option"
  ra_distance_to_resistance_atr :: rat
  ra_chart_structure :: chart_structure
  ra_is_blue_sky_sentinel :: bool

record candidate_features =
  cf_ticker :: string
  cf_halted :: bool
  cf_current_price :: rat
  cf_premarket_low :: rat
  cf_gap_pct :: rat
  cf_premarket_volume :: int
  cf_rvol_time_matched :: rat
  cf_atr_value :: rat
  cf_premarket_vwap :: rat
  cf_distance_from_vwap_atr :: rat
  cf_volume_profile :: volume_profile
  cf_float_shares :: int
  cf_borrow_status :: feature_borrow_status
  cf_resistance :: resistance_audit
  cf_catalyst :: catalyst_record
  cf_catalyst_age_hours :: rat
  cf_feature_source_hash :: string

definition valid_candidate_features :: "candidate_features \<Rightarrow> bool" where
  "valid_candidate_features f \<longleftrightarrow>
     is_canonical_ticker (cf_ticker f) \<and> 0 < cf_current_price f \<and> 0 < cf_premarket_low f \<and>
     0 \<le> cf_premarket_volume f \<and> 0 \<le> cf_rvol_time_matched f \<and> 0 < cf_atr_value f \<and> 0 < cf_premarket_vwap f \<and>
     0 < cf_float_shares f \<and> 0 \<le> cf_catalyst_age_hours f \<and> valid_hash (cf_feature_source_hash f)"

record prequalification_decision =
  pq_ticker :: string
  pq_accepted :: bool
  pq_reason_codes :: "string list"
  pq_feature_source_hash :: "string option"

record capacity_omission =
  co_ticker :: string
  co_final_capacity_rank :: int

record feature_snapshot =
  fn_snapshot_id :: string
  fn_context_hash :: string
  fn_audit_hash :: string
  fn_payload :: daybreak_input
  fn_payload_hash :: string
  fn_feature_hash :: string
  fn_configuration_hash :: string
  fn_module_manifest :: "(string, string) dict"
  fn_prequalification :: "prequalification_decision list"
  fn_capacity_omissions :: "capacity_omission list"
  fn_accepted_feature_records :: "candidate_features list"

definition terminal_consistency :: "feature_snapshot \<Rightarrow> string option" where
  "terminal_consistency s =
     (if map ti_ticker (di_tickers (fn_payload s)) \<noteq> map cf_ticker (fn_accepted_feature_records s)
      then Some ''payload and accepted feature record order must match'' else None)"

end
