(* ===== verification/Evaluator_Models.thy ===== *)
theory Evaluator_Models
  imports Feature_Models Validation Store
begin

text \<open>
  The data of the evaluator (\<open>daybreak_evaluator/models.py\<close>): the policy, the request with its
  evidence, what the provider returns, the attempts, the comparison with the shadow model and
  the result of a run, with their validators. A \<open>frozenset\<close> of tickers is the list of its
  elements in order; texts of the provider are UTF-8 bytes.
\<close>

section \<open>Enums\<close>

datatype attempt_role = ROLE_PRIMARY | ROLE_SHADOW

fun attempt_role_value :: "attempt_role \<Rightarrow> string" where
  "attempt_role_value ROLE_PRIMARY = ''primary''"
| "attempt_role_value ROLE_SHADOW = ''shadow''"

datatype attempt_status =
    AT_SUCCEEDED | AT_DEADLINE_EXCEEDED | AT_TRANSPORT_ERROR | AT_REFUSED | AT_INCOMPLETE | AT_EMPTY_OUTPUT
  | AT_INVALID_JSON | AT_SCHEMA_INVALID | AT_INVARIANT_INVALID | AT_CANCELED

datatype evaluator_run_status = RUN_PRIMARY_VALID | RUN_PRIMARY_INVALID | RUN_CUTOFF_MISSED | RUN_INPUT_REJECTED

section \<open>Policy and request\<close>

record token_usage =
  tu_input_tokens :: int
  tu_cached_input_tokens :: int
  tu_output_tokens :: int
  tu_reasoning_tokens :: int
  tu_total_tokens :: int

definition no_usage :: token_usage where
  "no_usage = \<lparr>tu_input_tokens = 0, tu_cached_input_tokens = 0, tu_output_tokens = 0, tu_reasoning_tokens = 0,
     tu_total_tokens = 0\<rparr>"

record evaluator_policy =
  evp_policy_version :: string
  evp_primary_model :: string
  evp_shadow_model :: "string option"
  evp_reasoning_effort :: string
  evp_max_output_tokens :: int
  evp_max_attempts :: int
  evp_max_evaluator_candidates_hard :: int
  evp_request_timeout_seconds :: pyfloat
  evp_shadow_timeout_seconds :: pyfloat
  evp_schema_name :: string
  evp_store_raw_provider_response :: bool

definition default_evaluator_policy :: evaluator_policy where
  "default_evaluator_policy =
     \<lparr>evp_policy_version = ''evaluator_policy_v1'', evp_primary_model = ''gpt-5.6-terra'',
      evp_shadow_model = Some ''gpt-5.6-sol'', evp_reasoning_effort = ''low'', evp_max_output_tokens = 64000,
      evp_max_attempts = 2, evp_max_evaluator_candidates_hard = 25, evp_request_timeout_seconds = 90,
      evp_shadow_timeout_seconds = 180, evp_schema_name = ''project_daybreak_v6_3_output'',
      evp_store_raw_provider_response = True\<rparr>"

text \<open>
  \<open>not name.strip()\<close>: nothing is left of the name but white space, in ASCII; a name of the
  program is an ASCII identifier.
\<close>

definition blank_name :: "string \<Rightarrow> bool" where
  "blank_name s \<longleftrightarrow> list_all (\<lambda>c. let n = (of_char c :: nat) in 9 \<le> n \<and> n \<le> 13 \<or> 28 \<le> n \<and> n \<le> 32) s"

definition validate_evaluator_models :: "evaluator_policy \<Rightarrow> string option" where
  "validate_evaluator_models p =
     (if blank_name (evp_primary_model p) then Some ''primary_model must be nonempty''
      else case evp_shadow_model p of
        None \<Rightarrow> None
      | Some m \<Rightarrow>
          if blank_name m then Some ''shadow_model must be nonempty when supplied''
          else if m = evp_primary_model p then Some ''shadow_model must differ from primary_model''
          else None)"

definition valid_evaluator_policy :: "evaluator_policy \<Rightarrow> bool" where
  "valid_evaluator_policy p \<longleftrightarrow>
     evp_policy_version p = ''evaluator_policy_v1'' \<and>
     evp_reasoning_effort p \<in> {''none'', ''low'', ''medium'', ''high'', ''xhigh'', ''max''} \<and>
     1000 \<le> evp_max_output_tokens p \<and> evp_max_output_tokens p \<le> 128000 \<and>
     1 \<le> evp_max_attempts p \<and> evp_max_attempts p \<le> 2 \<and>
     1 \<le> evp_max_evaluator_candidates_hard p \<and> evp_max_evaluator_candidates_hard p \<le> 25 \<and>
     0 < evp_request_timeout_seconds p \<and> evp_request_timeout_seconds p \<le> 300 \<and>
     0 < evp_shadow_timeout_seconds p \<and> evp_shadow_timeout_seconds p \<le> 600 \<and>
     evp_schema_name p = ''project_daybreak_v6_3_output'' \<and> validate_evaluator_models p = None"

record evaluation_evidence =
  evd_snapshot_id :: "string option"
  evd_context_hash :: "string option"
  evd_payload_hash :: string
  evd_feature_hash :: "string option"
  evd_audit_hash :: "string option"
  evd_configuration_hash :: string
  evd_prequalified_out_tickers :: "string list"
  evd_capacity_omitted_tickers :: "string list"
  evd_capacity_omissions_logged :: "string list"
  evd_preselection_policy_version :: "string option"

record evaluation_request =
  evq_run_id :: string
  evq_input_payload :: daybreak_input
  evq_evidence :: evaluation_evidence
  evq_response_cutoff_timestamp :: timestamp
  evq_requested_at :: timestamp

text \<open>The JSON documents of the models, as pydantic dumps them.\<close>

record evaluator_dumps =
  vd_payload :: "daybreak_input \<Rightarrow> json"
  vd_evidence :: "evaluation_evidence \<Rightarrow> json"
  vd_policy :: "evaluator_policy \<Rightarrow> json"
  vd_output :: "daybreak_output \<Rightarrow> json"

definition validate_evaluation_request :: "evaluator_dumps \<Rightarrow> evaluation_request \<Rightarrow> string option" where
  "validate_evaluation_request dumps r =
     (if evq_response_cutoff_timestamp r \<le> evq_requested_at r
      then Some ''response cutoff must be after requested_at''
      else if evd_payload_hash (evq_evidence r) \<noteq> canonical_sha256 (vd_payload dumps (evq_input_payload r))
      then Some ''payload_hash must match the canonical evaluator input''
      else None)"

definition valid_evaluation_request :: "evaluator_dumps \<Rightarrow> evaluation_request \<Rightarrow> bool" where
  "valid_evaluation_request dumps r \<longleftrightarrow>
     1 \<le> length (evq_run_id r) \<and> length (evq_run_id r) \<le> 128 \<and> valid_daybreak_input (evq_input_payload r) \<and>
     valid_hash (evd_configuration_hash (evq_evidence r)) \<and> validate_evaluation_request dumps r = None"

section \<open>Provider results and attempts\<close>

record provider_result =
  prr_response_id :: "string option"
  prr_model :: string
  prr_created_at :: "timestamp option"
  prr_completed_at :: timestamp
  prr_output_text :: "string option"
  prr_refusal :: "string option"
  prr_incomplete_reason :: "string option"
  prr_usage :: token_usage
  prr_raw_response :: "json option"

record evaluation_attempt =
  att_attempt_id :: string
  att_run_id :: string
  att_role :: attempt_role
  att_attempt_number :: int
  att_model :: string
  att_request_started_at :: timestamp
  att_response_received_at :: "timestamp option"
  att_status :: attempt_status
  att_request_hash :: string
  att_prompt_hash :: string
  att_spec_hash :: string
  att_schema_hash :: string
  att_response_id :: "string option"
  att_raw_output_text :: "string option"
  att_raw_provider_response :: "json option"
  att_response_text_hash :: "string option"
  att_raw_response_hash :: "string option"
  att_output :: "daybreak_output option"
  att_validation_report :: "validation_report option"
  att_usage :: token_usage
  att_error_type :: "string option"
  att_error_message :: "string option"

definition terminal_shape_attempt :: "evaluation_attempt \<Rightarrow> string option" where
  "terminal_shape_attempt a =
     (if att_status a = AT_SUCCEEDED then
        (case (att_output a, att_validation_report a) of
           (Some d, Some report) \<Rightarrow>
             if \<not> vr_valid report then Some ''successful attempt requires a valid report'' else None
         | _ \<Rightarrow> Some ''successful attempt requires output and validation_report'')
      else None)"

definition valid_attempt :: "evaluation_attempt \<Rightarrow> bool" where
  "valid_attempt a \<longleftrightarrow>
     1 \<le> att_attempt_number a \<and> att_attempt_number a \<le> 2 \<and> valid_hash (att_request_hash a) \<and>
     valid_hash (att_prompt_hash a) \<and> valid_hash (att_spec_hash a) \<and> valid_hash (att_schema_hash a) \<and>
     (case att_response_text_hash a of None \<Rightarrow> True | Some h \<Rightarrow> valid_hash h) \<and>
     (case att_raw_response_hash a of None \<Rightarrow> True | Some h \<Rightarrow> valid_hash h) \<and>
     terminal_shape_attempt a = None"

section \<open>Comparison and results\<close>

record ticker_disagreement =
  tdg_ticker :: string
  tdg_primary_terminal :: "string option"
  tdg_shadow_terminal :: "string option"
  tdg_primary_magnitude_bucket :: "string option"
  tdg_shadow_magnitude_bucket :: "string option"
  tdg_primary_conviction_score :: "int option"
  tdg_shadow_conviction_score :: "int option"
  tdg_evidence_span_equal :: "bool option"

record shadow_comparison =
  shc_comparison_version :: string
  shc_primary_attempt_id :: string
  shc_shadow_attempt_id :: string
  shc_exact_output_match :: bool
  shc_same_run_status :: bool
  shc_same_approved_order :: bool
  shc_ticker_disagreements :: "ticker_disagreement list"
  shc_primary_output_hash :: string
  shc_shadow_output_hash :: string

record shadow_evaluation_result =
  ser_run_id :: string
  ser_attempts :: "evaluation_attempt list"
  ser_comparison :: "shadow_comparison option"

record evaluation_run_result =
  evr_run_id :: string
  evr_status :: evaluator_run_status
  evr_request :: evaluation_request
  evr_primary_attempts :: "evaluation_attempt list"
  evr_shadow_attempts :: "evaluation_attempt list"
  evr_selected_primary_attempt_id :: "string option"
  evr_output :: "daybreak_output option"
  evr_comparison :: "shadow_comparison option"
  evr_decision_ready_at :: "timestamp option"
  evr_late_response_rejected :: bool

definition coherent_run_result :: "evaluation_run_result \<Rightarrow> string option" where
  "coherent_run_result r =
     (let attempts = evr_primary_attempts r @ evr_shadow_attempts r in
      if evr_run_id r \<noteq> evq_run_id (evr_request r) then Some ''result run_id must match the request''
      else if list_ex (\<lambda>a. att_run_id a \<noteq> evr_run_id r) attempts
      then Some ''all attempts must belong to the result run''
      else if list_ex (\<lambda>a. att_role a \<noteq> ROLE_PRIMARY) (evr_primary_attempts r)
      then Some ''primary_attempts may contain only primary attempts''
      else if list_ex (\<lambda>a. att_role a \<noteq> ROLE_SHADOW) (evr_shadow_attempts r)
      then Some ''shadow_attempts may contain only shadow attempts''
      else if length (remdups (map att_attempt_id attempts)) \<noteq> length attempts
      then Some ''attempt ids must be unique''
      else
        let shape =
          (if evr_status r = RUN_PRIMARY_VALID then
             (if evr_selected_primary_attempt_id r = None \<or> evr_output r = None \<or>
                 evr_decision_ready_at r = None \<or> evr_late_response_rejected r
              then Some ''primary-valid result requires timely selected output''
              else case List.find (\<lambda>a. Some (att_attempt_id a) = evr_selected_primary_attempt_id r)
                    (evr_primary_attempts r) of
                None \<Rightarrow> Some ''selected primary attempt must be successful and match output''
              | Some selected \<Rightarrow>
                  if att_status selected \<noteq> AT_SUCCEEDED \<or> att_output selected \<noteq> evr_output r
                  then Some ''selected primary attempt must be successful and match output'' else None)
           else if evr_selected_primary_attempt_id r \<noteq> None \<or> evr_output r \<noteq> None \<or> evr_decision_ready_at r \<noteq> None
           then Some ''non-valid result cannot carry executable output''
           else None)
        in if shape \<noteq> None then shape
           else if evr_late_response_rejected r \<noteq> (evr_status r = RUN_CUTOFF_MISSED)
           then Some ''late response flag must match cutoff-missed status''
           else None)"

definition executable_candidate_output :: "evaluation_run_result \<Rightarrow> daybreak_output option" where
  "executable_candidate_output r =
     (if evr_status r \<noteq> RUN_PRIMARY_VALID \<or> evr_late_response_rejected r then None else evr_output r)"

section \<open>daybreak\_evaluator/persistence.py, the in-memory repository\<close>

record memory_evaluator_repository =
  mv_requests :: "(string, evaluation_request) dict"
  mv_attempts :: "(string, evaluation_attempt) dict"
  mv_comparisons :: "(string, shadow_comparison) dict"
  mv_results :: "(string, evaluation_run_result) dict"

definition empty_evaluator_repository :: memory_evaluator_repository where
  "empty_evaluator_repository = \<lparr>mv_requests = [], mv_attempts = [], mv_comparisons = [], mv_results = []\<rparr>"

definition save_evaluation_request ::
    "evaluation_request \<Rightarrow> memory_evaluator_repository \<Rightarrow> pyerr + memory_evaluator_repository" where
  "save_evaluation_request request s =
     map_sum id (\<lambda>d. s\<lparr>mv_requests := d\<rparr>)
       (put_once ''evaluator request identity collision'' (evq_run_id request) request (mv_requests s))"

definition save_attempt ::
    "evaluation_attempt \<Rightarrow> memory_evaluator_repository \<Rightarrow> pyerr + memory_evaluator_repository" where
  "save_attempt attempt s =
     map_sum id (\<lambda>d. s\<lparr>mv_attempts := d\<rparr>)
       (put_once ''evaluator attempt identity collision'' (att_attempt_id attempt) attempt (mv_attempts s))"

definition save_comparison ::
    "string \<Rightarrow> shadow_comparison \<Rightarrow> memory_evaluator_repository \<Rightarrow> pyerr + memory_evaluator_repository" where
  "save_comparison run_id comparison s =
     map_sum id (\<lambda>d. s\<lparr>mv_comparisons := d\<rparr>)
       (put_once ''evaluator comparison identity collision'' run_id comparison (mv_comparisons s))"

definition save_evaluation_result ::
    "evaluation_run_result \<Rightarrow> memory_evaluator_repository \<Rightarrow> pyerr + memory_evaluator_repository" where
  "save_evaluation_result result s =
     map_sum id (\<lambda>d. s\<lparr>mv_results := d\<rparr>)
       (put_once ''evaluator result identity collision'' (evr_run_id result) result (mv_results s))"

definition get_evaluation_result :: "memory_evaluator_repository \<Rightarrow> string \<Rightarrow> evaluation_run_result option" where
  "get_evaluation_result s run_id = map_of (mv_results s) run_id"

definition stored_evaluation_request :: "memory_evaluator_repository \<Rightarrow> string \<Rightarrow> evaluation_request option" where
  "stored_evaluation_request s = map_of (mv_requests s)"

definition stored_attempt :: "memory_evaluator_repository \<Rightarrow> string \<Rightarrow> evaluation_attempt option" where
  "stored_attempt s = map_of (mv_attempts s)"

lemmas evaluator_reads = stored_evaluation_request_def stored_attempt_def get_evaluation_result_def

interpretation evaluator_requests: append_only_store stored_evaluation_request evq_run_id save_evaluation_request
  by unfold_locales (auto simp: evaluator_reads save_evaluation_request_def put_once_def setdefault_present)

interpretation evaluator_attempts: append_only_store stored_attempt att_attempt_id save_attempt
  by unfold_locales (auto simp: evaluator_reads save_attempt_def put_once_def setdefault_present)

interpretation evaluator_results: append_only_store get_evaluation_result evr_run_id save_evaluation_result
  by unfold_locales (auto simp: evaluator_reads save_evaluation_result_def put_once_def setdefault_present)

end
