(* ===== verification/Json_Text.thy ===== *)
theory Json_Text
  imports Prelude
begin

text \<open>
  Which texts \<open>json.loads\<close> of the Python standard library accepts, as a pushdown automaton over
  the text: its grammar is that of JSON with the constants \<open>NaN\<close>, \<open>Infinity\<close> and
  \<open>-Infinity\<close>, white space between the tokens, no control characters within strings. An
  integer of more than 4300 digits raises a \<open>ValueError\<close> that is no \<open>JSONDecodeError\<close>. The
  decoded value is not modelled: the program only asks whether decoding fails.
\<close>

datatype json_failure = NotJson | IntTooLong nat

definition json_space :: "char \<Rightarrow> bool" where
  "json_space c \<longleftrightarrow> (of_char c :: nat) \<in> {9, 10, 13, 32}"

definition json_digit :: "char \<Rightarrow> bool" where
  "json_digit c \<longleftrightarrow> (let n = (of_char c :: nat) in 48 \<le> n \<and> n \<le> 57)"

definition is_hex :: "char \<Rightarrow> bool" where
  "is_hex c \<longleftrightarrow> (let n = (of_char c :: nat) in 48 \<le> n \<and> n \<le> 57 \<or> 65 \<le> n \<and> n \<le> 70 \<or> 97 \<le> n \<and> n \<le> 102)"

text \<open>The rest of the text after an escape whose backslash has been read.\<close>

definition skip_escape :: "string \<Rightarrow> string option" where
  "skip_escape s =
     (case s of
        [] \<Rightarrow> None
      | e # ds \<Rightarrow>
          if e = CHR ''u'' then (if 4 \<le> length ds \<and> list_all is_hex (take 4 ds) then Some (drop 4 ds) else None)
          else if (of_char e :: nat) \<in> {34, 92} \<or> e \<in> set ''/bfnrt'' then Some ds
          else None)"

lemma skip_escape_shorter: "skip_escape s = Some rest \<Longrightarrow> length rest < length s"
  by (cases s) (auto simp: skip_escape_def split: if_splits)

text \<open>The rest of the text after a string whose opening quote has been read.\<close>

function scan_string :: "string \<Rightarrow> json_failure + string" where
  "scan_string [] = Inl NotJson"
| "scan_string (c # cs) =
     (if (of_char c :: nat) = 34 then Inr cs
      else if (of_char c :: nat) = 92 then
        (case skip_escape cs of None \<Rightarrow> Inl NotJson | Some rest \<Rightarrow> scan_string rest)
      else if (of_char c :: nat) < 32 then Inl NotJson
      else scan_string cs)"
  by pat_completeness auto

termination
  by (relation "measure length") (auto dest: skip_escape_shorter)

text \<open>\<open>-?(0|[1-9][0-9]*)(\.[0-9]+)?([eE][-+]?[0-9]+)?\<close>, each part as long as possible.\<close>

definition scan_fraction :: "string \<Rightarrow> string \<times> bool" where
  "scan_fraction s =
     (case s of
        c # d # cs \<Rightarrow> if c = CHR ''.'' \<and> json_digit d then (dropWhile json_digit cs, True) else (s, False)
      | _ \<Rightarrow> (s, False))"

definition scan_exponent :: "string \<Rightarrow> string \<times> bool" where
  "scan_exponent s =
     (case s of
        c # cs \<Rightarrow>
          if c \<in> set ''eE'' then
            let ds = (case cs of x # xs \<Rightarrow> if x \<in> set ''+-'' then xs else cs | [] \<Rightarrow> cs) in
            (case ds of d # rest \<Rightarrow> if json_digit d then (dropWhile json_digit rest, True) else (s, False) | [] \<Rightarrow> (s, False))
          else (s, False)
      | [] \<Rightarrow> (s, False))"

definition drop_sign :: "string \<Rightarrow> string" where
  "drop_sign s = (case s of c # cs \<Rightarrow> if c = CHR ''-'' then cs else s | [] \<Rightarrow> s)"

fun scan_digits :: "string \<Rightarrow> string option" where
  "scan_digits [] = None"
| "scan_digits (d # ds) =
     (if \<not> json_digit d then None else Some (if d = CHR ''0'' then ds else dropWhile json_digit ds))"

definition scan_number :: "string \<Rightarrow> json_failure + string" where
  "scan_number s =
     (case scan_digits (drop_sign s) of
        None \<Rightarrow> Inl NotJson
      | Some rest \<Rightarrow>
          let fraction = scan_fraction rest;
              exponent = scan_exponent (fst fraction);
              count = length (drop_sign s) - length rest
          in if \<not> snd fraction \<and> \<not> snd exponent \<and> 4300 < count then Inl (IntTooLong count)
             else Inr (fst exponent))"

definition starts_with :: "string \<Rightarrow> string \<Rightarrow> bool" where
  "starts_with p s \<longleftrightarrow> take (length p) s = p"

definition json_constants :: "string list" where
  "json_constants = [''null'', ''true'', ''false'', ''NaN'', ''Infinity'', ''-Infinity'']"

text \<open>A string, a number or a constant at the start of the text.\<close>

definition scan_scalar :: "string \<Rightarrow> json_failure + string" where
  "scan_scalar s =
     (case s of
        [] \<Rightarrow> Inl NotJson
      | c # cs \<Rightarrow>
          if (of_char c :: nat) = 34 then scan_string cs
          else case List.find (\<lambda>p. starts_with p s) json_constants of
            Some p \<Rightarrow> Inr (drop (length p) s)
          | None \<Rightarrow> scan_number s)"

lemma scan_string_shorter: "scan_string s = Inr rest \<Longrightarrow> length rest < length s"
proof (induction s rule: scan_string.induct)
  case (2 c cs)
  then show ?case
    by (force split: if_splits option.splits dest: skip_escape_shorter)
qed simp

lemma length_scan_fraction: "length (fst (scan_fraction s)) \<le> length s"
  by (auto simp: scan_fraction_def le_SucI length_dropWhile_le split: list.splits)

lemma length_scan_exponent: "length (fst (scan_exponent s)) \<le> length s"
  by (auto simp: scan_exponent_def Let_def le_SucI length_dropWhile_le split: list.splits)

lemma scan_digits_shorter: "scan_digits s = Some rest \<Longrightarrow> length rest < length s"
  by (cases s) (auto simp: less_Suc_eq_le length_dropWhile_le split: if_splits)

lemma length_drop_sign: "length (drop_sign s) \<le> length s"
  by (auto simp: drop_sign_def split: list.splits)

lemma scan_number_shorter:
  assumes "scan_number s = Inr rest"
  shows "length rest < length s"
proof -
  obtain r where r: "scan_digits (drop_sign s) = Some r" "rest = fst (scan_exponent (fst (scan_fraction r)))"
    using assms by (auto simp: scan_number_def Let_def split: option.splits if_splits)
  have "length rest \<le> length r" using length_scan_exponent length_scan_fraction le_trans unfolding r(2) by blast
  also have "\<dots> < length (drop_sign s)" using r(1) by (rule scan_digits_shorter)
  also have "\<dots> \<le> length s" by (rule length_drop_sign)
  finally show ?thesis .
qed

lemma scan_scalar_shorter: "scan_scalar s = Inr rest \<Longrightarrow> length rest < length s"
  by (auto simp: scan_scalar_def json_constants_def dest: scan_string_shorter scan_number_shorter
      split: list.splits if_splits option.splits)

section \<open>The automaton\<close>

datatype container = InArray | InObject

datatype expected = NeedValue | ValueOrClose | NeedKey | KeyOrClose | NeedColon | AfterValue

lemma dropWhile_shorter: "dropWhile P s = c # cs \<Longrightarrow> length cs < length s"
  using length_dropWhile_le [of P s] by (simp del: dropWhile_eq_Cons_conv)

function (sequential) json_run :: "container list \<Rightarrow> expected \<Rightarrow> string \<Rightarrow> json_failure option" where
  "json_run stack st s =
     (case dropWhile json_space s of
        [] \<Rightarrow> if st = AfterValue \<and> stack = [] then None else Some NotJson
      | c # cs \<Rightarrow>
          if st = AfterValue then
            (case stack of
               [] \<Rightarrow> Some NotJson
             | InArray # outer \<Rightarrow>
                 if c = CHR '']'' then json_run outer AfterValue cs
                 else if c = CHR '','' then json_run stack NeedValue cs else Some NotJson
             | InObject # outer \<Rightarrow>
                 if c = CHR ''}'' then json_run outer AfterValue cs
                 else if c = CHR '','' then json_run stack NeedKey cs else Some NotJson)
          else if st = NeedColon then (if c = CHR '':'' then json_run stack NeedValue cs else Some NotJson)
          else if st = NeedKey \<or> st = KeyOrClose then
            (if (of_char c :: nat) = 34 then
               (case scan_string cs of Inl e \<Rightarrow> Some e | Inr rest \<Rightarrow> json_run stack NeedColon rest)
             else if st = KeyOrClose \<and> c = CHR ''}'' then json_run (tl stack) AfterValue cs
             else Some NotJson)
          else if st = ValueOrClose \<and> c = CHR '']'' then json_run (tl stack) AfterValue cs
          else if c = CHR ''['' then json_run (InArray # stack) ValueOrClose cs
          else if c = CHR ''{'' then json_run (InObject # stack) KeyOrClose cs
          else case scan_scalar (c # cs) of Inl e \<Rightarrow> Some e | Inr rest \<Rightarrow> json_run stack AfterValue rest)"
  by pat_completeness auto

termination
  by (relation "measure (\<lambda>(stack, st, s). length s)")
    (auto simp del: dropWhile_eq_Cons_conv dest!: dropWhile_shorter dest: scan_string_shorter scan_scalar_shorter)

declare json_run.simps [simp del]

text \<open>\<open>json.loads\<close>: no result means that the text is decoded.\<close>

definition json_loads :: "string \<Rightarrow> json_failure option" where
  "json_loads = json_run [] NeedValue"

end
