(* ===== verification/Evaluator.thy ===== *)
theory Evaluator
  imports Evaluator_Models Json_Text
begin

text \<open>
  The evaluator: the prompt (\<open>daybreak_evaluator/prompt.py\<close>), the comparison of two outputs
  (\<open>comparison.py\<close>) and the service that calls the language model, checks its answer and
  retries (\<open>service.py\<close>). The provider behind the transport, the clock, the source of
  identifiers, the files, pydantic's parser of the output and the texts of its errors are
  parameters. The in-memory repository is used; the null repository stores nothing.
\<close>

section \<open>daybreak\_evaluator/comparison.py\<close>

definition terminal_map :: "daybreak_output \<Rightarrow> (string, string \<times> terminal_record) dict" where
  "terminal_map d =
     fold (\<lambda>x m. AList.update (ex_ticker x) (''excluded'', TExcluded x) m) (out_excluded_tickers d)
       (fold (\<lambda>q m. AList.update (qn_ticker q) (''qualified_not_selected'', TQualified q) m) (out_qualified_not_selected d)
         (fold (\<lambda>a m. AList.update (ap_ticker a) (''approved'', TApproved a) m) (out_approved_setups d) []))"

fun conviction_of :: "terminal_record option \<Rightarrow> int option" where
  "conviction_of (Some (TApproved a)) = Some (ap_conviction_score a)"
| "conviction_of (Some (TQualified q)) = Some (qn_conviction_score q)"
| "conviction_of _ = None"

definition same_evidence :: "score_breakdown \<Rightarrow> score_breakdown \<Rightarrow> bool" where
  "same_evidence p s \<longleftrightarrow>
     sb_magnitude_evidence_excerpt p = sb_magnitude_evidence_excerpt s \<and>
     sb_magnitude_evidence_start_char p = sb_magnitude_evidence_start_char s \<and>
     sb_magnitude_evidence_end_char p = sb_magnitude_evidence_end_char s"

definition disagreement_of ::
    "string \<Rightarrow> (string \<times> terminal_record) option \<Rightarrow> (string \<times> terminal_record) option \<Rightarrow>
     ticker_disagreement option" where
  "disagreement_of ticker p s =
     (let p_terminal = map_option fst p; p_record = map_option snd p;
          s_terminal = map_option fst s; s_record = map_option snd s;
          p_score = map_option score_of p_record; s_score = map_option score_of s_record;
          p_bucket = map_option (\<lambda>x. magnitude_bucket_value (sb_catalyst_magnitude_bucket x)) p_score;
          s_bucket = map_option (\<lambda>x. magnitude_bucket_value (sb_catalyst_magnitude_bucket x)) s_score;
          evidence_equal = (case (p_score, s_score) of (Some x, Some y) \<Rightarrow> Some (same_evidence x y) | _ \<Rightarrow> None)
      in if p_terminal \<noteq> s_terminal \<or> p_bucket \<noteq> s_bucket \<or> conviction_of p_record \<noteq> conviction_of s_record \<or>
            evidence_equal = Some False
         then Some \<lparr>tdg_ticker = ticker, tdg_primary_terminal = p_terminal, tdg_shadow_terminal = s_terminal,
           tdg_primary_magnitude_bucket = p_bucket, tdg_shadow_magnitude_bucket = s_bucket,
           tdg_primary_conviction_score = conviction_of p_record, tdg_shadow_conviction_score = conviction_of s_record,
           tdg_evidence_span_equal = evidence_equal\<rparr>
         else None)"

definition compare_outputs ::
    "evaluator_dumps \<Rightarrow> string \<Rightarrow> string \<Rightarrow> daybreak_output \<Rightarrow> daybreak_output \<Rightarrow> shadow_comparison" where
  "compare_outputs dumps primary_attempt_id shadow_attempt_id primary shadow =
     (let p_hash = canonical_sha256 (vd_output dumps primary); s_hash = canonical_sha256 (vd_output dumps shadow);
          p_map = terminal_map primary; s_map = terminal_map shadow;
          tickers = sort (remdups (map fst p_map @ map fst s_map))
      in \<lparr>shc_comparison_version = ''shadow_compare_v1'', shc_primary_attempt_id = primary_attempt_id,
          shc_shadow_attempt_id = shadow_attempt_id, shc_exact_output_match = (p_hash = s_hash),
          shc_same_run_status = (out_run_status primary = out_run_status shadow),
          shc_same_approved_order =
            (map ap_ticker (out_approved_setups primary) = map ap_ticker (out_approved_setups shadow)),
          shc_ticker_disagreements =
            List.map_filter (\<lambda>t. disagreement_of t (map_of p_map t) (map_of s_map t)) tickers,
          shc_primary_output_hash = p_hash, shc_shadow_output_hash = s_hash\<rparr>)"

section \<open>daybreak\_evaluator/prompt.py\<close>

record prompt_bundle =
  pb_directive :: string
  pb_payload_text :: string
  pb_spec_hash :: string

definition prompt_hash :: "prompt_bundle \<Rightarrow> string" where
  "prompt_hash p =
     canonical_sha256 (JObj [(''directive'', JStr (pb_directive p)), (''payload_text'', JStr (pb_payload_text p)),
       (''spec_hash'', JStr (pb_spec_hash p))])"

definition EXPECTED_SPEC_SHA256 :: string where
  "EXPECTED_SPEC_SHA256 = ''0872a5c3e168d4698819b2a4470d02566173a61caeecd4bacaa401e5f6a0fbf2''"

text \<open>
  The file at the configured path, if there is one, or the resource of the package, which is
  read or fails. Both are bytes; \<open>sp_undecodable\<close> is the text of the error of decoding them as
  UTF-8, if any. The digest of the bytes is only compared with the pinned one, of which no
  text is known to the model, so the hash function of \<open>hashlib\<close> is a parameter here.
\<close>

record spec_source =
  sp_file :: "string option"
  sp_resource :: "exn + string"
  sp_sha256 :: "string \<Rightarrow> string"
  sp_undecodable :: "string \<Rightarrow> string option"

definition checked_spec :: "spec_source \<Rightarrow> string \<Rightarrow> string \<Rightarrow> exn + (string \<times> string)" where
  "checked_spec source message raw =
     (let digest = sp_sha256 source raw in
      if digest \<noteq> EXPECTED_SPEC_SHA256 then Inl (''ValueError'', message)
      else case sp_undecodable source raw of
        Some text \<Rightarrow> Inl (''UnicodeDecodeError'', text)
      | None \<Rightarrow> Inr (raw, digest))"

definition load_spec_text :: "spec_source \<Rightarrow> exn + (string \<times> string)" where
  "load_spec_text source =
     (case sp_file source of
        Some raw \<Rightarrow> checked_spec source ''evaluator specification hash does not match pinned v6.3'' raw
      | None \<Rightarrow>
          (case sp_resource source of
             Inl e \<Rightarrow> Inl e
           | Inr raw \<Rightarrow>
               checked_spec source ''bundled evaluator specification failed integrity verification'' raw))"

definition build_prompt :: "evaluator_dumps \<Rightarrow> spec_source \<Rightarrow> daybreak_input \<Rightarrow> exn + prompt_bundle" where
  "build_prompt dumps source payload =
     map_sum id (\<lambda>(directive, digest).
       \<lparr>pb_directive = directive, pb_payload_text = canonical_json_text (vd_payload dumps payload),
        pb_spec_hash = digest\<rparr>) (load_spec_text source)"

section \<open>The environment and the state of the service\<close>

record transport_call =
  tc_model :: string
  tc_directive :: string
  tc_payload_text :: string
  tc_schema_name :: string
  tc_reasoning_effort :: string
  tc_max_output_tokens :: int
  tc_timeout_seconds :: pyfloat

text \<open>
  What \<open>create\<close> of the transport raises, with the class and the text of the exception: a
  \<open>TimeoutError\<close>, an \<open>EvaluatorTransportError\<close> or another \<open>OSError\<close>, or anything else.
\<close>

datatype transport_failure = TimedOut exn | TransportFailed exn | OtherFailure exn

record 'w evaluator_env =
  vn_clock :: "'w \<Rightarrow> timestamp \<times> 'w"
  vn_new_id :: "'w \<Rightarrow> string \<times> 'w"
  vn_create :: "transport_call \<Rightarrow> ('w, transport_failure, provider_result) eff"
  vn_spec :: spec_source
  vn_policy :: evaluator_policy
  vn_dumps :: evaluator_dumps
  vn_schema_sha256 :: string
  vn_parse_input :: "json + string \<Rightarrow> string + daybreak_input"
  vn_parse_output :: "json + string \<Rightarrow> string + daybreak_output"
  vn_decode_error :: "string \<Rightarrow> string"
  vn_invalid :: "string \<Rightarrow> string"

record 'w evaluator_state =
  ev_world :: 'w
  ev_repository :: memory_evaluator_repository
  ev_calls :: "(transport_call \<times> (transport_failure + provider_result)) list"

type_synonym ('w, 'a) evaluation = "('w evaluator_state, exn, 'a) eff"

definition evaluator_clock :: "'w evaluator_env \<Rightarrow> ('w, timestamp) evaluation" where
  "evaluator_clock env s = (case vn_clock env (ev_world s) of (t, w) \<Rightarrow> (Inr t, s\<lparr>ev_world := w\<rparr>))"

definition fresh_id :: "'w evaluator_env \<Rightarrow> ('w, string) evaluation" where
  "fresh_id env s = (case vn_new_id env (ev_world s) of (x, w) \<Rightarrow> (Inr x, s\<lparr>ev_world := w\<rparr>))"

text \<open>A call of the provider, which the history \<open>ev_calls\<close> keeps with its outcome.\<close>

definition ask_provider ::
    "'w evaluator_env \<Rightarrow> transport_call \<Rightarrow> ('w, transport_failure + provider_result) evaluation" where
  "ask_provider env c s =
     (case vn_create env c (ev_world s) of (r, w) \<Rightarrow>
        (Inr r, s\<lparr>ev_world := w, ev_calls := ev_calls s @ [(c, r)]\<rparr>))"

definition repository_call ::
    "(memory_evaluator_repository \<Rightarrow> pyerr + memory_evaluator_repository) \<Rightarrow> ('w, unit) evaluation" where
  "repository_call f = update_or_raise (\<lambda>s. map_sum exn_of (\<lambda>r. s\<lparr>ev_repository := r\<rparr>) (f (ev_repository s)))"

section \<open>daybreak\_evaluator/service.py\<close>

definition metadata_of :: "'w evaluator_env \<Rightarrow> evaluation_request \<Rightarrow> timestamp \<Rightarrow> validation_metadata" where
  "metadata_of env request response_received_at =
     default_metadata
       \<lparr>vm_evaluator_candidate_count := Some (int (length (di_tickers (evq_input_payload request)))),
        vm_max_evaluator_candidates_hard := Some (evp_max_evaluator_candidates_hard (vn_policy env)),
        vm_prequalified_out_tickers := evd_prequalified_out_tickers (evq_evidence request),
        vm_capacity_omitted_tickers := evd_capacity_omitted_tickers (evq_evidence request),
        vm_capacity_omissions_logged := evd_capacity_omissions_logged (evq_evidence request),
        vm_preselection_policy_version := evd_preselection_policy_version (evq_evidence request),
        vm_evaluator_response_timestamp := Some response_received_at,
        vm_execution_cutoff_timestamp := Some (evq_response_cutoff_timestamp request),
        vm_order_authorized := Some False, vm_scoring_completed_before_gates := Some True,
        vm_duplicate_detection_after_ticker_validation := Some True,
        vm_duplicate_detection_valid_only := Some True,
        vm_operational_blockers_after_schema_validation := Some True\<rparr>"

text \<open>\<open>isoformat()\<close> of an instant in UTC, which leaves zero microseconds out.\<close>

definition utc_isoformat :: "timestamp \<Rightarrow> string" where
  "utc_isoformat t =
     (let seconds = t div 1000000 mod 86400; fraction = t mod 1000000 in
      date_text (utc_date t) @ ''T'' @ pad 2 (seconds div 3600) @ '':'' @ pad 2 (seconds div 60 mod 60) @ '':'' @
      pad 2 (seconds mod 60) @ (if fraction = 0 then [] else ''.'' @ pad 6 fraction) @ ''+00:00'')"

definition request_hash ::
    "'w evaluator_env \<Rightarrow> evaluation_request \<Rightarrow> prompt_bundle \<Rightarrow> string \<Rightarrow> attempt_role \<Rightarrow> string" where
  "request_hash env request prompt model role =
     canonical_sha256 (JObj
       [(''run_id'', JStr (evq_run_id request)),
        (''payload'', vd_payload (vn_dumps env) (evq_input_payload request)),
        (''evidence'', vd_evidence (vn_dumps env) (evq_evidence request)),
        (''response_cutoff_timestamp'', JStr (utc_isoformat (evq_response_cutoff_timestamp request))),
        (''model'', JStr model), (''role'', JStr (attempt_role_value role)),
        (''policy'', vd_policy (vn_dumps env) (vn_policy env)), (''prompt_hash'', JStr (prompt_hash prompt))])"

text \<open>The arguments of \<open>_call_once\<close> and its local variable \<open>started\<close>.\<close>

record call_frame =
  cl_request :: evaluation_request
  cl_prompt :: prompt_bundle
  cl_role :: attempt_role
  cl_model :: string
  cl_attempt_number :: int
  cl_started :: timestamp

definition attempt_of ::
    "'w evaluator_env \<Rightarrow> call_frame \<Rightarrow> string \<Rightarrow> timestamp \<Rightarrow> attempt_status \<Rightarrow> provider_result option \<Rightarrow>
     daybreak_output option \<Rightarrow> validation_report option \<Rightarrow> exn option \<Rightarrow> evaluation_attempt" where
  "attempt_of env c attempt_id received status provider output report error =
     (let output_text = Option.bind provider prr_output_text;
          raw = (if evp_store_raw_provider_response (vn_policy env) then Option.bind provider prr_raw_response else None)
      in \<lparr>att_attempt_id = attempt_id, att_run_id = evq_run_id (cl_request c), att_role = cl_role c,
          att_attempt_number = cl_attempt_number c, att_model = cl_model c, att_request_started_at = cl_started c,
          att_response_received_at = Some received, att_status = status,
          att_request_hash = request_hash env (cl_request c) (cl_prompt c) (cl_model c) (cl_role c),
          att_prompt_hash = prompt_hash (cl_prompt c), att_spec_hash = pb_spec_hash (cl_prompt c),
          att_schema_hash = vn_schema_sha256 env, att_response_id = Option.bind provider prr_response_id,
          att_raw_output_text = output_text, att_raw_provider_response = raw,
          att_response_text_hash = map_option (\<lambda>x. canonical_sha256 (JStr x)) output_text,
          att_raw_response_hash = map_option canonical_sha256 raw, att_output = output,
          att_validation_report = report, att_usage = (case provider of None \<Rightarrow> no_usage | Some p \<Rightarrow> prr_usage p),
          att_error_type = map_option fst error, att_error_message = map_option snd error\<rparr>)"

text \<open>\<open>_attempt\<close> followed by \<open>save_attempt\<close> and \<open>return\<close>, as at every exit of \<open>_call_once\<close>.\<close>

definition new_attempt ::
    "'w evaluator_env \<Rightarrow> call_frame \<Rightarrow> attempt_status \<Rightarrow> provider_result option \<Rightarrow> daybreak_output option \<Rightarrow>
     validation_report option \<Rightarrow> exn option \<Rightarrow> ('w, evaluation_attempt) evaluation" where
  "new_attempt env c status provider output report error =
     andthen (fresh_id env) (\<lambda>attempt_id.
     andthen (case provider of None \<Rightarrow> evaluator_clock env | Some p \<Rightarrow> ret (prr_completed_at p)) (\<lambda>received.
       let attempt = attempt_of env c attempt_id received status provider output report error in
       if valid_attempt attempt then ret attempt
       else raise (''ValidationError'', vn_invalid env (case terminal_shape_attempt attempt of None \<Rightarrow> [] | Some m \<Rightarrow> m))))"

definition finish_attempt ::
    "'w evaluator_env \<Rightarrow> call_frame \<Rightarrow> attempt_status \<Rightarrow> provider_result option \<Rightarrow> daybreak_output option \<Rightarrow>
     validation_report option \<Rightarrow> exn option \<Rightarrow> ('w, evaluation_attempt) evaluation" where
  "finish_attempt env c status provider output report error =
     andthen (new_attempt env c status provider output report error) (\<lambda>attempt.
     andthen (repository_call (save_attempt attempt)) (\<lambda>_. ret attempt))"

definition int_limit_message :: "nat \<Rightarrow> string" where
  "int_limit_message n =
     ''Exceeds the limit (4300 digits) for integer string conversion: value has '' @ show_nat n @
     '' digits; use sys.set_int_max_str_digits() to increase the limit''"

definition truthy_text :: "string option \<Rightarrow> bool" where
  "truthy_text x \<longleftrightarrow> x \<noteq> None \<and> x \<noteq> Some []"

text \<open>The checks of an answer whose output text is not empty.\<close>

definition check_output :: "'w evaluator_env \<Rightarrow> call_frame \<Rightarrow> provider_result \<Rightarrow> string \<Rightarrow> ('w, evaluation_attempt) evaluation" where
  "check_output env c provider output_text =
     (case json_loads output_text of
        Some NotJson \<Rightarrow>
          finish_attempt env c AT_INVALID_JSON (Some provider) None None
            (Some (''JSONDecodeError'', vn_decode_error env output_text))
      | Some (IntTooLong n) \<Rightarrow> raise (''ValueError'', int_limit_message n)
      | None \<Rightarrow>
          (case vn_parse_output env (Inr output_text) of
             Inl e \<Rightarrow> finish_attempt env c AT_SCHEMA_INVALID (Some provider) None None (Some (''ValidationError'', e))
           | Inr output \<Rightarrow>
               let report = validate_daybreak_run (vn_parse_input env) (vn_parse_output env)
                     (Some (ArgModel (evq_input_payload (cl_request c)))) (ArgModel output)
                     (Some (metadata_of env (cl_request c) (prr_completed_at provider))) False
               in if \<not> vr_valid report
                  then finish_attempt env c AT_INVARIANT_INVALID (Some provider) (Some output) (Some report)
                    (Some (''ValueError'', ''Daybreak invariant validation failed''))
                  else finish_attempt env c AT_SUCCEEDED (Some provider) (Some output) (Some report) None))"

definition check_response :: "'w evaluator_env \<Rightarrow> call_frame \<Rightarrow> provider_result \<Rightarrow> ('w, evaluation_attempt) evaluation" where
  "check_response env c provider =
     (if cl_role c = ROLE_PRIMARY \<and> prr_completed_at provider > evq_response_cutoff_timestamp (cl_request c)
      then finish_attempt env c AT_DEADLINE_EXCEEDED (Some provider) None None
        (Some (''TimeoutError'', ''provider response arrived after cutoff''))
      else if truthy_text (prr_refusal provider)
      then finish_attempt env c AT_REFUSED (Some provider) None None (Some (''ValueError'', the (prr_refusal provider)))
      else if truthy_text (prr_incomplete_reason provider)
      then finish_attempt env c AT_INCOMPLETE (Some provider) None None
        (Some (''ValueError'', the (prr_incomplete_reason provider)))
      else if \<not> truthy_text (prr_output_text provider)
      then finish_attempt env c AT_EMPTY_OUTPUT (Some provider) None None
        (Some (''ValueError'', ''provider returned empty output_text''))
      else check_output env c provider (the (prr_output_text provider)))"

definition transport_call_of :: "evaluator_policy \<Rightarrow> prompt_bundle \<Rightarrow> string \<Rightarrow> pyfloat \<Rightarrow> transport_call" where
  "transport_call_of policy prompt model timeout_seconds =
     \<lparr>tc_model = model, tc_directive = pb_directive prompt, tc_payload_text = pb_payload_text prompt,
      tc_schema_name = evp_schema_name policy, tc_reasoning_effort = evp_reasoning_effort policy,
      tc_max_output_tokens = evp_max_output_tokens policy, tc_timeout_seconds = timeout_seconds\<rparr>"

definition remaining_seconds :: "call_frame \<Rightarrow> pyfloat" where
  "remaining_seconds c = total_seconds (evq_response_cutoff_timestamp (cl_request c)) (cl_started c)"

definition timeout_of :: "evaluator_policy \<Rightarrow> call_frame \<Rightarrow> pyfloat" where
  "timeout_of policy c =
     (if cl_role c = ROLE_PRIMARY then min (remaining_seconds c) (evp_request_timeout_seconds policy)
      else evp_shadow_timeout_seconds policy)"

text \<open>The call of the transport and everything after it.\<close>

definition ask_and_check :: "'w evaluator_env \<Rightarrow> call_frame \<Rightarrow> ('w, evaluation_attempt) evaluation" where
  "ask_and_check env c =
     andthen (ask_provider env (transport_call_of (vn_policy env) (cl_prompt c) (cl_model c) (timeout_of (vn_policy env) c)))
       (\<lambda>answer. case answer of
          Inl (TimedOut e) \<Rightarrow> finish_attempt env c AT_DEADLINE_EXCEEDED None None None (Some e)
        | Inl (TransportFailed e) \<Rightarrow> finish_attempt env c AT_TRANSPORT_ERROR None None None (Some e)
        | Inl (OtherFailure e) \<Rightarrow> raise e
        | Inr provider \<Rightarrow> check_response env c provider)"

definition call_framed :: "'w evaluator_env \<Rightarrow> call_frame \<Rightarrow> ('w, evaluation_attempt) evaluation" where
  "call_framed env c =
     (if cl_role c = ROLE_PRIMARY \<and> remaining_seconds c \<le> 0
      then finish_attempt env c AT_DEADLINE_EXCEEDED None None None
        (Some (''TimeoutError'', ''evaluator response cutoff already passed''))
      else ask_and_check env c)"

definition call_once ::
    "'w evaluator_env \<Rightarrow> evaluation_request \<Rightarrow> prompt_bundle \<Rightarrow> attempt_role \<Rightarrow> string \<Rightarrow> int \<Rightarrow>
     ('w, evaluation_attempt) evaluation" where
  "call_once env request prompt role model attempt_number =
     andthen (evaluator_clock env) (\<lambda>started.
       call_framed env \<lparr>cl_request = request, cl_prompt = prompt, cl_role = role, cl_model = model,
         cl_attempt_number = attempt_number, cl_started = started\<rparr>)"

text \<open>
  \<open>_evaluate_role\<close> over the attempt numbers that are left. \<open>asyncio.sleep(0)\<close> only lets other
  tasks run.
\<close>

fun evaluate_role ::
    "'w evaluator_env \<Rightarrow> evaluation_request \<Rightarrow> prompt_bundle \<Rightarrow> attempt_role \<Rightarrow> string \<Rightarrow> int list \<Rightarrow>
     ('w, evaluation_attempt list) evaluation" where
  "evaluate_role env request prompt role model [] = ret []"
| "evaluate_role env request prompt role model (number # numbers) =
     andthen (call_once env request prompt role model number) (\<lambda>attempt.
       let again = andthen (evaluate_role env request prompt role model numbers) (\<lambda>rest. ret (attempt # rest)) in
       if att_status attempt = AT_SUCCEEDED then ret [attempt]
       else if att_status attempt \<noteq> AT_TRANSPORT_ERROR then ret [attempt]
       else if role = ROLE_PRIMARY then
         andthen (evaluator_clock env) (\<lambda>now.
           if now \<ge> evq_response_cutoff_timestamp request then ret [attempt] else again)
       else again)"

definition attempt_numbers :: "'w evaluator_env \<Rightarrow> int list" where
  "attempt_numbers env = [1..evp_max_attempts (vn_policy env)]"

definition last_success :: "evaluation_attempt list \<Rightarrow> evaluation_attempt option" where
  "last_success attempts = List.find (\<lambda>a. att_status a = AT_SUCCEEDED) (rev attempts)"

text \<open>The constructor of a result, which validates it, and \<open>save_result\<close>.\<close>

definition conclude_run :: "'w evaluator_env \<Rightarrow> evaluation_run_result \<Rightarrow> ('w, evaluation_run_result) evaluation" where
  "conclude_run env result =
     (case coherent_run_result result of
        Some m \<Rightarrow> raise (''ValidationError'', vn_invalid env m)
      | None \<Rightarrow> andthen (repository_call (save_evaluation_result result)) (\<lambda>_. ret result))"

definition run_result_of ::
    "evaluation_request \<Rightarrow> evaluator_run_status \<Rightarrow> evaluation_attempt list \<Rightarrow> evaluation_attempt option \<Rightarrow> bool \<Rightarrow>
     evaluation_run_result" where
  "run_result_of request status attempts primary late =
     \<lparr>evr_run_id = evq_run_id request, evr_status = status, evr_request = request, evr_primary_attempts = attempts,
      evr_shadow_attempts = [], evr_selected_primary_attempt_id = map_option att_attempt_id primary,
      evr_output = Option.bind primary att_output, evr_comparison = None,
      evr_decision_ready_at = Option.bind primary att_response_received_at, evr_late_response_rejected = late\<rparr>"

definition primary_result_of :: "evaluation_request \<Rightarrow> evaluation_attempt list \<Rightarrow> evaluation_run_result" where
  "primary_result_of request attempts =
     (let late = list_ex (\<lambda>a. att_status a = AT_DEADLINE_EXCEEDED) attempts in
      case last_success attempts of
        None \<Rightarrow> run_result_of request (if late then RUN_CUTOFF_MISSED else RUN_PRIMARY_INVALID) attempts None late
      | Some primary \<Rightarrow> run_result_of request RUN_PRIMARY_VALID attempts (Some primary) False)"

definition evaluate_primary :: "'w evaluator_env \<Rightarrow> evaluation_request \<Rightarrow> ('w, evaluation_run_result) evaluation" where
  "evaluate_primary env request =
     andthen (repository_call (save_evaluation_request request)) (\<lambda>_.
       if int (length (di_tickers (evq_input_payload request))) > evp_max_evaluator_candidates_hard (vn_policy env)
       then conclude_run env (run_result_of request RUN_INPUT_REJECTED [] None False)
       else
         andthen (from_result (build_prompt (vn_dumps env) (vn_spec env) (evq_input_payload request))) (\<lambda>prompt.
         andthen (evaluate_role env request prompt ROLE_PRIMARY (evp_primary_model (vn_policy env)) (attempt_numbers env))
           (\<lambda>attempts. conclude_run env (primary_result_of request attempts))))"

definition evaluate_shadow ::
    "'w evaluator_env \<Rightarrow> evaluation_request \<Rightarrow> evaluation_run_result \<Rightarrow> ('w, shadow_evaluation_result) evaluation" where
  "evaluate_shadow env request primary_result =
     andthen (repository_call (save_evaluation_request request)) (\<lambda>_.
       case (evp_shadow_model (vn_policy env), evr_output primary_result) of
         (Some model, Some primary_output) \<Rightarrow>
           if model = [] then ret \<lparr>ser_run_id = evq_run_id request, ser_attempts = [], ser_comparison = None\<rparr>
           else
             andthen (from_result (build_prompt (vn_dumps env) (vn_spec env) (evq_input_payload request))) (\<lambda>prompt.
             andthen (evaluate_role env request prompt ROLE_SHADOW model (attempt_numbers env)) (\<lambda>attempts.
               let done = (\<lambda>comparison. ret \<lparr>ser_run_id = evq_run_id request, ser_attempts = attempts,
                     ser_comparison = comparison\<rparr>)
               in case (Option.bind (last_success attempts) (\<lambda>a. map_option (Pair (att_attempt_id a)) (att_output a)),
                     evr_selected_primary_attempt_id primary_result) of
                    (Some (shadow_attempt_id, shadow_output), Some primary_attempt_id) \<Rightarrow>
                      let comparison = compare_outputs (vn_dumps env) primary_attempt_id shadow_attempt_id
                            primary_output shadow_output
                      in andthen (repository_call (save_comparison (evq_run_id request) comparison))
                        (\<lambda>_. done (Some comparison))
                  | _ \<Rightarrow> done None))
       | _ \<Rightarrow> ret \<lparr>ser_run_id = evq_run_id request, ser_attempts = [], ser_comparison = None\<rparr>)"

definition evaluate_with_shadow :: "'w evaluator_env \<Rightarrow> evaluation_request \<Rightarrow> ('w, evaluation_run_result) evaluation" where
  "evaluate_with_shadow env request =
     andthen (evaluate_primary env request) (\<lambda>primary.
     andthen (evaluate_shadow env request primary) (\<lambda>shadow.
       ret (primary\<lparr>evr_shadow_attempts := ser_attempts shadow, evr_comparison := ser_comparison shadow\<rparr>)))"

definition evaluate_run :: "'w evaluator_env \<Rightarrow> evaluation_request \<Rightarrow> bool \<Rightarrow> ('w, evaluation_run_result) evaluation" where
  "evaluate_run env request run_shadow = (if run_shadow then evaluate_with_shadow env request else evaluate_primary env request)"

end
