(* ===== verification/Evaluator_Results.thy ===== *)
theory Evaluator_Results
  imports Evaluator
begin

text \<open>
  What the attempts of the evaluator guarantee: a lemma per operation, stated as a weakest
  precondition, and the composition over the retries.
\<close>

section \<open>Weakest preconditions of the calls\<close>

lemma wp_evaluator_clock [simp]:
  "wp (evaluator_clock env) Q E s = (case vn_clock env (ev_world s) of (t, w) \<Rightarrow> Q t (s\<lparr>ev_world := w\<rparr>))"
  by (simp add: wp_def evaluator_clock_def split: prod.splits)

lemma wp_fresh_id [simp]:
  "wp (fresh_id env) Q E s = (case vn_new_id env (ev_world s) of (x, w) \<Rightarrow> Q x (s\<lparr>ev_world := w\<rparr>))"
  by (simp add: wp_def fresh_id_def split: prod.splits)

lemma wp_ask_provider [simp]:
  "wp (ask_provider env c) Q E s =
     (case vn_create env c (ev_world s) of (r, w) \<Rightarrow> Q r (s\<lparr>ev_world := w, ev_calls := ev_calls s @ [(c, r)]\<rparr>))"
  by (simp add: wp_def ask_provider_def split: prod.splits)

lemma wp_repository_call [simp]:
  "wp (repository_call f) Q E s =
     (case f (ev_repository s) of Inl e \<Rightarrow> E (exn_of e) s | Inr r \<Rightarrow> Q () (s\<lparr>ev_repository := r\<rparr>))"
  by (auto simp: repository_call_def split: sum.splits)

section \<open>What stays\<close>

text \<open>
  The attempts of a run add to the history of calls and to the stored attempts and touch
  nothing else of the repository.
\<close>

definition only_attempts :: "'w evaluator_state \<Rightarrow> 'w evaluator_state \<Rightarrow> bool" where
  "only_attempts s t \<longleftrightarrow>
     prefix (ev_calls s) (ev_calls t) \<and>
     mv_requests (ev_repository t) = mv_requests (ev_repository s) \<and>
     mv_comparisons (ev_repository t) = mv_comparisons (ev_repository s) \<and>
     mv_results (ev_repository t) = mv_results (ev_repository s) \<and>
     stored_attempt (ev_repository s) \<subseteq>\<^sub>m stored_attempt (ev_repository t)"

interpretation only_attempts: step_relation only_attempts
  by unfold_locales (auto simp: only_attempts_def intro: map_le_trans)

lemma save_attempt_frames:
  assumes "save_attempt a r = Inr r'"
  shows "mv_requests r' = mv_requests r \<and> mv_comparisons r' = mv_comparisons r \<and> mv_results r' = mv_results r \<and>
    stored_attempt r \<subseteq>\<^sub>m stored_attempt r'"
proof -
  have "stored_attempt r \<subseteq>\<^sub>m stored_attempt r'"
    using evaluator_attempts.save_keeps [OF assms] by (auto simp: map_le_def dom_def)
  moreover have "mv_requests r' = mv_requests r" "mv_comparisons r' = mv_comparisons r" "mv_results r' = mv_results r"
    using assms by (cases "put_once ''evaluator attempt identity collision'' (att_attempt_id a) a (mv_attempts r)";
        force simp: save_attempt_def)+
  ultimately show ?thesis by simp
qed

lemma only_clock: "steps only_attempts (evaluator_clock env)"
  by (rule steps_wp) (simp add: only_attempts_def split: prod.splits)

lemma only_fresh_id: "steps only_attempts (fresh_id env)"
  by (rule steps_wp) (simp add: only_attempts_def split: prod.splits)

lemma only_ask_provider: "steps only_attempts (ask_provider env c)"
  by (rule steps_wp) (simp add: only_attempts_def split: prod.splits)

lemma only_save_attempt: "steps only_attempts (repository_call (save_attempt a))"
  by (rule steps_wp) (auto simp: only_attempts_def dest: save_attempt_frames split: sum.splits)

lemmas only_rules = only_clock only_fresh_id only_ask_provider only_save_attempt only_attempts.steps_rules

lemma only_finish_attempt: "steps only_attempts (finish_attempt env c st p d r e)"
  unfolding finish_attempt_def new_attempt_def Let_def by (intro only_rules)

lemma only_check_output: "steps only_attempts (check_output env c provider x)"
  unfolding check_output_def Let_def
  by (auto intro!: only_rules only_finish_attempt split: option.splits json_failure.splits)

lemma only_check_response: "steps only_attempts (check_response env c provider)"
  unfolding check_response_def by (intro only_rules only_finish_attempt only_check_output)

lemma only_ask_and_check: "steps only_attempts (ask_and_check env c)"
  unfolding ask_and_check_def
  by (intro only_rules)
    (auto intro!: only_finish_attempt only_check_response only_attempts.steps_raise split: transport_failure.splits)

lemma only_call_once: "steps only_attempts (call_once env request prompt role model n)"
  unfolding call_once_def call_framed_def by (intro only_rules only_finish_attempt only_ask_and_check)

lemma only_evaluate_role: "steps only_attempts (evaluate_role env request prompt role model ns)"
proof (induction ns)
  case Nil
  then show ?case by (simp add: only_attempts.steps_ret)
next
  case (Cons n ns)
  show ?case unfolding evaluate_role.simps Let_def by (intro only_rules only_call_once Cons.IH)
qed

section \<open>A successful attempt\<close>

text \<open>
  The provider answered with a text that was decoded, parsed and found valid, and for the
  primary model it did so before the cutoff.
\<close>

definition answered ::
    "'w evaluator_env \<Rightarrow> evaluation_request \<Rightarrow> prompt_bundle \<Rightarrow> attempt_role \<Rightarrow> string \<Rightarrow>
     (transport_call \<times> (transport_failure + provider_result)) list \<Rightarrow> evaluation_attempt \<Rightarrow> bool" where
  "answered env request prompt role model calls a \<longleftrightarrow>
     (\<exists>timeout provider x d.
        (transport_call_of (vn_policy env) prompt model timeout, Inr provider) \<in> set calls \<and>
        (role = ROLE_PRIMARY \<longrightarrow> prr_completed_at provider \<le> evq_response_cutoff_timestamp request) \<and>
        prr_output_text provider = Some x \<and> json_loads x = None \<and> vn_parse_output env (Inr x) = Inr d \<and>
        att_output a = Some d \<and> att_response_received_at a = Some (prr_completed_at provider) \<and>
        vr_valid (validate_daybreak_run (vn_parse_input env) (vn_parse_output env)
          (Some (ArgModel (evq_input_payload request))) (ArgModel d)
          (Some (metadata_of env request (prr_completed_at provider))) False))"

text \<open>What holds of every attempt of a run when it is returned, where the run began after \<open>k\<close> calls of the provider.\<close>

definition recorded ::
    "'w evaluator_env \<Rightarrow> evaluation_request \<Rightarrow> prompt_bundle \<Rightarrow> attempt_role \<Rightarrow> string \<Rightarrow>
     nat \<Rightarrow> 'w evaluator_state \<Rightarrow> evaluation_attempt \<Rightarrow> bool" where
  "recorded env request prompt role model k t a \<longleftrightarrow>
     att_run_id a = evq_run_id request \<and> att_role a = role \<and> att_model a = model \<and>
     stored_attempt (ev_repository t) (att_attempt_id a) = Some a \<and>
     (att_status a = AT_SUCCEEDED \<longrightarrow> answered env request prompt role model (drop k (ev_calls t)) a)"

lemma answered_more:
  "answered env request prompt role model calls a \<Longrightarrow> set calls \<subseteq> set calls' \<Longrightarrow>
   answered env request prompt role model calls' a"
  unfolding answered_def by (elim exE conjE) (intro exI conjI, auto)

lemma recorded_later:
  assumes "recorded env request prompt role model k s a" "only_attempts s t"
  shows "recorded env request prompt role model k t a"
proof -
  have "set (drop k (ev_calls s)) \<subseteq> set (drop k (ev_calls t))" using assms(2) by (auto simp: only_attempts_def prefix_def)
  moreover have "stored_attempt (ev_repository t) i = Some x" if "stored_attempt (ev_repository s) i = Some x" for i x
    using assms(2) that unfolding only_attempts_def map_le_def by (metis domI)
  ultimately show ?thesis using assms(1) answered_more unfolding recorded_def by blast
qed

lemma wp_finish_attempt:
  "wp (finish_attempt env c st p d r e)
     (\<lambda>a t. (\<exists>i rcv. a = attempt_of env c i rcv st p d r e \<and> (\<forall>x. p = Some x \<longrightarrow> rcv = prr_completed_at x)) \<and>
        stored_attempt (ev_repository t) (att_attempt_id a) = Some a \<and> ev_calls t = ev_calls s)
     (\<lambda>e t. True) s"
  by (cases p)
    (auto simp: finish_attempt_def new_attempt_def Let_def attempt_of_def dest: evaluator_attempts.saved
      split: prod.splits sum.splits)

lemma attempt_of_simps [simp]:
  "att_attempt_id (attempt_of env c i rcv st p d r e) = i"
  "att_run_id (attempt_of env c i rcv st p d r e) = evq_run_id (cl_request c)"
  "att_role (attempt_of env c i rcv st p d r e) = cl_role c"
  "att_model (attempt_of env c i rcv st p d r e) = cl_model c"
  "att_status (attempt_of env c i rcv st p d r e) = st"
  "att_output (attempt_of env c i rcv st p d r e) = d"
  "att_validation_report (attempt_of env c i rcv st p d r e) = r"
  "att_attempt_number (attempt_of env c i rcv st p d r e) = cl_attempt_number c"
  "att_response_received_at (attempt_of env c i rcv st p d r e) = Some rcv"
  by (simp_all add: attempt_of_def Let_def)

lemma answered_cong:
  "att_output a = att_output b \<Longrightarrow> att_response_received_at a = att_response_received_at b \<Longrightarrow>
   answered env request prompt role model calls a \<longleftrightarrow> answered env request prompt role model calls b"
  by (simp add: answered_def)

text \<open>The attempt that a call with the given frame returns.\<close>

definition returned :: "'w evaluator_env \<Rightarrow> nat \<Rightarrow> call_frame \<Rightarrow> 'w evaluator_state \<Rightarrow> evaluation_attempt \<Rightarrow> bool" where
  "returned env k c t a \<longleftrightarrow>
     recorded env (cl_request c) (cl_prompt c) (cl_role c) (cl_model c) k t a \<and> att_attempt_number a = cl_attempt_number c"

lemma finish_recorded:
  assumes "st = AT_SUCCEEDED \<Longrightarrow> answered env (cl_request c) (cl_prompt c) (cl_role c) (cl_model c) (drop k (ev_calls s))
      (attempt_of env c [] (prr_completed_at (the p)) st p d r e)" and "st = AT_SUCCEEDED \<Longrightarrow> p \<noteq> None"
  shows "wp (finish_attempt env c st p d r e)
     (\<lambda>a t. returned env k c t a)
     (\<lambda>e t. True) s"
proof (rule wp_mono [OF wp_finish_attempt])
  fix a and t :: "'a evaluator_state"
  assume a: "(\<exists>i rcv. a = attempt_of env c i rcv st p d r e \<and> (\<forall>x. p = Some x \<longrightarrow> rcv = prr_completed_at x)) \<and>
      stored_attempt (ev_repository t) (att_attempt_id a) = Some a \<and> ev_calls t = ev_calls s"
  then obtain i rcv where i: "a = attempt_of env c i rcv st p d r e" "\<And>x. p = Some x \<Longrightarrow> rcv = prr_completed_at x" by blast
  have "answered env (cl_request c) (cl_prompt c) (cl_role c) (cl_model c) (drop k (ev_calls t)) a" if st: "st = AT_SUCCEEDED"
  proof -
    obtain x where x: "p = Some x" using assms(2) [OF st] by auto
    have "answered env (cl_request c) (cl_prompt c) (cl_role c) (cl_model c) (drop k (ev_calls s)) a"
      by (rule iffD2 [OF answered_cong assms(1) [OF st]]) (simp_all add: i x)
    then show ?thesis using a by simp
  qed
  then show "returned env k c t a"
    using a i(1) by (simp add: returned_def recorded_def)
qed simp

lemma finish_failed:
  "st \<noteq> AT_SUCCEEDED \<Longrightarrow> wp (finish_attempt env c st p d r e)
     (\<lambda>a t. returned env k c t a)
     (\<lambda>e t. True) s"
  by (rule finish_recorded) simp_all

lemma check_output_recorded:
  assumes "(transport_call_of (vn_policy env) (cl_prompt c) (cl_model c) timeout, Inr provider) \<in> set (drop k (ev_calls s))"
    and "cl_role c = ROLE_PRIMARY \<Longrightarrow> prr_completed_at provider \<le> evq_response_cutoff_timestamp (cl_request c)"
    and "prr_output_text provider = Some x"
  shows "wp (check_output env c provider x)
     (\<lambda>a t. returned env k c t a)
     (\<lambda>e t. True) s"
proof (cases "json_loads x")
  case (Some f)
  then show ?thesis by (cases f) (simp_all add: check_output_def finish_failed)
next
  case None
  show ?thesis
  proof (cases "vn_parse_output env (Inr x)")
    case (Inl e)
    then show ?thesis using None by (simp add: check_output_def finish_failed)
  next
    case (Inr d)
    let ?report = "validate_daybreak_run (vn_parse_input env) (vn_parse_output env)
      (Some (ArgModel (evq_input_payload (cl_request c)))) (ArgModel d)
      (Some (metadata_of env (cl_request c) (prr_completed_at provider))) False"
    have "answered env (cl_request c) (cl_prompt c) (cl_role c) (cl_model c) (drop k (ev_calls s))
        (attempt_of env c [] (prr_completed_at provider) AT_SUCCEEDED (Some provider) (Some d) (Some ?report) None)"
      if "vr_valid ?report"
      unfolding answered_def using None Inr assms that
      by (intro exI [of _ timeout] exI [of _ provider] exI [of _ x] exI [of _ d]) simp
    then show ?thesis using None Inr
      by (simp add: check_output_def Let_def finish_failed finish_recorded)
  qed
qed

lemma check_response_recorded:
  assumes "(transport_call_of (vn_policy env) (cl_prompt c) (cl_model c) timeout, Inr provider) \<in> set (drop k (ev_calls s))"
  shows "wp (check_response env c provider)
     (\<lambda>a t. returned env k c t a)
     (\<lambda>e t. True) s"
proof -
  have "\<exists>x. prr_output_text provider = Some x" if "truthy_text (prr_output_text provider)"
    using that by (auto simp: truthy_text_def)
  then show ?thesis using check_output_recorded [OF assms]
    by (auto simp: check_response_def not_less finish_failed)
qed

lemma ask_and_check_returned:
  assumes "k \<le> length (ev_calls s)"
  shows "wp (ask_and_check env c) (\<lambda>a t. returned env k c t a) (\<lambda>e t. True) s"
proof -
  let ?call = "transport_call_of (vn_policy env) (cl_prompt c) (cl_model c) (timeout_of (vn_policy env) c)"
  obtain answer w where answer: "vn_create env ?call (ev_world s) = (answer, w)" by fastforce
  show ?thesis
  proof (cases answer)
    case (Inl f)
    then show ?thesis using answer by (cases f) (simp_all add: ask_and_check_def finish_failed)
  next
    case (Inr provider)
    then show ?thesis using answer assms by (auto simp: ask_and_check_def intro!: check_response_recorded)
  qed
qed

lemma call_framed_returned:
  "k \<le> length (ev_calls s) \<Longrightarrow> wp (call_framed env c) (\<lambda>a t. returned env k c t a) (\<lambda>e t. True) s"
  by (simp add: call_framed_def ask_and_check_returned finish_failed)

lemma call_once_recorded:
  assumes "k \<le> length (ev_calls s)"
  shows "wp (call_once env request prompt role model n)
     (\<lambda>a t. recorded env request prompt role model k t a \<and> att_attempt_number a = n) (\<lambda>e t. True) s"
proof -
  obtain started w where clock: "vn_clock env (ev_world s) = (started, w)" by fastforce
  let ?c = "\<lparr>cl_request = request, cl_prompt = prompt, cl_role = role, cl_model = model, cl_attempt_number = n,
    cl_started = started\<rparr>"
  have "wp (call_framed env ?c) (\<lambda>a t. recorded env request prompt role model k t a \<and> att_attempt_number a = n) (\<lambda>e t. True)
      (s\<lparr>ev_world := w\<rparr>)"
    by (rule wp_mono [OF call_framed_returned]) (simp_all add: returned_def assms)
  then show ?thesis by (simp add: call_once_def clock)
qed

section \<open>The attempts of a role\<close>

text \<open>
  Every attempt is recorded, they are numbered from the first on, all but the last are
  transport errors, and the history of calls grows by at most one call for each.
\<close>

definition role_run ::
    "'w evaluator_env \<Rightarrow> evaluation_request \<Rightarrow> prompt_bundle \<Rightarrow> attempt_role \<Rightarrow> string \<Rightarrow> int list \<Rightarrow>
     nat \<Rightarrow> 'w evaluator_state \<Rightarrow> evaluation_attempt list \<Rightarrow> bool" where
  "role_run env request prompt role model ns k t attempts \<longleftrightarrow>
     (\<forall>a \<in> set attempts. recorded env request prompt role model k t a) \<and>
     prefix (map att_attempt_number attempts) ns \<and> (attempts = [] \<longleftrightarrow> ns = []) \<and>
     (\<forall>a \<in> set (butlast attempts). att_status a = AT_TRANSPORT_ERROR)"

lemma role_run_single:
  "recorded env request prompt role model k t a \<Longrightarrow> att_attempt_number a = n \<Longrightarrow>
   role_run env request prompt role model (n # ns) k t [a]"
  by (simp add: role_run_def)

lemma role_run_Cons:
  assumes "recorded env request prompt role model k s a" "att_attempt_number a = n" "att_status a = AT_TRANSPORT_ERROR"
    and "role_run env request prompt role model ns k t rest" "only_attempts s t"
  shows "role_run env request prompt role model (n # ns) k t (a # rest)"
  using assms recorded_later [OF assms(1,5)] by (simp add: role_run_def)

lemma evaluate_role_run:
  assumes "k \<le> length (ev_calls s)"
  shows "wp (evaluate_role env request prompt role model ns) (\<lambda>attempts t. role_run env request prompt role model ns k t attempts)
     (\<lambda>e t. True) s"
  using assms
proof (induction ns arbitrary: s)
  case Nil
  then show ?case by (simp add: role_run_def)
next
  case (Cons n ns)
  have again: "wp (andthen (evaluate_role env request prompt role model ns) (\<lambda>rest. ret (a # rest)))
      (\<lambda>attempts t. role_run env request prompt role model (n # ns) k t attempts) (\<lambda>e t. True) u"
    if "recorded env request prompt role model k u a" "att_attempt_number a = n" "att_status a = AT_TRANSPORT_ERROR" "k \<le> length (ev_calls u)" for u a
    unfolding wp_andthen
    by (rule wp_mono [OF wp_conj [OF Cons.IH [OF that(4)] wp_steps [OF only_evaluate_role]]])
      (auto intro: role_run_Cons [OF that(1-3)])
  show ?case unfolding evaluate_role.simps Let_def
  proof (rule wp_then [OF wp_mono [OF wp_conj [OF call_once_recorded [OF Cons.prems] wp_steps [OF only_call_once]]]])
    fix a t
    assume "(recorded env request prompt role model k t a \<and> att_attempt_number a = n) \<and> only_attempts s t"
    then have a: "recorded env request prompt role model k t a \<and> att_attempt_number a = n" "k \<le> length (ev_calls t)"
      using Cons.prems by (auto simp: only_attempts_def dest: prefix_length_le)
    have later: "recorded env request prompt role model k (t\<lparr>ev_world := w\<rparr>) a" for w
    proof (rule recorded_later)
      show "recorded env request prompt role model k t a" using a(1) by simp
      show "only_attempts t (t\<lparr>ev_world := w\<rparr>)" by (simp add: only_attempts_def)
    qed
    show "wp (if att_status a = AT_SUCCEEDED then ret [a]
        else if att_status a \<noteq> AT_TRANSPORT_ERROR then ret [a]
        else if role = ROLE_PRIMARY then
          andthen (evaluator_clock env) (\<lambda>now. if now \<ge> evq_response_cutoff_timestamp request then ret [a]
            else andthen (evaluate_role env request prompt role model ns) (\<lambda>rest. ret (a # rest)))
        else andthen (evaluate_role env request prompt role model ns) (\<lambda>rest. ret (a # rest)))
      (\<lambda>attempts t. role_run env request prompt role model (n # ns) k t attempts) (\<lambda>e t. True) t"
      using a later again [of _ a]
      by (auto simp del: wp_andthen simp: wp_andthen [of "evaluator_clock env"] role_run_single split: prod.splits)
  qed simp
qed

section \<open>The number of calls\<close>

definition same_calls :: "'w evaluator_state \<Rightarrow> 'w evaluator_state \<Rightarrow> bool" where
  "same_calls s t \<longleftrightarrow> ev_calls t = ev_calls s"

interpretation same_calls: step_relation same_calls
  by unfold_locales (simp_all add: same_calls_def)

lemma same_calls_clock: "steps same_calls (evaluator_clock env)"
  by (rule steps_wp) (simp add: same_calls_def split: prod.splits)

lemma same_calls_fresh_id: "steps same_calls (fresh_id env)"
  by (rule steps_wp) (simp add: same_calls_def split: prod.splits)

lemma same_calls_repository: "steps same_calls (repository_call f)"
  by (rule steps_wp) (simp add: same_calls_def split: sum.splits)

lemmas same_calls_rules = same_calls_clock same_calls_fresh_id same_calls_repository same_calls.steps_rules

lemma same_calls_finish: "steps same_calls (finish_attempt env c st p d r e)"
  unfolding finish_attempt_def new_attempt_def Let_def by (intro same_calls_rules)

lemma same_calls_check_response: "steps same_calls (check_response env c provider)"
  unfolding check_response_def check_output_def Let_def
  by (intro same_calls_rules same_calls_finish)
    (auto intro!: same_calls_rules same_calls_finish split: option.splits json_failure.splits)

lemma calls_ask_and_check: "length (ev_calls (snd (ask_and_check env c s))) \<le> Suc (length (ev_calls s))"
proof -
  have rest: "steps same_calls (case answer of Inl (TimedOut e) \<Rightarrow> finish_attempt env c AT_DEADLINE_EXCEEDED None None None (Some e)
        | Inl (TransportFailed e) \<Rightarrow> finish_attempt env c AT_TRANSPORT_ERROR None None None (Some e)
        | Inl (OtherFailure e) \<Rightarrow> raise e
        | Inr provider \<Rightarrow> check_response env c provider)" for answer
    by (auto intro: same_calls_finish same_calls_check_response same_calls.steps_raise
        split: sum.splits transport_failure.splits)
  have "wp (ask_and_check env c) (\<lambda>a t. length (ev_calls t) \<le> Suc (length (ev_calls s)))
      (\<lambda>e t. length (ev_calls t) \<le> Suc (length (ev_calls s))) s"
    unfolding ask_and_check_def wp_andthen wp_ask_provider
    by (auto split: prod.splits intro!: wp_mono [OF wp_steps [OF rest]] simp: same_calls_def)
  then show ?thesis by (auto simp: wp_def split: sum.splits prod.splits)
qed

lemma calls_call_once: "length (ev_calls (snd (call_once env request prompt role model n s))) \<le> Suc (length (ev_calls s))"
proof -
  have framed: "length (ev_calls (snd (call_framed env c u))) \<le> Suc (length (ev_calls u))" for c u
    using calls_ask_and_check [of env c u] same_calls_finish [of env c]
    by (simp add: call_framed_def steps_def same_calls_def)
  obtain x w where "vn_clock env (ev_world s) = (x, w)" by fastforce
  then show ?thesis using framed [of _ "s\<lparr>ev_world := w\<rparr>"]
    by (simp add: call_once_def andthen_def evaluator_clock_def)
qed

lemma wp_calls: "length (ev_calls (snd (m s))) \<le> n \<Longrightarrow> wp m (\<lambda>x t. length (ev_calls t) \<le> n) (\<lambda>e t. length (ev_calls t) \<le> n) s"
  by (auto simp: wp_def split: sum.splits prod.splits)

lemma calls_evaluate_role:
  "wp (evaluate_role env request prompt role model ns) (\<lambda>x t. length (ev_calls t) \<le> length (ev_calls s) + length ns)
     (\<lambda>e t. length (ev_calls t) \<le> length (ev_calls s) + length ns) s"
proof (induction ns arbitrary: s)
  case (Cons n ns)
  let ?P = "\<lambda>_ t. length (ev_calls t) \<le> length (ev_calls s) + length (n # ns)"
  have again: "wp (andthen (evaluate_role env request prompt role model ns) (\<lambda>rest. ret (a # rest))) ?P ?P u"
    if "length (ev_calls u) \<le> Suc (length (ev_calls s))" for u a
    unfolding wp_andthen by (rule wp_mono [OF Cons.IH]) (use that in auto)
  show ?case unfolding evaluate_role.simps Let_def
  proof (rule wp_then [OF wp_mono [OF wp_calls [OF calls_call_once]]])
    fix a and t :: "'a evaluator_state"
    assume t: "length (ev_calls t) \<le> Suc (length (ev_calls s))"
    then have "length (ev_calls (t\<lparr>ev_world := w\<rparr>)) \<le> Suc (length (ev_calls s))" for w by simp
    then show "wp (if att_status a = AT_SUCCEEDED then ret [a]
        else if att_status a \<noteq> AT_TRANSPORT_ERROR then ret [a]
        else if role = ROLE_PRIMARY then
          andthen (evaluator_clock env) (\<lambda>now. if now \<ge> evq_response_cutoff_timestamp request then ret [a]
            else andthen (evaluate_role env request prompt role model ns) (\<lambda>rest. ret (a # rest)))
        else andthen (evaluate_role env request prompt role model ns) (\<lambda>rest. ret (a # rest))) ?P ?P t"
      using t again [of _ a]
      by (auto simp del: wp_andthen simp: wp_andthen [of "evaluator_clock env"] split: prod.splits)
  qed simp
qed simp

end
