(* ===== verification/Evaluator_Properties.thy ===== *)
theory Evaluator_Properties
  imports Evaluator_Results
begin

text \<open>
  The properties of the evaluator: a result that authorises an output is backed by a timely and
  valid answer, the retries are bounded, the shadow model has no power over the result, and
  what a disagreement of two outputs means.
\<close>

section \<open>The primary path\<close>

lemma build_prompt_payload:
  "build_prompt dumps source payload = Inr prompt \<Longrightarrow> pb_payload_text prompt = canonical_json_text (vd_payload dumps payload)"
  by (auto simp: build_prompt_def map_sum_Inr)

text \<open>What saving a result leaves as it was.\<close>

definition only_result :: "'w evaluator_state \<Rightarrow> 'w evaluator_state \<Rightarrow> bool" where
  "only_result s t \<longleftrightarrow>
     ev_calls t = ev_calls s \<and> stored_attempt (ev_repository t) = stored_attempt (ev_repository s) \<and>
     ev_world t = ev_world s"

lemma save_evaluation_result_frames:
  "save_evaluation_result r s = Inr t \<Longrightarrow> stored_attempt t = stored_attempt s"
  by (auto simp: save_evaluation_result_def stored_attempt_def map_sum_Inr)

lemma save_evaluation_request_frames:
  "save_evaluation_request r s = Inr t \<Longrightarrow> stored_attempt t = stored_attempt s \<and> mv_results t = mv_results s"
  by (auto simp: save_evaluation_request_def stored_attempt_def map_sum_Inr)

lemma conclude_run_wp:
  "wp (conclude_run env result)
     (\<lambda>r t. r = result \<and> coherent_run_result result = None \<and>
        get_evaluation_result (ev_repository t) (evr_run_id result) = Some result \<and> only_result s t)
     (\<lambda>e t. only_result s t) s"
  by (auto simp: conclude_run_def only_result_def dest: evaluator_results.saved save_evaluation_result_frames
      split: option.splits sum.splits)

lemma recorded_only_result:
  "recorded env request prompt role model k s a \<Longrightarrow> only_result s t \<Longrightarrow> recorded env request prompt role model k t a"
  by (simp add: recorded_def only_result_def)

lemma role_run_only_result:
  "role_run env request prompt role model ns k s attempts \<Longrightarrow> only_result s t \<Longrightarrow>
   role_run env request prompt role model ns k t attempts"
  by (auto simp: role_run_def intro: recorded_only_result)

text \<open>A run that returns was either rejected or made attempts and took its result from them.\<close>

definition primary_run ::
    "'w evaluator_env \<Rightarrow> evaluation_request \<Rightarrow> nat \<Rightarrow> evaluation_run_result \<Rightarrow> 'w evaluator_state \<Rightarrow> bool" where
  "primary_run env request k result t \<longleftrightarrow>
     coherent_run_result result = None \<and> get_evaluation_result (ev_repository t) (evq_run_id request) = Some result \<and>
     (result = run_result_of request RUN_INPUT_REJECTED [] None False \<or>
      (\<exists>prompt attempts.
         build_prompt (vn_dumps env) (vn_spec env) (evq_input_payload request) = Inr prompt \<and>
         role_run env request prompt ROLE_PRIMARY (evp_primary_model (vn_policy env)) (attempt_numbers env) k t attempts \<and>
         result = primary_result_of request attempts))"

lemma run_result_simps [simp]:
  "evr_run_id (run_result_of request st attempts p late) = evq_run_id request"
  "evr_status (run_result_of request st attempts p late) = st"
  "evr_request (run_result_of request st attempts p late) = request"
  "evr_primary_attempts (run_result_of request st attempts p late) = attempts"
  "evr_shadow_attempts (run_result_of request st attempts p late) = []"
  "evr_output (run_result_of request st attempts p late) = Option.bind p att_output"
  "evr_decision_ready_at (run_result_of request st attempts p late) = Option.bind p att_response_received_at"
  "evr_selected_primary_attempt_id (run_result_of request st attempts p late) = map_option att_attempt_id p"
  "evr_late_response_rejected (run_result_of request st attempts p late) = late"
  by (simp_all add: run_result_of_def)

lemma primary_result_run_id [simp]: "evr_run_id (primary_result_of request attempts) = evq_run_id request"
  by (simp add: primary_result_of_def Let_def split: option.splits)

lemma primary_result_attempts [simp]: "evr_primary_attempts (primary_result_of request attempts) = attempts"
  by (simp add: primary_result_of_def Let_def split: option.splits)

lemma evaluate_primary_run:
  "wp (evaluate_primary env request) (\<lambda>result t. primary_run env request (length (ev_calls s)) result t) (\<lambda>e t. True) s"
proof -
  have concluded: "wp (conclude_run env result) (\<lambda>r t. primary_run env request k r t) (\<lambda>e t. True) u"
    if "evr_run_id result = evq_run_id request"
      "\<And>t. only_result u t \<Longrightarrow> result = run_result_of request RUN_INPUT_REJECTED [] None False \<or>
        (\<exists>prompt attempts.
           build_prompt (vn_dumps env) (vn_spec env) (evq_input_payload request) = Inr prompt \<and>
           role_run env request prompt ROLE_PRIMARY (evp_primary_model (vn_policy env)) (attempt_numbers env) k t attempts \<and>
           result = primary_result_of request attempts)"
    for result k u
    by (rule wp_mono [OF conclude_run_wp]) (use that in \<open>auto simp: primary_run_def\<close>)
  have attempts: "wp (andthen (evaluate_role env request prompt ROLE_PRIMARY (evp_primary_model (vn_policy env)) (attempt_numbers env))
        (\<lambda>attempts. conclude_run env (primary_result_of request attempts)))
      (\<lambda>result t. primary_run env request k result t) (\<lambda>e t. True) u"
    if "build_prompt (vn_dumps env) (vn_spec env) (evq_input_payload request) = Inr prompt" "k \<le> length (ev_calls u)"
    for prompt k u
  proof (rule wp_then [OF evaluate_role_run [OF that(2)]])
    fix xs t
    assume "role_run env request prompt ROLE_PRIMARY (evp_primary_model (vn_policy env)) (attempt_numbers env) k t xs"
    then show "wp (conclude_run env (primary_result_of request xs)) (\<lambda>result t. primary_run env request k result t) (\<lambda>e t. True) t"
      using that(1) by (intro concluded) (auto intro: role_run_only_result)
  qed
  show ?thesis
    by (auto simp: evaluate_primary_def simp del: wp_andthen
        simp: wp_andthen [of "repository_call _"] wp_andthen [of "from_result _"]
        split: sum.splits intro!: concluded attempts)
qed

lemma evaluate_primary_returns:
  "evaluate_primary env request s = (Inr result, t) \<Longrightarrow> primary_run env request (length (ev_calls s)) result t"
  using evaluate_primary_run by (rule wp_returns)

lemma last_success_Some:
  "last_success attempts = Some a \<Longrightarrow> a \<in> set attempts \<and> att_status a = AT_SUCCEEDED"
  by (auto simp: last_success_def find_Some_iff dest: nth_mem) (metis length_rev nth_mem set_rev)

text \<open>An output that a result authorises comes from an attempt that was answered.\<close>

lemma executable_answered:
  assumes "evaluate_primary env request s = (Inr result, t)" "executable_candidate_output result = Some d"
  obtains prompt a where "build_prompt (vn_dumps env) (vn_spec env) (evq_input_payload request) = Inr prompt"
    "answered env request prompt ROLE_PRIMARY (evp_primary_model (vn_policy env)) (drop (length (ev_calls s)) (ev_calls t)) a"
    "att_output a = Some d" "att_response_received_at a = evr_decision_ready_at result"
    "get_evaluation_result (ev_repository t) (evq_run_id request) = Some result"
proof -
  have run: "primary_run env request (length (ev_calls s)) result t" using assms(1) by (rule evaluate_primary_returns)
  have d: "evr_status result = RUN_PRIMARY_VALID" "evr_output result = Some d"
    using assms(2) by (simp_all add: executable_candidate_output_def split: if_splits)
  then obtain prompt attempts where prompt:
      "build_prompt (vn_dumps env) (vn_spec env) (evq_input_payload request) = Inr prompt"
    and role: "role_run env request prompt ROLE_PRIMARY (evp_primary_model (vn_policy env)) (attempt_numbers env)
      (length (ev_calls s)) t attempts"
    and result: "result = primary_result_of request attempts"
    using run by (auto simp: primary_run_def)
  obtain a where a: "last_success attempts = Some a" "result = run_result_of request RUN_PRIMARY_VALID attempts (Some a) False"
    using result d(1) by (auto simp: primary_result_of_def Let_def split: option.splits if_splits)
  then have "answered env request prompt ROLE_PRIMARY (evp_primary_model (vn_policy env))
      (drop (length (ev_calls s)) (ev_calls t)) a"
    using last_success_Some [OF a(1)] role by (auto simp: role_run_def recorded_def)
  then show thesis using that prompt a(2) d(2) run by (simp add: primary_run_def)
qed

text \<open>
  Claim C29. A result that authorises an output is backed: during this run the provider, asked
  about the request's payload with the configured model, answered before the cutoff with a text
  that decodes and parses to exactly this output, and the output passed the validation of the
  77 invariants against the request's payload; the result is the one stored for the run.
\<close>

theorem primary_output_backed:
  assumes "evaluate_primary env request s = (Inr result, t)" "executable_candidate_output result = Some d"
  shows "\<exists>c provider x. (c, Inr provider) \<in> set (drop (length (ev_calls s)) (ev_calls t)) \<and>
    tc_model c = evp_primary_model (vn_policy env) \<and>
    tc_payload_text c = canonical_json_text (vd_payload (vn_dumps env) (evq_input_payload request)) \<and>
    prr_completed_at provider \<le> evq_response_cutoff_timestamp request \<and>
    evr_decision_ready_at result = Some (prr_completed_at provider) \<and>
    prr_output_text provider = Some x \<and> json_loads x = None \<and> vn_parse_output env (Inr x) = Inr d \<and>
    vr_valid (validate_daybreak_run (vn_parse_input env) (vn_parse_output env)
      (Some (ArgModel (evq_input_payload request))) (ArgModel d)
      (Some (metadata_of env request (prr_completed_at provider))) False) \<and>
    get_evaluation_result (ev_repository t) (evq_run_id request) = Some result"
proof -
  obtain prompt a where prompt: "build_prompt (vn_dumps env) (vn_spec env) (evq_input_payload request) = Inr prompt"
    and "answered env request prompt ROLE_PRIMARY (evp_primary_model (vn_policy env)) (drop (length (ev_calls s)) (ev_calls t)) a"
    and a: "att_output a = Some d" "att_response_received_at a = evr_decision_ready_at result"
    and stored: "get_evaluation_result (ev_repository t) (evq_run_id request) = Some result"
    using assms by (rule executable_answered)
  then obtain timeout provider x d' where answer:
      "(transport_call_of (vn_policy env) prompt (evp_primary_model (vn_policy env)) timeout, Inr provider)
        \<in> set (drop (length (ev_calls s)) (ev_calls t))"
      "prr_completed_at provider \<le> evq_response_cutoff_timestamp request" "prr_output_text provider = Some x"
      "json_loads x = None" "vn_parse_output env (Inr x) = Inr d'" "att_output a = Some d'"
      "att_response_received_at a = Some (prr_completed_at provider)"
    and valid: "vr_valid (validate_daybreak_run (vn_parse_input env) (vn_parse_output env)
      (Some (ArgModel (evq_input_payload request))) (ArgModel d')
      (Some (metadata_of env request (prr_completed_at provider))) False)"
    unfolding answered_def by blast
  have "d' = d" using a(1) answer(6) by simp
  then show ?thesis
    using answer valid a(2) stored build_prompt_payload [OF prompt]
    by (intro exI [of _ "transport_call_of (vn_policy env) prompt (evp_primary_model (vn_policy env)) timeout"]
        exI [of _ provider] exI [of _ x]) (simp add: transport_call_of_def)
qed

section \<open>Retries\<close>

lemma evaluate_primary_calls:
  "wp (evaluate_primary env request) (\<lambda>r t. length (ev_calls t) \<le> length (ev_calls s) + length (attempt_numbers env))
     (\<lambda>e t. length (ev_calls t) \<le> length (ev_calls s) + length (attempt_numbers env)) s"
proof -
  let ?P = "\<lambda>_ t. length (ev_calls t) \<le> length (ev_calls s) + length (attempt_numbers env)"
  have concluded: "wp (conclude_run env result) ?P ?P u" if "?P () u" for result u
    by (rule wp_mono [OF conclude_run_wp]) (use that in \<open>auto simp: only_result_def\<close>)
  have attempts: "wp (andthen (evaluate_role env request prompt ROLE_PRIMARY (evp_primary_model (vn_policy env)) (attempt_numbers env))
        (\<lambda>attempts. conclude_run env (primary_result_of request attempts))) ?P ?P u"
    if u: "ev_calls u = ev_calls s" for prompt u
    using calls_evaluate_role [of env request prompt ROLE_PRIMARY "evp_primary_model (vn_policy env)" "attempt_numbers env" u]
    unfolding u by (rule wp_then) (rule concluded)
  show ?thesis
    by (auto simp: evaluate_primary_def simp del: wp_andthen
        simp: wp_andthen [of "repository_call _"] wp_andthen [of "from_result _"]
        split: sum.splits intro!: concluded attempts)
qed

text \<open>
  Only transport errors are retried, and not for ever: however an evaluation of the
  primary model ends, it asks the provider at most as often as the policy allows, and when it
  returns (and the input was not rejected) its attempts are numbered from one on, all but the
  last failed in the transport, and each is in the repository under its identifier.
\<close>

theorem retries_bounded:
  assumes "evaluate_primary env request s = (r, t)" "valid_evaluator_policy (vn_policy env)"
  shows "int (length (ev_calls t)) \<le> int (length (ev_calls s)) + evp_max_attempts (vn_policy env) \<and>
    (\<forall>result. r = Inr result \<and> evr_status result \<noteq> RUN_INPUT_REJECTED \<longrightarrow>
       (let attempts = evr_primary_attempts result in
        attempts \<noteq> [] \<and> int (length attempts) \<le> evp_max_attempts (vn_policy env) \<and>
        map att_attempt_number attempts = [1..int (length attempts)] \<and>
        (\<forall>a \<in> set (butlast attempts). att_status a = AT_TRANSPORT_ERROR) \<and>
        (\<forall>a \<in> set attempts. stored_attempt (ev_repository t) (att_attempt_id a) = Some a)))"
proof -
  have max: "1 \<le> evp_max_attempts (vn_policy env)" using assms(2) by (simp add: valid_evaluator_policy_def)
  have "length (ev_calls t) \<le> length (ev_calls s) + length (attempt_numbers env)"
    using evaluate_primary_calls [of env request s] assms(1) by (cases r) (simp_all add: wp_def)
  then have calls: "int (length (ev_calls t)) \<le> int (length (ev_calls s)) + evp_max_attempts (vn_policy env)"
    using max by (simp add: attempt_numbers_def)
  moreover have "let attempts = evr_primary_attempts result in
        attempts \<noteq> [] \<and> int (length attempts) \<le> evp_max_attempts (vn_policy env) \<and>
        map att_attempt_number attempts = [1..int (length attempts)] \<and>
        (\<forall>a \<in> set (butlast attempts). att_status a = AT_TRANSPORT_ERROR) \<and>
        (\<forall>a \<in> set attempts. stored_attempt (ev_repository t) (att_attempt_id a) = Some a)"
    if r: "r = Inr result" and status: "evr_status result \<noteq> RUN_INPUT_REJECTED" for result
  proof -
    have "primary_run env request (length (ev_calls s)) result t" using assms(1) r evaluate_primary_returns by blast
    then obtain prompt attempts where
        role: "role_run env request prompt ROLE_PRIMARY (evp_primary_model (vn_policy env)) (attempt_numbers env)
          (length (ev_calls s)) t attempts" and result: "result = primary_result_of request attempts"
      using status by (auto simp: primary_run_def)
    then have pre: "prefix (map att_attempt_number attempts) [1..evp_max_attempts (vn_policy env)]" "attempts \<noteq> []"
      using max by (auto simp: role_run_def attempt_numbers_def)
    have len: "length attempts \<le> nat (evp_max_attempts (vn_policy env))" using prefix_length_le [OF pre(1)] by simp
    have "map att_attempt_number attempts = take (length attempts) [1..evp_max_attempts (vn_policy env)]"
      using pre(1) by (auto simp: prefix_def)
    also have "\<dots> = [1..int (length attempts)]"
      using len max by (intro nth_equalityI) auto
    finally have "map att_attempt_number attempts = [1..int (length attempts)]" .
    then show ?thesis using role result pre(2) len max
      by (simp add: role_run_def recorded_def Let_def)
  qed
  ultimately show ?thesis by blast
qed

section \<open>The shadow model\<close>

definition same_results :: "'w evaluator_state \<Rightarrow> 'w evaluator_state \<Rightarrow> bool" where
  "same_results s t \<longleftrightarrow> mv_results (ev_repository t) = mv_results (ev_repository s)"

interpretation same_results: step_relation same_results
  by unfold_locales (simp_all add: same_results_def)

lemma same_results_role: "steps same_results (evaluate_role env request prompt role model ns)"
  using only_evaluate_role [of env request prompt role model ns] by (simp add: steps_def same_results_def only_attempts_def)

lemma same_results_request: "steps same_results (repository_call (save_evaluation_request request))"
  by (rule steps_wp) (auto simp: same_results_def dest: save_evaluation_request_frames split: sum.splits)

lemma same_results_comparison: "steps same_results (repository_call (save_comparison run_id comparison))"
  by (rule steps_wp) (auto simp: same_results_def save_comparison_def map_sum_Inr split: sum.splits)

lemma same_results_shadow: "steps same_results (evaluate_shadow env request primary)"
  unfolding evaluate_shadow_def Let_def
  by (intro same_results.steps_andthen same_results_request)
    (auto intro!: same_results.steps_andthen same_results.steps_from_result same_results_role same_results_comparison
      same_results.steps_ret split: option.splits)

text \<open>
  Claim C31. The shadow model has no power: when the primary path returns a result, then
  however the shadow path ends, that result is what the repository holds for the run and
  after, and the combined call, if it returns, gives the status, the output, the selected
  attempt and the time of the primary result.
\<close>

theorem shadow_powerless:
  assumes "evaluate_primary env request s = (Inr primary, u)" "evaluate_run env request True s = (r, t)"
  shows "get_evaluation_result (ev_repository t) (evq_run_id request) = Some primary \<and>
    (\<forall>result. r = Inr result \<longrightarrow>
       executable_candidate_output result = executable_candidate_output primary \<and> evr_status result = evr_status primary \<and>
       evr_selected_primary_attempt_id result = evr_selected_primary_attempt_id primary \<and>
       evr_decision_ready_at result = evr_decision_ready_at primary)"
proof -
  have stored: "get_evaluation_result (ev_repository u) (evq_run_id request) = Some primary"
    using evaluate_primary_returns [OF assms(1)] by (simp add: primary_run_def)
  obtain r' t' where shadow: "evaluate_shadow env request primary u = (r', t')" by fastforce
  have "mv_results (ev_repository t') = mv_results (ev_repository u)"
    using stepsD [OF same_results_shadow shadow] by (simp add: same_results_def)
  moreover have "t = t'" "\<forall>result. r = Inr result \<longrightarrow> (\<exists>x y. result = primary\<lparr>evr_shadow_attempts := x, evr_comparison := y\<rparr>)"
    using assms shadow by (auto simp: evaluate_run_def evaluate_with_shadow_def andthen_def ret_def split: sum.splits)
  ultimately show ?thesis using stored
    by (auto simp: get_evaluation_result_def executable_candidate_output_def)
qed

section \<open>Disagreements\<close>

text \<open>
  What the comparison looks at: the terminal category of a ticker, the magnitude, the conviction
  and the evidence of its record.
\<close>

definition ticker_view ::
    "daybreak_output \<Rightarrow> string \<Rightarrow> (string \<times> magnitude_bucket \<times> int option \<times> ptext \<times> int option \<times> int option) option" where
  "ticker_view d t =
     map_option (\<lambda>(terminal, r). (terminal, sb_catalyst_magnitude_bucket (score_of r), conviction_of (Some r),
         sb_magnitude_evidence_excerpt (score_of r), sb_magnitude_evidence_start_char (score_of r),
         sb_magnitude_evidence_end_char (score_of r)))
       (map_of (terminal_map d) t)"

lemma magnitude_bucket_value_inject [simp]: "magnitude_bucket_value a = magnitude_bucket_value b \<longleftrightarrow> a = b"
  by (cases a; cases b) simp_all

lemma disagreement_iff:
  "disagreement_of t (map_of (terminal_map p) t) (map_of (terminal_map s) t) = None \<longleftrightarrow> ticker_view p t = ticker_view s t"
  by (cases "map_of (terminal_map p) t"; cases "map_of (terminal_map s) t")
    (auto simp: disagreement_of_def ticker_view_def same_evidence_def Let_def)

lemma disagreement_ticker: "disagreement_of t p s = Some x \<Longrightarrow> tdg_ticker x = t"
  by (auto simp: disagreement_of_def Let_def split: if_splits)

lemma map_filter_keys:
  assumes "\<And>t x. f t = Some x \<Longrightarrow> k x = t"
  shows "map k (List.map_filter f ts) = filter (\<lambda>t. f t \<noteq> None) ts"
  by (induction ts) (auto simp: List.map_filter_simps assms split: option.splits)

lemma ticker_view_None: "t \<notin> set (map fst (terminal_map d)) \<Longrightarrow> ticker_view d t = None"
  by (simp add: ticker_view_def map_of_eq_None_iff)

text \<open>
  Claim C33. The comparison of two outputs reports exactly the tickers on which they differ in
  what matters, each once and in order: the tickers whose terminal category, magnitude,
  conviction score or evidence is not the same in both, a ticker missing from one of them
  included.
\<close>

theorem disagreements_exact:
  "sorted (map tdg_ticker (shc_ticker_disagreements (compare_outputs dumps i j p s))) \<and>
   distinct (map tdg_ticker (shc_ticker_disagreements (compare_outputs dumps i j p s))) \<and>
   set (map tdg_ticker (shc_ticker_disagreements (compare_outputs dumps i j p s))) = {t. ticker_view p t \<noteq> ticker_view s t}"
proof -
  let ?ts = "sort (remdups (map fst (terminal_map p) @ map fst (terminal_map s)))"
  let ?f = "\<lambda>t. disagreement_of t (map_of (terminal_map p) t) (map_of (terminal_map s) t)"
  have eq: "map tdg_ticker (shc_ticker_disagreements (compare_outputs dumps i j p s)) = filter (\<lambda>t. ?f t \<noteq> None) ?ts"
    by (simp only: compare_outputs_def Let_def shadow_comparison.simps) (rule map_filter_keys, rule disagreement_ticker)
  have "set (filter (\<lambda>t. ?f t \<noteq> None) ?ts) = {t. ticker_view p t \<noteq> ticker_view s t}"
  proof -
    have "t \<in> set ?ts" if "ticker_view p t \<noteq> ticker_view s t" for t
    proof (rule ccontr)
      assume "t \<notin> set ?ts"
      then have "ticker_view p t = None" "ticker_view s t = None" by (auto intro!: ticker_view_None)
      then show False using that by simp
    qed
    then show ?thesis by (auto simp: disagreement_iff)
  qed
  then show ?thesis unfolding eq by (simp add: sorted_wrt_filter del: set_filter)
qed

end
