(* ===== verification/Evaluator_Errors.thy ===== *)
theory Evaluator_Errors
  imports Evaluator_Properties
begin

text \<open>
  When an evaluation raises: with identifiers that are fresh, no validator of the evaluator's
  own records ever fails and no attempt collides with another.
\<close>

section \<open>Fresh identifiers\<close>

text \<open>
  \<open>uuid4\<close> never repeats an identifier: \<open>used\<close> is the set of those the world has handed out, and
  reading the clock or asking the provider hands out none.
\<close>

definition fresh_ids :: "'w evaluator_env \<Rightarrow> ('w \<Rightarrow> string set) \<Rightarrow> bool" where
  "fresh_ids env used \<longleftrightarrow>
     (\<forall>w. fst (vn_new_id env w) \<notin> used w \<and>
        used (snd (vn_new_id env w)) = insert (fst (vn_new_id env w)) (used w)) \<and>
     (\<forall>w. used (snd (vn_clock env w)) = used w) \<and> (\<forall>c w. used (snd (vn_create env c w)) = used w)"

definition ids_known :: "('w \<Rightarrow> string set) \<Rightarrow> 'w evaluator_state \<Rightarrow> bool" where
  "ids_known used s \<longleftrightarrow> dom (stored_attempt (ev_repository s)) \<subseteq> used (ev_world s)"

lemma fresh_idsD:
  assumes "fresh_ids env used"
  shows "vn_new_id env w = (x, w') \<Longrightarrow> x \<notin> used w" and "vn_new_id env w = (x, w') \<Longrightarrow> used w' = insert x (used w)"
    and "vn_clock env w = (t, w') \<Longrightarrow> used w' = used w" and "vn_create env c w = (r, w') \<Longrightarrow> used w' = used w"
  using assms unfolding fresh_ids_def by (metis fst_conv snd_conv)+

section \<open>Faults of the provider that are not caught\<close>

definition provider_fault :: "(transport_call \<times> (transport_failure + provider_result)) list \<Rightarrow> exn \<Rightarrow> bool" where
  "provider_fault calls e \<longleftrightarrow>
     (\<exists>c. (c, Inl (OtherFailure e)) \<in> set calls) \<or>
     (\<exists>c provider x n. (c, Inr provider) \<in> set calls \<and> prr_output_text provider = Some x \<and>
        json_loads x = Some (IntTooLong n) \<and> e = (''ValueError'', int_limit_message n))"

lemma provider_fault_more: "provider_fault calls e \<Longrightarrow> set calls \<subseteq> set calls' \<Longrightarrow> provider_fault calls' e"
  unfolding provider_fault_def by blast

section \<open>The attempts\<close>

text \<open>The new attempt has a new identifier, and all identifiers that are in the repository stay known.\<close>

definition new_known ::
    "('w \<Rightarrow> string set) \<Rightarrow> 'w evaluator_state \<Rightarrow> evaluation_attempt list \<Rightarrow> 'w evaluator_state \<Rightarrow> bool" where
  "new_known used s attempts t \<longleftrightarrow>
     ids_known used t \<and> distinct (map att_attempt_id attempts) \<and>
     set (map att_attempt_id attempts) \<inter> used (ev_world s) = {} \<and>
     used (ev_world t) = used (ev_world s) \<union> set (map att_attempt_id attempts)"

definition frame_ok :: "'w evaluator_env \<Rightarrow> call_frame \<Rightarrow> bool" where
  "frame_ok env c \<longleftrightarrow>
     1 \<le> cl_attempt_number c \<and> cl_attempt_number c \<le> 2 \<and> valid_hash (pb_spec_hash (cl_prompt c)) \<and>
     valid_hash (vn_schema_sha256 env)"

lemma valid_attempt_of:
  assumes "frame_ok env c" and "st = AT_SUCCEEDED \<Longrightarrow> \<exists>x y. d = Some x \<and> r = Some y \<and> vr_valid y"
  shows "valid_attempt (attempt_of env c i rcv st p d r e)"
  using assms
  by (auto simp: valid_attempt_def attempt_of_def frame_ok_def terminal_shape_attempt_def request_hash_def prompt_hash_def
      Let_def split: option.splits)

lemma finish_fresh:
  assumes "fresh_ids env used" "ids_known used s" "frame_ok env c"
    and "st = AT_SUCCEEDED \<Longrightarrow> \<exists>x y. d = Some x \<and> r = Some y \<and> vr_valid y"
  shows "wp (finish_attempt env c st p d r e) (\<lambda>a t. new_known used s [a] t) (\<lambda>e t. False) s"
proof -
  obtain i w where i: "vn_new_id env (ev_world s) = (i, w)" by fastforce
  note fresh = fresh_idsD(1,2) [OF assms(1) i]
  have saved: "\<exists>rep. save_attempt a (ev_repository s) = Inr rep \<and>
      (\<forall>k. stored_attempt rep k = (if k = i then Some a else stored_attempt (ev_repository s) k))" if "att_attempt_id a = i" for a
  proof -
    have "stored_attempt (ev_repository s) (att_attempt_id a) = None" using assms(2) fresh(1) that by (auto simp: ids_known_def domIff)
    then show ?thesis using evaluator_attempts.save_new [of "ev_repository s" a] that by simp
  qed
  have known: "new_known used s [a] (s\<lparr>ev_world := w', ev_repository := rep\<rparr>)"
    if "save_attempt a (ev_repository s) = Inr rep" "att_attempt_id a = i" "used w' = used w" for a rep w'
  proof -
    have "stored_attempt rep k = (if k = i then Some a else stored_attempt (ev_repository s) k)" for k
      using saved [OF that(2)] that(1) by auto
    then show ?thesis using assms(2) fresh that(2,3) by (auto simp: new_known_def ids_known_def dom_def split: if_splits)
  qed
  have finished: "wp (andthen (if valid_attempt a then ret a else raise x) (\<lambda>a. andthen (repository_call (save_attempt a)) (\<lambda>_. ret a)))
      (\<lambda>a t. new_known used s [a] t) (\<lambda>e t. False) (s\<lparr>ev_world := w'\<rparr>)"
    if "valid_attempt a" "att_attempt_id a = i" "used w' = used w" for a x w'
    using that saved [OF that(2)] known [of a _ w'] by auto
  obtain t w2 where clock: "vn_clock env w = (t, w2)" by fastforce
  show ?thesis
  proof (cases p)
    case None
    then show ?thesis
      using finished [of "attempt_of env c i t st p d r e" w2] i clock fresh_idsD(3) [OF assms(1) clock]
        valid_attempt_of [OF assms(3,4), where rcv = t]
      by (simp add: finish_attempt_def new_attempt_def Let_def)
  next
    case (Some x)
    then show ?thesis
      using finished [of "attempt_of env c i (prr_completed_at x) st p d r e" w] i valid_attempt_of [OF assms(3,4), where rcv = "prr_completed_at x"]
      by (simp add: finish_attempt_def new_attempt_def Let_def)
  qed
qed

lemma check_response_fresh:
  assumes "fresh_ids env used" "ids_known used s" "frame_ok env c"
    and "(call, Inr provider) \<in> set (drop k (ev_calls s))"
  shows "wp (check_response env c provider) (\<lambda>a t. new_known used s [a] t)
    (\<lambda>e t. provider_fault (drop k (ev_calls t)) e) s"
proof -
  have finish: "wp (finish_attempt env c st p d r e) (\<lambda>a t. new_known used s [a] t)
      (\<lambda>e t. provider_fault (drop k (ev_calls t)) e) s"
    if "st = AT_SUCCEEDED \<Longrightarrow> \<exists>x y. d = Some x \<and> r = Some y \<and> vr_valid y" for st p d r e
    by (rule wp_mono [OF finish_fresh [OF assms(1-3)]]) (use that in auto)
  then have failed: "wp (finish_attempt env c st p d r e) (\<lambda>a t. new_known used s [a] t)
      (\<lambda>e t. provider_fault (drop k (ev_calls t)) e) s" if "st \<noteq> AT_SUCCEEDED" for st p d r e
    using that by blast
  have "wp (check_output env c provider x) (\<lambda>a t. new_known used s [a] t) (\<lambda>e t. provider_fault (drop k (ev_calls t)) e) s"
    if "prr_output_text provider = Some x" for x
  proof (cases "json_loads x")
    case None
    show ?thesis
    proof (cases "vn_parse_output env (Inr x)")
      case (Inl e)
      then show ?thesis using None by (simp add: check_output_def failed)
    next
      case (Inr d)
      then show ?thesis using None by (simp add: check_output_def Let_def failed finish)
    qed
  next
    case (Some f)
    show ?thesis
    proof (cases f)
      case NotJson
      then show ?thesis using Some by (simp add: check_output_def failed)
    next
      case (IntTooLong n)
      then have "provider_fault (drop k (ev_calls s)) (''ValueError'', int_limit_message n)"
        using assms(4) that Some unfolding provider_fault_def by blast
      then show ?thesis using Some IntTooLong by (simp add: check_output_def)
    qed
  qed
  moreover have "prr_output_text provider = Some (the (prr_output_text provider))" if "truthy_text (prr_output_text provider)"
    using that by (auto simp: truthy_text_def)
  ultimately show ?thesis by (simp add: check_response_def failed)
qed

lemma new_known_world:
  "new_known used (s\<lparr>ev_world := w\<rparr>) as t \<Longrightarrow> used w = used (ev_world s) \<Longrightarrow> new_known used s as t"
  "new_known used (s\<lparr>ev_world := w, ev_calls := c\<rparr>) as t \<Longrightarrow> used w = used (ev_world s) \<Longrightarrow> new_known used s as t"
  by (simp_all add: new_known_def)

lemma call_framed_fresh:
  assumes "fresh_ids env used" "ids_known used s" "frame_ok env c" "k \<le> length (ev_calls s)"
  shows "wp (call_framed env c) (\<lambda>a t. new_known used s [a] t) (\<lambda>e t. provider_fault (drop k (ev_calls t)) e) s"
proof (cases "cl_role c = ROLE_PRIMARY \<and> remaining_seconds c \<le> 0")
  case True
  then show ?thesis by (simp add: call_framed_def) (rule wp_mono [OF finish_fresh [OF assms(1-3)]], auto)
next
  case False
  let ?call = "transport_call_of (vn_policy env) (cl_prompt c) (cl_model c) (timeout_of (vn_policy env) c)"
  obtain answer w where answer: "vn_create env ?call (ev_world s) = (answer, w)" by fastforce
  let ?s = "s\<lparr>ev_world := w, ev_calls := ev_calls s @ [(?call, answer)]\<rparr>"
  have same: "used w = used (ev_world s)" using fresh_idsD(4) [OF assms(1) answer] .
  have known: "ids_known used ?s" using assms(2) same by (simp add: ids_known_def)
  have finish: "wp (finish_attempt env c st p d r e) (\<lambda>a t. new_known used s [a] t)
      (\<lambda>e t. provider_fault (drop k (ev_calls t)) e) ?s" if "st \<noteq> AT_SUCCEEDED" for st p d r e
    by (rule wp_mono [OF finish_fresh [OF assms(1) known assms(3)]]) (use that new_known_world(2) [OF _ same] in auto)
  have eq: "call_framed env c = ask_and_check env c" unfolding call_framed_def using False by (rule if_not_P)
  show ?thesis unfolding eq
  proof (cases answer)
    case (Inl f)
    have "provider_fault (drop k (ev_calls ?s)) e" if "f = OtherFailure e" for e
      using that Inl assms(4) by (auto simp: provider_fault_def)
    then show "wp (ask_and_check env c) (\<lambda>a t. new_known used s [a] t) (\<lambda>e t. provider_fault (drop k (ev_calls t)) e) s"
      using answer Inl finish by (cases f) (simp_all add: ask_and_check_def del: drop_append)
  next
    case (Inr provider)
    have "wp (check_response env c provider) (\<lambda>a t. new_known used ?s [a] t) (\<lambda>e t. provider_fault (drop k (ev_calls t)) e) ?s"
      by (rule check_response_fresh [OF assms(1) known assms(3), of ?call]) (use Inr assms(4) in auto)
    then have "wp (check_response env c provider) (\<lambda>a t. new_known used s [a] t) (\<lambda>e t. provider_fault (drop k (ev_calls t)) e) ?s"
      by (rule wp_mono) (use new_known_world(2) [OF _ same] in auto)
    then show "wp (ask_and_check env c) (\<lambda>a t. new_known used s [a] t) (\<lambda>e t. provider_fault (drop k (ev_calls t)) e) s"
      using answer Inr by (simp add: ask_and_check_def)
  qed
qed

lemma call_once_fresh:
  assumes "fresh_ids env used" "ids_known used s" "k \<le> length (ev_calls s)"
    and "1 \<le> n" "n \<le> 2" "valid_hash (pb_spec_hash prompt)" "valid_hash (vn_schema_sha256 env)"
  shows "wp (call_once env request prompt role model n) (\<lambda>a t. new_known used s [a] t)
    (\<lambda>e t. provider_fault (drop k (ev_calls t)) e) s"
proof -
  obtain started w where clock: "vn_clock env (ev_world s) = (started, w)" by fastforce
  have same: "used w = used (ev_world s)" using fresh_idsD(3) [OF assms(1) clock] .
  let ?c = "\<lparr>cl_request = request, cl_prompt = prompt, cl_role = role, cl_model = model, cl_attempt_number = n,
    cl_started = started\<rparr>"
  have "wp (call_framed env ?c) (\<lambda>a t. new_known used (s\<lparr>ev_world := w\<rparr>) [a] t)
      (\<lambda>e t. provider_fault (drop k (ev_calls t)) e) (s\<lparr>ev_world := w\<rparr>)"
    by (rule call_framed_fresh [OF assms(1)]) (use assms same in \<open>auto simp: ids_known_def frame_ok_def\<close>)
  then have "wp (call_framed env ?c) (\<lambda>a t. new_known used s [a] t)
      (\<lambda>e t. provider_fault (drop k (ev_calls t)) e) (s\<lparr>ev_world := w\<rparr>)"
    by (rule wp_mono) (use new_known_world(1) [OF _ same] in auto)
  then show ?thesis by (simp add: call_once_def clock)
qed

lemma new_known_Cons:
  assumes "new_known used s [a] t" "new_known used t as u"
  shows "new_known used s (a # as) u"
  using assms by (auto simp: new_known_def)

lemma evaluate_role_fresh:
  assumes "fresh_ids env used" "ids_known used s" "k \<le> length (ev_calls s)"
    and "set ns \<subseteq> {1..2}" "valid_hash (pb_spec_hash prompt)" "valid_hash (vn_schema_sha256 env)"
  shows "wp (evaluate_role env request prompt role model ns) (\<lambda>as t. new_known used s as t)
    (\<lambda>e t. provider_fault (drop k (ev_calls t)) e) s"
  using assms(2-4)
proof (induction ns arbitrary: s)
  case Nil
  then show ?case by (simp add: new_known_def)
next
  case (Cons n ns)
  let ?E = "\<lambda>e t. provider_fault (drop k (ev_calls t)) e"
  have again: "wp (andthen (evaluate_role env request prompt role model ns) (\<lambda>rest. ret (a # rest)))
      (\<lambda>as t. new_known used s as t) ?E u" if "new_known used s [a] u" "k \<le> length (ev_calls u)" for u a
    unfolding wp_andthen
    by (rule wp_mono [OF Cons.IH]) (use that Cons.prems(3) in \<open>auto simp: new_known_Cons intro: new_known_Cons\<close>,
      auto simp: new_known_def)
  have call: "wp (call_once env request prompt role model n)
      (\<lambda>a t. new_known used s [a] t \<and> k \<le> length (ev_calls t)) ?E s"
    by (rule wp_mono [OF wp_conj [OF call_once_fresh wp_steps [OF only_call_once]]])
      (use Cons.prems assms in \<open>auto simp: only_attempts_def dest: prefix_length_le\<close>)
  show ?case unfolding evaluate_role.simps Let_def
  proof (rule wp_then [OF call])
    fix a and t :: "'a evaluator_state"
    assume t: "new_known used s [a] t \<and> k \<le> length (ev_calls t)"
    have later: "new_known used s [a] (t\<lparr>ev_world := w\<rparr>)" if "vn_clock env (ev_world t) = (x, w)" for x w
      using t fresh_idsD(3) [OF assms(1) that] by (auto simp: new_known_def ids_known_def)
    show "wp (if att_status a = AT_SUCCEEDED then ret [a]
        else if att_status a \<noteq> AT_TRANSPORT_ERROR then ret [a]
        else if role = ROLE_PRIMARY then
          andthen (evaluator_clock env) (\<lambda>now. if now \<ge> evq_response_cutoff_timestamp request then ret [a]
            else andthen (evaluate_role env request prompt role model ns) (\<lambda>rest. ret (a # rest)))
        else andthen (evaluate_role env request prompt role model ns) (\<lambda>rest. ret (a # rest)))
      (\<lambda>as t. new_known used s as t) ?E t"
      using t later again [of a]
      by (auto simp del: wp_andthen simp: wp_andthen [of "evaluator_clock env"] split: prod.splits)
  qed
qed

section \<open>The result is coherent\<close>

lemma find_unique:
  assumes "distinct (map f xs)" "a \<in> set xs"
  shows "List.find (\<lambda>x. f x = f a) xs = Some a"
  using assms by (induction xs) auto

lemma primary_result_coherent:
  assumes "role_run env request prompt ROLE_PRIMARY model ns k t attempts" "distinct (map att_attempt_id attempts)"
  shows "coherent_run_result (primary_result_of request attempts) = None"
proof -
  have own: "\<forall>a \<in> set attempts. att_run_id a = evq_run_id request \<and> att_role a = ROLE_PRIMARY"
    using assms(1) by (simp add: role_run_def recorded_def)
  have checks: "\<not> list_ex (\<lambda>a. att_run_id a \<noteq> evq_run_id request) attempts" "\<not> list_ex (\<lambda>a. att_role a \<noteq> ROLE_PRIMARY) attempts"
    "length (remdups (map att_attempt_id attempts)) = length attempts"
    using own assms(2) by (auto simp: list_ex_iff distinct_remdups_id)
  show ?thesis
  proof (cases "last_success attempts")
    case None
    then show ?thesis using checks
      by (simp add: primary_result_of_def coherent_run_result_def Let_def)
  next
    case (Some a)
    have a: "a \<in> set attempts" "att_status a = AT_SUCCEEDED" using last_success_Some [OF Some] by simp_all
    then have "answered env request prompt ROLE_PRIMARY model (drop k (ev_calls t)) a"
      using assms(1) by (simp add: role_run_def recorded_def)
    then obtain d time where "att_output a = Some d" "att_response_received_at a = Some time" unfolding answered_def by blast
    then show ?thesis using checks Some a find_unique [OF assms(2) a(1)]
      by (simp add: primary_result_of_def coherent_run_result_def Let_def)
  qed
qed

lemma expected_spec_hash: "valid_hash EXPECTED_SPEC_SHA256"
  by code_simp

lemma build_prompt_hash: "build_prompt dumps source payload = Inr prompt \<Longrightarrow> valid_hash (pb_spec_hash prompt)"
  by (auto simp: build_prompt_def load_spec_text_def checked_spec_def map_sum_Inr Let_def expected_spec_hash
      split: option.splits sum.splits if_splits)


end
