(* ===== verification/Feature_Core.thy ===== *)
theory Feature_Core
  imports Feature_Models
begin

text \<open>
  The trade ledger (\<open>daybreak_features/ledger.py\<close>), the market features
  (\<open>core_features.py\<close>) and the joins of float and catalyst records (\<open>joins.py\<close>).

  The time zone database is a parameter: \<open>ny\<close> gives the date in New York and the microseconds
  since local midnight of a moment.
\<close>

type_synonym local_time = "timestamp \<Rightarrow> date \<times> int"

section \<open>daybreak\_features/ledger.py\<close>

record ledger_state =
  ld_active :: "(string, materialized_trade) dict"
  ld_aliases :: "(string, string) dict"

definition materialized :: "trade_ledger_event \<Rightarrow> materialized_trade feature_result" where
  "materialized event =
     (case (te_price event, te_size event) of
        (Some price, Some shares) \<Rightarrow>
          Inr \<lparr>mz_trade_id = te_trade_id event, mz_event_timestamp = te_event_timestamp event, mz_price = price,
               mz_size = shares, mz_ingest_seq = te_ingest_seq event\<rparr>
      | _ \<Rightarrow> Inl (Crash AssertionError))"

definition activate :: "trade_ledger_event \<Rightarrow> ledger_state \<Rightarrow> ledger_state feature_result" where
  "activate event s =
     fbind (materialized event) (\<lambda>trade. Inr (s\<lparr>ld_active := AList.update (te_trade_id event) trade (ld_active s)\<rparr>))"

definition set_alias :: "string \<Rightarrow> string \<Rightarrow> ledger_state \<Rightarrow> ledger_state" where
  "set_alias k v s = s\<lparr>ld_aliases := AList.update k v (ld_aliases s)\<rparr>"

definition new_trade :: "trade_ledger_event \<Rightarrow> ledger_state \<Rightarrow> ledger_state feature_result" where
  "new_trade event s =
     (let k = te_trade_id event in
      if map_of (ld_active s) k \<noteq> None \<or> map_of (ld_aliases s) k \<noteq> None
      then Inl (DataQuality ''DUPLICATE_TRADE_ID'' (''duplicate trade id '' @ k))
      else if \<not> te_eligible event then Inr (set_alias k k s)
      else fbind (activate event s) (\<lambda>t. Inr (set_alias k k t)))"

definition revise_trade :: "trade_ledger_event \<Rightarrow> ledger_state \<Rightarrow> ledger_state feature_result" where
  "revise_trade event s =
     (case te_original_trade_id event of
        None \<Rightarrow> Inl (Crash AssertionError)
      | Some original \<Rightarrow>
          let root = (case map_of (ld_aliases s) original of None \<Rightarrow> original | Some r \<Rightarrow> r) in
          if map_of (ld_active s) root = None
          then Inl (DataQuality ''UNKNOWN_ORIGINAL_TRADE''
            (trade_action_value (te_action event) @ '' references unknown active trade '' @ original))
          else
            let k = te_trade_id event;
                t = set_alias original k (set_alias k k (s\<lparr>ld_active := AList.delete root (ld_active s)\<rparr>))
            in if te_action event = TA_CANCEL \<or> \<not> te_eligible event then Inr t else activate event t)"

definition apply_event :: "trade_ledger_event \<Rightarrow> ledger_state \<Rightarrow> ledger_state feature_result" where
  "apply_event event s = (if te_action event = TA_NEW then new_trade event s else revise_trade event s)"

fun apply_events :: "trade_ledger_event list \<Rightarrow> ledger_state \<Rightarrow> ledger_state feature_result" where
  "apply_events [] s = Inr s"
| "apply_events (event # events) s = fbind (apply_event event s) (apply_events events)"

definition empty_ledger :: ledger_state where
  "empty_ledger = \<lparr>ld_active = [], ld_aliases = []\<rparr>"

definition trade_key :: "materialized_trade \<Rightarrow> timestamp \<times> int \<times> string" where
  "trade_key t = (mz_event_timestamp t, mz_ingest_seq t, mz_trade_id t)"

definition materialize_trades :: "trade_ledger_event list \<Rightarrow> materialized_trade list feature_result" where
  "materialize_trades events =
     (let ordered = sort_key te_ingest_seq events in
      if length (remdups (map te_ingest_seq ordered)) \<noteq> length ordered
      then Inl (DataQuality ''DUPLICATE_INGEST_SEQUENCE'' ''trade events contain duplicate ingest_seq'')
      else fbind (apply_events ordered empty_ledger) (\<lambda>s. Inr (sort_key trade_key (dict_values (ld_active s)))))"

section \<open>daybreak\_features/core\_features.py\<close>

definition config_start :: "feature_engine_config \<Rightarrow> int feature_result" where
  "config_start config =
     (case time_of_iso (fc_premarket_start_et config) of
        None \<Rightarrow> Inl (Crash (ValueError (''Invalid isoformat string: '' @ fc_premarket_start_et config)))
      | Some start \<Rightarrow> Inr start)"

definition in_premarket_window ::
    "local_time \<Rightarrow> timestamp \<Rightarrow> int \<Rightarrow> materialized_trade \<Rightarrow> bool" where
  "in_premarket_window ny snapshot start trade =
     (let local = ny (mz_event_timestamp trade); snapshot_local = ny snapshot in
      fst local = fst snapshot_local \<and> start \<le> snd local \<and> snd local \<le> snd snapshot_local)"

text \<open>The start of the window is parsed for every trade, so only when there is one.\<close>

definition window_filter ::
    "feature_engine_config \<Rightarrow> (int \<Rightarrow> materialized_trade \<Rightarrow> bool) \<Rightarrow> materialized_trade list \<Rightarrow>
     materialized_trade list feature_result" where
  "window_filter config inside trades =
     (if trades = [] then Inr [] else fbind (config_start config) (\<lambda>start. Inr (filter (inside start) trades)))"

definition current_session_trades ::
    "local_time \<Rightarrow> trade_ledger_event list \<Rightarrow> timestamp \<Rightarrow> feature_engine_config \<Rightarrow>
     materialized_trade list feature_result" where
  "current_session_trades ny events snapshot config =
     fbind (materialize_trades events) (window_filter config (in_premarket_window ny snapshot))"

definition current_price :: "materialized_trade list \<Rightarrow> rat feature_result" where
  "current_price trades =
     (if trades = [] then Inl (DataQuality ''NO_ELIGIBLE_PREMARKET_TRADES'' ''no materialized trades in snapshot window'')
      else Inr (mz_price (last trades)))"

definition premarket_low :: "materialized_trade list \<Rightarrow> rat feature_result" where
  "premarket_low trades =
     (if trades = [] then Inl (DataQuality ''NO_ELIGIBLE_PREMARKET_TRADES'' ''cannot calculate premarket low'')
      else Inr (Min (set (map mz_price trades))))"

definition gap_pct :: "rat \<Rightarrow> rat \<Rightarrow> rat feature_result" where
  "gap_pct price previous_close =
     (if previous_close \<le> 0 then Inl (DataQuality ''INVALID_PREVIOUS_CLOSE'' ''previous close must be positive'')
      else fbind (decimal_op (ddiv (dsub price previous_close) previous_close)) (\<lambda>q.
        decimal_op (quantize_six (dmul q 100))))"

definition premarket_volume :: "materialized_trade list \<Rightarrow> int" where
  "premarket_volume trades = sum_list (map mz_size trades)"

text \<open>\<open>sum\<close> adds from the left, beginning with the integer 0.\<close>

definition premarket_vwap :: "materialized_trade list \<Rightarrow> rat feature_result" where
  "premarket_vwap trades =
     (let volume = premarket_volume trades in
      if volume \<le> 0 then Inl (DataQuality ''ZERO_PREMARKET_VOLUME'' ''cannot calculate VWAP with zero volume'')
      else
        let notional = foldl dadd 0 (map (\<lambda>t. dmul (mz_price t) (of_int (mz_size t))) trades) in
        fbind (decimal_op (ddiv notional (of_int volume))) (\<lambda>q. decimal_op (quantize_six q)))"

definition distance_from_vwap_atr :: "rat \<Rightarrow> rat \<Rightarrow> rat \<Rightarrow> rat feature_result" where
  "distance_from_vwap_atr price vwap atr =
     (if atr \<le> 0 then Inl (DataQuality ''INVALID_ATR'' ''ATR must be positive'')
      else fbind (decimal_op (ddiv (dsub price vwap) atr)) (\<lambda>q. decimal_op (quantize_six q)))"

definition true_range :: "daily_bar \<Rightarrow> rat \<Rightarrow> rat" where
  "true_range current previous_close =
     max (max (dsub (db_high current) (db_low current)) (dabs (dsub (db_high current) previous_close)))
       (dabs (dsub (db_low current) previous_close))"

text \<open>The true ranges of the second to the last bar.\<close>

fun true_ranges :: "daily_bar list \<Rightarrow> rat list" where
  "true_ranges (previous # current # bars) =
     true_range current (db_close previous) # true_ranges (current # bars)"
| "true_ranges _ = []"

definition wilder_step :: "rat \<Rightarrow> rat \<Rightarrow> rat" where
  "wilder_step atr x = dec (dadd (dmul atr 13) x / 14)"

definition wilder_atr_14 :: "daily_bar list \<Rightarrow> rat feature_result" where
  "wilder_atr_14 bars =
     (if length bars < 15
      then Inl (DataQuality ''INSUFFICIENT_ATR_HISTORY'' ''ATR-14 requires at least 15 daily bars'')
      else
        let ranges = true_ranges bars;
            initial = dec (foldl dadd 0 (take 14 ranges) / 14);
            atr = foldl wilder_step initial (drop 14 ranges)
        in if atr \<le> 0 then Inl (DataQuality ''INVALID_ATR'' ''computed ATR is nonpositive'')
           else decimal_op (quantize_six atr))"

definition historical_session_volume ::
    "local_time \<Rightarrow> premarket_session \<Rightarrow> timestamp \<Rightarrow> feature_engine_config \<Rightarrow> int feature_result" where
  "historical_session_volume ny session snapshot config =
     (if \<not> ps_complete session
      then Inl (DataQuality ''INCOMPLETE_RVOL_SESSION''
        (''historical session '' @ date_text (ps_session_date session) @ '' incomplete''))
      else fbind (config_start config) (\<lambda>start.
        fbind (materialize_trades (ps_events session)) (\<lambda>trades.
          Inr (premarket_volume (filter (\<lambda>t.
            fst (ny (mz_event_timestamp t)) = ps_session_date session \<and> start \<le> snd (ny (mz_event_timestamp t)) \<and>
            snd (ny (mz_event_timestamp t)) \<le> snd (ny snapshot)) trades)))))"

fun fmap :: "('a \<Rightarrow> 'b feature_result) \<Rightarrow> 'a list \<Rightarrow> 'b list feature_result" where
  "fmap f [] = Inr []"
| "fmap f (x # xs) = fbind (f x) (\<lambda>y. fbind (fmap f xs) (\<lambda>ys. Inr (y # ys)))"

definition rvol_time_matched ::
    "local_time \<Rightarrow> int \<Rightarrow> premarket_session list \<Rightarrow> timestamp \<Rightarrow> feature_engine_config \<Rightarrow> rat feature_result" where
  "rvol_time_matched ny current_volume sessions snapshot config =
     (if int (length sessions) < fc_rvol_lookback_sessions config
      then Inl (DataQuality ''INSUFFICIENT_RVOL_HISTORY''
        (''requires '' @ show_int (fc_rvol_lookback_sessions config) @ '' complete historical sessions''))
      else
        let ordered = sort_key ps_session_date sessions;
            selected = drop (length ordered - nat (fc_rvol_lookback_sessions config)) ordered
        in fbind (fmap (\<lambda>s. historical_session_volume ny s snapshot config) selected) (\<lambda>volumes.
           fbind (decimal_op (ddiv (of_int (sum_list volumes)) (of_nat (length volumes)))) (\<lambda>average.
           if average \<le> 0 then Inl (DataQuality ''ZERO_RVOL_BASELINE'' ''historical premarket average is zero'')
           else fbind (decimal_op (ddiv (of_int current_volume) average)) (\<lambda>q. decimal_op (quantize_six q)))))"

text \<open>The hour and the minute of a local time, in minutes.\<close>

definition minute_of_day :: "int \<Rightarrow> int" where
  "minute_of_day t = t div 60000000"

definition add_to_bucket :: "int \<Rightarrow> int \<Rightarrow> int list \<Rightarrow> int list" where
  "add_to_bucket index shares buckets =
     (if 0 \<le> index then buckets[nat index := buckets ! nat index + shares] else buckets)"

definition fill_buckets :: "local_time \<Rightarrow> int \<Rightarrow> int \<Rightarrow> int \<Rightarrow> materialized_trade list \<Rightarrow> int list" where
  "fill_buckets ny start_minutes bucket_width bucket_count trades =
     foldl (\<lambda>buckets t.
       add_to_bucket (min ((minute_of_day (snd (ny (mz_event_timestamp t))) - start_minutes) div bucket_width)
         (bucket_count - 1)) (mz_size t) buckets)
       (replicate (nat bucket_count) 0) trades"

definition volume_profile_of ::
    "local_time \<Rightarrow> materialized_trade list \<Rightarrow> timestamp \<Rightarrow> feature_engine_config \<Rightarrow> volume_profile feature_result" where
  "volume_profile_of ny trades snapshot config =
     (let total = premarket_volume trades in
      if total \<le> 0 then Inl (DataQuality ''ZERO_PREMARKET_VOLUME'' ''cannot classify volume profile'')
      else fbind (config_start config) (\<lambda>start.
        let start_minutes = minute_of_day start;
            end_minutes = minute_of_day (snd (ny snapshot));
            bucket_width = fc_volume_bucket_minutes config;
            bucket_count = (end_minutes - start_minutes) div bucket_width + 1
        in if bucket_count \<le> 0
           then Inl (DataQuality ''INVALID_PREMARKET_WINDOW'' ''snapshot precedes premarket start'')
           else
             let buckets = fill_buckets ny start_minutes bucket_width bucket_count trades in
             fbind (decimal_op (ddiv (of_int (Max (set buckets))) (of_int total))) (\<lambda>max_share.
             fbind (decimal_op (ddiv (of_nat (length (filter (\<lambda>x. x > 0) buckets))) (of_int bucket_count)))
               (\<lambda>nonempty_coverage.
               Inr (if max_share > fc_spiky_max_bucket_share config \<or>
                      nonempty_coverage < fc_spiky_min_nonempty_coverage config
                    then VP_SPIKY else VP_CLEAN)))))"

section \<open>daybreak\_features/joins.py\<close>

definition float_usable :: "string \<Rightarrow> timestamp \<Rightarrow> feature_engine_config \<Rightarrow> float_record \<Rightarrow> bool" where
  "float_usable ticker snapshot config r \<longleftrightarrow>
     fl_ticker r = ticker \<and> fl_effective_date r \<le> utc_date snapshot \<and> fl_observed_at r \<le> snapshot \<and>
     fl_validated_at r \<le> snapshot \<and> snapshot < fl_expires_at r \<and>
     (fl_quality_status r = QS_VERIFIED \<or>
      fc_allow_single_source_float config \<and> fl_quality_status r = QS_SINGLE_SOURCE)"

definition float_key :: "float_record \<Rightarrow> date \<times> timestamp \<times> timestamp" where
  "float_key r = (fl_effective_date r, fl_observed_at r, fl_validated_at r)"

text \<open>\<open>max(items, key=...)\<close>: the first item of the greatest key.\<close>

fun max_by :: "('a \<Rightarrow> 'b::linorder) \<Rightarrow> 'a \<Rightarrow> 'a list \<Rightarrow> 'a" where
  "max_by key best [] = best"
| "max_by key best (x # xs) = max_by key (if key x > key best then x else best) xs"

definition select_float_record ::
    "float_record list \<Rightarrow> string \<Rightarrow> timestamp \<Rightarrow> feature_engine_config \<Rightarrow> float_record feature_result" where
  "select_float_record records ticker snapshot config =
     (case filter (float_usable ticker snapshot config) records of
        [] \<Rightarrow> Inl (DataQuality ''FLOAT_DATA_UNAVAILABLE'' ''no valid point-in-time float record'')
      | r # rest \<Rightarrow> Inr (max_by float_key r rest))"

fun source_priority :: "feature_source_type \<Rightarrow> int" where
  "source_priority FS_PRIMARY = 0"
| "source_priority FS_SECONDARY = 1"
| "source_priority FS_UNCONFIRMED = 2"

definition catalyst_key :: "catalyst_record \<Rightarrow> int \<times> int \<times> rat \<times> ptext" where
  "catalyst_key c =
     (source_priority (cr_source_type c), if cr_corroborated c then 0 else 1,
      - total_seconds (cr_source_timestamp c) 0, cr_catalyst_id c)"

definition catalyst_age :: "timestamp \<Rightarrow> catalyst_record \<Rightarrow> rat feature_result" where
  "catalyst_age snapshot selected =
     (let age_seconds = float_repr (total_seconds snapshot (cr_source_timestamp selected)) in
      if age_seconds < 0 then Inl (DataQuality ''FUTURE_CATALYST_TIMESTAMP'' ''source timestamp is after snapshot'')
      else fbind (decimal_op (ddiv age_seconds 3600)) (\<lambda>q. decimal_op (quantize_six q)))"

definition select_catalyst ::
    "catalyst_record list \<Rightarrow> string \<Rightarrow> timestamp \<Rightarrow> (catalyst_record \<times> rat) feature_result" where
  "select_catalyst records ticker snapshot =
     (let known = filter (\<lambda>r. cr_ticker r = ticker \<and> cr_observed_at r \<le> snapshot) records in
      if known = [] then Inl (DataQuality ''CATALYST_DATA_UNAVAILABLE'' ''no catalyst known by snapshot'')
      else
        let selected = hd (sort_key catalyst_key known)
        in fbind (catalyst_age snapshot selected) (\<lambda>age_hours. Inr (selected, age_hours)))"

end
