(* ===== verification/Feature_Resistance.thy ===== *)
theory Feature_Resistance
  imports Feature_Core
begin

text \<open>
  The resistance of the daily chart (\<open>daybreak_features/resistance.py\<close>): swing highs, their
  clusters, and the distance to the nearest one.
\<close>

section \<open>Pivots\<close>

record pivot =
  pv_session_date :: date
  pv_price :: rat
  pv_confirmed :: bool
  pv_lookback_high :: bool

record cluster =
  cl_sequence :: int
  cl_anchor :: rat
  cl_members :: "pivot list"
  cl_zone_low :: rat
  cl_zone_high :: rat
  cl_zone_center :: rat
  cl_touch_dates :: "date list"
  cl_most_recent_touch_age :: int
  cl_contains_lookback_high :: bool

definition highest :: "daily_bar list \<Rightarrow> rat" where
  "highest bars = Max (set (map db_high bars))"

definition is_pivot :: "nat \<Rightarrow> nat \<Rightarrow> daily_bar list \<Rightarrow> nat \<Rightarrow> bool" where
  "is_pivot left right bars index \<longleftrightarrow>
     (let price = db_high (bars ! index) in
      price > highest (take left (drop (index - left) bars)) \<and>
      price > highest (take right (drop (index + 1) bars)))"

definition confirmed_pivots :: "nat \<Rightarrow> nat \<Rightarrow> daily_bar list \<Rightarrow> pivot list" where
  "confirmed_pivots left right bars =
     map (\<lambda>index. \<lparr>pv_session_date = db_session_date (bars ! index), pv_price = db_high (bars ! index),
        pv_confirmed = True, pv_lookback_high = False\<rparr>)
       (filter (is_pivot left right bars) [left..<length bars - right])"

definition representative_bar :: "daily_bar list \<Rightarrow> daily_bar" where
  "representative_bar bars =
     (let top = filter (\<lambda>b. db_high b = highest bars) bars in max_by db_session_date (hd top) (tl top))"

definition pivot_candidates :: "daily_bar list \<Rightarrow> feature_engine_config \<Rightarrow> pivot list \<times> bool" where
  "pivot_candidates bars config =
     (let pivots = confirmed_pivots (nat (fc_pivot_left_width config)) (nat (fc_pivot_right_width config)) bars;
          representative = representative_bar bars;
          synthetic = \<not> list_ex (\<lambda>p. pv_session_date p = db_session_date representative) pivots
      in if synthetic
         then (pivots @ [\<lparr>pv_session_date = db_session_date representative, pv_price = db_high representative,
                 pv_confirmed = False, pv_lookback_high = True\<rparr>], synthetic)
         else (map (\<lambda>p. p\<lparr>pv_lookback_high := (pv_session_date p = db_session_date representative)\<rparr>) pivots,
               synthetic))"

section \<open>Clusters\<close>

definition pivot_key :: "pivot \<Rightarrow> rat \<times> date" where
  "pivot_key p = (dneg (pv_price p), pv_session_date p)"

text \<open>The inner loop: the free pivots within the tolerance below the anchor join its cluster.\<close>

fun claim_members ::
    "rat \<Rightarrow> pivot list \<Rightarrow> pivot \<Rightarrow> nat list \<Rightarrow> nat set \<Rightarrow> pivot list \<Rightarrow> nat set \<times> pivot list" where
  "claim_members tolerance pivots anchor [] assigned members = (assigned, members)"
| "claim_members tolerance pivots anchor (i # is) assigned members =
     (if i \<in> assigned then claim_members tolerance pivots anchor is assigned members
      else if dsub (pv_price anchor) (pv_price (pivots ! i)) \<le> tolerance
      then claim_members tolerance pivots anchor is (insert i assigned) (members @ [pivots ! i])
      else claim_members tolerance pivots anchor is assigned members)"

text \<open>The outer loop, which collects the members of each cluster in turn.\<close>

fun claim_clusters :: "rat \<Rightarrow> pivot list \<Rightarrow> nat list \<Rightarrow> nat set \<Rightarrow> pivot list list" where
  "claim_clusters tolerance pivots [] assigned = []"
| "claim_clusters tolerance pivots (i # is) assigned =
     (if i \<in> assigned then claim_clusters tolerance pivots is assigned
      else
        let (assigned', members) =
              claim_members tolerance pivots (pivots ! i) [i + 1..<length pivots] (insert i assigned) [pivots ! i]
        in members # claim_clusters tolerance pivots is assigned')"

text \<open>\<open>statistics.median\<close> of decimals.\<close>

definition median_of :: "rat list \<Rightarrow> rat" where
  "median_of xs =
     (let ys = sort xs; n = length ys in
      if odd n then ys ! (n div 2) else dec (dadd (ys ! (n div 2 - 1)) (ys ! (n div 2)) / 2))"

definition unique_members :: "pivot list \<Rightarrow> pivot list" where
  "unique_members members =
     sort_key pv_session_date
       (dict_values (foldl (\<lambda>d m. AList.update (pv_session_date m) m d) [] members))"

text \<open>\<open>{bar.session_date: index for index, bar in enumerate(bars)}\<close>.\<close>

definition date_index :: "daily_bar list \<Rightarrow> date \<Rightarrow> int option" where
  "date_index bars d = map_of (rev (zip (map db_session_date bars) (map int [0..<length bars]))) d"

definition cluster_of :: "daily_bar list \<Rightarrow> int \<Rightarrow> pivot list \<Rightarrow> cluster feature_result" where
  "cluster_of bars sequence members =
     (let unique = unique_members members;
          prices = map pv_price unique;
          dates = map pv_session_date unique
      in case date_index bars (Max (set dates)) of
           None \<Rightarrow> Inl (Crash (KeyError (date_text (Max (set dates)))))
         | Some i \<Rightarrow>
             Inr \<lparr>cl_sequence = sequence, cl_anchor = pv_price (hd members), cl_members = unique,
                  cl_zone_low = Min (set prices), cl_zone_high = Max (set prices), cl_zone_center = median_of prices,
                  cl_touch_dates = dates, cl_most_recent_touch_age = int (length bars) - 1 - i,
                  cl_contains_lookback_high = list_ex pv_lookback_high unique\<rparr>)"

fun number_clusters :: "daily_bar list \<Rightarrow> int \<Rightarrow> pivot list list \<Rightarrow> cluster list feature_result" where
  "number_clusters bars k [] = Inr []"
| "number_clusters bars k (members # rest) =
     fbind (cluster_of bars k members) (\<lambda>c. fbind (number_clusters bars (k + 1) rest) (\<lambda>cs. Inr (c # cs)))"

definition clusters_of ::
    "pivot list \<Rightarrow> daily_bar list \<Rightarrow> rat \<Rightarrow> feature_engine_config \<Rightarrow> cluster list feature_result" where
  "clusters_of pivots bars atr config =
     (let tolerance = dmul (fc_cluster_tolerance_atr config) atr;
          sorted_pivots = sort_key pivot_key pivots
      in number_clusters bars 1 (claim_clusters tolerance sorted_pivots [0..<length sorted_pivots] {}))"

section \<open>daily\_pivot\_cluster\_v1\<close>

definition cluster_valid :: "feature_engine_config \<Rightarrow> cluster \<Rightarrow> bool" where
  "cluster_valid config c \<longleftrightarrow>
     (length (cl_touch_dates c) \<ge> 2 \<or> cl_contains_lookback_high c) \<and>
     \<not> (cl_most_recent_touch_age c > fc_cluster_recency_sessions config \<and> length (cl_touch_dates c) < 3)"

definition cluster_distance :: "rat \<Rightarrow> rat \<Rightarrow> cluster \<Rightarrow> rat option" where
  "cluster_distance price atr c =
     (if price < cl_zone_low c then Some (dec (dsub (cl_zone_low c) price / atr))
      else if cl_zone_low c \<le> price \<and> price \<le> cl_zone_high c then Some 0
      else None)"

definition eligible_clusters :: "rat \<Rightarrow> rat \<Rightarrow> cluster list \<Rightarrow> (rat \<times> cluster) list" where
  "eligible_clusters price atr cs =
     List.map_filter (\<lambda>c. map_option (\<lambda>d. (d, c)) (cluster_distance price atr c)) cs"

definition cluster_key :: "rat \<times> cluster \<Rightarrow> rat \<times> int \<times> int \<times> rat \<times> int" where
  "cluster_key pair =
     (case pair of (d, c) \<Rightarrow>
        (d, - toordinal (last (cl_touch_dates c)), - int (length (cl_touch_dates c)), cl_zone_low c, cl_sequence c))"

definition structure_of :: "rat \<Rightarrow> chart_structure" where
  "structure_of distance =
     (if distance > 2 then CS_CLEAN_SHORT_TERM else if distance \<ge> 1 then CS_MODERATE_ROOM else CS_CAPPED)"

definition all_time_high_date :: "daily_bar list \<Rightarrow> date" where
  "all_time_high_date bars = Max (set (map db_session_date (filter (\<lambda>b. db_high b = highest bars) bars)))"

definition audit_of ::
    "daily_bar list \<Rightarrow> daily_bar list \<Rightarrow> pivot list \<times> bool \<Rightarrow> cluster list \<Rightarrow> resistance_source \<Rightarrow> cluster option \<Rightarrow>
     rat option \<Rightarrow> rat \<Rightarrow> chart_structure \<Rightarrow> bool \<Rightarrow> resistance_audit" where
  "audit_of bars cluster_bars pivots valid source selected raw_distance distance structure sentinel =
     \<lparr>ra_available_completed_bars = int (length bars), ra_cluster_lookback_bars = int (length cluster_bars),
      ra_all_time_high_price = highest bars, ra_all_time_high_date = all_time_high_date bars,
      ra_confirmed_pivot_count = int (length (filter pv_confirmed (fst pivots))),
      ra_synthetic_lookback_high_added = snd pivots, ra_valid_cluster_count = int (length valid),
      ra_selected_resistance_source = source, ra_selected_zone_low = map_option cl_zone_low selected,
      ra_selected_zone_high = map_option cl_zone_high selected,
      ra_selected_zone_center = map_option cl_zone_center selected,
      ra_selected_touch_count = map_option (\<lambda>c. int (length (cl_touch_dates c))) selected,
      ra_selected_touch_dates = (case selected of None \<Rightarrow> [] | Some c \<Rightarrow> cl_touch_dates c),
      ra_raw_distance_to_resistance_atr = raw_distance, ra_distance_to_resistance_atr = distance,
      ra_chart_structure = structure, ra_is_blue_sky_sentinel = sentinel\<rparr>"

definition daily_pivot_cluster_v1 ::
    "daily_bar list \<Rightarrow> rat \<Rightarrow> rat \<Rightarrow> bool \<Rightarrow> feature_engine_config \<Rightarrow> resistance_audit feature_result" where
  "daily_pivot_cluster_v1 bars price atr history_complete_since_listing config =
     (if int (length bars) < fc_min_daily_history config
      then Inl (DataQuality ''INSUFFICIENT_DAILY_HISTORY'' ''fewer than 30 completed daily bars'')
      else if atr \<le> 0 then Inl (DataQuality ''INVALID_ATR'' ''ATR must be positive'')
      else
        let cluster_bars = drop (length bars - min (nat (fc_cluster_lookback_sessions config)) (length bars)) bars;
            all_time_high = highest bars;
            pivots = pivot_candidates cluster_bars config
        in fbind (clusters_of (fst pivots) cluster_bars atr config) (\<lambda>clusters.
           let valid = filter (cluster_valid config) clusters;
               eligible = eligible_clusters price atr valid;
               finish = (\<lambda>source selected raw_distance.
                 fbind (decimal_op (quantize_places (nat (fc_distance_decimal_places config)) raw_distance)) (\<lambda>distance.
                   Inr (audit_of bars cluster_bars pivots valid source selected (Some raw_distance) distance
                     (structure_of distance) False)))
           in if eligible \<noteq> [] then
                (case hd (sort_key cluster_key eligible) of (raw_distance, selected) \<Rightarrow>
                   finish SRC_PIVOT_CLUSTER (Some selected) raw_distance)
              else if price < all_time_high
              then finish SRC_ALL_TIME_HIGH_FALLBACK None (dec (dsub all_time_high price / atr))
              else if \<not> history_complete_since_listing
              then Inl (DataQuality ''INCOMPLETE_HISTORY_FOR_BLUE_SKY_CHECK''
                ''cannot assign blue_sky without complete listing history'')
              else Inr (audit_of bars cluster_bars pivots valid SRC_NONE_ABOVE_ALL_TIME_HIGH None None
                (fc_blue_sky_sentinel config) CS_BLUE_SKY True)))"

end
