(* ===== verification/Feature_Engine.thy ===== *)
theory Feature_Engine
  imports Feature_Resistance
begin

text \<open>
  Prequalification (\<open>daybreak_features/prequalification.py\<close>), the construction of a feature
  snapshot (\<open>engine.py\<close>), the in-memory artifact repository (\<open>persistence.py\<close>) and the replay of a
  stored context (\<open>replay.py\<close>).

  The JSON documents of the models are parameters, as in the other components, and so are the
  texts of pydantic's validation errors.
\<close>

section \<open>daybreak\_features/prequalification.py\<close>

definition reason_when :: "bool \<Rightarrow> string \<Rightarrow> string list" where
  "reason_when c code = (if c then [code] else [])"

definition prequalify_reasons :: "candidate_features \<Rightarrow> feature_engine_config \<Rightarrow> string list" where
  "prequalify_reasons f config =
     reason_when (cf_halted f) ''HALTED'' @
     reason_when (cf_gap_pct f < fc_gap_min_pct config) ''GAP_TOO_SMALL'' @
     reason_when (cf_premarket_volume f < fc_premarket_volume_min config) ''PREMARKET_VOLUME_TOO_LOW'' @
     reason_when (cf_rvol_time_matched f < fc_rvol_min config) ''RVOL_TOO_LOW'' @
     reason_when (ra_distance_to_resistance_atr (cf_resistance f) < fc_resistance_min_atr config) ''RESISTANCE_TOO_CLOSE'' @
     reason_when (ra_chart_structure (cf_resistance f) = CS_CAPPED) ''CAPPED_CHART'' @
     reason_when (cr_source_type (cf_catalyst f) = FS_UNCONFIRMED) ''UNCONFIRMED_SOURCE'' @
     reason_when (cr_disqualifier_flags (cf_catalyst f) \<noteq> []) ''DISQUALIFYING_CATALYST''"

definition decision_of :: "candidate_features \<Rightarrow> string list \<Rightarrow> prequalification_decision" where
  "decision_of f reasons =
     \<lparr>pq_ticker = cf_ticker f, pq_accepted = (reasons = []), pq_reason_codes = reasons,
      pq_feature_source_hash = Some (cf_feature_source_hash f)\<rparr>"

definition prequalify :: "candidate_features \<Rightarrow> feature_engine_config \<Rightarrow> prequalification_decision" where
  "prequalify f config = decision_of f (prequalify_reasons f config)"

definition capacity_sort_key ::
    "candidate_features \<Rightarrow> int \<times> int \<times> int \<times> rat \<times> rat \<times> int \<times> rat \<times> string" where
  "capacity_sort_key f =
     (if cr_source_type (cf_catalyst f) = FS_PRIMARY then 0 else 1,
      if cr_corroborated (cf_catalyst f) then 0 else 1,
      if cf_volume_profile f = VP_CLEAN then 0 else 1,
      cf_catalyst_age_hours f, dneg (cf_rvol_time_matched f), - cf_premarket_volume f,
      dneg (ra_distance_to_resistance_atr (cf_resistance f)), cf_ticker f)"

section \<open>daybreak\_features/engine.py\<close>

record feature_dumps =
  fd_source_material ::
    "candidate_source_data \<Rightarrow> float_record \<Rightarrow> catalyst_record \<Rightarrow> feature_engine_config \<Rightarrow> timestamp \<Rightarrow> json"
  fd_context :: "feature_context \<Rightarrow> json"
  fd_config :: "feature_engine_config \<Rightarrow> json"
  fd_features :: "candidate_features list \<Rightarrow> json"
  fd_payload :: "daybreak_input \<Rightarrow> json"
  fd_audit :: "prequalification_decision list \<Rightarrow> capacity_omission list \<Rightarrow> json"
  fd_snapshot :: "feature_snapshot \<Rightarrow> json"
  fd_invalid_features :: "candidate_features \<Rightarrow> string"
  fd_invalid_ticker :: "ticker_input \<Rightarrow> string"
  fd_invalid_payload :: "daybreak_input \<Rightarrow> string"

text \<open>Construction of a pydantic model: the validated value or a \<open>ValidationError\<close>.\<close>

definition validated :: "('a \<Rightarrow> bool) \<Rightarrow> ('a \<Rightarrow> string) \<Rightarrow> 'a \<Rightarrow> 'a feature_result" where
  "validated p msg x = (if p x then Inr x else Inl (Crash (ValidationError (msg x))))"

definition calculate_candidate ::
    "feature_dumps \<Rightarrow> local_time \<Rightarrow> feature_context \<Rightarrow> candidate_source_data \<Rightarrow> candidate_features feature_result" where
  "calculate_candidate dumps ny context source =
     (let snapshot = fx_payload_timestamp context; config = fx_config context in
      fbind (current_session_trades ny (cs_current_session_events source) snapshot config) (\<lambda>trades.
      fbind (current_price trades) (\<lambda>price.
      fbind (premarket_low trades) (\<lambda>low.
      let volume = premarket_volume trades in
      fbind (wilder_atr_14 (cs_daily_bars source)) (\<lambda>atr.
      fbind (premarket_vwap trades) (\<lambda>vwap.
      fbind (rvol_time_matched ny volume (cs_historical_premarket_sessions source) snapshot config) (\<lambda>rvol.
      fbind (volume_profile_of ny trades snapshot config) (\<lambda>profile.
      fbind (daily_pivot_cluster_v1 (cs_daily_bars source) price atr (cs_history_complete_since_listing source) config)
        (\<lambda>resistance.
      fbind (select_float_record (cs_float_records source) (cs_ticker source) snapshot config) (\<lambda>float.
      fbind (select_catalyst (cs_catalysts source) (cs_ticker source) snapshot) (\<lambda>(catalyst, catalyst_age).
      fbind (gap_pct price (cs_previous_regular_close source)) (\<lambda>gap.
      fbind (distance_from_vwap_atr price vwap atr) (\<lambda>distance.
        validated valid_candidate_features (fd_invalid_features dumps)
          \<lparr>cf_ticker = cs_ticker source, cf_halted = cs_halted source, cf_current_price = price,
           cf_premarket_low = low, cf_gap_pct = gap, cf_premarket_volume = volume, cf_rvol_time_matched = rvol,
           cf_atr_value = atr, cf_premarket_vwap = vwap, cf_distance_from_vwap_atr = distance,
           cf_volume_profile = profile, cf_float_shares = fl_float_shares float,
           cf_borrow_status = cs_borrow_status source, cf_resistance = resistance, cf_catalyst = catalyst,
           cf_catalyst_age_hours = catalyst_age,
           cf_feature_source_hash = canonical_sha256 (fd_source_material dumps source float catalyst config snapshot)\<rparr>)))))))))))))"

text \<open>The members of the contract's enums with the same values.\<close>

fun contract_source_type :: "feature_source_type \<Rightarrow> source_type" where
  "contract_source_type FS_PRIMARY = ST_PRIMARY"
| "contract_source_type FS_SECONDARY = ST_SECONDARY"
| "contract_source_type FS_UNCONFIRMED = ST_UNCONFIRMED"

fun contract_borrow_status :: "feature_borrow_status \<Rightarrow> borrow_status" where
  "contract_borrow_status FB_EASY = BS_EASY"
| "contract_borrow_status FB_HARD_TO_BORROW = BS_HARD_TO_BORROW"
| "contract_borrow_status FB_UNKNOWN = BS_UNKNOWN"

definition ticker_input_of :: "feature_dumps \<Rightarrow> candidate_features \<Rightarrow> ticker_input feature_result" where
  "ticker_input_of dumps f =
     (let c = cf_catalyst f in
      validated valid_ticker_input (fd_invalid_ticker dumps)
        \<lparr>ti_ticker = cf_ticker f, ti_halted = cf_halted f,
         ti_news_context =
           \<lparr>nc_catalyst_text = cr_catalyst_text c, nc_source_type = contract_source_type (cr_source_type c),
            nc_source_name = cr_source_name c, nc_source_timestamp = utc_z (cr_source_timestamp c),
            nc_catalyst_age_hours = flt (cf_catalyst_age_hours f), nc_corroborated = cr_corroborated c,
            nc_disqualifier_flags = cr_disqualifier_flags c\<rparr>,
         ti_liquidity_metrics =
           \<lparr>lm_gap_pct = flt (cf_gap_pct f), lm_premarket_volume = cf_premarket_volume f,
            lm_rvol_time_matched = flt (cf_rvol_time_matched f), lm_float_shares = cf_float_shares f,
            lm_volume_profile = cf_volume_profile f, lm_borrow_status = contract_borrow_status (cf_borrow_status f)\<rparr>,
         ti_technical_context =
           \<lparr>tc_distance_to_resistance_atr = flt (ra_distance_to_resistance_atr (cf_resistance f)),
            tc_distance_from_vwap_atr = flt (cf_distance_from_vwap_atr f),
            tc_chart_structure = ra_chart_structure (cf_resistance f), tc_current_price = flt (cf_current_price f),
            tc_atr_value = flt (cf_atr_value f), tc_premarket_low = flt (cf_premarket_low f)\<rparr>\<rparr>)"

text \<open>The body of the loop over the candidates: a decision, and the features if accepted.\<close>

definition failed_decision :: "string \<Rightarrow> string \<Rightarrow> prequalification_decision" where
  "failed_decision ticker code =
     \<lparr>pq_ticker = ticker, pq_accepted = False, pq_reason_codes = [code], pq_feature_source_hash = None\<rparr>"

definition judge :: "feature_context \<Rightarrow> candidate_features \<Rightarrow> prequalification_decision" where
  "judge context f =
     decision_of f (pq_reason_codes (prequalify f (fx_config context)) @
       reason_when (cf_catalyst_age_hours f > fx_catalyst_freshness_threshold_hours context) ''STALE_CATALYST'')"

definition decide_candidate ::
    "feature_dumps \<Rightarrow> local_time \<Rightarrow> feature_context \<Rightarrow> candidate_source_data \<Rightarrow>
     (prequalification_decision \<times> candidate_features list) feature_result" where
  "decide_candidate dumps ny context source =
     (case calculate_candidate dumps ny context source of
        Inl (DataQuality code detail) \<Rightarrow> Inr (failed_decision (cs_ticker source) code, [])
      | Inl (Crash e) \<Rightarrow> Inl (Crash e)
      | Inr f \<Rightarrow>
          let decision = judge context f in Inr (decision, if pq_accepted decision then [f] else []))"

definition omissions_of :: "int \<Rightarrow> candidate_features list \<Rightarrow> capacity_omission list" where
  "omissions_of capacity omitted =
     map (\<lambda>(k, f). \<lparr>co_ticker = cf_ticker f, co_final_capacity_rank = k\<rparr>)
       (zip (map (\<lambda>i. capacity + 1 + int i) [0..<length omitted]) omitted)"

definition payload_of :: "feature_dumps \<Rightarrow> feature_context \<Rightarrow> candidate_features list \<Rightarrow> daybreak_input feature_result" where
  "payload_of dumps context selected =
     fbind (fmap (ticker_input_of dumps) selected) (\<lambda>tickers.
       validated valid_daybreak_input (fd_invalid_payload dumps)
         \<lparr>di_evaluation_timestamp = utc_z (fx_evaluation_timestamp context),
          di_payload_timestamp = utc_z (fx_payload_timestamp context),
          di_payload_age_seconds = trunc_int (total_seconds (fx_evaluation_timestamp context) (fx_payload_timestamp context)),
          di_catalyst_freshness_threshold_hours = flt (fx_catalyst_freshness_threshold_hours context),
          di_market_status = fx_market_status context, di_tickers = tickers\<rparr>)"

definition snapshot_of ::
    "feature_dumps \<Rightarrow> feature_context \<Rightarrow> prequalification_decision list \<Rightarrow> capacity_omission list \<Rightarrow>
     candidate_features list \<Rightarrow> daybreak_input \<Rightarrow> feature_snapshot" where
  "snapshot_of dumps context decisions omissions selected payload =
     (let context_hash = canonical_sha256 (fd_context dumps context);
          configuration_hash = canonical_sha256 (fd_config dumps (fx_config context));
          feature_hash = canonical_sha256 (fd_features dumps selected);
          payload_hash = canonical_sha256 (fd_payload dumps payload);
          audit_hash = canonical_sha256 (fd_audit dumps decisions omissions);
          snapshot_id = canonical_sha256 (JObj
            [(''context_hash'', JStr context_hash), (''payload_hash'', JStr payload_hash),
             (''feature_hash'', JStr feature_hash), (''configuration_hash'', JStr configuration_hash),
             (''audit_hash'', JStr audit_hash)])
      in \<lparr>fn_snapshot_id = snapshot_id, fn_context_hash = context_hash, fn_audit_hash = audit_hash,
          fn_payload = payload, fn_payload_hash = payload_hash, fn_feature_hash = feature_hash,
          fn_configuration_hash = configuration_hash,
          fn_module_manifest = sort (fc_module_versions (fx_config context)), fn_prequalification = decisions,
          fn_capacity_omissions = omissions, fn_accepted_feature_records = selected\<rparr>)"

definition build_feature_snapshot ::
    "feature_dumps \<Rightarrow> local_time \<Rightarrow> feature_context \<Rightarrow> feature_snapshot feature_result" where
  "build_feature_snapshot dumps ny context =
     fbind (fmap (decide_candidate dumps ny context) (sort_key cs_ticker (fx_candidates context))) (\<lambda>judged.
     let decisions = map fst judged;
         ranked = sort_key capacity_sort_key (concat (map snd judged));
         capacity = fc_max_evaluator_candidates (fx_config context);
         selected = take (nat capacity) ranked;
         omissions = omissions_of capacity (drop (nat capacity) ranked)
     in fbind (payload_of dumps context selected) (\<lambda>payload.
        let snapshot = snapshot_of dumps context decisions omissions selected payload in
        case terminal_consistency snapshot of
          None \<Rightarrow> Inr snapshot
        | Some msg \<Rightarrow> Inl (Crash (ValidationError msg))))"

section \<open>daybreak\_features/persistence.py\<close>

record feature_repository =
  fp_contexts :: "(string, feature_context) dict"
  fp_snapshots :: "(string, feature_snapshot) dict"

definition empty_feature_repository :: feature_repository where
  "empty_feature_repository = \<lparr>fp_contexts = [], fp_snapshots = []\<rparr>"

definition save_context ::
    "feature_dumps \<Rightarrow> feature_context \<Rightarrow> feature_repository \<Rightarrow> pyerr + string \<times> feature_repository" where
  "save_context dumps context s =
     (let context_hash = canonical_sha256 (fd_context dumps context) in
      if (case map_of (fp_contexts s) context_hash of
            None \<Rightarrow> False
          | Some existing \<Rightarrow>
              canonical_json_text (fd_context dumps existing) \<noteq> canonical_json_text (fd_context dumps context))
      then Inl (RuntimeError ''feature context hash collision'')
      else Inr (context_hash, s\<lparr>fp_contexts := AList.update context_hash context (fp_contexts s)\<rparr>))"

definition save_feature_snapshot ::
    "feature_dumps \<Rightarrow> feature_snapshot \<Rightarrow> feature_repository \<Rightarrow> pyerr + feature_repository" where
  "save_feature_snapshot dumps snapshot s =
     (if (case map_of (fp_snapshots s) (fn_snapshot_id snapshot) of
            None \<Rightarrow> False
          | Some existing \<Rightarrow>
              canonical_json_text (fd_snapshot dumps existing) \<noteq> canonical_json_text (fd_snapshot dumps snapshot))
      then Inl (RuntimeError ''feature snapshot id collision'')
      else Inr (s\<lparr>fp_snapshots := AList.update (fn_snapshot_id snapshot) snapshot (fp_snapshots s)\<rparr>))"

section \<open>daybreak\_features/replay.py\<close>

record feature_replay_result =
  frr_context_hash :: string
  frr_expected_snapshot_id :: "string option"
  frr_actual_snapshot_id :: string
  frr_byte_identical :: "bool option"

definition replay_context ::
    "feature_dumps \<Rightarrow> local_time \<Rightarrow> feature_repository \<Rightarrow> string \<Rightarrow> string option \<Rightarrow>
     feature_replay_result feature_result" where
  "replay_context dumps ny repository context_hash expected_snapshot_id =
     (case map_of (fp_contexts repository) context_hash of
        None \<Rightarrow> Inl (Crash (KeyError (''feature context not found: '' @ context_hash)))
      | Some context \<Rightarrow>
          fbind (build_feature_snapshot dumps ny context) (\<lambda>actual.
          let result = (\<lambda>identical. \<lparr>frr_context_hash = context_hash, frr_expected_snapshot_id = expected_snapshot_id,
                frr_actual_snapshot_id = fn_snapshot_id actual, frr_byte_identical = identical\<rparr>)
          in case expected_snapshot_id of
               None \<Rightarrow> Inr (result None)
             | Some expected_id \<Rightarrow>
                 (case map_of (fp_snapshots repository) expected_id of
                    None \<Rightarrow> Inl (Crash (KeyError (''feature snapshot not found: '' @ expected_id)))
                  | Some expected \<Rightarrow>
                      if canonical_json_text (fd_snapshot dumps actual) \<noteq> canonical_json_text (fd_snapshot dumps expected)
                      then Inl (Crash (ValueError ''feature replay mismatch''))
                      else Inr (result (Some True)))))"

end
