(* ===== verification/Feature_Properties.thy ===== *)
theory Feature_Properties
  imports Feature_Engine Replay
begin

text \<open>
  Properties of a whole feature snapshot: what becomes of every candidate, that the order of the
  candidates does not matter, and that what reaches the evaluator passes its hard gates.
\<close>

section \<open>Results of lists\<close>

lemma fmap_Inr: "fmap f xs = Inr ys \<longleftrightarrow> list_all2 (\<lambda>x y. f x = Inr y) xs ys"
  by (induction xs arbitrary: ys) (auto simp: fbind_Inr_iff list_all2_Cons1)

lemma list_all2_right: "list_all2 P xs ys \<Longrightarrow> y \<in> set ys \<Longrightarrow> \<exists>x \<in> set xs. P x y"
  by (induction rule: list_all2_induct) auto

lemma fmap_cong: "(\<And>x. x \<in> set xs \<Longrightarrow> f x = g x) \<Longrightarrow> fmap f xs = fmap g xs"
  by (induction xs) auto

lemma validated_Inr [simp]: "validated p msg x = Inr y \<longleftrightarrow> p x \<and> y = x"
  by (auto simp: validated_def)

section \<open>The steps of a snapshot\<close>

lemma calculate_candidate_Inr:
  assumes "calculate_candidate dumps ny context source = Inr f"
  obtains trades atr float where
    "current_session_trades ny (cs_current_session_events source) (fx_payload_timestamp context) (fx_config context) = Inr trades"
    "current_price trades = Inr (cf_current_price f)" "premarket_low trades = Inr (cf_premarket_low f)"
    "cf_premarket_volume f = premarket_volume trades" "wilder_atr_14 (cs_daily_bars source) = Inr (cf_atr_value f)"
    "premarket_vwap trades = Inr (cf_premarket_vwap f)"
    "rvol_time_matched ny (premarket_volume trades) (cs_historical_premarket_sessions source)
       (fx_payload_timestamp context) (fx_config context) = Inr (cf_rvol_time_matched f)"
    "volume_profile_of ny trades (fx_payload_timestamp context) (fx_config context) = Inr (cf_volume_profile f)"
    "daily_pivot_cluster_v1 (cs_daily_bars source) (cf_current_price f) (cf_atr_value f)
       (cs_history_complete_since_listing source) (fx_config context) = Inr (cf_resistance f)"
    "select_float_record (cs_float_records source) (cs_ticker source) (fx_payload_timestamp context) (fx_config context)
       = Inr float" "cf_float_shares f = fl_float_shares float"
    "select_catalyst (cs_catalysts source) (cs_ticker source) (fx_payload_timestamp context)
       = Inr (cf_catalyst f, cf_catalyst_age_hours f)"
    "gap_pct (cf_current_price f) (cs_previous_regular_close source) = Inr (cf_gap_pct f)"
    "cf_ticker f = cs_ticker source" "cf_halted f = cs_halted source" "valid_candidate_features f"
  using assms
  by (auto simp: calculate_candidate_def Let_def fbind_Inr_iff split: prod.splits)

lemma judge_simps [simp]:
  "pq_ticker (judge context f) = cf_ticker f"
  "pq_accepted (judge context f) \<longleftrightarrow> prequalify_reasons f (fx_config context) = [] \<and>
     cf_catalyst_age_hours f \<le> fx_catalyst_freshness_threshold_hours context"
  by (auto simp: judge_def prequalify_def decision_of_def reason_when_def)

lemma decide_candidate_Inr:
  assumes "decide_candidate dumps ny context source = Inr (d, fs)"
  shows "pq_ticker d = cs_ticker source"
    and "pq_accepted d \<Longrightarrow> \<exists>f. fs = [f] \<and> cf_ticker f = cs_ticker source \<and> pq_accepted (judge context f) \<and>
      calculate_candidate dumps ny context source = Inr f"
    and "\<not> pq_accepted d \<Longrightarrow> fs = []"
proof -
  consider (failed) code detail where "calculate_candidate dumps ny context source = Inl (DataQuality code detail)"
      "d = failed_decision (cs_ticker source) code" "fs = []"
    | (judged) f where "calculate_candidate dumps ny context source = Inr f" "d = judge context f"
      "fs = (if pq_accepted d then [f] else [])"
    using assms by (auto simp: decide_candidate_def Let_def split: sum.splits feature_error.splits)
  then have "pq_ticker d = cs_ticker source \<and> (pq_accepted d \<longrightarrow> (\<exists>f. fs = [f] \<and> cf_ticker f = cs_ticker source \<and>
      pq_accepted (judge context f) \<and> calculate_candidate dumps ny context source = Inr f)) \<and> (\<not> pq_accepted d \<longrightarrow> fs = [])"
  proof cases
    case judged
    from judged(1) have "cf_ticker f = cs_ticker source" by (rule calculate_candidate_Inr)
    then show ?thesis using judged by auto
  qed (simp add: failed_decision_def)
  then show "pq_ticker d = cs_ticker source"
    "pq_accepted d \<Longrightarrow> \<exists>f. fs = [f] \<and> cf_ticker f = cs_ticker source \<and> pq_accepted (judge context f) \<and>
      calculate_candidate dumps ny context source = Inr f"
    "\<not> pq_accepted d \<Longrightarrow> fs = []" by auto
qed

text \<open>The parts of a snapshot.\<close>

lemma build_feature_snapshot_Inr:
  assumes "build_feature_snapshot dumps ny context = Inr snapshot"
  obtains judged ranked payload where
    "fmap (decide_candidate dumps ny context) (sort_key cs_ticker (fx_candidates context)) = Inr judged"
    "ranked = sort_key capacity_sort_key (concat (map snd judged))"
    "payload_of dumps context (take (nat (fc_max_evaluator_candidates (fx_config context))) ranked) = Inr payload"
    "snapshot = snapshot_of dumps context (map fst judged)
       (omissions_of (fc_max_evaluator_candidates (fx_config context))
         (drop (nat (fc_max_evaluator_candidates (fx_config context))) ranked))
       (take (nat (fc_max_evaluator_candidates (fx_config context))) ranked) payload"
  using assms by (auto simp: build_feature_snapshot_def Let_def fbind_Inr_iff split: option.splits)

lemma ticker_input_of_Inr:
  "ticker_input_of dumps f = Inr e \<Longrightarrow> ti_ticker e = cf_ticker f \<and> valid_ticker_input e"
  by (auto simp: ticker_input_of_def Let_def)

lemma payload_of_Inr:
  assumes "payload_of dumps context fs = Inr payload"
  shows "list_all2 (\<lambda>f e. ticker_input_of dumps f = Inr e) fs (di_tickers payload)" "valid_daybreak_input payload"
    "map ti_ticker (di_tickers payload) = map cf_ticker fs"
    "di_catalyst_freshness_threshold_hours payload = flt (fx_catalyst_freshness_threshold_hours context)"
proof -
  obtain es where es: "fmap (ticker_input_of dumps) fs = Inr es" and p: "valid_daybreak_input payload" "di_tickers payload = es"
    "di_catalyst_freshness_threshold_hours payload = flt (fx_catalyst_freshness_threshold_hours context)"
    using assms by (auto simp: payload_of_def fbind_Inr_iff)
  then have l: "list_all2 (\<lambda>f e. ticker_input_of dumps f = Inr e) fs es" by (simp add: fmap_Inr)
  then have "map cf_ticker fs = map ti_ticker es"
    by (induction rule: list_all2_induct) (auto dest: ticker_input_of_Inr)
  with l p show "list_all2 (\<lambda>f e. ticker_input_of dumps f = Inr e) fs (di_tickers payload)" "valid_daybreak_input payload"
    "map ti_ticker (di_tickers payload) = map cf_ticker fs"
    "di_catalyst_freshness_threshold_hours payload = flt (fx_catalyst_freshness_threshold_hours context)" by simp_all
qed

lemma snapshot_of_simps [simp]:
  "fn_payload (snapshot_of dumps context ds om sel payload) = payload"
  "fn_prequalification (snapshot_of dumps context ds om sel payload) = ds"
  "fn_capacity_omissions (snapshot_of dumps context ds om sel payload) = om"
  "fn_accepted_feature_records (snapshot_of dumps context ds om sel payload) = sel"
  by (simp_all add: snapshot_of_def Let_def)

section \<open>Every candidate is accounted for\<close>

lemma judged_tickers:
  assumes "list_all2 (\<lambda>c j. decide_candidate dumps ny context c = Inr j) cs judged"
  shows "map pq_ticker (map fst judged) = map cs_ticker cs \<and>
    map cf_ticker (concat (map snd judged)) = map pq_ticker (filter pq_accepted (map fst judged))"
  using assms
proof (induction rule: list_all2_induct)
  case (Cons c cs j judged)
  obtain d fs where j: "j = (d, fs)" by (cases j)
  have "decide_candidate dumps ny context c = Inr (d, fs)" using Cons(1) j by simp
  note facts = decide_candidate_Inr [OF this]
  show ?case using Cons.IH j facts by (cases "pq_accepted d") auto
qed simp

lemma sort_map: "map f (sort_key f xs) = sort (map f xs)"
  by (rule properties_for_sort [symmetric]) simp_all

lemma omissions_simps [simp]:
  "map co_ticker (omissions_of k fs) = map cf_ticker fs"
  "map co_final_capacity_rank (omissions_of k fs) = map (\<lambda>i. k + 1 + int i) [0..<length fs]"
  "length (omissions_of k fs) = length fs"
proof -
  have "map (\<lambda>(k, f). cf_ticker f) (zip xs fs) = map cf_ticker fs" if "length xs = length fs" for xs :: "int list"
    using that by (induction rule: list_induct2) simp_all
  moreover have "map (\<lambda>(k, f). k) (zip xs fs) = xs" if "length xs = length fs" for xs :: "int list"
    using that by (induction rule: list_induct2) simp_all
  ultimately show "map co_ticker (omissions_of k fs) = map cf_ticker fs"
    "map co_final_capacity_rank (omissions_of k fs) = map (\<lambda>i. k + 1 + int i) [0..<length fs]"
    by (simp_all add: omissions_of_def comp_def case_prod_unfold)
qed (simp add: omissions_of_def)

lemma accounted_parts:
  assumes "build_feature_snapshot dumps ny context = Inr snapshot"
    and "0 \<le> fc_max_evaluator_candidates (fx_config context)"
  shows "map pq_ticker (fn_prequalification snapshot) = sort (map cs_ticker (fx_candidates context))"
    and "mset (map pq_ticker (filter pq_accepted (fn_prequalification snapshot))) =
      mset (map ti_ticker (di_tickers (fn_payload snapshot))) + mset (map co_ticker (fn_capacity_omissions snapshot))"
    and "int (length (di_tickers (fn_payload snapshot))) \<le> fc_max_evaluator_candidates (fx_config context)"
    and "fn_capacity_omissions snapshot \<noteq> [] \<Longrightarrow>
      int (length (di_tickers (fn_payload snapshot))) = fc_max_evaluator_candidates (fx_config context)"
    and "map co_final_capacity_rank (fn_capacity_omissions snapshot) =
      map (\<lambda>i. fc_max_evaluator_candidates (fx_config context) + 1 + int i) [0..<length (fn_capacity_omissions snapshot)]"
proof -
  let ?k = "fc_max_evaluator_candidates (fx_config context)"
  from assms(1) obtain judged ranked payload where
    j: "fmap (decide_candidate dumps ny context) (sort_key cs_ticker (fx_candidates context)) = Inr judged"
    and r: "ranked = sort_key capacity_sort_key (concat (map snd judged))"
    and p: "payload_of dumps context (take (nat ?k) ranked) = Inr payload"
    and s: "snapshot = snapshot_of dumps context (map fst judged) (omissions_of ?k (drop (nat ?k) ranked))
      (take (nat ?k) ranked) payload"
    by (rule build_feature_snapshot_Inr)
  note tick = judged_tickers [OF j [unfolded fmap_Inr]]
  then show "map pq_ticker (fn_prequalification snapshot) = sort (map cs_ticker (fx_candidates context))"
    by (simp add: s sort_map)
  have pt: "map ti_ticker (di_tickers payload) = map cf_ticker (take (nat ?k) ranked)" by (rule payload_of_Inr [OF p])
  have "mset (map cf_ticker ranked) = mset (map pq_ticker (filter pq_accepted (map fst judged)))"
    using tick by (simp only: r mset_map mset_sort) (metis mset_map)
  moreover have "mset (map cf_ticker ranked) =
      mset (map cf_ticker (take (nat ?k) ranked)) + mset (map cf_ticker (drop (nat ?k) ranked))"
    by (metis append_take_drop_id map_append mset_append)
  ultimately show "mset (map pq_ticker (filter pq_accepted (fn_prequalification snapshot))) =
      mset (map ti_ticker (di_tickers (fn_payload snapshot))) + mset (map co_ticker (fn_capacity_omissions snapshot))"
    by (simp add: s pt del: mset_map)
  have "length (di_tickers payload) = length (take (nat ?k) ranked)" using pt by (metis length_map)
  then show "int (length (di_tickers (fn_payload snapshot))) \<le> ?k"
    "fn_capacity_omissions snapshot \<noteq> [] \<Longrightarrow> int (length (di_tickers (fn_payload snapshot))) = ?k"
    using assms(2) by (auto simp: s omissions_of_def min_def)
  show "map co_final_capacity_rank (fn_capacity_omissions snapshot) =
      map (\<lambda>i. ?k + 1 + int i) [0..<length (fn_capacity_omissions snapshot)]" by (simp add: s)
qed

text \<open>
  Claim C23. A feature snapshot accounts for every candidate exactly once: the decisions list the
  candidates' tickers in order, the accepted ones are exactly the tickers of the payload together
  with the capacity omissions, the payload holds at most the configured number, something is
  omitted only when the payload is full, and the omitted ranks count on from there.
\<close>

theorem candidates_accounted:
  assumes "build_feature_snapshot dumps ny context = Inr snapshot"
    and "0 \<le> fc_max_evaluator_candidates (fx_config context)"
  shows "map pq_ticker (fn_prequalification snapshot) = sort (map cs_ticker (fx_candidates context)) \<and>
    mset (map pq_ticker (filter pq_accepted (fn_prequalification snapshot))) =
      mset (map ti_ticker (di_tickers (fn_payload snapshot))) + mset (map co_ticker (fn_capacity_omissions snapshot)) \<and>
    int (length (di_tickers (fn_payload snapshot))) \<le> fc_max_evaluator_candidates (fx_config context) \<and>
    (fn_capacity_omissions snapshot \<noteq> [] \<longrightarrow>
      int (length (di_tickers (fn_payload snapshot))) = fc_max_evaluator_candidates (fx_config context)) \<and>
    map co_final_capacity_rank (fn_capacity_omissions snapshot) =
      map (\<lambda>i. fc_max_evaluator_candidates (fx_config context) + 1 + int i) [0..<length (fn_capacity_omissions snapshot)]"
  by (intro conjI impI accounted_parts [OF assms])

section \<open>The order of the candidates\<close>

text \<open>
  Claim C27. The order in which the candidates arrive does not matter: with distinct tickers, a
  permuted context gives the same decisions, omissions, features and payload with the same hashes.
\<close>

theorem candidate_order_irrelevant:
  assumes "mset cs = mset (fx_candidates context)" "distinct (map cs_ticker cs)"
  shows "map_sum id (\<lambda>s. (fn_prequalification s, fn_capacity_omissions s, fn_accepted_feature_records s, fn_payload s,
        fn_payload_hash s, fn_feature_hash s, fn_audit_hash s))
      (build_feature_snapshot dumps ny (context\<lparr>fx_candidates := cs\<rparr>)) =
    map_sum id (\<lambda>s. (fn_prequalification s, fn_capacity_omissions s, fn_accepted_feature_records s, fn_payload s,
        fn_payload_hash s, fn_feature_hash s, fn_audit_hash s))
      (build_feature_snapshot dumps ny context)"
proof -
  let ?c = "context\<lparr>fx_candidates := cs\<rparr>"
  have "inj_on cs_ticker (set cs)" using assms(2) by (simp add: distinct_map)
  then have sorted: "sort_key cs_ticker cs = sort_key cs_ticker (fx_candidates context)" by (rule sort_key_unique [OF assms(1)])
  have "calculate_candidate dumps ny ?c = calculate_candidate dumps ny context" "judge ?c = judge context"
    by (simp_all add: fun_eq_iff calculate_candidate_def judge_def)
  then have decide: "decide_candidate dumps ny ?c = decide_candidate dumps ny context"
    by (intro ext) (simp only: decide_candidate_def)
  have payload: "payload_of dumps ?c fs = payload_of dumps context fs" for fs by (simp add: payload_of_def)
  have tc: "terminal_consistency (snapshot_of dumps ?c ds om fs p) = terminal_consistency (snapshot_of dumps context ds om fs p)"
    for ds om fs p by (simp add: terminal_consistency_def)
  show ?thesis
    unfolding build_feature_snapshot_def Let_def
    by (simp add: sorted decide payload tc fbind_def snapshot_of_def Let_def terminal_consistency_def split: sum.splits)
qed

section \<open>The evaluator's hard gates\<close>

lemma flt_numerals: "flt 1 = 1" "flt 2 = 2" "flt 4 = 4" "flt 5 = 5" "flt 0 = 0"
  by (simp_all add: float_eval)

text \<open>An accepted record meets every threshold of the configuration.\<close>

lemma accepted_features:
  assumes "pq_accepted (judge context f)"
  shows "\<not> cf_halted f" "fc_gap_min_pct (fx_config context) \<le> cf_gap_pct f"
    "fc_premarket_volume_min (fx_config context) \<le> cf_premarket_volume f"
    "fc_rvol_min (fx_config context) \<le> cf_rvol_time_matched f"
    "fc_resistance_min_atr (fx_config context) \<le> ra_distance_to_resistance_atr (cf_resistance f)"
    "ra_chart_structure (cf_resistance f) \<noteq> CS_CAPPED" "cr_source_type (cf_catalyst f) \<noteq> FS_UNCONFIRMED"
    "cr_disqualifier_flags (cf_catalyst f) = []"
    "cf_catalyst_age_hours f \<le> fx_catalyst_freshness_threshold_hours context"
  using assms by (auto simp: prequalify_reasons_def reason_when_def split: if_splits)

lemma accepted_records:
  assumes "build_feature_snapshot dumps ny context = Inr snapshot" "e \<in> set (di_tickers (fn_payload snapshot))"
  obtains source f where "source \<in> set (fx_candidates context)" "calculate_candidate dumps ny context source = Inr f"
    "pq_accepted (judge context f)" "ticker_input_of dumps f = Inr e"
proof -
  let ?k = "nat (fc_max_evaluator_candidates (fx_config context))"
  from assms(1) obtain judged ranked payload where
    j: "fmap (decide_candidate dumps ny context) (sort_key cs_ticker (fx_candidates context)) = Inr judged"
    and r: "ranked = sort_key capacity_sort_key (concat (map snd judged))"
    and p: "payload_of dumps context (take ?k ranked) = Inr payload" and s: "fn_payload snapshot = payload"
    by (rule build_feature_snapshot_Inr) simp
  obtain f where f: "f \<in> set (take ?k ranked)" "ticker_input_of dumps f = Inr e"
    using list_all2_right [OF payload_of_Inr(1) [OF p]] assms(2) s by auto
  then have "f \<in> set (concat (map snd judged))" using r by (metis in_set_takeD set_sort)
  then obtain d fs where d: "(d, fs) \<in> set judged" "f \<in> set fs" by auto
  then obtain source where source: "source \<in> set (fx_candidates context)"
    "decide_candidate dumps ny context source = Inr (d, fs)"
    using list_all2_right [OF j [unfolded fmap_Inr]] by auto
  note facts = decide_candidate_Inr [OF source(2)]
  have "pq_accepted d" by (rule ccontr) (use facts(3) d(2) in auto)
  from facts(2) [OF this] show thesis using that source(1) d(2) f(2) by auto
qed

text \<open>
  Claim C22. What the feature engine hands to the evaluator passes the evaluator's hard gates:
  with thresholds at least those of the contract, no ticker of the payload fails any gate but the
  two that depend on the catalyst score, whatever that score is; its catalyst carries no
  disqualifier, is not unconfirmed and is not stale. This holds although the features are decimals
  and the payload holds binary floating point numbers.
\<close>

theorem payload_passes_gates:
  assumes "build_feature_snapshot dumps ny context = Inr snapshot" "e \<in> set (di_tickers (fn_payload snapshot))"
    and "4 \<le> fc_gap_min_pct (fx_config context)" "500000 \<le> fc_premarket_volume_min (fx_config context)"
    and "5 \<le> fc_rvol_min (fx_config context)" "1 \<le> fc_resistance_min_atr (fx_config context)"
  shows "set (gate_codes e raw) \<subseteq> {RC_CATALYST_SCORE_TOO_LOW, RC_UNCORROBORATED_CATALYST} \<and>
    nc_disqualifier_flags (ti_news_context e) = [] \<and> nc_source_type (ti_news_context e) \<noteq> ST_UNCONFIRMED \<and>
    nc_catalyst_age_hours (ti_news_context e) \<le> di_catalyst_freshness_threshold_hours (fn_payload snapshot)"
proof -
  obtain source f where f: "pq_accepted (judge context f)" "ticker_input_of dumps f = Inr e"
    using assms(1,2) by (rule accepted_records)
  note acc = accepted_features [OF f(1)]
  have "flt 4 \<le> flt (cf_gap_pct f)" "flt 5 \<le> flt (cf_rvol_time_matched f)"
    "flt 1 \<le> flt (ra_distance_to_resistance_atr (cf_resistance f))"
    using acc assms by (intro flt_mono; linarith)+
  then have fl: "4 \<le> flt (cf_gap_pct f)" "5 \<le> flt (cf_rvol_time_matched f)"
    "1 \<le> flt (ra_distance_to_resistance_atr (cf_resistance f))" by (simp_all add: flt_numerals)
  have thr: "di_catalyst_freshness_threshold_hours (fn_payload snapshot) = flt (fx_catalyst_freshness_threshold_hours context)"
    using assms(1) by (rule build_feature_snapshot_Inr) (simp add: payload_of_Inr(4))
  have "\<not> gate_fails e raw c" if "c \<notin> {RC_CATALYST_SCORE_TOO_LOW, RC_UNCORROBORATED_CATALYST}" for c
    using f(2) acc fl assms(4) that by (cases c) (auto simp: ticker_input_of_def Let_def)
  then have "set (gate_codes e raw) \<subseteq> {RC_CATALYST_SCORE_TOO_LOW, RC_UNCORROBORATED_CATALYST}"
    by (auto simp: gate_codes_eq)
  moreover have "nc_disqualifier_flags (ti_news_context e) = []" "nc_source_type (ti_news_context e) \<noteq> ST_UNCONFIRMED"
    "nc_catalyst_age_hours (ti_news_context e) \<le> di_catalyst_freshness_threshold_hours (fn_payload snapshot)"
    using f(2) acc by (auto simp: ticker_input_of_def Let_def thr intro: flt_mono elim: contract_source_type.elims)
  ultimately show ?thesis by blast
qed

end
