(* ===== verification/Pipeline.thy ===== *)
theory Pipeline
  imports Evaluator_Errors Feature_Properties
begin

text \<open>
  The components in sequence: the feature engine builds the payload, the evaluator authorises an
  output for it.
\<close>

lemma snapshot_payload_valid:
  assumes "build_feature_snapshot dumps ny context = Inr snapshot"
  shows "valid_daybreak_input (fn_payload snapshot)"
proof -
  from assms obtain judged ranked payload where
    "payload_of dumps context (take (nat (fc_max_evaluator_candidates (fx_config context))) ranked) = Inr payload"
    "fn_payload snapshot = payload"
    by (rule build_feature_snapshot_Inr) simp
  then show ?thesis using payload_of_Inr(2) by blast
qed

text \<open>The prices that the contract's input takes over from the features.\<close>

lemma ticker_input_prices:
  assumes "ticker_input_of dumps f = Inr e"
  shows "tc_current_price (ti_technical_context e) = flt (cf_current_price f)"
    "tc_atr_value (ti_technical_context e) = flt (cf_atr_value f)"
    "tc_premarket_low (ti_technical_context e) = flt (cf_premarket_low f)"
  using assms by (auto simp: ticker_input_of_def Let_def)

text \<open>An approved setup of a valid report echoes the prices of its ticker.\<close>

lemma approved_echo:
  assumes valid: "vr_valid (validate_daybreak_run pin pout (Some (ArgModel p)) (ArgModel d) md False)"
    and p: "valid_daybreak_input p" and a: "a \<in> set (out_approved_setups d)"
  obtains e where "e \<in> set (di_tickers p)" "ti_ticker e = ap_ticker a"
    "tp_reference_price (ap_trade_parameters a) = tc_current_price (ti_technical_context e)"
    "tp_atr_value_used (ap_trade_parameters a) = tc_atr_value (ti_technical_context e)"
    "tp_premarket_low_used (ap_trade_parameters a) = tc_premarket_low (ti_technical_context e)"
    "expected_failed_gates e (sb_catalyst_score_raw (ap_score_breakdown a)) = []"
proof -
  obtain ctx where ctx: "ctx_input_payload ctx = Some p" "ctx_output ctx = d" "no_failures ctx"
    using valid_reportE [OF valid] by auto
  have dist: "distinct (map ti_ticker (di_tickers p))" using p by (simp add: valid_daybreak_input_def)
  from inv4_approved [OF no_failuresD(3) [OF ctx(3)] ctx(1)] a ctx(2)
  obtain e where e: "map_of (input_by_ticker p) (ap_ticker a) = Some e"
    "expected_failed_gates e (sb_catalyst_score_raw (ap_score_breakdown a)) = []" by metis
  note replay = replay_approved [OF inv17_record [OF no_failuresD(6) [OF ctx(3)] ctx(1) _ e(1)],
      OF approved_record, unfolded ctx(2), OF a]
  show thesis using that input_by_ticker_Some [OF e(1) dist] replay e(2) by blast
qed

text \<open>
  Claim C30. From the raw data to the approval: when the payload that the evaluator was asked
  about is that of a feature snapshot, every setup of an output that its result authorises is
  one of the candidates of the context, whose features were calculated, which no
  prequalification gate rejected and whose catalyst is fresh, and the reference price, the ATR
  and the premarket low of the trade are the calculated features in binary floating point.
\<close>

theorem approved_setup_from_candidate:
  assumes "build_feature_snapshot dumps ny context = Inr snapshot"
    and "evq_input_payload request = fn_payload snapshot"
    and "evaluate_primary env request s = (Inr result, t)" "executable_candidate_output result = Some d"
    and "a \<in> set (out_approved_setups d)"
  shows "\<exists>source f. source \<in> set (fx_candidates context) \<and> cs_ticker source = ap_ticker a \<and>
    calculate_candidate dumps ny context source = Inr f \<and> prequalify_reasons f (fx_config context) = [] \<and>
    cf_catalyst_age_hours f \<le> fx_catalyst_freshness_threshold_hours context \<and>
    tp_reference_price (ap_trade_parameters a) = flt (cf_current_price f) \<and>
    tp_atr_value_used (ap_trade_parameters a) = flt (cf_atr_value f) \<and>
    tp_premarket_low_used (ap_trade_parameters a) = flt (cf_premarket_low f)"
proof -
  obtain prompt att where "answered env request prompt ROLE_PRIMARY (evp_primary_model (vn_policy env))
      (drop (length (ev_calls s)) (ev_calls t)) att" "att_output att = Some d"
    using assms(3,4) by (rule executable_answered)
  then obtain md where valid: "vr_valid (validate_daybreak_run (vn_parse_input env) (vn_parse_output env)
      (Some (ArgModel (fn_payload snapshot))) (ArgModel d) (Some md) False)"
    unfolding answered_def assms(2) by auto
  obtain e where e: "e \<in> set (di_tickers (fn_payload snapshot))" "ti_ticker e = ap_ticker a"
    "tp_reference_price (ap_trade_parameters a) = tc_current_price (ti_technical_context e)"
    "tp_atr_value_used (ap_trade_parameters a) = tc_atr_value (ti_technical_context e)"
    "tp_premarket_low_used (ap_trade_parameters a) = tc_premarket_low (ti_technical_context e)"
    using valid snapshot_payload_valid [OF assms(1)] assms(5) by (rule approved_echo)
  obtain source f where f: "source \<in> set (fx_candidates context)" "calculate_candidate dumps ny context source = Inr f"
    "pq_accepted (judge context f)" "ticker_input_of dumps f = Inr e"
    using assms(1) e(1) by (rule accepted_records)
  have "cf_ticker f = cs_ticker source" using f(2) by (rule calculate_candidate_Inr) simp
  then have "cs_ticker source = ap_ticker a" using ticker_input_of_Inr [OF f(4)] e(2) by simp
  then show ?thesis using f e ticker_input_prices [OF f(4)] by auto
qed

end
