(* ===== verification/Feature_Ledger.thy ===== *)
theory Feature_Ledger
  imports Feature_Core Replay
begin

text \<open>
  What the trade ledger computes: the order of arrival does not matter, and the active trades are
  exactly the latest versions that no later correction or cancellation took back.
\<close>

section \<open>A reference for the ledger\<close>

definition mentions :: "string \<Rightarrow> trade_ledger_event \<Rightarrow> bool" where
  "mentions k e \<longleftrightarrow> te_trade_id e = k \<or> te_action e \<noteq> TA_NEW \<and> te_original_trade_id e = Some k"

text \<open>The version an identifier stands for after some events: that of the last event naming it.\<close>

definition version_of :: "trade_ledger_event list \<Rightarrow> string \<Rightarrow> string option" where
  "version_of es k = map_option te_trade_id (find (mentions k) (rev es))"

text \<open>A revision takes back the version its original stands for.\<close>

definition takes_back :: "trade_ledger_event list \<Rightarrow> trade_ledger_event \<Rightarrow> trade_ledger_event \<Rightarrow> bool" where
  "takes_back es r e \<longleftrightarrow>
     te_action r \<noteq> TA_NEW \<and>
     (\<exists>k. te_original_trade_id r = Some k \<and> te_trade_id e = (case version_of es k of None \<Rightarrow> k | Some v \<Rightarrow> v))"

definition counts :: "trade_ledger_event \<Rightarrow> bool" where
  "counts e \<longleftrightarrow> te_action e \<noteq> TA_CANCEL \<and> te_eligible e"

definition live :: "trade_ledger_event list \<Rightarrow> trade_ledger_event \<Rightarrow> bool" where
  "live es e \<longleftrightarrow>
     (\<exists>i < length es. es ! i = e \<and> counts e \<and> (\<forall>j < length es. i < j \<longrightarrow> \<not> takes_back (take j es) (es ! j) e))"

lemma version_snoc:
  "version_of (es @ [e]) k = (if mentions k e then Some (te_trade_id e) else version_of es k)"
  by (simp add: version_of_def)

lemma live_snoc: "live (es @ [r]) e \<longleftrightarrow> live es e \<and> \<not> takes_back es r e \<or> e = r \<and> counts r"
proof
  assume "live (es @ [r]) e"
  then obtain i where i: "i < Suc (length es)" "(es @ [r]) ! i = e" "counts e"
    "\<And>j. j < Suc (length es) \<Longrightarrow> i < j \<Longrightarrow> \<not> takes_back (take j (es @ [r])) ((es @ [r]) ! j) e"
    by (auto simp: live_def)
  show "live es e \<and> \<not> takes_back es r e \<or> e = r \<and> counts r"
  proof (cases "i = length es")
    case False
    then have "i < length es" using i(1) by simp
    moreover have "\<not> takes_back (take j es) (es ! j) e" if "j < length es" "i < j" for j
      using i(4) [of j] that by (simp add: nth_append)
    moreover have "\<not> takes_back es r e" using i(4) [of "length es"] \<open>i < length es\<close> by simp
    ultimately show ?thesis using i(2,3) by (auto simp: live_def nth_append)
  qed (use i in auto)
next
  assume "live es e \<and> \<not> takes_back es r e \<or> e = r \<and> counts r"
  then show "live (es @ [r]) e"
  proof
    assume "live es e \<and> \<not> takes_back es r e"
    then obtain i where "i < length es" "es ! i = e" "counts e" "\<not> takes_back es r e"
      "\<And>j. j < length es \<Longrightarrow> i < j \<Longrightarrow> \<not> takes_back (take j es) (es ! j) e"
      by (auto simp: live_def)
    then show ?thesis unfolding live_def
      by (intro exI [of _ i]) (auto simp: nth_append less_Suc_eq)
  next
    assume "e = r \<and> counts r"
    then show ?thesis unfolding live_def by (intro exI [of _ "length es"]) simp
  qed
qed

lemma live_member: "live es e \<Longrightarrow> e \<in> set es \<and> counts e"
  by (auto simp: live_def)

section \<open>The ledger implements it\<close>

definition ledger_exact :: "trade_ledger_event list \<Rightarrow> ledger_state \<Rightarrow> bool" where
  "ledger_exact es s \<longleftrightarrow>
     distinct (map fst (ld_active s)) \<and> map_of (ld_aliases s) = version_of es \<and>
     (\<forall>k t. map_of (ld_active s) k = Some t \<longleftrightarrow> (\<exists>e. live es e \<and> te_trade_id e = k \<and> materialized e = Inr t))"

lemma ledger_exact_empty: "ledger_exact [] empty_ledger"
  by (simp add: ledger_exact_def empty_ledger_def version_of_def live_def fun_eq_iff)

lemma set_alias_simps [simp]:
  "ld_active (set_alias k v s) = ld_active s" "map_of (ld_aliases (set_alias k v s)) = (map_of (ld_aliases s))(k \<mapsto> v)"
  by (simp_all add: set_alias_def update_conv')

lemma materialized_id: "materialized e = Inr t \<Longrightarrow> mz_trade_id t = te_trade_id e"
  by (auto simp: materialized_def split: option.splits)

lemma activate_Inr:
  "activate e s = Inr t \<longleftrightarrow>
    (\<exists>m. materialized e = Inr m \<and> t = s\<lparr>ld_active := AList.update (te_trade_id e) m (ld_active s)\<rparr>)"
  by (auto simp: activate_def fbind_Inr_iff)

lemma distinct_id: "distinct (map te_trade_id (es @ [e])) \<Longrightarrow> live es x \<Longrightarrow> te_trade_id x \<noteq> te_trade_id e"
  using live_member [of es x] by (auto simp: image_iff)

lemma new_trade_exact:
  assumes inv: "ledger_exact es s" and new: "new_trade e s = Inr t" and act: "te_action e = TA_NEW"
    and ids: "distinct (map te_trade_id (es @ [e]))"
  shows "ledger_exact (es @ [e]) t"
proof -
  have nb: "\<not> takes_back es e x" for x using act by (simp add: takes_back_def)
  have al: "version_of (es @ [e]) = (version_of es)(te_trade_id e \<mapsto> te_trade_id e)"
    by (auto simp: version_snoc mentions_def act)
  show ?thesis
  proof (cases "te_eligible e")
    case False
    then have "t = set_alias (te_trade_id e) (te_trade_id e) s" using new by (simp add: new_trade_def Let_def split: if_splits)
    then show ?thesis using inv al False by (simp add: ledger_exact_def live_snoc nb counts_def)
  next
    case True
    then obtain m where m: "materialized e = Inr m"
      "t = set_alias (te_trade_id e) (te_trade_id e) (s\<lparr>ld_active := AList.update (te_trade_id e) m (ld_active s)\<rparr>)"
      using new by (auto simp: new_trade_def Let_def fbind_Inr_iff activate_Inr split: if_splits)
    have "counts e" using True act by (simp add: counts_def)
    then show ?thesis using inv al m distinct_id [OF ids]
      by (auto simp: ledger_exact_def live_snoc nb update_conv' distinct_update)
  qed
qed

lemma revise_trade_exact:
  assumes inv: "ledger_exact es s" and rev: "revise_trade e s = Inr t" and act: "te_action e \<noteq> TA_NEW"
    and ids: "distinct (map te_trade_id (es @ [e]))"
  shows "ledger_exact (es @ [e]) t"
proof -
  obtain original where o: "te_original_trade_id e = Some original"
    using rev by (auto simp: revise_trade_def split: option.splits)
  let ?k = "te_trade_id e"
  let ?root = "case version_of es original of None \<Rightarrow> original | Some r \<Rightarrow> r"
  let ?s = "s\<lparr>ld_active := AList.delete ?root (ld_active s)\<rparr>"
  have al: "map_of (ld_aliases s) = version_of es" using inv by (simp add: ledger_exact_def)
  have tb: "takes_back es e x \<longleftrightarrow> te_trade_id x = ?root" for x
    using o act by (simp add: takes_back_def)
  have al': "version_of (es @ [e]) = (version_of es)(?k \<mapsto> ?k, original \<mapsto> ?k)"
    using o act by (auto simp: version_snoc mentions_def fun_eq_iff)
  have t: "if te_action e = TA_CANCEL \<or> \<not> te_eligible e then t = set_alias original ?k (set_alias ?k ?k ?s)
      else activate e (set_alias original ?k (set_alias ?k ?k ?s)) = Inr t"
    using rev o by (auto simp: revise_trade_def al Let_def split: if_splits)
  have deleted: "map_of (AList.delete ?root (ld_active s)) = (map_of (ld_active s))(?root := None)"
    by (simp add: delete_conv')
  have active: "map_of (AList.delete ?root (ld_active s)) k = Some m \<longleftrightarrow>
      (\<exists>x. live es x \<and> \<not> takes_back es e x \<and> te_trade_id x = k \<and> materialized x = Inr m)" for k m
    using inv by (auto simp: deleted tb ledger_exact_def)
  have dist: "distinct (map fst (AList.delete ?root (ld_active s)))"
    using inv by (simp add: ledger_exact_def distinct_delete)
  show ?thesis
  proof (cases "counts e")
    case False
    then have "t = set_alias original ?k (set_alias ?k ?k ?s)" using t by (simp add: counts_def split: if_splits)
    then show ?thesis using False active dist al al' by (simp add: ledger_exact_def live_snoc)
  next
    case True
    then obtain m where m: "materialized e = Inr m"
      "t = set_alias original ?k (set_alias ?k ?k ?s)\<lparr>ld_active := AList.update ?k m (AList.delete ?root (ld_active s))\<rparr>"
      using t by (auto simp: counts_def activate_Inr split: if_splits)
    have "ld_aliases t = ld_aliases (set_alias original ?k (set_alias ?k ?k ?s))" using m(2) by simp
    then have "map_of (ld_aliases t) = version_of (es @ [e])" using al al' by simp
    moreover have "map_of (ld_active t) k = Some x \<longleftrightarrow>
        (\<exists>y. live (es @ [e]) y \<and> te_trade_id y = k \<and> materialized y = Inr x)" for k x
      using m active [of k x] True distinct_id [OF ids] by (auto simp: live_snoc update_conv')
    ultimately show ?thesis using m dist by (simp add: ledger_exact_def distinct_update)
  qed
qed

lemma apply_events_snoc: "apply_events (es @ fs) s = fbind (apply_events es s) (apply_events fs)"
proof (induction es arbitrary: s)
  case (Cons e es)
  then show ?case by (cases "apply_event e s") simp_all
qed simp

lemma apply_events_exact:
  "apply_events es empty_ledger = Inr s \<Longrightarrow> distinct (map te_trade_id es) \<Longrightarrow> ledger_exact es s"
proof (induction es arbitrary: s rule: rev_induct)
  case Nil
  then show ?case using ledger_exact_empty by simp
next
  case (snoc e es)
  then obtain u where u: "apply_events es empty_ledger = Inr u" "apply_event e u = Inr s"
    by (auto simp: apply_events_snoc fbind_Inr_iff)
  then have "ledger_exact es u" using snoc by simp
  then show ?case using u(2) snoc.prems(2) new_trade_exact revise_trade_exact
    by (auto simp: apply_event_def split: if_splits)
qed

section \<open>Properties\<close>

lemma remdups_length: "length (remdups (map f xs)) \<noteq> length xs \<longleftrightarrow> \<not> distinct (map f xs)"
  by (metis distinct_remdups length_map length_remdups_eq remdups_id_iff_distinct)

lemma materialize_duplicate:
  assumes "\<not> distinct (map te_ingest_seq events)"
  shows "materialize_trades events = Inl (DataQuality ''DUPLICATE_INGEST_SEQUENCE'' ''trade events contain duplicate ingest_seq'')"
proof -
  have "\<not> distinct (map te_ingest_seq (sort_key te_ingest_seq events))"
    using assms by (metis mset_map mset_sort mset_eq_imp_distinct_iff)
  then show ?thesis unfolding materialize_trades_def Let_def remdups_length by simp
qed

lemma materialize_perm:
  assumes "mset events = mset events'"
  shows "materialize_trades events = materialize_trades events'"
proof (cases "distinct (map te_ingest_seq events)")
  case True
  then have "inj_on te_ingest_seq (set events)" by (simp add: distinct_map)
  then have "sort_key te_ingest_seq events = sort_key te_ingest_seq events'" by (rule sort_key_unique [OF assms])
  then show ?thesis unfolding materialize_trades_def by (simp only:)
next
  case False
  moreover have "distinct (map te_ingest_seq events) = distinct (map te_ingest_seq events')"
    using assms by (metis mset_map mset_eq_imp_distinct_iff)
  ultimately show ?thesis by (simp add: materialize_duplicate)
qed

lemma materialize_Inr:
  assumes "materialize_trades events = Inr trades"
  obtains s where "apply_events (sort_key te_ingest_seq events) empty_ledger = Inr s"
    "trades = sort_key trade_key (dict_values (ld_active s))"
  using assms by (auto simp: materialize_trades_def Let_def fbind_Inr_iff split: if_splits)

text \<open>
  Claim C25. The trade ledger keeps exactly the current trades: when no two events share an
  identifier, the trades it returns are those of the events that count (eligible, no
  cancellation) and that no later event, in the order of ingestion, takes back, where a
  correction or cancellation takes back the version its original identifier stands for at that
  moment; they come in the order of time.
\<close>

theorem materialized_exactly:
  assumes "materialize_trades events = Inr trades" "distinct (map te_trade_id events)"
  shows "set trades = {t. \<exists>e. live (sort_key te_ingest_seq events) e \<and> materialized e = Inr t} \<and>
    sorted (map trade_key trades) \<and> distinct (map mz_trade_id trades)"
proof -
  let ?es = "sort_key te_ingest_seq events"
  obtain s where s: "apply_events ?es empty_ledger = Inr s" "trades = sort_key trade_key (dict_values (ld_active s))"
    using assms(1) by (rule materialize_Inr)
  have "distinct (map te_trade_id ?es)" using assms(2) by (metis mset_map mset_sort mset_eq_imp_distinct_iff)
  then have inv: "ledger_exact ?es s" using apply_events_exact s(1) by simp
  then have keys: "distinct (map fst (ld_active s))"
    and act: "map_of (ld_active s) k = Some t \<longleftrightarrow> (\<exists>e. live ?es e \<and> te_trade_id e = k \<and> materialized e = Inr t)" for k t
    by (simp_all add: ledger_exact_def)
  have ids: "fst kt = mz_trade_id (snd kt)" if "kt \<in> set (ld_active s)" for kt
    using that act [of "fst kt" "snd kt"] keys by (auto simp: materialized_id)
  have "set trades = {t. \<exists>e. live ?es e \<and> materialized e = Inr t}"
  proof (intro set_eqI)
    fix t
    have "t \<in> set trades \<longleftrightarrow> (\<exists>k. map_of (ld_active s) k = Some t)"
      using map_of_in_values values_in_map_of [OF keys] by (auto simp: s(2))
    then show "t \<in> set trades \<longleftrightarrow> t \<in> {t. \<exists>e. live ?es e \<and> materialized e = Inr t}"
      using act by auto
  qed
  moreover have "distinct (map mz_trade_id trades)"
  proof -
    have "map mz_trade_id (dict_values (ld_active s)) = map fst (ld_active s)"
      using ids by (simp add: dict_values_def)
    moreover have "mset (map mz_trade_id trades) = mset (map mz_trade_id (dict_values (ld_active s)))"
      by (simp only: s(2) mset_map mset_sort)
    ultimately show ?thesis using keys by (metis mset_eq_imp_distinct_iff)
  qed
  ultimately show ?thesis by (simp add: s(2))
qed

end
