(* ===== verification/Feature_Types.thy ===== *)
theory Feature_Types
  imports Feature_Properties Feature_Ledger
begin

text \<open>
  The features of a valid context always form a payload that the contract accepts: the types the
  engine computes fit the stricter types of the evaluator's input.
\<close>

section \<open>Binary floating point numbers of decimals\<close>

lemma flt_pos: "0 < x \<Longrightarrow> 0 < flt x"
proof -
  assume "0 < x"
  then have "(2 :: rat) powi ilog 2 x \<le> flt x" using fix_prec_bounds(1) [of 2 53 x] by (simp add: flt_def)
  moreover have "0 < (2 :: rat) powi ilog 2 x" by simp
  ultimately show ?thesis by linarith
qed

lemma flt_nonneg: "0 \<le> x \<Longrightarrow> 0 \<le> flt x"
  using flt_mono [of 0 x] by (simp add: flt_numerals)

lemma quantize_grid: "quantize_places p x = Some y \<Longrightarrow> \<exists>n. y = of_int n / 10 ^ p"
  by (auto simp: quantize_places_def Let_def split: if_splits)

lemma quantize_nonneg: "quantize_places p x = Some y \<Longrightarrow> 0 \<le> x \<Longrightarrow> 0 \<le> y"
  by (auto simp: quantize_places_def Let_def round_half_even_nonneg split: if_splits)

text \<open>A decimal of six places above two stays above two.\<close>

lemma flt_above_two:
  assumes "y = of_int n / 10 ^ 6" "2 < y"
  shows "2 < flt y"
proof -
  have "2000000 < (of_int n :: rat)" using assms by simp
  then have "2000001 \<le> n" by linarith
  then have "(2000001 / 1000000 :: rat) \<le> y" using assms(1) by simp
  then have "flt (2000001 / 1000000) \<le> flt y" by (rule flt_mono)
  moreover have "2 < flt (2000001 / 1000000)" by (simp add: float_eval)
  ultimately show ?thesis by linarith
qed

section \<open>The resistance audit\<close>

lemma room_nonneg: "y \<le> x \<Longrightarrow> 0 < atr \<Longrightarrow> 0 \<le> dec (dsub x y / atr)"
  by (intro dec_nonneg divide_nonneg_pos) (auto simp: dsub_def intro: dec_nonneg)

lemma eligible_distance:
  assumes "(d, c) \<in> set (eligible_clusters price atr cs)" "0 < atr"
  shows "0 \<le> d"
proof -
  have "cluster_distance price atr c = Some d"
    using assms(1) by (auto simp: eligible_clusters_def map_filter_def)
  then show ?thesis using assms(2) by (auto simp: cluster_distance_def intro: room_nonneg split: if_splits)
qed

lemma resistance_cases:
  assumes "daily_pivot_cluster_v1 bars price atr listed config = Inr audit"
  obtains (measured) raw where "0 < atr" "0 \<le> raw"
      "quantize_places (nat (fc_distance_decimal_places config)) raw = Some (ra_distance_to_resistance_atr audit)"
      "ra_chart_structure audit = structure_of (ra_distance_to_resistance_atr audit)"
    | (blue_sky) "ra_distance_to_resistance_atr audit = fc_blue_sky_sentinel config" "ra_chart_structure audit = CS_BLUE_SKY"
proof -
  let ?cb = "drop (length bars - min (nat (fc_cluster_lookback_sessions config)) (length bars)) bars"
  obtain clusters where atr: "0 < atr" and
    c: "clusters_of (fst (pivot_candidates ?cb config)) ?cb atr config = Inr clusters"
    using assms by (auto simp: daily_pivot_cluster_v1_def Let_def fbind_Inr_iff split: if_splits)
  let ?el = "eligible_clusters price atr (filter (cluster_valid config) clusters)"
  note rest = assms [unfolded daily_pivot_cluster_v1_def Let_def c fbind_simps]
  show thesis
  proof (cases "?el = []")
    case False
    obtain d k where h: "hd (sort_key cluster_key ?el) = (d, k)" by fastforce
    have "hd (sort_key cluster_key ?el) \<in> set ?el" using False by (metis hd_in_set length_0_conv length_sort set_sort)
    then have "0 \<le> d" using h eligible_distance atr by auto
    then show thesis using rest False h atr by (intro measured [of d]) (auto simp: fbind_Inr_iff audit_of_def split: if_splits)
  next
    case True
    show thesis
    proof (cases "price < highest bars")
      case True
      then have "0 \<le> dec (dsub (highest bars) price / atr)" using atr by (intro room_nonneg) auto
      then show thesis using rest True \<open>?el = []\<close> atr
        by (intro measured) (auto simp: fbind_Inr_iff audit_of_def split: if_splits)
    next
      case False
      then show thesis using rest True by (intro blue_sky) (auto simp: audit_of_def split: if_splits)
    qed
  qed
qed

section \<open>Accepted features\<close>

lemma window_filter_subset: "window_filter config inside trades = Inr ts \<Longrightarrow> set ts \<subseteq> set trades"
  by (auto simp: window_filter_def fbind_Inr_iff split: if_splits)

lemma low_below_price:
  assumes "current_price trades = Inr price" "premarket_low trades = Inr low"
  shows "low \<le> price"
  using assms by (auto simp: current_price_def premarket_low_def intro!: Min_le split: if_splits)

lemma hd_sort_in: "xs \<noteq> [] \<Longrightarrow> hd (sort_key f xs) \<in> set xs"
proof -
  assume "xs \<noteq> []"
  then have "sort_key f xs \<noteq> []" by (metis length_sort list.size(3) length_greater_0_conv)
  then have "hd (sort_key f xs) \<in> set (sort_key f xs)" by (rule hd_in_set)
  then show ?thesis by simp
qed

lemma select_catalyst_Inr:
  assumes "select_catalyst cs ticker snapshot = Inr (c, age)"
  shows "c \<in> set cs" "cr_ticker c = ticker" "cr_observed_at c \<le> snapshot"
proof -
  let ?known = "filter (\<lambda>r. cr_ticker r = ticker \<and> cr_observed_at r \<le> snapshot) cs"
  have "c = hd (sort_key catalyst_key ?known)" "?known \<noteq> []"
    using assms unfolding select_catalyst_def Let_def by (auto simp only: fbind_Inr_iff split: if_splits)
  then have "c \<in> set ?known" using hd_sort_in [of ?known catalyst_key] by simp
  then show "c \<in> set cs" "cr_ticker c = ticker" "cr_observed_at c \<le> snapshot" by auto
qed

definition structure_fits :: "resistance_audit \<Rightarrow> bool" where
  "structure_fits audit \<longleftrightarrow>
     (let d = flt (ra_distance_to_resistance_atr audit); st = ra_chart_structure audit in
      0 \<le> d \<and> \<not> (st = CS_CLEAN_SHORT_TERM \<and> d \<le> 2) \<and> \<not> (st = CS_MODERATE_ROOM \<and> \<not> (1 \<le> d \<and> d \<le> 2)))"

lemma audit_structure_fits:
  assumes "daily_pivot_cluster_v1 bars price atr listed config = Inr audit"
    and "fc_distance_decimal_places config = 6" "0 \<le> fc_blue_sky_sentinel config"
  shows "structure_fits audit"
  using assms(1)
proof (cases rule: resistance_cases)
  case (measured raw)
  let ?d = "ra_distance_to_resistance_atr audit"
  have "0 \<le> ?d" using measured(2,3) by (rule quantize_nonneg [rotated])
  moreover obtain n where "?d = of_int n / 10 ^ 6" using quantize_grid [OF measured(3)] assms(2) by auto
  then have "2 < ?d \<Longrightarrow> 2 < flt ?d" by (rule flt_above_two)
  moreover have "1 \<le> ?d \<Longrightarrow> 1 \<le> flt ?d" "?d \<le> 2 \<Longrightarrow> flt ?d \<le> 2"
    using flt_mono [of 1 ?d] flt_mono [of ?d 2] by (simp_all add: flt_numerals)
  ultimately show ?thesis using measured(4) flt_nonneg [of ?d]
    by (auto simp: structure_fits_def Let_def structure_of_def split: if_splits)
next
  case blue_sky
  then show ?thesis using assms(3) by (simp add: structure_fits_def Let_def flt_nonneg)
qed

lemma accepted_validates:
  assumes calc: "calculate_candidate dumps ny context source = Inr f" and acc: "pq_accepted (judge context f)"
    and source: "valid_candidate_source source" and config: "valid_engine_config (fx_config context)"
    and sentinel: "0 \<le> fc_blue_sky_sentinel (fx_config context)"
    and texts: "\<And>c. c \<in> set (cs_catalysts source) \<Longrightarrow> length (cr_catalyst_text c) \<le> 4000"
  shows "\<exists>e. ticker_input_of dumps f = Inr e"
proof -
  from calc obtain trades where price: "current_price trades = Inr (cf_current_price f)"
    "premarket_low trades = Inr (cf_premarket_low f)"
    and audit: "daily_pivot_cluster_v1 (cs_daily_bars source) (cf_current_price f) (cf_atr_value f)
       (cs_history_complete_since_listing source) (fx_config context) = Inr (cf_resistance f)"
    and cat: "select_catalyst (cs_catalysts source) (cs_ticker source) (fx_payload_timestamp context)
       = Inr (cf_catalyst f, cf_catalyst_age_hours f)"
    and f: "valid_candidate_features f" "cf_ticker f = cs_ticker source"
    by (rule calculate_candidate_Inr)
  have fits: "structure_fits (cf_resistance f)"
    using audit_structure_fits [OF audit _ sentinel] config by (simp add: valid_engine_config_def)
  have c: "valid_catalyst_record (cf_catalyst f)" "length (cr_catalyst_text (cf_catalyst f)) \<le> 4000"
    using select_catalyst_Inr(1) [OF cat] source texts by (auto simp: valid_candidate_source_def list_all_iff)
  have low: "flt (cf_premarket_low f) \<le> flt (cf_current_price f)" using low_below_price [OF price] by (rule flt_mono)
  show ?thesis
    using f c fits low accepted_features [OF acc]
    by (auto simp: ticker_input_of_def Let_def valid_ticker_input_def valid_news_context_def valid_catalyst_record_def
        valid_liquidity_metrics_def valid_technical_context_def valid_candidate_features_def structure_fits_def
        flt_pos flt_nonneg)
qed

section \<open>The whole snapshot\<close>

lemma fmap_total: "(\<And>x. x \<in> set xs \<Longrightarrow> \<exists>y. f x = Inr y) \<Longrightarrow> \<exists>ys. fmap f xs = Inr ys"
  by (induction xs) (fastforce simp: fbind_Inr_iff)+

lemma decide_candidate_total:
  "(\<And>e. calculate_candidate dumps ny context c \<noteq> Inl (Crash e)) \<Longrightarrow> \<exists>j. decide_candidate dumps ny context c = Inr j"
  by (auto simp: decide_candidate_def Let_def split: sum.splits feature_error.splits)

lemma elapsed_nonneg: "b \<le> a \<Longrightarrow> 0 \<le> trunc_int (total_seconds a b)"
proof -
  assume "b \<le> a"
  then have "0 \<le> total_seconds a b" unfolding total_seconds_def by (intro flt_nonneg) simp
  then show ?thesis by (simp add: trunc_int_def)
qed


end
