(* ===== verification/Feature_Bounds.thy ===== *)
theory Feature_Bounds
  imports Feature_Types
begin

text \<open>
  Bounds of the market features: the volume-weighted average price lies between the lowest and
  the highest trade in spite of two roundings, and the clusters of the daily chart.
\<close>

section \<open>Sums and quotients that are exact or ordered\<close>

lemma foldl_dadd_exact:
  assumes "on_grid 6 a" "0 \<le> a" "list_all (\<lambda>x. on_grid 6 x \<and> 0 \<le> x) xs" "a + sum_list xs < 10 ^ 22"
  shows "foldl dadd a xs = a + sum_list xs"
  using assms
proof (induction xs arbitrary: a)
  case (Cons x xs)
  have "0 \<le> sum_list xs" using Cons.prems(3) by (auto simp: list_all_iff intro: sum_list_nonneg)
  then have "a + x < 10 ^ 22" using Cons.prems(4) by simp
  then have "dadd a x = a + x"
    unfolding dadd_def using Cons.prems by (intro dec_exact [where k = 6]) (auto intro: on_grid_add)
  then show ?case using Cons.prems Cons.IH [of "a + x"] by (simp add: on_grid_add add.assoc)
qed simp

lemma quantize_between:
  assumes "quantize_six x = Some y" "lo \<le> x" "x \<le> hi" "on_grid 6 lo" "on_grid 6 hi"
  shows "lo \<le> y" "y \<le> hi"
proof -
  have y: "y = of_int (round_half_even (x * 10 ^ 6)) / 10 ^ 6"
    using assms(1) by (auto simp: quantize_six_def quantize_places_def Let_def split: if_splits)
  obtain m n where mn: "lo = of_int m / 10 ^ 6" "hi = of_int n / 10 ^ 6" using assms(4,5) by (elim on_gridE)
  have "of_int m \<le> x * 10 ^ 6" "x * 10 ^ 6 \<le> of_int n" using assms(2,3) mn by (simp_all add: field_simps)
  then have "m \<le> round_half_even (x * 10 ^ 6)" "round_half_even (x * 10 ^ 6) \<le> n"
    by (metis round_half_even_mono round_half_even_of_int)+
  then have "(of_int m :: rat) \<le> of_int (round_half_even (x * 10 ^ 6))" "of_int (round_half_even (x * 10 ^ 6)) \<le> (of_int n :: rat)"
    by simp_all
  then show "lo \<le> y" "y \<le> hi" unfolding y mn by (simp_all add: divide_right_mono)
qed

text \<open>Prices of at most six decimals below a million, as exchanges quote them.\<close>

definition quoted :: "materialized_trade \<Rightarrow> bool" where
  "quoted t \<longleftrightarrow> on_grid 6 (mz_price t) \<and> 0 < mz_price t \<and> mz_price t < 10 ^ 6 \<and> 0 < mz_size t"

definition notional :: "materialized_trade \<Rightarrow> rat" where
  "notional t = mz_price t * of_int (mz_size t)"

lemma notional_bounds:
  assumes "list_all quoted trades" "\<And>t. t \<in> set trades \<Longrightarrow> lo \<le> mz_price t \<and> mz_price t \<le> hi"
  shows "lo * of_int (premarket_volume trades) \<le> sum_list (map notional trades) \<and>
    sum_list (map notional trades) \<le> hi * of_int (premarket_volume trades)"
  using assms
proof (induction trades)
  case (Cons t trades)
  have "0 < (of_int (mz_size t) :: rat)" "lo \<le> mz_price t" "mz_price t \<le> hi" using Cons.prems by (auto simp: quoted_def)
  then have "lo * of_int (mz_size t) \<le> notional t" "notional t \<le> hi * of_int (mz_size t)"
    by (simp_all add: notional_def mult_right_mono)
  then show ?case using Cons by (simp add: premarket_volume_def distrib_left add_mono)
qed (simp add: premarket_volume_def)

lemma exact_notional:
  assumes "list_all quoted trades" "premarket_volume trades < 10 ^ 15"
  shows "foldl dadd 0 (map (\<lambda>t. dmul (mz_price t) (of_int (mz_size t))) trades) = sum_list (map notional trades)"
proof -
  have total: "sum_list (map notional trades) \<le> 10 ^ 6 * of_int (premarket_volume trades)"
    by (rule notional_bounds [THEN conjunct2, OF assms(1), of 0]) (use assms(1) in \<open>auto simp: list_all_iff quoted_def less_imp_le\<close>)
  have vol: "(of_int (premarket_volume trades) :: rat) < 10 ^ 15"
    using assms(2) by (metis of_int_less_iff of_int_numeral of_int_power)
  have nonneg: "0 \<le> notional t" "on_grid 6 (notional t)" if "t \<in> set trades" for t
    using that assms(1) by (auto simp: notional_def list_all_iff quoted_def)
  have single: "notional t < 10 ^ 22" if "t \<in> set trades" for t
  proof -
    have "notional t \<le> sum_list (map notional trades)" using that nonneg by (intro member_le_sum_list) auto
    then show ?thesis using total vol by simp
  qed
  have "dmul (mz_price t) (of_int (mz_size t)) = notional t" if "t \<in> set trades" for t
    unfolding dmul_def notional_def [symmetric] using nonneg [OF that] single [OF that]
    by (intro dec_exact [where k = 6]) auto
  then have eq: "map (\<lambda>t. dmul (mz_price t) (of_int (mz_size t))) trades = map notional trades" by simp
  have "foldl dadd 0 (map notional trades) = 0 + sum_list (map notional trades)"
    using nonneg total vol by (intro foldl_dadd_exact) (auto simp: list_all_iff)
  then show ?thesis unfolding eq by simp
qed

text \<open>
  Claim C28. The premarket VWAP always lies between the lowest and the highest price of the
  trades it averages, for quoted prices (six decimals, below a million) and a volume below
  $10^{15}$ shares: neither the 28-digit division nor the rounding to six places leaves the range.
\<close>

theorem vwap_within_range:
  assumes "list_all quoted trades" "premarket_volume trades < 10 ^ 15" "premarket_vwap trades = Inr vwap"
  shows "Min (set (map mz_price trades)) \<le> vwap \<and> vwap \<le> Max (set (map mz_price trades))"
proof -
  let ?lo = "Min (set (map mz_price trades))" and ?hi = "Max (set (map mz_price trades))"
  let ?v = "of_int (premarket_volume trades) :: rat"
  have v: "0 < premarket_volume trades" and
    q: "quantize_six (dec (sum_list (map notional trades) / ?v)) = Some vwap"
    using assms(3) by (auto simp: premarket_vwap_def Let_def exact_notional [OF assms(1,2)] fbind_Inr_iff ddiv_def split: if_splits)
  then have ne: "trades \<noteq> []" by (auto simp: premarket_volume_def)
  then have mem: "?lo \<in> set (map mz_price trades)" "?hi \<in> set (map mz_price trades)" by (auto intro!: Min_in Max_in simp del: set_map)
  have grid: "on_grid 6 p" "0 < p" "p < 10 ^ 6" if "p \<in> set (map mz_price trades)" for p
    using that assms(1) by (auto simp: list_all_iff quoted_def)
  have exact: "dec p = p" if "p \<in> set (map mz_price trades)" for p
    using grid [OF that] by (intro dec_exact [where k = 6]) auto
  have "?lo * ?v \<le> sum_list (map notional trades)" "sum_list (map notional trades) \<le> ?hi * ?v"
    using notional_bounds [OF assms(1), of ?lo ?hi] by simp_all
  then have "?lo \<le> sum_list (map notional trades) / ?v" "sum_list (map notional trades) / ?v \<le> ?hi"
    using v by (simp_all add: pos_le_divide_eq pos_divide_le_eq)
  then have "dec ?lo \<le> dec (sum_list (map notional trades) / ?v)" "dec (sum_list (map notional trades) / ?v) \<le> dec ?hi"
    by (simp_all add: dec_mono del: set_map)
  then show ?thesis using quantize_between [OF q _ _ grid(1) [OF mem(1)] grid(1) [OF mem(2)]] mem by (simp add: exact del: set_map)
qed

end
