(* ===== verification/Feature_Clusters.thy ===== *)
theory Feature_Clusters
  imports Feature_Bounds
begin

text \<open>
  The clusters of the daily chart: the loops over indices with a set of assigned pivots compute
  the greedy partition, and the audit reports the nearest resistance.
\<close>

section \<open>A reference for the clusters\<close>

definition near :: "rat \<Rightarrow> pivot \<Rightarrow> pivot \<Rightarrow> bool" where
  "near tolerance anchor p \<longleftrightarrow> dsub (pv_price anchor) (pv_price p) \<le> tolerance"

text \<open>The first free pivot is an anchor, takes all that are near, and the rest go on.\<close>

function greedy :: "rat \<Rightarrow> pivot list \<Rightarrow> pivot list list" where
  "greedy tolerance [] = []"
| "greedy tolerance (p # ps) =
     (p # filter (near tolerance p) ps) # greedy tolerance (filter (\<lambda>q. \<not> near tolerance p q) ps)"
  by pat_completeness auto
termination
  by (relation "measure (\<lambda>(_, ps). length ps)") (auto simp: le_imp_less_Suc)

lemma filter_other: "a \<notin> set is \<Longrightarrow> filter (\<lambda>i. i \<noteq> a \<and> P i) is = filter P is"
  by (rule filter_cong) auto

lemma claim_members_eq:
  "distinct is \<Longrightarrow> claim_members tolerance pivots anchor is assigned members =
    (assigned \<union> {i \<in> set is. near tolerance anchor (pivots ! i)},
     members @ map ((!) pivots) (filter (\<lambda>i. i \<notin> assigned \<and> near tolerance anchor (pivots ! i)) is))"
  by (induction "is" arbitrary: assigned members) (auto simp: near_def filter_other)

definition free :: "pivot list \<Rightarrow> nat \<Rightarrow> nat set \<Rightarrow> pivot list" where
  "free pivots i assigned = map ((!) pivots) (filter (\<lambda>j. j \<notin> assigned) [i..<length pivots])"

lemma claim_clusters_free:
  "claim_clusters tolerance pivots [i..<length pivots] assigned = greedy tolerance (free pivots i assigned)"
proof (induction "length pivots - i" arbitrary: i assigned)
  case 0
  then show ?case by (simp add: free_def)
next
  case (Suc k)
  then have upt: "[i..<length pivots] = i # [Suc i..<length pivots]" by (simp add: upt_conv_Cons)
  have IH: "claim_clusters tolerance pivots [Suc i..<length pivots] A = greedy tolerance (free pivots (Suc i) A)" for A
    using Suc by (intro Suc.hyps(1)) simp
  show ?case
  proof (cases "i \<in> assigned")
    case True
    then show ?thesis by (simp add: upt IH free_def)
  next
    case False
    let ?p = "pivots ! i" and ?js = "[Suc i..<length pivots]"
    let ?A = "insert i assigned \<union> {j \<in> set ?js. near tolerance ?p (pivots ! j)}"
    have members: "map ((!) pivots) (filter (\<lambda>j. j \<notin> insert i assigned \<and> near tolerance ?p (pivots ! j)) ?js) =
        filter (near tolerance ?p) (free pivots (Suc i) assigned)"
      by (auto simp: free_def filter_map comp_def conj_commute intro!: arg_cong [where f = "map ((!) pivots)"] filter_cong)
    have rest: "free pivots (Suc i) ?A = filter (\<lambda>q. \<not> near tolerance ?p q) (free pivots (Suc i) assigned)"
      by (auto simp: free_def filter_map comp_def intro!: arg_cong [where f = "map ((!) pivots)"] filter_cong)
    have "free pivots i assigned = ?p # free pivots (Suc i) assigned"
      using False by (simp add: free_def upt)
    then show ?thesis using False members rest
      by (simp add: upt claim_members_eq IH)
  qed
qed

lemma claim_clusters_greedy: "claim_clusters tolerance pivots [0..<length pivots] {} = greedy tolerance pivots"
  by (simp add: claim_clusters_free free_def map_nth)

lemma mset_greedy: "mset (concat (greedy tolerance ps)) = mset ps"
  by (induction tolerance ps rule: greedy.induct) (simp_all add: multiset_partition [symmetric] mset_filter)

lemma greedy_members: "c \<in> set (greedy tolerance ps) \<Longrightarrow> c \<noteq> [] \<and> (\<forall>q \<in> set (tl c). near tolerance (hd c) q)"
  by (induction tolerance ps rule: greedy.induct) auto

section \<open>The clusters of the program\<close>

lemma update_fresh: "k \<notin> set (map fst d) \<Longrightarrow> AList.update k v d = d @ [(k, v)]"
  by (induction d) auto

lemma collect_fresh:
  assumes "distinct (map pv_session_date ms)" "set (map fst d) \<inter> set (map pv_session_date ms) = {}"
  shows "foldl (\<lambda>d m. AList.update (pv_session_date m) m d) d ms = d @ map (\<lambda>m. (pv_session_date m, m)) ms"
  using assms
proof (induction ms arbitrary: d)
  case (Cons m ms)
  then show ?case using Cons.IH [of "d @ [(pv_session_date m, m)]"] by (auto simp: update_fresh)
qed simp

lemma unique_members_mset:
  "distinct (map pv_session_date ms) \<Longrightarrow> mset (unique_members ms) = mset ms"
  by (simp add: unique_members_def collect_fresh dict_values_def comp_def)

lemma cluster_of_Inr:
  assumes "cluster_of bars k members = Inr c"
  shows "cl_members c = unique_members members \<and> cl_anchor c = pv_price (hd members) \<and>
    cl_zone_low c = Min (set (map pv_price (cl_members c))) \<and> cl_zone_high c = Max (set (map pv_price (cl_members c))) \<and>
    cl_touch_dates c = map pv_session_date (cl_members c)"
  using assms by (auto simp: cluster_of_def Let_def split: option.splits)

lemma number_clusters_Inr:
  "number_clusters bars k groups = Inr cs \<Longrightarrow> list_all2 (\<lambda>g c. \<exists>i. cluster_of bars i g = Inr c) groups cs"
  by (induction bars k groups arbitrary: cs rule: number_clusters.induct) (auto simp: fbind_Inr_iff)

lemma distinct_greedy:
  assumes "distinct (map f ps)" "g \<in> set (greedy tolerance ps)"
  shows "distinct (map f g)"
proof -
  have "distinct (map f (concat (greedy tolerance ps)))"
    using assms(1) mset_greedy by (metis mset_map mset_eq_imp_distinct_iff)
  moreover obtain xs ys where "greedy tolerance ps = xs @ g # ys" using assms(2) by (meson split_list)
  ultimately show ?thesis by simp
qed

lemma groups_members:
  assumes "list_all2 (\<lambda>g c. \<exists>i. cluster_of bars i g = Inr c) groups cs" "\<forall>g \<in> set groups. distinct (map pv_session_date g)"
  shows "mset (concat (map cl_members cs)) = mset (concat groups)"
  using assms by (induction rule: list_all2_induct) (auto simp: unique_members_mset dest!: cluster_of_Inr)

text \<open>
  The clusters of the daily chart partition its pivots: every pivot of the chart (one
  per day) is a member of exactly one cluster, every cluster has an anchor among its members, no
  member lies further below the anchor than the tolerance, and the zone of the cluster is
  enclosed by its members.
\<close>

theorem clusters_partition_pivots:
  assumes cl: "clusters_of pivots bars atr config = Inr cs" and dates: "distinct (map pv_session_date pivots)"
    and tol: "0 \<le> dmul (fc_cluster_tolerance_atr config) atr"
  shows "mset (concat (map cl_members cs)) = mset pivots \<and>
    (\<forall>c \<in> set cs. cl_anchor c \<in> pv_price ` set (cl_members c) \<and>
       cl_zone_low c \<in> pv_price ` set (cl_members c) \<and> cl_zone_high c \<in> pv_price ` set (cl_members c) \<and>
       (\<forall>p \<in> set (cl_members c). dsub (cl_anchor c) (pv_price p) \<le> dmul (fc_cluster_tolerance_atr config) atr \<and>
          cl_zone_low c \<le> pv_price p \<and> pv_price p \<le> cl_zone_high c))"
proof -
  let ?tol = "dmul (fc_cluster_tolerance_atr config) atr" and ?ps = "sort_key pivot_key pivots"
  have all: "list_all2 (\<lambda>g c. \<exists>i. cluster_of bars i g = Inr c) (greedy ?tol ?ps) cs"
    using cl by (intro number_clusters_Inr [of bars 1]) (simp add: clusters_of_def Let_def claim_clusters_greedy)
  have dist: "distinct (map pv_session_date ?ps)" using dates by (metis mset_map mset_sort mset_eq_imp_distinct_iff)
  have groups: "\<forall>g \<in> set (greedy ?tol ?ps). distinct (map pv_session_date g)" using distinct_greedy [OF dist] by blast
  have "mset (concat (map cl_members cs)) = mset pivots"
    using groups_members [OF all groups] by (simp add: mset_greedy)
  moreover have "cl_anchor c \<in> pv_price ` set (cl_members c) \<and>
       cl_zone_low c \<in> pv_price ` set (cl_members c) \<and> cl_zone_high c \<in> pv_price ` set (cl_members c) \<and>
       (\<forall>p \<in> set (cl_members c). dsub (cl_anchor c) (pv_price p) \<le> ?tol \<and>
          cl_zone_low c \<le> pv_price p \<and> pv_price p \<le> cl_zone_high c)" if "c \<in> set cs" for c
  proof -
    note right = list_all2_right [OF all that]
    obtain g i where g: "g \<in> set (greedy ?tol ?ps)" "cluster_of bars i g = Inr c"
      using right by auto
    note c = cluster_of_Inr [OF g(2)] and members = greedy_members [OF g(1)]
    have set: "set (cl_members c) = set g"
      using unique_members_mset [of g] groups g(1) c by (metis mset_eq_setD)
    have ne: "set (map pv_price (cl_members c)) \<noteq> {}" using members set by (simp add: set_map) 
    have "dsub (pv_price (hd g)) (pv_price p) \<le> ?tol" if "p \<in> set g" for p
      using that members tol by (cases g) (auto simp: near_def dsub_def)
    moreover have "Min (set (map pv_price (cl_members c))) \<in> set (map pv_price (cl_members c))"
      "Max (set (map pv_price (cl_members c))) \<in> set (map pv_price (cl_members c))"
      using ne by (intro Min_in Max_in; simp)+
    ultimately show ?thesis using c set members by auto
  qed
  ultimately show ?thesis by blast
qed

text \<open>
  Claim C26. The audit reports the nearest resistance: when it selects a cluster, that cluster is
  a valid one at or above the price and no other valid cluster is nearer; it falls back to the
  all-time high only when no valid cluster is at or above the price, and it reports blue sky only
  when in addition the price has reached the all-time high and the history is complete.
\<close>

theorem nearest_resistance:
  assumes "daily_pivot_cluster_v1 bars price atr listed config = Inr audit"
    and recent: "recent = drop (length bars - min (nat (fc_cluster_lookback_sessions config)) (length bars)) bars"
  shows "\<exists>clusters. clusters_of (fst (pivot_candidates recent config)) recent atr config = Inr clusters \<and>
    (let eligible = eligible_clusters price atr (filter (cluster_valid config) clusters) in
     case ra_selected_resistance_source audit of
       SRC_PIVOT_CLUSTER \<Rightarrow>
         \<exists>d c. (d, c) \<in> set eligible \<and> ra_raw_distance_to_resistance_atr audit = Some d \<and>
           ra_selected_zone_low audit = Some (cl_zone_low c) \<and> ra_selected_zone_high audit = Some (cl_zone_high c) \<and>
           (\<forall>(d', c') \<in> set eligible. d \<le> d')
     | SRC_ALL_TIME_HIGH_FALLBACK \<Rightarrow>
         eligible = [] \<and> price < highest bars \<and>
         ra_raw_distance_to_resistance_atr audit = Some (dec (dsub (highest bars) price / atr))
     | SRC_NONE_ABOVE_ALL_TIME_HIGH \<Rightarrow>
         eligible = [] \<and> highest bars \<le> price \<and> listed \<and>
         ra_distance_to_resistance_atr audit = fc_blue_sky_sentinel config)"
proof -
  obtain clusters where c: "clusters_of (fst (pivot_candidates recent config)) recent atr config = Inr clusters"
    using assms(1) by (auto simp: daily_pivot_cluster_v1_def Let_def fbind_Inr_iff recent split: if_splits)
  let ?el = "eligible_clusters price atr (filter (cluster_valid config) clusters)"
  note rest = assms(1) [unfolded daily_pivot_cluster_v1_def Let_def recent [symmetric] c fbind_simps]
  show ?thesis
  proof (cases "?el = []")
    case False
    obtain d k where h: "hd (sort_key cluster_key ?el) = (d, k)" by fastforce
    then have mem: "(d, k) \<in> set ?el" using hd_sort_in [OF False, of cluster_key] by simp
    have "d \<le> d'" if "(d', k') \<in> set ?el" for d' k'
    proof -
      have "(d', k') \<in> set (sort_key cluster_key ?el)" using that by simp
      moreover have "sorted (map cluster_key (sort_key cluster_key ?el))" by simp
      ultimately have "cluster_key (d, k) \<le> cluster_key (d', k')"
        using h by (cases "sort_key cluster_key ?el") auto
      then show ?thesis by (auto simp: cluster_key_def less_eq_prod_def)
    qed
    then have best: "(d, k) \<in> set ?el \<and> (\<forall>(d', c') \<in> set ?el. d \<le> d')" using mem by auto
    obtain x where "audit = audit_of bars recent (pivot_candidates recent config) (filter (cluster_valid config) clusters)
        SRC_PIVOT_CLUSTER (Some k) (Some d) x (structure_of x) False"
      using rest False h by (auto simp: fbind_Inr_iff split: if_splits)
    then show ?thesis using c best
      by (intro exI [of _ clusters]) (auto simp: audit_of_def Let_def)
  next
    case True
    then show ?thesis using c rest
      by (auto simp: fbind_Inr_iff audit_of_def not_less split: if_splits)
  qed
qed

end
