(* ===== verification/Feature_Sample.thy ===== *)
theory Feature_Sample
  imports Feature_Clusters
begin

text \<open>One sample candidate of the feature engine, on which its properties are witnessed.\<close>

section \<open>A sample candidate\<close>

definition sample_ny :: local_time where
  "sample_ny t = ((2026, 7, 15), t mod 86400000000)"

text \<open>Four minutes after the start of the premarket window, in microseconds of a day.\<close>

definition sample_now :: timestamp where
  "sample_now = 14640000000"

definition sample_trade_event :: "string \<Rightarrow> int \<Rightarrow> rat \<Rightarrow> int \<Rightarrow> trade_ledger_event" where
  "sample_trade_event k seq price shares =
     \<lparr>te_ingest_seq = seq, te_trade_id = k, te_action = TA_NEW, te_event_timestamp = 14500000000 + seq,
      te_price = Some price, te_size = Some shares, te_original_trade_id = None, te_eligible = True\<rparr>"

definition sample_correction :: trade_ledger_event where
  "sample_correction =
     (sample_trade_event ''c1'' 2 11 600000)\<lparr>te_action := TA_CORRECTION, te_original_trade_id := Some ''t1''\<rparr>"

definition sample_events :: "trade_ledger_event list" where
  "sample_events = [sample_correction, sample_trade_event ''t1'' 1 10 500000]"

definition sample_bar :: "int \<Rightarrow> daily_bar" where
  "sample_bar day =
     \<lparr>db_session_date = (2026, 6, day), db_open = 47 / 4, db_high = 12, db_low = 23 / 2, db_close = 47 / 4, db_volume = 1000\<rparr>"

definition sample_bars :: "daily_bar list" where
  "sample_bars = map sample_bar [1, 2, 3, 4, 5, 6, 7, 8, 9, 10, 11, 12, 13, 14, 15]"

definition sample_catalyst :: catalyst_record where
  "sample_catalyst =
     \<lparr>cr_catalyst_id = [99], cr_ticker = ''ABC'', cr_catalyst_text = [65], cr_source_type = FS_PRIMARY,
      cr_source_name = [66], cr_source_timestamp = 11040000000, cr_observed_at = 11040000000, cr_corroborated = True,
      cr_disqualifier_flags = [], cr_source_hash = replicate 64 (CHR ''0'')\<rparr>"

definition sample_float :: float_record where
  "sample_float =
     \<lparr>fl_ticker = ''ABC'', fl_float_shares = 1000000, fl_effective_date = (1969, 1, 1), fl_observed_at = 0,
      fl_validated_at = 0, fl_expires_at = 86400000000, fl_quality_status = QS_VERIFIED, fl_source = ''fmp'',
      fl_raw_response_hashes = []\<rparr>"

definition sample_history :: premarket_session where
  "sample_history =
     \<lparr>ps_session_date = (2026, 7, 15), ps_events = [sample_trade_event ''h1'' 1 10 100000], ps_complete = True\<rparr>"

definition sample_source :: candidate_source_data where
  "sample_source =
     \<lparr>cs_ticker = ''ABC'', cs_halted = False, cs_borrow_status = FB_EASY, cs_previous_regular_close = 10,
      cs_current_session_events = sample_events, cs_historical_premarket_sessions = [sample_history],
      cs_daily_bars = sample_bars, cs_history_complete_since_listing = True, cs_float_records = [sample_float],
      cs_catalysts = [sample_catalyst]\<rparr>"

definition sample_config :: feature_engine_config where
  "sample_config = default_engine_config\<lparr>fc_rvol_lookback_sessions := 1, fc_min_daily_history := 15\<rparr>"

definition sample_context :: feature_context where
  "sample_context =
     \<lparr>fx_evaluation_timestamp = sample_now, fx_payload_timestamp = sample_now,
      fx_catalyst_freshness_threshold_hours = 24, fx_market_status = MS_NORMAL, fx_candidates = [sample_source],
      fx_config = sample_config\<rparr>"

definition blank_feature_dumps :: feature_dumps where
  "blank_feature_dumps =
     \<lparr>fd_source_material = (\<lambda>_ _ _ _ _. JNull), fd_context = (\<lambda>_. JNull), fd_config = (\<lambda>_. JNull),
      fd_features = (\<lambda>_. JNull), fd_payload = (\<lambda>_. JNull), fd_audit = (\<lambda>_ _. JNull), fd_snapshot = (\<lambda>_. JNull),
      fd_invalid_features = (\<lambda>_. []), fd_invalid_ticker = (\<lambda>_. []), fd_invalid_payload = (\<lambda>_. [])\<rparr>"

text \<open>A correction that carries the identifier of another active trade replaces that trade as well.\<close>

lemma correction_overwrites:
  "map_sum id (map mz_size) (materialize_trades
     [sample_trade_event ''t1'' 1 10 100, sample_trade_event ''t2'' 2 10 200,
      (sample_trade_event ''t2'' 3 10 50)\<lparr>te_action := TA_CORRECTION, te_original_trade_id := Some ''t1''\<rparr>]) = Inr [50]"
  by code_simp

section \<open>Its features\<close>

definition sample_materialized :: materialized_trade where
  "sample_materialized =
     \<lparr>mz_trade_id = ''c1'', mz_event_timestamp = 14500000002, mz_price = 11, mz_size = 600000, mz_ingest_seq = 2\<rparr>"

lemma sample_trades: "materialize_trades sample_events = Inr [sample_materialized]"
  by code_simp

lemma sample_start: "config_start sample_config = Inr 14400000000"
  by code_simp

lemma sample_session_trades:
  "current_session_trades sample_ny sample_events sample_now sample_config = Inr [sample_materialized]"
proof -
  show ?thesis
    by (simp add: sample_start current_session_trades_def sample_trades window_filter_def in_premarket_window_def sample_ny_def
        sample_now_def sample_materialized_def)
qed

lemma sample_half: "dec (1 / 2) = 1 / 2" "dec 11 = 11" "dec 7 = 7"
  by (simp_all add: dec_eval)

lemma sample_ranges: "true_ranges sample_bars = replicate 14 (1 / 2)"
proof -
  have "true_range (sample_bar j) (db_close (sample_bar i)) = 1 / 2" for i j
    by (simp add: true_range_def sample_bar_def arith_eval)
  then show ?thesis by (simp add: sample_bars_def numeral_nat)
qed

lemma sample_atr: "wilder_atr_14 sample_bars = Inr (1 / 2)"
proof -
  have "foldl dadd 0 (replicate 14 (1 / 2)) = 0 + sum_list (replicate 14 (1 / 2))"
    by (rule foldl_dadd_exact) (simp_all add: on_grid_def list_all_iff sum_list_replicate)
  moreover have "length sample_bars = 15" by (simp add: sample_bars_def)
  moreover have "quantize_six (1 / 2) = Some (1 / 2)" by (simp add: quantize_six_def quantize_places_def round_half_even_def)
  ultimately show ?thesis
    by (simp add: wilder_atr_14_def sample_ranges sum_list_replicate sample_half)
qed

lemma sample_vwap: "premarket_vwap [sample_materialized] = Inr 11"
proof -
  have "quantize_six 11 = Some 11" "dmul 11 600000 = 6600000" "dadd 0 6600000 = 6600000"
    by (simp_all add: quantize_six_def quantize_places_def round_half_even_def arith_eval)
  then show ?thesis by (simp add: premarket_vwap_def premarket_volume_def sample_materialized_def ddiv_def sample_half)
qed

lemma sample_rvol: "rvol_time_matched sample_ny 600000 [sample_history] sample_now sample_config = Inr 6"
proof -
  have "materialize_trades (ps_events sample_history) = Inr
      [\<lparr>mz_trade_id = ''h1'', mz_event_timestamp = 14500000001, mz_price = 10, mz_size = 100000, mz_ingest_seq = 1\<rparr>]"
    by code_simp
  then have "historical_session_volume sample_ny sample_history sample_now sample_config = Inr 100000"
    by (simp add: historical_session_volume_def sample_start sample_ny_def sample_now_def premarket_volume_def)
      (simp add: sample_history_def)
  moreover have "quantize_six 6 = Some 6" "dec 100000 = 100000" "dec 6 = 6"
    by (simp_all add: quantize_six_def quantize_places_def round_half_even_def dec_eval)
  moreover have "fc_rvol_lookback_sessions sample_config = 1" by (simp add: sample_config_def)
  ultimately show ?thesis by (simp add: rvol_time_matched_def Let_def ddiv_def)
qed

lemma sample_profile: "volume_profile_of sample_ny [sample_materialized] sample_now sample_config = Inr VP_SPIKY"
  by code_simp

lemma sample_resistance:
  "map_sum id (\<lambda>a. (ra_distance_to_resistance_atr a, ra_chart_structure a))
     (daily_pivot_cluster_v1 sample_bars 11 (1 / 2) True sample_config) = Inr (2, CS_MODERATE_ROOM)"
  by code_simp

lemma sample_gap: "gap_pct 11 10 = Inr 10"
  by code_simp

lemma sample_distance: "distance_from_vwap_atr 11 11 (1 / 2) = Inr 0"
  by code_simp

lemma sample_float_selected: "select_float_record [sample_float] ''ABC'' sample_now sample_config = Inr sample_float"
  by code_simp

lemma sample_catalyst_selected: "select_catalyst [sample_catalyst] ''ABC'' sample_now = Inr (sample_catalyst, 1)"
proof -
  have "total_seconds 14640000000 11040000000 = 3600" by (simp add: float_eval)
  moreover have "float_repr 3600 = 3600" by (simp add: float_repr_def upt_rec float_eval)
  moreover have "quantize_six 1 = Some 1" by (simp add: quantize_six_def quantize_places_def round_half_even_def)
  moreover have "dec 1 = 1" by (simp add: dec_eval)
  ultimately show ?thesis
    by (simp add: select_catalyst_def catalyst_age_def sample_catalyst_def sample_now_def ddiv_def)
qed

end
