(* ===== verification/Feature_Witnesses.thy ===== *)
theory Feature_Witnesses
  imports Feature_Sample
begin

section \<open>Its snapshot\<close>

lemma sample_simps [simp]:
  "fx_payload_timestamp sample_context = sample_now" "fx_config sample_context = sample_config"
  "fx_candidates sample_context = [sample_source]" "fx_catalyst_freshness_threshold_hours sample_context = 24"
  "cs_current_session_events sample_source = sample_events" "cs_daily_bars sample_source = sample_bars"
  "cs_historical_premarket_sessions sample_source = [sample_history]" "cs_float_records sample_source = [sample_float]"
  "cs_catalysts sample_source = [sample_catalyst]" "cs_ticker sample_source = ''ABC''" "cs_halted sample_source = False"
  "cs_borrow_status sample_source = FB_EASY"
  "cs_history_complete_since_listing sample_source" "cs_previous_regular_close sample_source = 10"
  by (simp_all add: sample_context_def sample_source_def)

lemma sample_calculated:
  "\<exists>f. calculate_candidate blank_feature_dumps sample_ny sample_context sample_source = Inr f \<and>
     pq_accepted (judge sample_context f) \<and> cf_ticker f = ''ABC'' \<and> \<not> cf_halted f \<and> cf_current_price f = 11 \<and>
     cf_premarket_low f = 11 \<and> cf_gap_pct f = 10 \<and> cf_premarket_volume f = 600000 \<and> cf_rvol_time_matched f = 6 \<and>
     cf_atr_value f = 1 / 2 \<and> cf_distance_from_vwap_atr f = 0 \<and> cf_volume_profile f = VP_SPIKY \<and>
     cf_float_shares f = 1000000 \<and> cf_borrow_status f = FB_EASY \<and> cf_catalyst f = sample_catalyst \<and>
     cf_catalyst_age_hours f = 1 \<and> ra_distance_to_resistance_atr (cf_resistance f) = 2 \<and>
     ra_chart_structure (cf_resistance f) = CS_MODERATE_ROOM"
proof -
  obtain audit where audit: "daily_pivot_cluster_v1 sample_bars 11 (1 / 2) True sample_config = Inr audit"
    "ra_distance_to_resistance_atr audit = 2" "ra_chart_structure audit = CS_MODERATE_ROOM"
    using sample_resistance by (cases "daily_pivot_cluster_v1 sample_bars 11 (1 / 2) True sample_config") auto
  have ticker: "is_canonical_ticker ''ABC''" by code_simp
  have prices: "current_price [sample_materialized] = Inr 11" "premarket_low [sample_materialized] = Inr 11"
    "premarket_volume [sample_materialized] = 600000"
    by (simp_all add: current_price_def premarket_low_def premarket_volume_def sample_materialized_def)
  show ?thesis
    by (simp add: calculate_candidate_def Let_def sample_session_trades prices sample_atr sample_vwap sample_rvol
        sample_profile audit sample_float_selected sample_catalyst_selected sample_gap sample_distance validated_def
        valid_candidate_features_def ticker canonical_sha256_valid prequalify_reasons_def reason_when_def
        del: is_canonical_ticker.simps)
      (simp add: sample_float_def sample_catalyst_def sample_config_def default_engine_config_def)
qed

lemma sample_valid_source: "valid_candidate_source sample_source"
proof -
  have "is_canonical_ticker ''ABC''" "valid_hash (replicate 64 (CHR ''0''))" by code_simp+
  moreover have "list_all valid_daily_bar sample_bars" by (simp add: sample_bars_def sample_bar_def valid_daily_bar_def)
  moreover have "list_all valid_trade_event sample_events" "list_all valid_trade_event (ps_events sample_history)"
    by (simp_all add: sample_events_def sample_correction_def sample_trade_event_def sample_history_def
        valid_trade_event_def validate_action_fields_def)
  moreover have "validate_order_and_identity sample_source = None" by code_simp
  ultimately show ?thesis
    by (simp add: valid_candidate_source_def valid_float_record_def valid_catalyst_record_def
        del: is_canonical_ticker.simps)
      (simp add: sample_float_def sample_catalyst_def)
qed

lemma sample_valid_context: "valid_feature_context sample_context"
  by (simp add: valid_feature_context_def sample_valid_source validate_context_def)
    (simp add: sample_context_def valid_engine_config_def sample_config_def default_engine_config_def)

lemma sample_text: "length (cr_catalyst_text sample_catalyst) \<le> 4000"
  by (simp add: sample_catalyst_def)

lemma sample_sentinel: "0 \<le> fc_blue_sky_sentinel sample_config"
  by (simp add: sample_config_def default_engine_config_def)

text \<open>What the evaluator is asked about.\<close>

definition sample_ticker_input :: ticker_input where
  "sample_ticker_input =
     \<lparr>ti_ticker = ''ABC'', ti_halted = False,
      ti_news_context =
        \<lparr>nc_catalyst_text = [65], nc_source_type = ST_PRIMARY, nc_source_name = [66],
         nc_source_timestamp = utc_z 11040000000, nc_catalyst_age_hours = 1, nc_corroborated = True,
         nc_disqualifier_flags = []\<rparr>,
      ti_liquidity_metrics =
        \<lparr>lm_gap_pct = 10, lm_premarket_volume = 600000, lm_rvol_time_matched = 6, lm_float_shares = 1000000,
         lm_volume_profile = VP_SPIKY, lm_borrow_status = BS_EASY\<rparr>,
      ti_technical_context =
        \<lparr>tc_distance_to_resistance_atr = 2, tc_distance_from_vwap_atr = 0, tc_chart_structure = CS_MODERATE_ROOM,
         tc_current_price = 11, tc_atr_value = 1 / 2, tc_premarket_low = 11\<rparr>\<rparr>"

definition sample_payload_value :: daybreak_input where
  "sample_payload_value =
     \<lparr>di_evaluation_timestamp = utc_z sample_now, di_payload_timestamp = utc_z sample_now, di_payload_age_seconds = 0,
      di_catalyst_freshness_threshold_hours = 24, di_market_status = MS_NORMAL, di_tickers = [sample_ticker_input]\<rparr>"

lemma sample_floats: "flt 11 = 11" "flt 10 = 10" "flt 6 = 6" "flt (1 / 2) = 1 / 2" "flt 0 = 0" "flt 2 = 2" "flt 1 = 1" "flt 24 = 24"
  by (simp_all add: float_eval)

lemma sample_ticker_values:
  assumes "ticker_input_of blank_feature_dumps f = Inr e" "cf_ticker f = ''ABC''" "\<not> cf_halted f" "cf_current_price f = 11"
    "cf_premarket_low f = 11" "cf_gap_pct f = 10" "cf_premarket_volume f = 600000" "cf_rvol_time_matched f = 6"
    "cf_atr_value f = 1 / 2" "cf_distance_from_vwap_atr f = 0" "cf_volume_profile f = VP_SPIKY"
    "cf_float_shares f = 1000000" "cf_borrow_status f = FB_EASY" "cf_catalyst f = sample_catalyst"
    "cf_catalyst_age_hours f = 1" "ra_distance_to_resistance_atr (cf_resistance f) = 2"
    "ra_chart_structure (cf_resistance f) = CS_MODERATE_ROOM"
  shows "e = sample_ticker_input"
  using assms
  by (auto simp: ticker_input_of_def Let_def validated_def sample_floats sample_ticker_input_def sample_catalyst_def split: if_splits)

lemma sample_built:
  "\<exists>snapshot. build_feature_snapshot blank_feature_dumps sample_ny sample_context = Inr snapshot \<and>
     fn_payload snapshot = sample_payload_value"
proof -
  obtain f where calc: "calculate_candidate blank_feature_dumps sample_ny sample_context sample_source = Inr f"
    and judge: "pq_accepted (judge sample_context f)" and vals: "cf_ticker f = ''ABC''" "\<not> cf_halted f"
      "cf_current_price f = 11" "cf_premarket_low f = 11" "cf_gap_pct f = 10" "cf_premarket_volume f = 600000"
      "cf_rvol_time_matched f = 6" "cf_atr_value f = 1 / 2" "cf_distance_from_vwap_atr f = 0"
      "cf_volume_profile f = VP_SPIKY" "cf_float_shares f = 1000000" "cf_borrow_status f = FB_EASY"
      "cf_catalyst f = sample_catalyst" "cf_catalyst_age_hours f = 1"
      "ra_distance_to_resistance_atr (cf_resistance f) = 2" "ra_chart_structure (cf_resistance f) = CS_MODERATE_ROOM"
    using sample_calculated by blast
  note f = calc judge
  have "valid_engine_config sample_config" using sample_valid_context by (simp add: valid_feature_context_def)
  then obtain e where e: "ticker_input_of blank_feature_dumps f = Inr e"
    using accepted_validates [OF f sample_valid_source] sample_sentinel sample_text by auto
  have tick: "e = sample_ticker_input" "valid_ticker_input e"
    using sample_ticker_values [OF e vals] ticker_input_of_Inr [OF e] by simp_all
  have cap: "fc_max_evaluator_candidates sample_config = 20" by (simp add: sample_config_def default_engine_config_def)
  have "trunc_int (total_seconds (fx_evaluation_timestamp sample_context) sample_now) = 0"
    by (simp add: sample_context_def float_eval)
  moreover have "0 < flt 24" by (simp add: float_eval)
  ultimately show ?thesis using f e tick vals(1)
    by (simp add: build_feature_snapshot_def decide_candidate_def Let_def cap payload_of_def validated_def
        valid_daybreak_input_def terminal_consistency_def sample_payload_value_def snapshot_of_def del: judge_simps)
      (simp add: sample_context_def sample_floats sample_ticker_input_def)
qed

section \<open>The properties at the sample\<close>

lemma sample_payload:
  obtains snapshot e where
    "build_feature_snapshot blank_feature_dumps sample_ny sample_context = Inr snapshot"
    "e \<in> set (di_tickers (fn_payload snapshot))"
  using sample_built by (auto simp: sample_payload_value_def)

lemma sample_thresholds:
  "fc_gap_min_pct sample_config = 4" "fc_premarket_volume_min sample_config = 500000" "fc_rvol_min sample_config = 5"
  "fc_resistance_min_atr sample_config = 1" "fc_max_evaluator_candidates sample_config = 20"
  by (simp_all add: sample_config_def default_engine_config_def)

lemma materialized_exactly_witness:
  "set [sample_materialized] = {t. \<exists>e. live (sort_key te_ingest_seq sample_events) e \<and> materialized e = Inr t}"
proof -
  have "distinct (map te_trade_id sample_events)" by code_simp
  then show ?thesis using materialized_exactly [OF sample_trades] by blast
qed

lemma candidates_accounted_witness:
  "\<exists>snapshot. build_feature_snapshot blank_feature_dumps sample_ny sample_context = Inr snapshot \<and>
     map pq_ticker (fn_prequalification snapshot) = [''ABC'']"
proof -
  obtain snapshot e where "build_feature_snapshot blank_feature_dumps sample_ny sample_context = Inr snapshot"
    "e \<in> set (di_tickers (fn_payload snapshot))" by (rule sample_payload)
  then show ?thesis using candidates_accounted [of blank_feature_dumps sample_ny sample_context snapshot]
    by (simp add: sample_thresholds)
qed

lemma payload_passes_gates_witness:
  "\<exists>snapshot e. build_feature_snapshot blank_feature_dumps sample_ny sample_context = Inr snapshot \<and>
     e \<in> set (di_tickers (fn_payload snapshot)) \<and>
     set (gate_codes e 0) \<subseteq> {RC_CATALYST_SCORE_TOO_LOW, RC_UNCORROBORATED_CATALYST}"
proof -
  obtain snapshot e where s: "build_feature_snapshot blank_feature_dumps sample_ny sample_context = Inr snapshot"
    "e \<in> set (di_tickers (fn_payload snapshot))" by (rule sample_payload)
  then show ?thesis using payload_passes_gates [OF s] by (auto simp: sample_thresholds)
qed


definition sample_halted :: candidate_source_data where
  "sample_halted = sample_source\<lparr>cs_ticker := ''ABD'', cs_halted := True\<rparr>"

definition sample_pair :: feature_context where
  "sample_pair = sample_context\<lparr>fx_candidates := [sample_source, sample_halted]\<rparr>"

lemma candidate_order_irrelevant_witness:
  "map_sum id (\<lambda>s. (fn_prequalification s, fn_capacity_omissions s, fn_accepted_feature_records s, fn_payload s,
        fn_payload_hash s, fn_feature_hash s, fn_audit_hash s))
      (build_feature_snapshot blank_feature_dumps sample_ny (sample_pair\<lparr>fx_candidates := [sample_halted, sample_source]\<rparr>)) =
    map_sum id (\<lambda>s. (fn_prequalification s, fn_capacity_omissions s, fn_accepted_feature_records s, fn_payload s,
        fn_payload_hash s, fn_feature_hash s, fn_audit_hash s))
      (build_feature_snapshot blank_feature_dumps sample_ny sample_pair)"
  by (rule candidate_order_irrelevant) (simp_all add: sample_pair_def sample_halted_def)

lemma vwap_within_range_witness:
  "Min (set (map mz_price [sample_materialized])) \<le> 11 \<and> 11 \<le> Max (set (map mz_price [sample_materialized]))"
proof (rule vwap_within_range [OF _ _ sample_vwap])
  show "list_all quoted [sample_materialized]"
    by (simp add: quoted_def sample_materialized_def on_grid_def)
  show "premarket_volume [sample_materialized] < 10 ^ 15"
    by (simp add: premarket_volume_def sample_materialized_def)
qed

definition sample_pivots :: "pivot list" where
  "sample_pivots = fst (pivot_candidates sample_bars sample_config)"

lemma nearest_resistance_witness:
  "\<exists>audit d. daily_pivot_cluster_v1 sample_bars 11 (1 / 2) True sample_config = Inr audit \<and>
     ra_raw_distance_to_resistance_atr audit = Some d"
proof -
  obtain audit where audit: "daily_pivot_cluster_v1 sample_bars 11 (1 / 2) True sample_config = Inr audit"
    "ra_chart_structure audit = CS_MODERATE_ROOM"
    using sample_resistance by (cases "daily_pivot_cluster_v1 sample_bars 11 (1 / 2) True sample_config") auto
  have "highest sample_bars = 12" by code_simp
  then show ?thesis using nearest_resistance [OF audit(1) refl] audit(1)
    by (cases "ra_selected_resistance_source audit") (auto simp: Let_def)
qed

end
