(* ===== verification/Evaluator_Witnesses.thy ===== *)
theory Evaluator_Witnesses
  imports Evaluator_Errors Contract_Witnesses
begin

text \<open>Witnesses of the properties of the evaluator: one provider that answers with a valid output.\<close>

section \<open>A sample environment\<close>

definition sample_answer :: provider_result where
  "sample_answer =
     \<lparr>prr_response_id = None, prr_model = ''m'', prr_created_at = None, prr_completed_at = 100,
      prr_output_text = Some ''{}'', prr_refusal = None, prr_incomplete_reason = None, prr_usage = no_usage,
      prr_raw_response = None\<rparr>"

definition sample_spec :: spec_source where
  "sample_spec =
     \<lparr>sp_file = Some ''spec'', sp_resource = Inl (''FileNotFoundError'', []), sp_sha256 = (\<lambda>_. EXPECTED_SPEC_SHA256),
      sp_undecodable = (\<lambda>_. None)\<rparr>"

definition sample_evaluator :: "(transport_call \<Rightarrow> transport_failure + provider_result) \<Rightarrow> daybreak_output \<Rightarrow> nat evaluator_env" where
  "sample_evaluator provider output =
     \<lparr>vn_clock = (\<lambda>w. (0, w)), vn_new_id = (\<lambda>w. (replicate w (CHR ''i''), Suc w)),
      vn_create = (\<lambda>c w. (provider c, w)), vn_spec = sample_spec, vn_policy = default_evaluator_policy,
      vn_dumps = \<lparr>vd_payload = (\<lambda>_. JNull), vd_evidence = (\<lambda>_. JNull), vd_policy = (\<lambda>_. JNull), vd_output = (\<lambda>_. JNull)\<rparr>,
      vn_schema_sha256 = replicate 64 (CHR ''0''), vn_parse_input = no_parser, vn_parse_output = (\<lambda>_. Inr output),
      vn_decode_error = (\<lambda>_. []), vn_invalid = (\<lambda>m. m)\<rparr>"

definition sample_evidence :: evaluation_evidence where
  "sample_evidence =
     \<lparr>evd_snapshot_id = None, evd_context_hash = None, evd_payload_hash = canonical_sha256 JNull,
      evd_feature_hash = None, evd_audit_hash = None, evd_configuration_hash = replicate 64 (CHR ''0''),
      evd_prequalified_out_tickers = [], evd_capacity_omitted_tickers = [], evd_capacity_omissions_logged = [],
      evd_preselection_policy_version = None\<rparr>"

definition sample_evaluation :: "daybreak_input \<Rightarrow> evaluation_request" where
  "sample_evaluation payload =
     \<lparr>evq_run_id = ''r1'', evq_input_payload = payload, evq_evidence = sample_evidence,
      evq_response_cutoff_timestamp = 10000000, evq_requested_at = 0\<rparr>"

definition sample_service :: "nat evaluator_state" where
  "sample_service = \<lparr>ev_world = 0, ev_repository = empty_evaluator_repository, ev_calls = []\<rparr>"

lemma sample_evaluator_simps [simp]:
  "vn_clock (sample_evaluator provider output) w = (0, w)"
  "vn_new_id (sample_evaluator provider output) w = (replicate w (CHR ''i''), Suc w)"
  "vn_create (sample_evaluator provider output) c w = (provider c, w)"
  "vn_spec (sample_evaluator provider output) = sample_spec"
  "vn_policy (sample_evaluator provider output) = default_evaluator_policy"
  "vn_schema_sha256 (sample_evaluator provider output) = replicate 64 (CHR ''0'')"
  "vn_parse_input (sample_evaluator provider output) = no_parser"
  "vn_parse_output (sample_evaluator provider output) x = Inr output"
  by (simp_all add: sample_evaluator_def)

lemma sample_record_simps [simp]:
  "prr_completed_at sample_answer = 100" "prr_output_text sample_answer = Some ''{}''" "prr_refusal sample_answer = None"
  "prr_incomplete_reason sample_answer = None" "evq_run_id (sample_evaluation payload) = ''r1''"
  "evq_input_payload (sample_evaluation payload) = payload"
  "evq_response_cutoff_timestamp (sample_evaluation payload) = 10000000"
  "ev_world (sample_service) = 0" "ev_calls (sample_service) = []"
  by (simp_all add: sample_answer_def sample_evaluation_def sample_service_def)

lemma sample_fresh: "fresh_ids (sample_evaluator provider output) (\<lambda>w. {replicate i (CHR ''i'') | i. i < w})"
  unfolding fresh_ids_def by (auto simp: less_Suc_eq dest: arg_cong [where f = length])

lemma sample_known: "ids_known used sample_service"
  by (simp add: ids_known_def sample_service_def empty_evaluator_repository_def stored_attempt_def)

lemma sample_policy: "valid_evaluator_policy default_evaluator_policy"
  by (simp add: valid_evaluator_policy_def default_evaluator_policy_def validate_evaluator_models_def blank_name_def)

lemma sample_schema: "valid_hash (replicate 64 (CHR ''0''))"
  by code_simp

lemma sample_prompt:
  obtains prompt where "build_prompt dumps sample_spec payload = Inr prompt"
  by (simp add: build_prompt_def load_spec_text_def checked_spec_def sample_spec_def)

section \<open>The evaluation of the sample\<close>

text \<open>The state after the request has been saved.\<close>

definition sample_started :: "daybreak_input \<Rightarrow> nat evaluator_state" where
  "sample_started payload =
     sample_service\<lparr>ev_repository := empty_evaluator_repository\<lparr>mv_requests := [(''r1'', sample_evaluation payload)]\<rparr>\<rparr>"

lemma sample_request_saved:
  "repository_call (save_evaluation_request (sample_evaluation payload)) sample_service = (Inr (), sample_started payload)"
  by (simp add: repository_call_def update_or_raise_def save_evaluation_request_def put_once_def setdefault_def
      sample_service_def empty_evaluator_repository_def sample_started_def sample_evaluation_def)

lemma sample_finish:
  assumes "frame_ok (sample_evaluator provider output) c"
    and "st = AT_SUCCEEDED \<Longrightarrow> \<exists>x y. d = Some x \<and> r = Some y \<and> vr_valid y"
    and "ev_world s = 0" "mv_attempts (ev_repository s) = []"
  shows "finish_attempt (sample_evaluator provider output) c st p d r e s =
    (let a = attempt_of (sample_evaluator provider output) c [] (case p of None \<Rightarrow> 0 | Some x \<Rightarrow> prr_completed_at x) st p d r e
     in (Inr a, s\<lparr>ev_world := 1, ev_repository := (ev_repository s)\<lparr>mv_attempts := [([], a)]\<rparr>\<rparr>))"
  using assms(3,4) valid_attempt_of [OF assms(1,2)]
  by (cases p) (simp_all add: finish_attempt_def new_attempt_def andthen_def fresh_id_def evaluator_clock_def Let_def
      repository_call_def update_or_raise_def save_attempt_def put_once_def setdefault_def ret_def)

lemma sample_numbers: "attempt_numbers (sample_evaluator provider output) = [1, 2]"
  by (simp add: attempt_numbers_def default_evaluator_policy_def upto_rec1)

lemma sample_conclude:
  assumes "coherent_run_result result = None" "mv_results (ev_repository s) = []"
  shows "\<exists>t. conclude_run env result s = (Inr result, t)"
  using assms by (simp add: conclude_run_def andthen_def ret_def repository_call_def update_or_raise_def
      save_evaluation_result_def put_once_def setdefault_def)

lemma sample_authorises:
  assumes "int (length (di_tickers payload)) \<le> 25"
    and "vr_valid (validate_daybreak_run no_parser (\<lambda>_. Inr output) (Some (ArgModel payload)) (ArgModel output)
      (Some (metadata_of (sample_evaluator (\<lambda>_. Inr sample_answer) output) (sample_evaluation payload) 100)) False)"
  shows "\<exists>result t. evaluate_primary (sample_evaluator (\<lambda>_. Inr sample_answer) output) (sample_evaluation payload) sample_service =
      (Inr result, t) \<and> executable_candidate_output result = Some output"
proof -
  let ?env = "sample_evaluator (\<lambda>_. Inr sample_answer) output" and ?request = "sample_evaluation payload"
  let ?report = "validate_daybreak_run no_parser (\<lambda>_. Inr output) (Some (ArgModel payload)) (ArgModel output)
      (Some (metadata_of ?env ?request 100)) False"
  have time: "\<not> total_seconds 10000000 0 \<le> 0" by (simp add: float_eval)
  have loads: "json_loads ''{}'' = None" by code_simp
  have parser: "vn_parse_output ?env = (\<lambda>_. Inr output)" by (simp add: fun_eq_iff)
  obtain prompt where prompt: "build_prompt (vn_dumps ?env) sample_spec payload = Inr prompt" by (rule sample_prompt)
  let ?model = "evp_primary_model default_evaluator_policy"
  let ?c = "\<lparr>cl_request = ?request, cl_prompt = prompt, cl_role = ROLE_PRIMARY, cl_model = ?model, cl_attempt_number = 1,
    cl_started = 0\<rparr>"
  let ?a = "attempt_of ?env ?c [] 100 AT_SUCCEEDED (Some sample_answer) (Some output) (Some ?report) None"
  have frame: "frame_ok ?env ?c" using build_prompt_hash [OF prompt] sample_schema by (simp add: frame_ok_def)
  note finish = sample_finish [OF frame]
  have "\<exists>t. call_once ?env ?request prompt ROLE_PRIMARY ?model 1 (sample_started payload) = (Inr ?a, t) \<and>
      mv_results (ev_repository t) = []"
    using assms(2) time loads
    by (simp add: call_once_def call_framed_def andthen_def evaluator_clock_def remaining_seconds_def ask_and_check_def
        ask_provider_def check_response_def check_output_def Let_def finish parser truthy_text_def
        sample_started_def sample_service_def empty_evaluator_repository_def)
  then obtain t where t: "call_once ?env ?request prompt ROLE_PRIMARY ?model 1 (sample_started payload) = (Inr ?a, t)"
    "mv_results (ev_repository t) = []" by blast
  then have role: "evaluate_role ?env ?request prompt ROLE_PRIMARY ?model [1, 2] (sample_started payload) = (Inr [?a], t)"
    by (simp add: andthen_def ret_def Let_def)
  have result: "primary_result_of ?request [?a] = run_result_of ?request RUN_PRIMARY_VALID [?a] (Some ?a) False"
    by (simp add: primary_result_of_def last_success_def)
  then have "coherent_run_result (primary_result_of ?request [?a]) = None"
    by (simp add: coherent_run_result_def Let_def)
  then obtain u where u: "conclude_run ?env (primary_result_of ?request [?a]) t = (Inr (primary_result_of ?request [?a]), u)"
    using sample_conclude [OF _ t(2)] by blast
  have "evaluate_primary ?env ?request sample_service = (Inr (primary_result_of ?request [?a]), u)"
    using assms(1) prompt role u
    by (simp add: evaluate_primary_def andthen_def sample_request_saved sample_numbers) (simp add: default_evaluator_policy_def)
  then show ?thesis using result by (auto simp: executable_candidate_output_def)
qed

lemma sample_crash:
  "\<exists>t. evaluate_primary (sample_evaluator (\<lambda>_. Inl (OtherFailure e)) output) (sample_evaluation sample_input) sample_service =
     (Inl e, t)"
proof -
  let ?env = "sample_evaluator (\<lambda>_. Inl (OtherFailure e)) output" and ?request = "sample_evaluation sample_input"
  have time: "\<not> total_seconds 10000000 0 \<le> 0" by (simp add: float_eval)
  obtain prompt where prompt: "build_prompt (vn_dumps ?env) sample_spec sample_input = Inr prompt" by (rule sample_prompt)
  have "\<exists>t. evaluate_role ?env ?request prompt ROLE_PRIMARY (evp_primary_model default_evaluator_policy) [1, 2]
      (sample_started sample_input) = (Inl e, t)"
    using time by (simp add: call_once_def call_framed_def andthen_def evaluator_clock_def remaining_seconds_def ask_and_check_def
        ask_provider_def raise_def Let_def)
  moreover have "int (length (di_tickers sample_input)) \<le> 25" by (simp add: sample_input_def)
  ultimately show ?thesis using prompt
    by (auto simp: evaluate_primary_def andthen_def sample_request_saved sample_numbers) (simp_all add: default_evaluator_policy_def)
qed

section \<open>The witnesses\<close>

lemma sample_metadata_of:
  "metadata_of (sample_evaluator provider output) (sample_evaluation payload) 100 =
     default_metadata
       \<lparr>vm_evaluator_candidate_count := Some (int (length (di_tickers payload))),
        vm_max_evaluator_candidates_hard := Some 25, vm_evaluator_response_timestamp := Some 100,
        vm_execution_cutoff_timestamp := Some 10000000, vm_order_authorized := Some False,
        vm_scoring_completed_before_gates := Some True, vm_duplicate_detection_after_ticker_validation := Some True,
        vm_duplicate_detection_valid_only := Some True, vm_operational_blockers_after_schema_validation := Some True\<rparr>"
  by (simp add: metadata_of_def default_metadata_def default_evaluator_policy_def)
    (simp add: sample_evaluation_def sample_evidence_def)

lemma sample_authorised:
  "vr_valid (validate_daybreak_run no_parser (\<lambda>_. Inr sample_output) (Some (ArgModel sample_input)) (ArgModel sample_output)
     (Some (metadata_of (sample_evaluator (\<lambda>_. Inr sample_answer) sample_output) (sample_evaluation sample_input) 100)) False)"
  unfolding sample_metadata_of by code_simp

lemma sample_run:
  obtains result t where
    "evaluate_primary (sample_evaluator (\<lambda>_. Inr sample_answer) sample_output) (sample_evaluation sample_input) sample_service =
       (Inr result, t)"
    "executable_candidate_output result = Some sample_output"
  using sample_authorises [OF _ sample_authorised] by (auto simp: sample_input_def)

lemma primary_output_backed_witness:
  "\<exists>result (t :: nat evaluator_state). executable_candidate_output result = Some sample_output \<and>
     get_evaluation_result (ev_repository t) ''r1'' = Some result"
proof -
  obtain result t where run:
    "evaluate_primary (sample_evaluator (\<lambda>_. Inr sample_answer) sample_output) (sample_evaluation sample_input) sample_service =
       (Inr result, t)" "executable_candidate_output result = Some sample_output" by (rule sample_run)
  then show ?thesis using primary_output_backed [OF run] by auto
qed

lemma shadow_powerless_witness:
  "\<exists>primary (t :: nat evaluator_state). executable_candidate_output primary = Some sample_output \<and>
     get_evaluation_result (ev_repository t) ''r1'' = Some primary"
proof -
  let ?env = "sample_evaluator (\<lambda>_. Inr sample_answer) sample_output"
  obtain primary u where run:
    "evaluate_primary ?env (sample_evaluation sample_input) sample_service = (Inr primary, u)"
    and d: "executable_candidate_output primary = Some sample_output" by (rule sample_run)
  obtain r t where shadow: "evaluate_run ?env (sample_evaluation sample_input) True sample_service = (r, t)" by fastforce
  show ?thesis using shadow_powerless [OF run shadow] d by auto
qed


end
