(* ===== verification/Pipeline_Witnesses.thy ===== *)
theory Pipeline_Witnesses
  imports Pipeline Feature_Witnesses Evaluator_Witnesses
begin

text \<open>
  A witness of the whole way from the raw data to the approval: the sample candidate of the
  feature engine, the payload it leads to, and the output that the replay demands for it.
\<close>

definition abc_score :: score_breakdown where
  "abc_score =
     \<lparr>sb_source_quality_points = 6, sb_catalyst_magnitude_bucket = MB_MAJOR_CONCRETE,
      sb_catalyst_magnitude_points = 4, sb_evidence_purpose = EP_MAGNITUDE,
      sb_magnitude_evidence_excerpt = [65], sb_magnitude_evidence_truncated = False,
      sb_magnitude_evidence_start_char = Some 0, sb_magnitude_evidence_end_char = Some 1,
      sb_catalyst_zero_override = False, sb_catalyst_zero_reason = None,
      sb_catalyst_score_raw = 10, sb_catalyst_points = 40, sb_volume_points = 15,
      sb_technical_grade = TG_B, sb_technical_base_points = 13, sb_technical_points = 13,
      sb_parabolic_adjusted = False\<rparr>"

definition abc_setup :: approved_setup where
  "abc_setup =
     \<lparr>ap_ticker = ''ABC'', ap_side = ''long'', ap_conviction_score = 68, ap_score_breakdown = abc_score,
      ap_master_thesis = [71], ap_catalyst_source = [66], ap_source_type = ST_PRIMARY,
      ap_source_timestamp = ''1970-01-01T03:04:00.000000Z'', ap_catalyst_age_hours = 1, ap_corroborated = True,
      ap_risk_flags = [RF_LOW_FLOAT, RF_SPIKY_VOLUME],
      ap_trade_parameters = \<lparr>tp_reference_price = 11, tp_atr_value_used = 1 / 2, tp_premarket_low_used = 11,
        tp_risk_stop_atr_multiple = 1, tp_profit_target_atr_multiple = 2, tp_invalidation_note = INVALIDATION_NOTE\<rparr>\<rparr>"

definition abc_output :: daybreak_output where
  "abc_output =
     \<lparr>out_run_status = RS_APPROVED, out_execution_timestamp = Some ''1970-01-01T04:04:00.000000Z'',
      out_payload_timestamp_used = Some ''1970-01-01T04:04:00.000000Z'', out_market_status = Some MS_NORMAL,
      out_approved_setups = [abc_setup], out_qualified_not_selected = [], out_excluded_tickers = [],
      out_schema_failures = [], out_run_blockers = []\<rparr>"

lemma abc_times: "utc_z 11040000000 = ''1970-01-01T03:04:00.000000Z''" "utc_z sample_now = ''1970-01-01T04:04:00.000000Z''"
  by code_simp+

definition abc_payload :: daybreak_input where
  "abc_payload =
     \<lparr>di_evaluation_timestamp = ''1970-01-01T04:04:00.000000Z'', di_payload_timestamp = ''1970-01-01T04:04:00.000000Z'',
      di_payload_age_seconds = 0, di_catalyst_freshness_threshold_hours = 24, di_market_status = MS_NORMAL,
      di_tickers =
        [\<lparr>ti_ticker = ''ABC'', ti_halted = False,
          ti_news_context =
            \<lparr>nc_catalyst_text = [65], nc_source_type = ST_PRIMARY, nc_source_name = [66],
             nc_source_timestamp = ''1970-01-01T03:04:00.000000Z'', nc_catalyst_age_hours = 1, nc_corroborated = True,
             nc_disqualifier_flags = []\<rparr>,
          ti_liquidity_metrics =
            \<lparr>lm_gap_pct = 10, lm_premarket_volume = 600000, lm_rvol_time_matched = 6, lm_float_shares = 1000000,
             lm_volume_profile = VP_SPIKY, lm_borrow_status = BS_EASY\<rparr>,
          ti_technical_context =
            \<lparr>tc_distance_to_resistance_atr = 2, tc_distance_from_vwap_atr = 0, tc_chart_structure = CS_MODERATE_ROOM,
             tc_current_price = 11, tc_atr_value = 1 / 2, tc_premarket_low = 11\<rparr>\<rparr>]\<rparr>"

lemma abc_payload: "sample_payload_value = abc_payload"
  by (simp add: sample_payload_value_def sample_ticker_input_def abc_times abc_payload_def)

lemma abc_report_valid:
  "vr_valid (validate_daybreak_run no_parser (\<lambda>_. Inr abc_output) (Some (ArgModel sample_payload_value)) (ArgModel abc_output)
     (Some (metadata_of (sample_evaluator (\<lambda>_. Inr sample_answer) abc_output) (sample_evaluation sample_payload_value) 100)) False)"
  unfolding sample_metadata_of abc_payload by code_simp

lemma approved_setup_from_candidate_witness:
  "\<exists>f. calculate_candidate blank_feature_dumps sample_ny sample_context sample_source = Inr f \<and>
     tp_reference_price (ap_trade_parameters abc_setup) = flt (cf_current_price f)"
proof -
  obtain snapshot where snapshot: "build_feature_snapshot blank_feature_dumps sample_ny sample_context = Inr snapshot"
    "fn_payload snapshot = sample_payload_value" using sample_built by blast
  have "int (length (di_tickers sample_payload_value)) \<le> 25" by (simp add: sample_payload_value_def)
  then obtain result t where run:
    "evaluate_primary (sample_evaluator (\<lambda>_. Inr sample_answer) abc_output) (sample_evaluation sample_payload_value) sample_service =
       (Inr result, t)" "executable_candidate_output result = Some abc_output"
    using sample_authorises [OF _ abc_report_valid] by blast
  have "evq_input_payload (sample_evaluation sample_payload_value) = fn_payload snapshot" using snapshot(2) by simp
  moreover have "abc_setup \<in> set (out_approved_setups abc_output)" by (simp add: abc_output_def)
  ultimately show ?thesis using approved_setup_from_candidate [OF snapshot(1) _ run] by auto
qed

end
