(* ===== verification/Analytics_Models.thy ===== *)
theory Analytics_Models
  imports Contract_Models Decimal_Context Canonical "HOL-Library.Product_Lexorder"
begin

text \<open>
  The data of the analytics (\<open>daybreak_analytics/enums.py\<close>, \<open>models.py\<close>) and the kinds of drills
  (\<open>daybreak_operations/enums.py\<close>): the evidence of a session with its trades, the replay of a
  session, the ledger of paper acceptance and the evidence of a deployment. Fields of a \<open>Literal\<close>
  type that the code sorts or compares are strings with a test of membership.
\<close>

section \<open>Enums\<close>

datatype replay_component =
    RC_RECORDER
  | RC_FEATURES
  | RC_EVALUATOR
  | RC_RISK
  | RC_EXECUTION
  | RC_ORCHESTRATION

fun replay_component_value :: "replay_component \<Rightarrow> string" where
  "replay_component_value RC_RECORDER = ''recorder''"
| "replay_component_value RC_FEATURES = ''features''"
| "replay_component_value RC_EVALUATOR = ''evaluator''"
| "replay_component_value RC_RISK = ''risk''"
| "replay_component_value RC_EXECUTION = ''execution''"
| "replay_component_value RC_ORCHESTRATION = ''orchestration''"

definition all_replay_components :: "replay_component list" where
  "all_replay_components = [RC_RECORDER, RC_FEATURES, RC_EVALUATOR, RC_RISK, RC_EXECUTION, RC_ORCHESTRATION]"

lemma set_all_replay_components [simp]: "set all_replay_components = UNIV"
  by (auto simp: all_replay_components_def) (metis replay_component.exhaust)

datatype exit_reason =
    XR_TARGET
  | XR_STOP
  | XR_TIME_EXIT
  | XR_KILL_SWITCH
  | XR_MANUAL_SAFETY
  | XR_BROKER_RECONCILIATION

fun exit_reason_value :: "exit_reason \<Rightarrow> string" where
  "exit_reason_value XR_TARGET = ''target''"
| "exit_reason_value XR_STOP = ''stop''"
| "exit_reason_value XR_TIME_EXIT = ''time_exit''"
| "exit_reason_value XR_KILL_SWITCH = ''kill_switch''"
| "exit_reason_value XR_MANUAL_SAFETY = ''manual_safety''"
| "exit_reason_value XR_BROKER_RECONCILIATION = ''broker_reconciliation''"

datatype acceptance_status = AS_COLLECTING | AS_BLOCKED | AS_PAPER_QUALIFIED

datatype deployment_status = DS_INCOMPLETE | DS_PAPER_READY

datatype drill_type =
    DT_DATABASE_DISCONNECT
  | DT_MARKET_DATA_DISCONNECT
  | DT_TRADE_UPDATE_DISCONNECT
  | DT_BROKER_TIMEOUT
  | DT_CLOCK_SKEW
  | DT_PROCESS_RESTART
  | DT_DISK_PRESSURE

fun drill_type_value :: "drill_type \<Rightarrow> string" where
  "drill_type_value DT_DATABASE_DISCONNECT = ''database_disconnect''"
| "drill_type_value DT_MARKET_DATA_DISCONNECT = ''market_data_disconnect''"
| "drill_type_value DT_TRADE_UPDATE_DISCONNECT = ''trade_update_disconnect''"
| "drill_type_value DT_BROKER_TIMEOUT = ''broker_timeout''"
| "drill_type_value DT_CLOCK_SKEW = ''clock_skew''"
| "drill_type_value DT_PROCESS_RESTART = ''process_restart''"
| "drill_type_value DT_DISK_PRESSURE = ''disk_pressure''"

section \<open>The policy\<close>

definition id_of_length :: "nat \<Rightarrow> string \<Rightarrow> bool" where
  "id_of_length n s \<longleftrightarrow> 8 \<le> length s \<and> length s \<le> n"

text \<open>\<open>tuple(sorted(xs, key=f)) == xs\<close>.\<close>

definition sorted_by :: "('a \<Rightarrow> 'k::linorder) \<Rightarrow> 'a list \<Rightarrow> bool" where
  "sorted_by f xs \<longleftrightarrow> sort_key f xs = xs"

lemma sorted_by_iff: "sorted_by f xs \<longleftrightarrow> sorted (map f xs)"
  unfolding sorted_by_def by (metis sorted_sort_key sort_key_id_if_sorted)

record analytics_policy =
  ay_policy_version :: string
  ay_mode :: string
  ay_minimum_sessions :: int
  ay_minimum_filled_orders :: int
  ay_minimum_clean_session_rate :: rat
  ay_maximum_invariant_violations :: int
  ay_maximum_unresolved_reconciliations :: int
  ay_maximum_duplicate_orders :: int
  ay_maximum_late_primary_responses :: int
  ay_require_all_positions_flat :: bool
  ay_require_complete_replay :: bool
  ay_require_target_acceptance :: bool
  ay_require_restore_validation :: bool
  ay_required_drill_count :: int
  ay_performance_is_acceptance_gate :: bool
  ay_allow_live_certification :: bool

definition default_analytics_policy :: analytics_policy where
  "default_analytics_policy =
     \<lparr>ay_policy_version = ''analytics_policy_v1'', ay_mode = ''paper'', ay_minimum_sessions = 30,
      ay_minimum_filled_orders = 50, ay_minimum_clean_session_rate = 1, ay_maximum_invariant_violations = 0,
      ay_maximum_unresolved_reconciliations = 0, ay_maximum_duplicate_orders = 0,
      ay_maximum_late_primary_responses = 0, ay_require_all_positions_flat = True,
      ay_require_complete_replay = True, ay_require_target_acceptance = True,
      ay_require_restore_validation = True, ay_required_drill_count = 7,
      ay_performance_is_acceptance_gate = False, ay_allow_live_certification = False\<rparr>"

definition valid_analytics_policy :: "analytics_policy \<Rightarrow> bool" where
  "valid_analytics_policy p \<longleftrightarrow>
     ay_policy_version p = ''analytics_policy_v1'' \<and> ay_mode p = ''paper'' \<and>
     1 \<le> ay_minimum_sessions p \<and> ay_minimum_sessions p \<le> 365 \<and>
     1 \<le> ay_minimum_filled_orders p \<and> ay_minimum_filled_orders p \<le> 10000 \<and>
     0 \<le> ay_minimum_clean_session_rate p \<and> ay_minimum_clean_session_rate p \<le> 1 \<and>
     0 \<le> ay_maximum_invariant_violations p \<and> 0 \<le> ay_maximum_unresolved_reconciliations p \<and>
     0 \<le> ay_maximum_duplicate_orders p \<and> 0 \<le> ay_maximum_late_primary_responses p \<and>
     ay_require_all_positions_flat p \<and> ay_require_complete_replay p \<and> ay_require_target_acceptance p \<and>
     ay_require_restore_validation p \<and> 0 \<le> ay_required_drill_count p \<and> ay_required_drill_count p \<le> 32 \<and>
     \<not> ay_performance_is_acceptance_gate p \<and> \<not> ay_allow_live_certification p"

section \<open>Trades and sessions\<close>

record trade_outcome =
  tro_trade_id :: string
  tro_session_id :: string
  tro_ticker :: string
  tro_final_rank :: int
  tro_quantity :: int
  tro_entry_timestamp :: timestamp
  tro_exit_timestamp :: timestamp
  tro_planned_entry_price :: rat
  tro_average_entry_price :: rat
  tro_planned_stop_price :: rat
  tro_planned_target_price :: rat
  tro_average_exit_price :: rat
  tro_fees :: rat
  tro_source_type :: string
  tro_chart_structure :: string
  tro_risk_flags :: "string list"
  tro_exit_reason :: exit_reason

definition TRADE_FLAG_ORDER :: "string list" where
  "TRADE_FLAG_ORDER =
     [''parabolic_vwap_extension'', ''hard_to_borrow'', ''unknown_borrow'', ''low_float'', ''spiky_volume'',
      ''secondary_source'']"

definition risk_flags_canonical :: "string list \<Rightarrow> string option" where
  "risk_flags_canonical flags =
     (if \<not> distinct flags then Some ''risk flags must be unique''
      else if \<not> sorted_by (\<lambda>f. case index_of TRADE_FLAG_ORDER f of None \<Rightarrow> 6 | Some k \<Rightarrow> k) flags
      then Some ''risk flags must use Daybreak canonical order''
      else None)"

definition coherent_trade :: "trade_outcome \<Rightarrow> string option" where
  "coherent_trade t =
     (if tro_exit_timestamp t < tro_entry_timestamp t then Some ''exit timestamp cannot precede entry timestamp''
      else if tro_planned_stop_price t \<ge> tro_planned_entry_price t then Some ''long stop must be below planned entry''
      else if tro_planned_target_price t \<le> tro_planned_entry_price t
      then Some ''long target must be above planned entry''
      else None)"

definition valid_trade_outcome :: "trade_outcome \<Rightarrow> bool" where
  "valid_trade_outcome t \<longleftrightarrow>
     id_of_length 64 (tro_trade_id t) \<and> id_of_length 64 (tro_session_id t) \<and> is_canonical_ticker (tro_ticker t) \<and>
     1 \<le> tro_final_rank t \<and> tro_final_rank t \<le> 3 \<and> 0 < tro_quantity t \<and> 0 < tro_planned_entry_price t \<and>
     0 < tro_average_entry_price t \<and> 0 < tro_planned_stop_price t \<and> 0 < tro_planned_target_price t \<and>
     0 < tro_average_exit_price t \<and> 0 \<le> tro_fees t \<and> tro_source_type t \<in> {''primary'', ''secondary''} \<and>
     tro_chart_structure t \<in> {''blue_sky'', ''clean_short_term'', ''moderate_room''} \<and>
     set (tro_risk_flags t) \<subseteq> set TRADE_FLAG_ORDER \<and> risk_flags_canonical (tro_risk_flags t) = None \<and>
     coherent_trade t = None"

record session_evidence =
  sev_session_id :: string
  sev_trading_date :: date
  sev_generated_at :: timestamp
  sev_configuration_hash :: string
  sev_full_session_recorded :: bool
  sev_raw_event_count :: int
  sev_evaluator_run_count :: int
  sev_approved_setup_count :: int
  sev_qualified_not_selected_count :: int
  sev_excluded_ticker_count :: int
  sev_orders_submitted :: int
  sev_orders_filled :: int
  sev_invariant_violations :: int
  sev_unresolved_reconciliations :: int
  sev_duplicate_order_count :: int
  sev_late_primary_response_count :: int
  sev_all_positions_flat :: bool
  sev_kill_switch_activation_count :: int
  sev_trades :: "trade_outcome list"

definition coherent_session :: "session_evidence \<Rightarrow> string option" where
  "coherent_session e =
     (if list_ex (\<lambda>t. tro_session_id t \<noteq> sev_session_id e) (sev_trades e)
      then Some ''all trades must belong to the session''
      else if \<not> distinct (map tro_trade_id (sev_trades e)) then Some ''trade ids must be unique within a session''
      else if \<not> sorted_by (\<lambda>t. (tro_entry_timestamp t, tro_trade_id t)) (sev_trades e)
      then Some ''trades must be sorted by entry timestamp and trade id''
      else if sev_orders_filled e \<noteq> int (length (sev_trades e))
      then Some ''orders_filled must equal the number of completed trade outcomes''
      else if sev_orders_filled e > sev_orders_submitted e then Some ''filled orders cannot exceed submitted orders''
      else None)"

definition valid_session_evidence :: "session_evidence \<Rightarrow> bool" where
  "valid_session_evidence e \<longleftrightarrow>
     id_of_length 64 (sev_session_id e) \<and> valid_hash (sev_configuration_hash e) \<and> 0 \<le> sev_raw_event_count e \<and>
     0 \<le> sev_evaluator_run_count e \<and> 0 \<le> sev_approved_setup_count e \<and> sev_approved_setup_count e \<le> 3 \<and>
     0 \<le> sev_qualified_not_selected_count e \<and> 0 \<le> sev_excluded_ticker_count e \<and> 0 \<le> sev_orders_submitted e \<and>
     0 \<le> sev_orders_filled e \<and> 0 \<le> sev_invariant_violations e \<and> 0 \<le> sev_unresolved_reconciliations e \<and>
     0 \<le> sev_duplicate_order_count e \<and> 0 \<le> sev_late_primary_response_count e \<and>
     0 \<le> sev_kill_switch_activation_count e \<and> list_all valid_trade_outcome (sev_trades e) \<and>
     coherent_session e = None"

record attribution_bucket =
  atb_dimension :: string
  atb_key :: string
  atb_trade_count :: int
  atb_net_pnl :: rat
  atb_win_rate :: rat
  atb_expectancy :: rat
  atb_average_r_multiple :: rat

definition valid_attribution_bucket :: "attribution_bucket \<Rightarrow> bool" where
  "valid_attribution_bucket b \<longleftrightarrow>
     atb_dimension b \<in> {''source_type'', ''chart_structure'', ''risk_flag'', ''exit_reason''} \<and>
     0 < atb_trade_count b \<and> 0 \<le> atb_win_rate b \<and> atb_win_rate b \<le> 1"

record session_performance =
  spf_analytics_id :: string
  spf_session_id :: string
  spf_trading_date :: date
  spf_trade_count :: int
  spf_winning_trade_count :: int
  spf_losing_trade_count :: int
  spf_breakeven_trade_count :: int
  spf_gross_pnl :: rat
  spf_fees :: rat
  spf_net_pnl :: rat
  spf_win_rate :: rat
  spf_profit_factor :: "rat option"
  spf_expectancy :: rat
  spf_average_win :: rat
  spf_average_loss :: rat
  spf_average_r_multiple :: rat
  spf_maximum_drawdown :: rat
  spf_total_entry_slippage :: rat
  spf_average_entry_slippage_bps :: rat
  spf_attributions :: "attribution_bucket list"
  spf_evidence_hash :: string
  spf_analytics_hash :: string

definition valid_session_performance :: "session_performance \<Rightarrow> bool" where
  "valid_session_performance p \<longleftrightarrow>
     id_of_length 64 (spf_analytics_id p) \<and> id_of_length 64 (spf_session_id p) \<and> 0 \<le> spf_trade_count p \<and>
     0 \<le> spf_winning_trade_count p \<and> 0 \<le> spf_losing_trade_count p \<and> 0 \<le> spf_breakeven_trade_count p \<and>
     0 \<le> spf_fees p \<and> 0 \<le> spf_win_rate p \<and> spf_win_rate p \<le> 1 \<and> 0 \<le> spf_maximum_drawdown p \<and>
     list_all valid_attribution_bucket (spf_attributions p) \<and> valid_hash (spf_evidence_hash p) \<and>
     valid_hash (spf_analytics_hash p)"

section \<open>The replay of a session\<close>

record replay_component_evidence =
  rce_component :: replay_component
  rce_expected_hash :: "string option"
  rce_actual_hash :: "string option"
  rce_evidence_count :: int
  rce_verified :: bool
  rce_errors :: "string list"

definition coherent_component :: "replay_component_evidence \<Rightarrow> string option" where
  "coherent_component c =
     (let expected = (rce_expected_hash c \<noteq> None \<and> rce_actual_hash c \<noteq> None \<and>
            rce_expected_hash c = rce_actual_hash c \<and> rce_errors c = [])
      in if rce_verified c \<noteq> expected then Some ''component verified flag does not match hash/error evidence'' else None)"

definition valid_component_evidence :: "replay_component_evidence \<Rightarrow> bool" where
  "valid_component_evidence c \<longleftrightarrow>
     pred_option valid_hash (rce_expected_hash c) \<and> pred_option valid_hash (rce_actual_hash c) \<and>
     0 \<le> rce_evidence_count c \<and> coherent_component c = None"

text \<open>The validators \<open>unique_components\<close> and \<open>components_sorted_unique\<close>, with their texts.\<close>

definition sorted_unique_components :: "string \<Rightarrow> string \<Rightarrow> replay_component_evidence list \<Rightarrow> string option" where
  "sorted_unique_components twice unsorted cs =
     (if \<not> distinct (map rce_component cs) then Some twice
      else if \<not> sorted_by (\<lambda>c. replay_component_value (rce_component c)) cs then Some unsorted else None)"

record full_replay_request =
  frq_session_id :: string
  frq_trading_date :: date
  frq_replayed_at :: timestamp
  frq_expected_raw_event_count :: int
  frq_actual_raw_event_count :: int
  frq_event_ordering_verified :: bool
  frq_point_in_time_integrity_verified :: bool
  frq_components :: "replay_component_evidence list"

definition valid_full_replay_request :: "full_replay_request \<Rightarrow> bool" where
  "valid_full_replay_request r \<longleftrightarrow>
     id_of_length 64 (frq_session_id r) \<and> 0 \<le> frq_expected_raw_event_count r \<and> 0 \<le> frq_actual_raw_event_count r \<and>
     list_all valid_component_evidence (frq_components r) \<and>
     sorted_unique_components ''replay component evidence must be unique''
       ''replay components must be sorted by component name'' (frq_components r) = None"

record full_replay_report =
  frp_replay_id :: string
  frp_session_id :: string
  frp_trading_date :: date
  frp_replayed_at :: timestamp
  frp_complete :: bool
  frp_passed :: bool
  frp_expected_raw_event_count :: int
  frp_actual_raw_event_count :: int
  frp_event_ordering_verified :: bool
  frp_point_in_time_integrity_verified :: bool
  frp_components :: "replay_component_evidence list"
  frp_errors :: "string list"
  frp_request_hash :: string
  frp_report_hash :: string

definition coherent_replay_report :: "full_replay_report \<Rightarrow> string option" where
  "coherent_replay_report r =
     (let expected_complete = (set (map rce_component (frp_components r)) = set all_replay_components);
          expected_passed = (expected_complete \<and> frp_expected_raw_event_count r = frp_actual_raw_event_count r \<and>
            frp_event_ordering_verified r \<and> frp_point_in_time_integrity_verified r \<and>
            list_all rce_verified (frp_components r) \<and> frp_errors r = [])
      in if frp_complete r \<noteq> expected_complete \<or> frp_passed r \<noteq> expected_passed
         then Some ''replay completion/pass flags do not match evidence'' else None)"

definition valid_full_replay_report :: "full_replay_report \<Rightarrow> bool" where
  "valid_full_replay_report r \<longleftrightarrow>
     id_of_length 64 (frp_replay_id r) \<and> id_of_length 64 (frp_session_id r) \<and> 0 \<le> frp_expected_raw_event_count r \<and>
     0 \<le> frp_actual_raw_event_count r \<and> list_all valid_component_evidence (frp_components r) \<and>
     valid_hash (frp_request_hash r) \<and> valid_hash (frp_report_hash r) \<and>
     sorted_unique_components ''replay report components must be unique'' ''replay report components must be sorted''
       (frp_components r) = None \<and> coherent_replay_report r = None"

section \<open>Paper acceptance\<close>

record paper_acceptance_request =
  paq_generated_at :: timestamp
  paq_policy :: analytics_policy
  paq_sessions :: "session_evidence list"
  paq_replay_reports :: "full_replay_report list"
  paq_target_acceptance_verified :: bool
  paq_restore_validation_verified :: bool
  paq_passed_drills :: "drill_type list"
  paq_configuration_hash :: string

definition session_evidence_key :: "session_evidence \<Rightarrow> date \<times> string" where
  "session_evidence_key e = (sev_trading_date e, sev_session_id e)"

definition replay_report_key :: "full_replay_report \<Rightarrow> date \<times> string" where
  "replay_report_key r = (frp_trading_date r, frp_session_id r)"

text \<open>\<open>{item.session_id: item for item in reports}\<close>, where the last report of a session counts.\<close>

definition replay_by_session :: "full_replay_report list \<Rightarrow> string \<Rightarrow> full_replay_report option" where
  "replay_by_session reports k = List.find (\<lambda>r. frp_session_id r = k) (rev reports)"

fun sessions_match ::
    "paper_acceptance_request \<Rightarrow> session_evidence list \<Rightarrow> string option" where
  "sessions_match r [] = None"
| "sessions_match r (e # es) =
     (if sev_configuration_hash e \<noteq> paq_configuration_hash r
      then Some ''all session configuration hashes must match the ledger request''
      else case replay_by_session (paq_replay_reports r) (sev_session_id e) of
        None \<Rightarrow> sessions_match r es
      | Some replay \<Rightarrow>
          if frp_trading_date replay \<noteq> sev_trading_date e
          then Some ''replay trading date must match session evidence''
          else sessions_match r es)"

definition evidence_sets_match :: "paper_acceptance_request \<Rightarrow> string option" where
  "evidence_sets_match r =
     (if ay_require_complete_replay (paq_policy r) \<and>
         set (map sev_session_id (paq_sessions r)) \<noteq> set (map frp_session_id (paq_replay_reports r))
      then Some ''replay reports must match the session evidence set exactly''
      else sessions_match r (paq_sessions r))"

definition valid_paper_acceptance_request :: "paper_acceptance_request \<Rightarrow> bool" where
  "valid_paper_acceptance_request r \<longleftrightarrow>
     valid_analytics_policy (paq_policy r) \<and> list_all valid_session_evidence (paq_sessions r) \<and>
     list_all valid_full_replay_report (paq_replay_reports r) \<and>
     distinct (map session_evidence_key (paq_sessions r)) \<and> sorted_by session_evidence_key (paq_sessions r) \<and>
     distinct (map replay_report_key (paq_replay_reports r)) \<and> sorted_by replay_report_key (paq_replay_reports r) \<and>
     sort_key drill_type_value (remdups (paq_passed_drills r)) = paq_passed_drills r \<and>
     valid_hash (paq_configuration_hash r) \<and> evidence_sets_match r = None"

record session_acceptance =
  sac_session_id :: string
  sac_trading_date :: date
  sac_clean :: bool
  sac_reasons :: "string list"
  sac_analytics_id :: string
  sac_replay_id :: "string option"

record aggregate_performance =
  agp_session_count :: int
  agp_trade_count :: int
  agp_gross_pnl :: rat
  agp_fees :: rat
  agp_net_pnl :: rat
  agp_win_rate :: rat
  agp_profit_factor :: "rat option"
  agp_expectancy :: rat
  agp_maximum_drawdown :: rat
  agp_average_r_multiple :: rat

definition valid_aggregate_performance :: "aggregate_performance \<Rightarrow> bool" where
  "valid_aggregate_performance p \<longleftrightarrow>
     0 \<le> agp_session_count p \<and> 0 \<le> agp_trade_count p \<and> 0 \<le> agp_fees p \<and> 0 \<le> agp_win_rate p \<and>
     agp_win_rate p \<le> 1 \<and> 0 \<le> agp_maximum_drawdown p"

record paper_ledger =
  pal_ledger_id :: string
  pal_generated_at :: timestamp
  pal_status :: acceptance_status
  pal_paper_ready :: bool
  pal_live_ready :: bool
  pal_session_count :: int
  pal_clean_session_count :: int
  pal_filled_order_count :: int
  pal_clean_session_rate :: rat
  pal_sessions :: "session_acceptance list"
  pal_performance :: aggregate_performance
  pal_blockers :: "string list"
  pal_policy :: analytics_policy
  pal_configuration_hash :: string
  pal_request_hash :: string
  pal_ledger_hash :: string

definition coherent_ledger :: "paper_ledger \<Rightarrow> string option" where
  "coherent_ledger l =
     (if pal_paper_ready l \<noteq> (pal_status l = AS_PAPER_QUALIFIED) then Some ''paper_ready must match paper-qualified status''
      else if pal_paper_ready l \<and> pal_blockers l \<noteq> [] then Some ''paper-ready ledger cannot contain blockers''
      else None)"

definition valid_session_acceptance :: "session_acceptance \<Rightarrow> bool" where
  "valid_session_acceptance a \<longleftrightarrow>
     id_of_length 64 (sac_session_id a) \<and> id_of_length 64 (sac_analytics_id a) \<and>
     pred_option (id_of_length 64) (sac_replay_id a)"

definition valid_paper_ledger :: "paper_ledger \<Rightarrow> bool" where
  "valid_paper_ledger l \<longleftrightarrow>
     id_of_length 64 (pal_ledger_id l) \<and> \<not> pal_live_ready l \<and> 0 \<le> pal_session_count l \<and>
     0 \<le> pal_clean_session_count l \<and> 0 \<le> pal_filled_order_count l \<and> 0 \<le> pal_clean_session_rate l \<and>
     pal_clean_session_rate l \<le> 1 \<and> list_all valid_session_acceptance (pal_sessions l) \<and>
     valid_aggregate_performance (pal_performance l) \<and> valid_analytics_policy (pal_policy l) \<and>
     valid_hash (pal_configuration_hash l) \<and> valid_hash (pal_request_hash l) \<and> valid_hash (pal_ledger_hash l) \<and>
     coherent_ledger l = None"

section \<open>Deployment evidence\<close>

record deployment_request =
  deq_generated_at :: timestamp
  deq_release_version :: string
  deq_specification_version :: string
  deq_configuration_hash :: string
  deq_source_archive_sha256 :: string
  deq_wheel_sha256 :: string
  deq_migrations_sha256 :: string
  deq_schemas_bundle_sha256 :: string
  deq_verification_report_sha256 :: string
  deq_specification_sha256 :: string
  deq_migration_head :: string
  deq_tests_collected :: int
  deq_tests_passed :: int
  deq_schema_count :: int
  deq_secret_findings :: int
  deq_paper_ledger :: paper_ledger
  deq_target_acceptance_verified :: bool
  deq_restore_validation_verified :: bool
  deq_required_drills_verified :: bool
  deq_online_paper_account_verified :: bool
  deq_postgres_verified :: bool
  deq_ntp_verified :: bool

definition ledger_configuration_matches :: "deployment_request \<Rightarrow> string option" where
  "ledger_configuration_matches r =
     (if pal_configuration_hash (deq_paper_ledger r) \<noteq> deq_configuration_hash r
      then Some ''paper ledger configuration hash must match deployment request'' else None)"

definition valid_deployment_request :: "deployment_request \<Rightarrow> bool" where
  "valid_deployment_request r \<longleftrightarrow>
     deq_release_version r = ''1.0.2'' \<and> deq_specification_version r = ''6.3'' \<and>
     deq_migration_head r = ''0009_phase9_release'' \<and>
     list_all valid_hash
       [deq_configuration_hash r, deq_source_archive_sha256 r, deq_wheel_sha256 r, deq_migrations_sha256 r,
        deq_schemas_bundle_sha256 r, deq_verification_report_sha256 r, deq_specification_sha256 r] \<and>
     0 < deq_tests_collected r \<and> 0 \<le> deq_tests_passed r \<and> 0 < deq_schema_count r \<and> 0 \<le> deq_secret_findings r \<and>
     valid_paper_ledger (deq_paper_ledger r) \<and> ledger_configuration_matches r = None"

record deployment_report =
  der_report_id :: string
  der_generated_at :: timestamp
  der_status :: deployment_status
  der_paper_deployment_ready :: bool
  der_live_deployment_ready :: bool
  der_blockers :: "string list"
  der_release_version :: string
  der_specification_version :: string
  der_migration_head :: string
  der_configuration_hash :: string
  der_paper_ledger_id :: string
  der_paper_ledger_hash :: string
  der_tests_collected :: int
  der_tests_passed :: int
  der_schema_count :: int
  der_secret_findings :: int
  der_evidence_hashes :: "(string \<times> string) list"
  der_request_hash :: string
  der_report_hash :: string

text \<open>\<open>evidence_sorted_unique\<close> and \<open>components_sorted_unique\<close>: pairs in order with different names.\<close>

definition evidence_sorted_unique :: "(string \<times> string) list \<Rightarrow> string option" where
  "evidence_sorted_unique hashes =
     (if sort hashes \<noteq> hashes then Some ''evidence hashes must be sorted''
      else if \<not> distinct (map fst hashes) then Some ''evidence hash names must be unique''
      else None)"

definition coherent_deployment :: "deployment_report \<Rightarrow> string option" where
  "coherent_deployment r =
     (if der_paper_deployment_ready r \<noteq> (der_status r = DS_PAPER_READY)
      then Some ''paper readiness must match deployment status''
      else if der_paper_deployment_ready r \<and> der_blockers r \<noteq> []
      then Some ''paper-ready report cannot contain blockers''
      else if der_tests_passed r > der_tests_collected r then Some ''passed tests cannot exceed collected tests''
      else None)"

definition valid_deployment_report :: "deployment_report \<Rightarrow> bool" where
  "valid_deployment_report r \<longleftrightarrow>
     id_of_length 64 (der_report_id r) \<and> \<not> der_live_deployment_ready r \<and> der_release_version r = ''1.0.2'' \<and>
     der_specification_version r = ''6.3'' \<and> der_migration_head r = ''0009_phase9_release'' \<and>
     valid_hash (der_configuration_hash r) \<and> id_of_length 64 (der_paper_ledger_id r) \<and>
     valid_hash (der_paper_ledger_hash r) \<and> 0 < der_tests_collected r \<and> 0 \<le> der_tests_passed r \<and>
     0 < der_schema_count r \<and> 0 \<le> der_secret_findings r \<and> list_all (\<lambda>h. valid_hash (snd h)) (der_evidence_hashes r) \<and>
     valid_hash (der_request_hash r) \<and> valid_hash (der_report_hash r) \<and>
     evidence_sorted_unique (der_evidence_hashes r) = None \<and> coherent_deployment r = None"

end
