(* ===== verification/Analytics.thy ===== *)
theory Analytics
  imports Analytics_Models Store
begin

text \<open>
  The analytics (\<open>daybreak_analytics/analytics.py\<close>: the performance of a session and its
  attribution; \<open>replay.py\<close>: the report of a replayed session; \<open>acceptance.py\<close>: the ledger of paper
  acceptance and the evidence of a deployment; \<open>persistence.py\<close>: the repository in memory). The JSON
  documents of the models and the texts of pydantic's errors are parameters; a document that a
  hash covers is that of the record with empty identifier and hash, which the code leaves out.
\<close>

record analytics_dumps =
  ad_evidence :: "session_evidence \<Rightarrow> json"
  ad_performance :: "session_performance \<Rightarrow> json"
  ad_replay_request :: "full_replay_request \<Rightarrow> json"
  ad_replay :: "full_replay_report \<Rightarrow> json"
  ad_acceptance_request :: "paper_acceptance_request \<Rightarrow> json"
  ad_ledger :: "paper_ledger \<Rightarrow> json"
  ad_deployment_request :: "deployment_request \<Rightarrow> json"
  ad_deployment :: "deployment_report \<Rightarrow> json"
  ad_invalid :: "json \<Rightarrow> string"

text \<open>The constructor of a model, or \<open>model_validate\<close>.\<close>

definition model_checked :: "('a \<Rightarrow> bool) \<Rightarrow> string \<Rightarrow> 'a \<Rightarrow> 'a result" where
  "model_checked valid message x = (if valid x then Inr x else Inl (ValidationError message))"

fun result_map :: "('a \<Rightarrow> 'b result) \<Rightarrow> 'a list \<Rightarrow> 'b list result" where
  "result_map f [] = Inr []"
| "result_map f (x # xs) = rbind (f x) (\<lambda>y. rbind (result_map f xs) (\<lambda>ys. Inr (y # ys)))"

lemma model_checked_Inr [simp]: "model_checked valid message x = Inr y \<longleftrightarrow> valid x \<and> y = x"
  by (auto simp: model_checked_def)

lemma result_map_Inr: "result_map f xs = Inr ys \<longleftrightarrow> list_all2 (\<lambda>x y. f x = Inr y) xs ys"
proof (induction xs arbitrary: ys)
  case (Cons x xs)
  then show ?case by (cases ys) (auto simp: rbind_Inr_iff)
qed auto

lemma result_map_Inl: "result_map f xs = Inl e \<Longrightarrow> \<exists>x\<in>set xs. f x = Inl e"
  by (induction xs) (auto simp: rbind_def split: sum.splits)

section \<open>daybreak\_analytics/analytics.py\<close>

text \<open>
  \<open>value.quantize(Q, rounding=ROUND_HALF_EVEN)\<close> with ten places, and the division of decimals.
\<close>

definition quantized :: "rat \<Rightarrow> rat result" where
  "quantized x = (case quantize_money x of None \<Rightarrow> Inl DecimalError | Some y \<Rightarrow> Inr y)"

definition quotient :: "rat \<Rightarrow> rat \<Rightarrow> rat result" where
  "quotient x y = (case ddiv x y of None \<Rightarrow> Inl DecimalError | Some q \<Rightarrow> Inr q)"

definition quantized_quotient :: "rat \<Rightarrow> rat \<Rightarrow> rat result" where
  "quantized_quotient x y = rbind (quotient x y) quantized"

text \<open>\<open>sum(xs, ZERO)\<close>.\<close>

definition decimal_sum :: "rat list \<Rightarrow> rat" where
  "decimal_sum xs = foldl dadd 0 xs"

record trade_metric =
  tm_gross :: rat
  tm_net :: rat
  tm_risk :: rat
  tm_r :: rat
  tm_entry_slippage :: rat
  tm_entry_slippage_bps :: rat

definition gross_of :: "trade_outcome \<Rightarrow> rat" where
  "gross_of t = dmul (dsub (tro_average_exit_price t) (tro_average_entry_price t)) (of_int (tro_quantity t))"

definition trade_metrics :: "trade_outcome \<Rightarrow> trade_metric result" where
  "trade_metrics t =
     (let quantity = of_int (tro_quantity t);
          gross = gross_of t;
          net = dsub gross (tro_fees t);
          risk = dmul (dsub (tro_planned_entry_price t) (tro_planned_stop_price t)) quantity;
          slip = dsub (tro_average_entry_price t) (tro_planned_entry_price t)
      in rbind (if 0 < risk then quotient net risk else Inr 0) (\<lambda>r_multiple.
         rbind (quotient slip (tro_planned_entry_price t)) (\<lambda>relative.
         rbind (quantized gross) (\<lambda>q_gross.
         rbind (quantized net) (\<lambda>q_net.
         rbind (quantized risk) (\<lambda>q_risk.
         rbind (quantized r_multiple) (\<lambda>q_r.
         rbind (quantized (dmul slip quantity)) (\<lambda>q_slip.
         rbind (quantized (dmul relative 10000)) (\<lambda>q_bps.
         Inr \<lparr>tm_gross = q_gross, tm_net = q_net, tm_risk = q_risk, tm_r = q_r, tm_entry_slippage = q_slip,
              tm_entry_slippage_bps = q_bps\<rparr>)))))))))"

record trade_summary =
  tsm_trade_count :: int
  tsm_wins :: int
  tsm_losses :: int
  tsm_breakeven :: int
  tsm_gross_pnl :: rat
  tsm_fees :: rat
  tsm_net_pnl :: rat
  tsm_win_rate :: rat
  tsm_profit_factor :: "rat option"
  tsm_expectancy :: rat
  tsm_average_win :: rat
  tsm_average_loss :: rat
  tsm_average_r :: rat
  tsm_maximum_drawdown :: rat
  tsm_total_slippage :: rat
  tsm_average_slippage_bps :: rat

text \<open>The loop over \<open>cumulative\<close>, \<open>peak\<close> and \<open>max_drawdown\<close>.\<close>

definition drawdown_step :: "rat \<Rightarrow> rat \<times> rat \<times> rat \<Rightarrow> rat \<times> rat \<times> rat" where
  "drawdown_step v s =
     (case s of (cumulative, peak, max_drawdown) \<Rightarrow>
        let cumulative = dadd cumulative v; peak = max peak cumulative
        in (cumulative, peak, max max_drawdown (dsub peak cumulative)))"

definition drawdown_of :: "rat list \<Rightarrow> rat" where
  "drawdown_of vs = snd (snd (fold drawdown_step vs (0, 0, 0)))"

text \<open>\<open>_q(total / Decimal(count)) if count else ZERO\<close>.\<close>

definition mean_of :: "rat \<Rightarrow> nat \<Rightarrow> rat result" where
  "mean_of amount n = (if n = 0 then Inr 0 else quantized_quotient amount (of_nat n))"

definition summary_of :: "trade_outcome list \<Rightarrow> trade_summary result" where
  "summary_of trades =
     rbind (result_map trade_metrics trades) (\<lambda>metrics.
     let net_values = map tm_net metrics; wins = filter (\<lambda>v. 0 < v) net_values; losses = filter (\<lambda>v. v < 0) net_values;
         count = length trades; gross_profit = decimal_sum wins; gross_loss = dabs (decimal_sum losses)
     in
     rbind (quantized (decimal_sum (map tm_gross metrics))) (\<lambda>gross_pnl.
     rbind (quantized (decimal_sum (map tro_fees trades))) (\<lambda>fees.
     rbind (quantized (decimal_sum net_values)) (\<lambda>net_pnl.
     rbind (mean_of (of_nat (length wins)) count) (\<lambda>win_rate.
     rbind (if 0 < gross_loss then map_sum id Some (quantized_quotient gross_profit gross_loss) else Inr None)
       (\<lambda>profit_factor.
     rbind (mean_of net_pnl count) (\<lambda>expectancy.
     rbind (mean_of gross_profit (length wins)) (\<lambda>average_win.
     rbind (mean_of (decimal_sum losses) (length losses)) (\<lambda>average_loss.
     rbind (mean_of (decimal_sum (map tm_r metrics)) count) (\<lambda>average_r.
     rbind (quantized (decimal_sum (map tm_entry_slippage metrics))) (\<lambda>total_slippage.
     rbind (mean_of (decimal_sum (map tm_entry_slippage_bps metrics)) count) (\<lambda>average_slippage_bps.
     rbind (quantized (drawdown_of net_values)) (\<lambda>maximum_drawdown.
     Inr \<lparr>tsm_trade_count = int count, tsm_wins = int (length wins), tsm_losses = int (length losses),
          tsm_breakeven = int count - int (length wins) - int (length losses), tsm_gross_pnl = gross_pnl,
          tsm_fees = fees, tsm_net_pnl = net_pnl, tsm_win_rate = win_rate, tsm_profit_factor = profit_factor,
          tsm_expectancy = expectancy, tsm_average_win = average_win, tsm_average_loss = average_loss,
          tsm_average_r = average_r, tsm_maximum_drawdown = maximum_drawdown, tsm_total_slippage = total_slippage,
          tsm_average_slippage_bps = average_slippage_bps\<rparr>)))))))))))))"

text \<open>The groups of \<open>_attributions\<close>, a \<open>defaultdict(list)\<close> from a dimension and a key.\<close>

definition group_keys :: "trade_outcome \<Rightarrow> (string \<times> string) list" where
  "group_keys t =
     [(''source_type'', tro_source_type t), (''chart_structure'', tro_chart_structure t),
      (''exit_reason'', exit_reason_value (tro_exit_reason t))] @ map (Pair ''risk_flag'') (tro_risk_flags t)"

definition append_to :: "'v \<Rightarrow> 'k \<Rightarrow> ('k, 'v list) dict \<Rightarrow> ('k, 'v list) dict" where
  "append_to v k d = AList.update k ((case map_of d k of None \<Rightarrow> [] | Some vs \<Rightarrow> vs) @ [v]) d"

definition attribution_groups :: "trade_outcome list \<Rightarrow> (string \<times> string, trade_outcome list) dict" where
  "attribution_groups trades = fold (\<lambda>t. fold (append_to t) (group_keys t)) trades []"

definition bucket_of :: "analytics_dumps \<Rightarrow> (string \<times> string) \<times> trade_outcome list \<Rightarrow> attribution_bucket result" where
  "bucket_of dumps entry =
     (case entry of ((dimension, k), members) \<Rightarrow>
        rbind (summary_of members) (\<lambda>s.
        model_checked valid_attribution_bucket (ad_invalid dumps (JStr k))
          \<lparr>atb_dimension = dimension, atb_key = k, atb_trade_count = tsm_trade_count s, atb_net_pnl = tsm_net_pnl s,
           atb_win_rate = tsm_win_rate s, atb_expectancy = tsm_expectancy s,
           atb_average_r_multiple = tsm_average_r s\<rparr>))"

text \<open>The keys of the groups are different, so \<open>sorted(groups.items())\<close> compares keys only.\<close>

definition attributions :: "analytics_dumps \<Rightarrow> trade_outcome list \<Rightarrow> attribution_bucket list result" where
  "attributions dumps trades = result_map (bucket_of dumps) (sort_key fst (attribution_groups trades))"

definition performance_body :: "session_evidence \<Rightarrow> trade_summary \<Rightarrow> attribution_bucket list \<Rightarrow> string \<Rightarrow> session_performance" where
  "performance_body e s buckets evidence_hash =
     \<lparr>spf_analytics_id = [], spf_session_id = sev_session_id e, spf_trading_date = sev_trading_date e,
      spf_trade_count = tsm_trade_count s, spf_winning_trade_count = tsm_wins s, spf_losing_trade_count = tsm_losses s,
      spf_breakeven_trade_count = tsm_breakeven s, spf_gross_pnl = tsm_gross_pnl s, spf_fees = tsm_fees s,
      spf_net_pnl = tsm_net_pnl s, spf_win_rate = tsm_win_rate s, spf_profit_factor = tsm_profit_factor s,
      spf_expectancy = tsm_expectancy s, spf_average_win = tsm_average_win s, spf_average_loss = tsm_average_loss s,
      spf_average_r_multiple = tsm_average_r s, spf_maximum_drawdown = tsm_maximum_drawdown s,
      spf_total_entry_slippage = tsm_total_slippage s, spf_average_entry_slippage_bps = tsm_average_slippage_bps s,
      spf_attributions = buckets, spf_evidence_hash = evidence_hash, spf_analytics_hash = []\<rparr>"

definition analyze_session :: "analytics_dumps \<Rightarrow> session_evidence \<Rightarrow> session_performance result" where
  "analyze_session dumps evidence =
     rbind (summary_of (sev_trades evidence)) (\<lambda>s.
     rbind (attributions dumps (sev_trades evidence)) (\<lambda>buckets.
     let body = performance_body evidence s buckets (canonical_sha256 (ad_evidence dumps evidence));
         analytics_hash = canonical_sha256 (ad_performance dumps body)
     in model_checked valid_session_performance (ad_invalid dumps (ad_performance dumps body))
          (body\<lparr>spf_analytics_id := ''AN-'' @ take 20 analytics_hash, spf_analytics_hash := analytics_hash\<rparr>)))"

definition aggregate_of_summary :: "nat \<Rightarrow> trade_summary \<Rightarrow> aggregate_performance" where
  "aggregate_of_summary n s =
     \<lparr>agp_session_count = int n, agp_trade_count = tsm_trade_count s, agp_gross_pnl = tsm_gross_pnl s,
      agp_fees = tsm_fees s, agp_net_pnl = tsm_net_pnl s, agp_win_rate = tsm_win_rate s,
      agp_profit_factor = tsm_profit_factor s, agp_expectancy = tsm_expectancy s,
      agp_maximum_drawdown = tsm_maximum_drawdown s, agp_average_r_multiple = tsm_average_r s\<rparr>"

definition decimal_mean :: "rat \<Rightarrow> int \<Rightarrow> rat result" where
  "decimal_mean amount n = (if n = 0 then Inr 0 else quantized_quotient amount (of_int n))"

definition summarize_sessions ::
    "session_performance list \<Rightarrow> trade_outcome list option \<Rightarrow> aggregate_performance result" where
  "summarize_sessions sessions trades =
     (case trades of
        Some ts \<Rightarrow> rbind (summary_of ts) (\<lambda>s. Inr (aggregate_of_summary (length sessions) s))
      | None \<Rightarrow>
          let trade_count = sum_list (map spf_trade_count sessions);
              winning = sum_list (map spf_winning_trade_count sessions);
              weighted_r = decimal_sum (map (\<lambda>p. dmul (spf_average_r_multiple p) (of_int (spf_trade_count p))) sessions)
          in
          rbind (quantized (decimal_sum (map spf_gross_pnl sessions))) (\<lambda>gross_pnl.
          rbind (quantized (decimal_sum (map spf_fees sessions))) (\<lambda>fees.
          rbind (quantized (decimal_sum (map spf_net_pnl sessions))) (\<lambda>net_pnl.
          rbind (decimal_mean (of_int winning) trade_count) (\<lambda>win_rate.
          rbind (decimal_mean net_pnl trade_count) (\<lambda>expectancy.
          rbind (decimal_mean weighted_r trade_count) (\<lambda>average_r.
          rbind (quantized (drawdown_of (map spf_net_pnl sessions))) (\<lambda>maximum_drawdown.
          Inr \<lparr>agp_session_count = int (length sessions), agp_trade_count = trade_count, agp_gross_pnl = gross_pnl,
               agp_fees = fees, agp_net_pnl = net_pnl, agp_win_rate = win_rate, agp_profit_factor = None,
               agp_expectancy = expectancy, agp_maximum_drawdown = maximum_drawdown,
               agp_average_r_multiple = average_r\<rparr>))))))))"

section \<open>daybreak\_analytics/replay.py\<close>

definition code_when :: "bool \<Rightarrow> string \<Rightarrow> string list" where
  "code_when c code = (if c then [code] else [])"

lemma code_when_Nil [simp]: "code_when c code = [] \<longleftrightarrow> \<not> c"
  by (simp add: code_when_def)

lemma set_code_when [simp]: "set (code_when c code) = (if c then {code} else {})"
  by (simp add: code_when_def)

definition missing_components :: "full_replay_request \<Rightarrow> string list" where
  "missing_components request =
     sort (map replay_component_value
       (filter (\<lambda>c. c \<notin> set (map rce_component (frq_components request))) all_replay_components))"

definition replay_errors :: "full_replay_request \<Rightarrow> string list" where
  "replay_errors request =
     (let missing = missing_components request in
      code_when (missing \<noteq> []) (''MISSING_COMPONENTS:'' @ join '','' missing) @
      code_when (frq_expected_raw_event_count request \<noteq> frq_actual_raw_event_count request) ''RAW_EVENT_COUNT_MISMATCH'' @
      code_when (\<not> frq_event_ordering_verified request) ''EVENT_ORDERING_NOT_VERIFIED'' @
      code_when (\<not> frq_point_in_time_integrity_verified request) ''POINT_IN_TIME_INTEGRITY_NOT_VERIFIED'' @
      map (\<lambda>c. ''COMPONENT_FAILED:'' @ replay_component_value (rce_component c))
        (filter (\<lambda>c. \<not> rce_verified c) (frq_components request)))"

definition build_full_session_replay_report ::
    "analytics_dumps \<Rightarrow> full_replay_request \<Rightarrow> full_replay_report result" where
  "build_full_session_replay_report dumps request =
     (let request_hash = canonical_sha256 (ad_replay_request dumps request);
          errors = replay_errors request;
          complete_set = (set (map rce_component (frq_components request)) = set all_replay_components);
          body = \<lparr>frp_replay_id = [], frp_session_id = frq_session_id request,
            frp_trading_date = frq_trading_date request, frp_replayed_at = frq_replayed_at request,
            frp_complete = complete_set, frp_passed = (complete_set \<and> errors = []),
            frp_expected_raw_event_count = frq_expected_raw_event_count request,
            frp_actual_raw_event_count = frq_actual_raw_event_count request,
            frp_event_ordering_verified = frq_event_ordering_verified request,
            frp_point_in_time_integrity_verified = frq_point_in_time_integrity_verified request,
            frp_components = frq_components request, frp_errors = errors, frp_request_hash = request_hash,
            frp_report_hash = []\<rparr>;
          report_hash = canonical_sha256 (ad_replay dumps body)
      in model_checked valid_full_replay_report (ad_invalid dumps (ad_replay dumps body))
           (body\<lparr>frp_replay_id := ''RP-'' @ take 20 report_hash, frp_report_hash := report_hash\<rparr>))"

section \<open>daybreak\_analytics/acceptance.py\<close>

definition paper_ledger_body :: "analytics_dumps \<Rightarrow> paper_ledger \<Rightarrow> json" where
  "paper_ledger_body dumps l = ad_ledger dumps (l\<lparr>pal_ledger_id := [], pal_ledger_hash := []\<rparr>)"

definition deployment_report_body :: "analytics_dumps \<Rightarrow> deployment_report \<Rightarrow> json" where
  "deployment_report_body dumps r = ad_deployment dumps (r\<lparr>der_report_id := [], der_report_hash := []\<rparr>)"

definition session_reasons_of ::
    "analytics_policy \<Rightarrow> session_evidence \<Rightarrow> full_replay_report option \<Rightarrow> string list" where
  "session_reasons_of policy session replay =
     code_when (\<not> sev_full_session_recorded session) ''SESSION_NOT_FULLY_RECORDED'' @
     code_when (sev_invariant_violations session > ay_maximum_invariant_violations policy) ''INVARIANT_VIOLATIONS'' @
     code_when (sev_unresolved_reconciliations session > ay_maximum_unresolved_reconciliations policy)
       ''UNRESOLVED_RECONCILIATIONS'' @
     code_when (sev_duplicate_order_count session > ay_maximum_duplicate_orders policy) ''DUPLICATE_ORDERS'' @
     code_when (sev_late_primary_response_count session > ay_maximum_late_primary_responses policy)
       ''LATE_PRIMARY_RESPONSES'' @
     code_when (ay_require_all_positions_flat policy \<and> \<not> sev_all_positions_flat session) ''POSITIONS_NOT_FLAT'' @
     code_when (ay_require_complete_replay policy \<and> (case replay of None \<Rightarrow> True | Some r \<Rightarrow> \<not> frp_passed r))
       ''REPLAY_NOT_VERIFIED''"

definition accept_session ::
    "analytics_dumps \<Rightarrow> paper_acceptance_request \<Rightarrow> session_evidence \<Rightarrow>
     (session_performance \<times> session_acceptance) result" where
  "accept_session dumps request session =
     rbind (analyze_session dumps session) (\<lambda>analytics.
     let replay = replay_by_session (paq_replay_reports request) (sev_session_id session);
         reasons = session_reasons_of (paq_policy request) session replay
     in rbind (model_checked valid_session_acceptance (ad_invalid dumps (JStr (sev_session_id session)))
          \<lparr>sac_session_id = sev_session_id session, sac_trading_date = sev_trading_date session,
           sac_clean = (reasons = []), sac_reasons = reasons, sac_analytics_id = spf_analytics_id analytics,
           sac_replay_id = map_option frp_replay_id replay\<rparr>) (\<lambda>record. Inr (analytics, record)))"

definition acceptance_blockers :: "paper_acceptance_request \<Rightarrow> int \<Rightarrow> int \<Rightarrow> rat \<Rightarrow> string list" where
  "acceptance_blockers request session_count filled_orders clean_rate =
     (let policy = paq_policy request in
      code_when (session_count < ay_minimum_sessions policy) ''MINIMUM_SESSION_COUNT_NOT_MET'' @
      code_when (filled_orders < ay_minimum_filled_orders policy) ''MINIMUM_FILLED_ORDER_COUNT_NOT_MET'' @
      code_when (clean_rate < ay_minimum_clean_session_rate policy) ''CLEAN_SESSION_RATE_NOT_MET'' @
      code_when (ay_require_target_acceptance policy \<and> \<not> paq_target_acceptance_verified request)
        ''TARGET_ACCEPTANCE_NOT_VERIFIED'' @
      code_when (ay_require_restore_validation policy \<and> \<not> paq_restore_validation_verified request)
        ''RESTORE_VALIDATION_NOT_VERIFIED'' @
      code_when (int (length (paq_passed_drills request)) < ay_required_drill_count policy)
        ''REQUIRED_DRILLS_NOT_VERIFIED'')"

definition acceptance_status_of ::
    "analytics_policy \<Rightarrow> int \<Rightarrow> int \<Rightarrow> string list \<Rightarrow> acceptance_status" where
  "acceptance_status_of policy session_count filled_orders blockers =
     (if session_count < ay_minimum_sessions policy \<or> filled_orders < ay_minimum_filled_orders policy then AS_COLLECTING
      else if blockers \<noteq> [] then AS_BLOCKED else AS_PAPER_QUALIFIED)"

definition ledger_body ::
    "analytics_dumps \<Rightarrow> paper_acceptance_request \<Rightarrow> session_acceptance list \<Rightarrow> rat \<Rightarrow> aggregate_performance \<Rightarrow> paper_ledger" where
  "ledger_body dumps request records clean_rate performance =
     (let session_count = int (length (paq_sessions request));
          clean_count = int (length (filter sac_clean records));
          filled_orders = sum_list (map sev_orders_filled (paq_sessions request));
          blockers = acceptance_blockers request session_count filled_orders clean_rate;
          status = acceptance_status_of (paq_policy request) session_count filled_orders blockers
      in \<lparr>pal_ledger_id = [], pal_generated_at = paq_generated_at request, pal_status = status,
          pal_paper_ready = (status = AS_PAPER_QUALIFIED), pal_live_ready = False, pal_session_count = session_count,
          pal_clean_session_count = clean_count, pal_filled_order_count = filled_orders,
          pal_clean_session_rate = clean_rate, pal_sessions = records, pal_performance = performance,
          pal_blockers = blockers, pal_policy = paq_policy request,
          pal_configuration_hash = paq_configuration_hash request,
          pal_request_hash = canonical_sha256 (ad_acceptance_request dumps request), pal_ledger_hash = []\<rparr>)"

definition build_paper_acceptance_ledger ::
    "analytics_dumps \<Rightarrow> paper_acceptance_request \<Rightarrow> paper_ledger result" where
  "build_paper_acceptance_ledger dumps request =
     rbind (result_map (accept_session dumps request) (paq_sessions request)) (\<lambda>accepted.
     let records = map snd accepted in
     rbind (mean_of (of_nat (length (filter sac_clean records))) (length (paq_sessions request))) (\<lambda>clean_rate.
     rbind (summarize_sessions (map fst accepted) (Some (concat (map sev_trades (paq_sessions request))))) (\<lambda>summary.
     rbind (model_checked valid_aggregate_performance (ad_invalid dumps JNull) summary) (\<lambda>performance.
     let body = ledger_body dumps request records clean_rate performance;
         ledger_hash = canonical_sha256 (ad_ledger dumps body)
     in model_checked valid_paper_ledger (ad_invalid dumps (ad_ledger dumps body))
          (body\<lparr>pal_ledger_id := ''PL-'' @ take 20 ledger_hash, pal_ledger_hash := ledger_hash\<rparr>)))))"

definition deployment_blockers :: "analytics_dumps \<Rightarrow> deployment_request \<Rightarrow> string list" where
  "deployment_blockers dumps request =
     code_when (deq_tests_passed request \<noteq> deq_tests_collected request) ''TEST_SUITE_NOT_GREEN'' @
     code_when (deq_secret_findings request \<noteq> 0) ''SECRET_FINDINGS_PRESENT'' @
     code_when (canonical_sha256 (paper_ledger_body dumps (deq_paper_ledger request)) \<noteq>
                  pal_ledger_hash (deq_paper_ledger request)) ''PAPER_LEDGER_HASH_INVALID'' @
     code_when (\<not> pal_paper_ready (deq_paper_ledger request)) ''PAPER_LEDGER_NOT_QUALIFIED'' @
     code_when (\<not> deq_target_acceptance_verified request) ''TARGET_ACCEPTANCE_NOT_VERIFIED'' @
     code_when (\<not> deq_restore_validation_verified request) ''RESTORE_VALIDATION_NOT_VERIFIED'' @
     code_when (\<not> deq_required_drills_verified request) ''REQUIRED_DRILLS_NOT_VERIFIED'' @
     code_when (\<not> deq_online_paper_account_verified request) ''ONLINE_PAPER_ACCOUNT_NOT_VERIFIED'' @
     code_when (\<not> deq_postgres_verified request) ''POSTGRES_NOT_VERIFIED'' @
     code_when (\<not> deq_ntp_verified request) ''NTP_NOT_VERIFIED''"

definition deployment_hashes :: "deployment_request \<Rightarrow> (string \<times> string) list" where
  "deployment_hashes request =
     sort
       [(''configuration'', deq_configuration_hash request), (''migrations'', deq_migrations_sha256 request),
        (''paper_ledger'', pal_ledger_hash (deq_paper_ledger request)),
        (''schemas_bundle'', deq_schemas_bundle_sha256 request), (''source_archive'', deq_source_archive_sha256 request),
        (''specification'', deq_specification_sha256 request),
        (''verification_report'', deq_verification_report_sha256 request), (''wheel'', deq_wheel_sha256 request)]"

definition deployment_body :: "analytics_dumps \<Rightarrow> deployment_request \<Rightarrow> deployment_report" where
  "deployment_body dumps request =
     (let blockers = deployment_blockers dumps request;
          status = (if blockers = [] then DS_PAPER_READY else DS_INCOMPLETE)
      in \<lparr>der_report_id = [], der_generated_at = deq_generated_at request, der_status = status,
          der_paper_deployment_ready = (status = DS_PAPER_READY), der_live_deployment_ready = False,
          der_blockers = blockers, der_release_version = deq_release_version request,
          der_specification_version = deq_specification_version request,
          der_migration_head = deq_migration_head request, der_configuration_hash = deq_configuration_hash request,
          der_paper_ledger_id = pal_ledger_id (deq_paper_ledger request),
          der_paper_ledger_hash = pal_ledger_hash (deq_paper_ledger request),
          der_tests_collected = deq_tests_collected request, der_tests_passed = deq_tests_passed request,
          der_schema_count = deq_schema_count request, der_secret_findings = deq_secret_findings request,
          der_evidence_hashes = deployment_hashes request,
          der_request_hash = canonical_sha256 (ad_deployment_request dumps request), der_report_hash = []\<rparr>)"

definition build_deployment_evidence_report ::
    "analytics_dumps \<Rightarrow> deployment_request \<Rightarrow> deployment_report result" where
  "build_deployment_evidence_report dumps request =
     (let body = deployment_body dumps request; report_hash = canonical_sha256 (ad_deployment dumps body)
      in model_checked valid_deployment_report (ad_invalid dumps (ad_deployment dumps body))
           (body\<lparr>der_report_id := ''DE-'' @ take 20 report_hash, der_report_hash := report_hash\<rparr>))"

section \<open>daybreak\_analytics/persistence.py, MemoryAnalyticsRepository\<close>

record analytics_repository =
  ar_session_performance :: "(string, session_performance) dict"
  ar_replay_reports :: "(string, full_replay_report) dict"
  ar_paper_ledgers :: "(string, paper_ledger) dict"
  ar_deployment_reports :: "(string, deployment_report) dict"

definition empty_analytics_repository :: analytics_repository where
  "empty_analytics_repository =
     \<lparr>ar_session_performance = [], ar_replay_reports = [], ar_paper_ledgers = [], ar_deployment_reports = []\<rparr>"

definition save_session_performance :: "session_performance \<Rightarrow> analytics_repository \<Rightarrow> analytics_repository" where
  "save_session_performance v s =
     s\<lparr>ar_session_performance := setdefault (spf_analytics_id v) v (ar_session_performance s)\<rparr>"

definition save_replay_report :: "full_replay_report \<Rightarrow> analytics_repository \<Rightarrow> analytics_repository" where
  "save_replay_report v s = s\<lparr>ar_replay_reports := setdefault (frp_replay_id v) v (ar_replay_reports s)\<rparr>"

definition save_paper_ledger :: "paper_ledger \<Rightarrow> analytics_repository \<Rightarrow> analytics_repository" where
  "save_paper_ledger v s = s\<lparr>ar_paper_ledgers := setdefault (pal_ledger_id v) v (ar_paper_ledgers s)\<rparr>"

definition save_deployment_report :: "deployment_report \<Rightarrow> analytics_repository \<Rightarrow> analytics_repository" where
  "save_deployment_report v s =
     s\<lparr>ar_deployment_reports := setdefault (der_report_id v) v (ar_deployment_reports s)\<rparr>"

definition get_session_performance :: "string \<Rightarrow> analytics_repository \<Rightarrow> session_performance option" where
  "get_session_performance session_id s =
     List.find (\<lambda>v. spf_session_id v = session_id) (dict_values (ar_session_performance s))"

text \<open>\<open>max(values, key=...)\<close>, the first of the largest.\<close>

definition get_latest_paper_ledger :: "analytics_repository \<Rightarrow> paper_ledger option" where
  "get_latest_paper_ledger s =
     (case dict_values (ar_paper_ledgers s) of
        [] \<Rightarrow> None
      | l # ls \<Rightarrow> Some (foldl (\<lambda>best x. if pal_generated_at best < pal_generated_at x then x else best) l ls))"

interpretation session_performances:
  first_write_store "\<lambda>s. map_of (ar_session_performance s)" spf_analytics_id save_session_performance
  by unfold_locales (auto simp: save_session_performance_def split: option.splits)

interpretation replay_reports: first_write_store "\<lambda>s. map_of (ar_replay_reports s)" frp_replay_id save_replay_report
  by unfold_locales (auto simp: save_replay_report_def split: option.splits)

interpretation paper_ledgers: first_write_store "\<lambda>s. map_of (ar_paper_ledgers s)" pal_ledger_id save_paper_ledger
  by unfold_locales (auto simp: save_paper_ledger_def split: option.splits)

interpretation deployment_reports:
  first_write_store "\<lambda>s. map_of (ar_deployment_reports s)" der_report_id save_deployment_report
  by unfold_locales (auto simp: save_deployment_report_def split: option.splits)

end
