(* ===== verification/Release_Models.thy ===== *)
theory Release_Models
  imports Analytics
begin

text \<open>
  The data of the release review (\<open>daybreak_release/enums.py\<close>, \<open>models.py\<close>): the evidence manifest,
  the attestation of the build, the frozen configuration, findings and approvals, the evidence of
  a rollback, and the request that binds them with the ledger and the evidence of a deployment.
\<close>

section \<open>daybreak\_release/enums.py\<close>

datatype review_severity = RV_INFO | RV_LOW | RV_MEDIUM | RV_HIGH | RV_CRITICAL

datatype finding_status = FS_OPEN | FS_RESOLVED

datatype approval_role = AR_ENGINEERING | AR_OPERATIONS | AR_RISK | AR_SECURITY | AR_INDEPENDENT_REVIEW

fun approval_role_value :: "approval_role \<Rightarrow> string" where
  "approval_role_value AR_ENGINEERING = ''engineering''"
| "approval_role_value AR_OPERATIONS = ''operations''"
| "approval_role_value AR_RISK = ''risk''"
| "approval_role_value AR_SECURITY = ''security''"
| "approval_role_value AR_INDEPENDENT_REVIEW = ''independent_review''"

lemma approval_role_value_inject: "approval_role_value x = approval_role_value y \<longleftrightarrow> x = y"
  by (cases x; cases y) simp_all

datatype candidate_status = CD_INCOMPLETE | CD_BLOCKED | CD_PAPER_RELEASE_CANDIDATE

section \<open>daybreak\_release/models.py\<close>

record candidate_policy =
  pcp_policy_version :: string
  pcp_release_version :: string
  pcp_specification_version :: string
  pcp_mode :: string
  pcp_expected_migration_head :: string
  pcp_minimum_tests_collected :: int
  pcp_minimum_schema_count :: int
  pcp_require_clean_install :: bool
  pcp_require_extracted_source_test :: bool
  pcp_require_python_compile :: bool
  pcp_require_wheel_smoke_test :: bool
  pcp_require_zero_secret_findings :: bool
  pcp_require_paper_ledger :: bool
  pcp_require_deployment_evidence :: bool
  pcp_require_rollback_validation :: bool
  pcp_require_independent_review :: bool
  pcp_required_approval_roles :: "approval_role list"
  pcp_maximum_open_medium_findings :: int
  pcp_maximum_open_high_findings :: int
  pcp_maximum_open_critical_findings :: int
  pcp_allow_live_capital_certification :: bool

definition default_candidate_policy :: candidate_policy where
  "default_candidate_policy =
     \<lparr>pcp_policy_version = ''production_candidate_policy_v1'', pcp_release_version = ''1.0.2'',
      pcp_specification_version = ''6.3'', pcp_mode = ''paper'', pcp_expected_migration_head = ''0009_phase9_release'',
      pcp_minimum_tests_collected = 250, pcp_minimum_schema_count = 47, pcp_require_clean_install = True,
      pcp_require_extracted_source_test = True, pcp_require_python_compile = True, pcp_require_wheel_smoke_test = True,
      pcp_require_zero_secret_findings = True, pcp_require_paper_ledger = True, pcp_require_deployment_evidence = True,
      pcp_require_rollback_validation = True, pcp_require_independent_review = True,
      pcp_required_approval_roles = [AR_ENGINEERING, AR_INDEPENDENT_REVIEW, AR_OPERATIONS, AR_RISK, AR_SECURITY],
      pcp_maximum_open_medium_findings = 0, pcp_maximum_open_high_findings = 0,
      pcp_maximum_open_critical_findings = 0, pcp_allow_live_capital_certification = False\<rparr>"

text \<open>\<open>tuple(sorted(set(roles), key=value)) == roles\<close>.\<close>

definition roles_sorted_unique :: "approval_role list \<Rightarrow> bool" where
  "roles_sorted_unique roles \<longleftrightarrow> sort_key approval_role_value (remdups roles) = roles"

definition valid_candidate_policy :: "candidate_policy \<Rightarrow> bool" where
  "valid_candidate_policy p \<longleftrightarrow>
     pcp_policy_version p = ''production_candidate_policy_v1'' \<and> pcp_release_version p = ''1.0.2'' \<and>
     pcp_specification_version p = ''6.3'' \<and> pcp_mode p = ''paper'' \<and>
     pcp_expected_migration_head p = ''0009_phase9_release'' \<and> 1 \<le> pcp_minimum_tests_collected p \<and>
     1 \<le> pcp_minimum_schema_count p \<and> pcp_require_clean_install p \<and> pcp_require_extracted_source_test p \<and>
     pcp_require_python_compile p \<and> pcp_require_wheel_smoke_test p \<and> pcp_require_zero_secret_findings p \<and>
     pcp_require_paper_ledger p \<and> pcp_require_deployment_evidence p \<and> pcp_require_rollback_validation p \<and>
     pcp_require_independent_review p \<and> roles_sorted_unique (pcp_required_approval_roles p) \<and>
     0 \<le> pcp_maximum_open_medium_findings p \<and> pcp_maximum_open_high_findings p = 0 \<and>
     pcp_maximum_open_critical_findings p = 0 \<and> \<not> pcp_allow_live_capital_certification p"

record artifact_evidence =
  afe_name :: string
  afe_sha256 :: string
  afe_size_bytes :: int
  afe_required :: bool

text \<open>The pattern \<open>^[a-z][a-z0-9_]{1,63}$\<close>.\<close>

fun artifact_name :: "string \<Rightarrow> bool" where
  "artifact_name [] \<longleftrightarrow> False"
| "artifact_name (c # cs) \<longleftrightarrow>
     CHR ''a'' \<le> c \<and> c \<le> CHR ''z'' \<and> 1 \<le> length cs \<and> length cs \<le> 63 \<and>
     list_all (\<lambda>x. (CHR ''a'' \<le> x \<and> x \<le> CHR ''z'') \<or> (CHR ''0'' \<le> x \<and> x \<le> CHR ''9'') \<or> x = CHR ''_'') cs"

definition valid_artifact :: "artifact_evidence \<Rightarrow> bool" where
  "valid_artifact a \<longleftrightarrow> artifact_name (afe_name a) \<and> valid_hash (afe_sha256 a) \<and> 0 < afe_size_bytes a"

record evidence_manifest =
  emf_generated_at :: timestamp
  emf_artifacts :: "artifact_evidence list"
  emf_manifest_hash :: string

definition artifacts_sorted_unique :: "artifact_evidence list \<Rightarrow> string option" where
  "artifacts_sorted_unique artifacts =
     (if \<not> sorted_by afe_name artifacts then Some ''artifacts must be sorted by name''
      else if \<not> distinct (map afe_name artifacts) then Some ''artifact names must be unique'' else None)"

definition valid_manifest :: "evidence_manifest \<Rightarrow> bool" where
  "valid_manifest m \<longleftrightarrow>
     list_all valid_artifact (emf_artifacts m) \<and> artifacts_sorted_unique (emf_artifacts m) = None \<and>
     valid_hash (emf_manifest_hash m)"

record build_attestation =
  bat_generated_at :: timestamp
  bat_release_version :: string
  bat_specification_version :: string
  bat_migration_head :: string
  bat_tests_collected :: int
  bat_tests_passed :: int
  bat_schema_count :: int
  bat_secret_findings :: int
  bat_clean_install_passed :: bool
  bat_extracted_source_test_passed :: bool
  bat_python_compile_passed :: bool
  bat_wheel_smoke_test_passed :: bool
  bat_source_archive_sha256 :: string
  bat_wheel_sha256 :: string
  bat_migrations_sha256 :: string
  bat_schemas_bundle_sha256 :: string
  bat_verification_report_sha256 :: string
  bat_attestation_hash :: string

definition coherent_build :: "build_attestation \<Rightarrow> string option" where
  "coherent_build b =
     (if bat_tests_passed b > bat_tests_collected b then Some ''passed tests cannot exceed collected tests'' else None)"

definition valid_build :: "build_attestation \<Rightarrow> bool" where
  "valid_build b \<longleftrightarrow>
     bat_release_version b = ''1.0.2'' \<and> bat_specification_version b = ''6.3'' \<and>
     bat_migration_head b = ''0009_phase9_release'' \<and> 0 < bat_tests_collected b \<and> 0 \<le> bat_tests_passed b \<and>
     0 < bat_schema_count b \<and> 0 \<le> bat_secret_findings b \<and>
     list_all valid_hash
       [bat_source_archive_sha256 b, bat_wheel_sha256 b, bat_migrations_sha256 b, bat_schemas_bundle_sha256 b,
        bat_verification_report_sha256 b, bat_attestation_hash b] \<and> coherent_build b = None"

record configuration_freeze =
  cfz_frozen_at :: timestamp
  cfz_release_version :: string
  cfz_specification_version :: string
  cfz_environment :: string
  cfz_live_execution_enabled :: bool
  cfz_configuration_hash :: string
  cfz_specification_sha256 :: string
  cfz_migration_head :: string
  cfz_component_versions :: "(string \<times> string) list"
  cfz_freeze_hash :: string

definition components_sorted_unique :: "(string \<times> string) list \<Rightarrow> string option" where
  "components_sorted_unique versions =
     (if sort versions \<noteq> versions then Some ''component versions must be sorted''
      else if \<not> distinct (map fst versions) then Some ''component version names must be unique'' else None)"

definition valid_freeze :: "configuration_freeze \<Rightarrow> bool" where
  "valid_freeze f \<longleftrightarrow>
     cfz_release_version f = ''1.0.2'' \<and> cfz_specification_version f = ''6.3'' \<and> cfz_environment f = ''paper'' \<and>
     \<not> cfz_live_execution_enabled f \<and> valid_hash (cfz_configuration_hash f) \<and> valid_hash (cfz_specification_sha256 f) \<and>
     cfz_migration_head f = ''0009_phase9_release'' \<and> components_sorted_unique (cfz_component_versions f) = None \<and>
     valid_hash (cfz_freeze_hash f)"

record review_finding =
  rfd_finding_id :: string
  rfd_severity :: review_severity
  rfd_status :: finding_status
  rfd_category :: string
  rfd_title :: string
  rfd_owner :: string
  rfd_evidence_refs :: "string list"

definition valid_finding :: "review_finding \<Rightarrow> bool" where
  "valid_finding f \<longleftrightarrow>
     id_of_length 96 (rfd_finding_id f) \<and> 2 \<le> length (rfd_category f) \<and> length (rfd_category f) \<le> 64 \<and>
     4 \<le> length (rfd_title f) \<and> length (rfd_title f) \<le> 240 \<and> 2 \<le> length (rfd_owner f) \<and> length (rfd_owner f) \<le> 128 \<and>
     sort (remdups (rfd_evidence_refs f)) = rfd_evidence_refs f"

record approval_attestation =
  apv_role :: approval_role
  apv_reviewer_id :: string
  apv_approved :: bool
  apv_approved_at :: timestamp
  apv_evidence_package_hash :: string
  apv_comment :: string

definition valid_approval :: "approval_attestation \<Rightarrow> bool" where
  "valid_approval a \<longleftrightarrow>
     2 \<le> length (apv_reviewer_id a) \<and> length (apv_reviewer_id a) \<le> 128 \<and> valid_hash (apv_evidence_package_hash a) \<and>
     length (apv_comment a) \<le> 500"

record rollback_evidence =
  rbk_tested_at :: timestamp
  rbk_backup_restore_verified :: bool
  rbk_previous_wheel_available :: bool
  rbk_previous_source_archive_available :: bool
  rbk_emergency_flatten_verified :: bool
  rbk_database_forward_recovery_verified :: bool
  rbk_rollback_plan_sha256 :: string
  rbk_evidence_hash :: string

definition rollback_verified :: "rollback_evidence \<Rightarrow> bool" where
  "rollback_verified r \<longleftrightarrow>
     rbk_backup_restore_verified r \<and> rbk_previous_wheel_available r \<and> rbk_previous_source_archive_available r \<and>
     rbk_emergency_flatten_verified r \<and> rbk_database_forward_recovery_verified r"

record candidate_request =
  pcq_generated_at :: timestamp
  pcq_policy :: candidate_policy
  pcq_evidence_manifest :: evidence_manifest
  pcq_build_attestation :: build_attestation
  pcq_configuration_freeze :: configuration_freeze
  pcq_paper_ledger :: paper_ledger
  pcq_deployment_evidence :: deployment_report
  pcq_rollback_evidence :: rollback_evidence
  pcq_findings :: "review_finding list"
  pcq_approvals :: "approval_attestation list"
  pcq_independent_review_complete :: bool

text \<open>
  A dictionary made of pairs, where the last value of a key counts, and the equality of two
  dictionaries, which does not depend on the order.
\<close>

definition dict_of :: "('k \<times> 'v) list \<Rightarrow> 'k \<Rightarrow> 'v option" where
  "dict_of kvs = map_of (rev kvs)"

definition same_dict :: "('k \<times> 'v) list \<Rightarrow> ('k \<times> 'v) list \<Rightarrow> bool" where
  "same_dict d e \<longleftrightarrow> list_all (\<lambda>k. dict_of d k = dict_of e k) (map fst d @ map fst e)"

lemma same_dict_iff: "same_dict d e \<longleftrightarrow> dict_of d = dict_of e"
proof
  assume same: "same_dict d e"
  show "dict_of d = dict_of e"
  proof
    fix k
    show "dict_of d k = dict_of e k"
    proof (cases "k \<in> fst ` set d \<union> fst ` set e")
      case True
      then show ?thesis using same by (auto simp: same_dict_def list_all_iff)
    next
      case False
      then have "k \<notin> fst ` set (rev d)" "k \<notin> fst ` set (rev e)" by auto
      then show ?thesis unfolding dict_of_def by (metis map_of_eq_None_iff)
    qed
  qed
qed (simp add: same_dict_def list_all_iff)

text \<open>The first message whose condition holds: a sequence of \<open>if c: raise ValueError(m)\<close>.\<close>

definition first_error :: "(bool \<times> string) list \<Rightarrow> string option" where
  "first_error checks = map_option snd (List.find fst checks)"

lemma first_error_None: "first_error checks = None \<longleftrightarrow> list_all (\<lambda>c. \<not> fst c) checks"
  by (auto simp: first_error_def find_None_iff list_all_iff)

definition artifact_hash :: "evidence_manifest \<Rightarrow> string \<Rightarrow> string option" where
  "artifact_hash m = dict_of (map (\<lambda>a. (afe_name a, afe_sha256 a)) (emf_artifacts m))"

text \<open>The hashes that the manifest and the deployment must bind, from the build and the freeze.\<close>

definition expected_artifact_hashes :: "candidate_request \<Rightarrow> (string \<times> string) list" where
  "expected_artifact_hashes r =
     [(''source_archive'', bat_source_archive_sha256 (pcq_build_attestation r)),
      (''wheel'', bat_wheel_sha256 (pcq_build_attestation r)),
      (''migrations'', bat_migrations_sha256 (pcq_build_attestation r)),
      (''schemas_bundle'', bat_schemas_bundle_sha256 (pcq_build_attestation r)),
      (''verification_report'', bat_verification_report_sha256 (pcq_build_attestation r)),
      (''specification'', cfz_specification_sha256 (pcq_configuration_freeze r))]"

definition expected_deployment_hashes :: "candidate_request \<Rightarrow> (string \<times> string) list" where
  "expected_deployment_hashes r =
     [(''configuration'', cfz_configuration_hash (pcq_configuration_freeze r)),
      (''migrations'', bat_migrations_sha256 (pcq_build_attestation r)),
      (''paper_ledger'', pal_ledger_hash (pcq_paper_ledger r)),
      (''schemas_bundle'', bat_schemas_bundle_sha256 (pcq_build_attestation r)),
      (''source_archive'', bat_source_archive_sha256 (pcq_build_attestation r)),
      (''specification'', cfz_specification_sha256 (pcq_configuration_freeze r)),
      (''verification_report'', bat_verification_report_sha256 (pcq_build_attestation r)),
      (''wheel'', bat_wheel_sha256 (pcq_build_attestation r))]"

definition evidence_coherent :: "candidate_request \<Rightarrow> string option" where
  "evidence_coherent r =
     (let policy = pcq_policy r; manifest = pcq_evidence_manifest r; build = pcq_build_attestation r;
          freeze = pcq_configuration_freeze r; ledger = pcq_paper_ledger r; deployment = pcq_deployment_evidence r
      in first_error
       (map (\<lambda>(name, expected). (artifact_hash manifest name \<noteq> Some expected,
          ''evidence manifest hash mismatch for '' @ name)) (expected_artifact_hashes r) @
        [(bat_release_version build \<noteq> pcp_release_version policy, ''build release version must match policy''),
         (cfz_release_version freeze \<noteq> pcp_release_version policy,
          ''configuration freeze release version must match policy''),
         (bat_specification_version build \<noteq> pcp_specification_version policy,
          ''build specification version must match policy''),
         (cfz_specification_version freeze \<noteq> pcp_specification_version policy,
          ''configuration freeze specification version must match policy''),
         (pal_configuration_hash ledger \<noteq> cfz_configuration_hash freeze,
          ''paper ledger configuration must match frozen configuration''),
         (der_configuration_hash deployment \<noteq> cfz_configuration_hash freeze,
          ''deployment evidence configuration must match frozen configuration''),
         (der_paper_ledger_id deployment \<noteq> pal_ledger_id ledger,
          ''deployment evidence must reference the supplied paper ledger''),
         (der_paper_ledger_hash deployment \<noteq> pal_ledger_hash ledger,
          ''deployment evidence must bind the supplied paper ledger hash''),
         (der_release_version deployment \<noteq> pcp_release_version policy, ''deployment release version must match policy''),
         (der_specification_version deployment \<noteq> pcp_specification_version policy,
          ''deployment specification version must match policy''),
         (der_migration_head deployment \<noteq> pcp_expected_migration_head policy,
          ''deployment migration head must match policy''),
         (\<not> same_dict (der_evidence_hashes deployment) (expected_deployment_hashes r),
          ''deployment evidence hashes must match the release evidence chain''),
         (der_tests_collected deployment \<noteq> bat_tests_collected build,
          ''deployment test count must match build attestation''),
         (der_tests_passed deployment \<noteq> bat_tests_passed build,
          ''deployment passed-test count must match build attestation''),
         (der_schema_count deployment \<noteq> bat_schema_count build,
          ''deployment schema count must match build attestation''),
         (der_secret_findings deployment \<noteq> bat_secret_findings build,
          ''deployment secret findings must match build attestation''),
         (list_ex (\<lambda>a. apv_evidence_package_hash a \<noteq> emf_manifest_hash manifest) (pcq_approvals r),
          ''all approvals must attest the evidence manifest hash''),
         (list_ex (\<lambda>a. apv_approved_at a < emf_generated_at manifest) (pcq_approvals r),
          ''approvals cannot predate the evidence manifest''),
         (list_ex (\<lambda>a. apv_approved_at a > pcq_generated_at r) (pcq_approvals r),
          ''approvals cannot postdate the candidate request'')]))"

definition findings_sorted_unique :: "review_finding list \<Rightarrow> string option" where
  "findings_sorted_unique findings =
     (if \<not> sorted_by rfd_finding_id findings then Some ''findings must be sorted by finding id''
      else if \<not> distinct (map rfd_finding_id findings) then Some ''finding ids must be unique'' else None)"

definition approvals_sorted_unique :: "approval_attestation list \<Rightarrow> string option" where
  "approvals_sorted_unique approvals =
     (if \<not> sorted_by (\<lambda>a. approval_role_value (apv_role a)) approvals then Some ''approvals must be sorted by role''
      else if \<not> distinct (map apv_role approvals) then Some ''approval roles must be unique'' else None)"

definition valid_candidate_request :: "candidate_request \<Rightarrow> bool" where
  "valid_candidate_request r \<longleftrightarrow>
     valid_candidate_policy (pcq_policy r) \<and> valid_manifest (pcq_evidence_manifest r) \<and>
     valid_build (pcq_build_attestation r) \<and> valid_freeze (pcq_configuration_freeze r) \<and>
     valid_paper_ledger (pcq_paper_ledger r) \<and> valid_deployment_report (pcq_deployment_evidence r) \<and>
     valid_hash (rbk_rollback_plan_sha256 (pcq_rollback_evidence r)) \<and>
     valid_hash (rbk_evidence_hash (pcq_rollback_evidence r)) \<and> list_all valid_finding (pcq_findings r) \<and>
     list_all valid_approval (pcq_approvals r) \<and> findings_sorted_unique (pcq_findings r) = None \<and>
     approvals_sorted_unique (pcq_approvals r) = None \<and> evidence_coherent r = None"

record review_summary =
  rsm_finding_count :: int
  rsm_open_info_count :: int
  rsm_open_low_count :: int
  rsm_open_medium_count :: int
  rsm_open_high_count :: int
  rsm_open_critical_count :: int
  rsm_approved_roles :: "approval_role list"
  rsm_missing_roles :: "approval_role list"

definition valid_review_summary :: "review_summary \<Rightarrow> bool" where
  "valid_review_summary s \<longleftrightarrow>
     0 \<le> rsm_finding_count s \<and> 0 \<le> rsm_open_info_count s \<and> 0 \<le> rsm_open_low_count s \<and> 0 \<le> rsm_open_medium_count s \<and>
     0 \<le> rsm_open_high_count s \<and> 0 \<le> rsm_open_critical_count s \<and> roles_sorted_unique (rsm_approved_roles s) \<and>
     roles_sorted_unique (rsm_missing_roles s)"

record candidate_report =
  pcr_report_id :: string
  pcr_generated_at :: timestamp
  pcr_status :: candidate_status
  pcr_paper_release_candidate :: bool
  pcr_live_capital_eligible :: bool
  pcr_blockers :: "string list"
  pcr_warnings :: "string list"
  pcr_release_version :: string
  pcr_specification_version :: string
  pcr_configuration_hash :: string
  pcr_evidence_manifest_hash :: string
  pcr_build_attestation_hash :: string
  pcr_configuration_freeze_hash :: string
  pcr_paper_ledger_id :: string
  pcr_deployment_report_id :: string
  pcr_review_summary :: review_summary
  pcr_request_hash :: string
  pcr_report_hash :: string

definition coherent_candidate :: "candidate_report \<Rightarrow> string option" where
  "coherent_candidate r =
     (if pcr_paper_release_candidate r \<noteq> (pcr_status r = CD_PAPER_RELEASE_CANDIDATE)
      then Some ''paper candidate flag must match candidate status''
      else if pcr_paper_release_candidate r \<and> pcr_blockers r \<noteq> []
      then Some ''paper release candidate cannot contain blockers'' else None)"

definition valid_candidate_report :: "candidate_report \<Rightarrow> bool" where
  "valid_candidate_report r \<longleftrightarrow>
     id_of_length 96 (pcr_report_id r) \<and> \<not> pcr_live_capital_eligible r \<and> pcr_release_version r = ''1.0.2'' \<and>
     pcr_specification_version r = ''6.3'' \<and>
     list_all valid_hash
       [pcr_configuration_hash r, pcr_evidence_manifest_hash r, pcr_build_attestation_hash r,
        pcr_configuration_freeze_hash r, pcr_request_hash r, pcr_report_hash r] \<and>
     id_of_length 96 (pcr_paper_ledger_id r) \<and> id_of_length 96 (pcr_deployment_report_id r) \<and>
     valid_review_summary (pcr_review_summary r) \<and> coherent_candidate r = None"

end
