(* ===== verification/Release.thy ===== *)
theory Release
  imports Release_Models
begin

text \<open>
  The release review: the manifest of the evidence files (\<open>daybreak_release/evidence.py\<close>), the freeze
  of the configuration (\<open>freeze.py\<close>), the review of a candidate (\<open>review.py\<close>) and the repository in
  memory (\<open>persistence.py\<close>). The files, the settings and the JSON documents of the models are
  parameters.
\<close>

record release_dumps =
  rl_request :: "candidate_request \<Rightarrow> json"
  rl_manifest :: "evidence_manifest \<Rightarrow> json"
  rl_build :: "build_attestation \<Rightarrow> json"
  rl_freeze :: "configuration_freeze \<Rightarrow> json"
  rl_rollback :: "rollback_evidence \<Rightarrow> json"
  rl_report :: "candidate_report \<Rightarrow> json"
  rl_invalid :: "json \<Rightarrow> string"

section \<open>daybreak\_release/evidence.py\<close>

text \<open>
  \<open>file_sha256\<close> of \<open>daybreak/core/hashing.py\<close> reads the file in chunks; the digest is that of the
  whole content, its bytes as characters.
\<close>

definition file_sha256 :: "string \<Rightarrow> string" where
  "file_sha256 content = sha256_hexdigest content"

text \<open>The files are a function from a path to the content, which is missing if there is no file.\<close>

definition artifact_of :: "release_dumps \<Rightarrow> (string \<Rightarrow> string option) \<Rightarrow> string \<times> string \<Rightarrow> exn + artifact_evidence" where
  "artifact_of dumps files entry =
     (case files (snd entry) of
        None \<Rightarrow> Inl (''FileNotFoundError'', snd entry)
      | Some content \<Rightarrow>
          map_sum exn_of id (model_checked valid_artifact (rl_invalid dumps (JStr (fst entry)))
            \<lparr>afe_name = fst entry, afe_sha256 = file_sha256 content, afe_size_bytes = int (length content),
             afe_required = True\<rparr>))"

fun artifacts_of ::
    "release_dumps \<Rightarrow> (string \<Rightarrow> string option) \<Rightarrow> (string \<times> string) list \<Rightarrow> exn + artifact_evidence list" where
  "artifacts_of dumps files [] = Inr []"
| "artifacts_of dumps files (entry # entries) =
     (case artifact_of dumps files entry of
        Inl e \<Rightarrow> Inl e
      | Inr a \<Rightarrow> map_sum id (Cons a) (artifacts_of dumps files entries))"

definition build_evidence_manifest ::
    "release_dumps \<Rightarrow> (string \<Rightarrow> string option) \<Rightarrow> (string \<times> string) list \<Rightarrow> timestamp \<Rightarrow> exn + evidence_manifest" where
  "build_evidence_manifest dumps files paths generated_at =
     (case artifacts_of dumps files (sort_key fst paths) of
        Inl e \<Rightarrow> Inl e
      | Inr artifacts \<Rightarrow>
          let body = \<lparr>emf_generated_at = generated_at, emf_artifacts = artifacts, emf_manifest_hash = []\<rparr>
          in map_sum exn_of id (model_checked valid_manifest (rl_invalid dumps (rl_manifest dumps body))
               (body\<lparr>emf_manifest_hash := canonical_sha256 (rl_manifest dumps body)\<rparr>)))"

section \<open>daybreak\_release/freeze.py\<close>

text \<open>What the freeze reads of the settings.\<close>

record release_settings =
  rse_environment_is_paper :: bool
  rse_live_execution_enabled :: bool
  rse_configuration_hash :: string

definition build_configuration_freeze ::
    "release_dumps \<Rightarrow> release_settings \<Rightarrow> string \<Rightarrow> (string \<times> string) list \<Rightarrow> timestamp \<Rightarrow> configuration_freeze result" where
  "build_configuration_freeze dumps settings specification component_versions frozen_at =
     (if \<not> rse_environment_is_paper settings
      then Inl (ValueError ''production candidate configuration must use the paper environment'')
      else if rse_live_execution_enabled settings then Inl (ValueError ''live execution must remain disabled'')
      else
        let body = \<lparr>cfz_frozen_at = frozen_at, cfz_release_version = ''1.0.2'', cfz_specification_version = ''6.3'',
              cfz_environment = ''paper'', cfz_live_execution_enabled = False,
              cfz_configuration_hash = rse_configuration_hash settings,
              cfz_specification_sha256 = file_sha256 specification, cfz_migration_head = ''0009_phase9_release'',
              cfz_component_versions = sort component_versions, cfz_freeze_hash = []\<rparr>
        in model_checked valid_freeze (rl_invalid dumps (rl_freeze dumps body))
             (body\<lparr>cfz_freeze_hash := canonical_sha256 (rl_freeze dumps body)\<rparr>))"

section \<open>daybreak\_release/review.py\<close>

definition REQUIRED_ARTIFACTS :: "string list" where
  "REQUIRED_ARTIFACTS =
     [''migrations'', ''schemas_bundle'', ''source_archive'', ''specification'', ''verification_report'', ''wheel'']"

definition manifest_blockers :: "release_dumps \<Rightarrow> candidate_request \<Rightarrow> string list" where
  "manifest_blockers dumps request =
     (let manifest = pcq_evidence_manifest request; names = map afe_name (emf_artifacts manifest) in
      code_when (canonical_sha256 (rl_manifest dumps (manifest\<lparr>emf_manifest_hash := []\<rparr>)) \<noteq> emf_manifest_hash manifest)
        ''EVIDENCE_MANIFEST_HASH_INVALID'' @
      code_when (list_ex (\<lambda>n. n \<notin> set names) REQUIRED_ARTIFACTS) ''REQUIRED_ARTIFACTS_MISSING'' @
      code_when (list_ex (\<lambda>a. afe_required a \<and> afe_size_bytes a \<le> 0) (emf_artifacts manifest))
        ''REQUIRED_ARTIFACT_EMPTY'')"

definition build_blockers :: "release_dumps \<Rightarrow> candidate_request \<Rightarrow> string list" where
  "build_blockers dumps request =
     (let build = pcq_build_attestation request; policy = pcq_policy request in
      code_when (canonical_sha256 (rl_build dumps (build\<lparr>bat_attestation_hash := []\<rparr>)) \<noteq> bat_attestation_hash build)
        ''BUILD_ATTESTATION_HASH_INVALID'' @
      code_when (bat_tests_collected build < pcp_minimum_tests_collected policy) ''MINIMUM_TEST_COUNT_NOT_MET'' @
      code_when (bat_tests_passed build \<noteq> bat_tests_collected build) ''TEST_SUITE_NOT_GREEN'' @
      code_when (bat_schema_count build < pcp_minimum_schema_count policy) ''MINIMUM_SCHEMA_COUNT_NOT_MET'' @
      code_when (pcp_require_zero_secret_findings policy \<and> bat_secret_findings build \<noteq> 0) ''SECRET_FINDINGS_PRESENT'' @
      code_when (pcp_require_clean_install policy \<and> \<not> bat_clean_install_passed build) ''CLEAN_INSTALL_NOT_VERIFIED'' @
      code_when (pcp_require_extracted_source_test policy \<and> \<not> bat_extracted_source_test_passed build)
        ''EXTRACTED_SOURCE_TEST_NOT_VERIFIED'' @
      code_when (pcp_require_python_compile policy \<and> \<not> bat_python_compile_passed build) ''PYTHON_COMPILE_NOT_VERIFIED'' @
      code_when (pcp_require_wheel_smoke_test policy \<and> \<not> bat_wheel_smoke_test_passed build)
        ''WHEEL_SMOKE_TEST_NOT_VERIFIED'' @
      code_when (bat_migration_head build \<noteq> pcp_expected_migration_head policy) ''MIGRATION_HEAD_MISMATCH'' @
      code_when (list_ex (\<lambda>(name, expected). artifact_hash (pcq_evidence_manifest request) name \<noteq> Some expected)
          (expected_artifact_hashes request)) ''EVIDENCE_MANIFEST_CHAIN_MISMATCH'')"

definition freeze_blockers :: "release_dumps \<Rightarrow> candidate_request \<Rightarrow> string list" where
  "freeze_blockers dumps request =
     (let freeze = pcq_configuration_freeze request; build = pcq_build_attestation request; policy = pcq_policy request in
      code_when (canonical_sha256 (rl_freeze dumps (freeze\<lparr>cfz_freeze_hash := []\<rparr>)) \<noteq> cfz_freeze_hash freeze)
        ''CONFIGURATION_FREEZE_HASH_INVALID'' @
      code_when (cfz_migration_head freeze \<noteq> pcp_expected_migration_head policy)
        ''CONFIGURATION_FREEZE_MIGRATION_HEAD_MISMATCH'' @
      code_when (cfz_environment freeze \<noteq> ''paper'' \<or> cfz_live_execution_enabled freeze) ''CONFIGURATION_NOT_PAPER_ONLY'' @
      code_when (bat_release_version build \<noteq> pcp_release_version policy \<or>
          cfz_release_version freeze \<noteq> pcp_release_version policy \<or>
          bat_specification_version build \<noteq> pcp_specification_version policy \<or>
          cfz_specification_version freeze \<noteq> pcp_specification_version policy) ''RELEASE_METADATA_MISMATCH'')"

definition ledger_blockers :: "analytics_dumps \<Rightarrow> candidate_request \<Rightarrow> string list" where
  "ledger_blockers analytics request =
     (let ledger = pcq_paper_ledger request; deployment = pcq_deployment_evidence request; policy = pcq_policy request in
      code_when (pcp_require_paper_ledger policy \<and> \<not> pal_paper_ready ledger) ''PAPER_LEDGER_NOT_QUALIFIED'' @
      code_when (canonical_sha256 (paper_ledger_body analytics ledger) \<noteq> pal_ledger_hash ledger)
        ''PAPER_LEDGER_HASH_INVALID'' @
      code_when (pal_ledger_id ledger \<noteq> ''PL-'' @ take 20 (pal_ledger_hash ledger)) ''PAPER_LEDGER_ID_INVALID'' @
      code_when (pcp_require_deployment_evidence policy \<and> \<not> der_paper_deployment_ready deployment)
        ''PAPER_DEPLOYMENT_EVIDENCE_NOT_QUALIFIED'' @
      code_when (canonical_sha256 (deployment_report_body analytics deployment) \<noteq> der_report_hash deployment)
        ''DEPLOYMENT_EVIDENCE_HASH_INVALID'' @
      code_when (der_report_id deployment \<noteq> ''DE-'' @ take 20 (der_report_hash deployment))
        ''DEPLOYMENT_EVIDENCE_ID_INVALID'' @
      code_when (der_live_deployment_ready deployment) ''INVALID_LIVE_DEPLOYMENT_EVIDENCE'')"

definition chain_blockers :: "release_dumps \<Rightarrow> candidate_request \<Rightarrow> string list" where
  "chain_blockers dumps request =
     (let ledger = pcq_paper_ledger request; deployment = pcq_deployment_evidence request; policy = pcq_policy request;
          freeze = pcq_configuration_freeze request; build = pcq_build_attestation request;
          rollback = pcq_rollback_evidence request
      in
      code_when (der_configuration_hash deployment \<noteq> cfz_configuration_hash freeze \<or>
          pal_configuration_hash ledger \<noteq> cfz_configuration_hash freeze \<or>
          der_paper_ledger_id deployment \<noteq> pal_ledger_id ledger \<or>
          der_paper_ledger_hash deployment \<noteq> pal_ledger_hash ledger \<or>
          der_release_version deployment \<noteq> pcp_release_version policy \<or>
          der_specification_version deployment \<noteq> pcp_specification_version policy \<or>
          der_migration_head deployment \<noteq> pcp_expected_migration_head policy \<or>
          \<not> same_dict (der_evidence_hashes deployment) (expected_deployment_hashes request) \<or>
          der_tests_collected deployment \<noteq> bat_tests_collected build \<or>
          der_tests_passed deployment \<noteq> bat_tests_passed build \<or>
          der_schema_count deployment \<noteq> bat_schema_count build \<or>
          der_secret_findings deployment \<noteq> bat_secret_findings build) ''DEPLOYMENT_EVIDENCE_CHAIN_MISMATCH'' @
      code_when (canonical_sha256 (rl_rollback dumps (rollback\<lparr>rbk_evidence_hash := []\<rparr>)) \<noteq> rbk_evidence_hash rollback)
        ''ROLLBACK_EVIDENCE_HASH_INVALID'' @
      code_when (pcp_require_rollback_validation policy \<and> \<not> rollback_verified rollback) ''ROLLBACK_EVIDENCE_NOT_VERIFIED'' @
      code_when (pcp_require_independent_review policy \<and> \<not> pcq_independent_review_complete request)
        ''INDEPENDENT_REVIEW_INCOMPLETE'')"

definition open_count :: "candidate_request \<Rightarrow> review_severity \<Rightarrow> int" where
  "open_count request severity =
     int (length (filter (\<lambda>f. rfd_status f = FS_OPEN \<and> rfd_severity f = severity) (pcq_findings request)))"

definition finding_blockers :: "candidate_request \<Rightarrow> string list" where
  "finding_blockers request =
     (let policy = pcq_policy request in
      code_when (open_count request RV_MEDIUM > pcp_maximum_open_medium_findings policy)
        ''OPEN_MEDIUM_FINDINGS_EXCEED_POLICY'' @
      code_when (open_count request RV_HIGH > pcp_maximum_open_high_findings policy) ''OPEN_HIGH_FINDINGS_PRESENT'' @
      code_when (open_count request RV_CRITICAL > pcp_maximum_open_critical_findings policy)
        ''OPEN_CRITICAL_FINDINGS_PRESENT'')"

definition review_warnings :: "candidate_request \<Rightarrow> string list" where
  "review_warnings request =
     code_when (open_count request RV_LOW \<noteq> 0) ''OPEN_LOW_FINDINGS_PRESENT'' @
     code_when (open_count request RV_INFO \<noteq> 0) ''OPEN_INFORMATIONAL_FINDINGS_PRESENT''"

definition approved_roles_of :: "candidate_request \<Rightarrow> approval_role list" where
  "approved_roles_of request = sort_key approval_role_value (map apv_role (filter apv_approved (pcq_approvals request)))"

definition missing_roles_of :: "candidate_request \<Rightarrow> approval_role list" where
  "missing_roles_of request =
     sort_key approval_role_value
       (filter (\<lambda>role. role \<notin> set (approved_roles_of request)) (remdups (pcp_required_approval_roles (pcq_policy request))))"

definition approval_blockers :: "candidate_request \<Rightarrow> string list" where
  "approval_blockers request =
     (let manifest = pcq_evidence_manifest request in
      code_when (missing_roles_of request \<noteq> []) ''REQUIRED_APPROVALS_MISSING'' @
      code_when (list_ex (\<lambda>a. \<not> apv_approved a) (pcq_approvals request)) ''EXPLICIT_APPROVAL_REJECTION_PRESENT'' @
      code_when (list_ex (\<lambda>a. apv_evidence_package_hash a \<noteq> emf_manifest_hash manifest) (pcq_approvals request))
        ''APPROVAL_EVIDENCE_CHAIN_MISMATCH'' @
      code_when (list_ex (\<lambda>a. apv_approved_at a < emf_generated_at manifest \<or> apv_approved_at a > pcq_generated_at request)
          (pcq_approvals request)) ''APPROVAL_TIMESTAMP_INVALID'')"

definition review_blockers :: "release_dumps \<Rightarrow> analytics_dumps \<Rightarrow> candidate_request \<Rightarrow> string list" where
  "review_blockers dumps analytics request =
     manifest_blockers dumps request @ build_blockers dumps request @ freeze_blockers dumps request @
     ledger_blockers analytics request @ chain_blockers dumps request @ finding_blockers request @
     approval_blockers request"

definition review_summary_of :: "candidate_request \<Rightarrow> review_summary" where
  "review_summary_of request =
     \<lparr>rsm_finding_count = int (length (pcq_findings request)), rsm_open_info_count = open_count request RV_INFO,
      rsm_open_low_count = open_count request RV_LOW, rsm_open_medium_count = open_count request RV_MEDIUM,
      rsm_open_high_count = open_count request RV_HIGH, rsm_open_critical_count = open_count request RV_CRITICAL,
      rsm_approved_roles = approved_roles_of request, rsm_missing_roles = missing_roles_of request\<rparr>"

definition EXPLICIT_FAILURE_CODES :: "string list" where
  "EXPLICIT_FAILURE_CODES =
     [''TEST_SUITE_NOT_GREEN'', ''SECRET_FINDINGS_PRESENT'', ''CONFIGURATION_NOT_PAPER_ONLY'',
      ''INVALID_LIVE_DEPLOYMENT_EVIDENCE'', ''OPEN_HIGH_FINDINGS_PRESENT'', ''OPEN_CRITICAL_FINDINGS_PRESENT'',
      ''EXPLICIT_APPROVAL_REJECTION_PRESENT'']"

definition candidate_status_of :: "string list \<Rightarrow> candidate_status" where
  "candidate_status_of blockers =
     (if blockers = [] then CD_PAPER_RELEASE_CANDIDATE
      else if list_ex (\<lambda>b. b \<in> set EXPLICIT_FAILURE_CODES) blockers then CD_BLOCKED else CD_INCOMPLETE)"

definition candidate_body :: "release_dumps \<Rightarrow> analytics_dumps \<Rightarrow> candidate_request \<Rightarrow> candidate_report" where
  "candidate_body dumps analytics request =
     (let blockers = review_blockers dumps analytics request; status = candidate_status_of blockers in
      \<lparr>pcr_report_id = [], pcr_generated_at = pcq_generated_at request, pcr_status = status,
       pcr_paper_release_candidate = (status = CD_PAPER_RELEASE_CANDIDATE), pcr_live_capital_eligible = False,
       pcr_blockers = sort (remdups blockers), pcr_warnings = sort (remdups (review_warnings request)),
       pcr_release_version = pcp_release_version (pcq_policy request),
       pcr_specification_version = pcp_specification_version (pcq_policy request),
       pcr_configuration_hash = cfz_configuration_hash (pcq_configuration_freeze request),
       pcr_evidence_manifest_hash = emf_manifest_hash (pcq_evidence_manifest request),
       pcr_build_attestation_hash = bat_attestation_hash (pcq_build_attestation request),
       pcr_configuration_freeze_hash = cfz_freeze_hash (pcq_configuration_freeze request),
       pcr_paper_ledger_id = pal_ledger_id (pcq_paper_ledger request),
       pcr_deployment_report_id = der_report_id (pcq_deployment_evidence request),
       pcr_review_summary = review_summary_of request, pcr_request_hash = canonical_sha256 (rl_request dumps request),
       pcr_report_hash = []\<rparr>)"

definition review_production_candidate ::
    "release_dumps \<Rightarrow> analytics_dumps \<Rightarrow> candidate_request \<Rightarrow> candidate_report result" where
  "review_production_candidate dumps analytics request =
     rbind (model_checked valid_review_summary (rl_invalid dumps JNull) (review_summary_of request)) (\<lambda>_.
     let body = candidate_body dumps analytics request; report_hash = canonical_sha256 (rl_report dumps body)
     in model_checked valid_candidate_report (rl_invalid dumps (rl_report dumps body))
          (body\<lparr>pcr_report_id := ''PC-'' @ take 20 report_hash, pcr_report_hash := report_hash\<rparr>))"

section \<open>daybreak\_release/persistence.py, MemoryReleaseRepository\<close>

record release_repository =
  rpo_evidence_manifests :: "(string, evidence_manifest) dict"
  rpo_build_attestations :: "(string, build_attestation) dict"
  rpo_configuration_freezes :: "(string, configuration_freeze) dict"
  rpo_candidate_reports :: "(string, candidate_report) dict"

definition empty_release_repository :: release_repository where
  "empty_release_repository =
     \<lparr>rpo_evidence_manifests = [], rpo_build_attestations = [], rpo_configuration_freezes = [], rpo_candidate_reports = []\<rparr>"

definition save_evidence_manifest :: "evidence_manifest \<Rightarrow> release_repository \<Rightarrow> release_repository" where
  "save_evidence_manifest v s =
     s\<lparr>rpo_evidence_manifests := setdefault (emf_manifest_hash v) v (rpo_evidence_manifests s)\<rparr>"

definition save_build_attestation :: "build_attestation \<Rightarrow> release_repository \<Rightarrow> release_repository" where
  "save_build_attestation v s =
     s\<lparr>rpo_build_attestations := setdefault (bat_attestation_hash v) v (rpo_build_attestations s)\<rparr>"

definition save_configuration_freeze :: "configuration_freeze \<Rightarrow> release_repository \<Rightarrow> release_repository" where
  "save_configuration_freeze v s =
     s\<lparr>rpo_configuration_freezes := setdefault (cfz_freeze_hash v) v (rpo_configuration_freezes s)\<rparr>"

definition save_candidate_report :: "candidate_report \<Rightarrow> release_repository \<Rightarrow> release_repository" where
  "save_candidate_report v s =
     s\<lparr>rpo_candidate_reports := setdefault (pcr_report_id v) v (rpo_candidate_reports s)\<rparr>"

definition get_latest_candidate_report :: "release_repository \<Rightarrow> candidate_report option" where
  "get_latest_candidate_report s =
     (case dict_values (rpo_candidate_reports s) of
        [] \<Rightarrow> None
      | r # rs \<Rightarrow> Some (foldl (\<lambda>best x. if pcr_generated_at best < pcr_generated_at x then x else best) r rs))"

definition get_build_attestation :: "string \<Rightarrow> release_repository \<Rightarrow> build_attestation option" where
  "get_build_attestation h s = map_of (rpo_build_attestations s) h"

interpretation evidence_manifests:
  first_write_store "\<lambda>s. map_of (rpo_evidence_manifests s)" emf_manifest_hash save_evidence_manifest
  by unfold_locales (auto simp: save_evidence_manifest_def split: option.splits)

interpretation build_attestations:
  first_write_store "\<lambda>s. map_of (rpo_build_attestations s)" bat_attestation_hash save_build_attestation
  by unfold_locales (auto simp: save_build_attestation_def split: option.splits)

interpretation configuration_freezes:
  first_write_store "\<lambda>s. map_of (rpo_configuration_freezes s)" cfz_freeze_hash save_configuration_freeze
  by unfold_locales (auto simp: save_configuration_freeze_def split: option.splits)

interpretation candidate_reports:
  first_write_store "\<lambda>s. map_of (rpo_candidate_reports s)" pcr_report_id save_candidate_report
  by unfold_locales (auto simp: save_candidate_report_def split: option.splits)

end
