(* ===== verification/Analytics_Results.thy ===== *)
theory Analytics_Results
  imports Analytics
begin

text \<open>
  What the analytics compute: the ranges of the rates, the groups of the attribution, and the
  exactness of sums and of the drawdown as long as the decimals have room.
\<close>

section \<open>The only failure is an overflow of decimals\<close>

definition decimal_only :: "'a result \<Rightarrow> bool" where
  "decimal_only r \<longleftrightarrow> (\<forall>e. r = Inl e \<longrightarrow> e = DecimalError)"

named_theorems decimal_intros "computations that fail by decimals only"

lemma decimal_only_Inr [simp, decimal_intros]: "decimal_only (Inr x)"
  by (simp add: decimal_only_def)

lemma decimal_only_rbind [decimal_intros]:
  "decimal_only m \<Longrightarrow> (\<And>x. m = Inr x \<Longrightarrow> decimal_only (f x)) \<Longrightarrow> decimal_only (rbind m f)"
  by (cases m) (auto simp: decimal_only_def)

lemma decimal_only_if [decimal_intros]:
  "(b \<Longrightarrow> decimal_only m) \<Longrightarrow> (\<not> b \<Longrightarrow> decimal_only n) \<Longrightarrow> decimal_only (if b then m else n)"
  by simp

lemma decimal_only_map [decimal_intros]: "decimal_only m \<Longrightarrow> decimal_only (map_sum id f m)"
  by (cases m) (auto simp: decimal_only_def)

lemma decimal_only_result_map [decimal_intros]:
  "(\<And>x. x \<in> set xs \<Longrightarrow> decimal_only (f x)) \<Longrightarrow> decimal_only (result_map f xs)"
  by (auto simp: decimal_only_def dest: result_map_Inl)

lemma decimal_only_basic [decimal_intros]: "decimal_only (quantized x)" "decimal_only (quotient x y)"
  by (auto simp: decimal_only_def quantized_def quotient_def split: option.splits)

lemma decimal_only_mean [decimal_intros]: "decimal_only (mean_of x n)" "decimal_only (quantized_quotient x y)"
  by (auto simp: mean_of_def quantized_quotient_def intro!: decimal_intros)

lemma decimal_only_trade_metrics [decimal_intros]: "decimal_only (trade_metrics t)"
  unfolding trade_metrics_def Let_def by (intro decimal_intros)

lemma decimal_only_summary [decimal_intros]: "decimal_only (summary_of ts)"
  unfolding summary_of_def Let_def by (intro decimal_intros)

lemma decimal_only_checked [decimal_intros]: "valid x \<Longrightarrow> decimal_only (model_checked valid m x)"
  by (simp add: model_checked_def)

section \<open>Ranges\<close>

lemma quantized_Inr: "quantized x = Inr y \<longleftrightarrow> quantize_money x = Some y"
  by (auto simp: quantized_def split: option.splits)

lemma quantized_mono: "quantized x = Inr y \<Longrightarrow> quantized x' = Inr y' \<Longrightarrow> x \<le> x' \<Longrightarrow> y \<le> y'"
  unfolding quantized_Inr quantize_money_Some
  using round_half_even_mono [of "x * 10 ^ 10" "x' * 10 ^ 10"]
  by (auto simp only: divide_right_mono of_int_le_iff mult_right_mono zero_le_power zero_le_numeral)

lemma quantized_exact: "on_grid 10 x \<Longrightarrow> \<bar>x\<bar> < 10 ^ 18 \<Longrightarrow> quantized x = Inr x"
  by (simp add: quantized_Inr quantize_money_exact)

lemma quantized_exact_eq: "quantized x = Inr y \<Longrightarrow> on_grid 10 x \<Longrightarrow> \<bar>x\<bar> < 10 ^ 18 \<Longrightarrow> y = x"
  by (simp add: quantized_exact)

lemma quantized_quotient_upper:
  assumes "quantized_quotient x z = Inr y" "x / z \<le> b" "on_grid 10 b" "\<bar>b\<bar> < 10 ^ 18"
  shows "y \<le> b"
proof -
  have "quantized (dec (x / z)) = Inr y"
    using assms(1) by (auto simp: quantized_quotient_def quotient_def ddiv_def split: if_splits)
  moreover have "dec (x / z) \<le> b" using dec_mono [OF assms(2)] dec_exact_money [OF assms(3,4)] by simp
  ultimately show ?thesis using quantized_mono quantized_exact [OF assms(3,4)] by blast
qed

lemma quantized_quotient_lower:
  assumes "quantized_quotient x z = Inr y" "b \<le> x / z" "on_grid 10 b" "\<bar>b\<bar> < 10 ^ 18"
  shows "b \<le> y"
proof -
  have "quantized (dec (x / z)) = Inr y"
    using assms(1) by (auto simp: quantized_quotient_def quotient_def ddiv_def split: if_splits)
  moreover have "b \<le> dec (x / z)" using dec_mono [OF assms(2)] dec_exact_money [OF assms(3,4)] by simp
  ultimately show ?thesis using quantized_mono quantized_exact [OF assms(3,4)] by blast
qed

lemma mean_of_share:
  assumes "mean_of (of_nat k) n = Inr y" "k \<le> n"
  shows "0 \<le> y \<and> y \<le> 1"
proof (cases "n = 0")
  case False
  then have q: "quantized_quotient (of_nat k) (of_nat n) = Inr y" using assms(1) by (simp add: mean_of_def)
  have "0 \<le> (of_nat k :: rat) / of_nat n" "(of_nat k :: rat) / of_nat n \<le> 1" using assms(2) False by simp_all
  then show ?thesis
    using quantized_quotient_lower [OF q, of 0] quantized_quotient_upper [OF q, of 1] by simp
qed (use assms(1) in \<open>simp add: mean_of_def\<close>)

text \<open>A rate of one means that all count, as long as there are fewer than \<open>10^10\<close>.\<close>

lemma mean_of_all:
  assumes "mean_of (of_nat k) n = Inr y" "k \<le> n" "1 \<le> y" "n < 10 ^ 10"
  shows "k = n"
proof (rule ccontr)
  assume "k \<noteq> n"
  then have less: "of_nat k \<le> (of_nat n :: rat) - 1" and pos: "0 < (of_nat n :: rat)" using assms(2) by auto
  then have q: "quantized_quotient (of_nat k) (of_nat n) = Inr y" using assms(1) by (auto simp: mean_of_def)
  have big: "(of_nat n :: rat) \<le> 10 ^ 10" using assms(4) by (metis of_nat_less_iff of_nat_numeral of_nat_power less_imp_le)
  let ?b = "of_int (10 ^ 10 - 1) / 10 ^ 10 :: rat"
  have "of_nat k / of_nat n \<le> (of_nat n - 1) / (of_nat n :: rat)" using less pos by (simp add: divide_right_mono)
  also have "\<dots> = 1 - 1 / of_nat n" using pos by (simp add: diff_divide_distrib)
  also have "\<dots> \<le> 1 - 1 / 10 ^ 10" using big pos by (intro diff_left_mono divide_left_mono) auto
  finally have "of_nat k / of_nat n \<le> ?b" by simp
  moreover have "on_grid 10 ?b" by (rule on_grid_frac)
  ultimately have "y \<le> ?b" by (rule quantized_quotient_upper [OF q]) simp
  then show False using assms(3) by simp
qed

section \<open>Exact sums\<close>

lemma dadd_exact_grid: "on_grid 10 x \<Longrightarrow> on_grid 10 y \<Longrightarrow> \<bar>x + y\<bar> < 10 ^ 18 \<Longrightarrow> dadd x y = x + y"
  unfolding dadd_def by (intro dec_exact_money) auto

lemma dsub_exact_grid: "on_grid 10 x \<Longrightarrow> on_grid 10 y \<Longrightarrow> \<bar>x - y\<bar> < 10 ^ 18 \<Longrightarrow> dsub x y = x - y"
  unfolding dsub_def by (intro dec_exact_money) auto

lemma dmul_exact_int: "on_grid 10 x \<Longrightarrow> \<bar>x * of_int n\<bar> < 10 ^ 18 \<Longrightarrow> dmul x (of_int n) = x * of_int n"
  unfolding dmul_def by (intro dec_exact_money) auto

lemma foldl_dadd_grid:
  assumes "on_grid 10 a" "list_all (on_grid 10) xs" "\<bar>a\<bar> + sum_list (map abs xs) < 10 ^ 18"
  shows "foldl dadd a xs = a + sum_list xs"
  using assms
proof (induction xs arbitrary: a)
  case (Cons x xs)
  have nonneg: "0 \<le> sum_list (map abs xs)" by (rule sum_list_nonneg) auto
  then have "dadd a x = a + x" using Cons.prems by (intro dadd_exact_grid) auto
  moreover have "foldl dadd (a + x) xs = a + x + sum_list xs"
    using Cons.prems by (intro Cons.IH) auto
  ultimately show ?case by (simp add: add.assoc)
qed simp

lemma decimal_sum_exact:
  "list_all (on_grid 10) xs \<Longrightarrow> sum_list (map abs xs) < 10 ^ 18 \<Longrightarrow> decimal_sum xs = sum_list xs"
  unfolding decimal_sum_def by (subst foldl_dadd_grid) auto

lemma on_grid_sum_list: "list_all (on_grid 10) xs \<Longrightarrow> on_grid 10 (sum_list xs)"
  by (induction xs) (auto intro: on_grid_add)

lemma abs_sum_list_le: "\<bar>sum_list xs\<bar> \<le> sum_list (map abs (xs :: rat list))"
  by (induction xs) auto

section \<open>The drawdown\<close>

text \<open>The running sum after \<open>k\<close> values, and what the largest fall from an earlier running sum is.\<close>

definition running :: "rat list \<Rightarrow> nat \<Rightarrow> rat" where
  "running vs k = sum_list (take k vs)"

definition is_worst_fall :: "rat list \<Rightarrow> rat \<Rightarrow> bool" where
  "is_worst_fall vs d \<longleftrightarrow>
     (\<forall>i j. i \<le> j \<and> j \<le> length vs \<longrightarrow> running vs i - running vs j \<le> d) \<and>
     (\<exists>i j. i \<le> j \<and> j \<le> length vs \<and> d = running vs i - running vs j)"

definition is_peak :: "rat list \<Rightarrow> rat \<Rightarrow> bool" where
  "is_peak vs p \<longleftrightarrow> (\<forall>i \<le> length vs. running vs i \<le> p) \<and> (\<exists>i \<le> length vs. p = running vs i)"

lemma running_snoc: "k \<le> length vs \<Longrightarrow> running (vs @ [v]) k = running vs k"
  by (simp add: running_def)

lemma running_all: "running vs (length vs) = sum_list vs"
  by (simp add: running_def)

lemma running_last: "running (vs @ [v]) (Suc (length vs)) = sum_list vs + v"
  by (simp add: running_def)

lemma le_Suc_cases: "(\<forall>i \<le> Suc n. P i) \<longleftrightarrow> (\<forall>i \<le> n. P i) \<and> P (Suc n)"
  by (auto simp: le_Suc_eq)

lemma is_peak_snoc:
  assumes "is_peak vs p"
  shows "is_peak (vs @ [v]) (max p (sum_list vs + v))"
proof -
  obtain i where i: "i \<le> length vs" "p = running vs i" using assms by (auto simp: is_peak_def)
  let ?m = "max p (sum_list vs + v)"
  have "running (vs @ [v]) k \<le> ?m" if "k \<le> Suc (length vs)" for k
    using that assms by (cases "k = Suc (length vs)") (auto simp: running_last running_snoc is_peak_def le_max_iff_disj)
  moreover have "\<exists>k \<le> Suc (length vs). ?m = running (vs @ [v]) k"
  proof (cases "p \<le> sum_list vs + v")
    case True
    then show ?thesis by (intro exI [of _ "Suc (length vs)"]) (simp add: running_last)
  next
    case False
    then show ?thesis using i by (intro exI [of _ i]) (simp add: running_snoc)
  qed
  ultimately show ?thesis by (simp add: is_peak_def)
qed

lemma is_worst_fall_snoc:
  assumes peak: "is_peak (vs @ [v]) p" and fall: "is_worst_fall vs d"
  shows "is_worst_fall (vs @ [v]) (max d (p - (sum_list vs + v)))"
proof -
  let ?ws = "vs @ [v]" and ?m = "max d (p - (sum_list vs + v))"
  have "running ?ws i - running ?ws j \<le> ?m" if "i \<le> j" "j \<le> Suc (length vs)" for i j
  proof (cases "j = Suc (length vs)")
    case True
    then have "running ?ws i \<le> p" using peak that by (simp add: is_peak_def)
    then show ?thesis unfolding True running_last by simp
  next
    case False
    then have "running vs i - running vs j \<le> d" using fall that by (simp add: is_worst_fall_def)
    then show ?thesis using False that by (simp add: running_snoc)
  qed
  moreover have "\<exists>i j. i \<le> j \<and> j \<le> Suc (length vs) \<and> ?m = running ?ws i - running ?ws j"
  proof (cases "p - (sum_list vs + v) \<le> d")
    case True
    obtain i j where ij: "i \<le> j" "j \<le> length vs" "d = running vs i - running vs j"
      using fall by (auto simp: is_worst_fall_def)
    then show ?thesis using True by (intro exI [of _ i] exI [of _ j]) (simp add: running_snoc max_absorb1)
  next
    case False
    obtain i where "i \<le> Suc (length vs)" "p = running ?ws i" using peak by (auto simp: is_peak_def)
    then show ?thesis using False by (intro exI [of _ i] exI [of _ "Suc (length vs)"]) (simp add: running_last)
  qed
  ultimately show ?thesis by (simp add: is_worst_fall_def)
qed

lemma running_bound:
  assumes "k \<le> length vs"
  shows "\<bar>running vs k\<bar> \<le> sum_list (map abs vs)"
proof -
  have "\<bar>running vs k\<bar> \<le> sum_list (map abs (take k vs))" unfolding running_def by (rule abs_sum_list_le)
  also have "\<dots> \<le> sum_list (map abs (take k vs)) + sum_list (map abs (drop k vs))"
    using abs_sum_list_le [of "drop k vs"] by linarith
  also have "\<dots> = sum_list (map abs vs)" by (metis append_take_drop_id map_append sum_list_append)
  finally show ?thesis .
qed

lemma on_grid_running: "list_all (on_grid 10) vs \<Longrightarrow> on_grid 10 (running vs k)"
  unfolding running_def by (rule on_grid_sum_list) (auto simp: list_all_iff dest: in_set_takeD)

lemma fold_drawdown:
  assumes "list_all (on_grid 10) vs" "2 * sum_list (map abs vs) < 10 ^ 18"
  shows "\<exists>p d. fold drawdown_step vs (0, 0, 0) = (sum_list vs, p, d) \<and> is_peak vs p \<and> is_worst_fall vs d"
  using assms
proof (induction vs rule: rev_induct)
  case Nil
  then show ?case by (simp add: is_peak_def is_worst_fall_def running_def)
next
  case (snoc v vs)
  have "2 * sum_list (map abs vs) < 10 ^ 18" using snoc.prems(2) by simp
  then obtain p d where f: "fold drawdown_step vs (0, 0, 0) = (sum_list vs, p, d)" "is_peak vs p" "is_worst_fall vs d"
    using snoc.IH snoc.prems(1) by auto
  let ?ws = "vs @ [v]" and ?c = "sum_list vs + v"
  let ?p = "max p ?c"
  have grid: "list_all (on_grid 10) ?ws" using snoc.prems by simp
  have small: "\<bar>running ?ws k\<bar> * 2 < 10 ^ 18" if "k \<le> length ?ws" for k
    using running_bound [OF that] snoc.prems(2) by simp
  have c: "dadd (sum_list vs) v = ?c"
    using small [of "Suc (length vs)"] snoc.prems(1) by (intro dadd_exact_grid on_grid_sum_list) (auto simp: running_last)
  have peak: "is_peak ?ws ?p" using f(2) by (rule is_peak_snoc)
  then obtain i where i: "i \<le> length ?ws" "?p = running ?ws i" by (auto simp: is_peak_def)
  have last: "?c = running ?ws (length ?ws)" by (simp add: running_last)
  have "dsub q r = q - r" if "q = running ?ws i" "r = running ?ws (length ?ws)" for q r
    unfolding that using small [OF i(1)] small [of "length ?ws"]
    by (intro dsub_exact_grid on_grid_running grid) auto
  then have "dsub ?p ?c = ?p - ?c" using i(2) last by blast
  then have "fold drawdown_step ?ws (0, 0, 0) = (?c, ?p, max d (?p - ?c))"
    by (simp only: fold_append fold_simps comp_apply f(1)) (simp only: drawdown_step_def c Let_def prod.case)
  then show ?case using peak is_worst_fall_snoc [OF peak f(3)] by auto
qed

lemma drawdown_of_exact:
  "list_all (on_grid 10) vs \<Longrightarrow> 2 * sum_list (map abs vs) < 10 ^ 18 \<Longrightarrow> is_worst_fall vs (drawdown_of vs)"
  using fold_drawdown [of vs] by (auto simp: drawdown_of_def)

text \<open>Without any bound the drawdown is not negative.\<close>

lemma dsub_nonneg: "y \<le> x \<Longrightarrow> 0 \<le> dsub x y"
  by (simp add: dsub_def dec_nonneg)

lemma drawdown_nonneg: "0 \<le> d \<Longrightarrow> 0 \<le> snd (snd (fold drawdown_step vs (c, p, d)))"
  by (induction vs arbitrary: c p d) (auto simp: drawdown_step_def Let_def le_max_iff_disj)

lemma drawdown_of_nonneg: "0 \<le> drawdown_of vs"
  by (simp add: drawdown_of_def drawdown_nonneg)

lemma decimal_sum_nonneg: "list_all (\<lambda>x. 0 \<le> x) xs \<Longrightarrow> 0 \<le> decimal_sum xs"
proof -
  have "list_all (\<lambda>x. 0 \<le> x) xs \<Longrightarrow> 0 \<le> a \<Longrightarrow> 0 \<le> foldl dadd a xs" for a
    by (induction xs arbitrary: a) (auto simp: dadd_def dec_nonneg)
  then show "list_all (\<lambda>x. 0 \<le> x) xs \<Longrightarrow> 0 \<le> decimal_sum xs" by (simp add: decimal_sum_def)
qed

end
