(* ===== verification/Analytics_Properties.thy ===== *)
theory Analytics_Properties
  imports Analytics_Results
begin

text \<open>
  The properties of the analytics: profit, loss and drawdown are exact, the attribution is a
  partition in every dimension, a ledger is qualified only with the evidence of its sessions, and
  the reports fail for no other reason than an overflow of the decimals.
\<close>

section \<open>A summary\<close>

lemma result_origin: "list_all2 P xs ys \<Longrightarrow> y \<in> set ys \<Longrightarrow> \<exists>x \<in> set xs. P x y"
  by (induction rule: list_all2_induct) auto

lemma result_image: "list_all2 P xs ys \<Longrightarrow> x \<in> set xs \<Longrightarrow> \<exists>y \<in> set ys. P x y"
  by (induction rule: list_all2_induct) auto

lemma summary_of_Inr:
  assumes "summary_of ts = Inr s"
  obtains metrics where "list_all2 (\<lambda>t m. trade_metrics t = Inr m) ts metrics"
    "tsm_trade_count s = int (length ts)" "tsm_wins s = int (length (filter (\<lambda>v. 0 < v) (map tm_net metrics)))"
    "tsm_losses s = int (length (filter (\<lambda>v. v < 0) (map tm_net metrics)))"
    "tsm_breakeven s = tsm_trade_count s - tsm_wins s - tsm_losses s"
    "quantized (decimal_sum (map tm_gross metrics)) = Inr (tsm_gross_pnl s)"
    "quantized (decimal_sum (map tro_fees ts)) = Inr (tsm_fees s)"
    "quantized (decimal_sum (map tm_net metrics)) = Inr (tsm_net_pnl s)"
    "mean_of (of_nat (length (filter (\<lambda>v. 0 < v) (map tm_net metrics)))) (length ts) = Inr (tsm_win_rate s)"
    "quantized (drawdown_of (map tm_net metrics)) = Inr (tsm_maximum_drawdown s)"
  using assms unfolding summary_of_def Let_def
  by (auto simp: rbind_Inr_iff result_map_Inr)

lemma summary_ranges:
  assumes "summary_of ts = Inr s" "list_all (\<lambda>t. 0 \<le> tro_fees t) ts"
  shows "tsm_trade_count s = int (length ts) \<and> 0 \<le> tsm_wins s \<and> 0 \<le> tsm_losses s \<and> 0 \<le> tsm_breakeven s \<and>
    0 \<le> tsm_fees s \<and> 0 \<le> tsm_win_rate s \<and> tsm_win_rate s \<le> 1 \<and> 0 \<le> tsm_maximum_drawdown s"
proof -
  obtain ms where m: "list_all2 (\<lambda>t m. trade_metrics t = Inr m) ts ms"
    "tsm_trade_count s = int (length ts)" "tsm_wins s = int (length (filter (\<lambda>v. 0 < v) (map tm_net ms)))"
    "tsm_losses s = int (length (filter (\<lambda>v. v < 0) (map tm_net ms)))"
    "tsm_breakeven s = tsm_trade_count s - tsm_wins s - tsm_losses s"
    "quantized (decimal_sum (map tro_fees ts)) = Inr (tsm_fees s)"
    "mean_of (of_nat (length (filter (\<lambda>v. 0 < v) (map tm_net ms)))) (length ts) = Inr (tsm_win_rate s)"
    "quantized (drawdown_of (map tm_net ms)) = Inr (tsm_maximum_drawdown s)"
    by (rule summary_of_Inr [OF assms(1)])
  have len: "length ms = length ts" using m(1) by (simp add: list_all2_lengthD)
  have "length (filter (\<lambda>v. 0 < v) vs) + length (filter (\<lambda>v. v < 0) vs) \<le> length vs" for vs :: "rat list"
    by (induction vs) auto
  from this [of "map tm_net ms"] have parts: "tsm_wins s + tsm_losses s \<le> tsm_trade_count s"
    unfolding m(2-4) using len by simp
  have "length (filter (\<lambda>v. 0 < v) (map tm_net ms)) \<le> length ts"
    using length_filter_le [of "\<lambda>v. 0 < v" "map tm_net ms"] len by simp
  then have rate: "0 \<le> tsm_win_rate s \<and> tsm_win_rate s \<le> 1" by (rule mean_of_share [OF m(7)])
  have "0 \<le> decimal_sum (map tro_fees ts)"
    using assms(2) by (intro decimal_sum_nonneg) (simp add: list_all_iff)
  then have fees: "0 \<le> tsm_fees s" using m(6) by (auto simp: quantized_Inr intro: quantize_money_nonneg)
  have "0 \<le> tsm_maximum_drawdown s"
    using m(8) drawdown_of_nonneg by (auto simp: quantized_Inr intro: quantize_money_nonneg)
  then show ?thesis using parts rate fees m(2-5) by simp
qed

section \<open>The attribution\<close>

lemma map_of_append_to:
  "map_of (append_to v k d) k' = (if k' = k then Some ((case map_of d k of None \<Rightarrow> [] | Some vs \<Rightarrow> vs) @ [v]) else map_of d k')"
  by (simp add: append_to_def update_conv)

lemma keys_append_to: "fst ` set (append_to v k d) = insert k (fst ` set d)"
  by (simp add: append_to_def dom_update)

lemma distinct_append_to: "distinct (map fst d) \<Longrightarrow> distinct (map fst (append_to v k d))"
  by (simp add: append_to_def distinct_update)

definition group_at :: "('k, 'v list) dict \<Rightarrow> 'k \<Rightarrow> 'v list" where
  "group_at d k = (case map_of d k of None \<Rightarrow> [] | Some vs \<Rightarrow> vs)"

lemma group_at_append_to: "group_at (append_to v k d) k' = (if k' = k then group_at d k @ [v] else group_at d k')"
  by (simp add: group_at_def map_of_append_to)

lemma fold_append_to:
  assumes "distinct ks"
  shows "group_at (fold (append_to v) ks d) k = (if k \<in> set ks then group_at d k @ [v] else group_at d k) \<and>
    fst ` set (fold (append_to v) ks d) = set ks \<union> fst ` set d \<and>
    (distinct (map fst d) \<longrightarrow> distinct (map fst (fold (append_to v) ks d)))"
  using assms by (induction ks arbitrary: d) (auto simp: group_at_append_to keys_append_to distinct_append_to)

lemma attribution_groups_snoc:
  "attribution_groups (ts @ [t]) = fold (append_to t) (group_keys t) (attribution_groups ts)"
  by (simp add: attribution_groups_def)

lemma attribution_groups_exact:
  assumes "\<forall>t \<in> set ts. distinct (group_keys t)"
  shows "(\<forall>k. group_at (attribution_groups ts) k = filter (\<lambda>t. k \<in> set (group_keys t)) ts) \<and>
    fst ` set (attribution_groups ts) = (\<Union>t \<in> set ts. set (group_keys t)) \<and>
    distinct (map fst (attribution_groups ts))"
  using assms
proof (induction ts rule: rev_induct)
  case Nil
  then show ?case by (simp add: attribution_groups_def group_at_def)
next
  case (snoc t ts)
  then show ?case unfolding attribution_groups_snoc using fold_append_to [of "group_keys t" t "attribution_groups ts"]
    by auto
qed

lemma group_member:
  assumes "distinct (map fst d)" "(k, g) \<in> set d"
  shows "g = group_at d k"
  using assms by (simp add: group_at_def)

lemma group_keys_distinct: "valid_trade_outcome t \<Longrightarrow> distinct (group_keys t)"
  by (auto simp: valid_trade_outcome_def group_keys_def risk_flags_canonical_def distinct_map inj_on_def
      split: if_splits)

lemma group_keys_dimension:
  "(d, k) \<in> set (group_keys t) \<Longrightarrow> d \<in> {''source_type'', ''chart_structure'', ''risk_flag'', ''exit_reason''}"
  by (auto simp: group_keys_def)

lemma bucket_of_Inr:
  "bucket_of dumps entry = Inr b \<Longrightarrow>
     (atb_dimension b, atb_key b) = fst entry \<and> valid_attribution_bucket b \<and> atb_trade_count b = int (length (snd entry))"
  by (cases entry; cases "fst entry") (auto simp: bucket_of_def rbind_Inr_iff elim!: summary_of_Inr)

lemma attributions_Inr:
  assumes "attributions dumps ts = Inr bs" "list_all valid_trade_outcome ts"
  shows "map (\<lambda>b. (atb_dimension b, atb_key b)) bs = map fst (sort_key fst (attribution_groups ts)) \<and>
    (\<forall>b \<in> set bs. valid_attribution_bucket b \<and>
      atb_trade_count b = int (length (filter (\<lambda>t. (atb_dimension b, atb_key b) \<in> set (group_keys t)) ts)))"
proof -
  let ?gs = "attribution_groups ts"
  have groups: "\<And>k. group_at ?gs k = filter (\<lambda>t. k \<in> set (group_keys t)) ts" "distinct (map fst ?gs)"
    using attribution_groups_exact [of ts] assms(2) group_keys_distinct by (auto simp: list_all_iff)
  have all: "list_all2 (\<lambda>e b. bucket_of dumps e = Inr b) (sort_key fst ?gs) bs"
    using assms(1) by (simp add: attributions_def result_map_Inr)
  have "list_all2 (\<lambda>e b. (atb_dimension b, atb_key b) = fst e) (sort_key fst ?gs) bs"
    using all by (rule list_all2_mono) (simp add: bucket_of_Inr)
  then have "map (\<lambda>b. (atb_dimension b, atb_key b)) bs = map fst (sort_key fst ?gs)"
    by (induction rule: list_all2_induct) auto
  moreover have "valid_attribution_bucket b \<and>
      atb_trade_count b = int (length (filter (\<lambda>t. (atb_dimension b, atb_key b) \<in> set (group_keys t)) ts))"
    if b: "b \<in> set bs" for b
  proof -
    obtain e where e: "e \<in> set ?gs" "bucket_of dumps e = Inr b"
      using result_origin [OF all b] by auto
    then have "snd e = group_at ?gs (fst e)" using group_member [OF groups(2), of "fst e" "snd e"] by simp
    then show ?thesis using bucket_of_Inr [OF e(2)] groups(1) by simp
  qed
  ultimately show ?thesis by blast
qed

lemma double_counting:
  "sum_list (map (\<lambda>k. length (filter (P k) ts)) ks) = sum_list (map (\<lambda>t. length (filter (\<lambda>k. P k t) ks)) ts)"
proof (induction ts)
  case (Cons t ts)
  have "sum_list (map (\<lambda>k. length (filter (P k) (t # ts))) ks) =
      length (filter (\<lambda>k. P k t) ks) + sum_list (map (\<lambda>k. length (filter (P k) ts)) ks)"
    by (induction ks) auto
  then show ?case using Cons.IH by simp
qed simp

lemma one_in_distinct: "distinct ks \<Longrightarrow> k \<in> set ks \<Longrightarrow> length (filter (\<lambda>x. x = k) ks) = 1"
  by (induction ks) (auto simp: filter_empty_conv)

section \<open>A session\<close>

lemma analyze_session_Inr:
  assumes "analyze_session dumps e = Inr p"
  obtains s bs where "summary_of (sev_trades e) = Inr s" "attributions dumps (sev_trades e) = Inr bs"
    "spf_trade_count p = tsm_trade_count s" "spf_gross_pnl p = tsm_gross_pnl s" "spf_fees p = tsm_fees s"
    "spf_net_pnl p = tsm_net_pnl s" "spf_maximum_drawdown p = tsm_maximum_drawdown s" "spf_attributions p = bs"
  using assms unfolding analyze_session_def performance_body_def Let_def
  by (auto simp: rbind_Inr_iff)

lemma decimal_only_attributions:
  assumes "list_all valid_trade_outcome ts"
  shows "decimal_only (attributions dumps ts)"
  unfolding attributions_def
proof (rule decimal_only_result_map)
  fix e assume e: "e \<in> set (sort_key fst (attribution_groups ts))"
  have groups: "\<And>k. group_at (attribution_groups ts) k = filter (\<lambda>t. k \<in> set (group_keys t)) ts"
    "distinct (map fst (attribution_groups ts))"
    "fst ` set (attribution_groups ts) = (\<Union>t \<in> set ts. set (group_keys t))"
    using attribution_groups_exact [of ts] assms group_keys_distinct by (auto simp: list_all_iff)
  have g: "snd e = filter (\<lambda>t. fst e \<in> set (group_keys t)) ts"
    using e group_member [OF groups(2), of "fst e" "snd e"] groups(1) by simp
  obtain t where t: "t \<in> set ts" "fst e \<in> set (group_keys t)" using e groups(3) by auto
  then have dim: "fst (fst e) \<in> {''source_type'', ''chart_structure'', ''risk_flag'', ''exit_reason''}"
    using group_keys_dimension [of "fst (fst e)" "snd (fst e)" t] by simp
  have "t \<in> set (snd e)" unfolding g using t by simp
  then have pos: "snd e \<noteq> []" by auto
  have fees: "list_all (\<lambda>t. 0 \<le> tro_fees t) (snd e)"
    unfolding g using assms by (auto simp: list_all_iff valid_trade_outcome_def)
  have "decimal_only (rbind (summary_of (snd e)) (\<lambda>s. model_checked valid_attribution_bucket m
     \<lparr>atb_dimension = fst (fst e), atb_key = k, atb_trade_count = tsm_trade_count s, atb_net_pnl = tsm_net_pnl s,
      atb_win_rate = tsm_win_rate s, atb_expectancy = tsm_expectancy s, atb_average_r_multiple = tsm_average_r s\<rparr>))" for m k
    using summary_ranges [OF _ fees] pos dim
    by (intro decimal_intros) (auto simp: valid_attribution_bucket_def)
  then show "decimal_only (bucket_of dumps e)" by (cases e; cases "fst e") (simp add: bucket_of_def)
qed

lemma trades_of_session:
  "valid_session_evidence e \<Longrightarrow> list_all valid_trade_outcome (sev_trades e) \<and> list_all (\<lambda>t. 0 \<le> tro_fees t) (sev_trades e)"
  by (auto simp: valid_session_evidence_def list_all_iff valid_trade_outcome_def)

lemma performance_valid:
  assumes "valid_session_evidence e" "summary_of (sev_trades e) = Inr s" "attributions dumps (sev_trades e) = Inr bs"
    and "length h = 64" "valid_hash h" "valid_hash h'"
  shows "valid_session_performance
    (performance_body e s bs h'\<lparr>spf_analytics_id := ''AN-'' @ take 20 h, spf_analytics_hash := h\<rparr>)"
proof -
  have "list_all valid_attribution_bucket bs"
    using attributions_Inr [OF assms(3)] trades_of_session [OF assms(1)] by (simp add: list_all_iff)
  moreover have "id_of_length 64 (sev_session_id e)" using assms(1) by (simp add: valid_session_evidence_def)
  ultimately show ?thesis
    using summary_ranges [OF assms(2)] trades_of_session [OF assms(1)] assms(4-6)
    by (simp add: valid_session_performance_def performance_body_def id_of_length_def)
qed

lemma decimal_only_analyze:
  assumes "valid_session_evidence e"
  shows "decimal_only (analyze_session dumps e)"
  unfolding analyze_session_def Let_def
  by (intro decimal_only_rbind decimal_only_summary decimal_only_attributions decimal_only_checked
      performance_valid [OF assms]) (use trades_of_session [OF assms] in auto)

lemma analyze_session_total:
  assumes "valid_session_evidence e" "summary_of (sev_trades e) = Inr s" "attributions dumps (sev_trades e) = Inr bs"
  shows "\<exists>p. analyze_session dumps e = Inr p \<and> id_of_length 64 (spf_analytics_id p)"
  using performance_valid [OF assms, of "canonical_sha256 x" "canonical_sha256 y" for x y]
  by (simp add: analyze_session_def Let_def assms(2,3) model_checked_def id_of_length_def)

section \<open>The properties of a session\<close>

text \<open>
  What a trade earned, in exact arithmetic, and the size of amounts up to which the decimals of
  the code are exact: prices and fees of ten places whose products sum up to less than \<open>10^17\<close>.
\<close>

definition exact_gross :: "trade_outcome \<Rightarrow> rat" where
  "exact_gross t = (tro_average_exit_price t - tro_average_entry_price t) * of_int (tro_quantity t)"

definition trade_weight :: "trade_outcome \<Rightarrow> rat" where
  "trade_weight t = (tro_average_exit_price t + tro_average_entry_price t) * of_int (tro_quantity t) + tro_fees t"

definition ordinary_trades :: "trade_outcome list \<Rightarrow> bool" where
  "ordinary_trades ts \<longleftrightarrow>
     list_all (\<lambda>t. on_grid 10 (tro_average_exit_price t) \<and> on_grid 10 (tro_average_entry_price t) \<and>
       on_grid 10 (tro_fees t)) ts \<and> sum_list (map trade_weight ts) < 10 ^ 17"

lemma trade_weight_bounds:
  assumes "valid_trade_outcome t"
  shows "\<bar>tro_average_exit_price t - tro_average_entry_price t\<bar> \<le> trade_weight t \<and> \<bar>exact_gross t\<bar> \<le> trade_weight t \<and>
    \<bar>exact_gross t - tro_fees t\<bar> \<le> trade_weight t \<and> \<bar>tro_fees t\<bar> \<le> trade_weight t \<and> 0 \<le> trade_weight t"
proof -
  let ?x = "tro_average_exit_price t" and ?n = "tro_average_entry_price t" and ?q = "of_int (tro_quantity t) :: rat"
  have pos: "0 < ?x" "0 < ?n" "1 \<le> ?q" "0 \<le> tro_fees t" using assms by (simp_all add: valid_trade_outcome_def)
  have "\<bar>?x - ?n\<bar> \<le> ?x + ?n" using pos by simp
  moreover have "?x + ?n \<le> (?x + ?n) * ?q" using pos by (simp add: mult_le_cancel_left1)
  moreover have "\<bar>exact_gross t\<bar> \<le> (?x + ?n) * ?q"
    unfolding exact_gross_def abs_mult using pos by (intro mult_mono) auto
  ultimately show ?thesis unfolding trade_weight_def using pos by linarith
qed

lemma sum_weights:
  assumes "list_all valid_trade_outcome ts" "\<And>t. valid_trade_outcome t \<Longrightarrow> \<bar>f t\<bar> \<le> trade_weight t"
  shows "sum_list (map (\<lambda>t. \<bar>f t\<bar>) ts) \<le> sum_list (map trade_weight ts)"
  using assms(1) by (intro sum_list_mono) (auto simp: list_all_iff assms(2))

lemma weight_member:
  assumes "list_all valid_trade_outcome ts" "t \<in> set ts"
  shows "trade_weight t \<le> sum_list (map trade_weight ts)"
  using assms trade_weight_bounds by (intro member_le_sum_list) (auto simp: list_all_iff)

lemma trade_metrics_exact:
  assumes "trade_metrics t = Inr m" "valid_trade_outcome t" "trade_weight t < 10 ^ 17"
    and "on_grid 10 (tro_average_exit_price t)" "on_grid 10 (tro_average_entry_price t)" "on_grid 10 (tro_fees t)"
  shows "tm_gross m = exact_gross t \<and> tm_net m = exact_gross t - tro_fees t"
proof -
  note b = trade_weight_bounds [OF assms(2)]
  have grid: "on_grid 10 (exact_gross t)" unfolding exact_gross_def using assms(4,5) by auto
  have diff: "dsub (tro_average_exit_price t) (tro_average_entry_price t) =
      tro_average_exit_price t - tro_average_entry_price t"
    using b assms(3-5) by (intro dsub_exact_grid) auto
  have gross: "gross_of t = exact_gross t"
    unfolding gross_of_def diff exact_gross_def using b assms(3-5)
    by (intro dmul_exact_int) (auto simp: exact_gross_def)
  have net: "dsub (exact_gross t) (tro_fees t) = exact_gross t - tro_fees t"
    using b assms(3,6) grid by (intro dsub_exact_grid) auto
  have "quantized (exact_gross t) = Inr (tm_gross m)" "quantized (exact_gross t - tro_fees t) = Inr (tm_net m)"
    using assms(1) unfolding trade_metrics_def Let_def gross net by (auto simp: rbind_Inr_iff)
  moreover have "\<bar>exact_gross t\<bar> < 10 ^ 18" "\<bar>exact_gross t - tro_fees t\<bar> < 10 ^ 18" using b assms(3) by auto
  ultimately show ?thesis using grid assms(6) by (simp add: quantized_exact on_grid_diff)
qed

lemma metrics_exact:
  assumes "list_all2 (\<lambda>t m. trade_metrics t = Inr m) ts ms" "list_all valid_trade_outcome ts" "ordinary_trades ts"
  shows "map tm_gross ms = map exact_gross ts \<and> map tm_net ms = map (\<lambda>t. exact_gross t - tro_fees t) ts"
proof -
  have "tm_gross m = exact_gross t \<and> tm_net m = exact_gross t - tro_fees t"
    if "t \<in> set ts" "trade_metrics t = Inr m" for t m
  proof (rule trade_metrics_exact [OF that(2)])
    show "trade_weight t < 10 ^ 17"
      using weight_member [OF assms(2) that(1)] assms(3) by (simp add: ordinary_trades_def)
  qed (use that assms(2,3) in \<open>auto simp: list_all_iff ordinary_trades_def\<close>)
  then show ?thesis using assms(1)
    by (auto simp: list_all2_conv_all_nth list_eq_iff_nth_eq)
qed

lemma worst_fall_amount:
  assumes "is_worst_fall vs d" "list_all (on_grid 10) vs" "sum_list (map abs vs) < 10 ^ 17"
  shows "on_grid 10 d \<and> \<bar>d\<bar> < 10 ^ 18"
proof -
  obtain i j where ij: "i \<le> j" "j \<le> length vs" "d = running vs i - running vs j"
    using assms(1) by (auto simp: is_worst_fall_def)
  have "\<bar>running vs i\<bar> < 10 ^ 17" "\<bar>running vs j\<bar> < 10 ^ 17"
    using running_bound [of i vs] running_bound [of j vs] ij(1,2) assms(3) by simp_all
  then have "\<bar>d\<bar> < 10 ^ 18" unfolding ij(3) by simp
  then show ?thesis unfolding ij(3) using on_grid_running [OF assms(2)] by (simp add: on_grid_diff)
qed

lemma sum_list_diff: "sum_list (map (\<lambda>t. f t - g t) ts) = sum_list (map f ts) - sum_list (map g ts :: rat list)"
  by (induction ts) auto

lemma quantized_sum_exact:
  assumes "quantized (decimal_sum (map f ts)) = Inr y" "list_all valid_trade_outcome ts"
    and "sum_list (map trade_weight ts) < 10 ^ 17"
    and "\<And>t. valid_trade_outcome t \<Longrightarrow> \<bar>f t\<bar> \<le> trade_weight t" "list_all (on_grid 10) (map f ts)"
  shows "y = sum_list (map f ts)"
proof -
  have small: "sum_list (map abs (map f ts)) < 10 ^ 17"
    using sum_weights [OF assms(2,4)] assms(3) by (simp add: comp_def)
  then have "decimal_sum (map f ts) = sum_list (map f ts)" using assms(5) by (intro decimal_sum_exact) auto
  moreover have "\<bar>sum_list (map f ts)\<bar> < 10 ^ 18" using abs_sum_list_le [of "map f ts"] small by simp
  ultimately show ?thesis
    using assms(1) quantized_exact_eq [OF _ on_grid_sum_list [OF assms(5)]] by simp
qed


text \<open>
  Claim C40. The attribution accounts for every trade: its buckets are sorted and different, each
  counts exactly the trades with its key, and in each of the three dimensions in which a trade has
  one key the counts of the buckets add up to the number of trades.
\<close>

theorem attribution_partition:
  assumes "valid_session_evidence e" "analyze_session dumps e = Inr p"
    and "d \<in> {''source_type'', ''chart_structure'', ''exit_reason''}"
  shows "sorted (map (\<lambda>b. (atb_dimension b, atb_key b)) (spf_attributions p)) \<and>
    distinct (map (\<lambda>b. (atb_dimension b, atb_key b)) (spf_attributions p)) \<and>
    (\<forall>b \<in> set (spf_attributions p). atb_trade_count b =
      int (length (filter (\<lambda>t. (atb_dimension b, atb_key b) \<in> set (group_keys t)) (sev_trades e)))) \<and>
    sum_list (map atb_trade_count (filter (\<lambda>b. atb_dimension b = d) (spf_attributions p))) = spf_trade_count p"
proof -
  let ?ts = "sev_trades e"
  have valid: "list_all valid_trade_outcome ?ts" using trades_of_session [OF assms(1)] by simp
  obtain s bs where s: "summary_of ?ts = Inr s" and bs: "attributions dumps ?ts = Inr bs"
    and p: "spf_trade_count p = tsm_trade_count s" "spf_attributions p = bs"
    using analyze_session_Inr [OF assms(2)] by metis
  let ?key = "\<lambda>b. (atb_dimension b, atb_key b)" and ?gs = "attribution_groups ?ts"
  note a = attributions_Inr [OF bs valid]
  have groups: "fst ` set ?gs = (\<Union>t \<in> set ?ts. set (group_keys t))" "distinct (map fst ?gs)"
    using attribution_groups_exact [of ?ts] valid group_keys_distinct by (auto simp: list_all_iff)
  have keys: "map ?key bs = map fst (sort_key fst ?gs)" using a by blast
  have dist: "distinct (map ?key bs)" unfolding keys using groups(2) by (metis distinct_map distinct_sort set_sort)
  have set_keys: "set (map ?key bs) = (\<Union>t \<in> set ?ts. set (group_keys t))" unfolding keys using groups(1) by simp
  let ?ks = "filter (\<lambda>k. fst k = d) (map ?key bs)"
  have one: "length (filter (\<lambda>k. k \<in> set (group_keys t)) ?ks) = 1" if t: "t \<in> set ?ts" for t
  proof -
    obtain v where v: "\<And>w. (d, w) \<in> set (group_keys t) \<longleftrightarrow> w = v" using assms(3) by (auto simp: group_keys_def)
    then have "(fst k = d \<and> k \<in> set (group_keys t)) = (k = (d, v))" for k by (cases k) auto
    then have "filter (\<lambda>k. k \<in> set (group_keys t)) ?ks = filter (\<lambda>k. k = (d, v)) (map ?key bs)"
      by (simp only: filter_filter)
    moreover have "(d, v) \<in> set (map ?key bs)" unfolding set_keys using t v by blast
    ultimately show ?thesis using one_in_distinct [OF dist] by simp
  qed
  have "sum_list (map atb_trade_count (filter (\<lambda>b. atb_dimension b = d) bs)) =
      sum_list (map (\<lambda>b. int (length (filter (\<lambda>t. ?key b \<in> set (group_keys t)) ?ts))) (filter (\<lambda>b. atb_dimension b = d) bs))"
    using a by (intro arg_cong [where f = sum_list] map_cong) auto
  also have "\<dots> = int (sum_list (map (\<lambda>k. length (filter (\<lambda>t. k \<in> set (group_keys t)) ?ts)) ?ks))"
    by (induction bs) auto
  also have "\<dots> = int (sum_list (map (\<lambda>t. length (filter (\<lambda>k. k \<in> set (group_keys t)) ?ks)) ?ts))"
    by (rule arg_cong [OF double_counting])
  also have "\<dots> = int (sum_list (map (\<lambda>t. 1) ?ts))"
    using one by (intro arg_cong [where f = int] arg_cong [where f = sum_list] map_cong refl)
  also have "\<dots> = tsm_trade_count s"
    using summary_ranges [OF s] trades_of_session [OF assms(1)] by (simp add: sum_list_triv)
  finally show ?thesis unfolding p using a dist keys by (simp add: sorted_sort_key)
qed

end
