(* ===== verification/Acceptance_Properties.thy ===== *)
theory Acceptance_Properties
  imports Analytics_Properties
begin

text \<open>
  Replay reports, the ledger of paper acceptance and the evidence of a deployment: what a passed,
  qualified or ready verdict means, and that building them fails for no reason but the stated.
\<close>

section \<open>Replay reports\<close>

lemma verified_iff:
  "valid_component_evidence c \<Longrightarrow>
     rce_verified c \<longleftrightarrow> rce_errors c = [] \<and> (\<exists>h. rce_expected_hash c = Some h \<and> rce_actual_hash c = Some h)"
  unfolding valid_component_evidence_def coherent_component_def Let_def
  by (cases "rce_expected_hash c"; cases "rce_actual_hash c") (auto split: if_splits)

lemma verified_hash:
  "valid_component_evidence c \<Longrightarrow> rce_verified c \<Longrightarrow> \<exists>h. rce_expected_hash c = Some h \<and> rce_actual_hash c = Some h"
  by (simp add: verified_iff)

lemma missing_components_Nil:
  "missing_components request = [] \<longleftrightarrow> set (map rce_component (frq_components request)) = UNIV"
proof -
  have "set (missing_components request) =
      replay_component_value ` {c. c \<notin> set (map rce_component (frq_components request))}"
    by (auto simp: missing_components_def)
  then have "missing_components request = [] \<longleftrightarrow> {c. c \<notin> set (map rce_component (frq_components request))} = {}"
    by (metis image_is_empty set_empty)
  then show ?thesis by blast
qed

lemma replay_errors_Nil:
  "replay_errors request = [] \<longleftrightarrow>
     set (map rce_component (frq_components request)) = UNIV \<and>
     frq_expected_raw_event_count request = frq_actual_raw_event_count request \<and>
     frq_event_ordering_verified request \<and> frq_point_in_time_integrity_verified request \<and>
     list_all rce_verified (frq_components request)"
  by (auto simp: replay_errors_def Let_def missing_components_Nil filter_empty_conv list_all_iff)

text \<open>
  A replay report is always built from a valid request, its own validator included,
  and it is passed exactly when all six components were replayed with the expected hash and
  without an error, no raw event is missing, and their order and the point-in-time rule were
  verified.
\<close>

theorem replay_report_exact:
  assumes "valid_full_replay_request request"
  shows "\<exists>report. build_full_session_replay_report dumps request = Inr report \<and>
    (frp_passed report \<longleftrightarrow>
      (\<forall>component. \<exists>c \<in> set (frq_components request). rce_component c = component \<and> rce_errors c = [] \<and>
         (\<exists>h. rce_expected_hash c = Some h \<and> rce_actual_hash c = Some h)) \<and>
      frq_expected_raw_event_count request = frq_actual_raw_event_count request \<and>
      frq_event_ordering_verified request \<and> frq_point_in_time_integrity_verified request)"
proof -
  let ?cs = "frq_components request"
  have valid: "list_all valid_component_evidence ?cs" "distinct (map rce_component ?cs)"
    "sorted_by (\<lambda>c. replay_component_value (rce_component c)) ?cs"
    using assms by (auto simp: valid_full_replay_request_def sorted_unique_components_def split: if_splits)
  have verified: "rce_verified c \<longleftrightarrow> rce_errors c = [] \<and> (\<exists>h. rce_expected_hash c = Some h \<and> rce_actual_hash c = Some h)"
    if "c \<in> set ?cs" for c
    using valid(1) that by (simp add: list_all_iff verified_iff)
  have everyone: "set (map rce_component ?cs) = UNIV \<and> list_all rce_verified ?cs \<longleftrightarrow>
      (\<forall>component. \<exists>c \<in> set ?cs. rce_component c = component \<and> rce_verified c)"
  proof
    assume all: "\<forall>component. \<exists>c \<in> set ?cs. rce_component c = component \<and> rce_verified c"
    have "rce_verified c" if "c \<in> set ?cs" for c
      using all that valid(2) by (metis distinct_map inj_onD)
    moreover have "component \<in> set (map rce_component ?cs)" for component
      using all unfolding set_map image_iff by metis
    ultimately show "set (map rce_component ?cs) = UNIV \<and> list_all rce_verified ?cs" by (auto simp: list_all_iff)
  next
    assume both: "set (map rce_component ?cs) = UNIV \<and> list_all rce_verified ?cs"
    show "\<forall>component. \<exists>c \<in> set ?cs. rce_component c = component \<and> rce_verified c"
    proof
      fix component
      have "component \<in> rce_component ` set ?cs" using both by (simp only: set_map UNIV_I)
      then show "\<exists>c \<in> set ?cs. rce_component c = component \<and> rce_verified c"
        using both by (elim imageE) (auto simp: list_all_iff)
    qed
  qed
  show ?thesis
    unfolding build_full_session_replay_report_def Let_def
    using assms valid everyone verified
    by (simp add: model_checked_def valid_full_replay_report_def valid_full_replay_request_def id_of_length_def
        sorted_unique_components_def coherent_replay_report_def Let_def replay_errors_Nil) blast
qed

section \<open>The ledger\<close>

lemma session_reasons_Nil:
  "session_reasons_of policy session replay = [] \<longleftrightarrow>
     sev_full_session_recorded session \<and> sev_invariant_violations session \<le> ay_maximum_invariant_violations policy \<and>
     sev_unresolved_reconciliations session \<le> ay_maximum_unresolved_reconciliations policy \<and>
     sev_duplicate_order_count session \<le> ay_maximum_duplicate_orders policy \<and>
     sev_late_primary_response_count session \<le> ay_maximum_late_primary_responses policy \<and>
     (ay_require_all_positions_flat policy \<longrightarrow> sev_all_positions_flat session) \<and>
     (ay_require_complete_replay policy \<longrightarrow> (\<exists>r. replay = Some r \<and> frp_passed r))"
  by (auto simp: session_reasons_of_def split: option.splits)

lemma acceptance_blockers_Nil:
  "acceptance_blockers request n filled rate = [] \<longleftrightarrow>
     ay_minimum_sessions (paq_policy request) \<le> n \<and> ay_minimum_filled_orders (paq_policy request) \<le> filled \<and>
     ay_minimum_clean_session_rate (paq_policy request) \<le> rate \<and>
     (ay_require_target_acceptance (paq_policy request) \<longrightarrow> paq_target_acceptance_verified request) \<and>
     (ay_require_restore_validation (paq_policy request) \<longrightarrow> paq_restore_validation_verified request) \<and>
     ay_required_drill_count (paq_policy request) \<le> int (length (paq_passed_drills request))"
  by (auto simp: acceptance_blockers_def Let_def)

lemma qualified_iff:
  "acceptance_status_of (paq_policy request) n filled (acceptance_blockers request n filled rate) = AS_PAPER_QUALIFIED \<longleftrightarrow>
     acceptance_blockers request n filled rate = []"
  by (auto simp: acceptance_status_of_def acceptance_blockers_Nil)

lemma replay_by_session_Some:
  "replay_by_session reports k = Some r \<Longrightarrow> r \<in> set reports \<and> frp_session_id r = k"
  unfolding replay_by_session_def using set_rev [of reports] by (auto simp: find_Some_iff simp del: set_rev)

lemma sessions_match_None:
  "sessions_match r es = None \<Longrightarrow> e \<in> set es \<Longrightarrow> sev_configuration_hash e = paq_configuration_hash r \<and>
     (\<forall>replay. replay_by_session (paq_replay_reports r) (sev_session_id e) = Some replay \<longrightarrow>
        frp_trading_date replay = sev_trading_date e)"
  by (induction es) (auto split: if_splits option.splits)

lemma replay_exists:
  "k \<in> set (map frp_session_id reports) \<Longrightarrow> \<exists>r. replay_by_session reports k = Some r"
  unfolding replay_by_session_def by (cases "List.find (\<lambda>r. frp_session_id r = k) (rev reports)") (auto simp: find_None_iff)

lemma valid_request_replay:
  assumes "valid_paper_acceptance_request request" "e \<in> set (paq_sessions request)"
  obtains r where "replay_by_session (paq_replay_reports request) (sev_session_id e) = Some r"
    "r \<in> set (paq_replay_reports request)" "valid_full_replay_report r" "frp_session_id r = sev_session_id e"
    "frp_trading_date r = sev_trading_date e"
proof -
  have m: "evidence_sets_match request = None" "ay_require_complete_replay (paq_policy request)"
    "list_all valid_full_replay_report (paq_replay_reports request)"
    using assms(1) by (auto simp: valid_paper_acceptance_request_def valid_analytics_policy_def)
  then have match: "sessions_match request (paq_sessions request) = None"
    and ids: "set (map sev_session_id (paq_sessions request)) = set (map frp_session_id (paq_replay_reports request))"
    by (auto simp: evidence_sets_match_def split: if_splits)
  have "sev_session_id e \<in> set (map frp_session_id (paq_replay_reports request))" using ids assms(2) by auto
  then obtain r where r: "replay_by_session (paq_replay_reports request) (sev_session_id e) = Some r"
    using replay_exists by blast
  then show ?thesis
    using that [OF r] replay_by_session_Some [OF r] sessions_match_None [OF match assms(2)] m(3)
    by (auto simp: list_all_iff)
qed

text \<open>A session counts once: no two sessions of a valid request have the same identifier.\<close>

lemma session_ids_distinct:
  assumes "valid_paper_acceptance_request request"
  shows "distinct (map sev_session_id (paq_sessions request))"
proof -
  have "distinct (map session_evidence_key (paq_sessions request))"
    using assms by (simp add: valid_paper_acceptance_request_def)
  moreover have "session_evidence_key e = session_evidence_key e'"
    if "e \<in> set (paq_sessions request)" "e' \<in> set (paq_sessions request)" "sev_session_id e = sev_session_id e'" for e e'
    using that valid_request_replay [OF assms] unfolding session_evidence_key_def by (metis option.inject)
  ultimately show ?thesis by (auto simp: distinct_map intro!: inj_onI dest: inj_onD)
qed

lemma accept_session_Inr:
  "accept_session dumps request e = Inr ar \<Longrightarrow>
     sac_clean (snd ar) \<longleftrightarrow> session_reasons_of (paq_policy request) e
       (replay_by_session (paq_replay_reports request) (sev_session_id e)) = []"
  by (auto simp: accept_session_def Let_def rbind_Inr_iff)

lemma build_ledger_Inr:
  assumes "build_paper_acceptance_ledger dumps request = Inr ledger"
  obtains accepted rate performance where
    "list_all2 (\<lambda>e a. accept_session dumps request e = Inr a) (paq_sessions request) accepted"
    "mean_of (of_nat (length (filter sac_clean (map snd accepted)))) (length (paq_sessions request)) = Inr rate"
    "pal_paper_ready ledger \<longleftrightarrow> acceptance_blockers request (int (length (paq_sessions request)))
       (sum_list (map sev_orders_filled (paq_sessions request))) rate = []"
    "ledger\<lparr>pal_ledger_id := [], pal_ledger_hash := []\<rparr> = ledger_body dumps request (map snd accepted) rate performance"
    "pal_ledger_hash ledger = canonical_sha256 (paper_ledger_body dumps ledger)"
    "pal_ledger_id ledger = ''PL-'' @ take 20 (pal_ledger_hash ledger)" "valid_paper_ledger ledger"
  using assms unfolding build_paper_acceptance_ledger_def Let_def
  by (auto simp: rbind_Inr_iff result_map_Inr ledger_body_def Let_def qualified_iff paper_ledger_body_def)

lemma filled_trades:
  "list_all (\<lambda>e. sev_orders_filled e = int (length (sev_trades e))) es \<Longrightarrow>
     sum_list (map sev_orders_filled es) = int (length (concat (map sev_trades es)))"
  by (induction es) auto

lemma filter_all: "length (filter P xs) = length xs \<Longrightarrow> x \<in> set xs \<Longrightarrow> P x"
  by (metis filter_id_conv length_filter_less less_irrefl)

lemma qualified_ledger_sessions:
  assumes "valid_paper_acceptance_request request" "build_paper_acceptance_ledger dumps request = Inr ledger"
    and "pal_paper_ready ledger" "ay_minimum_clean_session_rate (paq_policy request) = 1"
    and "length (paq_sessions request) < 10 ^ 10" "e \<in> set (paq_sessions request)"
  shows "sev_full_session_recorded e \<and> sev_all_positions_flat e \<and>
       sev_invariant_violations e \<le> ay_maximum_invariant_violations (paq_policy request) \<and>
       sev_unresolved_reconciliations e \<le> ay_maximum_unresolved_reconciliations (paq_policy request) \<and>
       sev_duplicate_order_count e \<le> ay_maximum_duplicate_orders (paq_policy request) \<and>
       sev_late_primary_response_count e \<le> ay_maximum_late_primary_responses (paq_policy request) \<and>
       (\<exists>r \<in> set (paq_replay_reports request). frp_session_id r = sev_session_id e \<and>
          frp_trading_date r = sev_trading_date e \<and> frp_passed r \<and>
          (\<forall>component. \<exists>c \<in> set (frp_components r). rce_component c = component \<and>
             (\<exists>h. rce_expected_hash c = Some h \<and> rce_actual_hash c = Some h)))"
proof -
  let ?es = "paq_sessions request" and ?policy = "paq_policy request"
  obtain accepted rate where a: "list_all2 (\<lambda>e a. accept_session dumps request e = Inr a) ?es accepted"
    "mean_of (of_nat (length (filter sac_clean (map snd accepted)))) (length ?es) = Inr rate"
    "acceptance_blockers request (int (length ?es)) (sum_list (map sev_orders_filled ?es)) rate = []"
    using build_ledger_Inr [OF assms(2)] assms(3) by metis
  have policy: "ay_require_all_positions_flat ?policy" "ay_require_complete_replay ?policy"
    "ay_require_target_acceptance ?policy" "ay_require_restore_validation ?policy"
    using assms(1) by (auto simp: valid_paper_acceptance_request_def valid_analytics_policy_def)
  have len: "length (map snd accepted) = length ?es" using a(1) by (simp add: list_all2_lengthD)
  have "1 \<le> rate" using a(3) assms(4) by (simp add: acceptance_blockers_Nil)
  moreover have "length (filter sac_clean (map snd accepted)) \<le> length ?es"
    using length_filter_le [of sac_clean "map snd accepted"] unfolding len .
  ultimately have "length (filter sac_clean (map snd accepted)) = length (map snd accepted)"
    using mean_of_all [OF a(2)] assms(5) len by (simp only:)
  then have clean: "sac_clean (snd x)" if "x \<in> set accepted" for x
    using filter_all [of sac_clean "map snd accepted" "snd x"] that by simp
  obtain x where x: "x \<in> set accepted" "accept_session dumps request e = Inr x"
    using result_image [OF a(1) assms(6)] by blast
  have reasons: "session_reasons_of ?policy e (replay_by_session (paq_replay_reports request) (sev_session_id e)) = []"
    using accept_session_Inr [OF x(2)] clean [OF x(1)] by simp
  obtain r where r: "replay_by_session (paq_replay_reports request) (sev_session_id e) = Some r"
    "r \<in> set (paq_replay_reports request)" "valid_full_replay_report r" "frp_session_id r = sev_session_id e"
    "frp_trading_date r = sev_trading_date e"
    by (rule valid_request_replay [OF assms(1,6)])
  have passed: "frp_passed r" using reasons policy r(1) by (auto simp: session_reasons_Nil)
  have coherent: "set (map rce_component (frp_components r)) = UNIV" "list_all rce_verified (frp_components r)"
    "list_all valid_component_evidence (frp_components r)"
    using r(3) passed by (auto simp: valid_full_replay_report_def coherent_replay_report_def Let_def split: if_splits)
  have "\<exists>c \<in> set (frp_components r). rce_component c = component \<and>
      (\<exists>h. rce_expected_hash c = Some h \<and> rce_actual_hash c = Some h)" for component
  proof -
    have "component \<in> set (map rce_component (frp_components r))" using coherent(1) by simp
    then show ?thesis using coherent(2,3) verified_hash by (auto simp: list_all_iff)
  qed
  then show ?thesis using reasons policy r passed by (auto simp: session_reasons_Nil)
qed


text \<open>
  Claim C38. Building a ledger from a valid request fails only by an overflow of the decimals:
  no validator of the analytics rejects what the code puts together.
\<close>

theorem ledger_fails_only_by_overflow:
  assumes "valid_paper_acceptance_request request" "build_paper_acceptance_ledger dumps request = Inl e"
  shows "e = DecimalError"
proof -
  let ?es = "paq_sessions request"
  have es: "valid_session_evidence x" if "x \<in> set ?es" for x
    using that assms(1) by (auto simp: valid_paper_acceptance_request_def list_all_iff)
  have accept: "decimal_only (accept_session dumps request x)" if x: "x \<in> set ?es" for x
    unfolding accept_session_def Let_def
  proof (intro decimal_only_rbind decimal_only_analyze [OF es [OF x]] decimal_only_checked decimal_only_Inr)
    fix p assume p: "analyze_session dumps x = Inr p"
    obtain r where r: "replay_by_session (paq_replay_reports request) (sev_session_id x) = Some r" "valid_full_replay_report r"
      by (rule valid_request_replay [OF assms(1) x]) blast
    have "id_of_length 64 (spf_analytics_id p)"
      using p by (auto simp: analyze_session_def Let_def rbind_Inr_iff valid_session_performance_def)
    then show "valid_session_acceptance \<lparr>sac_session_id = sev_session_id x, sac_trading_date = sev_trading_date x,
        sac_clean = session_reasons_of (paq_policy request) x (replay_by_session (paq_replay_reports request) (sev_session_id x)) = [],
        sac_reasons = session_reasons_of (paq_policy request) x (replay_by_session (paq_replay_reports request) (sev_session_id x)),
        sac_analytics_id = spf_analytics_id p,
        sac_replay_id = map_option frp_replay_id (replay_by_session (paq_replay_reports request) (sev_session_id x))\<rparr>"
      using es [OF x] r by (simp add: valid_session_acceptance_def valid_session_evidence_def valid_full_replay_report_def)
  qed
  have fees: "list_all (\<lambda>t. 0 \<le> tro_fees t) (concat (map sev_trades ?es))"
    using es trades_of_session by (auto simp: list_all_iff)
  have "decimal_only (build_paper_acceptance_ledger dumps request)"
    unfolding build_paper_acceptance_ledger_def Let_def summarize_sessions_def option.case
  proof (intro decimal_only_rbind decimal_only_result_map accept decimal_only_mean decimal_only_summary decimal_only_Inr
      decimal_only_checked)
    fix accepted rate summary
    assume acc: "result_map (accept_session dumps request) ?es = Inr accepted"
      and rate: "mean_of (of_nat (length (filter sac_clean (map snd accepted)))) (length ?es) = Inr rate"
      and "rbind (summary_of (concat (map sev_trades ?es)))
        (\<lambda>s. Inr (aggregate_of_summary (length (map fst accepted)) s)) = Inr summary"
    then obtain s where s: "summary_of (concat (map sev_trades ?es)) = Inr s"
      "summary = aggregate_of_summary (length (map fst accepted)) s"
      by (auto simp: rbind_Inr_iff)
    show performance: "valid_aggregate_performance summary"
      using summary_ranges [OF s(1) fees] by (simp add: s(2) valid_aggregate_performance_def aggregate_of_summary_def)
    fix performance
    assume "model_checked valid_aggregate_performance (ad_invalid dumps JNull) summary = Inr performance"
    then have same: "performance = summary" by simp
    have "list_all2 (\<lambda>e a. accept_session dumps request e = Inr a) ?es accepted" using acc by (simp add: result_map_Inr)
    then have len: "length accepted = length ?es"
      and recs: "list_all valid_session_acceptance (map snd accepted)"
      by (auto simp: list_all2_lengthD list_all_iff accept_session_def Let_def rbind_Inr_iff dest!: result_origin)
    have "length (filter sac_clean (map snd accepted)) \<le> length ?es" using len length_filter_le [of sac_clean "map snd accepted"] by simp
    then have "0 \<le> rate \<and> rate \<le> 1" by (rule mean_of_share [OF rate])
    moreover have "0 \<le> sum_list (map sev_orders_filled ?es)"
      using es by (intro sum_list_nonneg) (auto simp: valid_session_evidence_def)
    moreover have "valid_analytics_policy (paq_policy request)" "valid_hash (paq_configuration_hash request)"
      using assms(1) by (simp_all add: valid_paper_acceptance_request_def)
    ultimately show "valid_paper_ledger (ledger_body dumps request (map snd accepted) rate performance
        \<lparr>pal_ledger_id := ''PL-'' @ take 20 (canonical_sha256 (ad_ledger dumps
            (ledger_body dumps request (map snd accepted) rate performance))),
         pal_ledger_hash := canonical_sha256 (ad_ledger dumps
            (ledger_body dumps request (map snd accepted) rate performance))\<rparr>)"
      using performance recs
      by (simp add: same valid_paper_ledger_def ledger_body_def Let_def id_of_length_def coherent_ledger_def qualified_iff)
  qed
  then show ?thesis using assms(2) by (simp add: decimal_only_def)
qed

section \<open>Deployment evidence\<close>

lemma deployment_blockers_Nil:
  "deployment_blockers dumps request = [] \<longleftrightarrow>
     deq_tests_passed request = deq_tests_collected request \<and> deq_secret_findings request = 0 \<and>
     canonical_sha256 (paper_ledger_body dumps (deq_paper_ledger request)) = pal_ledger_hash (deq_paper_ledger request) \<and>
     pal_paper_ready (deq_paper_ledger request) \<and> deq_target_acceptance_verified request \<and>
     deq_restore_validation_verified request \<and> deq_required_drills_verified request \<and>
     deq_online_paper_account_verified request \<and> deq_postgres_verified request \<and> deq_ntp_verified request"
  by (auto simp: deployment_blockers_def)

lemma deployment_hashes_sorted:
  "deployment_hashes request =
     [(''configuration'', deq_configuration_hash request), (''migrations'', deq_migrations_sha256 request),
      (''paper_ledger'', pal_ledger_hash (deq_paper_ledger request)),
      (''schemas_bundle'', deq_schemas_bundle_sha256 request), (''source_archive'', deq_source_archive_sha256 request),
      (''specification'', deq_specification_sha256 request),
      (''verification_report'', deq_verification_report_sha256 request), (''wheel'', deq_wheel_sha256 request)]"
  unfolding deployment_hashes_def by (intro sort_key_id_if_sorted) (simp add: less_eq_prod_def)

lemma deployment_report_cases:
  assumes "valid_deployment_request request"
  shows "build_deployment_evidence_report dumps request =
      (if deq_tests_passed request \<le> deq_tests_collected request
       then Inr ((deployment_body dumps request)\<lparr>
         der_report_id := ''DE-'' @ take 20 (canonical_sha256 (ad_deployment dumps (deployment_body dumps request))),
         der_report_hash := canonical_sha256 (ad_deployment dumps (deployment_body dumps request))\<rparr>)
       else Inl (ValidationError (ad_invalid dumps (ad_deployment dumps (deployment_body dumps request))))) \<and>
    (der_paper_deployment_ready (deployment_body dumps request) \<longleftrightarrow> deployment_blockers dumps request = [])"
proof -
  have ledger: "id_of_length 64 (pal_ledger_id (deq_paper_ledger request))" "valid_hash (pal_ledger_hash (deq_paper_ledger request))"
    using assms by (simp_all add: valid_deployment_request_def valid_paper_ledger_def)
  have sorted: "evidence_sorted_unique (deployment_hashes request) = None"
    by (simp add: evidence_sorted_unique_def deployment_hashes_def deployment_hashes_sorted)
  have hashes: "list_all (\<lambda>h. valid_hash (snd h)) (deployment_hashes request)"
    unfolding deployment_hashes_sorted using assms ledger(2) by (simp add: valid_deployment_request_def)
  have fields: "deq_release_version request = ''1.0.2''" "deq_specification_version request = ''6.3''"
    "deq_migration_head request = ''0009_phase9_release''" "valid_hash (deq_configuration_hash request)"
    "0 < deq_tests_collected request" "0 \<le> deq_tests_passed request" "0 < deq_schema_count request"
    "0 \<le> deq_secret_findings request"
    using assms by (simp_all add: valid_deployment_request_def)
  have valid: "valid_deployment_report
      (deployment_body dumps request\<lparr>der_report_id := ''DE-'' @ take 20 (canonical_sha256 x), der_report_hash := canonical_sha256 x\<rparr>)
      \<longleftrightarrow> deq_tests_passed request \<le> deq_tests_collected request" for x
    unfolding valid_deployment_report_def deployment_body_def Let_def id_of_length_def coherent_deployment_def
    using fields ledger(2) ledger(1) [unfolded id_of_length_def] sorted hashes
    by (cases "deployment_blockers dumps request = []"; simp only: if_True if_False simp_thms deployment_status.simps) simp_all
  have ready: "der_paper_deployment_ready (deployment_body dumps request) \<longleftrightarrow> deployment_blockers dumps request = []"
    by (simp add: deployment_body_def Let_def)
  show ?thesis
    unfolding build_deployment_evidence_report_def Let_def model_checked_def valid
    using ready by simp
qed

lemma deployment_report_built:
  assumes "valid_deployment_request request" "deployment_blockers dumps request = []"
  shows "\<exists>report. build_deployment_evidence_report dumps request = Inr report \<and> der_paper_deployment_ready report"
  using deployment_report_cases [OF assms(1), of dumps] assms(2) by (simp add: deployment_blockers_Nil)

text \<open>
  The evidence of a deployment is built for a valid request exactly when not more
  tests passed than were collected; otherwise the validator of the report raises. A report is
  ready for the paper deployment exactly when all tests passed, no secret was found, the ledger
  is qualified and has the hash of its content, and all six verifications are given.
\<close>

theorem deployment_report_exact:
  assumes "valid_deployment_request request"
  shows "(deq_tests_collected request < deq_tests_passed request \<longrightarrow>
      (\<exists>m. build_deployment_evidence_report dumps request = Inl (ValidationError m))) \<and>
    (deq_tests_passed request \<le> deq_tests_collected request \<longrightarrow>
      (\<exists>report. build_deployment_evidence_report dumps request = Inr report \<and>
        (der_paper_deployment_ready report \<longleftrightarrow>
           deq_tests_passed request = deq_tests_collected request \<and> deq_secret_findings request = 0 \<and>
           canonical_sha256 (paper_ledger_body dumps (deq_paper_ledger request)) =
             pal_ledger_hash (deq_paper_ledger request) \<and>
           pal_paper_ready (deq_paper_ledger request) \<and> deq_target_acceptance_verified request \<and>
           deq_restore_validation_verified request \<and> deq_required_drills_verified request \<and>
           deq_online_paper_account_verified request \<and> deq_postgres_verified request \<and> deq_ntp_verified request)))"
  using deployment_report_cases [OF assms, of dumps] by (simp add: deployment_blockers_Nil)

end
