(* ===== verification/Release_Properties.thy ===== *)
theory Release_Properties
  imports Release Acceptance_Properties
begin

text \<open>
  What the verdict of the release review means, and the whole chain from the evidence of the
  sessions over the ledger and the deployment to the release.
\<close>

lemma roles_sorted_unique_sort: "distinct roles \<Longrightarrow> roles_sorted_unique (sort_key approval_role_value roles)"
  unfolding roles_sorted_unique_def by (simp add: remdups_id_iff_distinct [THEN iffD2] sort_key_id_if_sorted)

lemma in_approved_roles:
  "role \<in> set (approved_roles_of request) \<longleftrightarrow> (\<exists>a \<in> set (pcq_approvals request). apv_role a = role \<and> apv_approved a)"
  by (auto simp: approved_roles_of_def)

lemma set_missing_roles:
  "set (missing_roles_of request) = set (pcp_required_approval_roles (pcq_policy request)) - set (approved_roles_of request)"
  by (auto simp: missing_roles_of_def)

lemma missing_roles_Nil:
  "missing_roles_of request = [] \<longleftrightarrow>
     (\<forall>role \<in> set (pcp_required_approval_roles (pcq_policy request)). \<exists>a \<in> set (pcq_approvals request).
        apv_role a = role \<and> apv_approved a)"
proof -
  have "missing_roles_of request = [] \<longleftrightarrow> set (missing_roles_of request) = {}" by simp
  also have "\<dots> \<longleftrightarrow> (\<forall>role \<in> set (pcp_required_approval_roles (pcq_policy request)). role \<in> set (approved_roles_of request))"
    unfolding set_missing_roles by blast
  finally show ?thesis by (simp only: in_approved_roles)
qed

lemma review_summary_valid:
  assumes "valid_candidate_request request"
  shows "valid_review_summary (review_summary_of request)"
proof -
  have "distinct (map apv_role (pcq_approvals request))"
    using assms by (auto simp: valid_candidate_request_def approvals_sorted_unique_def split: if_splits)
  then have "distinct (map apv_role (filter apv_approved (pcq_approvals request)))" by (rule distinct_map_filter)
  then show ?thesis
    by (simp add: valid_review_summary_def review_summary_of_def open_count_def approved_roles_of_def missing_roles_of_def
        roles_sorted_unique_sort)
qed

lemma same_dict_refl: "dict_of d = dict_of e \<Longrightarrow> same_dict d e"
  by (simp add: same_dict_iff)

lemma coherent_evidence:
  assumes "valid_candidate_request request"
  shows "list_all (\<lambda>(name, expected). artifact_hash (pcq_evidence_manifest request) name = Some expected)
      (expected_artifact_hashes request) \<and>
    pal_configuration_hash (pcq_paper_ledger request) = cfz_configuration_hash (pcq_configuration_freeze request) \<and>
    der_configuration_hash (pcq_deployment_evidence request) = cfz_configuration_hash (pcq_configuration_freeze request) \<and>
    der_paper_ledger_id (pcq_deployment_evidence request) = pal_ledger_id (pcq_paper_ledger request) \<and>
    der_paper_ledger_hash (pcq_deployment_evidence request) = pal_ledger_hash (pcq_paper_ledger request) \<and>
    same_dict (der_evidence_hashes (pcq_deployment_evidence request)) (expected_deployment_hashes request) \<and>
    der_tests_collected (pcq_deployment_evidence request) = bat_tests_collected (pcq_build_attestation request) \<and>
    der_tests_passed (pcq_deployment_evidence request) = bat_tests_passed (pcq_build_attestation request) \<and>
    der_schema_count (pcq_deployment_evidence request) = bat_schema_count (pcq_build_attestation request) \<and>
    der_secret_findings (pcq_deployment_evidence request) = bat_secret_findings (pcq_build_attestation request) \<and>
    (\<forall>a \<in> set (pcq_approvals request). apv_evidence_package_hash a = emf_manifest_hash (pcq_evidence_manifest request) \<and>
       emf_generated_at (pcq_evidence_manifest request) \<le> apv_approved_at a \<and> apv_approved_at a \<le> pcq_generated_at request)"
  using assms
  by (auto simp: valid_candidate_request_def evidence_coherent_def Let_def first_error_None list_all_iff list_ex_iff not_less)

lemma coherent_approval:
  assumes "valid_candidate_request request" "a \<in> set (pcq_approvals request)"
  shows "apv_evidence_package_hash a = emf_manifest_hash (pcq_evidence_manifest request) \<and>
    emf_generated_at (pcq_evidence_manifest request) \<le> apv_approved_at a \<and> apv_approved_at a \<le> pcq_generated_at request"
  using coherent_evidence [OF assms(1)] assms(2) by simp

lemma candidate_versions:
  assumes "valid_candidate_request request"
  shows "pcp_release_version (pcq_policy request) = ''1.0.2'' \<and> pcp_specification_version (pcq_policy request) = ''6.3'' \<and>
    pcp_expected_migration_head (pcq_policy request) = ''0009_phase9_release'' \<and>
    bat_release_version (pcq_build_attestation request) = ''1.0.2'' \<and>
    bat_specification_version (pcq_build_attestation request) = ''6.3'' \<and>
    bat_migration_head (pcq_build_attestation request) = ''0009_phase9_release'' \<and>
    cfz_release_version (pcq_configuration_freeze request) = ''1.0.2'' \<and>
    cfz_specification_version (pcq_configuration_freeze request) = ''6.3'' \<and>
    cfz_migration_head (pcq_configuration_freeze request) = ''0009_phase9_release'' \<and>
    cfz_environment (pcq_configuration_freeze request) = ''paper'' \<and>
    \<not> cfz_live_execution_enabled (pcq_configuration_freeze request) \<and>
    der_release_version (pcq_deployment_evidence request) = ''1.0.2'' \<and>
    der_specification_version (pcq_deployment_evidence request) = ''6.3'' \<and>
    der_migration_head (pcq_deployment_evidence request) = ''0009_phase9_release'' \<and>
    \<not> der_live_deployment_ready (pcq_deployment_evidence request)"
  using assms
  by (simp add: valid_candidate_request_def valid_candidate_policy_def valid_build_def valid_freeze_def valid_deployment_report_def)

lemma candidate_policy_flags:
  assumes "valid_candidate_request request"
  shows "pcp_require_clean_install (pcq_policy request) \<and> pcp_require_extracted_source_test (pcq_policy request) \<and>
    pcp_require_python_compile (pcq_policy request) \<and> pcp_require_wheel_smoke_test (pcq_policy request) \<and>
    pcp_require_zero_secret_findings (pcq_policy request) \<and> pcp_require_paper_ledger (pcq_policy request) \<and>
    pcp_require_deployment_evidence (pcq_policy request) \<and> pcp_require_rollback_validation (pcq_policy request) \<and>
    pcp_require_independent_review (pcq_policy request) \<and> pcp_maximum_open_high_findings (pcq_policy request) = 0 \<and>
    pcp_maximum_open_critical_findings (pcq_policy request) = 0"
  using assms by (simp add: valid_candidate_request_def valid_candidate_policy_def)

lemma open_count_nonneg: "0 \<le> open_count request severity"
  by (simp add: open_count_def)

lemma ready_ledger_blockers:
  assumes "build_paper_acceptance_ledger dumps request = Inr ledger" "pal_paper_ready ledger"
  shows "\<exists>rate. acceptance_blockers request (int (length (paq_sessions request)))
    (sum_list (map sev_orders_filled (paq_sessions request))) rate = []"
  by (rule build_ledger_Inr [OF assms(1)]) (use assms(2) in blast)

lemma ledger_configuration:
  assumes "build_paper_acceptance_ledger dumps request = Inr ledger"
  shows "pal_configuration_hash ledger = paq_configuration_hash request"
  using assms unfolding build_paper_acceptance_ledger_def Let_def ledger_body_def by (auto simp: rbind_Inr_iff)

text \<open>Every hash that covers a body is the hash of that body, and the identifiers are derived from them.\<close>

definition hashes_hold :: "release_dumps \<Rightarrow> analytics_dumps \<Rightarrow> candidate_request \<Rightarrow> bool" where
  "hashes_hold dumps analytics r \<longleftrightarrow>
     emf_manifest_hash (pcq_evidence_manifest r) =
       canonical_sha256 (rl_manifest dumps ((pcq_evidence_manifest r)\<lparr>emf_manifest_hash := []\<rparr>)) \<and>
     bat_attestation_hash (pcq_build_attestation r) =
       canonical_sha256 (rl_build dumps ((pcq_build_attestation r)\<lparr>bat_attestation_hash := []\<rparr>)) \<and>
     cfz_freeze_hash (pcq_configuration_freeze r) =
       canonical_sha256 (rl_freeze dumps ((pcq_configuration_freeze r)\<lparr>cfz_freeze_hash := []\<rparr>)) \<and>
     rbk_evidence_hash (pcq_rollback_evidence r) =
       canonical_sha256 (rl_rollback dumps ((pcq_rollback_evidence r)\<lparr>rbk_evidence_hash := []\<rparr>)) \<and>
     pal_ledger_hash (pcq_paper_ledger r) = canonical_sha256 (paper_ledger_body analytics (pcq_paper_ledger r)) \<and>
     der_report_hash (pcq_deployment_evidence r) =
       canonical_sha256 (deployment_report_body analytics (pcq_deployment_evidence r)) \<and>
     pal_ledger_id (pcq_paper_ledger r) = ''PL-'' @ take 20 (pal_ledger_hash (pcq_paper_ledger r)) \<and>
     der_report_id (pcq_deployment_evidence r) = ''DE-'' @ take 20 (der_report_hash (pcq_deployment_evidence r))"

definition build_verified :: "candidate_request \<Rightarrow> bool" where
  "build_verified r \<longleftrightarrow>
     pcp_minimum_tests_collected (pcq_policy r) \<le> bat_tests_collected (pcq_build_attestation r) \<and>
     bat_tests_passed (pcq_build_attestation r) = bat_tests_collected (pcq_build_attestation r) \<and>
     pcp_minimum_schema_count (pcq_policy r) \<le> bat_schema_count (pcq_build_attestation r) \<and>
     bat_secret_findings (pcq_build_attestation r) = 0 \<and> bat_clean_install_passed (pcq_build_attestation r) \<and>
     bat_extracted_source_test_passed (pcq_build_attestation r) \<and> bat_python_compile_passed (pcq_build_attestation r) \<and>
     bat_wheel_smoke_test_passed (pcq_build_attestation r)"

lemma artifacts_present:
  assumes "valid_candidate_request request"
  shows "manifest_blockers dumps request = [] \<longleftrightarrow>
    emf_manifest_hash (pcq_evidence_manifest request) =
      canonical_sha256 (rl_manifest dumps ((pcq_evidence_manifest request)\<lparr>emf_manifest_hash := []\<rparr>))"
proof -
  let ?m = "pcq_evidence_manifest request"
  have "artifact_hash ?m n \<noteq> None" if "n \<in> set REQUIRED_ARTIFACTS" for n
    using that coherent_evidence [OF assms] by (auto simp: REQUIRED_ARTIFACTS_def expected_artifact_hashes_def)
  then have "n \<in> set (map afe_name (emf_artifacts ?m))" if "n \<in> set REQUIRED_ARTIFACTS" for n
    using that unfolding artifact_hash_def dict_of_def by (auto simp: map_of_eq_None_iff image_comp comp_def)
  moreover have "\<not> afe_size_bytes a \<le> 0" if "a \<in> set (emf_artifacts ?m)" for a
    using that assms by (auto simp: valid_candidate_request_def valid_manifest_def valid_artifact_def list_all_iff)
  ultimately show ?thesis by (auto simp: manifest_blockers_def Let_def list_ex_iff)
qed

lemma review_blockers_Nil:
  assumes "valid_candidate_request request"
  shows "review_blockers dumps analytics request = [] \<longleftrightarrow>
    hashes_hold dumps analytics request \<and> build_verified request \<and> pal_paper_ready (pcq_paper_ledger request) \<and>
    der_paper_deployment_ready (pcq_deployment_evidence request) \<and> rollback_verified (pcq_rollback_evidence request) \<and>
    pcq_independent_review_complete request \<and>
    open_count request RV_MEDIUM \<le> pcp_maximum_open_medium_findings (pcq_policy request) \<and>
    open_count request RV_HIGH = 0 \<and> open_count request RV_CRITICAL = 0 \<and>
    (\<forall>role \<in> set (pcp_required_approval_roles (pcq_policy request)). \<exists>a \<in> set (pcq_approvals request).
       apv_role a = role \<and> apv_approved a) \<and>
    (\<forall>a \<in> set (pcq_approvals request). apv_approved a)"
proof -
  note facts = coherent_evidence [OF assms] candidate_versions [OF assms] candidate_policy_flags [OF assms]
  have build: "build_blockers dumps request = [] \<longleftrightarrow> build_verified request \<and>
      bat_attestation_hash (pcq_build_attestation request) =
        canonical_sha256 (rl_build dumps ((pcq_build_attestation request)\<lparr>bat_attestation_hash := []\<rparr>))"
    using facts by (auto simp: build_blockers_def Let_def build_verified_def list_ex_iff list_all_iff)
  have freeze: "freeze_blockers dumps request = [] \<longleftrightarrow>
      cfz_freeze_hash (pcq_configuration_freeze request) =
        canonical_sha256 (rl_freeze dumps ((pcq_configuration_freeze request)\<lparr>cfz_freeze_hash := []\<rparr>))"
    using facts by (auto simp: freeze_blockers_def Let_def)
  have chain: "chain_blockers dumps request = [] \<longleftrightarrow> rollback_verified (pcq_rollback_evidence request) \<and>
      pcq_independent_review_complete request \<and>
      rbk_evidence_hash (pcq_rollback_evidence request) =
        canonical_sha256 (rl_rollback dumps ((pcq_rollback_evidence request)\<lparr>rbk_evidence_hash := []\<rparr>))"
    using facts by (auto simp: chain_blockers_def Let_def)
  have ledger: "ledger_blockers analytics request = [] \<longleftrightarrow> pal_paper_ready (pcq_paper_ledger request) \<and>
      der_paper_deployment_ready (pcq_deployment_evidence request) \<and>
      pal_ledger_hash (pcq_paper_ledger request) = canonical_sha256 (paper_ledger_body analytics (pcq_paper_ledger request)) \<and>
      der_report_hash (pcq_deployment_evidence request) =
        canonical_sha256 (deployment_report_body analytics (pcq_deployment_evidence request)) \<and>
      pal_ledger_id (pcq_paper_ledger request) = ''PL-'' @ take 20 (pal_ledger_hash (pcq_paper_ledger request)) \<and>
      der_report_id (pcq_deployment_evidence request) = ''DE-'' @ take 20 (der_report_hash (pcq_deployment_evidence request))"
    using facts by (auto simp: ledger_blockers_def Let_def)
  have findings: "finding_blockers request = [] \<longleftrightarrow>
      open_count request RV_MEDIUM \<le> pcp_maximum_open_medium_findings (pcq_policy request) \<and>
      open_count request RV_HIGH = 0 \<and> open_count request RV_CRITICAL = 0"
    using facts open_count_nonneg [of request] by (auto simp: finding_blockers_def Let_def not_less order_antisym)
  have approvals: "approval_blockers request = [] \<longleftrightarrow> missing_roles_of request = [] \<and>
      (\<forall>a \<in> set (pcq_approvals request). apv_approved a)"
    using facts by (auto simp: approval_blockers_def Let_def list_ex_iff not_less)
  show ?thesis
    unfolding review_blockers_def append_is_Nil_conv build freeze chain ledger findings approvals missing_roles_Nil
      artifacts_present [OF assms] hashes_hold_def
    by auto
qed

lemma candidate_status_Nil: "candidate_status_of blockers = CD_PAPER_RELEASE_CANDIDATE \<longleftrightarrow> blockers = []"
  by (simp add: candidate_status_of_def)

lemma review_Inr:
  assumes "valid_candidate_request request"
  obtains report where "review_production_candidate dumps analytics request = Inr report"
    "pcr_paper_release_candidate report \<longleftrightarrow> review_blockers dumps analytics request = []"
    "\<not> pcr_live_capital_eligible report"
proof -
  let ?body = "candidate_body dumps analytics request"
  have hashes: "valid_hash (cfz_configuration_hash (pcq_configuration_freeze request))"
    "valid_hash (emf_manifest_hash (pcq_evidence_manifest request))"
    "valid_hash (bat_attestation_hash (pcq_build_attestation request))"
    "valid_hash (cfz_freeze_hash (pcq_configuration_freeze request))"
    using assms by (simp_all add: valid_candidate_request_def valid_manifest_def valid_build_def valid_freeze_def)
  have ids: "8 \<le> length (pal_ledger_id (pcq_paper_ledger request)) \<and> length (pal_ledger_id (pcq_paper_ledger request)) \<le> 64 \<and>
      8 \<le> length (der_report_id (pcq_deployment_evidence request)) \<and> length (der_report_id (pcq_deployment_evidence request)) \<le> 64"
    using assms by (simp add: valid_candidate_request_def valid_paper_ledger_def valid_deployment_report_def id_of_length_def)
  have status: "pcr_paper_release_candidate ?body \<longleftrightarrow> review_blockers dumps analytics request = []"
    "\<not> pcr_live_capital_eligible ?body"
    by (simp_all add: candidate_body_def Let_def candidate_status_Nil)
  have blockers: "pcr_blockers ?body = [] \<longleftrightarrow> review_blockers dumps analytics request = []"
    by (metis (no_types, lifting) candidate_body_def candidate_report.select_convs(6) remdups_eq_nil_iff set_empty set_sort)
  have parts: "pcr_status ?body = candidate_status_of (review_blockers dumps analytics request)"
    "pcr_review_summary ?body = review_summary_of request"
    "pcr_release_version ?body = ''1.0.2''" "pcr_specification_version ?body = ''6.3''"
    "pcr_configuration_hash ?body = cfz_configuration_hash (pcq_configuration_freeze request)"
    "pcr_evidence_manifest_hash ?body = emf_manifest_hash (pcq_evidence_manifest request)"
    "pcr_build_attestation_hash ?body = bat_attestation_hash (pcq_build_attestation request)"
    "pcr_configuration_freeze_hash ?body = cfz_freeze_hash (pcq_configuration_freeze request)"
    "pcr_paper_ledger_id ?body = pal_ledger_id (pcq_paper_ledger request)"
    "pcr_deployment_report_id ?body = der_report_id (pcq_deployment_evidence request)"
    "pcr_request_hash ?body = canonical_sha256 (rl_request dumps request)"
    using candidate_versions [OF assms] by (simp_all add: candidate_body_def Let_def)
  have "valid_candidate_report (?body\<lparr>pcr_report_id := ''PC-'' @ take 20 (canonical_sha256 x), pcr_report_hash := canonical_sha256 x\<rparr>)"
    for x
    using hashes ids status blockers review_summary_valid [OF assms]
    by (simp add: valid_candidate_report_def parts id_of_length_def coherent_candidate_def candidate_status_Nil)
  then show ?thesis
    using that status review_summary_valid [OF assms]
    by (simp add: review_production_candidate_def Let_def model_checked_def)
qed

text \<open>
  Claim C36. The review of a valid request always gives a report, which never allows live
  capital, and it names a release candidate exactly when every hash covers its content, the build
  is verified, ledger and deployment are ready, the rollback and the independent review are
  verified, no finding above the policy is open, every required role has approved and nobody has
  rejected.
\<close>

theorem release_candidate_exact:
  assumes "valid_candidate_request request"
  shows "\<exists>report. review_production_candidate dumps analytics request = Inr report \<and>
    \<not> pcr_live_capital_eligible report \<and>
    (pcr_paper_release_candidate report \<longleftrightarrow>
      hashes_hold dumps analytics request \<and> build_verified request \<and> pal_paper_ready (pcq_paper_ledger request) \<and>
      der_paper_deployment_ready (pcq_deployment_evidence request) \<and> rollback_verified (pcq_rollback_evidence request) \<and>
      pcq_independent_review_complete request \<and>
      open_count request RV_MEDIUM \<le> pcp_maximum_open_medium_findings (pcq_policy request) \<and>
      open_count request RV_HIGH = 0 \<and> open_count request RV_CRITICAL = 0 \<and>
      (\<forall>role \<in> set (pcp_required_approval_roles (pcq_policy request)). \<exists>a \<in> set (pcq_approvals request).
         apv_role a = role \<and> apv_approved a) \<and>
      (\<forall>a \<in> set (pcq_approvals request). apv_approved a))"
  by (rule review_Inr [OF assms, of dumps analytics]) (use review_blockers_Nil [OF assms] in blast)


end
