(* ===== verification/Analytics_Witnesses.thy ===== *)
theory Analytics_Witnesses
  imports Acceptance_Properties
begin

text \<open>
  Witnesses of the properties of the analytics: one session with a winning and a losing trade, its
  replay, the ledger of that one session, and a trade whose price overflows the decimals.
\<close>

definition sample_analytics :: analytics_dumps where
  "sample_analytics =
     \<lparr>ad_evidence = (\<lambda>_. JNull), ad_performance = (\<lambda>_. JNull), ad_replay_request = (\<lambda>_. JNull), ad_replay = (\<lambda>_. JNull),
      ad_acceptance_request = (\<lambda>_. JNull), ad_ledger = (\<lambda>_. JNull), ad_deployment_request = (\<lambda>_. JNull),
      ad_deployment = (\<lambda>_. JNull), ad_invalid = (\<lambda>_. [])\<rparr>"

definition some_hash :: string where
  "some_hash = canonical_sha256 JNull"

lemma some_hash_valid [simp]: "valid_hash some_hash" "length some_hash = 64"
  by (simp_all add: some_hash_def)

definition sample_trade :: "string \<Rightarrow> timestamp \<Rightarrow> rat \<Rightarrow> rat \<Rightarrow> trade_outcome" where
  "sample_trade trade_id entry exit_price fees =
     \<lparr>tro_trade_id = trade_id, tro_session_id = ''session1'', tro_ticker = ''ABC'', tro_final_rank = 1, tro_quantity = 100,
      tro_entry_timestamp = entry, tro_exit_timestamp = entry + 1, tro_planned_entry_price = 10,
      tro_average_entry_price = 10, tro_planned_stop_price = 9, tro_planned_target_price = 12,
      tro_average_exit_price = exit_price, tro_fees = fees, tro_source_type = ''primary'', tro_chart_structure = ''blue_sky'',
      tro_risk_flags = [''low_float''], tro_exit_reason = XR_TARGET\<rparr>"

definition sample_session_with :: "trade_outcome list \<Rightarrow> session_evidence" where
  "sample_session_with trades =
     \<lparr>sev_session_id = ''session1'', sev_trading_date = (2026, 1, 5), sev_generated_at = 100,
      sev_configuration_hash = some_hash, sev_full_session_recorded = True, sev_raw_event_count = 5,
      sev_evaluator_run_count = 1, sev_approved_setup_count = 1, sev_qualified_not_selected_count = 0,
      sev_excluded_ticker_count = 0, sev_orders_submitted = 2, sev_orders_filled = int (length trades),
      sev_invariant_violations = 0, sev_unresolved_reconciliations = 0, sev_duplicate_order_count = 0,
      sev_late_primary_response_count = 0, sev_all_positions_flat = True, sev_kill_switch_activation_count = 0,
      sev_trades = trades\<rparr>"

definition sample_evidence :: session_evidence where
  "sample_evidence = sample_session_with [sample_trade ''trade-01'' 10 12 1, sample_trade ''trade-02'' 20 9 0]"

lemma sample_evidence_valid: "valid_session_evidence sample_evidence"
  by (simp add: sample_evidence_def sample_session_with_def sample_trade_def valid_session_evidence_def
      valid_trade_outcome_def id_of_length_def risk_flags_canonical_def coherent_trade_def coherent_session_def
      sorted_by_def TRADE_FLAG_ORDER_def ticker_alnum_def ticker_char_def)

lemma not_isl: "\<not> isl r \<Longrightarrow> \<exists>x. r = Inr x"
  by (cases r) auto

lemma result_map_total: "(\<And>x. x \<in> set xs \<Longrightarrow> \<not> isl (f x)) \<Longrightarrow> \<exists>ys. result_map f xs = Inr ys"
proof (induction xs)
  case (Cons x xs)
  then obtain y ys where "f x = Inr y" "result_map f xs = Inr ys" using not_isl [of "f x"] by fastforce
  then show ?case by simp
qed simp

text \<open>Evaluation of a chain of steps from the first on, as a congruence rule for \<open>simp\<close>.\<close>

lemma rbind_weak_cong: "m = m' \<Longrightarrow> rbind m f = rbind m' f"
  by simp

lemmas metric_eval = trade_metrics_def gross_of_def sample_trade_def quantized_def quotient_def arith_eval Let_def

lemma sample_metrics:
  "trade_metrics (sample_trade ''trade-01'' 10 12 1) = Inr \<lparr>tm_gross = 200, tm_net = 199, tm_risk = 100, tm_r = 199 / 100,
     tm_entry_slippage = 0, tm_entry_slippage_bps = 0\<rparr>"
  "trade_metrics (sample_trade ''trade-02'' 20 9 0) = Inr \<lparr>tm_gross = - 100, tm_net = - 100, tm_risk = 100, tm_r = - 1,
     tm_entry_slippage = 0, tm_entry_slippage_bps = 0\<rparr>"
  by (simp_all add: metric_eval cong: rbind_weak_cong)

lemma sample_fees: "tro_fees (sample_trade i e x f) = f"
  by (simp add: sample_trade_def)

lemma sample_additions:
  "dadd 0 200 = 200" "dadd 200 (- 100) = 100" "dadd 0 199 = 199" "dadd 199 (- 100) = 99" "dadd 0 1 = 1" "dadd 1 0 = 1"
  "dadd 0 (- 100) = - 100" "dadd 0 (199 / 100) = 199 / 100" "dadd (199 / 100) (- 1) = 99 / 100" "dadd 0 0 = 0"
  "dsub 199 199 = 0" "dsub 199 99 = 100" "dabs (- 100) = 100"
  by (simp_all add: arith_eval)

lemma sample_sums:
  "decimal_sum [200, - 100] = 100" "decimal_sum [199, - 100] = 99" "decimal_sum [1, 0] = 1" "decimal_sum [199] = 199"
  "decimal_sum [- 100] = - 100" "decimal_sum [199 / 100, - 1] = 99 / 100" "decimal_sum [0, 0] = 0"
  "drawdown_of [199, - 100] = 100"
  by (simp_all add: decimal_sum_def drawdown_of_def drawdown_step_def sample_additions)

lemma sample_quantized:
  "quantized 100 = Inr 100" "quantized 99 = Inr 99" "quantized 1 = Inr 1" "quantized 0 = Inr 0"
  by (simp_all add: quantized_def arith_eval)

lemma sample_quotients:
  "quantized_quotient 1 2 = Inr (1 / 2)" "quantized_quotient 99 2 = Inr (99 / 2)" "quantized_quotient 199 1 = Inr 199"
  "quantized_quotient 199 100 = Inr (199 / 100)" "quantized_quotient (- 100) 1 = Inr (- 100)"
  "quantized_quotient (99 / 100) 2 = Inr (99 / 200)" "quantized_quotient 0 2 = Inr 0"
  by (simp_all add: quantized_quotient_def quotient_def quantized_def arith_eval)

lemma sample_summaries:
  "\<not> isl (summary_of [sample_trade ''trade-01'' 10 12 1, sample_trade ''trade-02'' 20 9 0])"
  by (simp add: summary_of_def Let_def sample_metrics sample_fees sample_sums sample_quantized mean_of_def sample_quotients
      sample_additions cong: rbind_weak_cong)

lemma sample_summary: "\<not> isl (summary_of (sev_trades sample_evidence))"
  using sample_summaries by (simp add: sample_evidence_def sample_session_with_def)

lemma sample_groups:
  "attribution_groups [sample_trade ''trade-01'' 10 12 1, sample_trade ''trade-02'' 20 9 0] =
     map (\<lambda>k. (k, [sample_trade ''trade-01'' 10 12 1, sample_trade ''trade-02'' 20 9 0]))
       [(''source_type'', ''primary''), (''chart_structure'', ''blue_sky''), (''exit_reason'', ''target''),
        (''risk_flag'', ''low_float'')]"
  by (simp add: attribution_groups_def append_to_def group_keys_def sample_trade_def)

lemma sample_attributions: "\<exists>bs. attributions sample_analytics (sev_trades sample_evidence) = Inr bs"
proof -
  let ?ts = "[sample_trade ''trade-01'' 10 12 1, sample_trade ''trade-02'' 20 9 0]"
  have "\<not> isl (bucket_of sample_analytics (k, ?ts))" if "k \<in> fst ` set (attribution_groups ?ts)" for k
  proof -
    obtain s where s: "summary_of ?ts = Inr s" using sample_summaries by (cases "summary_of ?ts") auto
    have "list_all (\<lambda>t. 0 \<le> tro_fees t) ?ts" by (simp add: sample_trade_def)
    then have ranges: "0 < tsm_trade_count s" "0 \<le> tsm_win_rate s" "tsm_win_rate s \<le> 1"
      using summary_ranges [OF s] by simp_all
    have "fst k \<in> {''source_type'', ''chart_structure'', ''risk_flag'', ''exit_reason''}"
      using that unfolding sample_groups by auto
    then show ?thesis
      using ranges by (cases k) (simp add: bucket_of_def s model_checked_def valid_attribution_bucket_def)
  qed
  then have "\<forall>e \<in> set (sort_key fst (attribution_groups ?ts)). \<not> isl (bucket_of sample_analytics e)"
    by (auto simp: sample_groups)
  then have "\<exists>bs. result_map (bucket_of sample_analytics) (sort_key fst (attribution_groups ?ts)) = Inr bs"
    by (intro result_map_total) blast
  then show ?thesis by (simp add: attributions_def sample_evidence_def sample_session_with_def)
qed

lemma sample_analyzed:
  "\<exists>p. analyze_session sample_analytics sample_evidence = Inr p \<and> id_of_length 64 (spf_analytics_id p)"
  using analyze_session_total [OF sample_evidence_valid] not_isl [OF sample_summary] sample_attributions by blast

lemma sample_ordinary: "ordinary_trades (sev_trades sample_evidence)"
proof -
  have "on_grid 10 12" "on_grid 10 10" "on_grid 10 9" "on_grid 10 (1 :: rat)"
    using on_grid_of_int [of 10 12] on_grid_of_int [of 10 10] on_grid_of_int [of 10 9] by simp_all
  then show ?thesis
    by (simp add: ordinary_trades_def sample_evidence_def sample_session_with_def sample_trade_def trade_weight_def)
qed


theorem attribution_partition_witness:
  "\<exists>p. analyze_session sample_analytics sample_evidence = Inr p \<and>
     sum_list (map atb_trade_count (filter (\<lambda>b. atb_dimension b = ''source_type'') (spf_attributions p))) =
       spf_trade_count p"
proof -
  obtain p where p: "analyze_session sample_analytics sample_evidence = Inr p" using sample_analyzed by blast
  show ?thesis using p attribution_partition [OF sample_evidence_valid p, of "''source_type''"] by blast
qed

section \<open>The replay\<close>

definition sample_component :: "replay_component \<Rightarrow> replay_component_evidence" where
  "sample_component c =
     \<lparr>rce_component = c, rce_expected_hash = Some some_hash, rce_actual_hash = Some some_hash, rce_evidence_count = 1,
      rce_verified = True, rce_errors = []\<rparr>"

definition sample_replay_request :: full_replay_request where
  "sample_replay_request =
     \<lparr>frq_session_id = ''session1'', frq_trading_date = (2026, 1, 5), frq_replayed_at = 200,
      frq_expected_raw_event_count = 5, frq_actual_raw_event_count = 5, frq_event_ordering_verified = True,
      frq_point_in_time_integrity_verified = True,
      frq_components = map sample_component
        [RC_EVALUATOR, RC_EXECUTION, RC_FEATURES, RC_ORCHESTRATION, RC_RECORDER, RC_RISK]\<rparr>"

lemma sample_replay_valid: "valid_full_replay_request sample_replay_request"
  by (simp add: sample_replay_request_def valid_full_replay_request_def sample_component_def id_of_length_def
      valid_component_evidence_def coherent_component_def sorted_unique_components_def sorted_by_def)

lemma sample_components: "set (map rce_component (frq_components sample_replay_request)) = UNIV"
proof -
  have "c \<in> set (map rce_component (frq_components sample_replay_request))" for c
    by (cases c) (simp_all add: sample_replay_request_def sample_component_def)
  then show ?thesis by blast
qed

definition sample_replay :: full_replay_report where
  "sample_replay =
     \<lparr>frp_replay_id = ''RP-00000'', frp_session_id = ''session1'', frp_trading_date = (2026, 1, 5), frp_replayed_at = 200,
      frp_complete = True, frp_passed = True, frp_expected_raw_event_count = 5, frp_actual_raw_event_count = 5,
      frp_event_ordering_verified = True, frp_point_in_time_integrity_verified = True,
      frp_components = frq_components sample_replay_request, frp_errors = [], frp_request_hash = some_hash,
      frp_report_hash = some_hash\<rparr>"

lemma sample_replay_report_valid: "valid_full_replay_report sample_replay"
proof -
  have cs: "list_all valid_component_evidence (frq_components sample_replay_request)"
    "distinct (map rce_component (frq_components sample_replay_request))"
    "sorted_by (\<lambda>c. replay_component_value (rce_component c)) (frq_components sample_replay_request)"
    using sample_replay_valid by (auto simp: valid_full_replay_request_def sorted_unique_components_def split: if_splits)
  moreover have "list_all rce_verified (frq_components sample_replay_request)"
    by (simp add: sample_replay_request_def sample_component_def)
  ultimately show ?thesis
    using sample_components
    by (simp add: valid_full_replay_report_def sample_replay_def id_of_length_def sorted_unique_components_def
        coherent_replay_report_def)
qed

section \<open>The ledger\<close>

definition sample_acceptance_with :: "session_evidence \<Rightarrow> paper_acceptance_request" where
  "sample_acceptance_with session =
     \<lparr>paq_generated_at = 300,
      paq_policy = default_analytics_policy\<lparr>ay_minimum_sessions := 1, ay_minimum_filled_orders := 1,
        ay_required_drill_count := 1\<rparr>,
      paq_sessions = [session], paq_replay_reports = [sample_replay], paq_target_acceptance_verified = True,
      paq_restore_validation_verified = True, paq_passed_drills = [DT_CLOCK_SKEW], paq_configuration_hash = some_hash\<rparr>"

definition sample_acceptance :: paper_acceptance_request where
  "sample_acceptance = sample_acceptance_with sample_evidence"

lemma acceptance_valid:
  assumes "valid_session_evidence (sample_session_with trades)"
  shows "valid_paper_acceptance_request (sample_acceptance_with (sample_session_with trades))"
  using assms sample_replay_report_valid
  by (simp add: valid_paper_acceptance_request_def sample_acceptance_with_def valid_analytics_policy_def
      default_analytics_policy_def sorted_by_def evidence_sets_match_def replay_by_session_def sample_session_with_def
      sample_replay_def)

lemma sample_acceptance_valid: "valid_paper_acceptance_request sample_acceptance"
  unfolding sample_acceptance_def sample_evidence_def
  using acceptance_valid sample_evidence_valid by (simp add: sample_evidence_def)

lemma sample_fields:
  "paq_sessions sample_acceptance = [sample_evidence]" "paq_replay_reports sample_acceptance = [sample_replay]"
  "sev_session_id sample_evidence = ''session1''" "frp_session_id sample_replay = ''session1''"
  "sev_trading_date sample_evidence = (2026, 1, 5)" "frp_replay_id sample_replay = ''RP-00000''"
  "frp_passed sample_replay" "paq_configuration_hash sample_acceptance = some_hash"
  "sev_configuration_hash sample_evidence = some_hash" "sev_orders_filled sample_evidence = 2"
  "paq_policy sample_acceptance = default_analytics_policy\<lparr>ay_minimum_sessions := 1, ay_minimum_filled_orders := 1,
     ay_required_drill_count := 1\<rparr>"
  by (simp_all add: sample_acceptance_def sample_acceptance_with_def sample_evidence_def sample_session_with_def
      sample_replay_def)

lemma sample_reasons: "session_reasons_of (paq_policy sample_acceptance) sample_evidence (Some sample_replay) = []"
  by (simp add: session_reasons_Nil sample_fields default_analytics_policy_def)
    (simp add: sample_evidence_def sample_session_with_def)

lemma sample_replay_found: "replay_by_session (paq_replay_reports sample_acceptance) ''session1'' = Some sample_replay"
  by (simp add: replay_by_session_def sample_fields)

lemma sample_sessions_accepted:
  "\<exists>p a. accept_session sample_analytics sample_acceptance sample_evidence = Inr (p, a) \<and> sac_clean a \<and>
     valid_session_acceptance a"
proof -
  obtain p where p: "analyze_session sample_analytics sample_evidence = Inr p" "id_of_length 64 (spf_analytics_id p)"
    using sample_analyzed by blast
  show ?thesis
    using p(2)
    by (simp add: accept_session_def p(1) sample_fields(3) sample_replay_found sample_reasons model_checked_def
        valid_session_acceptance_def id_of_length_def sample_fields(6))
qed

lemma sample_rate: "mean_of (of_nat (Suc 0)) (Suc 0) = Inr 1"
  by code_simp

lemma sample_blockers: "acceptance_blockers sample_acceptance 1 2 1 = []"
  by (simp add: acceptance_blockers_Nil sample_fields default_analytics_policy_def)
    (simp add: sample_acceptance_def sample_acceptance_with_def)

lemma sample_ledger:
  "\<exists>ledger. build_paper_acceptance_ledger sample_analytics sample_acceptance = Inr ledger \<and> pal_paper_ready ledger"
proof -
  obtain p a where a: "accept_session sample_analytics sample_acceptance sample_evidence = Inr (p, a)" "sac_clean a"
    "valid_session_acceptance a"
    using sample_sessions_accepted by blast
  obtain s where s: "summary_of (sev_trades sample_evidence) = Inr s" using not_isl [OF sample_summary] by blast
  have "list_all (\<lambda>t. 0 \<le> tro_fees t) (sev_trades sample_evidence)" using trades_of_session [OF sample_evidence_valid] by simp
  then have performance: "valid_aggregate_performance (aggregate_of_summary 1 s)"
    using summary_ranges [OF s] by (simp add: valid_aggregate_performance_def aggregate_of_summary_def)
  let ?body = "ledger_body sample_analytics sample_acceptance [a] 1 (aggregate_of_summary 1 s)"
  have ready: "pal_paper_ready ?body" "pal_status ?body = AS_PAPER_QUALIFIED" "pal_blockers ?body = []"
    using sample_blockers by (simp_all add: ledger_body_def Let_def sample_fields(1,10) acceptance_status_of_def
        acceptance_blockers_Nil)
  have "valid_analytics_policy (paq_policy sample_acceptance)"
    using sample_acceptance_valid by (simp add: valid_paper_acceptance_request_def)
  then have "valid_paper_ledger (?body\<lparr>pal_ledger_id := ''PL-'' @ take 20 (canonical_sha256 x), pal_ledger_hash := canonical_sha256 x\<rparr>)"
    for x
    using performance a(3) ready
    by (simp add: valid_paper_ledger_def id_of_length_def coherent_ledger_def)
      (simp add: ledger_body_def Let_def sample_fields)
  then show ?thesis
    using performance ready a(2)
    by (simp add: build_paper_acceptance_ledger_def sample_fields(1) a(1) sample_rate [simplified] summarize_sessions_def s
        model_checked_def Let_def)
qed


text \<open>A price of \<open>10^20\<close> has no room for ten decimal places.\<close>

definition overflowing_evidence :: session_evidence where
  "overflowing_evidence = sample_session_with [sample_trade ''trade-01'' 10 (10 ^ 20) 0]"

lemma overflowing_valid: "valid_session_evidence (sample_session_with [sample_trade ''trade-01'' 10 (10 ^ 20) 0])"
  by (simp add: sample_session_with_def sample_trade_def valid_session_evidence_def
      valid_trade_outcome_def id_of_length_def risk_flags_canonical_def coherent_trade_def coherent_session_def
      sorted_by_def TRADE_FLAG_ORDER_def ticker_alnum_def ticker_char_def)

lemma quantized_overflow:
  assumes "10 ^ 18 \<le> x"
  shows "quantized x = Inl DecimalError"
proof -
  have "round_half_even (of_int (10 ^ 28)) \<le> round_half_even (x * 10 ^ 10)"
    using assms by (intro round_half_even_mono) simp
  then have "10 ^ 28 \<le> round_half_even (x * 10 ^ 10)" by (simp only: round_half_even_of_int)
  then show ?thesis by (simp add: quantized_def quantize_money_def)
qed

lemma overflow: "summary_of (sev_trades overflowing_evidence) = Inl DecimalError"
proof -
  have "dec (10 ^ 20) = 10 ^ 20" by (rule dec_exact [where k = 0]) (simp_all add: on_grid_def)
  then have "(10 ^ 20 :: rat) \<le> dec x" if "10 ^ 20 \<le> x" for x using dec_mono [OF that] by simp
  then have big: "(10 ^ 18 :: rat) \<le> dmul (dsub (10 ^ 20) 10) 100"
  proof -
    have "(10 ^ 19 :: rat) = dec (10 ^ 19)" by (rule dec_exact [where k = 0, symmetric]) (simp_all add: on_grid_def)
    also have "\<dots> \<le> dsub (10 ^ 20) 10" unfolding dsub_def by (rule dec_mono) simp
    finally have "(10 ^ 18 :: rat) \<le> dsub (10 ^ 20) 10 * 100" by simp
    then have "dec (10 ^ 18) \<le> dmul (dsub (10 ^ 20) 10) 100" unfolding dmul_def by (rule dec_mono)
    moreover have "dec (10 ^ 18) = (10 ^ 18 :: rat)" by (rule dec_exact [where k = 0]) (simp_all add: on_grid_def)
    ultimately show ?thesis by simp
  qed
  let ?t = "sample_trade ''trade-01'' 10 (10 ^ 20) 0"
  have "quantized (gross_of ?t) = Inl DecimalError"
    using quantized_overflow [OF big] by (simp add: gross_of_def sample_trade_def)
  then have "isl (trade_metrics ?t)"
    unfolding trade_metrics_def Let_def by (auto simp: rbind_def split: sum.splits)
  then have "trade_metrics ?t = Inl DecimalError"
    using decimal_only_trade_metrics [of ?t] by (auto simp: decimal_only_def isl_def)
  then show ?thesis by (simp add: overflowing_evidence_def sample_session_with_def summary_of_def)
qed

theorem ledger_fails_only_by_overflow_witness:
  "build_paper_acceptance_ledger sample_analytics (sample_acceptance_with overflowing_evidence) = Inl DecimalError"
proof -
  have "build_paper_acceptance_ledger sample_analytics (sample_acceptance_with overflowing_evidence) = Inl DecimalError"
    using overflow by (simp add: build_paper_acceptance_ledger_def sample_acceptance_with_def accept_session_def analyze_session_def)
  moreover have "valid_paper_acceptance_request (sample_acceptance_with overflowing_evidence)"
    unfolding overflowing_evidence_def by (rule acceptance_valid [OF overflowing_valid])
  ultimately show ?thesis using ledger_fails_only_by_overflow by metis
qed

section \<open>The deployment\<close>

definition sample_deployment :: "paper_ledger \<Rightarrow> deployment_request" where
  "sample_deployment ledger =
     \<lparr>deq_generated_at = 400, deq_release_version = ''1.0.2'', deq_specification_version = ''6.3'',
      deq_configuration_hash = some_hash, deq_source_archive_sha256 = some_hash, deq_wheel_sha256 = some_hash,
      deq_migrations_sha256 = some_hash, deq_schemas_bundle_sha256 = some_hash, deq_verification_report_sha256 = some_hash,
      deq_specification_sha256 = some_hash, deq_migration_head = ''0009_phase9_release'', deq_tests_collected = 300,
      deq_tests_passed = 300, deq_schema_count = 50, deq_secret_findings = 0, deq_paper_ledger = ledger,
      deq_target_acceptance_verified = True, deq_restore_validation_verified = True, deq_required_drills_verified = True,
      deq_online_paper_account_verified = True, deq_postgres_verified = True, deq_ntp_verified = True\<rparr>"

lemma sample_deployment_valid:
  assumes "build_paper_acceptance_ledger sample_analytics sample_acceptance = Inr ledger"
  shows "valid_deployment_request (sample_deployment ledger) \<and> pal_configuration_hash ledger = some_hash \<and>
    pal_ledger_hash ledger = some_hash"
proof -
  have "valid_paper_ledger ledger" "pal_ledger_hash ledger = canonical_sha256 (paper_ledger_body sample_analytics ledger)"
    by (rule build_ledger_Inr [OF assms], assumption)+
  moreover have "pal_configuration_hash ledger = some_hash"
    using assms unfolding build_paper_acceptance_ledger_def Let_def ledger_body_def
    by (auto simp: rbind_Inr_iff sample_fields)
  ultimately show ?thesis
    by (simp add: valid_deployment_request_def sample_deployment_def ledger_configuration_matches_def paper_ledger_body_def
        sample_analytics_def some_hash_def)
qed

theorem deployment_report_exact_witness:
  "\<exists>ledger report. valid_deployment_request (sample_deployment ledger) \<and>
     build_deployment_evidence_report sample_analytics (sample_deployment ledger) = Inr report \<and>
     der_paper_deployment_ready report"
proof -
  obtain ledger where l: "build_paper_acceptance_ledger sample_analytics sample_acceptance = Inr ledger" "pal_paper_ready ledger"
    using sample_ledger by blast
  have "pal_ledger_hash ledger = canonical_sha256 (paper_ledger_body sample_analytics ledger)"
    by (rule build_ledger_Inr [OF l(1)])
  then show ?thesis
    using sample_deployment_valid [OF l(1)] deployment_report_exact [of "sample_deployment ledger" sample_analytics] l(2)
    by (auto simp: sample_deployment_def)
qed

end
