(* ===== verification/Release_Witnesses.thy ===== *)
theory Release_Witnesses
  imports Release_Properties Analytics_Witnesses
begin

text \<open>
  A release candidate over the sample ledger and its deployment evidence, on which the properties
  of the release review are witnessed. All documents are the same, so every hash is that of \<open>null\<close>.
\<close>

definition sample_release :: release_dumps where
  "sample_release =
     \<lparr>rl_request = (\<lambda>_. JNull), rl_manifest = (\<lambda>_. JNull), rl_build = (\<lambda>_. JNull), rl_freeze = (\<lambda>_. JNull),
      rl_rollback = (\<lambda>_. JNull), rl_report = (\<lambda>_. JNull), rl_invalid = (\<lambda>_. [])\<rparr>"

definition sample_artifact :: "string \<Rightarrow> artifact_evidence" where
  "sample_artifact name = \<lparr>afe_name = name, afe_sha256 = some_hash, afe_size_bytes = 1, afe_required = True\<rparr>"

definition sample_manifest :: evidence_manifest where
  "sample_manifest =
     \<lparr>emf_generated_at = 500, emf_artifacts = map sample_artifact REQUIRED_ARTIFACTS, emf_manifest_hash = some_hash\<rparr>"

definition sample_build :: build_attestation where
  "sample_build =
     \<lparr>bat_generated_at = 500, bat_release_version = ''1.0.2'', bat_specification_version = ''6.3'',
      bat_migration_head = ''0009_phase9_release'', bat_tests_collected = 300, bat_tests_passed = 300, bat_schema_count = 50,
      bat_secret_findings = 0, bat_clean_install_passed = True, bat_extracted_source_test_passed = True,
      bat_python_compile_passed = True, bat_wheel_smoke_test_passed = True, bat_source_archive_sha256 = some_hash,
      bat_wheel_sha256 = some_hash, bat_migrations_sha256 = some_hash, bat_schemas_bundle_sha256 = some_hash,
      bat_verification_report_sha256 = some_hash, bat_attestation_hash = some_hash\<rparr>"

definition sample_freeze :: configuration_freeze where
  "sample_freeze =
     \<lparr>cfz_frozen_at = 500, cfz_release_version = ''1.0.2'', cfz_specification_version = ''6.3'', cfz_environment = ''paper'',
      cfz_live_execution_enabled = False, cfz_configuration_hash = some_hash, cfz_specification_sha256 = some_hash,
      cfz_migration_head = ''0009_phase9_release'', cfz_component_versions = [], cfz_freeze_hash = some_hash\<rparr>"

definition sample_approval :: "approval_role \<Rightarrow> approval_attestation" where
  "sample_approval role =
     \<lparr>apv_role = role, apv_reviewer_id = ''reviewer'', apv_approved = True, apv_approved_at = 550,
      apv_evidence_package_hash = some_hash, apv_comment = []\<rparr>"

definition sample_candidate :: "paper_ledger \<Rightarrow> deployment_report \<Rightarrow> candidate_request" where
  "sample_candidate ledger deployment =
     \<lparr>pcq_generated_at = 600, pcq_policy = default_candidate_policy, pcq_evidence_manifest = sample_manifest,
      pcq_build_attestation = sample_build, pcq_configuration_freeze = sample_freeze, pcq_paper_ledger = ledger,
      pcq_deployment_evidence = deployment,
      pcq_rollback_evidence = \<lparr>rbk_tested_at = 500, rbk_backup_restore_verified = True, rbk_previous_wheel_available = True,
        rbk_previous_source_archive_available = True, rbk_emergency_flatten_verified = True,
        rbk_database_forward_recovery_verified = True, rbk_rollback_plan_sha256 = some_hash, rbk_evidence_hash = some_hash\<rparr>,
      pcq_findings = [],
      pcq_approvals = map sample_approval [AR_ENGINEERING, AR_INDEPENDENT_REVIEW, AR_OPERATIONS, AR_RISK, AR_SECURITY],
      pcq_independent_review_complete = True\<rparr>"

lemma sample_parts_valid:
  "valid_candidate_policy default_candidate_policy" "valid_manifest sample_manifest" "valid_build sample_build"
  "valid_freeze sample_freeze" "list_all valid_approval (map sample_approval roles)"
  by (simp_all add: valid_candidate_policy_def default_candidate_policy_def roles_sorted_unique_def valid_manifest_def
      sample_manifest_def REQUIRED_ARTIFACTS_def sample_artifact_def valid_artifact_def artifacts_sorted_unique_def
      sorted_by_def valid_build_def sample_build_def coherent_build_def valid_freeze_def sample_freeze_def
      components_sorted_unique_def valid_approval_def sample_approval_def list_all_iff)

lemma sample_approvals_sorted:
  "approvals_sorted_unique (map sample_approval [AR_ENGINEERING, AR_INDEPENDENT_REVIEW, AR_OPERATIONS, AR_RISK, AR_SECURITY]) = None"
  by (simp add: approvals_sorted_unique_def sorted_by_def sample_approval_def)

lemma sample_artifact_hashes:
  "list_all (\<lambda>(name, expected). artifact_hash sample_manifest name = Some expected)
     (expected_artifact_hashes (sample_candidate ledger deployment))"
  by (simp add: artifact_hash_def dict_of_def sample_manifest_def sample_artifact_def REQUIRED_ARTIFACTS_def
      expected_artifact_hashes_def sample_candidate_def sample_build_def sample_freeze_def)

lemma deployment_fields:
  assumes "build_deployment_evidence_report sample_analytics (sample_deployment ledger) = Inr report"
  shows "valid_deployment_report report \<and> der_configuration_hash report = some_hash \<and>
    der_paper_ledger_id report = pal_ledger_id ledger \<and> der_paper_ledger_hash report = pal_ledger_hash ledger \<and>
    der_evidence_hashes report = deployment_hashes (sample_deployment ledger) \<and> der_tests_collected report = 300 \<and>
    der_tests_passed report = 300 \<and> der_schema_count report = 50 \<and> der_secret_findings report = 0 \<and>
    der_report_hash report = some_hash \<and> der_report_id report = ''DE-'' @ take 20 some_hash \<and>
    der_release_version report = ''1.0.2'' \<and> der_specification_version report = ''6.3'' \<and>
    der_migration_head report = ''0009_phase9_release''"
  using assms
  by (auto simp: build_deployment_evidence_report_def Let_def deployment_body_def sample_deployment_def sample_analytics_def
      some_hash_def)

lemma sample_candidate_valid:
  assumes ledger: "valid_paper_ledger ledger" "pal_configuration_hash ledger = some_hash" "pal_ledger_hash ledger = some_hash"
    and report: "build_deployment_evidence_report sample_analytics (sample_deployment ledger) = Inr report"
  shows "valid_candidate_request (sample_candidate ledger report)"
proof -
  let ?r = "sample_candidate ledger report"
  note d = deployment_fields [OF report]
  have dict: "same_dict (der_evidence_hashes report) (expected_deployment_hashes ?r)"
    using d ledger(3)
    by (simp add: same_dict_def dict_of_def deployment_hashes_sorted expected_deployment_hashes_def sample_candidate_def
        sample_build_def sample_freeze_def sample_deployment_def)
  have "list_all (\<lambda>c. \<not> fst c) (map (\<lambda>(name, expected). (artifact_hash sample_manifest name \<noteq> Some expected,
      ''evidence manifest hash mismatch for '' @ name)) (expected_artifact_hashes ?r))"
    using sample_artifact_hashes [of ledger report] by (auto simp: list_all_iff)
  then have coherent: "evidence_coherent ?r = None"
    using d ledger dict
    by (simp add: evidence_coherent_def Let_def first_error_None)
      (simp add: sample_candidate_def sample_build_def sample_freeze_def default_candidate_policy_def sample_manifest_def
        sample_approval_def)
  have fields: "pcq_policy ?r = default_candidate_policy" "pcq_evidence_manifest ?r = sample_manifest"
    "pcq_build_attestation ?r = sample_build" "pcq_configuration_freeze ?r = sample_freeze" "pcq_paper_ledger ?r = ledger"
    "pcq_deployment_evidence ?r = report" "pcq_findings ?r = []"
    "pcq_approvals ?r = map sample_approval [AR_ENGINEERING, AR_INDEPENDENT_REVIEW, AR_OPERATIONS, AR_RISK, AR_SECURITY]"
    by (simp_all add: sample_candidate_def)
  have rollback: "valid_hash (rbk_rollback_plan_sha256 (pcq_rollback_evidence ?r))" "valid_hash (rbk_evidence_hash (pcq_rollback_evidence ?r))"
    by (simp_all add: sample_candidate_def)
  have approvals: "valid_approval (sample_approval role)" for role using sample_parts_valid(5) [of "[role]"] by simp
  have none: "findings_sorted_unique [] = None" by (simp add: findings_sorted_unique_def sorted_by_def)
  show ?thesis
    unfolding valid_candidate_request_def fields sample_approvals_sorted none coherent
    using d ledger(1) sample_parts_valid(1-4) rollback by (simp add: approvals)
qed

lemma sample_candidate_review:
  assumes ledger: "valid_paper_ledger ledger" "pal_configuration_hash ledger = some_hash" "pal_ledger_hash ledger = some_hash"
    "pal_ledger_id ledger = ''PL-'' @ take 20 some_hash" "pal_paper_ready ledger"
    and report: "build_deployment_evidence_report sample_analytics (sample_deployment ledger) = Inr report"
    "der_paper_deployment_ready report"
  shows "hashes_hold sample_release sample_analytics (sample_candidate ledger report)"
    "build_verified (sample_candidate ledger report)" "rollback_verified (pcq_rollback_evidence (sample_candidate ledger report))"
    "pcq_independent_review_complete (sample_candidate ledger report)" "open_count (sample_candidate ledger report) v = 0"
    "0 \<le> pcp_maximum_open_medium_findings (pcq_policy (sample_candidate ledger report))"
    "\<forall>role \<in> set (pcp_required_approval_roles (pcq_policy (sample_candidate ledger report))).
       \<exists>a \<in> set (pcq_approvals (sample_candidate ledger report)). apv_role a = role \<and> apv_approved a"
    "\<forall>a \<in> set (pcq_approvals (sample_candidate ledger report)). apv_approved a"
  using ledger report(2) deployment_fields [OF report(1)]
  by (simp_all add: hashes_hold_def sample_candidate_def sample_manifest_def sample_build_def sample_freeze_def
      sample_release_def paper_ledger_body_def deployment_report_body_def sample_analytics_def some_hash_def build_verified_def
      rollback_verified_def open_count_def default_candidate_policy_def sample_approval_def)

text \<open>The sample ledger with its deployment evidence and the report of the review.\<close>

lemma sample_chain:
  obtains ledger deployment where "build_paper_acceptance_ledger sample_analytics sample_acceptance = Inr ledger"
    "pal_paper_ready ledger" "pal_ledger_id ledger = ''PL-'' @ take 20 some_hash" "valid_paper_ledger ledger"
    "pal_configuration_hash ledger = some_hash" "pal_ledger_hash ledger = some_hash"
    "build_deployment_evidence_report sample_analytics (sample_deployment ledger) = Inr deployment"
    "der_paper_deployment_ready deployment"
proof -
  obtain ledger where l: "build_paper_acceptance_ledger sample_analytics sample_acceptance = Inr ledger" "pal_paper_ready ledger"
    using sample_ledger by blast
  note d = sample_deployment_valid [OF l(1)]
  have v: "valid_paper_ledger ledger" "pal_ledger_id ledger = ''PL-'' @ take 20 (pal_ledger_hash ledger)"
    by (rule build_ledger_Inr [OF l(1)], assumption)+
  have "deployment_blockers sample_analytics (sample_deployment ledger) = []"
    using l(2) d by (simp add: deployment_blockers_Nil paper_ledger_body_def sample_analytics_def)
      (simp add: sample_deployment_def some_hash_def)
  then obtain deployment where "build_deployment_evidence_report sample_analytics (sample_deployment ledger) = Inr deployment"
    "der_paper_deployment_ready deployment"
    using deployment_report_built d by blast
  moreover have "pal_ledger_id ledger = ''PL-'' @ take 20 some_hash" "pal_configuration_hash ledger = some_hash"
    "pal_ledger_hash ledger = some_hash"
    using v(2) d by simp_all
  ultimately show ?thesis using that l v(1) by blast
qed

theorem release_candidate_exact_witness:
  "\<exists>request report. valid_candidate_request request \<and>
     review_production_candidate sample_release sample_analytics request = Inr report \<and> pcr_paper_release_candidate report"
proof -
  obtain ledger deployment where c: "pal_paper_ready ledger" "pal_ledger_id ledger = ''PL-'' @ take 20 some_hash"
    "valid_paper_ledger ledger" "pal_configuration_hash ledger = some_hash" "pal_ledger_hash ledger = some_hash"
    "build_deployment_evidence_report sample_analytics (sample_deployment ledger) = Inr deployment"
    "der_paper_deployment_ready deployment"
    by (rule sample_chain)
  let ?r = "sample_candidate ledger deployment"
  have valid: "valid_candidate_request ?r" by (rule sample_candidate_valid [OF c(3-6)])
  note checks = sample_candidate_review [OF c(3-5,2,1,6,7)]
  have "pcq_paper_ledger ?r = ledger" "pcq_deployment_evidence ?r = deployment" by (simp_all add: sample_candidate_def)
  then show ?thesis
    using valid release_candidate_exact [OF valid, of sample_release sample_analytics] checks c(1,7) by auto
qed


end
