(* ===== verification/Spec2Isabelle.thy ===== *)
theory Spec2Isabelle
  imports Contract_Witnesses Store_Witnesses Execution_Witnesses Session_Witnesses Pipeline_Witnesses Release_Witnesses
begin

text \<open>
  A verification development for Project Daybreak, a paper-only trading platform in Python
  (the packages \<open>daybreak_*\<close> under \<open>src/\<close>). A day of the program runs through these parts, and a
  part is a group of theories here:

  \<^item> Recorded market data become features. \<open>daybreak_features\<close>: \<open>Feature_Models\<close> (\<open>models.py\<close>,
    \<open>errors.py\<close>), \<open>Feature_Core\<close> (\<open>ledger.py\<close>, \<open>core_features.py\<close>, \<open>joins.py\<close>),
    \<open>Feature_Resistance\<close> (\<open>resistance.py\<close>), \<open>Feature_Engine\<close> (\<open>prequalification.py\<close>,
    \<open>engine.py\<close>, \<open>persistence.py\<close>, \<open>replay.py\<close>). The result is a snapshot whose payload is the
    input of the evaluator. Shown: the ledger keeps exactly the trades that no correction takes
    back (\<open>Feature_Ledger\<close>), every candidate is accounted for, what reaches the evaluator passes
    its gates, the order of the candidates is irrelevant (\<open>Feature_Properties\<close>), a valid context
    always gives a payload the contract accepts (\<open>Feature_Types\<close>), bounds of the averages
    (\<open>Feature_Bounds\<close>), clusters and the nearest resistance (\<open>Feature_Clusters\<close>).
  \<^item> A language model scores the payload. \<open>daybreak_evaluator\<close>: \<open>Evaluator_Models\<close> (\<open>models.py\<close>,
    \<open>persistence.py\<close>), \<open>Evaluator\<close> (\<open>comparison.py\<close>, \<open>prompt.py\<close>, \<open>service.py\<close>), with
    \<open>Json_Text\<close> for \<open>json.loads\<close>. Shown: an authorised output is backed by a timely answer that
    passed the validation, the shadow model has no power, the comparison is
    exact (\<open>Evaluator_Properties\<close>, from the lemmas of \<open>Evaluator_Results\<close>), and what can make an
    evaluation raise (\<open>Evaluator_Errors\<close>). \<open>Pipeline\<close> composes the feature engine, the evaluator
    and the contract: an approved setup comes from a candidate that passed every gate.
  \<^item> Its answer is checked against the contract. \<open>daybreak_contracts\<close>: \<open>Contract_Models\<close>
    (\<open>enums.py\<close>, \<open>types.py\<close>, \<open>input_models.py\<close>, \<open>output_models.py\<close>), \<open>Replay\<close>
    (\<open>logic/replay.py\<close>: what the output must say), \<open>Validation_Models\<close>, \<open>Invariants_A\<close>,
    \<open>Invariants_B\<close> (\<open>validation/invariants.py\<close>, one definition per check, 77 of them) and
    \<open>Validation\<close> (\<open>validation/runner.py\<close>). Shown: what a valid report means for the approved
    setups, the partition of the tickers, the ranking and the run status.
  \<^item> Approved setups are sized. \<open>daybreak_risk\<close>: \<open>Risk_Models\<close>, \<open>Risk_Engine\<close> (\<open>engine.py\<close>),
    \<open>Risk_Store\<close> (\<open>persistence.py\<close>, \<open>service.py\<close>, \<open>replay.py\<close>). Shown: an approved position
    respects every limit of the policy in exact arithmetic (\<open>Risk_Limits\<close>, over the shape lemmas
    of \<open>Risk_Properties\<close>), a batch stays within them (\<open>Risk_Batch\<close>), and the store is append only.
  \<^item> Sized setups are ordered. \<open>daybreak_execution\<close>: \<open>Execution_Models\<close> (\<open>enums.py\<close>,
    \<open>models.py\<close>, \<open>order_builder.py\<close>), \<open>Execution_Store\<close> (\<open>persistence.py\<close>), \<open>Execution_Service\<close>
    (\<open>service.py\<close>, \<open>reconciliation.py\<close>). Shown over any history of calls: every order is
    persisted before it is sent, none is sent twice, each has an admissible origin
    (\<open>Execution_Safety\<close>, \<open>Execution_Properties\<close>); what the results mean (\<open>Execution_Results\<close>),
    that submissions and protective stops succeed when the broker cooperates
    (\<open>Execution_Liveness\<close>) and what can be raised (\<open>Execution_Errors\<close>).
  \<^item> A session drives the day and closes every position at its end. \<open>daybreak_orchestration\<close>:
    \<open>Orchestration_Models\<close> (\<open>enums.py\<close>, \<open>models.py\<close>, \<open>kill_switch.py\<close>), \<open>Orchestration_Store\<close>
    (\<open>persistence.py\<close>, \<open>alerts.py\<close>), \<open>Leadership\<close> (\<open>leadership.py\<close>), \<open>Flatten\<close> (\<open>flatten.py\<close>),
    \<open>Orchestrator\<close> (\<open>service.py\<close>). Shown: leases are exclusive, a flatten never oversells and
    reports completion only when flat (\<open>Flatten_Properties\<close>), the outcome of a session is backed
    (\<open>Orchestrator_Results\<close>), a killed session stays quiet (\<open>Orchestrator_Outcomes\<close>), and a
    session ends (\<open>Orchestrator_Progress\<close>); \<open>Orchestrator_Safety\<close> has the step relations.
  \<^item> Finished sessions are analysed and qualified. \<open>daybreak_analytics\<close>: \<open>Analytics_Models\<close>
    (\<open>enums.py\<close>, \<open>models.py\<close>), \<open>Analytics\<close> (\<open>analytics.py\<close>, \<open>replay.py\<close>, \<open>acceptance.py\<close>,
    \<open>persistence.py\<close>). Shown: the reported profit and drawdown are exact and the attribution loses
    no trade (\<open>Analytics_Properties\<close>, over the rounding lemmas of \<open>Analytics_Results\<close>); when the
    replay report, the ledger of paper acceptance and the deployment report are positive and when
    they cannot be built (\<open>Acceptance_Properties\<close>).
  \<^item> A release is reviewed on that evidence. \<open>daybreak_release\<close>: \<open>Release_Models\<close> (\<open>enums.py\<close>,
    \<open>models.py\<close>), \<open>Release\<close> (\<open>evidence.py\<close>, \<open>freeze.py\<close>, \<open>review.py\<close>, \<open>persistence.py\<close>). Shown:
    exactly when a review ends in a release candidate, and that a candidate rests on clean,
    replayed sessions of the ledger it names (\<open>Release_Properties\<close>).

  The library under them: \<open>Prelude\<close> (dictionaries, texts, lists), \<open>Decimal_Context\<close> (rounded
  arithmetic), \<open>Canonical\<close> (canonical JSON and SHA-256 on 32-bit words; \<open>canonical.py\<close>),
  \<open>Effects\<close> (stateful computations that may raise, their weakest preconditions, and the locale
  \<open>step_relation\<close> of what steps may do to the state) and \<open>Store\<close> (the locales
  \<open>append_only_store\<close>, \<open>first_write_store\<close> and \<open>contiguous_log\<close>, interpreted on the repositories). The theories named
  \<open>*_Witnesses\<close> and \<open>*_Sample\<close> apply the properties to concrete data.

  How the code is represented. Classes of pydantic are records with prefixed fields, with their
  constraints and validators as functions to a truth value or to the message of the error. A
  \<open>Decimal\<close> is a rational number, and each operation of the code rounds to 28 significant digits
  half to even, as the default context does; a \<open>float\<close> is a rational number, with the rounding to
  binary64 written out where the code converts a decimal to a float or computes
  \<open>total_seconds\<close>. A \<open>datetime\<close> is an integer of microseconds of UTC. Python's integers are
  unbounded. A dictionary is an association list in the order of insertion. A method is a function
  from the state to a result or exception and the state, and the effects before an exception stay.
  Exceptions are a class and a text where the code looks at them.

  What is a parameter: pydantic's dump of a model, its parser of JSON and the texts of its errors,
  the time zone of New York, the broker behind the adapter, the provider behind the transport, the
  hooks and the health probe of a session, the clock, the sleep, the source of identifiers, the
  files (the specification, the artifacts of a release), the settings. A property that relies on such a parameter says so as a hypothesis
  (a truthful broker, a clock that goes forward, fresh identifiers) and has a witness with a
  concrete one. Records of what was called (\<open>oo_calls\<close>, \<open>fs_calls\<close>, \<open>ev_calls\<close>) are added to the
  states for the statements; no operation reads them.

  Loops over time (the waits of a session and the polls of a flatten) carry a fuel, and running
  out of it is the exception \<open>OutOfFuel\<close>, which no handler catches; \<open>session_terminates\<close> shows
  that it never occurs when time passes and the fuel outlasts the deadlines. All other loops are
  structural recursions or have a measure.

  Not modelled: the PostgreSQL repositories (SQL text for a server; the in-memory repositories of
  the same interface are modelled), the Alpaca and OpenAI clients, the recorder (network adapters
  and files), the command line, the legacy core, the scanner and operations tools, and the pruning of the JSON schema for the provider.
\<close>

end
